(* ===== verification/Gesta_Prelude.thy ===== *)
theory Gesta_Prelude
  imports Main "HOL-Library.Char_ord" "HOL-Library.List_Lexorder" "HOL-Library.Word"
begin

text \<open>
  Shared vocabulary of the development: results with an error branch, the wrap-around of
  Go's 64-bit integers written out on \<^typ>\<open>int\<close>, and generic facts on lists, maps and
  options that several components use. Go strings and byte slices are both HOL strings
  (lists of bytes), ordered byte by byte.
\<close>

section \<open>Collections of rules\<close>

named_theorems result_simps \<open>evaluation of results with an error branch\<close>
named_theorems go_strings \<open>facts on the string library\<close>
named_theorems bucket_simps \<open>reads of key-value buckets after an update\<close>

section \<open>Results: an error or a value\<close>

text \<open>
  \<open>rbind\<close> is the idiom \<open>v, err := f(); if err != nil { return err }\<close>: it goes on
  with the value and hands an error through unchanged.
\<close>

definition rbind :: "'e + 'a \<Rightarrow> ('a \<Rightarrow> 'e + 'b) \<Rightarrow> 'e + 'b" where
  "rbind r f = (case r of Inl e \<Rightarrow> Inl e | Inr x \<Rightarrow> f x)"

lemma rbind_Inl [simp, result_simps]: "rbind (Inl e) f = Inl e"
  by (simp add: rbind_def)

lemma rbind_Inr [simp, result_simps]: "rbind (Inr x) f = f x"
  by (simp add: rbind_def)

lemma rbind_eq_Inr_iff: "rbind r f = Inr y \<longleftrightarrow> (\<exists>x. r = Inr x \<and> f x = Inr y)"
  by (cases r) auto

lemma rbind_InrE [elim!]:
  assumes "rbind r f = Inr y"
  obtains x where "r = Inr x" and "f x = Inr y"
  using assms by (auto simp: rbind_eq_Inr_iff)

lemma rbind_cong [fundef_cong]:
  "r = r' \<Longrightarrow> (\<And>x. r' = Inr x \<Longrightarrow> f x = g x) \<Longrightarrow> rbind r f = rbind r' g"
  by (cases r') auto

section \<open>64-bit signed integers\<close>

text \<open>
  An \<open>int64\<close> (and \<open>int\<close> on the 64-bit targets the agent ships for) is an \<^typ>\<open>int\<close>
  in the range of two's complement; \<open>wrap64\<close> is what an arithmetic result becomes.
\<close>

definition wrap64 :: "int \<Rightarrow> int" where
  "wrap64 x = (x + 2 ^ 63) mod 2 ^ 64 - 2 ^ 63"

definition in_int64 :: "int \<Rightarrow> bool" where
  "in_int64 x \<longleftrightarrow> - (2 ^ 63) \<le> x \<and> x < 2 ^ 63"

lemma wrap64_id: "in_int64 x \<Longrightarrow> wrap64 x = x"
  by (simp add: wrap64_def in_int64_def)

lemma in_int64_wrap64: "in_int64 (wrap64 x)"
proof -
  have "0 \<le> (x + 2 ^ 63) mod 2 ^ 64" and "(x + 2 ^ 63) mod 2 ^ 64 < (2::int) ^ 64"
    by simp_all
  then show ?thesis by (simp add: wrap64_def in_int64_def)
qed

lemma in_int64_nonneg: "0 \<le> x \<Longrightarrow> x < 2 ^ 63 \<Longrightarrow> in_int64 x"
  by (simp add: in_int64_def)

definition add64 :: "int \<Rightarrow> int \<Rightarrow> int" where
  "add64 a b = wrap64 (a + b)"

definition sub64 :: "int \<Rightarrow> int \<Rightarrow> int" where
  "sub64 a b = wrap64 (a - b)"

lemma add64_exact: "in_int64 (a + b) \<Longrightarrow> add64 a b = a + b"
  by (simp add: add64_def wrap64_id)

lemma sub64_exact: "in_int64 (a - b) \<Longrightarrow> sub64 a b = a - b"
  by (simp add: sub64_def wrap64_id)

lemma sub64_nonneg_exact:
  "0 \<le> a \<Longrightarrow> a < 2 ^ 63 \<Longrightarrow> 0 \<le> b \<Longrightarrow> b < 2 ^ 63 \<Longrightarrow> sub64 a b = a - b"
  by (rule sub64_exact) (simp add: in_int64_def)

lemma wrap64_le: "0 \<le> x \<Longrightarrow> wrap64 x \<le> x"
  unfolding wrap64_def using zmod_le_nonneg_dividend [of "x + 2 ^ 63" "2 ^ 64"] by simp

section \<open>Lists, options and maps\<close>

definition first_some :: "('a \<Rightarrow> 'b option) \<Rightarrow> 'a list \<Rightarrow> 'b option" where
  "first_some f xs = (case List.map_filter f xs of [] \<Rightarrow> None | y # _ \<Rightarrow> Some y)"

lemma first_some_simps [simp]:
  "first_some f [] = None"
  "first_some f (x # xs) = (case f x of None \<Rightarrow> first_some f xs | Some y \<Rightarrow> Some y)"
  by (auto simp: first_some_def List.map_filter_def split: option.splits)

lemma first_some_SomeD: "first_some f xs = Some y \<Longrightarrow> \<exists>x \<in> set xs. f x = Some y"
  by (induction xs) (auto split: option.splits)

lemma sum_fun_upd_new:
  fixes g :: "'k \<Rightarrow> 'v \<Rightarrow> int"
  assumes "finite (dom m)" and "m k = None"
  shows "(\<Sum>x\<in>dom (m(k \<mapsto> v)). g x (the ((m(k \<mapsto> v)) x))) = (\<Sum>x\<in>dom m. g x (the (m x))) + g k v"
proof -
  have k: "k \<notin> dom m" using assms(2) by auto
  have "(\<Sum>x\<in>dom m. g x (the ((m(k \<mapsto> v)) x))) = (\<Sum>x\<in>dom m. g x (the (m x)))"
    by (rule sum.cong) (use k in auto)
  with assms k show ?thesis by simp
qed

lemma sum_fun_upd_None:
  fixes g :: "'k \<Rightarrow> 'v \<Rightarrow> int"
  assumes "finite (dom m)" and "m k = Some v"
  shows "(\<Sum>x\<in>dom (m(k := None)). g x (the ((m(k := None)) x))) = (\<Sum>x\<in>dom m. g x (the (m x))) - g k v"
proof -
  have "(\<Sum>x\<in>dom m - {k}. g x (the ((m(k := None)) x))) = (\<Sum>x\<in>dom m - {k}. g x (the (m x)))"
    by (rule sum.cong) auto
  moreover have "(\<Sum>x\<in>dom m. g x (the (m x))) = g k v + (\<Sum>x\<in>dom m - {k}. g x (the (m x)))"
    using assms by (subst sum.remove [of _ k]) auto
  ultimately show ?thesis by simp
qed

lemma map_of_None_iff: "map_of xs k = None \<longleftrightarrow> k \<notin> fst ` set xs"
  by (induction xs) auto

lemma sorted_wrt_less_hd:
  fixes x :: "'a::linorder"
  assumes "sorted_wrt (<) (x # xs)" and "y \<in> set (x # xs)"
  shows "x \<le> y"
  using assms by auto

end
