(* ===== verification/Go_Strings.thy ===== *)
theory Go_Strings
  imports Gesta_Prelude
begin

text \<open>
  The part of Go's \<open>strings\<close>, \<open>bytes\<close> and \<open>unicode/utf8\<close> packages that the agent
  uses, on byte strings. White space is the Unicode property \<open>White_Space\<close> in its UTF-8
  encodings. The Unicode case table is the argument \<open>ulow\<close> of \<open>to_lower\<close>.
\<close>

section \<open>Prefixes, suffixes, search\<close>

definition has_prefix :: "string \<Rightarrow> string \<Rightarrow> bool" where
  "has_prefix s p \<longleftrightarrow> take (length p) s = p"

definition has_suffix :: "string \<Rightarrow> string \<Rightarrow> bool" where
  "has_suffix s p \<longleftrightarrow> length p \<le> length s \<and> drop (length s - length p) s = p"

definition trim_prefix :: "string \<Rightarrow> string \<Rightarrow> string" where
  "trim_prefix s p = (if has_prefix s p then drop (length p) s else s)"

definition trim_suffix :: "string \<Rightarrow> string \<Rightarrow> string" where
  "trim_suffix s p = (if has_suffix s p then take (length s - length p) s else s)"

fun index_of :: "string \<Rightarrow> string \<Rightarrow> nat option" where
  "index_of [] p = (if p = [] then Some 0 else None)"
| "index_of (c # s) p =
     (if has_prefix (c # s) p then Some 0 else map_option Suc (index_of s p))"

definition contains :: "string \<Rightarrow> string \<Rightarrow> bool" where
  "contains s p \<longleftrightarrow> index_of s p \<noteq> None"

fun last_index_of :: "string \<Rightarrow> string \<Rightarrow> nat option" where
  "last_index_of [] p = (if p = [] then Some 0 else None)"
| "last_index_of (c # s) p =
     (case last_index_of s p of
        Some i \<Rightarrow> Some (Suc i)
      | None \<Rightarrow> if has_prefix (c # s) p then Some 0 else None)"

definition contains_any :: "string \<Rightarrow> string \<Rightarrow> bool" where
  "contains_any s chars \<longleftrightarrow> list_ex (\<lambda>c. c \<in> set chars) s"

lemma has_prefix_Nil [simp]: "has_prefix s []"
  by (simp add: has_prefix_def)

lemma has_prefix_length: "has_prefix s p \<Longrightarrow> length p \<le> length s"
  by (metis has_prefix_def length_take min.cobounded1)

lemma has_prefix_iff: "has_prefix s p \<longleftrightarrow> (\<exists>r. s = p @ r)"
  by (metis append_eq_conv_conj has_prefix_def append_take_drop_id)

lemma has_suffix_iff: "has_suffix s p \<longleftrightarrow> (\<exists>r. s = r @ p)"
proof
  assume "has_suffix s p"
  then have "s = take (length s - length p) s @ p"
    by (metis has_suffix_def append_take_drop_id)
  then show "\<exists>r. s = r @ p" ..
next
  assume "\<exists>r. s = r @ p"
  then show "has_suffix s p" by (auto simp: has_suffix_def)
qed

lemma has_prefix_take: "has_prefix (take n s) p \<Longrightarrow> has_prefix s p"
  unfolding has_prefix_iff by (metis append.assoc append_take_drop_id)

lemma index_of_SomeD: "index_of s p = Some i \<Longrightarrow> i + length p \<le> length s \<and> take (length p) (drop i s) = p"
proof (induction s arbitrary: i)
  case Nil
  then show ?case by (simp split: if_splits)
next
  case (Cons c s)
  then show ?case
    by (auto simp: has_prefix_def dest: has_prefix_length [unfolded has_prefix_def] split: if_splits)
qed

lemma index_of_NoneD: "index_of s p = None \<Longrightarrow> take (length p) (drop i s) \<noteq> p \<or> length s < i + length p"
proof (induction s arbitrary: i)
  case Nil
  then show ?case by (auto split: if_splits)
next
  case (Cons c s)
  show ?case
  proof (cases i)
    case 0
    with Cons.prems show ?thesis by (auto simp: has_prefix_def split: if_splits)
  next
    case (Suc j)
    with Cons.prems Cons.IH [of j] show ?thesis by (auto split: if_splits)
  qed
qed

lemma index_of_least:
  "index_of s p = Some i \<Longrightarrow> j < i \<Longrightarrow> take (length p) (drop j s) \<noteq> p"
proof (induction s arbitrary: i j)
  case Nil
  then show ?case by (simp split: if_splits)
next
  case (Cons c s)
  then show ?case by (cases j) (auto simp: has_prefix_def split: if_splits)
qed

section \<open>Splitting and joining\<close>

fun join :: "string list \<Rightarrow> string \<Rightarrow> string" where
  "join [] sep = []"
| "join [x] sep = x"
| "join (x # y # xs) sep = x @ sep @ join (y # xs) sep"

text \<open>
  \<open>strings.Split\<close> with a non-empty separator: cut at the leftmost occurrence, again
  and again. The fuel is one more than the number of bytes, and every cut uses one byte.
\<close>

fun split_fuel :: "nat \<Rightarrow> string \<Rightarrow> string \<Rightarrow> string list" where
  "split_fuel 0 s sep = [s]"
| "split_fuel (Suc n) s sep =
     (case index_of s sep of
        None \<Rightarrow> [s]
      | Some i \<Rightarrow> take i s # split_fuel n (drop (i + length sep) s) sep)"

definition split :: "string \<Rightarrow> string \<Rightarrow> string list" where
  "split s sep = split_fuel (Suc (length s)) s sep"

definition split_n2 :: "string \<Rightarrow> string \<Rightarrow> string list" where
  "split_n2 s sep =
     (case index_of s sep of None \<Rightarrow> [s] | Some i \<Rightarrow> [take i s, drop (i + length sep) s])"

definition replace_all :: "string \<Rightarrow> string \<Rightarrow> string \<Rightarrow> string" where
  "replace_all s old new = join (split s old) new"

definition count_sub :: "string \<Rightarrow> string \<Rightarrow> nat" where
  "count_sub s p = length (split s p) - 1"

lemma split_fuel_nonempty: "split_fuel n s sep \<noteq> []"
  by (cases n) (auto split: option.splits)

lemma join_Cons: "xs \<noteq> [] \<Longrightarrow> join (x # xs) sep = x @ sep @ join xs sep"
  by (cases xs) auto

lemma join_split_fuel: "join (split_fuel n s sep) sep = s"
proof (induction n arbitrary: s)
  case 0
  then show ?case by simp
next
  case (Suc n)
  show ?case
  proof (cases "index_of s sep")
    case None
    then show ?thesis by simp
  next
    case (Some i)
    from index_of_SomeD [OF Some] have "take i s @ sep @ drop (i + length sep) s = s"
      by (metis add.commute append_take_drop_id drop_drop)
    with Some Suc show ?thesis by (simp add: join_Cons split_fuel_nonempty)
  qed
qed

lemma join_split [go_strings]: "join (split s sep) sep = s"
  unfolding split_def by (rule join_split_fuel)

lemma length_join_split_ge: "x \<in> set (split_fuel n s sep) \<Longrightarrow> length x \<le> length s"
proof (induction n arbitrary: s)
  case 0
  then show ?case by simp
next
  case (Suc n)
  then show ?case
    by (fastforce split: option.splits dest: index_of_SomeD)
qed

lemma index_of_char_None_iff: "index_of s [c] = None \<longleftrightarrow> c \<notin> set s"
  by (induction s) (auto simp: has_prefix_def)

lemma index_of_char_Some: "index_of s [c] = Some i \<Longrightarrow> c \<notin> set (take i s) \<and> s = take i s @ c # drop (Suc i) s"
proof (induction s arbitrary: i)
  case (Cons x s)
  then show ?case by (cases i) (auto simp: has_prefix_def split: if_splits)
qed simp

lemma map_replace_none: "a \<notin> set s \<Longrightarrow> map (\<lambda>c. if c = a then b else c) s = s"
  by (induction s) auto

lemma join_split_fuel_char:
  "length s < n \<Longrightarrow> join (split_fuel n s [a]) [b] = map (\<lambda>c. if c = a then b else c) s"
proof (induction n arbitrary: s)
  case (Suc n)
  show ?case
  proof (cases "index_of s [a]")
    case None
    then have "a \<notin> set s" by (simp add: index_of_char_None_iff)
    with None show ?thesis by (simp add: map_replace_none)
  next
    case (Some i)
    note i = index_of_char_Some [OF Some]
    have "Suc i \<le> length s" using index_of_SomeD [OF Some] by simp
    then have "length (drop (Suc i) s) < n" using Suc.prems by simp
    then have ih: "join (split_fuel n (drop (Suc i) s) [a]) [b] = map (\<lambda>c. if c = a then b else c) (drop (Suc i) s)"
      by (rule Suc.IH)
    have "map (\<lambda>c. if c = a then b else c) s
        = map (\<lambda>c. if c = a then b else c) (take i s) @ b # map (\<lambda>c. if c = a then b else c) (drop (Suc i) s)"
      by (subst i [THEN conjunct2]) simp
    with Some ih show ?thesis
      by (simp add: join_Cons split_fuel_nonempty map_replace_none [OF i [THEN conjunct1]])
  qed
qed simp

lemma replace_all_char: "replace_all s [a] [b] = map (\<lambda>c. if c = a then b else c) s"
  by (simp add: replace_all_def split_def join_split_fuel_char del: split_fuel.simps)

section \<open>White space\<close>

definition space_runes :: "string list" where
  "space_runes =
     [[CHR 0x20], [CHR 0x09], [CHR 0x0A], [CHR 0x0B], [CHR 0x0C], [CHR 0x0D],
      [CHR 0xC2, CHR 0x85], [CHR 0xC2, CHR 0xA0], [CHR 0xE1, CHR 0x9A, CHR 0x80],
      [CHR 0xE2, CHR 0x80, CHR 0x80], [CHR 0xE2, CHR 0x80, CHR 0x81],
      [CHR 0xE2, CHR 0x80, CHR 0x82], [CHR 0xE2, CHR 0x80, CHR 0x83],
      [CHR 0xE2, CHR 0x80, CHR 0x84], [CHR 0xE2, CHR 0x80, CHR 0x85],
      [CHR 0xE2, CHR 0x80, CHR 0x86], [CHR 0xE2, CHR 0x80, CHR 0x87],
      [CHR 0xE2, CHR 0x80, CHR 0x88], [CHR 0xE2, CHR 0x80, CHR 0x89],
      [CHR 0xE2, CHR 0x80, CHR 0x8A], [CHR 0xE2, CHR 0x80, CHR 0xA8],
      [CHR 0xE2, CHR 0x80, CHR 0xA9], [CHR 0xE2, CHR 0x80, CHR 0xAF],
      [CHR 0xE2, CHR 0x81, CHR 0x9F], [CHR 0xE3, CHR 0x80, CHR 0x80]]"

text \<open>The width of the space rune a string begins (ends) with, 0 when it has none there.\<close>

definition space_width :: "string \<Rightarrow> nat" where
  "space_width s =
     (case find (has_prefix s) space_runes of None \<Rightarrow> 0 | Some p \<Rightarrow> length p)"

definition space_width_end :: "string \<Rightarrow> nat" where
  "space_width_end s =
     (case find (has_suffix s) space_runes of None \<Rightarrow> 0 | Some p \<Rightarrow> length p)"

lemma find_SomeD: "find P xs = Some x \<Longrightarrow> P x \<and> x \<in> set xs"
  by (induction xs) (auto split: if_splits)

lemma space_runes_nonempty: "p \<in> set space_runes \<Longrightarrow> p \<noteq> []"
  by (auto simp: space_runes_def)

lemma space_width_pos: "space_width s \<noteq> 0 \<Longrightarrow> s \<noteq> []"
  by (auto simp: space_width_def has_prefix_def split: option.splits dest!: find_SomeD)

lemma space_width_end_pos: "space_width_end s \<noteq> 0 \<Longrightarrow> s \<noteq> []"
  by (auto simp: space_width_end_def has_suffix_def split: option.splits dest!: find_SomeD)

function trim_left :: "string \<Rightarrow> string" where
  "trim_left s = (let n = space_width s in if n = 0 then s else trim_left (drop n s))"
  by pat_completeness auto
termination
  by (relation "measure length") (use space_width_pos in auto)

function trim_right :: "string \<Rightarrow> string" where
  "trim_right s =
     (let n = space_width_end s in if n = 0 then s else trim_right (take (length s - n) s))"
  by pat_completeness auto
termination
  by (relation "measure length") (use space_width_end_pos in auto)

declare trim_left.simps [simp del] trim_right.simps [simp del]

definition trim_space :: "string \<Rightarrow> string" where
  "trim_space s = trim_right (trim_left s)"

lemma space_width_Nil [simp]: "space_width [] = 0"
  using space_width_pos by blast

lemma space_width_end_Nil [simp]: "space_width_end [] = 0"
  using space_width_end_pos by blast

lemma trim_left_stops: "space_width s = 0 \<Longrightarrow> trim_left s = s"
  by (subst trim_left.simps) simp

lemma trim_right_stops: "space_width_end s = 0 \<Longrightarrow> trim_right s = s"
  by (subst trim_right.simps) simp

lemma trim_left_Nil [simp]: "trim_left [] = []"
  by (simp add: trim_left_stops)

lemma trim_right_Nil [simp]: "trim_right [] = []"
  by (simp add: trim_right_stops)

lemma trim_space_Nil [simp]: "trim_space [] = []"
  by (simp add: trim_space_def)

lemma space_width_trim_left: "space_width (trim_left s) = 0"
proof (induction s rule: trim_left.induct)
  case (1 s)
  then show ?case by (subst trim_left.simps) (auto simp: Let_def)
qed

lemma space_width_end_trim_right: "space_width_end (trim_right s) = 0"
proof (induction s rule: trim_right.induct)
  case (1 s)
  then show ?case by (subst trim_right.simps) (auto simp: Let_def)
qed

lemma trim_right_prefix: "\<exists>n. trim_right s = take n s"
proof (induction s rule: trim_right.induct)
  case (1 s)
  show ?case
  proof (cases "space_width_end s = 0")
    case True
    then show ?thesis by (metis trim_right_stops order_refl take_all)
  next
    case False
    with 1 obtain n where "trim_right (take (length s - space_width_end s) s)
        = take n (take (length s - space_width_end s) s)" by blast
    with False show ?thesis by (subst trim_right.simps) (auto simp: Let_def)
  qed
qed

lemma trim_left_suffix: "\<exists>n. trim_left s = drop n s"
proof (induction s rule: trim_left.induct)
  case (1 s)
  show ?case
  proof (cases "space_width s = 0")
    case True
    then show ?thesis by (metis trim_left_stops drop0)
  next
    case False
    with 1 obtain n where "trim_left (drop (space_width s) s) = drop n (drop (space_width s) s)"
      by blast
    with False show ?thesis by (subst trim_left.simps) (auto simp: Let_def)
  qed
qed

lemma space_width_take: "space_width s = 0 \<Longrightarrow> space_width (take n s) = 0"
proof (rule ccontr)
  assume s: "space_width s = 0" and t: "space_width (take n s) \<noteq> 0"
  from t obtain p where "find (has_prefix (take n s)) space_runes = Some p"
    by (auto simp: space_width_def split: option.splits)
  from find_SomeD [OF this] have p: "has_prefix s p" "p \<in> set space_runes"
    using has_prefix_take by blast+
  from p have "find (has_prefix s) space_runes \<noteq> None" by (auto simp: find_None_iff)
  then obtain q where q: "find (has_prefix s) space_runes = Some q" by blast
  from find_SomeD [OF q] have "q \<noteq> []" using space_runes_nonempty by blast
  with q s show False by (simp add: space_width_def)
qed

lemma trim_space_idem [simp, go_strings]: "trim_space (trim_space s) = trim_space s"
proof -
  obtain n where n: "trim_right (trim_left s) = take n (trim_left s)"
    using trim_right_prefix by blast
  have "space_width (trim_space s) = 0"
    unfolding trim_space_def n by (intro space_width_take space_width_trim_left)
  moreover have "space_width_end (trim_space s) = 0"
    by (simp add: trim_space_def space_width_end_trim_right)
  ultimately have "trim_left (trim_space s) = trim_space s" and "trim_right (trim_space s) = trim_space s"
    by (simp_all add: trim_left_stops trim_right_stops)
  then show ?thesis by (subst trim_space_def) simp
qed

lemma length_trim_space: "length (trim_space s) \<le> length s"
proof -
  obtain m n where "trim_space s = take n (drop m s)"
    unfolding trim_space_def using trim_left_suffix trim_right_prefix by metis
  then show ?thesis by simp
qed

text \<open>\<open>strings.Fields\<close>: the maximal runs without a space rune.\<close>

function fields_from :: "string \<Rightarrow> string \<Rightarrow> string list" where
  "fields_from cur s =
     (let n = space_width s in
      if n \<noteq> 0 then (if cur = [] then [] else [cur]) @ fields_from [] (drop n s)
      else case s of
             [] \<Rightarrow> (if cur = [] then [] else [cur])
           | c # t \<Rightarrow> fields_from (cur @ [c]) t)"
  by pat_completeness auto
termination
  by (relation "measure (\<lambda>(cur, s). length s)") (use space_width_pos in auto)

declare fields_from.simps [simp del]

definition fields :: "string \<Rightarrow> string list" where
  "fields s = fields_from [] s"

lemma fields_from_nonempty: "[] \<notin> set (fields_from cur s)"
proof (induction cur s rule: fields_from.induct)
  case (1 cur s)
  show ?case
  proof (cases "space_width s = 0")
    case True
    with "1.IH"(2) show ?thesis
      by (subst fields_from.simps) (auto simp: Let_def split: list.splits)
  next
    case False
    with "1.IH"(1) show ?thesis
      by (subst fields_from.simps) (auto simp: Let_def)
  qed
qed

lemma fields_nonempty [go_strings]: "x \<in> set (fields s) \<Longrightarrow> x \<noteq> []"
  unfolding fields_def using fields_from_nonempty by metis

text \<open>\<open>strings.Trim\<close>, \<open>strings.TrimRight\<close> with a cutset of ASCII bytes.\<close>

definition trim_set :: "string \<Rightarrow> string \<Rightarrow> string" where
  "trim_set s cutset = rev (dropWhile (\<lambda>c. c \<in> set cutset) (rev (dropWhile (\<lambda>c. c \<in> set cutset) s)))"

definition trim_right_set :: "string \<Rightarrow> string \<Rightarrow> string" where
  "trim_right_set s cutset = rev (dropWhile (\<lambda>c. c \<in> set cutset) (rev s))"

section \<open>Runes\<close>

definition byte :: "char \<Rightarrow> nat" where
  "byte c = of_char c"

definition cont :: "nat \<Rightarrow> nat \<Rightarrow> nat \<Rightarrow> bool" where
  "cont lo hi b \<longleftrightarrow> lo \<le> b \<and> b \<le> hi"

definition rune_error :: nat where
  "rune_error = 0xFFFD"

text \<open>
  \<open>utf8.DecodeRuneInString\<close>: the rune at the start and its width in bytes; an invalid
  encoding is the replacement rune of width 1.
\<close>

definition decode_rune :: "string \<Rightarrow> nat \<times> nat" where
  "decode_rune s =
     (let b = map byte (take 4 s) in
      case b of
        [] \<Rightarrow> (rune_error, 0)
      | b0 # r \<Rightarrow>
          if b0 < 0x80 then (b0, 1)
          else if 0xC2 \<le> b0 \<and> b0 \<le> 0xDF then
            (case r of b1 # _ \<Rightarrow>
               if cont 0x80 0xBF b1 then ((b0 - 0xC0) * 64 + (b1 - 0x80), 2) else (rune_error, 1)
             | _ \<Rightarrow> (rune_error, 1))
          else if 0xE0 \<le> b0 \<and> b0 \<le> 0xEF then
            (case r of b1 # b2 # _ \<Rightarrow>
               if cont (if b0 = 0xE0 then 0xA0 else 0x80) (if b0 = 0xED then 0x9F else 0xBF) b1
                  \<and> cont 0x80 0xBF b2
               then (((b0 - 0xE0) * 64 + (b1 - 0x80)) * 64 + (b2 - 0x80), 3) else (rune_error, 1)
             | _ \<Rightarrow> (rune_error, 1))
          else if 0xF0 \<le> b0 \<and> b0 \<le> 0xF4 then
            (case r of b1 # b2 # b3 # _ \<Rightarrow>
               if cont (if b0 = 0xF0 then 0x90 else 0x80) (if b0 = 0xF4 then 0x8F else 0xBF) b1
                  \<and> cont 0x80 0xBF b2 \<and> cont 0x80 0xBF b3
               then ((((b0 - 0xF0) * 64 + (b1 - 0x80)) * 64 + (b2 - 0x80)) * 64 + (b3 - 0x80), 4)
               else (rune_error, 1)
             | _ \<Rightarrow> (rune_error, 1))
          else (rune_error, 1))"

lemma decode_rune_width_pos: "s \<noteq> [] \<Longrightarrow> 0 < snd (decode_rune s)"
  by (cases s) (auto simp: decode_rune_def Let_def split: list.splits)

function runes :: "string \<Rightarrow> nat list" where
  "runes s = (if s = [] then [] else fst (decode_rune s) # runes (drop (snd (decode_rune s)) s))"
  by pat_completeness auto
termination
  by (relation "measure length") (use decode_rune_width_pos in auto)

declare runes.simps [simp del, code del]

lemma runes_code [code, simp]:
  "runes [] = []"
  "runes (c # s) = fst (decode_rune (c # s)) # runes (drop (snd (decode_rune (c # s))) (c # s))"
  by (simp_all add: runes.simps)

definition rune_count :: "string \<Rightarrow> nat" where
  "rune_count s = length (runes s)"

definition encode_rune :: "nat \<Rightarrow> string" where
  "encode_rune r0 =
     (let r = (if r0 > 0x10FFFF \<or> (0xD800 \<le> r0 \<and> r0 \<le> 0xDFFF) then rune_error else r0) in
      map char_of
       (if r < 0x80 then [r]
        else if r < 0x800 then [0xC0 + r div 64, 0x80 + r mod 64]
        else if r < 0x10000 then [0xE0 + r div 4096, 0x80 + (r div 64) mod 64, 0x80 + r mod 64]
        else [0xF0 + r div 262144, 0x80 + (r div 4096) mod 64, 0x80 + (r div 64) mod 64, 0x80 + r mod 64]))"

text \<open>No byte of the string decodes to the replacement rune by an invalid encoding.\<close>

function valid_utf8 :: "string \<Rightarrow> bool" where
  "valid_utf8 s \<longleftrightarrow>
     (if s = [] then True
      else decode_rune s \<noteq> (rune_error, 1) \<and> valid_utf8 (drop (snd (decode_rune s)) s))"
  by pat_completeness auto
termination
  by (relation "measure length") (use decode_rune_width_pos in auto)

declare valid_utf8.simps [simp del, code del]

lemma valid_utf8_code [code]:
  "valid_utf8 [] = True"
  "valid_utf8 (c # s) =
     (decode_rune (c # s) \<noteq> (rune_error, 1) \<and> valid_utf8 (drop (snd (decode_rune (c # s))) (c # s)))"
  by (simp_all add: valid_utf8.simps)

section \<open>Lower case\<close>

definition ascii_char :: "char \<Rightarrow> bool" where
  "ascii_char c \<longleftrightarrow> byte c < 0x80"

lemma decode_rune_ascii: "ascii_char c \<Longrightarrow> decode_rune (c # s) = (byte c, 1)"
  by (simp add: ascii_char_def decode_rune_def)

lemma valid_utf8_ascii: "list_all ascii_char s \<Longrightarrow> valid_utf8 s"
  by (induction s)
     (auto simp: valid_utf8_code decode_rune_ascii, simp add: ascii_char_def rune_error_def)

definition ascii_lower :: "char \<Rightarrow> char" where
  "ascii_lower c = (if 0x41 \<le> byte c \<and> byte c \<le> 0x5A then char_of (byte c + 0x20) else c)"

definition to_lower :: "(nat \<Rightarrow> nat) \<Rightarrow> string \<Rightarrow> string" where
  "to_lower ulow s =
     (if list_all ascii_char s then map ascii_lower s
      else concat (map (\<lambda>r. encode_rune (ulow r)) (runes s)))"

text \<open>
  \<open>strings.EqualFold\<close> against a text of ASCII letters: beside the other case of a letter, the
  only runes that fold to one are U+017F (to s) and U+212A (to k).
\<close>

definition fold_rune :: "nat \<Rightarrow> nat" where
  "fold_rune r = (if r = 0x17F then 0x73 else if r = 0x212A then 0x6B
                  else if 0x41 \<le> r \<and> r \<le> 0x5A then r + 0x20 else r)"

definition equal_fold :: "string \<Rightarrow> string \<Rightarrow> bool" where
  "equal_fold s ascii \<longleftrightarrow> map fold_rune (runes s) = map fold_rune (runes ascii)"

lemma to_lower_Nil [simp]: "to_lower ulow [] = []"
  by (simp add: to_lower_def)

lemma byte_char_of [simp]: "byte (char_of (n::nat)) = n mod 256"
  by (simp add: byte_def)

lemma ascii_lower_ascii: "ascii_char c \<Longrightarrow> ascii_char (ascii_lower c)"
  by (simp add: ascii_lower_def ascii_char_def)

lemma ascii_lower_idem: "ascii_lower (ascii_lower c) = ascii_lower c"
  by (simp add: ascii_lower_def)

lemma to_lower_idem_ascii [go_strings]:
  "list_all ascii_char s \<Longrightarrow> to_lower ulow (to_lower ulow s) = to_lower ulow s"
  by (simp add: to_lower_def list_all_iff ascii_lower_ascii ascii_lower_idem)

lemma length_to_lower_ascii: "list_all ascii_char s \<Longrightarrow> length (to_lower ulow s) = length s"
  by (simp add: to_lower_def)

section \<open>The first non-blank string\<close>

fun first_non_empty :: "string list \<Rightarrow> string" where
  "first_non_empty [] = []"
| "first_non_empty (v # vs) =
     (if trim_space v \<noteq> [] then trim_space v else first_non_empty vs)"

lemma first_non_empty_trimmed: "trim_space (first_non_empty vs) = first_non_empty vs"
  by (induction vs) auto

section \<open>Runes of a concatenation\<close>

text \<open>A rune never reaches over an ASCII byte, so counting runes splits there.\<close>

lemma not_cont_ascii: "b < 0x80 \<Longrightarrow> 0x80 \<le> lo \<Longrightarrow> \<not> cont lo hi b"
  by (simp add: cont_def)

lemma decode_rune_Cons:
  "decode_rune (c # t) =
     (let b0 = byte c; r = map byte (take 3 t) in
      if b0 < 0x80 then (b0, 1)
      else if b0 < 0xC2 \<or> 0xF4 < b0 then (rune_error, 1)
      else if b0 \<le> 0xDF then
        (case r of b1 # _ \<Rightarrow> if cont 0x80 0xBF b1 then ((b0 - 0xC0) * 64 + (b1 - 0x80), 2) else (rune_error, 1)
         | _ \<Rightarrow> (rune_error, 1))
      else if b0 \<le> 0xEF then
        (case r of b1 # b2 # _ \<Rightarrow>
           if cont (if b0 = 0xE0 then 0xA0 else 0x80) (if b0 = 0xED then 0x9F else 0xBF) b1 \<and> cont 0x80 0xBF b2
           then (((b0 - 0xE0) * 64 + (b1 - 0x80)) * 64 + (b2 - 0x80), 3) else (rune_error, 1)
         | _ \<Rightarrow> (rune_error, 1))
      else
        (case r of b1 # b2 # b3 # _ \<Rightarrow>
           if cont (if b0 = 0xF0 then 0x90 else 0x80) (if b0 = 0xF4 then 0x8F else 0xBF) b1
              \<and> cont 0x80 0xBF b2 \<and> cont 0x80 0xBF b3
           then ((((b0 - 0xF0) * 64 + (b1 - 0x80)) * 64 + (b2 - 0x80)) * 64 + (b3 - 0x80), 4)
           else (rune_error, 1)
         | _ \<Rightarrow> (rune_error, 1)))"
proof -
  have map4: "map byte (take 4 (c # t)) = byte c # map byte (take 3 t)" by simp
  show ?thesis
    unfolding decode_rune_def map4 Let_def list.case
    by (cases "byte c < 0x80"; cases "byte c < 0xC2"; cases "0xF4 < byte c"; cases "byte c \<le> 0xDF"; cases "byte c \<le> 0xEF")
       simp_all
qed

lemma decode_rune_append_ascii:
  assumes "byte d < 0x80"
  shows "decode_rune ((c # t) @ d # s) = decode_rune (c # t) \<and> snd (decode_rune (c # t)) \<le> length (c # t)"
proof -
  note nc = not_cont_ascii [OF assms]
  consider "t = []" | x where "t = [x]" | x y where "t = [x, y]" | x y z u where "t = x # y # z # u"
    by (metis list.exhaust)
  then show ?thesis
    by cases (simp_all add: decode_rune_Cons Let_def nc split: list.split)
qed

lemma rune_count_append_ascii:
  assumes "byte d < 0x80"
  shows "rune_count (a @ d # s) = rune_count a + rune_count (d # s)"
proof (induction a rule: length_induct)
  case (1 a)
  show ?case
  proof (cases a)
    case Nil
    then show ?thesis by (simp add: rune_count_def)
  next
    case (Cons c t)
    let ?w = "snd (decode_rune a)"
    note dec = decode_rune_append_ascii [OF assms, of c t s, folded Cons]
    have "0 < ?w" using Cons by (simp add: decode_rune_width_pos)
    then have "rune_count (drop ?w a @ d # s) = rune_count (drop ?w a) + rune_count (d # s)"
      using 1 Cons by simp
    moreover have "rune_count a = Suc (rune_count (drop ?w a))"
      using Cons by (simp add: rune_count_def)
    moreover have "rune_count (a @ d # s) = Suc (rune_count (drop ?w a @ d # s))"
    proof -
      have "rune_count (a @ d # s) = Suc (rune_count (drop (snd (decode_rune (a @ d # s))) (a @ d # s)))"
        using Cons by (simp add: rune_count_def)
      then show ?thesis using dec by simp
    qed
    ultimately show ?thesis by simp
  qed
qed

lemma rune_count_ascii_Cons: "byte d < 0x80 \<Longrightarrow> rune_count (d # s) = Suc (rune_count s)"
  by (simp add: rune_count_def decode_rune_ascii ascii_char_def)

section \<open>Words\<close>

text \<open>
  A byte that is ASCII and no white space: a string that begins and ends with such bytes has
  nothing to trim.
\<close>

definition word_char :: "char \<Rightarrow> bool" where
  "word_char c \<longleftrightarrow> ascii_char c \<and> c \<notin> set [CHR 0x20, CHR 0x09, CHR 0x0A, CHR 0x0B, CHR 0x0C, CHR 0x0D]"

lemma space_runes_no_word_char: "p \<in> set space_runes \<Longrightarrow> \<not> word_char (hd p) \<and> \<not> word_char (last p)"
  by (auto simp: space_runes_def word_char_def ascii_char_def byte_def)

lemma space_width_word_char:
  assumes "word_char c"
  shows "space_width (c # s) = 0"
proof (rule ccontr)
  assume "space_width (c # s) \<noteq> 0"
  then obtain p where p: "p \<in> set space_runes" "has_prefix (c # s) p"
    by (auto simp: space_width_def split: option.splits dest!: find_SomeD)
  from p(1) have "p \<noteq> []" by (rule space_runes_nonempty)
  with p(2) have "hd p = c" by (auto simp: has_prefix_def neq_Nil_conv)
  with space_runes_no_word_char [OF p(1)] assms show False by simp
qed

lemma trim_space_word:
  assumes "s \<noteq> []" and "word_char (hd s)" and "word_char (last s)"
  shows "trim_space s = s"
proof -
  obtain c t where s: "s = c # t" using assms(1) by (cases s) auto
  have "space_width s = 0" using assms(2) by (simp add: s space_width_word_char)
  moreover have "space_width_end s = 0"
  proof (rule ccontr)
    assume "space_width_end s \<noteq> 0"
    then obtain p where p: "p \<in> set space_runes" "has_suffix s p"
      by (auto simp: space_width_end_def split: option.splits dest!: find_SomeD)
    from p(1) have "p \<noteq> []" by (rule space_runes_nonempty)
    moreover from p(2) have "length s - length p < length s" "p = drop (length s - length p) s"
      using assms(1) \<open>p \<noteq> []\<close> by (auto simp: has_suffix_def)
    ultimately have "last p = last s" by (metis last_drop)
    with space_runes_no_word_char [OF p(1)] assms(3) show False by simp
  qed
  ultimately show ?thesis by (simp add: trim_space_def trim_left_stops trim_right_stops)
qed

end
