(* ===== verification/Go_Lib.thy ===== *)
theory Go_Lib
  imports Go_Strings
begin

text \<open>
  What the agent takes from outside its own sources, as one record of functions: the Unicode
  case table, the regular expression engine, SHA-256, RFC 3339 time, time zones and the
  JSON size of a message. Every definition that calls one of them takes the record as an
  argument; a theorem that needs a law of one of them names it as a hypothesis. The theory
  also holds the instants of \<open>time.Time\<close> and the values of \<open>interface{}\<close>.
\<close>

section \<open>Time\<close>

text \<open>An instant, in nanoseconds since the Unix epoch; \<open>zero_time\<close> is \<open>time.Time{}\<close>.\<close>

type_synonym time = int

definition zero_time :: time where
  "zero_time = - 62135596800000000000"

definition is_zero :: "time \<Rightarrow> bool" where
  "is_zero t \<longleftrightarrow> t = zero_time"

definition nanos_per_second :: int where
  "nanos_per_second = 1000000000"

definition nanos_per_minute :: int where
  "nanos_per_minute = 60 * nanos_per_second"

definition nanos_per_hour :: int where
  "nanos_per_hour = 60 * nanos_per_minute"

section \<open>Dynamically typed values\<close>

text \<open>
  The values an \<open>interface{}\<close> holds in the agent's payloads: the types a JSON decoder
  makes and the ones the agent stores itself. \<open>GFloat m e\<close> is the finite \<open>float64\<close>
  \<open>m * 2 ^ e\<close>; \<open>GNumber\<close> is a \<open>json.Number\<close>, the one type among them with a
  \<open>String\<close> method.
\<close>

datatype gval =
    GNil
  | GBool bool
  | GString string
  | GInt int
  | GInt64 int
  | GFloat int int
  | GNumber string
  | GStrings "string list"
  | GList "gval list"
  | GMap "(string \<times> gval) list"
  | GMaps "(string \<times> gval) list list"

type_synonym payload = "string \<Rightarrow> gval option"

section \<open>The library\<close>

text \<open>
  \<open>regexp_compile p\<close> is \<open>None\<close> when the pattern does not compile; otherwise it maps a
  text to the spans of all its matches, as \<open>FindAllStringIndex (s, -1)\<close> returns them, so a
  text matches when it has a span. \<open>message_json_size\<close> is the length of the JSON of a
  transcript message, \<open>sprint\<close> is \<open>fmt.Sprint\<close>, \<open>json_value\<close> is \<open>json.Marshal\<close> on a value, \<open>chunk_json\<close> the JSON of the identity of a transcript chunk.
\<close>

record go_lib =
  unicode_lower :: "nat \<Rightarrow> nat"
  regexp_compile :: "string \<Rightarrow> (string \<Rightarrow> (nat \<times> nat) list) option"
  sha256_hex :: "string \<Rightarrow> string"
  sprintf_q :: "string \<Rightarrow> string"
  parse_rfc3339 :: "string \<Rightarrow> time option"
  format_rfc3339 :: "time \<Rightarrow> string"
  parse_day :: "string \<Rightarrow> time option"
  format_day :: "time \<Rightarrow> string"
  load_location :: "string \<Rightarrow> (time \<Rightarrow> string) option"
  parse_duration :: "string \<Rightarrow> int option"
  message_json_size :: "(string \<times> gval) list \<Rightarrow> nat option"
  sprint :: "gval \<Rightarrow> string"
  json_value :: "gval \<Rightarrow> string option"
  chunk_json :: "string \<Rightarrow> int \<Rightarrow> (string \<times> gval) list list \<Rightarrow> string"

definition regexp_match :: "(string \<Rightarrow> (nat \<times> nat) list) \<Rightarrow> string \<Rightarrow> bool" where
  "regexp_match m s \<longleftrightarrow> m s \<noteq> []"

abbreviation lower :: "go_lib \<Rightarrow> string \<Rightarrow> string" where
  "lower L \<equiv> to_lower (unicode_lower L)"

text \<open>
  One concrete library, for the witnesses: the identity on runes beyond ASCII, patterns
  matched as literal text, a hash that is the text in hexadecimal, and times written as
  a mark and unary nanoseconds.
\<close>

fun literal_spans :: "nat \<Rightarrow> nat \<Rightarrow> string \<Rightarrow> string \<Rightarrow> (nat \<times> nat) list" where
  "literal_spans 0 off p s = []"
| "literal_spans (Suc n) off p s =
     (case index_of s p of
        None \<Rightarrow> []
      | Some i \<Rightarrow> (off + i, off + i + length p)
          # literal_spans n (off + i + length p) p (drop (i + length p) s))"

definition hex_byte :: "char \<Rightarrow> string" where
  "hex_byte c = [''0123456789abcdef'' ! (byte c div 16), ''0123456789abcdef'' ! (byte c mod 16)]"

definition lib0 :: go_lib where
  "lib0 =
     \<lparr>unicode_lower = (\<lambda>r. r),
      regexp_compile = (\<lambda>p. if p = [] \<or> p = ''('' then None
                            else Some (\<lambda>s. literal_spans (length s) 0 p s)),
      sha256_hex = (\<lambda>s. CHR ''h'' # concat (map hex_byte s)),
      sprintf_q = (\<lambda>s. [CHR 0x22] @ s @ [CHR 0x22]),
      parse_rfc3339 = (\<lambda>s. if set s \<subseteq> {CHR ''t''} \<and> s \<noteq> [] then Some (int (length s - 1)) else None),
      format_rfc3339 = (\<lambda>t. ''t'' @ replicate (nat t) (CHR ''t'')),
      parse_day = (\<lambda>s. if set s \<subseteq> {CHR ''d''} \<and> s \<noteq> []
                       then Some (int (length s - 1) * 24 * nanos_per_hour) else None),
      format_day = (\<lambda>t. ''d'' @ replicate (nat (t div (24 * nanos_per_hour))) (CHR ''d'')),
      load_location = (\<lambda>n. None),
      parse_duration = (\<lambda>s. None),
      message_json_size = (\<lambda>m. Some (length m)),
      sprint = (\<lambda>v. case v of GString s \<Rightarrow> s | _ \<Rightarrow> []),
      json_value = (\<lambda>v. Some (case v of GString s \<Rightarrow> s | _ \<Rightarrow> ''null'')),
      chunk_json = (\<lambda>sid n ms. sid)\<rparr>"

end
