(* ===== verification/Model.thy ===== *)
theory Model
  imports Go_Lib
begin

text \<open>
  The wire types of \<open>pkg/model/types.go\<close> that the modelled components read and write,
  with the field names of the code (a short prefix tells the records apart), and the
  hashes of \<open>pkg/util\<close>.
\<close>

record event =
  EventID :: string
  CustomerID :: string
  DeploymentID :: string
  DaemonID :: string
  DeviceID :: string
  UserID :: string
  UserName :: string
  TeamID :: string
  EventType :: string
  Source :: string
  AgentType :: string
  CreatedAt :: time
  Payload :: payload

definition empty_event :: event where
  "empty_event =
     \<lparr>EventID = [], CustomerID = [], DeploymentID = [], DaemonID = [], DeviceID = [],
      UserID = [], UserName = [], TeamID = [], EventType = [], Source = [], AgentType = [],
      CreatedAt = zero_time, Payload = Map.empty\<rparr>"

record policy_rule =
  pr_RuleID :: string
  pr_Name :: string
  pr_Description :: string
  pr_Status :: string
  pr_AgentType :: string
  pr_Scope :: string
  pr_MatchType :: string
  pr_MatchValue :: string
  pr_Action :: string
  pr_Priority :: int
  pr_RiskLevel :: string
  pr_Owner :: string
  pr_PolicyVersion :: string
  pr_HitCount :: int

record context_rule =
  cr_RuleID :: string
  cr_Name :: string
  cr_Description :: string
  cr_Status :: string
  cr_MatchType :: string
  cr_Keywords :: "string list"
  cr_Pattern :: string
  cr_ContextContent :: string
  cr_Priority :: int
  cr_AgentType :: string
  cr_HitCount :: int

section \<open>Hashes\<close>

definition hash_string :: "go_lib \<Rightarrow> string \<Rightarrow> string" where
  "hash_string L value = sha256_hex L value"

definition short_hash :: "go_lib \<Rightarrow> string \<Rightarrow> string" where
  "short_hash L value =
     (let h = hash_string L value in if length h > 16 then take 16 h else h)"

lemma length_short_hash: "length (short_hash L v) \<le> 16"
  by (simp add: short_hash_def Let_def)

text \<open>What the agent relies on of the hexadecimal hash: it is not empty and holds no space.\<close>

definition hash_text :: "go_lib \<Rightarrow> bool" where
  "hash_text L \<longleftrightarrow> (\<forall>s. sha256_hex L s \<noteq> [] \<and> list_all word_char (sha256_hex L s))"

lemma hash_text_lib0: "hash_text lib0"
proof -
  have "word_char (''0123456789abcdef'' ! n)" if "n < 16" for n :: nat
  proof -
    have "\<forall>n\<in>set [0..<16]. word_char (''0123456789abcdef'' ! n)" by code_simp
    with that show ?thesis by simp
  qed
  then have "list_all word_char (hex_byte c)" for c
    by (simp add: hex_byte_def byte_def nat_of_char_less_256 div_less_iff_less_mult)
  then have "list_all word_char (concat (map hex_byte s))" for s by (induction s) auto
  moreover have "word_char (CHR ''h'')" by code_simp
  ultimately show ?thesis by (simp add: hash_text_def lib0_def)
qed

lemma trim_space_words: "s \<noteq> [] \<Longrightarrow> list_all word_char s \<Longrightarrow> trim_space s = s"
  by (simp add: trim_space_word list_all_iff)

lemma trim_hash: "hash_text L \<Longrightarrow> trim_space (hash_string L v) = hash_string L v \<and> hash_string L v \<noteq> []"
  by (simp add: hash_text_def hash_string_def trim_space_words)

lemma trim_short_hash: "hash_text L \<Longrightarrow> trim_space (short_hash L v) = short_hash L v \<and> short_hash L v \<noteq> []"
proof -
  assume h: "hash_text L"
  then have "short_hash L v \<noteq> []" by (auto simp: short_hash_def hash_string_def hash_text_def Let_def)
  moreover have "list_all word_char (short_hash L v)"
    using h by (auto simp: short_hash_def hash_string_def hash_text_def list_all_iff Let_def dest: in_set_takeD)
  ultimately show ?thesis by (simp add: trim_space_words)
qed

end
