(* ===== verification/Mcpmeta.thy ===== *)
theory Mcpmeta
  imports Model
begin

text \<open>
  \<open>pkg/mcpmeta\<close>: the identity of an MCP server and the parts of an MCP tool name.
\<close>

definition max_server_identity_bytes :: nat where
  "max_server_identity_bytes = 255"

definition normalize_server_name :: "go_lib \<Rightarrow> string \<Rightarrow> string" where
  "normalize_server_name L value0 =
     (let value1 = trim_set (trim_space value0) [CHR 0x60, CHR 0x22, CHR 0x27];
          value2 = trim_right_set value1 '':'';
          value3 = trim_space value2;
          low = lower L value3
      in if low = [] \<or> low = ''checking'' \<or> low = ''codex_apps'' \<or> low = ''codex-apps''
         then [] else low)"

definition uuid_hyphens :: "nat list" where
  "uuid_hyphens = [8, 13, 18, 23]"

text \<open>
  The loop ranges over runes: only a rune that starts at one of the four byte offsets is
  skipped, and every other rune must be a hexadecimal digit.
\<close>

definition hex_rune :: "nat \<Rightarrow> bool" where
  "hex_rune r \<longleftrightarrow>
     (0x30 \<le> r \<and> r \<le> 0x39) \<or> (0x61 \<le> r \<and> r \<le> 0x66) \<or> (0x41 \<le> r \<and> r \<le> 0x46)"

function hex_runes_from :: "nat \<Rightarrow> string \<Rightarrow> bool" where
  "hex_runes_from index s =
     (if s = [] then True
      else (index \<in> set uuid_hyphens \<or> hex_rune (fst (decode_rune s)))
        \<and> hex_runes_from (index + snd (decode_rune s)) (drop (snd (decode_rune s)) s))"
  by pat_completeness auto
termination
  by (relation "measure (\<lambda>(i, s). length s)") (use decode_rune_width_pos in auto)

declare hex_runes_from.simps [simp del]

definition is_uuid_shaped_server_id :: "string \<Rightarrow> bool" where
  "is_uuid_shaped_server_id value \<longleftrightarrow>
     length value = 36 \<and> (\<forall>i \<in> set uuid_hyphens. value ! i = CHR ''-'')
     \<and> hex_runes_from 0 value"

definition server_identity :: "go_lib \<Rightarrow> string \<Rightarrow> string \<times> string" where
  "server_identity L value =
     (let serverID = normalize_server_name L value in
      if serverID = [] \<or> length serverID > max_server_identity_bytes then ([], [])
      else if is_uuid_shaped_server_id serverID then (serverID, [])
      else (serverID, serverID))"

definition tool_parts :: "go_lib \<Rightarrow> string \<Rightarrow> string \<times> string" where
  "tool_parts L name =
     (let trimmed = trim_space name in
      if \<not> has_prefix trimmed ''mcp__'' then ([], [])
      else
        let rest = trim_prefix trimmed ''mcp__'';
            parts = (if contains rest ''__'' then Some (split_n2 rest ''__'')
                     else if contains rest ''.'' then Some (split_n2 rest ''.'')
                     else None)
        in case parts of
             Some [p0, p1] \<Rightarrow>
               (let server = normalize_server_name L p0; tool = trim_space p1
                in if server = [] \<or> tool = [] then ([], []) else (server, tool))
           | _ \<Rightarrow> ([], []))"

section \<open>Facts\<close>

lemma normalize_server_name_reserved:
  "normalize_server_name L v \<notin> {''checking'', ''codex_apps'', ''codex-apps''}"
  by (auto simp: normalize_server_name_def Let_def)

lemma server_identity_bounded:
  "length (fst (server_identity L v)) \<le> max_server_identity_bytes"
  by (auto simp: server_identity_def Let_def)

lemma tool_parts_both_or_none:
  "(fst (tool_parts L name) = []) = (snd (tool_parts L name) = [])"
  by (auto simp: tool_parts_def Let_def split: option.splits list.splits)

lemma tool_parts_prefix:
  "fst (tool_parts L name) \<noteq> [] \<Longrightarrow> has_prefix (trim_space name) ''mcp__''"
  by (auto simp: tool_parts_def Let_def split: if_splits)

end
