(* ===== verification/Bolt.thy ===== *)
theory Bolt
  imports Gesta_Prelude
begin

text \<open>
  The key-value store below the event queue. The agent uses go.etcd.io/bbolt, which is not
  part of the repository: its buckets and transactions are the record \<open>bolt\<close> of
  functions, and the locale \<open>bolt_laws\<close> states the documented behaviour the queue
  relies on (a bucket is a map ordered by the bytes of its keys; a put is refused only for
  an empty or an oversized key or an oversized value). Every definition of the queue takes
  the record as an argument. \<open>list_bolt\<close> is one concrete store that satisfies the laws.
\<close>

section \<open>Buckets and transactions\<close>

datatype qbucket =
    Events
  | Times
  | EventIDs
  | EventSeqs
  | DeliveredIDs
  | DeliveredTimes
  | QuarantineB
  | MetaB

text \<open>The database file holds a bucket or not; a transaction of the queue has all eight.\<close>

type_synonym 'b db = "qbucket \<Rightarrow> 'b option"
type_synonym 'b tx = "qbucket \<Rightarrow> 'b"

record 'b bolt =
  b_empty :: 'b
  b_get :: "'b \<Rightarrow> string \<Rightarrow> string option"
  b_put :: "'b \<Rightarrow> string \<Rightarrow> string \<Rightarrow> string + 'b"
  b_delete :: "'b \<Rightarrow> string \<Rightarrow> 'b"
  b_scan :: "'b \<Rightarrow> (string \<times> string) list"
  b_open_error :: "'b db \<Rightarrow> string option"
  b_commit_error :: "'b db \<Rightarrow> string option"

definition max_key_size :: nat where
  "max_key_size = 32768"

definition max_value_size :: nat where
  "max_value_size = 2147483646"

locale bolt_laws =
  fixes B :: "'b bolt"
  assumes scan_empty: "b_scan B (b_empty B) = []"
    and scan_sorted: "sorted_wrt (<) (map fst (b_scan B b))"
    and get_scan: "b_get B b k = map_of (b_scan B b) k"
    and put_ok: "k \<noteq> [] \<Longrightarrow> length k \<le> max_key_size \<Longrightarrow> length v \<le> max_value_size
      \<Longrightarrow> \<exists>b'. b_put B b k v = Inr b'"
    and get_put: "b_put B b k v = Inr b' \<Longrightarrow> b_get B b' = (b_get B b)(k \<mapsto> v)"
    and get_delete: "b_get B (b_delete B b k) = (b_get B b)(k := None)"

section \<open>What follows from the laws\<close>

context bolt_laws
begin

lemma get_empty: "b_get B (b_empty B) = Map.empty"
  by (rule ext) (simp add: get_scan scan_empty)

lemma get_eq: "b_get B b = map_of (b_scan B b)"
  by (rule ext) (rule get_scan)

lemma dom_get: "dom (b_get B b) = fst ` set (b_scan B b)"
  by (simp add: get_eq dom_map_of_conv_image_fst)

lemma finite_dom: "finite (dom (b_get B b))"
  by (simp add: dom_get)

lemma distinct_scan: "distinct (map fst (b_scan B b))"
  using scan_sorted [of b] by (simp add: strict_sorted_iff)

lemma scan_iff: "(k, v) \<in> set (b_scan B b) \<longleftrightarrow> b_get B b k = Some v"
  by (simp add: get_scan distinct_scan)

lemma length_scan: "length (b_scan B b) = card (dom (b_get B b))"
  unfolding dom_get using distinct_card [OF distinct_scan [of b]]
  by (simp add: image_set [symmetric])

lemma scan_Nil_iff: "b_scan B b = [] \<longleftrightarrow> b_get B b = Map.empty"
  by (metis dom_get dom_empty dom_eq_empty_conv image_is_empty set_empty)

lemma scan_hd_least:
  assumes "b_scan B b = (k, v) # r"
  shows "b_get B b k = Some v" and "b_get B b k' = Some v' \<Longrightarrow> k \<le> k'"
proof -
  from assms have "(k, v) \<in> set (b_scan B b)" by simp
  then show "b_get B b k = Some v" by (simp only: scan_iff)
  assume "b_get B b k' = Some v'"
  then have "k' \<in> set (map fst (b_scan B b))"
    using dom_get [of b] by auto
  then show "k \<le> k'"
    using scan_sorted [of b] assms by auto
qed

lemma length_scan_delete:
  assumes "b_get B b k = Some v"
  shows "Suc (length (b_scan B (b_delete B b k))) = length (b_scan B b)"
proof -
  have "dom (b_get B (b_delete B b k)) = dom (b_get B b) - {k}"
    by (simp add: get_delete)
  moreover have "k \<in> dom (b_get B b)" using assms by auto
  ultimately show ?thesis
    by (metis length_scan card_Suc_Diff1 finite_dom)
qed

lemmas get_simps = get_delete get_empty

end

section \<open>One store: association lists\<close>

definition list_scan :: "(string \<times> string) list \<Rightarrow> (string \<times> string) list" where
  "list_scan xs = map (\<lambda>k. (k, the (map_of xs k))) (sort (remdups (map fst xs)))"

definition list_put :: "(string \<times> string) list \<Rightarrow> string \<Rightarrow> string \<Rightarrow> string + (string \<times> string) list" where
  "list_put xs k v =
     (if k = [] then Inl ''key required''
      else if length k > max_key_size then Inl ''key too large''
      else if length v > max_value_size then Inl ''value too large''
      else Inr ((k, v) # filter (\<lambda>(k', _). k' \<noteq> k) xs))"

lemma list_put_code [code]:
  "list_put xs k v =
     (if k = [] then Inl ''key required''
      else if int (length k) > 32768 then Inl ''key too large''
      else if int (length v) > 2147483646 then Inl ''value too large''
      else Inr ((k, v) # filter (\<lambda>(k', _). k' \<noteq> k) xs))"
  by (simp add: list_put_def max_key_size_def max_value_size_def)

definition list_bolt :: "(string \<times> string) list bolt" where
  "list_bolt =
     \<lparr>b_empty = [],
      b_get = map_of,
      b_put = list_put,
      b_delete = (\<lambda>xs k. filter (\<lambda>(k', _). k' \<noteq> k) xs),
      b_scan = list_scan,
      b_open_error = (\<lambda>_. None),
      b_commit_error = (\<lambda>_. None)\<rparr>"

lemma map_of_filter_key: "map_of (filter (\<lambda>(k', _). k' \<noteq> k) xs) = (map_of xs)(k := None)"
  by (induction xs) (auto simp: fun_eq_iff)

lemma map_of_list_scan: "map_of (list_scan xs) k = map_of xs k"
proof (cases "k \<in> fst ` set xs")
  case True
  have "map_of (map (\<lambda>k. (k, the (map_of xs k))) ks) k = (if k \<in> set ks then Some (the (map_of xs k)) else None)" for ks
    by (induction ks) auto
  from this [of "sort (remdups (map fst xs))"] True
  have "map_of (list_scan xs) k = Some (the (map_of xs k))" by (simp add: list_scan_def)
  moreover from True have "map_of xs k \<noteq> None" by (simp only: map_of_None_iff not_not)
  ultimately show ?thesis by auto
next
  case False
  then have "k \<notin> fst ` set (list_scan xs)" by (simp add: list_scan_def image_image)
  with False show ?thesis by (simp only: map_of_None_iff [symmetric])
qed

interpretation list_store: bolt_laws list_bolt
proof unfold_locales
  fix b :: "(string \<times> string) list"
  show "sorted_wrt (<) (map fst (b_scan list_bolt b))"
    by (simp add: list_bolt_def list_scan_def comp_def strict_sorted_iff)
qed (auto simp: list_bolt_def list_scan_def [of "[]"] map_of_list_scan list_put_def
       map_of_filter_key fun_eq_iff split: if_splits)

end
