(* ===== verification/Queue_Codec.thy ===== *)
theory Queue_Codec
  imports Bolt Model
begin

text \<open>
  \<open>pkg/eventqueue/queue_codec.go\<close>: the byte layout of the queue's keys and records.
  An \<open>int64\<close> time is stored big-endian with its sign bit flipped, so that the byte order
  of the keys is the order of the times.
\<close>

unbundle bit_operations_syntax

section \<open>Big-endian words\<close>

text \<open>The \<open>n\<close> base-256 digits of a number, most significant first.\<close>

fun be_digits :: "nat \<Rightarrow> nat \<Rightarrow> string" where
  "be_digits 0 x = []"
| "be_digits (Suc n) x = char_of (x div 256 ^ n) # be_digits n (x mod 256 ^ n)"

definition encode_uint64 :: "64 word \<Rightarrow> string" where
  "encode_uint64 value = be_digits 8 (unat value)"

fun be_value :: "nat \<Rightarrow> string \<Rightarrow> nat" where
  "be_value acc [] = acc"
| "be_value acc (c # cs) = be_value (256 * acc + byte c) cs"

definition uint64_be :: "string \<Rightarrow> 64 word" where
  "uint64_be s = of_nat (be_value 0 s)"

definition decode_uint64 :: "string option \<Rightarrow> 64 word" where
  "decode_uint64 encoded =
     (case encoded of None \<Rightarrow> 0 | Some s \<Rightarrow> if length s \<noteq> 8 then 0 else uint64_be s)"

text \<open>\<open>t.UnixNano()\<close> as a 64-bit pattern, and the flip of its sign bit.\<close>

definition unix_nano :: "time \<Rightarrow> 64 word" where
  "unix_nano t = word_of_int t"

definition ordered_timestamp :: "time \<Rightarrow> 64 word" where
  "ordered_timestamp t = unix_nano t XOR push_bit 63 1"

definition time_of_ordered :: "64 word \<Rightarrow> time" where
  "time_of_ordered w = sint (w XOR push_bit 63 1)"

section \<open>Records and keys\<close>

datatype queue_error =
    StoreError string
  | Truncated
  | DecodeError
  | MarshalError
  | Underflow int int
  | BadTimeKey nat
  | BadDeliveredKey nat
  | EmptyRejectedID
  | NoRejectedIDs
  | RejectedMismatch
  | LockError
  | SendFailed string
  | QuarantinedEvents "string list" string
  | OutOfFuel

text \<open>
  The JSON codec of an event, and of a quarantine record (the time, the reason and the
  event): \<open>encoding/json\<close>, as functions of the environment.
\<close>

record 'b queue_env =
  store :: "'b bolt"
  marshal_event :: "event \<Rightarrow> string option"
  unmarshal_event :: "string \<Rightarrow> event option"
  marshal_quarantined :: "time \<Rightarrow> string \<Rightarrow> event \<Rightarrow> string option"

definition encode_queued_event :: "time \<Rightarrow> string \<Rightarrow> string" where
  "encode_queued_event createdAt encoded = encode_uint64 (unix_nano createdAt) @ encoded"

definition decode_queued_event :: "'b queue_env \<Rightarrow> string \<Rightarrow> queue_error + event \<times> nat" where
  "decode_queued_event E stored =
     (if length stored < 8 then Inl Truncated
      else case unmarshal_event E (drop 8 stored) of
             None \<Rightarrow> Inl DecodeError
           | Some ev \<Rightarrow> Inr (ev, length stored - 8))"

definition queue_time_key :: "time \<Rightarrow> string \<Rightarrow> string" where
  "queue_time_key createdAt sequence =
     encode_uint64 (ordered_timestamp createdAt) @ take 8 (sequence @ replicate 8 (CHR 0x00))"

definition decode_queue_time_key :: "string \<Rightarrow> queue_error + time \<times> string" where
  "decode_queue_time_key key =
     (if length key \<noteq> 16 then Inl (BadTimeKey (length key))
      else Inr (time_of_ordered (uint64_be (take 8 key)), drop 8 key))"

definition delivered_time_key :: "time \<Rightarrow> string \<Rightarrow> string" where
  "delivered_time_key deliveredAt eventID = encode_uint64 (ordered_timestamp deliveredAt) @ eventID"

definition decode_delivered_time_key :: "string \<Rightarrow> queue_error + time \<times> string" where
  "decode_delivered_time_key key =
     (if length key \<le> 8 then Inl (BadDeliveredKey (length key))
      else Inr (time_of_ordered (uint64_be (take 8 key)), drop 8 key))"

definition compactable_snapshot_event_types :: "string list" where
  "compactable_snapshot_event_types =
     [''adapter.warning'', ''agent.discovery'', ''claude_code.config_snapshot'',
      ''claude_code.usage_summary'', ''codex.usage_summary'', ''daemon.system_snapshot'']"

definition is_compactable_snapshot :: "event \<Rightarrow> bool" where
  "is_compactable_snapshot ev \<longleftrightarrow>
     EventType ev \<in> set compactable_snapshot_event_types \<and> EventID ev \<noteq> []"

section \<open>Evaluation\<close>

text \<open>Code equations over \<open>int\<close>: natural numbers are unary in the evaluator.\<close>

fun be_digits_int :: "nat \<Rightarrow> int \<Rightarrow> string" where
  "be_digits_int 0 x = []"
| "be_digits_int (Suc n) x = char_of (x div 256 ^ n) # be_digits_int n (x mod 256 ^ n)"

fun be_value_int :: "int \<Rightarrow> string \<Rightarrow> int" where
  "be_value_int acc [] = acc"
| "be_value_int acc (c # cs) = be_value_int (256 * acc + of_char c) cs"

lemma be_digits_int: "be_digits_int n (int x) = be_digits n x"
proof (induction n arbitrary: x)
  case (Suc n)
  have d: "int x div 256 ^ n = int (x div 256 ^ n)" "int x mod 256 ^ n = int (x mod 256 ^ n)"
    by (simp_all add: zdiv_int zmod_int)
  show ?case by (simp only: be_digits_int.simps be_digits.simps d char_of_nat Suc.IH)
qed simp

lemma be_value_int: "be_value_int (int acc) s = int (be_value acc s)"
proof (induction s arbitrary: acc)
  case (Cons c cs)
  have "256 * int acc + of_char c = int (256 * acc + byte c)" by (simp add: byte_def of_nat_of_char)
  then show ?case by (simp only: be_value_int.simps be_value.simps Cons.IH)
qed simp

lemma encode_uint64_code [code]: "encode_uint64 value = be_digits_int 8 (uint value)"
  using be_digits_int [of 8 "unat value"] by (simp add: encode_uint64_def)

lemma uint64_be_code [code]: "uint64_be s = word_of_int (be_value_int 0 s)"
  using be_value_int [of 0 s] by (simp add: uint64_be_def)

section \<open>Facts\<close>

lemma length_be_digits [simp]: "length (be_digits n x) = n"
  by (induction n arbitrary: x) auto

lemma length_encode_uint64 [simp]: "length (encode_uint64 w) = 8"
  by (simp add: encode_uint64_def)

lemma be_value_digits: "x < 256 ^ n \<Longrightarrow> be_value acc (be_digits n x) = acc * 256 ^ n + x"
proof (induction n arbitrary: acc x)
  case 0
  then show ?case by simp
next
  case (Suc n)
  then have d: "x div 256 ^ n < 256" by (simp add: div_less_iff_less_mult mult.commute)
  have "x mod 256 ^ n < 256 ^ n" by simp
  from Suc.IH [OF this, of "256 * acc + x div 256 ^ n"] d show ?case
    by (simp add: algebra_simps)
qed

lemma uint64_be_encode [simp]: "uint64_be (encode_uint64 w) = w"
proof -
  have "unat w < 256 ^ 8" using unsigned_less [of w] by simp
  then show ?thesis by (simp add: uint64_be_def encode_uint64_def be_value_digits)
qed

lemma decode_uint64_encode [simp]: "decode_uint64 (Some (encode_uint64 w)) = w"
  by (simp add: decode_uint64_def)

lemma encode_uint64_inject [simp]: "encode_uint64 v = encode_uint64 w \<longleftrightarrow> v = w"
  by (metis uint64_be_encode)

lemma less_div_mod_iff:
  fixes x y p :: nat
  assumes "0 < p"
  shows "x < y \<longleftrightarrow> x div p < y div p \<or> (x div p = y div p \<and> x mod p < y mod p)"
proof (cases "x div p = y div p")
  case True
  have "x = p * (x div p) + x mod p" "y = p * (y div p) + y mod p" by simp_all
  with True show ?thesis by (metis nat_add_left_cancel_less less_irrefl)
next
  case False
  then show ?thesis
    by (metis div_le_mono le_less_linear less_le_not_le linorder_neqE_nat order.strict_implies_order)
qed

lemma be_digits_less:
  "x < 256 ^ n \<Longrightarrow> y < 256 ^ n \<Longrightarrow> be_digits n x < be_digits n y \<longleftrightarrow> x < y"
proof (induction n arbitrary: x y)
  case 0
  then show ?case by simp
next
  case (Suc n)
  let ?p = "256 ^ n :: nat"
  have d: "x div ?p < 256" "y div ?p < 256"
    using Suc.prems by (simp_all add: div_less_iff_less_mult mult.commute)
  then have o: "of_char (char_of (x div ?p) :: char) = x div ?p"
      "of_char (char_of (y div ?p) :: char) = y div ?p" by simp_all
  have c: "char_of (x div ?p) < (char_of (y div ?p) :: char) \<longleftrightarrow> x div ?p < y div ?p"
    unfolding less_char_def o ..
  have e: "char_of (x div ?p) = (char_of (y div ?p) :: char) \<longleftrightarrow> x div ?p = y div ?p"
    using o by metis
  have ih: "be_digits n (x mod ?p) < be_digits n (y mod ?p) \<longleftrightarrow> x mod ?p < y mod ?p"
    by (rule Suc.IH) simp_all
  have "x < y \<longleftrightarrow> x div ?p < y div ?p \<or> (x div ?p = y div ?p \<and> x mod ?p < y mod ?p)"
    by (rule less_div_mod_iff) simp
  with c e ih show ?case by simp
qed

lemma encode_uint64_less: "encode_uint64 v < encode_uint64 w \<longleftrightarrow> v < w"
proof -
  have "unat v < 256 ^ 8" "unat w < 256 ^ 8"
    using unsigned_less [of v] unsigned_less [of w] by simp_all
  then show ?thesis
    by (simp add: encode_uint64_def be_digits_less word_less_nat_alt)
qed

lemma append_less_iff:
  fixes a b :: string
  shows "length a = length b \<Longrightarrow> a @ s < b @ t \<longleftrightarrow> a < b \<or> (a = b \<and> s < t)"
  by (induction a b rule: list_induct2) auto

lemma length_be8: "length s = 8 \<Longrightarrow> encode_uint64 w = s \<Longrightarrow> uint64_be s = w"
  by auto

lemma xor_sign_bit: "(w :: 64 word) XOR push_bit 63 1 = w + 2 ^ 63"
proof -
  have "w XOR push_bit 63 1 = flip_bit 63 w" by (simp add: flip_bit_eq_xor)
  also have "\<dots> = w + 2 ^ 63"
  proof (cases "bit w 63")
    case True
    then have "flip_bit 63 w = w - 2 ^ 63" by (simp add: flip_bit_eq_if unset_bit_eq)
    then show ?thesis by simp
  next
    case False
    then show ?thesis by (simp add: flip_bit_eq_if set_bit_eq)
  qed
  finally show ?thesis .
qed

lemma sint_word_of_int: "sint (word_of_int t :: 64 word) = wrap64 t"
  by (simp add: sint_sbintrunc' signed_take_bit_eq_take_bit_shift take_bit_eq_mod wrap64_def)

lemma time_of_ordered_timestamp [simp]: "time_of_ordered (ordered_timestamp t) = wrap64 t"
proof -
  have "ordered_timestamp t XOR push_bit 63 1 = unix_nano t"
    by (simp add: ordered_timestamp_def xor.assoc)
  then show ?thesis by (simp add: time_of_ordered_def unix_nano_def sint_word_of_int)
qed

lemma uint_ordered_timestamp: "uint (ordered_timestamp t) = wrap64 t + 2 ^ 63"
proof -
  have "ordered_timestamp t = word_of_int (t + 2 ^ 63)"
    unfolding ordered_timestamp_def xor_sign_bit unix_nano_def by simp
  then show ?thesis by (simp only: uint_word_of_int) (simp add: wrap64_def)
qed

lemma ordered_timestamp_less:
  "ordered_timestamp a < ordered_timestamp b \<longleftrightarrow> wrap64 a < wrap64 b"
  by (simp add: word_less_def uint_ordered_timestamp)

lemma ordered_timestamp_eq:
  "ordered_timestamp a = ordered_timestamp b \<longleftrightarrow> wrap64 a = wrap64 b"
  by (simp add: word_uint_eq_iff uint_ordered_timestamp)

lemma length_queue_time_key [simp]: "length (queue_time_key t s) = 16"
  by (simp add: queue_time_key_def)

lemma decode_queue_time_key_key:
  "length s = 8 \<Longrightarrow> decode_queue_time_key (queue_time_key t s) = Inr (wrap64 t, s)"
  by (simp add: decode_queue_time_key_def queue_time_key_def)

lemma decode_delivered_time_key_key:
  "i \<noteq> [] \<Longrightarrow> decode_delivered_time_key (delivered_time_key t i) = Inr (wrap64 t, i)"
  by (simp add: decode_delivered_time_key_def delivered_time_key_def)

lemma queue_time_key_inject:
  "length s = 8 \<Longrightarrow> length s' = 8 \<Longrightarrow>
   queue_time_key t s = queue_time_key t' s' \<longleftrightarrow> wrap64 t = wrap64 t' \<and> s = s'"
  by (simp add: queue_time_key_def append_eq_append_conv ordered_timestamp_eq)

lemma delivered_time_key_inject:
  "delivered_time_key t i = delivered_time_key t' i' \<longleftrightarrow> wrap64 t = wrap64 t' \<and> i = i'"
  by (simp add: delivered_time_key_def append_eq_append_conv ordered_timestamp_eq)

lemma queue_time_key_less:
  "length s = 8 \<Longrightarrow> length s' = 8 \<Longrightarrow>
   queue_time_key t s < queue_time_key t' s' \<longleftrightarrow>
     wrap64 t < wrap64 t' \<or> (wrap64 t = wrap64 t' \<and> s < s')"
  by (simp add: queue_time_key_def append_less_iff encode_uint64_less ordered_timestamp_less
      ordered_timestamp_eq)

lemma delivered_time_key_less:
  "delivered_time_key t i < delivered_time_key t' i' \<longleftrightarrow>
     wrap64 t < wrap64 t' \<or> (wrap64 t = wrap64 t' \<and> i < i')"
  by (simp add: delivered_time_key_def append_less_iff encode_uint64_less ordered_timestamp_less
      ordered_timestamp_eq)

lemma length_encode_queued_event [simp]: "length (encode_queued_event t b) = 8 + length b"
  by (simp add: encode_queued_event_def)

lemma decode_encode_queued_event:
  "unmarshal_event E b = Some ev \<Longrightarrow>
   decode_queued_event E (encode_queued_event t b) = Inr (ev, length b)"
  by (simp add: decode_queued_event_def encode_queued_event_def)

lemma decode_queued_event_length:
  "decode_queued_event E s = Inr (ev, n) \<Longrightarrow> length s = n + 8"
  by (auto simp: decode_queued_event_def split: if_splits option.splits)

end
