(* ===== verification/Queue_Store.thy ===== *)
theory Queue_Store
  imports Queue_Codec
begin

text \<open>
  \<open>queue_store.go\<close>, \<open>queue_index.go\<close> and the meta data of \<open>queue_codec.go\<close>: the
  buckets of the event queue inside one transaction. An event is stored under a fresh
  sequence number, with an entry in the time index and, when it has an identifier, in the
  two identifier indexes; the meta bucket counts events and bytes. \<open>tx_inv\<close> states that
  buckets, indexes and counters agree; it holds of a fresh database and is kept by insert
  and delete.
\<close>

section \<open>Bucket access\<close>

definition tx_get :: "'b queue_env \<Rightarrow> 'b tx \<Rightarrow> qbucket \<Rightarrow> string \<Rightarrow> string option" where
  "tx_get E tx n k = b_get (store E) (tx n) k"

definition tx_put :: "'b queue_env \<Rightarrow> qbucket \<Rightarrow> string \<Rightarrow> string \<Rightarrow> 'b tx \<Rightarrow> queue_error + 'b tx" where
  "tx_put E n k v tx =
     (case b_put (store E) (tx n) k v of
        Inl e \<Rightarrow> Inl (StoreError e)
      | Inr b \<Rightarrow> Inr (tx(n := b)))"

definition tx_del :: "'b queue_env \<Rightarrow> qbucket \<Rightarrow> string \<Rightarrow> 'b tx \<Rightarrow> 'b tx" where
  "tx_del E n k tx = tx(n := b_delete (store E) (tx n) k)"

definition tx_scan :: "'b queue_env \<Rightarrow> 'b tx \<Rightarrow> qbucket \<Rightarrow> (string \<times> string) list" where
  "tx_scan E tx n = b_scan (store E) (tx n)"

section \<open>Meta data\<close>

definition meta_count_key :: string where "meta_count_key = ''count''"
definition meta_bytes_key :: string where "meta_bytes_key = ''bytes''"
definition meta_next_key :: string where "meta_next_key = ''next_sequence''"
definition meta_event_ids_key :: string where "meta_event_ids_key = ''event_id_index_version''"

lemmas meta_keys = meta_count_key_def meta_bytes_key_def meta_next_key_def meta_event_ids_key_def

definition next_queue_sequence :: "'b queue_env \<Rightarrow> 'b tx \<Rightarrow> queue_error + 'b tx \<times> string" where
  "next_queue_sequence E tx =
     (let next = decode_uint64 (tx_get E tx MetaB meta_next_key) + 1;
          encoded = encode_uint64 next
      in rbind (tx_put E MetaB meta_next_key encoded tx) (\<lambda>tx1. Inr (tx1, encoded)))"

definition queue_meta_int64 :: "'b queue_env \<Rightarrow> 'b tx \<Rightarrow> string \<Rightarrow> int" where
  "queue_meta_int64 E tx key = sint (decode_uint64 (tx_get E tx MetaB key))"

definition increment_queue_meta :: "'b queue_env \<Rightarrow> int \<Rightarrow> int \<Rightarrow> 'b tx \<Rightarrow> queue_error + 'b tx" where
  "increment_queue_meta E countDelta bytesDelta tx =
     (let count = add64 (queue_meta_int64 E tx meta_count_key) countDelta;
          bytes = add64 (queue_meta_int64 E tx meta_bytes_key) bytesDelta
      in if count < 0 \<or> bytes < 0 then Inl (Underflow count bytes)
         else rbind (tx_put E MetaB meta_count_key (encode_uint64 (word_of_int count)) tx)
           (tx_put E MetaB meta_bytes_key (encode_uint64 (word_of_int bytes))))"

section \<open>The identifier indexes\<close>

fun backfill_entries :: "'b queue_env \<Rightarrow> (string \<times> string) list \<Rightarrow> 'b tx \<Rightarrow> queue_error + 'b tx" where
  "backfill_entries E [] tx = Inr tx"
| "backfill_entries E ((sequence, stored) # rest) tx =
     rbind (decode_queued_event E stored) (\<lambda>(ev, _).
       if EventID ev = [] then backfill_entries E rest tx
       else rbind (tx_put E EventIDs (EventID ev) sequence tx) (\<lambda>tx1.
            rbind (tx_put E EventSeqs sequence (EventID ev) tx1) (\<lambda>tx2.
              backfill_entries E rest tx2)))"

definition backfill_queued_event_ids :: "'b queue_env \<Rightarrow> 'b tx \<Rightarrow> queue_error + 'b tx" where
  "backfill_queued_event_ids E tx =
     (if 1 \<le> decode_uint64 (tx_get E tx MetaB meta_event_ids_key) then Inr tx
      else rbind (backfill_entries E (tx_scan E tx Events) tx)
        (tx_put E MetaB meta_event_ids_key (encode_uint64 1)))"

definition initialize_queue_buckets :: "'b queue_env \<Rightarrow> 'b db \<Rightarrow> queue_error + 'b tx" where
  "initialize_queue_buckets E db =
     backfill_queued_event_ids E
       (\<lambda>name. case db name of None \<Rightarrow> b_empty (store E) | Some b \<Rightarrow> b)"

definition record_delivered_event_id :: "'b queue_env \<Rightarrow> string \<Rightarrow> time \<Rightarrow> 'b tx \<Rightarrow> queue_error + 'b tx" where
  "record_delivered_event_id E eventID deliveredAt tx =
     (let tx0 = (case tx_get E tx DeliveredIDs eventID of
                   None \<Rightarrow> tx
                 | Some previousKey \<Rightarrow> tx_del E DeliveredTimes previousKey tx);
          timeKey = delivered_time_key deliveredAt eventID
      in rbind (tx_put E DeliveredIDs eventID timeKey tx0) (tx_put E DeliveredTimes timeKey []))"

section \<open>Delete and insert\<close>

definition delete_queued_event :: "'b queue_env \<Rightarrow> string \<Rightarrow> bool \<Rightarrow> 'b tx \<Rightarrow> queue_error + 'b tx" where
  "delete_queued_event E sequence removeTimeIndex tx =
     (case tx_get E tx Events sequence of
        None \<Rightarrow> Inr tx
      | Some stored \<Rightarrow>
          rbind (decode_queued_event E stored) (\<lambda>(ev, encodedBytes).
            let tx1 = (if removeTimeIndex
                       then tx_del E Times (queue_time_key (CreatedAt ev) sequence) tx else tx);
                tx2 = (case tx_get E tx1 EventSeqs sequence of
                         None \<Rightarrow> tx1
                       | Some eventID \<Rightarrow>
                           tx_del E EventSeqs sequence
                             (if tx_get E tx1 EventIDs eventID = Some sequence
                              then tx_del E EventIDs eventID tx1 else tx1))
            in increment_queue_meta E (- 1) (- int (encodedBytes + 1)) (tx_del E Events sequence tx2)))"

definition store_new_event :: "'b queue_env \<Rightarrow> event \<Rightarrow> 'b tx \<Rightarrow> queue_error + 'b tx" where
  "store_new_event E ev tx =
     (case marshal_event E ev of
        None \<Rightarrow> Inl MarshalError
      | Some encoded \<Rightarrow>
          rbind (next_queue_sequence E tx) (\<lambda>(tx1, sequence).
          rbind (tx_put E Events sequence (encode_queued_event (CreatedAt ev) encoded) tx1) (\<lambda>tx2.
          rbind (tx_put E Times (queue_time_key (CreatedAt ev) sequence) [] tx2) (\<lambda>tx3.
          rbind (if EventID ev \<noteq> []
                 then rbind (tx_put E EventIDs (EventID ev) sequence tx3)
                        (tx_put E EventSeqs sequence (EventID ev))
                 else Inr tx3) (\<lambda>tx4.
          increment_queue_meta E 1 (int (length encoded + 1)) tx4)))))"

definition insert_queued_event :: "'b queue_env \<Rightarrow> event \<Rightarrow> 'b tx \<Rightarrow> queue_error + 'b tx \<times> bool" where
  "insert_queued_event E ev tx =
     (if EventID ev \<noteq> [] \<and> tx_get E tx QuarantineB (EventID ev) \<noteq> None then Inr (tx, True)
      else if EventID ev \<noteq> [] \<and> tx_get E tx DeliveredIDs (EventID ev) \<noteq> None then Inr (tx, True)
      else case (if EventID ev \<noteq> [] then tx_get E tx EventIDs (EventID ev) else None) of
             None \<Rightarrow> rbind (store_new_event E ev tx) (\<lambda>tx1. Inr (tx1, False))
           | Some queuedSequence \<Rightarrow>
               if \<not> is_compactable_snapshot ev then Inr (tx, True)
               else rbind (delete_queued_event E queuedSequence True tx) (\<lambda>tx0.
                    rbind (store_new_event E ev tx0) (\<lambda>tx1. Inr (tx1, True))))"

section \<open>The invariant\<close>

text \<open>
  \<open>decodes E stored ev n\<close>: the record holds the event \<open>ev\<close> in \<open>n\<close> bytes of JSON.
  \<open>index_inv\<close> relates the four maps of the active queue: keys are eight bytes, records
  decode, the time index has exactly one entry per event, the identifier index and its
  inverse hold exactly the events that have an identifier.
\<close>

abbreviation decodes :: "'b queue_env \<Rightarrow> string \<Rightarrow> event \<Rightarrow> nat \<Rightarrow> bool" where
  "decodes E stored ev n \<equiv> decode_queued_event E stored = Inr (ev, n)"

definition index_inv ::
  "'b queue_env \<Rightarrow> (string \<rightharpoonup> string) \<Rightarrow> (string \<rightharpoonup> string) \<Rightarrow> (string \<rightharpoonup> string)
    \<Rightarrow> (string \<rightharpoonup> string) \<Rightarrow> bool" where
  "index_inv E ev tm ids seqs \<longleftrightarrow>
     (\<forall>k v. ev k = Some v \<longrightarrow> length k = 8 \<and> (\<exists>e n. decodes E v e n)) \<and>
     (\<forall>key. key \<in> dom tm \<longleftrightarrow>
        (\<exists>k v e n. ev k = Some v \<and> decodes E v e n \<and> key = queue_time_key (CreatedAt e) k)) \<and>
     (\<forall>k i. seqs k = Some i \<longleftrightarrow>
        (\<exists>v e n. ev k = Some v \<and> decodes E v e n \<and> EventID e = i \<and> i \<noteq> [])) \<and>
     (\<forall>i k. ids i = Some k \<longleftrightarrow> seqs k = Some i)"

definition stored_cost :: "string \<Rightarrow> int" where
  "stored_cost v = int (length v) - 7"

definition queue_bytes :: "(string \<rightharpoonup> string) \<Rightarrow> int" where
  "queue_bytes ev = (\<Sum>k\<in>dom ev. stored_cost (the (ev k)))"

definition meta_word :: "(string \<rightharpoonup> string) \<Rightarrow> string \<Rightarrow> 64 word" where
  "meta_word m key = decode_uint64 (m key)"

definition meta_inv :: "(string \<rightharpoonup> string) \<Rightarrow> (string \<rightharpoonup> string) \<Rightarrow> bool" where
  "meta_inv ev m \<longleftrightarrow>
     finite (dom ev) \<and>
     sint (meta_word m meta_count_key) = int (card (dom ev)) \<and>
     sint (meta_word m meta_bytes_key) = queue_bytes ev \<and>
     (\<forall>k\<in>dom ev. \<exists>w. k = encode_uint64 w \<and> w \<le> meta_word m meta_next_key) \<and>
     1 \<le> meta_word m meta_event_ids_key"

definition delivered_inv :: "(string \<rightharpoonup> string) \<Rightarrow> (string \<rightharpoonup> string) \<Rightarrow> bool" where
  "delivered_inv ids tm \<longleftrightarrow>
     (\<forall>i key. ids i = Some key \<longrightarrow>
        i \<noteq> [] \<and> key \<in> dom tm \<and> (\<exists>t. key = delivered_time_key t i)) \<and>
     (\<forall>key. key \<in> dom tm \<longrightarrow> (\<exists>i. ids i = Some key))"

definition tx_inv :: "'b queue_env \<Rightarrow> 'b tx \<Rightarrow> bool" where
  "tx_inv E tx \<longleftrightarrow>
     index_inv E (tx_get E tx Events) (tx_get E tx Times) (tx_get E tx EventIDs)
       (tx_get E tx EventSeqs) \<and>
     meta_inv (tx_get E tx Events) (tx_get E tx MetaB) \<and>
     delivered_inv (tx_get E tx DeliveredIDs) (tx_get E tx DeliveredTimes)"

section \<open>The invariant on maps\<close>

lemma index_inv_key: "index_inv E ev tm ids seqs \<Longrightarrow> ev k = Some v \<Longrightarrow> length k = 8"
  by (simp add: index_inv_def)

lemma index_inv_decodes: "index_inv E ev tm ids seqs \<Longrightarrow> ev k = Some v \<Longrightarrow> \<exists>e n. decodes E v e n"
  by (simp add: index_inv_def)

lemma index_inv_time:
  "index_inv E ev tm ids seqs \<Longrightarrow> key \<in> dom tm \<longleftrightarrow>
     (\<exists>k v e n. ev k = Some v \<and> decodes E v e n \<and> key = queue_time_key (CreatedAt e) k)"
  by (rule index_inv_def [THEN iffD1, THEN conjunct2, THEN conjunct1, THEN spec])

lemma index_inv_seqs:
  "index_inv E ev tm ids seqs \<Longrightarrow> seqs k = Some i \<longleftrightarrow>
     (\<exists>v e n. ev k = Some v \<and> decodes E v e n \<and> EventID e = i \<and> i \<noteq> [])"
  by (rule index_inv_def [THEN iffD1, THEN conjunct2, THEN conjunct2, THEN conjunct1, THEN spec, THEN spec])

lemma index_inv_ids: "index_inv E ev tm ids seqs \<Longrightarrow> ids i = Some k \<longleftrightarrow> seqs k = Some i"
  by (rule index_inv_def [THEN iffD1, THEN conjunct2, THEN conjunct2, THEN conjunct2, THEN spec, THEN spec])

lemma index_invI:
  assumes "\<And>k v. ev k = Some v \<Longrightarrow> length k = 8 \<and> (\<exists>e n. decodes E v e n)"
    and "\<And>key. key \<in> dom tm \<longleftrightarrow>
        (\<exists>k v e n. ev k = Some v \<and> decodes E v e n \<and> key = queue_time_key (CreatedAt e) k)"
    and "\<And>k i. seqs k = Some i \<longleftrightarrow>
        (\<exists>v e n. ev k = Some v \<and> decodes E v e n \<and> EventID e = i \<and> i \<noteq> [])"
    and "\<And>i k. ids i = Some k \<longleftrightarrow> seqs k = Some i"
  shows "index_inv E ev tm ids seqs"
  unfolding index_inv_def
  by (intro conjI allI impI assms assms(1) [THEN conjunct1] assms(1) [THEN conjunct2])

lemma index_inv_empty: "index_inv E Map.empty Map.empty Map.empty Map.empty"
  by (simp add: index_inv_def)

lemma index_inv_seq_of_id:
  assumes "index_inv E ev tm ids seqs" and "ev k = Some v" and "decodes E v e n"
  shows "seqs k = (if EventID e = [] then None else Some (EventID e))"
proof (cases "seqs k")
  case None
  with index_inv_seqs [OF assms(1), of k "EventID e"] assms(2,3) show ?thesis by auto
next
  case (Some i)
  with index_inv_seqs [OF assms(1), of k i] assms(2,3) show ?thesis by auto
qed

lemma index_inv_remove:
  assumes inv: "index_inv E ev tm ids seqs"
    and k: "ev k = Some v" "decodes E v e n"
  shows "index_inv E (ev(k := None)) (tm(queue_time_key (CreatedAt e) k := None))
           (case seqs k of None \<Rightarrow> ids | Some i \<Rightarrow> ids(i := None)) (seqs(k := None))"
proof (rule index_invI)
  fix k' v'
  assume "(ev(k := None)) k' = Some v'"
  then show "length k' = 8 \<and> (\<exists>e n. decodes E v' e n)"
    using index_inv_key [OF inv] index_inv_decodes [OF inv] by (auto split: if_splits)
next
  fix key
  have len: "length k = 8" using index_inv_key [OF inv k(1)] .
  show "key \<in> dom (tm(queue_time_key (CreatedAt e) k := None)) \<longleftrightarrow>
    (\<exists>k' v' e' n'. (ev(k := None)) k' = Some v' \<and> decodes E v' e' n' \<and> key = queue_time_key (CreatedAt e') k')"
    (is "?L \<longleftrightarrow> ?R")
  proof
    assume ?L
    then have key: "key \<in> dom tm" "key \<noteq> queue_time_key (CreatedAt e) k" by (auto split: if_splits)
    with index_inv_time [OF inv, of key] obtain k' v' e' n' where
      w: "ev k' = Some v'" "decodes E v' e' n'" "key = queue_time_key (CreatedAt e') k'" by blast
    with key k have "k' \<noteq> k" by auto
    with w show ?R by auto
  next
    assume ?R
    then obtain k' v' e' n' where w: "k' \<noteq> k" "ev k' = Some v'" "decodes E v' e' n'"
      "key = queue_time_key (CreatedAt e') k'" by (auto split: if_splits)
    then have "key \<in> dom tm" using index_inv_time [OF inv, of key] by blast
    moreover have "key \<noteq> queue_time_key (CreatedAt e) k"
      using w len index_inv_key [OF inv w(2)] by (simp add: queue_time_key_inject)
    ultimately show ?L by auto
  qed
next
  fix k' i
  show "(seqs(k := None)) k' = Some i \<longleftrightarrow>
    (\<exists>v' e' n'. (ev(k := None)) k' = Some v' \<and> decodes E v' e' n' \<and> EventID e' = i \<and> i \<noteq> [])"
    using index_inv_seqs [OF inv, of k' i] by (cases "k' = k") auto
next
  fix i k'
  show "(case seqs k of None \<Rightarrow> ids | Some i \<Rightarrow> ids(i := None)) i = Some k' \<longleftrightarrow> (seqs(k := None)) k' = Some i"
  proof (cases "seqs k")
    case None
    with index_inv_ids [OF inv, of i k'] show ?thesis by auto
  next
    case (Some j)
    have uniq: "seqs k' = Some j \<Longrightarrow> k' = k"
      using index_inv_ids [OF inv, of j k'] index_inv_ids [OF inv, of j k] Some by simp
    show ?thesis
    proof (cases "i = j")
      case True
      with uniq Some show ?thesis by auto
    next
      case False
      with Some index_inv_ids [OF inv, of i k'] show ?thesis by (cases "k' = k") simp_all
    qed
  qed
qed

lemma index_inv_insert:
  assumes inv: "index_inv E ev tm ids seqs"
    and k: "ev k = None" "length k = 8" "decodes E v e n"
    and new: "EventID e \<noteq> [] \<Longrightarrow> ids (EventID e) = None"
  shows "index_inv E (ev(k \<mapsto> v)) (tm(queue_time_key (CreatedAt e) k \<mapsto> x))
           (if EventID e = [] then ids else ids(EventID e \<mapsto> k))
           (if EventID e = [] then seqs else seqs(k \<mapsto> EventID e))"
proof (rule index_invI)
  fix k' v'
  assume "(ev(k \<mapsto> v)) k' = Some v'"
  then show "length k' = 8 \<and> (\<exists>e n. decodes E v' e n)"
    using index_inv_key [OF inv] index_inv_decodes [OF inv] k by (auto split: if_splits)
next
  fix key
  have "key \<in> dom tm \<Longrightarrow> \<exists>k' v' e' n'. k' \<noteq> k \<and> ev k' = Some v' \<and> decodes E v' e' n'
      \<and> key = queue_time_key (CreatedAt e') k'"
    using index_inv_time [OF inv, of key] k(1) by (metis option.distinct(1))
  then show "key \<in> dom (tm(queue_time_key (CreatedAt e) k \<mapsto> x)) \<longleftrightarrow>
    (\<exists>k' v' e' n'. (ev(k \<mapsto> v)) k' = Some v' \<and> decodes E v' e' n' \<and> key = queue_time_key (CreatedAt e') k')"
    using index_inv_time [OF inv, of key] k(3) by (auto split: if_splits)
next
  fix k' i
  have "seqs k = None" using index_inv_seqs [OF inv, of k] k(1) by (cases "seqs k") auto
  then show "(if EventID e = [] then seqs else seqs(k \<mapsto> EventID e)) k' = Some i \<longleftrightarrow>
    (\<exists>v' e' n'. (ev(k \<mapsto> v)) k' = Some v' \<and> decodes E v' e' n' \<and> EventID e' = i \<and> i \<noteq> [])"
    using index_inv_seqs [OF inv, of k' i] k by (cases "k' = k") auto
next
  fix i k'
  have "seqs k = None" using index_inv_seqs [OF inv, of k] k(1) by (cases "seqs k") auto
  then show "(if EventID e = [] then ids else ids(EventID e \<mapsto> k)) i = Some k' \<longleftrightarrow>
    (if EventID e = [] then seqs else seqs(k \<mapsto> EventID e)) k' = Some i"
    using index_inv_ids [OF inv, of i k'] index_inv_ids [OF inv, of "EventID e" k'] new
    by (cases "EventID e = []") auto
qed

section \<open>The laws of the environment\<close>

text \<open>
  \<open>queue_laws\<close> extends the laws of the store by what the queue needs of JSON: an event
  whose identifier is valid UTF-8 comes back with its identifier and its instant.
\<close>

locale queue_laws = bolt_laws "store E" for E :: "'b queue_env" +
  assumes json_event: "marshal_event E ev = Some b \<Longrightarrow> valid_utf8 (EventID ev) \<Longrightarrow>
      \<exists>ev'. unmarshal_event E b = Some ev' \<and> EventID ev' = EventID ev \<and> CreatedAt ev' = CreatedAt ev"

context queue_laws
begin

lemma tx_get_put:
  assumes "tx_put E n k v tx = Inr tx'"
  shows "tx_get E tx' m = (if m = n then (tx_get E tx n)(k \<mapsto> v) else tx_get E tx m)"
proof -
  obtain b where b: "b_put (store E) (tx n) k v = Inr b" "tx' = tx(n := b)"
    using assms by (auto simp: tx_put_def split: sum.splits)
  show ?thesis
    unfolding tx_get_def b(2) using get_put [OF b(1)] by (auto simp: fun_eq_iff)
qed

lemma tx_put_ok:
  assumes "k \<noteq> []" and "length k \<le> max_key_size" and "length v \<le> max_value_size"
  obtains tx' where "tx_put E n k v tx = Inr tx'"
    and "\<And>m. tx_get E tx' m = (if m = n then (tx_get E tx n)(k \<mapsto> v) else tx_get E tx m)"
proof -
  obtain b where "b_put (store E) (tx n) k v = Inr b" using put_ok [OF assms] by blast
  then have "tx_put E n k v tx = Inr (tx(n := b))" by (simp add: tx_put_def)
  then show thesis using that tx_get_put by blast
qed

lemma tx_get_del [bucket_simps]:
  "tx_get E (tx_del E n k tx) m = (if m = n then (tx_get E tx n)(k := None) else tx_get E tx m)"
  by (simp add: tx_get_def tx_del_def get_delete fun_eq_iff)

lemma tx_scan_iff: "(k, v) \<in> set (tx_scan E tx n) \<longleftrightarrow> tx_get E tx n k = Some v"
  by (simp add: tx_scan_def tx_get_def scan_iff)

lemma tx_finite: "finite (dom (tx_get E tx n))"
proof -
  have "tx_get E tx n = b_get (store E) (tx n)" by (rule ext) (simp add: tx_get_def)
  then show ?thesis by (simp add: finite_dom)
qed

lemma increment_queue_meta_ok:
  assumes "0 \<le> queue_meta_int64 E tx meta_count_key + cd" "queue_meta_int64 E tx meta_count_key + cd < 2 ^ 63"
    and "0 \<le> queue_meta_int64 E tx meta_bytes_key + bd" "queue_meta_int64 E tx meta_bytes_key + bd < 2 ^ 63"
  obtains tx' where "increment_queue_meta E cd bd tx = Inr tx'"
    and "\<And>m. m \<noteq> MetaB \<Longrightarrow> tx_get E tx' m = tx_get E tx m"
    and "sint (meta_word (tx_get E tx' MetaB) meta_count_key) = queue_meta_int64 E tx meta_count_key + cd"
    and "sint (meta_word (tx_get E tx' MetaB) meta_bytes_key) = queue_meta_int64 E tx meta_bytes_key + bd"
    and "meta_word (tx_get E tx' MetaB) meta_next_key = meta_word (tx_get E tx MetaB) meta_next_key"
    and "meta_word (tx_get E tx' MetaB) meta_event_ids_key = meta_word (tx_get E tx MetaB) meta_event_ids_key"
proof -
  define c where "c = queue_meta_int64 E tx meta_count_key + cd"
  define b where "b = queue_meta_int64 E tx meta_bytes_key + bd"
  have cb: "0 \<le> c" "c < 2 ^ 63" "0 \<le> b" "b < 2 ^ 63"
    unfolding c_def b_def by (fact assms)+
  have add: "add64 (queue_meta_int64 E tx meta_count_key) cd = c"
    "add64 (queue_meta_int64 E tx meta_bytes_key) bd = b"
    unfolding add64_def c_def [symmetric] b_def [symmetric]
    using cb by (simp_all add: wrap64_id in_int64_nonneg)
  have s: "sint (word_of_int c :: 64 word) = c" "sint (word_of_int b :: 64 word) = b"
    using cb by (simp_all add: sint_word_of_int wrap64_id in_int64_nonneg)
  obtain tx1 where tx1: "tx_put E MetaB meta_count_key (encode_uint64 (word_of_int c)) tx = Inr tx1"
    and g1: "\<And>m. tx_get E tx1 m = (if m = MetaB then (tx_get E tx MetaB)(meta_count_key \<mapsto> encode_uint64 (word_of_int c)) else tx_get E tx m)"
    by (rule tx_put_ok [where k = meta_count_key and n = MetaB and tx = tx and v = "encode_uint64 (word_of_int c)"])
       (auto simp: meta_count_key_def max_key_size_def max_value_size_def)
  obtain tx2 where tx2: "tx_put E MetaB meta_bytes_key (encode_uint64 (word_of_int b)) tx1 = Inr tx2"
    and g2: "\<And>m. tx_get E tx2 m = (if m = MetaB then (tx_get E tx1 MetaB)(meta_bytes_key \<mapsto> encode_uint64 (word_of_int b)) else tx_get E tx1 m)"
    by (rule tx_put_ok [where k = meta_bytes_key and n = MetaB and tx = tx1 and v = "encode_uint64 (word_of_int b)"])
       (auto simp: meta_bytes_key_def max_key_size_def max_value_size_def)
  have "increment_queue_meta E cd bd tx = Inr tx2"
    using cb tx1 tx2 by (simp add: increment_queue_meta_def Let_def add)
  then show thesis
    by (rule that) (simp_all add: g1 g2 meta_word_def meta_keys s, simp_all add: c_def b_def meta_keys)
qed

lemma delete_queued_event_missing:
  "tx_get E tx Events k = None \<Longrightarrow> delete_queued_event E k r tx = Inr tx"
  by (simp add: delete_queued_event_def)

lemma delete_queued_event_time_index:
  assumes "tx_get E tx Events k = Some v" and "decodes E v e n"
  shows "delete_queued_event E k False (tx_del E Times (queue_time_key (CreatedAt e) k) tx)
       = delete_queued_event E k True tx"
  using assms by (simp add: delete_queued_event_def bucket_simps)

end

end
