(* ===== verification/Queue_Invariant.thy ===== *)
theory Queue_Invariant
  imports Queue_Store
begin

text \<open>
  The invariant of the queue's buckets under delete and insert: the operation succeeds, the
  buckets change in exactly the described way, and buckets, indexes and counters still
  agree. The lemmas are stated in the locale of the environment's laws.
\<close>

section \<open>Costs and counters\<close>

lemma decodes_cost: "decodes E v e n \<Longrightarrow> stored_cost v = int (n + 1)"
  by (drule decode_queued_event_length) (simp add: stored_cost_def)

lemma decodes_fun: "decodes E v e n \<Longrightarrow> decodes E v e' n' \<Longrightarrow> e' = e \<and> n' = n"
  by simp

lemma queue_bytes_nonneg:
  "index_inv E ev tm ids seqs \<Longrightarrow> 0 \<le> queue_bytes ev"
  unfolding queue_bytes_def
proof (rule sum_nonneg)
  fix k assume inv: "index_inv E ev tm ids seqs" and "k \<in> dom ev"
  then obtain v where v: "ev k = Some v" by blast
  from index_inv_decodes [OF inv v] obtain e n where "decodes E v e n" by blast
  then show "0 \<le> stored_cost (the (ev k))" using v decodes_cost by fastforce
qed

lemma queue_bytes_remove:
  "finite (dom ev) \<Longrightarrow> ev k = Some v \<Longrightarrow> queue_bytes (ev(k := None)) = queue_bytes ev - stored_cost v"
  unfolding queue_bytes_def by (rule sum_fun_upd_None [where g = "\<lambda>k v. stored_cost v"])

lemma queue_bytes_insert:
  "finite (dom ev) \<Longrightarrow> ev k = None \<Longrightarrow> queue_bytes (ev(k \<mapsto> v)) = queue_bytes ev + stored_cost v"
  unfolding queue_bytes_def by (rule sum_fun_upd_new [where g = "\<lambda>k v. stored_cost v"])

lemma card_dom_remove: "finite (dom m) \<Longrightarrow> m k = Some v \<Longrightarrow> card (dom m) = Suc (card (dom (m(k := None))))"
  by (metis card_Suc_Diff1 dom_fun_upd domI)

lemma card_dom_insert: "finite (dom m) \<Longrightarrow> m k = None \<Longrightarrow> card (dom (m(k \<mapsto> v))) = Suc (card (dom m))"
  by (simp add: domIff)

lemma sint_less_2p63: "sint (w :: 64 word) < 2 ^ 63"
  using sint_lt [of w] by simp

lemma tx_invD:
  assumes "tx_inv E tx"
  shows tx_inv_index: "index_inv E (tx_get E tx Events) (tx_get E tx Times) (tx_get E tx EventIDs) (tx_get E tx EventSeqs)"
    and tx_inv_meta: "meta_inv (tx_get E tx Events) (tx_get E tx MetaB)"
    and tx_inv_delivered: "delivered_inv (tx_get E tx DeliveredIDs) (tx_get E tx DeliveredTimes)"
  using assms by (simp_all add: tx_inv_def)

lemma tx_inv_count:
  "tx_inv E tx \<Longrightarrow> queue_meta_int64 E tx meta_count_key = int (card (dom (tx_get E tx Events)))"
  by (simp add: tx_inv_def meta_inv_def queue_meta_int64_def meta_word_def)

lemma tx_inv_bytes:
  "tx_inv E tx \<Longrightarrow> queue_meta_int64 E tx meta_bytes_key = queue_bytes (tx_get E tx Events)"
  by (simp add: tx_inv_def meta_inv_def queue_meta_int64_def meta_word_def)

lemma tx_inv_finite: "tx_inv E tx \<Longrightarrow> finite (dom (tx_get E tx Events))"
  by (simp add: tx_inv_def meta_inv_def)

lemma tx_inv_bytes_bound: "tx_inv E tx \<Longrightarrow> queue_bytes (tx_get E tx Events) < 2 ^ 63"
  unfolding tx_inv_bytes [symmetric] queue_meta_int64_def by (rule sint_less_2p63)

lemma tx_inv_count_bound: "tx_inv E tx \<Longrightarrow> int (card (dom (tx_get E tx Events))) < 2 ^ 63"
  unfolding tx_inv_count [symmetric] queue_meta_int64_def by (rule sint_less_2p63)

text \<open>No more events than bytes: every record has at least one byte of cost.\<close>

lemma card_le_queue_bytes:
  assumes inv: "index_inv E ev tm ids seqs"
  shows "int (card (dom ev)) \<le> queue_bytes ev"
proof -
  have "1 \<le> stored_cost (the (ev k))" if "k \<in> dom ev" for k
  proof -
    from that obtain v where v: "ev k = Some v" by blast
    from index_inv_decodes [OF inv v] obtain e n where "decodes E v e n" by blast
    with v decodes_cost show ?thesis by fastforce
  qed
  then have "(\<Sum>k\<in>dom ev. 1) \<le> queue_bytes ev"
    unfolding queue_bytes_def by (intro sum_mono)
  then show ?thesis by simp
qed

section \<open>Delete\<close>

lemma encode_uint64_not_Nil [simp]: "encode_uint64 w \<noteq> []"
  using length_encode_uint64 [of w] by (metis list.size(3) zero_neq_numeral)

lemma queue_time_key_not_Nil [simp]: "queue_time_key t s \<noteq> []"
  using length_queue_time_key [of t s] by (metis list.size(3) zero_neq_numeral)

lemma word_succ_not_le: "(w :: 64 word) \<noteq> - 1 \<Longrightarrow> \<not> w + 1 \<le> w"
  using inc_less_eq_self_iff_eq [of w] by simp

lemma word_le_succ: "(w :: 64 word) \<noteq> - 1 \<Longrightarrow> w' \<le> w \<Longrightarrow> w' \<le> w + 1"
  using word_succ_not_le [of w] by (metis linorder_le_cases order_trans)

context queue_laws
begin

lemma put_id_indexes:
  assumes "length i \<le> max_key_size" "length i \<le> max_value_size"
    and "seq \<noteq> []" "length seq \<le> max_key_size" "length seq \<le> max_value_size"
  obtains tx' where "(if i \<noteq> [] then rbind (tx_put E EventIDs i seq tx) (tx_put E EventSeqs seq i) else Inr tx) = Inr tx'"
    and "\<And>m. tx_get E tx' m =
       (if m = EventIDs \<and> i \<noteq> [] then (tx_get E tx EventIDs)(i \<mapsto> seq)
        else if m = EventSeqs \<and> i \<noteq> [] then (tx_get E tx EventSeqs)(seq \<mapsto> i)
        else tx_get E tx m)"
proof (cases "i = []")
  case True
  then show thesis using that [of tx] by simp
next
  case False
  obtain tx1 where tx1: "tx_put E EventIDs i seq tx = Inr tx1"
    and g1: "\<And>m. tx_get E tx1 m = (if m = EventIDs then (tx_get E tx EventIDs)(i \<mapsto> seq) else tx_get E tx m)"
    using tx_put_ok [OF False assms(1,5)] by blast
  obtain tx2 where tx2: "tx_put E EventSeqs seq i tx1 = Inr tx2"
    and g2: "\<And>m. tx_get E tx2 m = (if m = EventSeqs then (tx_get E tx1 EventSeqs)(seq \<mapsto> i) else tx_get E tx1 m)"
    using tx_put_ok [OF assms(3,4,2)] by blast
  show thesis
    by (rule that [of tx2]) (use False tx1 tx2 in \<open>auto simp: g1 g2\<close>)
qed

lemma delete_queued_event_ok:
  assumes inv: "tx_inv E tx" and k: "tx_get E tx Events k = Some v" "decodes E v e n"
  obtains tx' where "delete_queued_event E k True tx = Inr tx'" and "tx_inv E tx'"
    and "tx_get E tx' Events = (tx_get E tx Events)(k := None)"
    and "tx_get E tx' Times = (tx_get E tx Times)(queue_time_key (CreatedAt e) k := None)"
    and "tx_get E tx' EventIDs = (if EventID e = [] then tx_get E tx EventIDs
           else (tx_get E tx EventIDs)(EventID e := None))"
    and "\<And>m. m \<in> {QuarantineB, DeliveredIDs, DeliveredTimes} \<Longrightarrow> tx_get E tx' m = tx_get E tx m"
    and "meta_word (tx_get E tx' MetaB) meta_next_key = meta_word (tx_get E tx MetaB) meta_next_key"
proof -
  note idx = tx_inv_index [OF inv] and fin = tx_inv_finite [OF inv]
  let ?ev = "tx_get E tx Events"
  let ?tk = "queue_time_key (CreatedAt e) k"
  have seqs: "tx_get E tx EventSeqs k = (if EventID e = [] then None else Some (EventID e))"
    by (rule index_inv_seq_of_id [OF idx k])
  have ids: "EventID e \<noteq> [] \<Longrightarrow> tx_get E tx EventIDs (EventID e) = Some k"
    using index_inv_ids [OF idx, of "EventID e" k] seqs by simp
  define tx3 where "tx3 = tx_del E Events k (if EventID e = [] then tx_del E Times ?tk tx
    else tx_del E EventSeqs k (tx_del E EventIDs (EventID e) (tx_del E Times ?tk tx)))"
  have step: "delete_queued_event E k True tx = increment_queue_meta E (- 1) (- int (n + 1)) tx3"
    using k seqs ids by (simp add: delete_queued_event_def tx3_def Let_def bucket_simps)
  have g3: "tx_get E tx3 Events = ?ev(k := None)"
      "tx_get E tx3 Times = (tx_get E tx Times)(?tk := None)"
      "tx_get E tx3 EventIDs = (if EventID e = [] then tx_get E tx EventIDs else (tx_get E tx EventIDs)(EventID e := None))"
      "tx_get E tx3 EventSeqs = (tx_get E tx EventSeqs)(k := None)"
      "\<And>m. m \<in> {QuarantineB, DeliveredIDs, DeliveredTimes, MetaB} \<Longrightarrow> tx_get E tx3 m = tx_get E tx m"
    using seqs by (auto simp: tx3_def bucket_simps fun_eq_iff)
  have cost: "stored_cost v = int (n + 1)" using k(2) by (rule decodes_cost)
  have idx': "index_inv E (?ev(k := None)) (tx_get E tx3 Times) (tx_get E tx3 EventIDs) (tx_get E tx3 EventSeqs)"
    using index_inv_remove [OF idx k] seqs by (simp add: g3 split: if_splits)
  have nonneg: "0 \<le> queue_bytes (?ev(k := None))" by (rule queue_bytes_nonneg [OF idx'])
  have m3: "queue_meta_int64 E tx3 key = queue_meta_int64 E tx key" for key
    by (simp add: queue_meta_int64_def g3)
  have c: "queue_meta_int64 E tx3 meta_count_key + (- 1) = int (card (dom (?ev(k := None))))"
    using card_dom_remove [OF fin k(1)] tx_inv_count [OF inv] by (simp add: m3)
  have b: "queue_meta_int64 E tx3 meta_bytes_key + (- int (n + 1)) = queue_bytes (?ev(k := None))"
    using queue_bytes_remove [OF fin k(1)] tx_inv_bytes [OF inv] cost by (simp add: m3)
  have bound: "int (card (dom (?ev(k := None)))) < 2 ^ 63" "queue_bytes (?ev(k := None)) < 2 ^ 63"
    using tx_inv_count_bound [OF inv] tx_inv_bytes_bound [OF inv] card_dom_remove [OF fin k(1)]
      queue_bytes_remove [OF fin k(1)] cost by simp_all
  obtain tx' where tx': "increment_queue_meta E (- 1) (- int (n + 1)) tx3 = Inr tx'"
    and fr: "\<And>m. m \<noteq> MetaB \<Longrightarrow> tx_get E tx' m = tx_get E tx3 m"
    and meta: "sint (meta_word (tx_get E tx' MetaB) meta_count_key) = int (card (dom (?ev(k := None))))"
      "sint (meta_word (tx_get E tx' MetaB) meta_bytes_key) = queue_bytes (?ev(k := None))"
      "meta_word (tx_get E tx' MetaB) meta_next_key = meta_word (tx_get E tx3 MetaB) meta_next_key"
      "meta_word (tx_get E tx' MetaB) meta_event_ids_key = meta_word (tx_get E tx3 MetaB) meta_event_ids_key"
    by (rule increment_queue_meta_ok [of tx3 "- 1" "- int (n + 1)"]) (use c b nonneg bound in auto)
  have "tx_inv E tx'"
    using inv idx' meta fin unfolding tx_inv_def meta_inv_def
    by (auto simp: fr g3)
  then show thesis
    by (rule that [of tx', rotated]) (use step tx' in \<open>auto simp: fr g3 meta\<close>)
qed

lemma put_id_indexesD:
  assumes "(if i \<noteq> [] then rbind (tx_put E EventIDs i seq tx) (tx_put E EventSeqs seq i) else Inr tx) = Inr tx'"
  shows "tx_get E tx' m =
       (if m = EventIDs \<and> i \<noteq> [] then (tx_get E tx EventIDs)(i \<mapsto> seq)
        else if m = EventSeqs \<and> i \<noteq> [] then (tx_get E tx EventSeqs)(seq \<mapsto> i)
        else tx_get E tx m)"
proof (cases "i = []")
  case True
  with assms show ?thesis by simp
next
  case False
  with assms obtain tx1 where "tx_put E EventIDs i seq tx = Inr tx1" "tx_put E EventSeqs seq i tx1 = Inr tx'"
    by auto
  with False show ?thesis by (simp add: tx_get_put)
qed

text \<open>
  The state of a stored event before the counters are raised: \<open>store_chain\<close> names the
  transaction after the four puts.
\<close>

lemma store_new_eventE:
  assumes "store_new_event E ev tx = Inr tx'"
  obtains encoded seq tx4 where "marshal_event E ev = Some encoded"
    and "seq = encode_uint64 (meta_word (tx_get E tx MetaB) meta_next_key + 1)"
    and "tx_get E tx4 Events = (tx_get E tx Events)(seq \<mapsto> encode_queued_event (CreatedAt ev) encoded)"
    and "tx_get E tx4 Times = (tx_get E tx Times)(queue_time_key (CreatedAt ev) seq \<mapsto> [])"
    and "tx_get E tx4 EventIDs = (if EventID ev = [] then tx_get E tx EventIDs
           else (tx_get E tx EventIDs)(EventID ev \<mapsto> seq))"
    and "tx_get E tx4 EventSeqs = (if EventID ev = [] then tx_get E tx EventSeqs
           else (tx_get E tx EventSeqs)(seq \<mapsto> EventID ev))"
    and "tx_get E tx4 MetaB = (tx_get E tx MetaB)(meta_next_key \<mapsto> seq)"
    and "\<And>m. m \<in> {QuarantineB, DeliveredIDs, DeliveredTimes} \<Longrightarrow> tx_get E tx4 m = tx_get E tx m"
    and "increment_queue_meta E 1 (int (length encoded + 1)) tx4 = Inr tx'"
proof -
  obtain encoded where enc: "marshal_event E ev = Some encoded"
    using assms by (auto simp: store_new_event_def split: option.splits)
  let ?seq = "encode_uint64 (decode_uint64 (tx_get E tx MetaB meta_next_key) + 1)"
  from assms enc obtain tx1 tx2 tx3 tx4 where
    p: "tx_put E MetaB meta_next_key ?seq tx = Inr tx1"
      "tx_put E Events ?seq (encode_queued_event (CreatedAt ev) encoded) tx1 = Inr tx2"
      "tx_put E Times (queue_time_key (CreatedAt ev) ?seq) [] tx2 = Inr tx3"
      "(if EventID ev \<noteq> [] then rbind (tx_put E EventIDs (EventID ev) ?seq tx3)
        (tx_put E EventSeqs ?seq (EventID ev)) else Inr tx3) = Inr tx4"
      "increment_queue_meta E 1 (int (length encoded + 1)) tx4 = Inr tx'"
    by (auto simp: store_new_event_def next_queue_sequence_def Let_def rbind_eq_Inr_iff)
  note g = put_id_indexesD [OF p(4)] tx_get_put [OF p(3)] tx_get_put [OF p(2)] tx_get_put [OF p(1)]
  have seq: "?seq = encode_uint64 (meta_word (tx_get E tx MetaB) meta_next_key + 1)"
    by (simp add: meta_word_def)
  show thesis
    by (rule that [OF enc seq _ _ _ _ _ _ p(5)]) (auto simp: g)
qed

lemma store_new_event_inv:
  assumes inv: "tx_inv E tx" and utf8: "valid_utf8 (EventID ev)"
    and new: "EventID ev \<noteq> [] \<Longrightarrow> tx_get E tx EventIDs (EventID ev) = None"
    and next_room: "meta_word (tx_get E tx MetaB) meta_next_key \<noteq> - 1"
    and byte_room: "\<And>encoded. marshal_event E ev = Some encoded \<Longrightarrow>
        queue_bytes (tx_get E tx Events) + int (length encoded + 1) < 2 ^ 63"
    and run: "store_new_event E ev tx = Inr tx'"
  obtains encoded seq where "tx_inv E tx'" and "marshal_event E ev = Some encoded"
    and "seq = encode_uint64 (meta_word (tx_get E tx MetaB) meta_next_key + 1)"
    and "tx_get E tx Events seq = None"
    and "tx_get E tx' Events = (tx_get E tx Events)(seq \<mapsto> encode_queued_event (CreatedAt ev) encoded)"
    and "tx_get E tx' EventIDs = (if EventID ev = [] then tx_get E tx EventIDs
           else (tx_get E tx EventIDs)(EventID ev \<mapsto> seq))"
    and "\<And>m. m \<in> {QuarantineB, DeliveredIDs, DeliveredTimes} \<Longrightarrow> tx_get E tx' m = tx_get E tx m"
    and "meta_word (tx_get E tx' MetaB) meta_next_key = meta_word (tx_get E tx MetaB) meta_next_key + 1"
    and "queue_bytes (tx_get E tx' Events) = queue_bytes (tx_get E tx Events) + int (length encoded + 1)"
proof -
  note idx = tx_inv_index [OF inv] and fin = tx_inv_finite [OF inv]
  let ?ev = "tx_get E tx Events"
  let ?next = "meta_word (tx_get E tx MetaB) meta_next_key"
  obtain encoded seq tx4 where enc: "marshal_event E ev = Some encoded"
    and seq: "seq = encode_uint64 (?next + 1)"
    and g: "tx_get E tx4 Events = ?ev(seq \<mapsto> encode_queued_event (CreatedAt ev) encoded)"
      "tx_get E tx4 Times = (tx_get E tx Times)(queue_time_key (CreatedAt ev) seq \<mapsto> [])"
      "tx_get E tx4 EventIDs = (if EventID ev = [] then tx_get E tx EventIDs
           else (tx_get E tx EventIDs)(EventID ev \<mapsto> seq))"
      "tx_get E tx4 EventSeqs = (if EventID ev = [] then tx_get E tx EventSeqs
           else (tx_get E tx EventSeqs)(seq \<mapsto> EventID ev))"
      "tx_get E tx4 MetaB = (tx_get E tx MetaB)(meta_next_key \<mapsto> seq)"
      "\<And>m. m \<in> {QuarantineB, DeliveredIDs, DeliveredTimes} \<Longrightarrow> tx_get E tx4 m = tx_get E tx m"
    and inc: "increment_queue_meta E 1 (int (length encoded + 1)) tx4 = Inr tx'"
    by (rule store_new_eventE [OF run]) (rule that; (assumption | blast))
  let ?v = "encode_queued_event (CreatedAt ev) encoded"
  have fresh: "?ev seq = None"
  proof (rule ccontr)
    assume "?ev seq \<noteq> None"
    then have "seq \<in> dom ?ev" by blast
    with tx_inv_meta [OF inv] have "?next + 1 \<le> ?next"
      unfolding meta_inv_def seq by force
    with next_room show False by (simp add: word_succ_not_le)
  qed
  obtain e' where e': "unmarshal_event E encoded = Some e'" "EventID e' = EventID ev" "CreatedAt e' = CreatedAt ev"
    using json_event [OF enc utf8] by blast
  have dec: "decodes E ?v e' (length encoded)" by (rule decode_encode_queued_event [OF e'(1)])
  have idx': "index_inv E (?ev(seq \<mapsto> ?v)) (tx_get E tx4 Times) (tx_get E tx4 EventIDs) (tx_get E tx4 EventSeqs)"
    using index_inv_insert [OF idx fresh _ dec, of "[]"] new e'
    by (simp add: g seq split: if_splits)
  have bytes: "queue_bytes (?ev(seq \<mapsto> ?v)) = queue_bytes ?ev + int (length encoded + 1)"
    using queue_bytes_insert [OF fin fresh, of ?v] by (simp add: stored_cost_def)
  have m4: "queue_meta_int64 E tx4 meta_count_key = int (card (dom ?ev))"
      "queue_meta_int64 E tx4 meta_bytes_key = queue_bytes ?ev"
    using tx_inv_count [OF inv] tx_inv_bytes [OF inv]
    by (simp_all add: queue_meta_int64_def g meta_keys)
  have c: "int (card (dom ?ev)) + 1 = int (card (dom (?ev(seq \<mapsto> ?v))))"
    using card_dom_insert [OF fin fresh, of ?v] by simp
  have cle: "int (card (dom (?ev(seq \<mapsto> ?v)))) \<le> queue_bytes (?ev(seq \<mapsto> ?v))"
    by (rule card_le_queue_bytes [OF idx'])
  obtain tx'' where tx'': "increment_queue_meta E 1 (int (length encoded + 1)) tx4 = Inr tx''"
    and fr'': "\<And>m. m \<noteq> MetaB \<Longrightarrow> tx_get E tx'' m = tx_get E tx4 m"
    and meta'': "sint (meta_word (tx_get E tx'' MetaB) meta_count_key) = int (card (dom (?ev(seq \<mapsto> ?v))))"
      "sint (meta_word (tx_get E tx'' MetaB) meta_bytes_key) = queue_bytes (?ev(seq \<mapsto> ?v))"
      "meta_word (tx_get E tx'' MetaB) meta_next_key = meta_word (tx_get E tx4 MetaB) meta_next_key"
      "meta_word (tx_get E tx'' MetaB) meta_event_ids_key = meta_word (tx_get E tx4 MetaB) meta_event_ids_key"
    by (rule increment_queue_meta_ok [of tx4 1 "int (length encoded + 1)"])
       (use c bytes cle byte_room [OF enc] queue_bytes_nonneg [OF idx'] in \<open>auto simp: m4\<close>)
  have "tx'' = tx'" using tx'' inc by simp
  note fr = fr'' [unfolded this] and meta = meta'' [unfolded this]
  have next4: "meta_word (tx_get E tx4 MetaB) meta_next_key = ?next + 1"
      "meta_word (tx_get E tx4 MetaB) meta_event_ids_key = meta_word (tx_get E tx MetaB) meta_event_ids_key"
    by (simp_all add: g meta_word_def meta_keys seq)
  have keys: "\<forall>k\<in>dom (?ev(seq \<mapsto> ?v)). \<exists>w. k = encode_uint64 w \<and> w \<le> ?next + 1"
    using tx_inv_meta [OF inv] word_le_succ [OF next_room] unfolding meta_inv_def seq by force
  have evs: "tx_get E tx' Events = ?ev(seq \<mapsto> ?v)" by (simp add: fr g)
  have inv': "tx_inv E tx'"
    using inv idx' meta keys fin unfolding tx_inv_def meta_inv_def evs next4
    by (simp add: fr g)
  show thesis
    by (rule that [OF inv' enc seq fresh evs]) (use meta(3) next4(1) bytes in \<open>auto simp: fr g evs\<close>)
qed

lemma store_new_event_progress:
  assumes inv: "tx_inv E tx" and enc: "marshal_event E ev = Some encoded"
    and size: "length (EventID ev) \<le> max_key_size" "length encoded + 8 \<le> max_value_size"
    and room: "queue_bytes (tx_get E tx Events) + int (length encoded + 1) < 2 ^ 63"
  shows "\<exists>tx'. store_new_event E ev tx = Inr tx'"
proof -
  let ?next = "meta_word (tx_get E tx MetaB) meta_next_key"
  define seq where "seq = encode_uint64 (?next + 1)"
  let ?v = "encode_queued_event (CreatedAt ev) encoded"
  let ?tk = "queue_time_key (CreatedAt ev) seq"
  have seq8: "length seq = 8" "seq \<noteq> []" by (simp_all add: seq_def)
  have meta_key: "meta_next_key \<noteq> []" "length meta_next_key \<le> max_key_size"
    by (simp_all add: meta_next_key_def max_key_size_def)
  obtain tx1 where tx1: "tx_put E MetaB meta_next_key seq tx = Inr tx1"
    and g1: "\<And>m. tx_get E tx1 m = (if m = MetaB then (tx_get E tx MetaB)(meta_next_key \<mapsto> seq) else tx_get E tx m)"
    using tx_put_ok [OF meta_key, of seq] seq8 by (auto simp: max_value_size_def)
  obtain tx2 where tx2: "tx_put E Events seq ?v tx1 = Inr tx2"
    and g2: "\<And>m. tx_get E tx2 m = (if m = Events then (tx_get E tx1 Events)(seq \<mapsto> ?v) else tx_get E tx1 m)"
    using tx_put_ok [OF seq8(2), of ?v] seq8 size by (auto simp: max_key_size_def)
  obtain tx3 where tx3: "tx_put E Times ?tk [] tx2 = Inr tx3"
    and g3: "\<And>m. tx_get E tx3 m = (if m = Times then (tx_get E tx2 Times)(?tk \<mapsto> []) else tx_get E tx2 m)"
    using tx_put_ok [of ?tk "[]"] by (auto simp: max_key_size_def)
  obtain tx4 where tx4: "(if EventID ev \<noteq> [] then rbind (tx_put E EventIDs (EventID ev) seq tx3)
        (tx_put E EventSeqs seq (EventID ev)) else Inr tx3) = Inr tx4"
    and g4: "\<And>m. tx_get E tx4 m =
       (if m = EventIDs \<and> EventID ev \<noteq> [] then (tx_get E tx3 EventIDs)(EventID ev \<mapsto> seq)
        else if m = EventSeqs \<and> EventID ev \<noteq> [] then (tx_get E tx3 EventSeqs)(seq \<mapsto> EventID ev)
        else tx_get E tx3 m)"
    by (rule put_id_indexes [of "EventID ev" seq tx3])
       (use size seq8 in \<open>auto simp: max_value_size_def max_key_size_def\<close>)
  have m4: "queue_meta_int64 E tx4 meta_count_key = int (card (dom (tx_get E tx Events)))"
      "queue_meta_int64 E tx4 meta_bytes_key = queue_bytes (tx_get E tx Events)"
    using tx_inv_count [OF inv] tx_inv_bytes [OF inv]
    by (simp_all add: queue_meta_int64_def g4 g3 g2 g1 meta_keys)
  obtain tx' where tx': "increment_queue_meta E 1 (int (length encoded + 1)) tx4 = Inr tx'"
    by (rule increment_queue_meta_ok [of tx4 1 "int (length encoded + 1)"])
       (use room card_le_queue_bytes [OF tx_inv_index [OF inv]] queue_bytes_nonneg [OF tx_inv_index [OF inv]]
        in \<open>auto simp: m4\<close>)
  have "store_new_event E ev tx = Inr tx'"
    using enc tx1 tx2 tx3 tx4 tx'
    by (cases "EventID ev = []")
       (simp_all add: store_new_event_def next_queue_sequence_def Let_def seq_def meta_word_def)
  then show ?thesis by blast
qed

end

end
