(* ===== verification/Queue_Retention.thy ===== *)
theory Queue_Retention
  imports Queue_Invariant
begin

text \<open>
  \<open>queue_retention.go\<close> and the clock and limits of \<open>queue.go\<close>: the queue drops events
  older than its age limit and evicts the oldest events beyond its byte limit. Each Go loop
  reads the first entry of the time index again and again; here the loops carry a fuel of
  one more than the entries of that index, which the lemmas show to be enough, because every
  round deletes one entry. One reading of the clock serves a whole transaction.
\<close>

section \<open>Limits\<close>

record queue =
  q_now :: time
  q_maxAge :: int
  q_maxBytes :: int
  q_lockTimeout :: int

definition queue_max_age :: int where
  "queue_max_age = 30 * 24 * nanos_per_hour"

definition queue_max_bytes :: int where
  "queue_max_bytes = 512 * 1024 * 1024"

definition default_queue_lock_timeout :: int where
  "default_queue_lock_timeout = 5 * nanos_per_second"

definition queue_drain_batch_size :: nat where
  "queue_drain_batch_size = 500"

definition new_queue :: "time \<Rightarrow> queue" where
  "new_queue now =
     \<lparr>q_now = now, q_maxAge = queue_max_age, q_maxBytes = queue_max_bytes,
      q_lockTimeout = default_queue_lock_timeout\<rparr>"

definition effective_lock_timeout :: "queue \<Rightarrow> int" where
  "effective_lock_timeout q =
     (if q_lockTimeout q > 0 then q_lockTimeout q else default_queue_lock_timeout)"

definition cutoff :: "queue \<Rightarrow> time" where
  "cutoff q = q_now q - (if q_maxAge q \<le> 0 then queue_max_age else q_maxAge q)"

definition effective_max_bytes :: "queue \<Rightarrow> int" where
  "effective_max_bytes q = (if q_maxBytes q > 0 then q_maxBytes q else queue_max_bytes)"

section \<open>Loops\<close>

fun prune_delivered_loop :: "'b queue_env \<Rightarrow> time \<Rightarrow> nat \<Rightarrow> 'b tx \<Rightarrow> queue_error + 'b tx" where
  "prune_delivered_loop E bound 0 tx = Inl OutOfFuel"
| "prune_delivered_loop E bound (Suc fuel) tx =
     (case tx_scan E tx DeliveredTimes of
        [] \<Rightarrow> Inr tx
      | (key, _) # _ \<Rightarrow>
          rbind (decode_delivered_time_key key) (\<lambda>(deliveredAt, eventID).
            if \<not> deliveredAt < bound then Inr tx
            else prune_delivered_loop E bound fuel
              (tx_del E DeliveredTimes key
                (if tx_get E tx DeliveredIDs eventID = Some key
                 then tx_del E DeliveredIDs eventID tx else tx))))"

definition prune_delivered_event_ids :: "'b queue_env \<Rightarrow> time \<Rightarrow> 'b tx \<Rightarrow> queue_error + 'b tx" where
  "prune_delivered_event_ids E bound tx =
     prune_delivered_loop E bound (Suc (length (tx_scan E tx DeliveredTimes))) tx"

fun prune_loop :: "'b queue_env \<Rightarrow> time \<Rightarrow> nat \<Rightarrow> nat \<Rightarrow> 'b tx \<Rightarrow> queue_error + 'b tx \<times> nat" where
  "prune_loop E bound 0 removed tx = Inl OutOfFuel"
| "prune_loop E bound (Suc fuel) removed tx =
     (case tx_scan E tx Times of
        [] \<Rightarrow> Inr (tx, removed)
      | (key, _) # _ \<Rightarrow>
          rbind (decode_queue_time_key key) (\<lambda>(createdAt, sequence).
            if \<not> createdAt < bound then Inr (tx, removed)
            else rbind (delete_queued_event E sequence False (tx_del E Times key tx)) (\<lambda>tx1.
              prune_loop E bound fuel (Suc removed) tx1)))"

definition prune_expired :: "'b queue_env \<Rightarrow> queue \<Rightarrow> 'b tx \<Rightarrow> queue_error + 'b tx \<times> nat" where
  "prune_expired E q tx =
     rbind (prune_delivered_event_ids E (cutoff q) tx) (\<lambda>tx1.
       prune_loop E (cutoff q) (Suc (length (tx_scan E tx1 Times))) 0 tx1)"

fun evict_loop :: "'b queue_env \<Rightarrow> int \<Rightarrow> nat \<Rightarrow> nat \<Rightarrow> 'b tx \<Rightarrow> queue_error + 'b tx \<times> nat" where
  "evict_loop E limit 0 removed tx = Inl OutOfFuel"
| "evict_loop E limit (Suc fuel) removed tx =
     (if queue_meta_int64 E tx meta_bytes_key > limit
      then case tx_scan E tx Times of
             [] \<Rightarrow> Inr (tx, removed)
           | (key, _) # _ \<Rightarrow>
               rbind (decode_queue_time_key key) (\<lambda>(_, sequence).
                 rbind (delete_queued_event E sequence False (tx_del E Times key tx)) (\<lambda>tx1.
                   evict_loop E limit fuel (Suc removed) tx1))
      else Inr (tx, removed))"

definition evict_over_capacity :: "'b queue_env \<Rightarrow> queue \<Rightarrow> 'b tx \<Rightarrow> queue_error + 'b tx \<times> nat" where
  "evict_over_capacity E q tx =
     evict_loop E (effective_max_bytes q) (Suc (length (tx_scan E tx Times))) 0 tx"

section \<open>What is in the queue\<close>

text \<open>
  \<open>queued E tx k ev\<close>: the event \<open>ev\<close> is stored under the sequence key \<open>k\<close>. The time
  index orders events by \<open>wrap64\<close> of their instant, then by sequence.
\<close>

definition queued :: "'b queue_env \<Rightarrow> 'b tx \<Rightarrow> string \<Rightarrow> event \<Rightarrow> bool" where
  "queued E tx k ev \<longleftrightarrow> (\<exists>v n. tx_get E tx Events k = Some v \<and> decodes E v ev n)"

definition stamp :: "event \<Rightarrow> time" where
  "stamp ev = wrap64 (CreatedAt ev)"

definition same_history :: "'b queue_env \<Rightarrow> 'b tx \<Rightarrow> 'b tx \<Rightarrow> bool" where
  "same_history E tx tx' \<longleftrightarrow>
     (\<forall>m\<in>{QuarantineB, DeliveredIDs, DeliveredTimes}. tx_get E tx' m = tx_get E tx m) \<and>
     meta_word (tx_get E tx' MetaB) meta_next_key = meta_word (tx_get E tx MetaB) meta_next_key"

lemma same_history_refl [simp]: "same_history E tx tx"
  by (simp add: same_history_def)

lemma same_history_trans [trans]:
  "same_history E a b \<Longrightarrow> same_history E b c \<Longrightarrow> same_history E a c"
  by (simp add: same_history_def)

lemma map_le_queue_bytes:
  assumes inv: "index_inv E ev tm ids seqs" and sub: "ev' \<subseteq>\<^sub>m ev" and fin: "finite (dom ev)"
  shows "queue_bytes ev' \<le> queue_bytes ev"
proof -
  have dom: "dom ev' \<subseteq> dom ev" using sub by (rule map_le_implies_dom_le)
  have "queue_bytes ev' = (\<Sum>k\<in>dom ev'. stored_cost (the (ev k)))"
    unfolding queue_bytes_def by (rule sum.cong) (use sub in \<open>auto simp: map_le_def\<close>)
  also have "\<dots> \<le> queue_bytes ev"
    unfolding queue_bytes_def
  proof (rule sum_mono2 [OF fin dom])
    fix k assume "k \<in> dom ev - dom ev'"
    then obtain v where v: "ev k = Some v" by blast
    from index_inv_decodes [OF inv v] obtain e n where "decodes E v e n" by blast
    then show "0 \<le> stored_cost (the (ev k))" using v decodes_cost by fastforce
  qed
  finally show ?thesis .
qed

lemma queued_fun: "queued E tx k ev \<Longrightarrow> queued E tx k ev' \<Longrightarrow> ev' = ev"
  by (auto simp: queued_def)

section \<open>The loops under the laws\<close>

context queue_laws
begin

lemma queued_iff_dom:
  "tx_inv E tx \<Longrightarrow> k \<in> dom (tx_get E tx Events) \<longleftrightarrow> (\<exists>ev. queued E tx k ev)"
  using index_inv_decodes [OF tx_inv_index] by (fastforce simp: queued_def)

text \<open>One round: the first entry of the time index is the oldest event, and it is deleted.\<close>

lemma first_time_entry:
  assumes inv: "tx_inv E tx" and scan: "tx_scan E tx Times = (key, x) # rest"
  obtains k v e n where "tx_get E tx Events k = Some v" and "decodes E v e n"
    and "key = queue_time_key (CreatedAt e) k" and "length k = 8"
    and "\<And>k' e'. queued E tx k' e' \<Longrightarrow> stamp e < stamp e' \<or> (stamp e = stamp e' \<and> k \<le> k')"
proof -
  note idx = tx_inv_index [OF inv]
  have "tx_get E tx Times key = Some x"
    using scan_hd_least(1) [of "tx Times" key x rest] scan by (simp add: tx_scan_def tx_get_def)
  then have "key \<in> dom (tx_get E tx Times)" by blast
  then obtain k v e n where w: "tx_get E tx Events k = Some v" "decodes E v e n"
    "key = queue_time_key (CreatedAt e) k" using index_inv_time [OF idx] by blast
  have len: "length k = 8" by (rule index_inv_key [OF idx w(1)])
  have least: "stamp e < stamp e' \<or> (stamp e = stamp e' \<and> k \<le> k')" if "queued E tx k' e'" for k' e'
  proof -
    from that obtain v' n' where w': "tx_get E tx Events k' = Some v'" "decodes E v' e' n'"
      by (auto simp: queued_def)
    then have "queue_time_key (CreatedAt e') k' \<in> dom (tx_get E tx Times)"
      using index_inv_time [OF idx] by blast
    then have "key \<le> queue_time_key (CreatedAt e') k'"
      using scan_hd_least(2) [of "tx Times" key x rest] scan by (auto simp: tx_scan_def tx_get_def)
    moreover have "length k' = 8" by (rule index_inv_key [OF idx w'(1)])
    ultimately have "\<not> queue_time_key (CreatedAt e') k' < queue_time_key (CreatedAt e) k"
      by (simp add: w(3))
    then show ?thesis
      using len \<open>length k' = 8\<close> by (auto simp: queue_time_key_less stamp_def not_less)
  qed
  show thesis by (rule that [OF w len least])
qed

lemma drop_first_entry:
  assumes inv: "tx_inv E tx" and scan: "tx_scan E tx Times = (key, x) # rest"
  obtains k e tx1 where "decode_queue_time_key key = Inr (stamp e, k)"
    and "delete_queued_event E k False (tx_del E Times key tx) = Inr tx1"
    and "tx_inv E tx1" and "queued E tx k e"
    and "tx_get E tx1 Events = (tx_get E tx Events)(k := None)"
    and "\<And>k' e'. queued E tx k' e' \<Longrightarrow> stamp e < stamp e' \<or> (stamp e = stamp e' \<and> k \<le> k')"
    and "same_history E tx tx1"
    and "Suc (length (tx_scan E tx1 Times)) = length (tx_scan E tx Times)"
proof -
  obtain k v e n where w: "tx_get E tx Events k = Some v" "decodes E v e n"
    and key: "key = queue_time_key (CreatedAt e) k" and len: "length k = 8"
    and least: "\<And>k' e'. queued E tx k' e' \<Longrightarrow> stamp e < stamp e' \<or> (stamp e = stamp e' \<and> k \<le> k')"
    by (rule first_time_entry [OF inv scan]) (rule that; (assumption | blast))
  obtain tx1 where tx1: "delete_queued_event E k True tx = Inr tx1" "tx_inv E tx1"
    and ev: "tx_get E tx1 Events = (tx_get E tx Events)(k := None)"
    and tm: "tx_get E tx1 Times = (tx_get E tx Times)(queue_time_key (CreatedAt e) k := None)"
    and fr: "\<And>m. m \<in> {QuarantineB, DeliveredIDs, DeliveredTimes} \<Longrightarrow> tx_get E tx1 m = tx_get E tx m"
    and nx: "meta_word (tx_get E tx1 MetaB) meta_next_key = meta_word (tx_get E tx MetaB) meta_next_key"
    by (rule delete_queued_event_ok [OF inv w]) (rule that; (assumption | blast))
  have "dom (tx_get E tx1 Times) = dom (tx_get E tx Times) - {key}"
    by (simp add: tm key)
  moreover have "key \<in> dom (tx_get E tx Times)"
    using scan_hd_least(1) [of "tx Times" key x rest] scan by (auto simp: tx_scan_def tx_get_def)
  moreover have cards: "length (tx_scan E t Times) = card (dom (tx_get E t Times))" for t
    unfolding tx_scan_def length_scan by (simp add: tx_get_def dom_def)
  ultimately have sc: "Suc (length (tx_scan E tx1 Times)) = length (tx_scan E tx Times)"
    by (metis card_Suc_Diff1 tx_finite)
  show thesis
  proof (rule that [OF _ _ tx1(2) _ ev least _ sc])
    show "decode_queue_time_key key = Inr (stamp e, k)"
      using len by (simp add: key decode_queue_time_key_key stamp_def)
    show "delete_queued_event E k False (tx_del E Times key tx) = Inr tx1"
      using tx1 by (simp add: key delete_queued_event_time_index [OF w])
    show "queued E tx k e" using w by (auto simp: queued_def)
    show "same_history E tx tx1" using fr nx by (simp add: same_history_def)
  qed
qed

lemma queued_remove:
  assumes "tx_get E tx1 Events = (tx_get E tx Events)(k := None)"
  shows "queued E tx1 k' e' \<longleftrightarrow> k' \<noteq> k \<and> queued E tx k' e'"
  using assms by (auto simp: queued_def)

text \<open>
  Pruning removes exactly the events older than the cutoff, keeps the invariant, and its
  fuel suffices.
\<close>

lemma prune_loop_ok:
  assumes "tx_inv E tx" and "length (tx_scan E tx Times) < fuel"
  shows "\<exists>tx' n. prune_loop E bound fuel removed tx = Inr (tx', n) \<and> tx_inv E tx' \<and> same_history E tx tx' \<and>
    tx_get E tx' Events \<subseteq>\<^sub>m tx_get E tx Events \<and>
    n = removed + card {k. \<exists>ev. queued E tx k ev \<and> stamp ev < bound} \<and>
    (\<forall>k ev. queued E tx' k ev \<longleftrightarrow> queued E tx k ev \<and> \<not> stamp ev < bound)"
  using assms
proof (induction fuel arbitrary: tx removed)
  case 0
  then show ?case by simp
next
  case (Suc fuel)
  show ?case
  proof (cases "tx_scan E tx Times")
    case Nil
    have "\<not> queued E tx k ev" for k ev
    proof
      assume "queued E tx k ev"
      then obtain key where "key \<in> dom (tx_get E tx Times)"
        using index_inv_time [OF tx_inv_index [OF Suc.prems(1)]] by (fastforce simp: queued_def)
      then obtain y where "tx_get E tx Times key = Some y" by blast
      with Nil show False using tx_scan_iff [of key y tx Times] by simp
    qed
    with Nil Suc.prems show ?thesis by simp
  next
    case (Cons kv rest)
    obtain key x where kv: "kv = (key, x)" by force
    obtain k e tx1 where dk: "decode_queue_time_key key = Inr (stamp e, k)"
      and del: "delete_queued_event E k False (tx_del E Times key tx) = Inr tx1"
      and inv1: "tx_inv E tx1" and q: "queued E tx k e"
      and ev: "tx_get E tx1 Events = (tx_get E tx Events)(k := None)"
      and least: "\<And>k' e'. queued E tx k' e' \<Longrightarrow> stamp e < stamp e' \<or> (stamp e = stamp e' \<and> k \<le> k')"
      and hist: "same_history E tx tx1"
      and sc: "Suc (length (tx_scan E tx1 Times)) = length (tx_scan E tx Times)"
      by (rule drop_first_entry [OF Suc.prems(1) Cons [unfolded kv]]) (rule that; (assumption | blast))
    note q1 = queued_remove [OF ev]
    show ?thesis
    proof (cases "stamp e < bound")
      case False
      then have none: "\<not> stamp e' < bound" if "queued E tx k' e'" for k' e'
        using least [OF that] by auto
      then have empty: "{k. \<exists>ev. queued E tx k ev \<and> stamp ev < bound} = {}" by blast
      have "prune_loop E bound (Suc fuel) removed tx = Inr (tx, removed)"
        using False Cons kv dk by simp
      then show ?thesis unfolding empty using none Suc.prems(1) by auto
    next
      case True
      from Suc.IH [OF inv1, of "Suc removed"] sc Suc.prems(2) obtain tx' n where
        ih: "prune_loop E bound fuel (Suc removed) tx1 = Inr (tx', n)" "tx_inv E tx'" "same_history E tx1 tx'"
          and sub: "tx_get E tx' Events \<subseteq>\<^sub>m tx_get E tx1 Events" and ih':
          "n = Suc removed + card {k. \<exists>ev. queued E tx1 k ev \<and> stamp ev < bound}"
          "\<forall>k ev. queued E tx' k ev \<longleftrightarrow> queued E tx1 k ev \<and> \<not> stamp ev < bound" by auto
      have sub': "tx_get E tx' Events \<subseteq>\<^sub>m tx_get E tx Events"
        using sub unfolding ev by (rule map_le_trans) (rule upd_None_map_le)
      have set_eq: "{k. \<exists>ev. queued E tx k ev \<and> stamp ev < bound}
          = insert k {k. \<exists>ev. queued E tx1 k ev \<and> stamp ev < bound}"
        using q True by (auto simp: q1)
      have "{k. \<exists>ev. queued E tx1 k ev \<and> stamp ev < bound} \<subseteq> dom (tx_get E tx1 Events)"
        by (auto simp: queued_def)
      then have "finite {k. \<exists>ev. queued E tx1 k ev \<and> stamp ev < bound}"
        by (rule finite_subset) (rule tx_finite)
      moreover have "k \<notin> {k. \<exists>ev. queued E tx1 k ev \<and> stamp ev < bound}" by (simp add: q1)
      ultimately have card: "card {k. \<exists>ev. queued E tx k ev \<and> stamp ev < bound}
          = Suc (card {k. \<exists>ev. queued E tx1 k ev \<and> stamp ev < bound})" by (simp add: set_eq)
      have kept: "queued E tx' k' ev' \<longleftrightarrow> queued E tx k' ev' \<and> \<not> stamp ev' < bound" for k' ev'
      proof (cases "k' = k")
        case same: True
        show ?thesis using ih'(2) True queued_fun [OF q] by (auto simp: q1 same)
      next
        case False
        then show ?thesis using ih'(2) by (simp add: q1)
      qed
      have "prune_loop E bound (Suc fuel) removed tx = Inr (tx', n)"
        using True Cons kv dk del ih(1) by simp
      moreover have "n = removed + card {k. \<exists>ev. queued E tx k ev \<and> stamp ev < bound}"
        using ih'(1) card by simp
      ultimately show ?thesis
        using ih(2) same_history_trans [OF hist ih(3)] kept sub' by (intro exI conjI allI) assumption+
    qed
  qed
qed

text \<open>
  Eviction ends within the limit and takes the oldest events first: an evicted event comes
  before every event that is kept.
\<close>

lemma evict_loop_ok:
  assumes "tx_inv E tx" and "length (tx_scan E tx Times) < fuel" and "0 \<le> limit"
  shows "\<exists>tx' n. evict_loop E limit fuel removed tx = Inr (tx', n) \<and> tx_inv E tx' \<and> same_history E tx tx' \<and>
    queue_bytes (tx_get E tx' Events) \<le> limit \<and>
    queue_bytes (tx_get E tx' Events) \<le> queue_bytes (tx_get E tx Events) \<and>
    (\<forall>k ev. queued E tx' k ev \<longrightarrow> queued E tx k ev) \<and>
    (\<forall>k ev k' ev'. queued E tx' k ev \<longrightarrow> queued E tx k' ev' \<longrightarrow> \<not> queued E tx' k' ev' \<longrightarrow>
       stamp ev' < stamp ev \<or> (stamp ev' = stamp ev \<and> k' \<le> k))"
  using assms
proof (induction fuel arbitrary: tx removed)
  case 0
  then show ?case by simp
next
  case (Suc fuel)
  note bytes = tx_inv_bytes [OF Suc.prems(1)]
  show ?case
  proof (cases "queue_bytes (tx_get E tx Events) > limit")
    case False
    with Suc.prems bytes show ?thesis by auto
  next
    case over: True
    show ?thesis
    proof (cases "tx_scan E tx Times")
      case Nil
      have "\<not> queued E tx k ev" for k ev
      proof
        assume "queued E tx k ev"
        then obtain key where "key \<in> dom (tx_get E tx Times)"
          using index_inv_time [OF tx_inv_index [OF Suc.prems(1)]] by (fastforce simp: queued_def)
        then obtain y where "tx_get E tx Times key = Some y" by blast
        with Nil show False using tx_scan_iff [of key y tx Times] by simp
      qed
      then have "dom (tx_get E tx Events) = {}" using queued_iff_dom [OF Suc.prems(1)] by auto
      then have "queue_bytes (tx_get E tx Events) = 0" by (simp add: queue_bytes_def)
      with over Suc.prems(3) show ?thesis by simp
    next
      case (Cons kv rest)
      obtain key x where kv: "kv = (key, x)" by force
      obtain k e tx1 where dk: "decode_queue_time_key key = Inr (stamp e, k)"
        and del: "delete_queued_event E k False (tx_del E Times key tx) = Inr tx1"
        and inv1: "tx_inv E tx1" and q: "queued E tx k e"
        and ev: "tx_get E tx1 Events = (tx_get E tx Events)(k := None)"
        and least: "\<And>k' e'. queued E tx k' e' \<Longrightarrow> stamp e < stamp e' \<or> (stamp e = stamp e' \<and> k \<le> k')"
        and hist: "same_history E tx tx1"
        and sc: "Suc (length (tx_scan E tx1 Times)) = length (tx_scan E tx Times)"
        by (rule drop_first_entry [OF Suc.prems(1) Cons [unfolded kv]]) (rule that; (assumption | blast))
      note q1 = queued_remove [OF ev]
      from q obtain v n0 where "tx_get E tx Events k = Some v" "decodes E v e n0"
        by (auto simp: queued_def)
      then have less: "queue_bytes (tx_get E tx1 Events) \<le> queue_bytes (tx_get E tx Events)"
        using queue_bytes_remove [OF tx_finite] decodes_cost by (fastforce simp: ev)
      from Suc.IH [OF inv1, of "Suc removed"] sc Suc.prems(2,3) obtain tx' n where
        ih: "evict_loop E limit fuel (Suc removed) tx1 = Inr (tx', n)" "tx_inv E tx'" "same_history E tx1 tx'"
          "queue_bytes (tx_get E tx' Events) \<le> limit"
          "queue_bytes (tx_get E tx' Events) \<le> queue_bytes (tx_get E tx1 Events)"
          "\<forall>k ev. queued E tx' k ev \<longrightarrow> queued E tx1 k ev"
          "\<forall>k ev k' ev'. queued E tx' k ev \<longrightarrow> queued E tx1 k' ev' \<longrightarrow> \<not> queued E tx' k' ev' \<longrightarrow>
             stamp ev' < stamp ev \<or> (stamp ev' = stamp ev \<and> k' \<le> k)" by auto
      have order: "stamp ev' < stamp ev \<or> (stamp ev' = stamp ev \<and> k2 \<le> k1)"
        if a: "queued E tx' k1 ev" and b: "queued E tx k2 ev'" and c: "\<not> queued E tx' k2 ev'" for k1 ev k2 ev'
      proof (cases "k2 = k")
        case True
        with b q queued_fun have "ev' = e" by blast
        moreover have "queued E tx k1 ev" using ih(6) a q1 by blast
        ultimately show ?thesis using least [of k1 ev] True by simp
      next
        case False
        with b have "queued E tx1 k2 ev'" by (simp add: q1)
        with ih(7) a c show ?thesis by blast
      qed
      have "evict_loop E limit (Suc fuel) removed tx = Inr (tx', n)"
        using over bytes Cons kv dk del ih(1) by simp
      moreover have "queued E tx k1 ev" if "queued E tx' k1 ev" for k1 ev
        using ih(6) that q1 by blast
      moreover have "queue_bytes (tx_get E tx' Events) \<le> queue_bytes (tx_get E tx Events)"
        using ih(5) less by simp
      ultimately show ?thesis
        using ih(2,4) order same_history_trans [OF hist ih(3)] by (intro exI conjI allI impI) (assumption | blast)+
    qed
  qed
qed

lemma tx_inv_frame:
  assumes "tx_inv E tx" and "\<And>m. m \<notin> {DeliveredIDs, DeliveredTimes} \<Longrightarrow> tx_get E tx' m = tx_get E tx m"
    and "delivered_inv (tx_get E tx' DeliveredIDs) (tx_get E tx' DeliveredTimes)"
  shows "tx_inv E tx'"
  using assms by (simp add: tx_inv_def)

lemma delivered_inv_remove:
  assumes "delivered_inv ids tm" and "ids i = Some key"
  shows "delivered_inv (ids(i := None)) (tm(key := None))"
proof -
  have inj: "ids i' = Some key \<Longrightarrow> i' = i" for i'
    using assms unfolding delivered_inv_def by (metis delivered_time_key_inject)
  show ?thesis
    unfolding delivered_inv_def
  proof (intro conjI allI impI)
    fix i' key'
    assume a: "(ids(i := None)) i' = Some key'"
    then have b: "ids i' = Some key'" "i' \<noteq> i" by (auto split: if_splits)
    with assms(1) show "i' \<noteq> []" and "\<exists>t. key' = delivered_time_key t i'"
      unfolding delivered_inv_def by blast+
    have "key' \<in> dom tm" using assms(1) b unfolding delivered_inv_def by blast
    moreover have "key' \<noteq> key" using inj b by blast
    ultimately show "key' \<in> dom (tm(key := None))" by simp
  next
    fix key'
    assume "key' \<in> dom (tm(key := None))"
    then have "key' \<in> dom tm" "key' \<noteq> key" by auto
    with assms obtain i' where "ids i' = Some key'" unfolding delivered_inv_def by blast
    moreover have "i' \<noteq> i" using assms(2) \<open>key' \<noteq> key\<close> calculation by auto
    ultimately show "\<exists>i'. (ids(i := None)) i' = Some key'" by (intro exI [of _ i']) simp
  qed
qed

text \<open>\<open>delivered_before\<close>: the delivery of the identifier is recorded, at a time before the bound.\<close>

lemma prune_delivered_loop_ok:
  assumes "tx_inv E tx" and "length (tx_scan E tx DeliveredTimes) < fuel"
  shows "\<exists>tx'. prune_delivered_loop E bound fuel tx = Inr tx' \<and> tx_inv E tx' \<and>
    (\<forall>m. m \<notin> {DeliveredIDs, DeliveredTimes} \<longrightarrow> tx_get E tx' m = tx_get E tx m) \<and>
    (\<forall>i t. tx_get E tx' DeliveredIDs i = Some (delivered_time_key t i) \<longleftrightarrow>
       tx_get E tx DeliveredIDs i = Some (delivered_time_key t i) \<and> \<not> wrap64 t < bound)"
  using assms
proof (induction fuel arbitrary: tx)
  case 0
  then show ?case by simp
next
  case (Suc fuel)
  note dinv = tx_inv_delivered [OF Suc.prems(1)]
  show ?case
  proof (cases "tx_scan E tx DeliveredTimes")
    case Nil
    have "tx_get E tx DeliveredIDs i \<noteq> Some key" for i key
    proof
      assume "tx_get E tx DeliveredIDs i = Some key"
      then have "key \<in> dom (tx_get E tx DeliveredTimes)" using dinv by (simp add: delivered_inv_def)
      then obtain y where "tx_get E tx DeliveredTimes key = Some y" by blast
      with Nil show False using tx_scan_iff [of key y tx DeliveredTimes] by simp
    qed
    with Nil Suc.prems show ?thesis by simp
  next
    case (Cons kv rest)
    obtain key x where kv: "kv = (key, x)" by force
    have key: "tx_get E tx DeliveredTimes key = Some x"
      using scan_hd_least(1) [of "tx DeliveredTimes" key x rest] Cons kv
      by (simp add: tx_scan_def tx_get_def)
    then have "key \<in> dom (tx_get E tx DeliveredTimes)" by blast
    with dinv obtain i where i: "tx_get E tx DeliveredIDs i = Some key"
      unfolding delivered_inv_def by blast
    with dinv obtain t where t: "key = delivered_time_key t i" "i \<noteq> []"
      unfolding delivered_inv_def by blast
    have dec: "decode_delivered_time_key key = Inr (wrap64 t, i)"
      using t by (simp add: decode_delivered_time_key_key)
    have least: "wrap64 t \<le> wrap64 t'" if "tx_get E tx DeliveredIDs i' = Some (delivered_time_key t' i')" for i' t'
    proof -
      have "delivered_time_key t' i' \<in> dom (tx_get E tx DeliveredTimes)"
        using dinv that unfolding delivered_inv_def by blast
      then have "key \<le> delivered_time_key t' i'"
        using scan_hd_least(2) [of "tx DeliveredTimes" key x rest] Cons kv
        by (auto simp: tx_scan_def tx_get_def)
      then show ?thesis unfolding t(1) using delivered_time_key_less [of t' i' t i] by (auto simp: not_less)
    qed
    show ?thesis
    proof (cases "wrap64 t < bound")
      case False
      then have "\<not> wrap64 t' < bound" if "tx_get E tx DeliveredIDs i' = Some (delivered_time_key t' i')" for i' t'
        using least [OF that] by simp
      with False Cons kv dec Suc.prems show ?thesis by auto
    next
      case True
      define tx1 where "tx1 = tx_del E DeliveredTimes key (tx_del E DeliveredIDs i tx)"
      have g1: "tx_get E tx1 m = (if m = DeliveredTimes then (tx_get E tx DeliveredTimes)(key := None)
          else if m = DeliveredIDs then (tx_get E tx DeliveredIDs)(i := None) else tx_get E tx m)" for m
        by (simp add: tx1_def bucket_simps)
      have inv1: "tx_inv E tx1"
        by (rule tx_inv_frame [OF Suc.prems(1)]) (use delivered_inv_remove [OF dinv i] in \<open>simp_all add: g1\<close>)
      have "dom (tx_get E tx1 DeliveredTimes) = dom (tx_get E tx DeliveredTimes) - {key}" by (simp add: g1)
      moreover have "length (tx_scan E t DeliveredTimes) = card (dom (tx_get E t DeliveredTimes))" for t
        unfolding tx_scan_def length_scan by (simp add: tx_get_def dom_def)
      ultimately have "Suc (length (tx_scan E tx1 DeliveredTimes)) = length (tx_scan E tx DeliveredTimes)"
        using key by (metis card_Suc_Diff1 tx_finite domI)
      with Suc.IH [OF inv1] Suc.prems(2) obtain tx' where
        ih: "prune_delivered_loop E bound fuel tx1 = Inr tx'" "tx_inv E tx'"
          "\<forall>m. m \<notin> {DeliveredIDs, DeliveredTimes} \<longrightarrow> tx_get E tx' m = tx_get E tx1 m"
          "\<forall>i t. tx_get E tx' DeliveredIDs i = Some (delivered_time_key t i) \<longleftrightarrow>
             tx_get E tx1 DeliveredIDs i = Some (delivered_time_key t i) \<and> \<not> wrap64 t < bound" by auto
      have step: "prune_delivered_loop E bound (Suc fuel) tx = Inr tx'"
        using Cons kv dec True i ih(1) by (simp add: tx1_def)
      have "tx_get E tx' DeliveredIDs i' = Some (delivered_time_key t' i') \<longleftrightarrow>
          tx_get E tx DeliveredIDs i' = Some (delivered_time_key t' i') \<and> \<not> wrap64 t' < bound" for i' t'
        using ih(4) i t True by (auto simp: g1 delivered_time_key_inject)
      with step ih g1 show ?thesis by auto
    qed
  qed
qed

end

end
