(* ===== verification/Event_Queue.thy ===== *)
theory Event_Queue
  imports Queue_Retention
begin

text \<open>
  \<open>queue.go\<close>, \<open>queue_quarantine.go\<close> and the drain half of \<open>queue_store.go\<close>: the
  operations of the event queue. Each opens the database, runs one transaction and closes it;
  a transaction that fails, or whose commit fails, leaves the file as it was. Draining sends
  the events up to a watermark in batches, acknowledges what was accepted and moves what the
  control plane rejects for good into the quarantine bucket. The control plane is the
  function \<open>send\<close> on a state of its own; the drain lock is an argument that says whether it
  was taken; the queue is read afresh in every round, because its clock moves on.
\<close>

section \<open>Opening the database and running a transaction\<close>

definition open_queue :: "'b queue_env \<Rightarrow> 'b db \<Rightarrow> queue_error + 'b tx" where
  "open_queue E db =
     (case b_open_error (store E) db of
        Some e \<Rightarrow> Inl (StoreError e)
      | None \<Rightarrow>
          rbind (initialize_queue_buckets E db) (\<lambda>tx.
            case b_commit_error (store E) (Some \<circ> tx) of
              Some e \<Rightarrow> Inl (StoreError e)
            | None \<Rightarrow> Inr tx))"

definition db_update ::
  "'b queue_env \<Rightarrow> ('b tx \<Rightarrow> queue_error + 'b tx \<times> 'a) \<Rightarrow> 'b db \<Rightarrow> 'b db \<times> (queue_error + 'a)" where
  "db_update E f db =
     (case open_queue E db of
        Inl e \<Rightarrow> (db, Inl e)
      | Inr tx \<Rightarrow>
          (case f tx of
             Inl e \<Rightarrow> (Some \<circ> tx, Inl e)
           | Inr (tx', x) \<Rightarrow>
               (case b_commit_error (store E) (Some \<circ> tx') of
                  Some e \<Rightarrow> (Some \<circ> tx, Inl (StoreError e))
                | None \<Rightarrow> (Some \<circ> tx', Inr x))))"

section \<open>Statistics\<close>

record queue_stats =
  QueuedEvents :: int
  QueuedBytes :: int
  RemovedExpired :: nat
  RemovedDuplicate :: nat
  RemovedCapacity :: nat
  QuarantinedCount :: nat
  OldestQueuedAt :: time

definition zero_stats :: queue_stats where
  "zero_stats =
     \<lparr>QueuedEvents = 0, QueuedBytes = 0, RemovedExpired = 0, RemovedDuplicate = 0,
      RemovedCapacity = 0, QuarantinedCount = 0, OldestQueuedAt = zero_time\<rparr>"

definition queue_stats_from_tx :: "'b queue_env \<Rightarrow> 'b tx \<Rightarrow> queue_stats" where
  "queue_stats_from_tx E tx =
     zero_stats\<lparr>
       QueuedEvents := queue_meta_int64 E tx meta_count_key,
       QueuedBytes := queue_meta_int64 E tx meta_bytes_key,
       OldestQueuedAt :=
         (case tx_scan E tx Times of
            [] \<Rightarrow> zero_time
          | (key, _) # _ \<Rightarrow>
              (case decode_queue_time_key key of Inl _ \<Rightarrow> zero_time | Inr (createdAt, _) \<Rightarrow> createdAt)),
       QuarantinedCount := length (tx_scan E tx QuarantineB)\<rparr>"

definition merge_queue_stats :: "queue_stats \<Rightarrow> queue_stats \<Rightarrow> queue_stats" where
  "merge_queue_stats changes current =
     current\<lparr>RemovedExpired := RemovedExpired changes,
             RemovedDuplicate := RemovedDuplicate changes,
             RemovedCapacity := RemovedCapacity changes\<rparr>"

definition stats :: "'b queue_env \<Rightarrow> 'b db \<Rightarrow> 'b db \<times> (queue_error + queue_stats)" where
  "stats E db =
     (case open_queue E db of
        Inl e \<Rightarrow> (db, Inl e)
      | Inr tx \<Rightarrow> (Some \<circ> tx, Inr (queue_stats_from_tx E tx)))"

definition queue_size :: "'b queue_env \<Rightarrow> 'b db \<Rightarrow> int" where
  "queue_size E db = (case snd (stats E db) of Inl _ \<Rightarrow> 0 | Inr st \<Rightarrow> QueuedEvents st)"

section \<open>Append\<close>

definition expired :: "queue \<Rightarrow> event \<Rightarrow> bool" where
  "expired q ev \<longleftrightarrow> is_zero (CreatedAt ev) \<or> CreatedAt ev < cutoff q"

fun append_loop ::
  "'b queue_env \<Rightarrow> queue \<Rightarrow> event list \<Rightarrow> 'b tx \<Rightarrow> queue_stats \<Rightarrow> queue_error + 'b tx \<times> queue_stats" where
  "append_loop E q [] tx st = Inr (tx, st)"
| "append_loop E q (ev # events) tx st =
     (if expired q ev
      then append_loop E q events tx (st\<lparr>RemovedExpired := RemovedExpired st + 1\<rparr>)
      else rbind (insert_queued_event E ev tx) (\<lambda>(tx1, removedDuplicate).
             append_loop E q events tx1
               (if removedDuplicate then st\<lparr>RemovedDuplicate := RemovedDuplicate st + 1\<rparr> else st)))"

definition append_tx ::
  "'b queue_env \<Rightarrow> queue \<Rightarrow> event list \<Rightarrow> 'b tx \<Rightarrow> queue_error + 'b tx \<times> queue_stats" where
  "append_tx E q events tx =
     rbind (initialize_queue_buckets E (Some \<circ> tx)) (\<lambda>tx0.
     rbind (prune_expired E q tx0) (\<lambda>(tx1, removed).
     rbind (append_loop E q events tx1 (zero_stats\<lparr>RemovedExpired := removed\<rparr>)) (\<lambda>(tx2, st).
     rbind (evict_over_capacity E q tx2) (\<lambda>(tx3, evicted).
       Inr (tx3, merge_queue_stats (st\<lparr>RemovedCapacity := evicted\<rparr>) (queue_stats_from_tx E tx3))))))"

definition append_with_stats ::
  "'b queue_env \<Rightarrow> queue \<Rightarrow> event list \<Rightarrow> 'b db \<Rightarrow> 'b db \<times> (queue_error + queue_stats)" where
  "append_with_stats E q events db = db_update E (append_tx E q events) db"

definition append_events ::
  "'b queue_env \<Rightarrow> queue \<Rightarrow> event list \<Rightarrow> 'b db \<Rightarrow> 'b db \<times> queue_error option" where
  "append_events E q events db =
     (case append_with_stats E q events db of
        (db', Inl e) \<Rightarrow> (db', Some e)
      | (db', Inr _) \<Rightarrow> (db', None))"

section \<open>The batches of a drain\<close>

type_synonym batch = "(string \<times> event) list"

definition drain_watermark :: "'b queue_env \<Rightarrow> queue \<Rightarrow> 'b db \<Rightarrow> 'b db \<times> (queue_error + string option)" where
  "drain_watermark E q db =
     db_update E (\<lambda>tx.
       rbind (prune_expired E q tx) (\<lambda>(tx1, _).
         Inr (tx1, case tx_scan E tx1 Events of [] \<Rightarrow> None | es \<Rightarrow> Some (fst (last es))))) db"

fun take_batch :: "'b queue_env \<Rightarrow> string \<Rightarrow> nat \<Rightarrow> (string \<times> string) list \<Rightarrow> queue_error + batch" where
  "take_batch E watermark n [] = Inr []"
| "take_batch E watermark 0 (e # es) = Inr []"
| "take_batch E watermark (Suc n) ((sequence, stored) # es) =
     (if watermark < sequence then Inr []
      else rbind (decode_queued_event E stored) (\<lambda>(ev, _).
           rbind (take_batch E watermark n es) (\<lambda>batch. Inr ((sequence, ev) # batch))))"

definition next_drain_batch :: "'b queue_env \<Rightarrow> queue \<Rightarrow> string \<Rightarrow> 'b db \<Rightarrow> 'b db \<times> (queue_error + batch)" where
  "next_drain_batch E q watermark db =
     db_update E (\<lambda>tx.
       rbind (prune_expired E q tx) (\<lambda>(tx1, _).
       rbind (take_batch E watermark queue_drain_batch_size (tx_scan E tx1 Events)) (\<lambda>batch.
         Inr (tx1, batch)))) db"

fun acknowledge_loop :: "'b queue_env \<Rightarrow> time \<Rightarrow> batch \<Rightarrow> 'b tx \<Rightarrow> queue_error + 'b tx" where
  "acknowledge_loop E now [] tx = Inr tx"
| "acknowledge_loop E now ((sequence, ev) # batch) tx =
     rbind (if EventID ev \<noteq> [] then record_delivered_event_id E (EventID ev) now tx else Inr tx) (\<lambda>tx1.
     rbind (delete_queued_event E sequence True tx1) (\<lambda>tx2.
       acknowledge_loop E now batch tx2))"

definition acknowledge :: "'b queue_env \<Rightarrow> queue \<Rightarrow> batch \<Rightarrow> 'b db \<Rightarrow> 'b db \<times> (queue_error + unit)" where
  "acknowledge E q batch db =
     db_update E (\<lambda>tx. rbind (acknowledge_loop E (q_now q) batch tx) (\<lambda>tx1. Inr (tx1, ()))) db"

section \<open>Quarantine\<close>

definition quarantine_reason_max_bytes :: nat where
  "quarantine_reason_max_bytes = 1000"

fun rejected_set :: "string list \<Rightarrow> queue_error + string list" where
  "rejected_set [] = Inr []"
| "rejected_set (eventID # ids) =
     (if trim_space eventID = [] then Inl EmptyRejectedID
      else rbind (rejected_set ids) (\<lambda>rest. Inr (List.insert (trim_space eventID) rest)))"

fun quarantine_loop ::
  "'b queue_env \<Rightarrow> time \<Rightarrow> string \<Rightarrow> string list \<Rightarrow> batch \<Rightarrow> 'b tx \<Rightarrow> queue_error + 'b tx \<times> string list" where
  "quarantine_loop E now reason rejected [] tx = Inr (tx, [])"
| "quarantine_loop E now reason rejected ((sequence, ev) # batch) tx =
     (if EventID ev \<notin> set rejected then quarantine_loop E now reason rejected batch tx
      else case marshal_quarantined E now reason ev of
             None \<Rightarrow> Inl MarshalError
           | Some record \<Rightarrow>
               rbind (tx_put E QuarantineB (EventID ev) record tx) (\<lambda>tx1.
               rbind (delete_queued_event E sequence True tx1) (\<lambda>tx2.
               rbind (quarantine_loop E now reason rejected batch tx2) (\<lambda>(tx3, moved).
                 Inr (tx3, EventID ev # moved)))))"

definition quarantine_rejected_events ::
  "'b queue_env \<Rightarrow> queue \<Rightarrow> batch \<Rightarrow> string list \<Rightarrow> string \<Rightarrow> 'b db \<Rightarrow> 'b db \<times> (queue_error + string list)" where
  "quarantine_rejected_events E q batch rejectedEventIDs reason db =
     (case rejected_set rejectedEventIDs of
        Inl e \<Rightarrow> (db, Inl e)
      | Inr rejected \<Rightarrow>
          if rejected = [] then (db, Inl NoRejectedIDs)
          else if length (remdups (filter (\<lambda>i. i \<in> set rejected) (map (\<lambda>(_, ev). EventID ev) batch)))
                  \<noteq> length rejected
          then (db, Inl RejectedMismatch)
          else db_update E
                 (quarantine_loop E (q_now q) (take quarantine_reason_max_bytes reason) rejected batch) db)"

section \<open>Drain\<close>

datatype send_outcome =
    SendOk
  | SendRejected "string list" string
  | SendError string

fun drain_loop ::
  "'b queue_env \<Rightarrow> (nat \<Rightarrow> queue) \<Rightarrow> ('s \<Rightarrow> event list \<Rightarrow> 's \<times> send_outcome) \<Rightarrow> string
    \<Rightarrow> nat \<Rightarrow> nat \<Rightarrow> string list \<Rightarrow> string \<Rightarrow> 's \<Rightarrow> 'b db \<Rightarrow> 's \<times> 'b db \<times> (queue_error + unit)" where
  "drain_loop E q send watermark 0 round quarantined reason s db = (s, db, Inl OutOfFuel)"
| "drain_loop E q send watermark (Suc fuel) round quarantined reason s db =
     (case next_drain_batch E (q round) watermark db of
        (db1, Inl e) \<Rightarrow> (s, db1, Inl e)
      | (db1, Inr batch) \<Rightarrow>
          if batch = []
          then (s, db1, if quarantined \<noteq> [] then Inl (QuarantinedEvents quarantined reason) else Inr ())
          else
            (case send s (map snd batch) of
               (s1, SendError m) \<Rightarrow> (s1, db1, Inl (SendFailed m))
             | (s1, SendRejected ids m) \<Rightarrow>
                 if ids = [] then (s1, db1, Inl (SendFailed m))
                 else
                   (case quarantine_rejected_events E (q round) batch ids m db1 of
                      (db2, Inl e) \<Rightarrow> (s1, db2, Inl e)
                    | (db2, Inr moved) \<Rightarrow>
                        drain_loop E q send watermark fuel (Suc round) (quarantined @ moved)
                          (if reason = [] then m else reason) s1 db2)
             | (s1, SendOk) \<Rightarrow>
                 (case acknowledge E (q round) batch db1 of
                    (db2, Inl e) \<Rightarrow> (s1, db2, Inl e)
                  | (db2, Inr _) \<Rightarrow>
                      drain_loop E q send watermark fuel (Suc round) quarantined reason s1 db2)))"

definition drain_fuel :: "'b queue_env \<Rightarrow> 'b db \<Rightarrow> nat" where
  "drain_fuel E db =
     Suc (case db Events of None \<Rightarrow> 0 | Some b \<Rightarrow> length (b_scan (store E) b))"

definition drain ::
  "'b queue_env \<Rightarrow> (nat \<Rightarrow> queue) \<Rightarrow> bool \<Rightarrow> ('s \<Rightarrow> event list \<Rightarrow> 's \<times> send_outcome) \<Rightarrow> 's \<Rightarrow> 'b db
    \<Rightarrow> 's \<times> 'b db \<times> (queue_error + unit)" where
  "drain E q locked send s db =
     (if \<not> locked then (s, db, Inl LockError)
      else case drain_watermark E (q 0) db of
             (db1, Inl e) \<Rightarrow> (s, db1, Inl e)
           | (db1, Inr None) \<Rightarrow> (s, db1, Inr ())
           | (db1, Inr (Some watermark)) \<Rightarrow>
               drain_loop E q send watermark (drain_fuel E db1) 1 [] [] s db1)"

end
