(* ===== verification/Queue_Append.thy ===== *)
theory Queue_Append
  imports Event_Queue
begin

text \<open>
  Appending under the laws of the environment: what one transaction of \<open>AppendWithStats\<close>
  does to the set of queued events. The abstract view of the queue is the predicate
  \<open>queued\<close> (which events sit under which sequence keys) together with the identifiers that
  are quarantined or recorded as delivered.
\<close>

section \<open>The database as a whole\<close>

definition db_ok :: "'b queue_env \<Rightarrow> 'b db \<Rightarrow> bool" where
  "db_ok E db \<longleftrightarrow> db = (\<lambda>_. None) \<or> (\<exists>tx. db = Some \<circ> tx \<and> tx_inv E tx)"

definition db_get :: "'b queue_env \<Rightarrow> 'b db \<Rightarrow> qbucket \<Rightarrow> string \<Rightarrow> string option" where
  "db_get E db m k = (case db m of None \<Rightarrow> None | Some b \<Rightarrow> b_get (store E) b k)"

definition opened :: "'b queue_env \<Rightarrow> 'b db \<Rightarrow> 'b tx \<Rightarrow> bool" where
  "opened E db tx \<longleftrightarrow>
     (\<forall>m. m \<noteq> MetaB \<longrightarrow> tx_get E tx m = db_get E db m) \<and>
     meta_word (tx_get E tx MetaB) meta_next_key = meta_word (db_get E db MetaB) meta_next_key"

definition db_queued :: "'b queue_env \<Rightarrow> 'b db \<Rightarrow> string \<Rightarrow> event \<Rightarrow> bool" where
  "db_queued E db k ev \<longleftrightarrow> (\<exists>v n. db_get E db Events k = Some v \<and> decodes E v ev n)"

text \<open>\<open>settled\<close>: the identifier is quarantined or its delivery is on record.\<close>

definition settled :: "'b queue_env \<Rightarrow> 'b tx \<Rightarrow> string \<Rightarrow> bool" where
  "settled E tx i \<longleftrightarrow>
     i \<noteq> [] \<and> (tx_get E tx QuarantineB i \<noteq> None \<or> tx_get E tx DeliveredIDs i \<noteq> None)"

definition event_cost :: "'b queue_env \<Rightarrow> event \<Rightarrow> int" where
  "event_cost E ev = (case marshal_event E ev of None \<Rightarrow> 0 | Some b \<Rightarrow> int (length b + 1))"

text \<open>
  \<open>append_room\<close>: the byte counter and the sequence numbers do not overflow 64 bits.
\<close>

definition append_room :: "'b queue_env \<Rightarrow> 'b db \<Rightarrow> event list \<Rightarrow> bool" where
  "append_room E db events \<longleftrightarrow>
     queue_bytes (db_get E db Events) + (\<Sum>ev\<leftarrow>events. event_cost E ev) < 2 ^ 63 \<and>
     unat (meta_word (db_get E db MetaB) meta_next_key) + length events < 2 ^ 64"

text \<open>
  \<open>inserted E ev tx tx'\<close>: the effect of inserting \<open>ev\<close>. Nothing but \<open>ev\<close> comes in, what
  was queued stays (a snapshot with the same identifier may be replaced), and unless its
  identifier is settled the event is queued afterwards.
\<close>

definition inserted :: "'b queue_env \<Rightarrow> event \<Rightarrow> 'b tx \<Rightarrow> 'b tx \<Rightarrow> bool" where
  "inserted E ev tx tx' \<longleftrightarrow>
     tx_get E tx' QuarantineB = tx_get E tx QuarantineB \<and>
     tx_get E tx' DeliveredIDs = tx_get E tx DeliveredIDs \<and>
     (\<forall>k e. queued E tx' k e \<longrightarrow> queued E tx k e \<or>
        (EventID e = EventID ev \<and> CreatedAt e = CreatedAt ev \<and> \<not> settled E tx (EventID ev))) \<and>
     (\<forall>k e. queued E tx k e \<longrightarrow> queued E tx' k e \<or>
        (EventID e = EventID ev \<and> is_compactable_snapshot ev \<and> \<not> settled E tx (EventID ev))) \<and>
     (\<not> settled E tx (EventID ev) \<longrightarrow> (\<exists>k e. queued E tx' k e \<and> EventID e = EventID ev)) \<and>
     unat (meta_word (tx_get E tx' MetaB) meta_next_key)
       \<le> unat (meta_word (tx_get E tx MetaB) meta_next_key) + 1 \<and>
     queue_bytes (tx_get E tx' Events) \<le> queue_bytes (tx_get E tx Events) + event_cost E ev"

text \<open>\<open>appended E q events tx tx'\<close>: the effect of the loop over the events of one append.\<close>

definition appended :: "'b queue_env \<Rightarrow> queue \<Rightarrow> event list \<Rightarrow> 'b tx \<Rightarrow> 'b tx \<Rightarrow> bool" where
  "appended E q events tx tx' \<longleftrightarrow>
     tx_get E tx' QuarantineB = tx_get E tx QuarantineB \<and>
     tx_get E tx' DeliveredIDs = tx_get E tx DeliveredIDs \<and>
     (\<forall>k e. queued E tx' k e \<longrightarrow> queued E tx k e \<or>
        (\<exists>ev\<in>set events. \<not> expired q ev \<and> EventID e = EventID ev \<and> CreatedAt e = CreatedAt ev \<and>
           \<not> settled E tx (EventID ev))) \<and>
     (\<forall>k e. queued E tx k e \<longrightarrow> queued E tx' k e \<or>
        (\<exists>ev\<in>set events. \<not> expired q ev \<and> EventID ev = EventID e \<and> is_compactable_snapshot ev \<and>
           \<not> settled E tx (EventID ev))) \<and>
     (\<forall>ev\<in>set events. \<not> expired q ev \<longrightarrow> \<not> settled E tx (EventID ev) \<longrightarrow>
        (\<exists>k e. queued E tx' k e \<and> EventID e = EventID ev)) \<and>
     queue_bytes (tx_get E tx' Events)
       \<le> queue_bytes (tx_get E tx Events) + (\<Sum>ev\<leftarrow>events. event_cost E ev)"

text \<open>\<open>storable E ev\<close>: the event has a JSON form, and bbolt takes its record and its identifier.\<close>

definition storable :: "'b queue_env \<Rightarrow> event \<Rightarrow> bool" where
  "storable E ev \<longleftrightarrow> valid_utf8 (EventID ev) \<and> length (EventID ev) \<le> max_key_size \<and>
     (case marshal_event E ev of None \<Rightarrow> False | Some b \<Rightarrow> length b + 8 \<le> max_value_size)"

text \<open>
  \<open>barred E q db i\<close>: the identifier is quarantined, or its delivery is on record and
  recent enough to survive the pruning.
\<close>

definition barred :: "'b queue_env \<Rightarrow> queue \<Rightarrow> 'b db \<Rightarrow> string \<Rightarrow> bool" where
  "barred E q db i \<longleftrightarrow> i \<noteq> [] \<and>
     (db_get E db QuarantineB i \<noteq> None \<or>
      (\<exists>t. db_get E db DeliveredIDs i = Some (delivered_time_key t i) \<and> \<not> wrap64 t < cutoff q))"

lemma event_cost_nonneg: "0 \<le> event_cost E ev"
  by (simp add: event_cost_def split: option.splits)

lemma sum_event_cost_nonneg: "0 \<le> (\<Sum>ev\<leftarrow>events. event_cost E ev)"
  by (induction events) (auto simp: event_cost_nonneg)

lemma db_get_Some [simp]: "db_get E (Some \<circ> tx) m = tx_get E tx m"
  by (rule ext) (simp add: db_get_def tx_get_def)

lemma db_queued_Some [simp]: "db_queued E (Some \<circ> tx) = queued E tx"
  by (intro ext) (simp add: db_queued_def queued_def)

lemma db_get_empty [simp]: "db_get E (\<lambda>_. None) m = Map.empty"
  by (rule ext) (simp add: db_get_def)

lemma db_okI: "tx_inv E tx \<Longrightarrow> db_ok E (Some \<circ> tx)"
  by (auto simp: db_ok_def)

context queue_laws
begin

lemma initialize_idem:
  "tx_inv E tx \<Longrightarrow> initialize_queue_buckets E (Some \<circ> tx) = Inr tx"
  by (simp add: initialize_queue_buckets_def backfill_queued_event_ids_def tx_inv_def meta_inv_def
      meta_word_def)

lemma initialize_fresh:
  assumes "initialize_queue_buckets E (\<lambda>_. None) = Inr tx"
  shows "tx_inv E tx" and "opened E (\<lambda>_. None) tx"
proof -
  have e: "tx_get E (\<lambda>name. b_empty (store E)) m = Map.empty" for m
    by (rule ext) (simp add: tx_get_def get_empty)
  have s: "tx_scan E (\<lambda>name. b_empty (store E)) Events = []"
    by (simp add: tx_scan_def scan_empty)
  have "tx_put E MetaB meta_event_ids_key (encode_uint64 1) (\<lambda>name. b_empty (store E)) = Inr tx"
    using assms by (simp add: initialize_queue_buckets_def backfill_queued_event_ids_def e s decode_uint64_def)
  note g = tx_get_put [OF this, unfolded e]
  show "tx_inv E tx"
    by (simp add: tx_inv_def g index_inv_empty meta_inv_def delivered_inv_def meta_word_def
        queue_bytes_def decode_uint64_def [of None] meta_keys)
  show "opened E (\<lambda>_. None) tx"
    by (simp add: opened_def g meta_word_def meta_keys)
qed

lemma open_queue_ok:
  assumes "db_ok E db" and "open_queue E db = Inr tx"
  shows "tx_inv E tx" and "opened E db tx"
proof -
  from assms(2) have init: "initialize_queue_buckets E db = Inr tx"
    by (auto simp: open_queue_def split: option.splits)
  from assms(1) consider "db = (\<lambda>_. None)" | tx0 where "db = Some \<circ> tx0" "tx_inv E tx0"
    by (auto simp: db_ok_def)
  then have "tx_inv E tx \<and> opened E db tx"
  proof cases
    case 1
    with init initialize_fresh show ?thesis by blast
  next
    case 2
    with init have "tx = tx0" by (simp add: initialize_idem)
    with 2 show ?thesis by (simp add: opened_def)
  qed
  then show "tx_inv E tx" and "opened E db tx" by simp_all
qed

text \<open>
  A transaction function that keeps the invariant when it succeeds gives an operation that
  keeps it whatever happens.
\<close>

lemma db_update_ok:
  assumes "db_ok E db"
    and "\<And>tx tx' x. tx_inv E tx \<Longrightarrow> opened E db tx \<Longrightarrow> f tx = Inr (tx', x) \<Longrightarrow> tx_inv E tx'"
  shows "db_ok E (fst (db_update E f db))"
  using assms open_queue_ok [OF assms(1)]
  by (auto simp: db_update_def db_okI split: sum.splits option.splits prod.splits)

lemma db_update_Inr:
  assumes "db_ok E db" and "db_update E f db = (db', Inr x)"
  obtains tx tx' where "tx_inv E tx" and "opened E db tx" and "f tx = Inr (tx', x)" and "db' = Some \<circ> tx'"
  using assms open_queue_ok [OF assms(1)]
  by (auto simp: db_update_def split: sum.splits option.splits prod.splits)

text \<open>An error leaves every bucket but the index version of a fresh file as it was.\<close>

lemma db_update_Inl:
  assumes "db_ok E db" and "db_update E f db = (db', Inl e)"
  shows "db_queued E db' = db_queued E db" and "m \<noteq> MetaB \<Longrightarrow> db_get E db' m = db_get E db m"
proof -
  from assms(2) consider "db' = db" | tx where "open_queue E db = Inr tx" "db' = Some \<circ> tx"
    by (auto simp: db_update_def split: sum.splits option.splits prod.splits)
  then have *: "m \<noteq> MetaB \<Longrightarrow> db_get E db' m = db_get E db m" for m
  proof cases
    case 2
    with open_queue_ok(2) [OF assms(1)] show "m \<noteq> MetaB \<Longrightarrow> db_get E db' m = db_get E db m"
      by (simp add: opened_def)
  qed simp
  then show "m \<noteq> MetaB \<Longrightarrow> db_get E db' m = db_get E db m" .
  from * [of Events] show "db_queued E db' = db_queued E db"
    by (intro ext) (simp add: db_queued_def)
qed

section \<open>Pruning\<close>

lemma prune_expired_ok:
  assumes inv: "tx_inv E tx"
  obtains tx' n where "prune_expired E q tx = Inr (tx', n)" and "tx_inv E tx'"
    and "\<And>k ev. queued E tx' k ev \<longleftrightarrow> queued E tx k ev \<and> \<not> stamp ev < cutoff q"
    and "n = card {k. \<exists>ev. queued E tx k ev \<and> stamp ev < cutoff q}"
    and "tx_get E tx' QuarantineB = tx_get E tx QuarantineB"
    and "meta_word (tx_get E tx' MetaB) meta_next_key = meta_word (tx_get E tx MetaB) meta_next_key"
    and "\<And>i t. tx_get E tx' DeliveredIDs i = Some (delivered_time_key t i) \<longleftrightarrow>
       tx_get E tx DeliveredIDs i = Some (delivered_time_key t i) \<and> \<not> wrap64 t < cutoff q"
    and "tx_get E tx' Events \<subseteq>\<^sub>m tx_get E tx Events"
proof -
  from prune_delivered_loop_ok [OF inv, of "Suc (length (tx_scan E tx DeliveredTimes))" "cutoff q"]
  obtain tx1 where d: "prune_delivered_event_ids E (cutoff q) tx = Inr tx1" "tx_inv E tx1"
    and g: "\<forall>m. m \<notin> {DeliveredIDs, DeliveredTimes} \<longrightarrow> tx_get E tx1 m = tx_get E tx m"
    and del: "\<forall>i t. tx_get E tx1 DeliveredIDs i = Some (delivered_time_key t i) \<longleftrightarrow>
       tx_get E tx DeliveredIDs i = Some (delivered_time_key t i) \<and> \<not> wrap64 t < cutoff q"
    unfolding prune_delivered_event_ids_def by auto
  have q1: "queued E tx1 = queued E tx" using g by (intro ext) (simp add: queued_def)
  from prune_loop_ok [OF d(2), of "Suc (length (tx_scan E tx1 Times))" "cutoff q" 0]
  obtain tx' n where p: "prune_loop E (cutoff q) (Suc (length (tx_scan E tx1 Times))) 0 tx1 = Inr (tx', n)"
      "tx_inv E tx'" and h: "same_history E tx1 tx'" and sub: "tx_get E tx' Events \<subseteq>\<^sub>m tx_get E tx1 Events"
    and n: "n = card {k. \<exists>ev. queued E tx k ev \<and> stamp ev < cutoff q}"
    and k: "\<forall>k ev. queued E tx' k ev \<longleftrightarrow> queued E tx k ev \<and> \<not> stamp ev < cutoff q"
    unfolding q1 by auto
  show thesis
  proof (rule that [OF _ p(2) _ n])
    show "prune_expired E q tx = Inr (tx', n)" using d p by (simp add: prune_expired_def)
  qed (use g h del k sub in \<open>auto simp: same_history_def\<close>)
qed

section \<open>Inserting\<close>

lemma queued_by_id:
  assumes "tx_inv E tx" and "tx_get E tx EventIDs i = Some k"
  obtains v e n where "tx_get E tx Events k = Some v" and "decodes E v e n" and "EventID e = i" and "i \<noteq> []"
  using index_inv_ids [OF tx_inv_index [OF assms(1)], of i k] assms(2)
    index_inv_seqs [OF tx_inv_index [OF assms(1)], of k i] by auto

lemma id_of_queued:
  assumes "tx_inv E tx" and "queued E tx k e" and "EventID e \<noteq> []"
  shows "tx_get E tx EventIDs (EventID e) = Some k"
  using assms index_inv_ids [OF tx_inv_index [OF assms(1)], of "EventID e" k]
    index_inv_seqs [OF tx_inv_index [OF assms(1)], of k "EventID e"] by (auto simp: queued_def)

text \<open>No two queued events share an identifier.\<close>

lemma queued_id_unique:
  assumes "tx_inv E tx" "queued E tx k e" "queued E tx k' e'" "EventID e = EventID e'" "EventID e \<noteq> []"
  shows "k = k'"
  using id_of_queued [OF assms(1,2)] id_of_queued [OF assms(1,3)] assms(4,5) by simp

lemma stored_event_queued:
  assumes "marshal_event E ev = Some encoded" and "valid_utf8 (EventID ev)"
    and "tx_get E tx' Events = (tx_get E tx Events)(seq \<mapsto> encode_queued_event (CreatedAt ev) encoded)"
  obtains e' where "EventID e' = EventID ev" and "CreatedAt e' = CreatedAt ev"
    and "\<And>k e. queued E tx' k e \<longleftrightarrow> (if k = seq then e = e' else queued E tx k e)"
proof -
  obtain e' where e': "unmarshal_event E encoded = Some e'" "EventID e' = EventID ev" "CreatedAt e' = CreatedAt ev"
    using json_event [OF assms(1,2)] by blast
  note dec = decode_encode_queued_event [OF e'(1), of "CreatedAt ev"]
  show thesis
    by (rule that [OF e'(2,3)]) (auto simp: queued_def assms(3) dec)
qed

lemma insert_queued_event_inv:
  assumes inv: "tx_inv E tx" and utf8: "valid_utf8 (EventID ev)"
    and next_room: "meta_word (tx_get E tx MetaB) meta_next_key \<noteq> - 1"
    and byte_room: "queue_bytes (tx_get E tx Events) + event_cost E ev < 2 ^ 63"
    and run: "insert_queued_event E ev tx = Inr (tx', dup)"
  shows "tx_inv E tx' \<and> inserted E ev tx tx'"
proof -
  have unch: "inserted E ev tx tx" if "\<exists>k e. queued E tx k e \<and> EventID e = EventID ev \<or> settled E tx (EventID ev)"
    using that event_cost_nonneg [of E ev] by (auto simp: inserted_def)
  have store: "tx_inv E tx' \<and> inserted E ev tx0 tx'"
    if inv0: "tx_inv E tx0" and s: "store_new_event E ev tx0 = Inr tx'"
      and new: "EventID ev \<noteq> [] \<Longrightarrow> tx_get E tx0 EventIDs (EventID ev) = None"
      and h: "same_history E tx tx0" and b: "queue_bytes (tx_get E tx0 Events) \<le> queue_bytes (tx_get E tx Events)"
      and uns: "\<not> settled E tx0 (EventID ev)" for tx0
  proof -
    have n0: "meta_word (tx_get E tx0 MetaB) meta_next_key \<noteq> - 1" using h next_room by (simp add: same_history_def)
    obtain encoded seq where i: "tx_inv E tx'" and enc: "marshal_event E ev = Some encoded"
      and evs: "tx_get E tx' Events = (tx_get E tx0 Events)(seq \<mapsto> encode_queued_event (CreatedAt ev) encoded)"
      and fresh: "tx_get E tx0 Events seq = None"
      and fr: "\<And>m. m \<in> {QuarantineB, DeliveredIDs, DeliveredTimes} \<Longrightarrow> tx_get E tx' m = tx_get E tx0 m"
      and nx: "meta_word (tx_get E tx' MetaB) meta_next_key = meta_word (tx_get E tx0 MetaB) meta_next_key + 1"
      and qb: "queue_bytes (tx_get E tx' Events) = queue_bytes (tx_get E tx0 Events) + int (length encoded + 1)"
      by (rule store_new_event_inv [OF inv0 utf8 new n0 _ s])
         (use byte_room b in \<open>auto simp: event_cost_def\<close>)
    obtain e' where e': "EventID e' = EventID ev" "CreatedAt e' = CreatedAt ev"
      and q: "\<And>k e. queued E tx' k e \<longleftrightarrow> (if k = seq then e = e' else queued E tx0 k e)"
      using stored_event_queued [OF enc utf8 evs] by blast
    have "\<not> queued E tx0 seq e" for e using fresh by (simp add: queued_def)
    then have "inserted E ev tx0 tx'"
      using e' uns fr by (auto simp: inserted_def q nx qb event_cost_def enc unat_word_ariths)
    with i show ?thesis by blast
  qed
  show ?thesis
  proof (cases "settled E tx (EventID ev)")
    case True
    then have "tx' = tx" using run by (auto simp: insert_queued_event_def settled_def split: if_splits)
    with inv unch True show ?thesis by blast
  next
    case uns: False
    show ?thesis
    proof (cases "if EventID ev \<noteq> [] then tx_get E tx EventIDs (EventID ev) else None")
      case None
      then have "store_new_event E ev tx = Inr tx'"
        using run uns by (auto simp: insert_queued_event_def settled_def split: if_splits)
      from store [OF inv this _ _ _ uns] None show ?thesis by (auto split: if_splits)
    next
      case (Some k)
      then have id: "tx_get E tx EventIDs (EventID ev) = Some k" by (auto split: if_splits)
      obtain v e n where w: "tx_get E tx Events k = Some v" "decodes E v e n" "EventID e = EventID ev" "EventID ev \<noteq> []"
        by (rule queued_by_id [OF inv id])
      then have qk: "queued E tx k e" by (auto simp: queued_def)
      show ?thesis
      proof (cases "is_compactable_snapshot ev")
        case False
        then have "tx' = tx" using run uns id w(4) by (auto simp: insert_queued_event_def settled_def)
        with inv unch qk w(3) show ?thesis by blast
      next
        case True
        obtain tx0 where d: "delete_queued_event E k True tx = Inr tx0" "tx_inv E tx0"
          and ev0: "tx_get E tx0 Events = (tx_get E tx Events)(k := None)"
          and ids0: "tx_get E tx0 EventIDs = (if EventID e = [] then tx_get E tx EventIDs
               else (tx_get E tx EventIDs)(EventID e := None))"
          and fr0: "\<And>m. m \<in> {QuarantineB, DeliveredIDs, DeliveredTimes} \<Longrightarrow> tx_get E tx0 m = tx_get E tx m"
          and nx0: "meta_word (tx_get E tx0 MetaB) meta_next_key = meta_word (tx_get E tx MetaB) meta_next_key"
          by (rule delete_queued_event_ok [OF inv w(1,2)]) (rule that; (assumption | blast))
        have s: "store_new_event E ev tx0 = Inr tx'"
          using run uns id w(4) True d by (auto simp: insert_queued_event_def settled_def)
        have b0: "queue_bytes (tx_get E tx0 Events) \<le> queue_bytes (tx_get E tx Events)"
          using map_le_queue_bytes [OF tx_inv_index [OF inv] _ tx_finite] by (simp add: ev0)
        have uns0: "settled E tx0 = settled E tx"
          using fr0 by (intro ext) (simp add: settled_def)
        have res: "tx_inv E tx' \<and> inserted E ev tx0 tx'"
          by (rule store [OF d(2) s]) (use w ids0 fr0 nx0 b0 uns uns0 in \<open>auto simp: same_history_def\<close>)
        note r = res [THEN conjunct2, unfolded inserted_def uns0] and q0 = queued_remove [OF ev0]
        have "inserted E ev tx tx'"
          unfolding inserted_def
        proof (intro conjI allI impI)
          show "tx_get E tx' QuarantineB = tx_get E tx QuarantineB"
            and "tx_get E tx' DeliveredIDs = tx_get E tx DeliveredIDs"
            using r fr0 by simp_all
          show "unat (meta_word (tx_get E tx' MetaB) meta_next_key)
              \<le> unat (meta_word (tx_get E tx MetaB) meta_next_key) + 1"
            and "queue_bytes (tx_get E tx' Events) \<le> queue_bytes (tx_get E tx Events) + event_cost E ev"
            using r nx0 b0 by simp_all
          show "queued E tx k1 e1 \<or> (EventID e1 = EventID ev \<and> CreatedAt e1 = CreatedAt ev \<and>
              \<not> settled E tx (EventID ev))" if "queued E tx' k1 e1" for k1 e1
            using r that unfolding q0 by blast
          show "queued E tx' k1 e1 \<or> (EventID e1 = EventID ev \<and> is_compactable_snapshot ev \<and> \<not> settled E tx (EventID ev))"
            if "queued E tx k1 e1" for k1 e1
          proof (cases "k1 = k")
            case same: True
            with that queued_fun [OF qk] have "e1 = e" by blast
            with w(3) True uns show ?thesis by simp
          next
            case False
            with that r show ?thesis unfolding q0 by blast
          qed
          show "\<exists>k1 e1. queued E tx' k1 e1 \<and> EventID e1 = EventID ev" using r uns by blast
        qed
        with res show ?thesis by blast
      qed
    qed
  qed
qed

section \<open>The loop over the events of one append\<close>

lemma settled_cong:
  assumes "tx_get E tx' QuarantineB = tx_get E tx QuarantineB"
    and "tx_get E tx' DeliveredIDs = tx_get E tx DeliveredIDs"
  shows "settled E tx' = settled E tx"
  using assms by (intro ext) (simp add: settled_def)

lemma appended_skip:
  assumes "tx_inv E tx'" and "appended E q events tx tx'" and "expired q ev"
  shows "appended E q (ev # events) tx tx'"
  using assms event_cost_nonneg [of E ev] by (simp add: appended_def)

lemma appended_Cons:
  assumes new: "\<not> expired q ev" and a: "inserted E ev tx tx1" and b: "appended E q events tx1 tx'"
  shows "appended E q (ev # events) tx tx'"
proof -
  note a = a [unfolded inserted_def] and b = b [unfolded appended_def]
  have set1: "settled E tx1 = settled E tx" using a by (intro settled_cong) blast+
  show ?thesis
    unfolding appended_def
  proof (intro conjI allI impI ballI)
    show "tx_get E tx' QuarantineB = tx_get E tx QuarantineB"
      and "tx_get E tx' DeliveredIDs = tx_get E tx DeliveredIDs" using a b by simp_all
    show "queue_bytes (tx_get E tx' Events) \<le> queue_bytes (tx_get E tx Events) + (\<Sum>ev\<leftarrow>ev # events. event_cost E ev)"
      using a b by simp
  next
    fix k e assume q: "queued E tx' k e"
    show "queued E tx k e \<or> (\<exists>ev'\<in>set (ev # events). \<not> expired q ev' \<and> EventID e = EventID ev' \<and>
        CreatedAt e = CreatedAt ev' \<and> \<not> settled E tx (EventID ev'))"
      using b q a new unfolding set1 by (meson list.set_intros)
  next
    fix k e assume "queued E tx k e"
    with a have "queued E tx1 k e \<or> (EventID e = EventID ev \<and> is_compactable_snapshot ev \<and> \<not> settled E tx (EventID ev))"
      by blast
    with b new show "queued E tx' k e \<or> (\<exists>ev'\<in>set (ev # events). \<not> expired q ev' \<and>
        EventID ev' = EventID e \<and> is_compactable_snapshot ev' \<and> \<not> settled E tx (EventID ev'))"
      unfolding set1 by (metis list.set_intros)
  next
    fix ev' assume ev': "ev' \<in> set (ev # events)" "\<not> expired q ev'" "\<not> settled E tx (EventID ev')"
    have rest: "\<exists>k e. queued E tx' k e \<and> EventID e = EventID ev2"
      if "ev2 \<in> set events" "\<not> expired q ev2" "\<not> settled E tx (EventID ev2)" for ev2
      using b that unfolding set1 by blast
    show "\<exists>k e. queued E tx' k e \<and> EventID e = EventID ev'"
    proof (cases "ev' \<in> set events")
      case True
      with rest ev' show ?thesis by blast
    next
      case False
      with ev' have same: "ev' = ev" by simp
      with a ev' obtain k e where k: "queued E tx1 k e" "EventID e = EventID ev" by blast
      with b consider "queued E tx' k e" | ev2 where "ev2 \<in> set events" "\<not> expired q ev2" "EventID ev2 = EventID ev"
        by metis
      then show ?thesis using k rest same ev' by cases (blast, metis)
    qed
  qed
qed

lemma append_loop_ok:
  assumes "tx_inv E tx" and "\<forall>ev\<in>set events. valid_utf8 (EventID ev)"
    and "queue_bytes (tx_get E tx Events) + (\<Sum>ev\<leftarrow>events. event_cost E ev) < 2 ^ 63"
    and "unat (meta_word (tx_get E tx MetaB) meta_next_key) + length events < 2 ^ 64"
    and "append_loop E q events tx st = Inr (tx', st')"
  shows "tx_inv E tx' \<and> appended E q events tx tx'"
  using assms
proof (induction events arbitrary: tx st)
  case Nil
  then show ?case by (simp add: appended_def)
next
  case (Cons ev events)
  have sums: "queue_bytes (tx_get E tx Events) + event_cost E ev + (\<Sum>ev\<leftarrow>events. event_cost E ev) < 2 ^ 63"
    using Cons.prems(3) by simp
  show ?case
  proof (cases "expired q ev")
    case True
    have "tx_inv E tx' \<and> appended E q events tx tx'"
      by (rule Cons.IH [OF Cons.prems(1)])
         (use Cons.prems True sums event_cost_nonneg [of E ev] in auto)
    with True appended_skip show ?thesis by blast
  next
    case False
    with Cons.prems(5) obtain tx1 dup where ins: "insert_queued_event E ev tx = Inr (tx1, dup)"
      and rest: "append_loop E q events tx1 (if dup then st\<lparr>RemovedDuplicate := RemovedDuplicate st + 1\<rparr> else st)
        = Inr (tx', st')"
      by (auto simp: rbind_eq_Inr_iff)
    have "meta_word (tx_get E tx MetaB) meta_next_key \<noteq> - 1"
    proof
      assume "meta_word (tx_get E tx MetaB) meta_next_key = - 1"
      with Cons.prems(4) show False by (simp add: unsigned_minus_1_eq_mask mask_eq_exp_minus_1)
    qed
    then have one: "tx_inv E tx1 \<and> inserted E ev tx tx1"
      by (intro insert_queued_event_inv [OF Cons.prems(1) _ _ _ ins])
         (use Cons.prems(2) sums sum_event_cost_nonneg [of E events] in auto)
    have "tx_inv E tx' \<and> appended E q events tx1 tx'"
      by (rule Cons.IH [OF _ _ _ _ rest])
         (use one Cons.prems(2,4) sums in \<open>auto simp: inserted_def\<close>)
    with one False appended_Cons show ?thesis by blast
  qed
qed

lemma append_loop_expired_count:
  "append_loop E q events tx st = Inr (tx', st') \<Longrightarrow>
     RemovedExpired st' = RemovedExpired st + length (filter (expired q) events)"
  by (induction events arbitrary: tx st) (auto simp: rbind_eq_Inr_iff split: if_splits)

section \<open>The transaction of an append\<close>

lemma evict_over_capacity_ok:
  assumes inv: "tx_inv E tx"
  obtains tx' n where "evict_over_capacity E q tx = Inr (tx', n)" and "tx_inv E tx'"
    and "same_history E tx tx'"
    and "queue_bytes (tx_get E tx' Events) \<le> effective_max_bytes q"
    and "\<And>k ev. queued E tx' k ev \<Longrightarrow> queued E tx k ev"
    and "\<And>k ev k' ev'. queued E tx' k ev \<Longrightarrow> queued E tx k' ev' \<Longrightarrow> \<not> queued E tx' k' ev' \<Longrightarrow>
       stamp ev' < stamp ev \<or> (stamp ev' = stamp ev \<and> k' \<le> k)"
    and "queue_bytes (tx_get E tx Events) \<le> effective_max_bytes q \<Longrightarrow> tx' = tx"
proof -
  have "0 \<le> effective_max_bytes q" by (simp add: effective_max_bytes_def queue_max_bytes_def)
  from evict_loop_ok [OF inv, of "Suc (length (tx_scan E tx Times))" "effective_max_bytes q" 0] this
  obtain tx' n where e: "evict_over_capacity E q tx = Inr (tx', n)" "tx_inv E tx'" "same_history E tx tx'"
      "queue_bytes (tx_get E tx' Events) \<le> effective_max_bytes q"
    and sub: "\<forall>k ev. queued E tx' k ev \<longrightarrow> queued E tx k ev"
    and old: "\<forall>k ev k' ev'. queued E tx' k ev \<longrightarrow> queued E tx k' ev' \<longrightarrow> \<not> queued E tx' k' ev' \<longrightarrow>
       stamp ev' < stamp ev \<or> (stamp ev' = stamp ev \<and> k' \<le> k)"
    unfolding evict_over_capacity_def by auto
  have "tx' = tx" if "queue_bytes (tx_get E tx Events) \<le> effective_max_bytes q"
    using e(1) that tx_inv_bytes [OF inv] by (simp add: evict_over_capacity_def)
  with e sub old that show thesis by blast
qed

lemma queue_stats_from_tx_ok:
  assumes inv: "tx_inv E tx"
  shows "QueuedEvents (queue_stats_from_tx E tx) = int (card (dom (tx_get E tx Events)))"
    and "QueuedBytes (queue_stats_from_tx E tx) = queue_bytes (tx_get E tx Events)"
    and "QuarantinedCount (queue_stats_from_tx E tx) = card (dom (tx_get E tx QuarantineB))"
proof -
  have "length (tx_scan E tx QuarantineB) = card (dom (tx_get E tx QuarantineB))"
    unfolding tx_scan_def length_scan by (simp add: tx_get_def dom_def)
  then show "QuarantinedCount (queue_stats_from_tx E tx) = card (dom (tx_get E tx QuarantineB))"
    by (simp add: queue_stats_from_tx_def)
qed (simp_all add: queue_stats_from_tx_def zero_stats_def tx_inv_count [OF inv] tx_inv_bytes [OF inv])

lemma oldest_queued_at:
  assumes inv: "tx_inv E tx" and q: "queued E tx k ev"
  shows "OldestQueuedAt (queue_stats_from_tx E tx) \<le> stamp ev"
    and "\<exists>k' ev'. queued E tx k' ev' \<and> OldestQueuedAt (queue_stats_from_tx E tx) = stamp ev'"
proof -
  obtain key where "key \<in> dom (tx_get E tx Times)"
    using index_inv_time [OF tx_inv_index [OF inv]] q by (fastforce simp: queued_def)
  then obtain y where "tx_get E tx Times key = Some y" by blast
  then have "tx_scan E tx Times \<noteq> []" using tx_scan_iff [of key y tx Times] by auto
  then obtain key' x rest where s: "tx_scan E tx Times = (key', x) # rest" by (metis list.exhaust surj_pair)
  obtain k' v e n where w: "tx_get E tx Events k' = Some v" "decodes E v e n"
    and key': "key' = queue_time_key (CreatedAt e) k'" "length k' = 8"
    and least: "\<And>k'' e'. queued E tx k'' e' \<Longrightarrow> stamp e < stamp e' \<or> (stamp e = stamp e' \<and> k' \<le> k'')"
    by (rule first_time_entry [OF inv s]) (rule that; (assumption | blast))
  have "OldestQueuedAt (queue_stats_from_tx E tx) = stamp e"
    using key' by (simp add: queue_stats_from_tx_def zero_stats_def s decode_queue_time_key_key stamp_def)
  then show "OldestQueuedAt (queue_stats_from_tx E tx) \<le> stamp ev"
    and "\<exists>k' ev'. queued E tx k' ev' \<and> OldestQueuedAt (queue_stats_from_tx E tx) = stamp ev'"
    using least [OF q] w by (auto simp: queued_def)
qed

text \<open>
  What a successful append did, phase by phase: \<open>tx1\<close> is the state after pruning, \<open>tx2\<close>
  after the insertions, \<open>tx'\<close> after the eviction.
\<close>

lemma append_tx_ok:
  assumes inv: "tx_inv E tx" and utf8: "\<forall>ev\<in>set events. valid_utf8 (EventID ev)"
    and bytes: "queue_bytes (tx_get E tx Events) + (\<Sum>ev\<leftarrow>events. event_cost E ev) < 2 ^ 63"
    and seqs: "unat (meta_word (tx_get E tx MetaB) meta_next_key) + length events < 2 ^ 64"
    and run: "append_tx E q events tx = Inr (tx', st)"
  obtains tx1 tx2 where "tx_inv E tx1" "tx_inv E tx2" "tx_inv E tx'"
    and "\<And>k ev. queued E tx1 k ev \<longleftrightarrow> queued E tx k ev \<and> \<not> stamp ev < cutoff q"
    and "tx_get E tx1 QuarantineB = tx_get E tx QuarantineB"
    and "\<And>i t. tx_get E tx1 DeliveredIDs i = Some (delivered_time_key t i) \<longleftrightarrow>
       tx_get E tx DeliveredIDs i = Some (delivered_time_key t i) \<and> \<not> wrap64 t < cutoff q"
    and "queue_bytes (tx_get E tx1 Events) \<le> queue_bytes (tx_get E tx Events)"
    and "appended E q events tx1 tx2" and "same_history E tx2 tx'"
    and "queue_bytes (tx_get E tx' Events) \<le> effective_max_bytes q"
    and "\<And>k ev. queued E tx' k ev \<Longrightarrow> queued E tx2 k ev"
    and "\<And>k ev k' ev'. queued E tx' k ev \<Longrightarrow> queued E tx2 k' ev' \<Longrightarrow> \<not> queued E tx' k' ev' \<Longrightarrow>
       stamp ev' < stamp ev \<or> (stamp ev' = stamp ev \<and> k' \<le> k)"
    and "queue_bytes (tx_get E tx2 Events) \<le> effective_max_bytes q \<Longrightarrow> tx' = tx2"
    and "QueuedEvents st = int (card (dom (tx_get E tx' Events)))"
    and "QueuedBytes st = queue_bytes (tx_get E tx' Events)"
    and "QuarantinedCount st = card (dom (tx_get E tx' QuarantineB))"
    and "OldestQueuedAt st = OldestQueuedAt (queue_stats_from_tx E tx')"
    and "RemovedExpired st = card {k. \<exists>ev. queued E tx k ev \<and> stamp ev < cutoff q} + length (filter (expired q) events)"
proof -
  obtain tx1 n where p: "prune_expired E q tx = Inr (tx1, n)" and i1: "tx_inv E tx1"
    and k1: "\<And>k ev. queued E tx1 k ev \<longleftrightarrow> queued E tx k ev \<and> \<not> stamp ev < cutoff q"
    and n: "n = card {k. \<exists>ev. queued E tx k ev \<and> stamp ev < cutoff q}"
    and qb: "tx_get E tx1 QuarantineB = tx_get E tx QuarantineB"
    and nx: "meta_word (tx_get E tx1 MetaB) meta_next_key = meta_word (tx_get E tx MetaB) meta_next_key"
    and dl: "\<And>i t. tx_get E tx1 DeliveredIDs i = Some (delivered_time_key t i) \<longleftrightarrow>
       tx_get E tx DeliveredIDs i = Some (delivered_time_key t i) \<and> \<not> wrap64 t < cutoff q"
    and sub: "tx_get E tx1 Events \<subseteq>\<^sub>m tx_get E tx Events"
    by (rule prune_expired_ok [OF inv, of q]) (rule that; (assumption | blast))
  have b1: "queue_bytes (tx_get E tx1 Events) \<le> queue_bytes (tx_get E tx Events)"
    by (rule map_le_queue_bytes [OF tx_inv_index [OF inv] sub tx_finite])
  from run p obtain tx2 st2 n3 where
    loop: "append_loop E q events tx1 (zero_stats\<lparr>RemovedExpired := n\<rparr>) = Inr (tx2, st2)"
    and ev: "evict_over_capacity E q tx2 = Inr (tx', n3)"
    and st: "st = merge_queue_stats (st2\<lparr>RemovedCapacity := n3\<rparr>) (queue_stats_from_tx E tx')"
    by (auto simp: append_tx_def initialize_idem [OF inv] rbind_eq_Inr_iff)
  have a: "tx_inv E tx2 \<and> appended E q events tx1 tx2"
    by (rule append_loop_ok [OF i1 utf8 _ _ loop]) (use bytes seqs b1 nx in auto)
  obtain i': "tx_inv E tx'" and h: "same_history E tx2 tx'"
    and lim: "queue_bytes (tx_get E tx' Events) \<le> effective_max_bytes q"
    and sub2: "\<And>k ev. queued E tx' k ev \<Longrightarrow> queued E tx2 k ev"
    and old: "\<And>k ev k' ev'. queued E tx' k ev \<Longrightarrow> queued E tx2 k' ev' \<Longrightarrow> \<not> queued E tx' k' ev' \<Longrightarrow>
       stamp ev' < stamp ev \<or> (stamp ev' = stamp ev \<and> k' \<le> k)"
    and same: "queue_bytes (tx_get E tx2 Events) \<le> effective_max_bytes q \<Longrightarrow> tx' = tx2"
    by (rule evict_over_capacity_ok [OF a [THEN conjunct1], of q, unfolded ev])
       (rule that; (blast | simp))
  note s = queue_stats_from_tx_ok [OF i']
  show thesis
    by (rule that [OF i1 a [THEN conjunct1] i' k1 qb dl b1 a [THEN conjunct2] h lim sub2 old same])
       (use s append_loop_expired_count [OF loop] in \<open>simp_all add: st merge_queue_stats_def n zero_stats_def\<close>)
qed

section \<open>An append of events that can be stored succeeds\<close>

lemma insert_queued_event_progress:
  assumes inv: "tx_inv E tx" and ok: "storable E ev"
    and room: "queue_bytes (tx_get E tx Events) + event_cost E ev < 2 ^ 63"
  shows "\<exists>tx' dup. insert_queued_event E ev tx = Inr (tx', dup)"
proof -
  obtain encoded where enc: "marshal_event E ev = Some encoded"
    and size: "length (EventID ev) \<le> max_key_size" "length encoded + 8 \<le> max_value_size"
    using ok by (auto simp: storable_def split: option.splits)
  note store = store_new_event_progress [OF _ enc size]
  have room': "queue_bytes (tx_get E tx Events) + int (length encoded + 1) < 2 ^ 63"
    using room enc by (simp add: event_cost_def)
  show ?thesis
  proof (cases "EventID ev \<noteq> [] \<and> is_compactable_snapshot ev \<and> tx_get E tx EventIDs (EventID ev) \<noteq> None")
    case False
    with store [OF inv room'] show ?thesis
      by (auto simp: insert_queued_event_def split: option.splits)
  next
    case True
    then obtain k where k: "tx_get E tx EventIDs (EventID ev) = Some k" by blast
    obtain v e n where w: "tx_get E tx Events k = Some v" "decodes E v e n"
      by (rule queued_by_id [OF inv k])
    obtain tx0 where d: "delete_queued_event E k True tx = Inr tx0" "tx_inv E tx0"
      and ev0: "tx_get E tx0 Events = (tx_get E tx Events)(k := None)"
      by (rule delete_queued_event_ok [OF inv w])
    have "queue_bytes (tx_get E tx0 Events) \<le> queue_bytes (tx_get E tx Events)"
      using map_le_queue_bytes [OF tx_inv_index [OF inv] _ tx_finite] by (simp add: ev0)
    then obtain tx' where "store_new_event E ev tx0 = Inr tx'" using store [OF d(2)] room' by fastforce
    with True k d show ?thesis by (auto simp: insert_queued_event_def)
  qed
qed

lemma append_loop_progress:
  assumes "tx_inv E tx" and "\<forall>ev\<in>set events. storable E ev"
    and "queue_bytes (tx_get E tx Events) + (\<Sum>ev\<leftarrow>events. event_cost E ev) < 2 ^ 63"
    and "unat (meta_word (tx_get E tx MetaB) meta_next_key) + length events < 2 ^ 64"
  shows "\<exists>r. append_loop E q events tx st = Inr r"
  using assms
proof (induction events arbitrary: tx st)
  case Nil
  then show ?case by simp
next
  case (Cons ev events)
  have sums: "queue_bytes (tx_get E tx Events) + event_cost E ev + (\<Sum>ev\<leftarrow>events. event_cost E ev) < 2 ^ 63"
    using Cons.prems(3) by simp
  then have room: "queue_bytes (tx_get E tx Events) + event_cost E ev < 2 ^ 63"
    using sum_event_cost_nonneg [of E events] by linarith
  have wrap: "meta_word (tx_get E tx MetaB) meta_next_key \<noteq> - 1"
    using Cons.prems(4) by (auto simp: unsigned_minus_1_eq_mask mask_eq_exp_minus_1)
  have ok: "storable E ev" and utf8: "valid_utf8 (EventID ev)"
    using Cons.prems(2) by (auto simp: storable_def)
  obtain tx1 dup where ins: "insert_queued_event E ev tx = Inr (tx1, dup)"
    using insert_queued_event_progress [OF Cons.prems(1) ok room] by blast
  note one = insert_queued_event_inv [OF Cons.prems(1) utf8 wrap room ins]
  have "\<exists>r. append_loop E q events tx1 st1 = Inr r" for st1
  proof (rule Cons.IH)
    show "tx_inv E tx1" using one by blast
    show "\<forall>ev\<in>set events. storable E ev" using Cons.prems(2) by simp
    note eff = one [THEN conjunct2, unfolded inserted_def]
    have b: "queue_bytes (tx_get E tx1 Events) \<le> queue_bytes (tx_get E tx Events) + event_cost E ev"
      using eff by blast
    show "queue_bytes (tx_get E tx1 Events) + (\<Sum>ev\<leftarrow>events. event_cost E ev) < 2 ^ 63"
      using b sums by linarith
    have "unat (meta_word (tx_get E tx1 MetaB) meta_next_key)
        \<le> unat (meta_word (tx_get E tx MetaB) meta_next_key) + 1" using eff by blast
    then show "unat (meta_word (tx_get E tx1 MetaB) meta_next_key) + length events < 2 ^ 64"
      using Cons.prems(4) by simp
  qed
  moreover have "\<exists>r. append_loop E q events tx st1 = Inr r" for st1
    by (rule Cons.IH) (use Cons.prems sums event_cost_nonneg [of E ev] in auto)
  ultimately show ?case using ins by (simp only: append_loop.simps rbind_Inr prod.case split: if_split) blast
qed

lemma append_tx_progress:
  assumes inv: "tx_inv E tx" and ok: "\<forall>ev\<in>set events. storable E ev"
    and bytes: "queue_bytes (tx_get E tx Events) + (\<Sum>ev\<leftarrow>events. event_cost E ev) < 2 ^ 63"
    and seqs: "unat (meta_word (tx_get E tx MetaB) meta_next_key) + length events < 2 ^ 64"
  shows "\<exists>r. append_tx E q events tx = Inr r"
proof -
  obtain tx1 n where p: "prune_expired E q tx = Inr (tx1, n)" and i1: "tx_inv E tx1"
    and nx: "meta_word (tx_get E tx1 MetaB) meta_next_key = meta_word (tx_get E tx MetaB) meta_next_key"
    and sub: "tx_get E tx1 Events \<subseteq>\<^sub>m tx_get E tx Events"
    by (rule prune_expired_ok [OF inv, of q])
  have b1: "queue_bytes (tx_get E tx1 Events) \<le> queue_bytes (tx_get E tx Events)"
    by (rule map_le_queue_bytes [OF tx_inv_index [OF inv] sub tx_finite])
  obtain tx2 st2 where loop: "append_loop E q events tx1 (zero_stats\<lparr>RemovedExpired := n\<rparr>) = Inr (tx2, st2)"
    using append_loop_progress [OF i1 ok] bytes seqs b1 nx by fastforce
  have i2: "tx_inv E tx2 \<and> appended E q events tx1 tx2"
    by (rule append_loop_ok [OF i1 _ _ _ loop]) (use ok bytes seqs b1 nx in \<open>auto simp: storable_def\<close>)
  obtain tx3 n3 where "evict_over_capacity E q tx2 = Inr (tx3, n3)"
    by (rule evict_over_capacity_ok [OF i2 [THEN conjunct1], of q])
  with p loop show ?thesis by (simp add: append_tx_def initialize_idem [OF inv])
qed

section \<open>The effect of an append on the database\<close>

lemma delivered_form:
  assumes "tx_inv E tx" and "tx_get E tx DeliveredIDs i = Some key"
  obtains t where "key = delivered_time_key t i"
  using assms tx_inv_delivered [OF assms(1)] unfolding delivered_inv_def by blast

lemma append_phases:
  assumes ok: "db_ok E db" and utf8: "\<forall>ev\<in>set events. valid_utf8 (EventID ev)"
    and room: "append_room E db events" and run: "append_with_stats E q events db = (db', Inr st)"
  obtains tx tx1 tx2 tx' where "opened E db tx" and "db' = Some \<circ> tx'"
    and "tx_inv E tx1" and "tx_inv E tx2" and "tx_inv E tx'"
    and "\<And>k ev. queued E tx1 k ev \<longleftrightarrow> db_queued E db k ev \<and> \<not> stamp ev < cutoff q"
    and "\<And>i. settled E tx1 i \<longleftrightarrow> barred E q db i"
    and "tx_get E tx' QuarantineB = db_get E db QuarantineB"
    and "queue_bytes (tx_get E tx1 Events) \<le> queue_bytes (db_get E db Events)"
    and "appended E q events tx1 tx2"
    and "queue_bytes (tx_get E tx' Events) \<le> effective_max_bytes q"
    and "\<And>k ev. queued E tx' k ev \<Longrightarrow> queued E tx2 k ev"
    and "\<And>k ev k' ev'. queued E tx' k ev \<Longrightarrow> queued E tx2 k' ev' \<Longrightarrow> \<not> queued E tx' k' ev' \<Longrightarrow>
       stamp ev' < stamp ev \<or> (stamp ev' = stamp ev \<and> k' \<le> k)"
    and "queue_bytes (tx_get E tx2 Events) \<le> effective_max_bytes q \<Longrightarrow> tx' = tx2"
    and "QueuedEvents st = int (card (dom (tx_get E tx' Events)))"
    and "QueuedBytes st = queue_bytes (tx_get E tx' Events)"
    and "QuarantinedCount st = card (dom (tx_get E tx' QuarantineB))"
    and "OldestQueuedAt st = OldestQueuedAt (queue_stats_from_tx E tx')"
    and "RemovedExpired st = card {k. \<exists>ev. db_queued E db k ev \<and> stamp ev < cutoff q} + length (filter (expired q) events)"
proof -
  obtain tx tx' where inv: "tx_inv E tx" and op: "opened E db tx" and db': "db' = Some \<circ> tx'"
    and tx: "append_tx E q events tx = Inr (tx', st)"
    by (rule db_update_Inr [OF ok run [unfolded append_with_stats_def]])
  have qd: "queued E tx = db_queued E db"
    using op by (intro ext) (simp add: db_queued_def queued_def opened_def)
  have gd: "tx_get E tx m = db_get E db m" if "m \<noteq> MetaB" for m using op that by (simp add: opened_def)
  have "queue_bytes (tx_get E tx Events) + (\<Sum>ev\<leftarrow>events. event_cost E ev) < 2 ^ 63"
    and "unat (meta_word (tx_get E tx MetaB) meta_next_key) + length events < 2 ^ 64"
    using room op by (simp_all add: append_room_def opened_def)
  from inv utf8 this tx obtain tx1 tx2 where i: "tx_inv E tx1" "tx_inv E tx2" "tx_inv E tx'"
    and p1: "\<And>k ev. queued E tx1 k ev \<longleftrightarrow> queued E tx k ev \<and> \<not> stamp ev < cutoff q"
    and quar: "tx_get E tx1 QuarantineB = tx_get E tx QuarantineB"
    and dl: "\<And>i t. tx_get E tx1 DeliveredIDs i = Some (delivered_time_key t i) \<longleftrightarrow>
       tx_get E tx DeliveredIDs i = Some (delivered_time_key t i) \<and> \<not> wrap64 t < cutoff q"
    and b: "queue_bytes (tx_get E tx1 Events) \<le> queue_bytes (tx_get E tx Events)"
    and a: "appended E q events tx1 tx2" and h: "same_history E tx2 tx'"
    and lim: "queue_bytes (tx_get E tx' Events) \<le> effective_max_bytes q"
    and sub: "\<And>k ev. queued E tx' k ev \<Longrightarrow> queued E tx2 k ev"
    and old: "\<And>k ev k' ev'. queued E tx' k ev \<Longrightarrow> queued E tx2 k' ev' \<Longrightarrow> \<not> queued E tx' k' ev' \<Longrightarrow>
       stamp ev' < stamp ev \<or> (stamp ev' = stamp ev \<and> k' \<le> k)"
    and same: "queue_bytes (tx_get E tx2 Events) \<le> effective_max_bytes q \<Longrightarrow> tx' = tx2"
    and st: "QueuedEvents st = int (card (dom (tx_get E tx' Events)))"
    "QueuedBytes st = queue_bytes (tx_get E tx' Events)"
    "QuarantinedCount st = card (dom (tx_get E tx' QuarantineB))"
    "OldestQueuedAt st = OldestQueuedAt (queue_stats_from_tx E tx')"
    "RemovedExpired st = card {k. \<exists>ev. queued E tx k ev \<and> stamp ev < cutoff q} + length (filter (expired q) events)"
    by (rule append_tx_ok) (rule that; (assumption | blast))
  have bar: "settled E tx1 i \<longleftrightarrow> barred E q db i" for i
  proof -
    have "tx_get E tx1 DeliveredIDs i \<noteq> None \<longleftrightarrow>
        (\<exists>t. db_get E db DeliveredIDs i = Some (delivered_time_key t i) \<and> \<not> wrap64 t < cutoff q)"
      using dl [of i] gd [of DeliveredIDs] delivered_form [OF i(1), of i] by (metis not_Some_eq qbucket.distinct)
    then show ?thesis using quar gd [of QuarantineB] by (simp add: settled_def barred_def)
  qed
  have quar': "tx_get E tx' QuarantineB = db_get E db QuarantineB"
    using h a quar gd [of QuarantineB] by (simp add: same_history_def appended_def)
  show thesis
    by (rule that [OF op db' i p1 [unfolded qd] bar quar' _ a lim sub old same st(1-4)])
       (use b gd st(5) qd in simp_all)
qed

lemma append_keeps_db_ok:
  assumes "db_ok E db" and "\<forall>ev\<in>set events. valid_utf8 (EventID ev)" and "append_room E db events"
  shows "db_ok E (fst (append_with_stats E q events db))"
  unfolding append_with_stats_def
proof (rule db_update_ok [OF assms(1)])
  fix tx tx' :: "'b tx" and st
  assume inv: "tx_inv E tx" and op: "opened E db tx" and run: "append_tx E q events tx = Inr (tx', st)"
  have "queue_bytes (tx_get E tx Events) + (\<Sum>ev\<leftarrow>events. event_cost E ev) < 2 ^ 63"
    and "unat (meta_word (tx_get E tx MetaB) meta_next_key) + length events < 2 ^ 64"
    using assms(3) op by (simp_all add: append_room_def opened_def)
  from inv assms(2) this run show "tx_inv E tx'" by (rule append_tx_ok)
qed

lemma append_within_capacity:
  assumes "db_ok E db" and "append_room E db events"
    and "\<forall>ev\<in>set events. valid_utf8 (EventID ev)"
    and "append_with_stats E q events db = (db', Inr st)"
    and "queue_bytes (db_get E db Events) + (\<Sum>ev\<leftarrow>events. event_cost E ev) \<le> effective_max_bytes q"
  shows "(\<forall>k e. db_queued E db k e \<and> cutoff q \<le> stamp e \<longrightarrow> db_queued E db' k e \<or>
      (\<exists>ev\<in>set events. EventID ev = EventID e \<and> is_compactable_snapshot ev \<and> \<not> expired q ev \<and> \<not> barred E q db (EventID ev))) \<and>
    (\<forall>ev\<in>set events. \<not> expired q ev \<and> \<not> barred E q db (EventID ev) \<longrightarrow>
      (\<exists>k e. db_queued E db' k e \<and> EventID e = EventID ev))"
proof -
  obtain tx tx1 tx2 tx' where q1: "\<And>k ev. queued E tx1 k ev \<longleftrightarrow> db_queued E db k ev \<and> \<not> stamp ev < cutoff q"
    and s1: "\<And>i. settled E tx1 i \<longleftrightarrow> barred E q db i"
    and b: "queue_bytes (tx_get E tx1 Events) \<le> queue_bytes (db_get E db Events)"
    and same: "queue_bytes (tx_get E tx2 Events) \<le> effective_max_bytes q \<Longrightarrow> tx' = tx2"
    and a: "appended E q events tx1 tx2"
    and db: "db' = Some \<circ> tx'"
    by (rule append_phases [OF assms(1,3,2,4)]) (rule that; (assumption | blast))
  have "queue_bytes (tx_get E tx2 Events) \<le> queue_bytes (tx_get E tx1 Events) + (\<Sum>ev\<leftarrow>events. event_cost E ev)"
    using a unfolding appended_def by blast
  then have tx': "tx' = tx2" using b assms(5) by (intro same) linarith
  note a = a [unfolded appended_def s1 q1 not_less]
  have "db_queued E db' k e \<or> (\<exists>ev\<in>set events. EventID ev = EventID e \<and> is_compactable_snapshot ev \<and> \<not> expired q ev \<and>
      \<not> barred E q db (EventID ev))"
    if "db_queued E db k e" "cutoff q \<le> stamp e" for k e
    using a that unfolding db tx' db_queued_Some by blast
  moreover have "\<exists>k e. db_queued E db' k e \<and> EventID e = EventID ev"
    if "ev \<in> set events" "\<not> expired q ev" "\<not> barred E q db (EventID ev)" for ev
    using a that unfolding db tx' db_queued_Some by blast
  ultimately show ?thesis by blast
qed

end

end
