(* ===== verification/Queue_Drain.thy ===== *)
theory Queue_Drain
  imports Queue_Append
begin

text \<open>
  Draining under the laws of the environment: what fetching a batch, acknowledging it and
  quarantining rejected events do to the queue, and the loop of \<open>DrainWith\<close> around them.
  \<open>recording\<close> is the control plane with a ghost log of the events it accepted, so that
  the lemmas can say where the events went.
\<close>

section \<open>Errors that cannot come from the fuel\<close>

lemma rbind_fuel_iff:
  "rbind r f = Inl e \<longleftrightarrow> r = Inl e \<or> (\<exists>x. r = Inr x \<and> f x = Inl e)"
  by (cases r) auto

lemma tx_put_not_fuel [simp]: "tx_put E n k v tx \<noteq> Inl OutOfFuel"
  by (simp add: tx_put_def split: sum.splits)

lemma decode_queued_event_not_fuel [simp]: "decode_queued_event E v \<noteq> Inl OutOfFuel"
  by (simp add: decode_queued_event_def split: option.splits)

lemma increment_queue_meta_not_fuel [simp]: "increment_queue_meta E c b tx \<noteq> Inl OutOfFuel"
  by (auto simp: increment_queue_meta_def Let_def rbind_fuel_iff)

lemma delete_queued_event_not_fuel [simp]: "delete_queued_event E k r tx \<noteq> Inl OutOfFuel"
  by (auto simp: delete_queued_event_def Let_def rbind_fuel_iff split: option.splits)

lemma record_delivered_not_fuel [simp]: "record_delivered_event_id E i t tx \<noteq> Inl OutOfFuel"
  by (auto simp: record_delivered_event_id_def Let_def rbind_fuel_iff)

lemma backfill_entries_not_fuel [simp]: "backfill_entries E es tx \<noteq> Inl OutOfFuel"
  by (induction es arbitrary: tx) (auto simp: rbind_fuel_iff split: if_splits)

lemma open_queue_not_fuel [simp]: "open_queue E db \<noteq> Inl OutOfFuel"
  by (auto simp: open_queue_def initialize_queue_buckets_def backfill_queued_event_ids_def
      rbind_fuel_iff split: option.splits)

lemma take_batch_not_fuel [simp]: "take_batch E w n es \<noteq> Inl OutOfFuel"
  by (induction E w n es rule: take_batch.induct) (auto simp: rbind_fuel_iff)

lemma acknowledge_loop_not_fuel [simp]: "acknowledge_loop E t batch tx \<noteq> Inl OutOfFuel"
  by (induction E t batch tx rule: acknowledge_loop.induct) (auto simp: rbind_fuel_iff)

lemma rejected_set_not_fuel [simp]: "rejected_set ids \<noteq> Inl OutOfFuel"
  by (induction ids) (auto simp: rbind_fuel_iff)

lemma quarantine_loop_not_fuel [simp]: "quarantine_loop E t r ids batch tx \<noteq> Inl OutOfFuel"
  by (induction E t r ids batch tx rule: quarantine_loop.induct)
     (auto simp: rbind_fuel_iff split: option.splits)

lemma db_update_not_fuel:
  assumes "\<And>tx. open_queue E db = Inr tx \<Longrightarrow> f tx \<noteq> Inl OutOfFuel"
  shows "snd (db_update E f db) \<noteq> Inl OutOfFuel"
proof (cases "open_queue E db")
  case (Inl e)
  moreover have "e \<noteq> OutOfFuel" using Inl open_queue_not_fuel [of E db] by metis
  ultimately show ?thesis by (simp add: db_update_def)
next
  case (Inr tx)
  with assms [OF Inr] show ?thesis
    by (auto simp: db_update_def split: sum.splits option.splits)
qed

lemma acknowledge_not_fuel [simp]: "snd (acknowledge E q batch db) \<noteq> Inl OutOfFuel"
  unfolding acknowledge_def by (intro db_update_not_fuel) (auto simp: rbind_fuel_iff)

lemma quarantine_not_fuel [simp]: "snd (quarantine_rejected_events E q batch ids reason db) \<noteq> Inl OutOfFuel"
  unfolding quarantine_rejected_events_def
  using rejected_set_not_fuel [of ids] db_update_not_fuel [of E db, OF quarantine_loop_not_fuel]
  by (auto split: sum.splits)

section \<open>The batch\<close>

lemma take_batch_length: "take_batch E w n es = Inr batch \<Longrightarrow> length batch \<le> n"
  by (induction E w n es arbitrary: batch rule: take_batch.induct)
     (auto simp: rbind_eq_Inr_iff split: if_splits)

lemma take_batch_keys: "take_batch E w n es = Inr batch \<Longrightarrow> map fst batch = take (length batch) (map fst es)"
  by (induction E w n es arbitrary: batch rule: take_batch.induct)
     (auto simp: rbind_eq_Inr_iff split: if_splits)

lemma take_batch_entry:
  "take_batch E w n es = Inr batch \<Longrightarrow> (k, ev) \<in> set batch \<Longrightarrow>
     k \<le> w \<and> (\<exists>v m. (k, v) \<in> set es \<and> decodes E v ev m)"
proof (induction E w n es arbitrary: batch rule: take_batch.induct)
  case (3 E w n sequence stored es)
  from 3(2) consider "batch = []" | "w < sequence" "batch = []" |
    e m rest where "\<not> w < sequence" "decodes E stored e m" "take_batch E w n es = Inr rest" "batch = (sequence, e) # rest"
    by (auto simp: rbind_eq_Inr_iff split: if_splits)
  then show ?case
  proof cases
    case (3 e m rest)
    with \<open>(k, ev) \<in> set batch\<close> consider "k = sequence" "ev = e" | "(k, ev) \<in> set rest" by auto
    then show ?thesis
    proof cases
      case 1
      with 3 show ?thesis by (auto simp: not_less)
    next
      case 2
      with "3.IH" [OF 3(1,2) _ 3(3)] show ?thesis by auto
    qed
  qed (use 3 in auto)
qed auto

lemma take_batch_Nil:
  "take_batch E w (Suc n) es = Inr [] \<Longrightarrow> sorted_wrt (<) (map fst es) \<Longrightarrow> (k, v) \<in> set es \<Longrightarrow> \<not> k \<le> w"
  by (cases es) (force simp: rbind_eq_Inr_iff not_le split: if_splits)+

section \<open>Acknowledging\<close>

text \<open>\<open>batch_of E tx batch\<close>: the batch names queued events, each once.\<close>

definition batch_of :: "'b queue_env \<Rightarrow> 'b tx \<Rightarrow> batch \<Rightarrow> bool" where
  "batch_of E tx batch \<longleftrightarrow> distinct (map fst batch) \<and> (\<forall>(k, ev)\<in>set batch. queued E tx k ev)"

text \<open>
  The control plane with a log of the events it accepted, and the outcome of a drain: the
  logged events are \<open>sent\<close>, in the order of their sequence numbers and each once; what is
  no longer queued was sent, had expired, or is quarantined.
\<close>

definition recording ::
  "('s \<Rightarrow> event list \<Rightarrow> 's \<times> send_outcome) \<Rightarrow> 's \<times> event list \<Rightarrow> event list \<Rightarrow> ('s \<times> event list) \<times> send_outcome" where
  "recording send sl evs =
     (case send (fst sl) evs of (s', out) \<Rightarrow>
        ((s', if out = SendOk then snd sl @ evs else snd sl), out))"

lemma recording_pair:
  "recording send (s, log) evs =
     (case send s evs of (s', out) \<Rightarrow> ((s', if out = SendOk then log @ evs else log), out))"
  by (simp add: recording_def split: prod.split)

definition drained :: "'b queue_env \<Rightarrow> (nat \<Rightarrow> queue) \<Rightarrow> string \<Rightarrow> 'b db \<Rightarrow> 'b db \<Rightarrow> batch \<Rightarrow> bool" where
  "drained E q w db db' sent \<longleftrightarrow>
     sorted_wrt (<) (map fst sent) \<and>
     (\<forall>(k, ev)\<in>set sent. db_queued E db k ev \<and> k \<le> w) \<and>
     (\<forall>k ev. db_queued E db' k ev \<longrightarrow> db_queued E db k ev) \<and>
     (\<forall>k ev. db_queued E db k ev \<longrightarrow> db_queued E db' k ev \<or> (k, ev) \<in> set sent \<or>
        (\<exists>n. stamp ev < cutoff (q n)) \<or> db_get E db' QuarantineB (EventID ev) \<noteq> None) \<and>
     dom (db_get E db QuarantineB) \<subseteq> dom (db_get E db' QuarantineB)"

text \<open>\<open>reliable\<close>: the database file opens, and commits go through.\<close>

definition reliable :: "'b queue_env \<Rightarrow> bool" where
  "reliable E \<longleftrightarrow> (\<forall>db. b_open_error (store E) db = None \<and> b_commit_error (store E) db = None)"

definition waiting :: "'b queue_env \<Rightarrow> string \<Rightarrow> 'b db \<Rightarrow> nat" where
  "waiting E w db = card {k. \<exists>ev. db_queued E db k ev \<and> k \<le> w}"

context queue_laws
begin

lemma batch_of_remove:
  assumes "batch_of E tx ((k, ev) # batch)" and "tx_get E tx1 Events = (tx_get E tx Events)(k := None)"
  shows "batch_of E tx1 batch"
  using assms(1) queued_remove [OF assms(2)] by (force simp: batch_of_def image_iff split: prod.splits)

lemma record_delivered_ok:
  assumes inv: "tx_inv E tx" and i: "i \<noteq> []" and run: "record_delivered_event_id E i t tx = Inr tx'"
  shows "tx_inv E tx'"
    and "m \<noteq> DeliveredIDs \<Longrightarrow> m \<noteq> DeliveredTimes \<Longrightarrow> tx_get E tx' m = tx_get E tx m"
    and "tx_get E tx' DeliveredIDs = (tx_get E tx DeliveredIDs)(i \<mapsto> delivered_time_key t i)"
proof -
  let ?key = "delivered_time_key t i"
  define tx0 where "tx0 = (case tx_get E tx DeliveredIDs i of None \<Rightarrow> tx
    | Some previousKey \<Rightarrow> tx_del E DeliveredTimes previousKey tx)"
  from run obtain tx1 where p: "tx_put E DeliveredIDs i ?key tx0 = Inr tx1"
      "tx_put E DeliveredTimes ?key [] tx1 = Inr tx'"
    by (auto simp: record_delivered_event_id_def tx0_def Let_def rbind_eq_Inr_iff)
  have g0: "tx_get E tx0 m = (if m = DeliveredTimes
      then (case tx_get E tx DeliveredIDs i of None \<Rightarrow> tx_get E tx DeliveredTimes
            | Some pk \<Rightarrow> (tx_get E tx DeliveredTimes)(pk := None)) else tx_get E tx m)" for m
    by (simp add: tx0_def bucket_simps split: option.splits)
  note g = tx_get_put [OF p(2)] tx_get_put [OF p(1)] g0
  show fr: "m \<noteq> DeliveredIDs \<Longrightarrow> m \<noteq> DeliveredTimes \<Longrightarrow> tx_get E tx' m = tx_get E tx m" for m
    by (simp add: g)
  show ids: "tx_get E tx' DeliveredIDs = (tx_get E tx DeliveredIDs)(i \<mapsto> ?key)" by (simp add: g)
  define ids0 where "ids0 = (tx_get E tx DeliveredIDs)(i := None)"
  define tm0 where "tm0 = tx_get E tx0 DeliveredTimes"
  have d0: "delivered_inv ids0 tm0"
  proof (cases "tx_get E tx DeliveredIDs i")
    case None
    then have "ids0 = tx_get E tx DeliveredIDs" by (auto simp: ids0_def)
    with None tx_inv_delivered [OF inv] show ?thesis by (simp add: tm0_def g0)
  next
    case (Some pk)
    with delivered_inv_remove [OF tx_inv_delivered [OF inv] Some] show ?thesis
      by (simp add: ids0_def tm0_def g0)
  qed
  have "delivered_inv (ids0(i \<mapsto> ?key)) (tm0(?key \<mapsto> []))"
    unfolding delivered_inv_def
  proof (intro conjI allI impI)
    fix i' key' assume a: "(ids0(i \<mapsto> ?key)) i' = Some key'"
    show "i' \<noteq> []" and "key' \<in> dom (tm0(?key \<mapsto> []))" and "\<exists>t. key' = delivered_time_key t i'"
      using a d0 i unfolding delivered_inv_def by (cases "i' = i"; auto)+
  next
    fix key' assume "key' \<in> dom (tm0(?key \<mapsto> []))"
    then consider "key' = ?key" | "key' \<in> dom tm0" by (auto split: if_splits)
    then show "\<exists>i'. (ids0(i \<mapsto> ?key)) i' = Some key'"
    proof cases
      case 2
      with d0 obtain i' where "ids0 i' = Some key'" unfolding delivered_inv_def by blast
      then show ?thesis by (intro exI [of _ i']) (auto simp: ids0_def)
    qed auto
  qed
  then have "delivered_inv (tx_get E tx' DeliveredIDs) (tx_get E tx' DeliveredTimes)"
    by (simp add: g ids0_def tm0_def)
  then show "tx_inv E tx'" by (intro tx_inv_frame [OF inv]) (auto simp: fr)
qed

text \<open>The effect of acknowledging: the batch leaves the queue and its identifiers are recorded.\<close>

lemma acknowledge_loop_ok:
  assumes "tx_inv E tx" and "batch_of E tx batch" and "acknowledge_loop E t batch tx = Inr tx'"
  shows "tx_inv E tx' \<and> (\<forall>k ev. queued E tx' k ev \<longleftrightarrow> queued E tx k ev \<and> k \<notin> fst ` set batch) \<and>
    tx_get E tx' QuarantineB = tx_get E tx QuarantineB \<and>
    tx_get E tx' DeliveredIDs = (\<lambda>i. if i \<noteq> [] \<and> i \<in> EventID ` snd ` set batch
      then Some (delivered_time_key t i) else tx_get E tx DeliveredIDs i)"
  using assms
proof (induction batch arbitrary: tx)
  case Nil
  then show ?case by simp
next
  case (Cons b batch)
  obtain k ev where b: "b = (k, ev)" by force
  from Cons.prems(3) obtain tx1 tx2 where
    r: "(if EventID ev \<noteq> [] then record_delivered_event_id E (EventID ev) t tx else Inr tx) = Inr tx1"
    and d: "delete_queued_event E k True tx1 = Inr tx2" and rest: "acknowledge_loop E t batch tx2 = Inr tx'"
    by (auto simp: b rbind_eq_Inr_iff)
  have s1: "tx_inv E tx1 \<and> tx_get E tx1 Events = tx_get E tx Events \<and> tx_get E tx1 QuarantineB = tx_get E tx QuarantineB \<and>
      tx_get E tx1 DeliveredIDs = (\<lambda>i. if i \<noteq> [] \<and> i = EventID ev then Some (delivered_time_key t i)
        else tx_get E tx DeliveredIDs i)"
  proof (cases "EventID ev = []")
    case True
    with r have "tx1 = tx" by simp
    with True Cons.prems(1) show ?thesis by simp
  next
    case False
    with r record_delivered_ok [OF Cons.prems(1) False, of t tx1] show ?thesis by (auto simp: fun_eq_iff)
  qed
  have "queued E tx k ev" using Cons.prems(2) by (simp add: b batch_of_def)
  then obtain v n where w: "tx_get E tx1 Events k = Some v" "decodes E v ev n"
    using s1 by (auto simp: queued_def)
  obtain "tx_inv E tx2" and ev2: "tx_get E tx2 Events = (tx_get E tx1 Events)(k := None)"
    and fr: "\<And>m. m \<in> {QuarantineB, DeliveredIDs, DeliveredTimes} \<Longrightarrow> tx_get E tx2 m = tx_get E tx1 m"
    by (rule delete_queued_event_ok [OF s1 [THEN conjunct1] w, unfolded d]) (rule that; (blast | simp))
  have ev2': "tx_get E tx2 Events = (tx_get E tx Events)(k := None)" using ev2 s1 by simp
  note q2 = queued_remove [OF ev2']
  note ih = Cons.IH [OF \<open>tx_inv E tx2\<close> batch_of_remove [OF Cons.prems(2) [unfolded b] ev2'] rest]
  have dl: "tx_get E tx2 DeliveredIDs = (\<lambda>i. if i \<noteq> [] \<and> i = EventID ev then Some (delivered_time_key t i)
        else tx_get E tx DeliveredIDs i)" using fr s1 by simp
  have "tx_get E tx' DeliveredIDs = (\<lambda>i. if i \<noteq> [] \<and> i \<in> EventID ` snd ` set (b # batch)
      then Some (delivered_time_key t i) else tx_get E tx DeliveredIDs i)"
    unfolding ih [THEN conjunct2, THEN conjunct2, THEN conjunct2] dl by (auto simp: b fun_eq_iff)
  with ih fr s1 show ?case by (simp add: b q2) blast
qed

section \<open>Quarantine\<close>

lemma quarantine_loop_ok:
  assumes "tx_inv E tx" and "batch_of E tx batch" and "quarantine_loop E t reason rejected batch tx = Inr (tx', moved)"
  shows "tx_inv E tx' \<and> (\<forall>k ev. queued E tx' k ev \<longleftrightarrow> queued E tx k ev \<and>
      \<not> (k \<in> fst ` set batch \<and> EventID ev \<in> set rejected)) \<and>
    moved = filter (\<lambda>i. i \<in> set rejected) (map (EventID \<circ> snd) batch) \<and>
    tx_get E tx' DeliveredIDs = tx_get E tx DeliveredIDs \<and>
    dom (tx_get E tx' QuarantineB) = dom (tx_get E tx QuarantineB) \<union> set moved"
  using assms
proof (induction batch arbitrary: tx moved)
  case Nil
  then show ?case by simp
next
  case (Cons b batch)
  obtain k ev where b: "b = (k, ev)" by force
  have qk: "queued E tx k ev" using Cons.prems(2) by (simp add: b batch_of_def)
  show ?case
  proof (cases "EventID ev \<in> set rejected")
    case False
    have "batch_of E tx batch" using Cons.prems(2) by (simp add: b batch_of_def)
    note ih = Cons.IH [OF Cons.prems(1) this] and run = Cons.prems(3)
    with False have "quarantine_loop E t reason rejected batch tx = Inr (tx', moved)" by (simp add: b)
    with ih [OF this] False queued_fun [OF qk] show ?thesis by (auto simp: b)
  next
    case True
    with Cons.prems(3) obtain stored tx1 tx2 moved2 where
      p: "tx_put E QuarantineB (EventID ev) stored tx = Inr tx1"
      and d: "delete_queued_event E k True tx1 = Inr tx2"
      and rest: "quarantine_loop E t reason rejected batch tx2 = Inr (tx', moved2)" and m: "moved = EventID ev # moved2"
      by (auto simp: b rbind_eq_Inr_iff split: option.splits)
    note g1 = tx_get_put [OF p]
    have i1: "tx_inv E tx1" using Cons.prems(1) by (simp add: tx_inv_def g1)
    from qk obtain v n where w: "tx_get E tx1 Events k = Some v" "decodes E v ev n" by (auto simp: queued_def g1)
    obtain "tx_inv E tx2" and ev2: "tx_get E tx2 Events = (tx_get E tx1 Events)(k := None)"
      and fr: "\<And>m. m \<in> {QuarantineB, DeliveredIDs, DeliveredTimes} \<Longrightarrow> tx_get E tx2 m = tx_get E tx1 m"
      by (rule delete_queued_event_ok [OF i1 w, unfolded d]) (rule that; (blast | simp))
    have ev2': "tx_get E tx2 Events = (tx_get E tx Events)(k := None)" using ev2 by (simp add: g1)
    note q2 = queued_remove [OF ev2']
    note ih = Cons.IH [OF \<open>tx_inv E tx2\<close> batch_of_remove [OF Cons.prems(2) [unfolded b] ev2'] rest]
    have quar: "dom (tx_get E tx2 QuarantineB) = insert (EventID ev) (dom (tx_get E tx QuarantineB))"
      "tx_get E tx2 DeliveredIDs = tx_get E tx DeliveredIDs"
      using fr by (simp_all add: g1)
    have q: "queued E tx' k' ev' \<longleftrightarrow> queued E tx k' ev' \<and> \<not> (k' \<in> fst ` set (b # batch) \<and> EventID ev' \<in> set rejected)"
      for k' ev'
      using ih True queued_fun [OF qk] by (cases "k' = k") (auto simp: b q2)
    show ?thesis
    proof (intro conjI allI)
      show "tx_inv E tx'" using ih by blast
      show "moved = filter (\<lambda>i. i \<in> set rejected) (map (EventID \<circ> snd) (b # batch))"
        using ih m True by (simp add: b comp_def)
      show "tx_get E tx' DeliveredIDs = tx_get E tx DeliveredIDs" using ih quar by simp
      show "dom (tx_get E tx' QuarantineB) = dom (tx_get E tx QuarantineB) \<union> set moved"
        using ih quar m by simp
    qed (rule q)
  qed
qed

section \<open>The operations on the database\<close>

lemma next_drain_batch_ok:
  assumes ok: "db_ok E db" and run: "next_drain_batch E q w db = (db1, Inr batch)"
  shows "db_ok E db1"
    and "db_queued E db1 k ev \<longleftrightarrow> db_queued E db k ev \<and> \<not> stamp ev < cutoff q"
    and "db_get E db1 QuarantineB = db_get E db QuarantineB"
    and "sorted_wrt (<) (map fst batch)"
    and "(k, ev) \<in> set batch \<Longrightarrow> db_queued E db1 k ev \<and> k \<le> w"
    and "(k, ev) \<in> set batch \<Longrightarrow> db_queued E db1 k' ev' \<Longrightarrow> k' \<notin> fst ` set batch \<Longrightarrow> k < k'"
    and "batch = [] \<Longrightarrow> db_queued E db1 k ev \<Longrightarrow> \<not> k \<le> w"
    and "length batch \<le> queue_drain_batch_size"
proof -
  obtain tx tx1 where inv: "tx_inv E tx" and op: "opened E db tx" and db1: "db1 = Some \<circ> tx1"
    and f: "rbind (prune_expired E q tx) (\<lambda>(tx1, _).
       rbind (take_batch E w queue_drain_batch_size (tx_scan E tx1 Events)) (\<lambda>batch. Inr (tx1, batch))) = Inr (tx1, batch)"
    by (rule db_update_Inr [OF ok run [unfolded next_drain_batch_def]])
  obtain tx1' n where p: "prune_expired E q tx = Inr (tx1', n)" "tx_inv E tx1'"
    and q1: "\<And>k ev. queued E tx1' k ev \<longleftrightarrow> queued E tx k ev \<and> \<not> stamp ev < cutoff q"
    and quar: "tx_get E tx1' QuarantineB = tx_get E tx QuarantineB"
    by (rule prune_expired_ok [OF inv, of q]) (rule that; (assumption | blast))
  from f p have tx1: "tx1' = tx1" and b: "take_batch E w queue_drain_batch_size (tx_scan E tx1 Events) = Inr batch"
    by (auto simp: rbind_eq_Inr_iff)
  have qd: "db_queued E db = queued E tx" using op by (intro ext) (simp add: db_queued_def queued_def opened_def)
  have sorted: "sorted_wrt (<) (map fst (tx_scan E tx1 Events))" by (simp add: tx_scan_def scan_sorted)
  have scan: "k \<in> fst ` set (tx_scan E tx1 Events)" if "queued E tx1 k ev" for k ev
  proof -
    from that obtain v where "(k, v) \<in> set (tx_scan E tx1 Events)" by (auto simp: queued_def tx_scan_iff)
    then show ?thesis by force
  qed
  show "db_ok E db1" using p tx1 by (simp add: db1 db_okI)
  show "db_queued E db1 k ev \<longleftrightarrow> db_queued E db k ev \<and> \<not> stamp ev < cutoff q"
    using q1 by (simp add: db1 qd tx1)
  show "db_get E db1 QuarantineB = db_get E db QuarantineB"
    using quar op by (simp add: db1 tx1 opened_def)
  note keys = take_batch_keys [OF b]
  show "sorted_wrt (<) (map fst batch)" unfolding keys using sorted by (rule sorted_wrt_take)
  show "(k, ev) \<in> set batch \<Longrightarrow> db_queued E db1 k ev \<and> k \<le> w"
    using take_batch_entry [OF b, of k ev] by (auto simp: db1 queued_def tx_scan_iff)
  show "k < k'" if "(k, ev) \<in> set batch" "db_queued E db1 k' ev'" "k' \<notin> fst ` set batch"
  proof -
    let ?ks = "map fst (tx_scan E tx1 Events)" and ?n = "length batch"
    have "k \<in> set (take ?n ?ks)" using that(1) keys by (metis fst_conv image_eqI list.set_map)
    moreover have "k' \<notin> set (take ?n ?ks)" using that(3) keys by (metis list.set_map)
    then have "k' \<in> set (drop ?n ?ks)"
      using scan that(2) by (metis Un_iff append_take_drop_id db1 db_queued_Some list.set_map set_append)
    ultimately show ?thesis
      using sorted by (metis append_take_drop_id sorted_wrt_append)
  qed
  show "\<not> k \<le> w" if "batch = []" "db_queued E db1 k ev"
  proof -
    from that(2) obtain v where "(k, v) \<in> set (tx_scan E tx1 Events)" by (auto simp: db1 queued_def tx_scan_iff)
    with take_batch_Nil [of E w 499, OF _ sorted] b that(1) show ?thesis by (simp add: queue_drain_batch_size_def)
  qed
  show "length batch \<le> queue_drain_batch_size" by (rule take_batch_length [OF b])
qed

lemma opened_queued: "opened E db tx \<Longrightarrow> queued E tx = db_queued E db"
  by (intro ext) (simp add: db_queued_def queued_def opened_def)

lemma acknowledge_ok:
  assumes ok: "db_ok E db" and dist: "distinct (map fst batch)"
    and sub: "\<forall>(k, ev)\<in>set batch. db_queued E db k ev"
    and run: "acknowledge E q batch db = (db', Inr x)"
  shows "db_ok E db'"
    and "db_queued E db' k ev \<longleftrightarrow> db_queued E db k ev \<and> k \<notin> fst ` set batch"
    and "db_get E db' QuarantineB = db_get E db QuarantineB"
    and "db_get E db' DeliveredIDs = (\<lambda>i. if i \<noteq> [] \<and> i \<in> EventID ` snd ` set batch
      then Some (delivered_time_key (q_now q) i) else db_get E db DeliveredIDs i)"
proof -
  obtain tx tx' where inv: "tx_inv E tx" and op: "opened E db tx" and db': "db' = Some \<circ> tx'"
    and f: "rbind (acknowledge_loop E (q_now q) batch tx) (\<lambda>tx1. Inr (tx1, ())) = Inr (tx', x)"
    by (rule db_update_Inr [OF ok run [unfolded acknowledge_def]])
  from f have l: "acknowledge_loop E (q_now q) batch tx = Inr tx'" by (auto simp: rbind_eq_Inr_iff)
  have "batch_of E tx batch" using dist sub by (auto simp: batch_of_def opened_queued [OF op])
  note a = acknowledge_loop_ok [OF inv this l]
  from a show "db_ok E db'" by (simp add: db' db_okI)
  from a show "db_queued E db' k ev \<longleftrightarrow> db_queued E db k ev \<and> k \<notin> fst ` set batch"
    by (simp add: db' opened_queued [OF op])
  from a op show "db_get E db' QuarantineB = db_get E db QuarantineB"
    and "db_get E db' DeliveredIDs = (\<lambda>i. if i \<noteq> [] \<and> i \<in> EventID ` snd ` set batch
      then Some (delivered_time_key (q_now q) i) else db_get E db DeliveredIDs i)"
    by (simp_all add: db' opened_def cong: if_cong)
qed

lemma rejected_set_trims: "rejected_set ids = Inr rs \<Longrightarrow> set rs = trim_space ` set ids"
  by (induction ids arbitrary: rs) (auto simp: rbind_eq_Inr_iff split: if_splits)

lemma quarantine_ok:
  assumes ok: "db_ok E db" and dist: "distinct (map fst batch)"
    and sub: "\<forall>(k, ev)\<in>set batch. db_queued E db k ev"
    and run: "quarantine_rejected_events E q batch ids reason db = (db', Inr moved)"
  shows "db_ok E db'"
    and "db_queued E db' k ev \<longleftrightarrow> db_queued E db k ev \<and>
      \<not> (k \<in> fst ` set batch \<and> EventID ev \<in> trim_space ` set ids)"
    and "dom (db_get E db' QuarantineB) = dom (db_get E db QuarantineB) \<union> set moved"
    and "set moved = trim_space ` set ids" and "moved \<noteq> []"
    and "set moved \<subseteq> EventID ` snd ` set batch"
    and "db_get E db' DeliveredIDs = db_get E db DeliveredIDs"
proof -
  let ?f = "\<lambda>rs. filter (\<lambda>i. i \<in> set rs) (map (\<lambda>(_, ev). EventID ev) batch)"
  from run obtain rs where rs: "rejected_set ids = Inr rs" "rs \<noteq> []"
      "length (remdups (?f rs)) = length rs"
    and up: "db_update E (quarantine_loop E (q_now q) (take quarantine_reason_max_bytes reason) rs batch) db
      = (db', Inr moved)"
    by (auto simp: quarantine_rejected_events_def split: sum.splits if_splits)
  obtain tx tx' where inv: "tx_inv E tx" and op: "opened E db tx" and db': "db' = Some \<circ> tx'"
    and l: "quarantine_loop E (q_now q) (take quarantine_reason_max_bytes reason) rs batch tx = Inr (tx', moved)"
    by (rule db_update_Inr [OF ok up])
  have "batch_of E tx batch" using dist sub by (auto simp: batch_of_def opened_queued [OF op])
  note a = quarantine_loop_ok [OF inv this l]
  have moved: "moved = ?f rs" using a by (simp add: comp_def case_prod_unfold)
  have "card (set (?f rs)) = length rs" using rs(3) by (simp only: length_remdups_card_conv)
  moreover have sub_rs: "set (?f rs) \<subseteq> set rs" by auto
  ultimately have all: "set (?f rs) = set rs"
    by (metis List.finite_set card_length card_seteq)
  note ids = rejected_set_trims [OF rs(1)]
  show "set moved = trim_space ` set ids" by (rule trans [OF _ trans [OF all ids]]) (simp only: moved)
  show "moved \<noteq> []" using rs(2) all unfolding moved by (metis set_empty)
  show "set moved \<subseteq> EventID ` snd ` set batch" unfolding moved by force
  from a show "db_ok E db'" by (simp add: db' db_okI)
  from a show "db_queued E db' k ev \<longleftrightarrow> db_queued E db k ev \<and>
      \<not> (k \<in> fst ` set batch \<and> EventID ev \<in> trim_space ` set ids)"
    by (simp add: db' opened_queued [OF op] ids)
  from a op show "dom (db_get E db' QuarantineB) = dom (db_get E db QuarantineB) \<union> set moved"
    and "db_get E db' DeliveredIDs = db_get E db DeliveredIDs"
    by (simp_all add: db' opened_def)
qed

section \<open>The drain loop\<close>

lemma db_update_Inl_ok:
  assumes "db_ok E db" and "db_update E f db = (db', Inl e)"
    and "\<And>tx tx' x. tx_inv E tx \<Longrightarrow> opened E db tx \<Longrightarrow> f tx = Inr (tx', x) \<Longrightarrow> tx_inv E tx'"
  shows "db_ok E db'"
  using db_update_ok [OF assms(1), of f] assms(2,3) by auto

text \<open>Each step either fails without an effect on the queue, or has the effect of its lemma.\<close>

lemma next_drain_batch_error:
  assumes "db_ok E db" and "next_drain_batch E q w db = (db', Inl e)"
  shows "db_ok E db'" and "drained E qs w db db' []"
proof -
  show "db_ok E db'"
  proof (rule db_update_Inl_ok [OF assms(1) assms(2) [unfolded next_drain_batch_def]])
    fix tx tx' :: "'b tx" and x
    assume inv: "tx_inv E tx"
    assume "rbind (prune_expired E q tx) (\<lambda>(tx1, _).
       rbind (take_batch E w queue_drain_batch_size (tx_scan E tx1 Events)) (\<lambda>batch. Inr (tx1, batch))) = Inr (tx', x)"
    then obtain n where p: "prune_expired E q tx = Inr (tx', n)" by (auto simp: rbind_eq_Inr_iff)
    obtain tx1 n1 where "prune_expired E q tx = Inr (tx1, n1)" "tx_inv E tx1"
      by (rule prune_expired_ok [OF inv, of q])
    with p show "tx_inv E tx'" by simp
  qed
  from db_update_Inl [OF assms(1) assms(2) [unfolded next_drain_batch_def]]
  show "drained E qs w db db' []" by (simp add: drained_def)
qed

lemma acknowledge_error:
  assumes "db_ok E db" and "distinct (map fst batch)"
    and "\<forall>(k, ev)\<in>set batch. db_queued E db k ev" and "acknowledge E q batch db = (db', Inl e)"
  shows "db_ok E db'" and "drained E qs w db db' []"
proof -
  show "db_ok E db'"
  proof (rule db_update_Inl_ok [OF assms(1) assms(4) [unfolded acknowledge_def]])
    fix tx tx' :: "'b tx" and x
    assume inv: "tx_inv E tx" and op: "opened E db tx"
      and "rbind (acknowledge_loop E (q_now q) batch tx) (\<lambda>tx1. Inr (tx1, ())) = Inr (tx', x)"
    then have l: "acknowledge_loop E (q_now q) batch tx = Inr tx'" by (auto simp: rbind_eq_Inr_iff)
    have "batch_of E tx batch" using assms(2,3) by (auto simp: batch_of_def opened_queued [OF op])
    with acknowledge_loop_ok [OF inv _ l] show "tx_inv E tx'" by blast
  qed
  from db_update_Inl [OF assms(1) assms(4) [unfolded acknowledge_def]]
  show "drained E qs w db db' []" by (simp add: drained_def)
qed

lemma quarantine_error:
  assumes "db_ok E db" and "distinct (map fst batch)"
    and "\<forall>(k, ev)\<in>set batch. db_queued E db k ev"
    and "quarantine_rejected_events E q batch ids reason db = (db', Inl e)"
  shows "db_ok E db'" and "drained E qs w db db' []"
proof -
  from assms(4) consider "db' = db" | rs where
    "db_update E (quarantine_loop E (q_now q) (take quarantine_reason_max_bytes reason) rs batch) db = (db', Inl e)"
    by (auto simp: quarantine_rejected_events_def split: sum.splits if_splits)
  then have "db_ok E db' \<and> drained E qs w db db' []"
  proof cases
    case 1
    with assms(1) show ?thesis by (simp add: drained_def)
  next
    case (2 rs)
    have "db_ok E db'"
    proof (rule db_update_Inl_ok [OF assms(1) 2])
      fix tx tx' :: "'b tx" and x
      assume inv: "tx_inv E tx" and op: "opened E db tx"
        and l: "quarantine_loop E (q_now q) (take quarantine_reason_max_bytes reason) rs batch tx = Inr (tx', x)"
      have "batch_of E tx batch" using assms(2,3) by (auto simp: batch_of_def opened_queued [OF op])
      with quarantine_loop_ok [OF inv _ l] show "tx_inv E tx'" by blast
    qed
    with db_update_Inl [OF assms(1) 2] show ?thesis by (simp add: drained_def)
  qed
  then show "db_ok E db'" and "drained E qs w db db' []" by simp_all
qed

lemma drainedI:
  assumes "sorted_wrt (<) (map fst sent)"
    and "\<And>k ev. (k, ev) \<in> set sent \<Longrightarrow> db_queued E db k ev \<and> k \<le> w"
    and "\<And>k ev. db_queued E db' k ev \<Longrightarrow> db_queued E db k ev"
    and "\<And>k ev. db_queued E db k ev \<Longrightarrow> db_queued E db' k ev \<or> (k, ev) \<in> set sent \<or>
        (\<exists>n. stamp ev < cutoff (q n)) \<or> db_get E db' QuarantineB (EventID ev) \<noteq> None"
    and "dom (db_get E db QuarantineB) \<subseteq> dom (db_get E db' QuarantineB)"
  shows "drained E q w db db' sent"
  unfolding drained_def using assms by blast

lemma drainedD:
  assumes "drained E q w db db' sent"
  shows "sorted_wrt (<) (map fst sent)"
    and "(k, ev) \<in> set sent \<Longrightarrow> db_queued E db k ev \<and> k \<le> w"
    and "db_queued E db' k ev \<Longrightarrow> db_queued E db k ev"
    and "db_queued E db k ev \<Longrightarrow> db_queued E db' k ev \<or> (k, ev) \<in> set sent \<or>
        (\<exists>n. stamp ev < cutoff (q n)) \<or> db_get E db' QuarantineB (EventID ev) \<noteq> None"
    and "dom (db_get E db QuarantineB) \<subseteq> dom (db_get E db' QuarantineB)"
  using assms unfolding drained_def by blast+

lemma drained_fetch:
  assumes "db_ok E db" and "next_drain_batch E (q n) w db = (db1, Inr batch)" and "drained E q w db1 db' sent"
  shows "drained E q w db db' sent"
proof -
  note f = next_drain_batch_ok(2,3) [OF assms(1,2)] and r = drainedD [OF assms(3)]
  show ?thesis
  proof (rule drainedI)
    fix k ev
    show "db_queued E db k ev \<Longrightarrow> db_queued E db' k ev \<or> (k, ev) \<in> set sent \<or>
        (\<exists>n. stamp ev < cutoff (q n)) \<or> db_get E db' QuarantineB (EventID ev) \<noteq> None"
      using f(1) r(4) by blast
  qed (use f r in \<open>blast | simp\<close>)+
qed

lemma drained_acknowledged:
  assumes ok: "db_ok E db" and fetch: "next_drain_batch E (q n) w db = (db1, Inr batch)"
    and ack: "acknowledge E (q n) batch db1 = (db2, Inr x)" and rest: "drained E q w db2 db' sent"
  shows "drained E q w db1 db' (batch @ sent)"
proof -
  note f = next_drain_batch_ok [OF ok fetch] and r = drainedD [OF rest]
  have dist: "distinct (map fst batch)" using f(4) by (simp add: strict_sorted_iff)
  have qb: "\<forall>(k, ev)\<in>set batch. db_queued E db1 k ev" using f(5) by blast
  note a = acknowledge_ok [OF f(1) dist qb ack]
  show ?thesis
  proof (rule drainedI)
    have "k < k'" if "(k, e) \<in> set batch" "(k', e') \<in> set sent" for k e k' e'
    proof -
      have "db_queued E db2 k' e'" using r(2) that(2) by blast
      with a(2) have "db_queued E db1 k' e'" "k' \<notin> fst ` set batch" by blast+
      with f(6) [OF that(1)] show ?thesis by blast
    qed
    then show "sorted_wrt (<) (map fst (batch @ sent))"
      using f(4) r(1) by (auto simp: sorted_wrt_append)
  next
    fix k ev
    show "(k, ev) \<in> set (batch @ sent) \<Longrightarrow> db_queued E db1 k ev \<and> k \<le> w"
      using f(5) r(2) a(2) by auto
    show "db_queued E db' k ev \<Longrightarrow> db_queued E db1 k ev" using r(3) a(2) by blast
    show "db_queued E db1 k ev \<Longrightarrow> db_queued E db' k ev \<or> (k, ev) \<in> set (batch @ sent) \<or>
        (\<exists>n. stamp ev < cutoff (q n)) \<or> db_get E db' QuarantineB (EventID ev) \<noteq> None"
    proof (cases "k \<in> fst ` set batch")
      case True
      assume q: "db_queued E db1 k ev"
      from True obtain ev' where "(k, ev') \<in> set batch" by force
      moreover have "ev' = ev" using f(5) [OF calculation] q by (auto simp: db_queued_def)
      ultimately show ?thesis by simp
    next
      case False
      assume "db_queued E db1 k ev"
      with False a(2) have "db_queued E db2 k ev" by blast
      from r(4) [OF this] show ?thesis by auto
    qed
    show "dom (db_get E db1 QuarantineB) \<subseteq> dom (db_get E db' QuarantineB)"
      using r(5) a(3) by simp
  qed
qed

lemma drained_quarantined:
  assumes ok: "db_ok E db" and fetch: "next_drain_batch E (q n) w db = (db1, Inr batch)"
    and quar: "quarantine_rejected_events E (q n) batch ids reason db1 = (db2, Inr moved)"
    and rest: "drained E q w db2 db' sent"
  shows "drained E q w db1 db' sent"
proof -
  note f = next_drain_batch_ok [OF ok fetch] and r = drainedD [OF rest]
  have dist: "distinct (map fst batch)" using f(4) by (simp add: strict_sorted_iff)
  have qb: "\<forall>(k, ev)\<in>set batch. db_queued E db1 k ev" using f(5) by blast
  note a = quarantine_ok [OF f(1) dist qb quar]
  show ?thesis
  proof (rule drainedI [OF r(1)])
    fix k ev
    show "(k, ev) \<in> set sent \<Longrightarrow> db_queued E db1 k ev \<and> k \<le> w" using r(2) a(2) by blast
    show "db_queued E db' k ev \<Longrightarrow> db_queued E db1 k ev" using r(3) a(2) by blast
    show "db_queued E db1 k ev \<Longrightarrow> db_queued E db' k ev \<or> (k, ev) \<in> set sent \<or>
        (\<exists>n. stamp ev < cutoff (q n)) \<or> db_get E db' QuarantineB (EventID ev) \<noteq> None"
    proof (cases "EventID ev \<in> set moved")
      case True
      then have "EventID ev \<in> dom (db_get E db' QuarantineB)" using r(5) a(3) by blast
      then show ?thesis by blast
    next
      case False
      assume "db_queued E db1 k ev"
      with False a(2,4) have "db_queued E db2 k ev" by blast
      from r(4) [OF this] show ?thesis .
    qed
    show "dom (db_get E db1 QuarantineB) \<subseteq> dom (db_get E db' QuarantineB)"
      using r(5) a(3) by blast
  qed
qed

text \<open>
  The loop: \<open>waiting\<close> counts the queued events up to the watermark. Every round that does
  not end the loop removes one of them, so one more unit of fuel than \<open>waiting\<close> is enough.
\<close>

lemma finite_db_events: "finite (dom (db_get E db Events))"
proof (cases "db Events")
  case None
  then have "db_get E db Events = Map.empty" by (intro ext) (simp add: db_get_def)
  then show ?thesis by simp
next
  case (Some b)
  then have "db_get E db Events = b_get (store E) b" by (intro ext) (simp add: db_get_def)
  then show ?thesis by (simp add: finite_dom)
qed

lemma waiting_sub: "{k. \<exists>ev. db_queued E db k ev \<and> k \<le> w} \<subseteq> dom (db_get E db Events)"
  by (auto simp: db_queued_def)

lemmas finite_waiting = finite_subset [OF waiting_sub finite_db_events]

lemma waiting_less:
  assumes "\<And>k ev. db_queued E db' k ev \<Longrightarrow> db_queued E db k ev"
    and "db_queued E db k ev" and "k \<le> w" and "\<And>ev. \<not> db_queued E db' k ev"
  shows "waiting E w db' < waiting E w db"
  unfolding waiting_def by (rule psubset_card_mono [OF finite_waiting]) (use assms in blast)

lemma waiting_mono:
  assumes "\<And>k ev. db_queued E db' k ev \<Longrightarrow> db_queued E db k ev"
  shows "waiting E w db' \<le> waiting E w db"
  unfolding waiting_def by (rule card_mono [OF finite_waiting]) (use assms in blast)

lemma next_drain_batch_not_fuel:
  assumes "db_ok E db"
  shows "snd (next_drain_batch E q w db) \<noteq> Inl OutOfFuel"
  unfolding next_drain_batch_def
proof (rule db_update_not_fuel)
  fix tx assume "open_queue E db = Inr tx"
  with open_queue_ok(1) [OF assms] have inv: "tx_inv E tx" by blast
  obtain tx1 n where "prune_expired E q tx = Inr (tx1, n)" by (rule prune_expired_ok [OF inv, of q])
  then show "rbind (prune_expired E q tx) (\<lambda>(tx1, _).
       rbind (take_batch E w queue_drain_batch_size (tx_scan E tx1 Events)) (\<lambda>batch. Inr (tx1, batch)))
      \<noteq> Inl OutOfFuel" by (simp add: rbind_fuel_iff)
qed

lemma drain_loop_ok:
  assumes "db_ok E db"
    and "drain_loop E q (recording send) w fuel round quar reason (s, log) db = ((s', log'), db', r)"
  shows "db_ok E db' \<and> (\<exists>sent. log' = log @ map snd sent \<and> drained E q w db db' sent) \<and>
    (r = Inr () \<longrightarrow> quar = [] \<and> (\<forall>k ev. db_queued E db' k ev \<longrightarrow> \<not> k \<le> w) \<and>
       db_get E db' QuarantineB = db_get E db QuarantineB) \<and>
    (waiting E w db < fuel \<longrightarrow> r \<noteq> Inl OutOfFuel)"
  using assms
proof (induction fuel arbitrary: round quar reason s log db)
  case 0
  then show ?case by (auto intro!: exI [of _ "[]"] simp: drained_def)
next
  case (Suc fuel)
  let ?res = "\<lambda>log0 db0 quar0 fuel0. db_ok E db' \<and> (\<exists>sent. log' = log0 @ map snd sent \<and> drained E q w db0 db' sent) \<and>
    (r = Inr () \<longrightarrow> quar0 = [] \<and> (\<forall>k ev. db_queued E db' k ev \<longrightarrow> \<not> k \<le> w) \<and>
       db_get E db' QuarantineB = db_get E db0 QuarantineB) \<and> (waiting E w db0 < fuel0 \<longrightarrow> r \<noteq> Inl OutOfFuel)"
  obtain db1 o1 where n: "next_drain_batch E (q round) w db = (db1, o1)" by force
  show ?case
  proof (cases o1)
    case (Inl e)
    with n next_drain_batch_not_fuel [OF Suc.prems(1), of "q round" w] have "e \<noteq> OutOfFuel" by simp
    moreover note next_drain_batch_error [OF Suc.prems(1) n [unfolded Inl]]
    ultimately show ?thesis using Suc.prems(2) n Inl by (auto intro!: exI [of _ "[]"])
  next
    case (Inr batch)
    note fetch = n [unfolded Inr]
    note f = next_drain_batch_ok [OF Suc.prems(1) fetch]
    have dist: "distinct (map fst batch)" using f(4) by (simp add: strict_sorted_iff)
    have qb: "\<forall>(k, ev)\<in>set batch. db_queued E db1 k ev" using f(5) by blast
    have same: "drained E q w db1 db1 []" by (simp add: drained_def)
    have less1: "waiting E w db1 \<le> waiting E w db" using f(2) by (intro waiting_mono) blast
    have from1: "?res log db quar (Suc fuel)" if "?res log db1 quar (Suc fuel)"
    proof -
      from that obtain sent where "log' = log @ map snd sent" "drained E q w db1 db' sent" by blast
      then have "\<exists>sent. log' = log @ map snd sent \<and> drained E q w db db' sent"
        using drained_fetch [where q = q and n = round, OF Suc.prems(1) fetch] by blast
      with that f(3) less1 show ?thesis by auto
    qed
    show ?thesis
    proof (cases "batch = []")
      case True
      with Suc.prems(2) fetch have "s' = s" "log' = log" "db' = db1"
        and r: "r = (if quar \<noteq> [] then Inl (QuarantinedEvents quar reason) else Inr ())" by simp_all
      moreover have "\<forall>k ev. db_queued E db1 k ev \<longrightarrow> \<not> k \<le> w" using f(7) True by blast
      ultimately show ?thesis
        by (intro from1) (use f(1) same in \<open>auto intro!: exI [of _ "[]"] split: if_splits\<close>)
    next
      case False
      then obtain k0 ev0 where b0: "(k0, ev0) \<in> set batch" by (cases batch) auto
      obtain s1 o2 where sd: "send s (map snd batch) = (s1, o2)" by force
      note step = Suc.prems(2) [unfolded drain_loop.simps fetch prod.case sum.case if_not_P [OF False]
          recording_pair sd]
      show ?thesis
      proof (cases o2)
        case SendOk
        obtain db2 o3 where ack: "acknowledge E (q round) batch db1 = (db2, o3)" by force
        show ?thesis
        proof (cases o3)
          case (Inl e)
          then have "e \<noteq> OutOfFuel" using acknowledge_not_fuel [of E "q round" batch db1] ack by auto
          moreover note acknowledge_error [OF f(1) dist qb ack [unfolded Inl]]
          moreover have "log' = log @ map snd batch" "db' = db2" "r = Inl e"
            using step SendOk ack Inl by simp_all
          moreover have "drained E q w db1 db2 batch"
          proof (rule drainedI)
            note d = drainedD [OF acknowledge_error(2) [OF f(1) dist qb ack [unfolded Inl], of q w]]
            fix k ev
            show "db_queued E db2 k ev \<Longrightarrow> db_queued E db1 k ev" by (rule d(3))
            show "db_queued E db1 k ev \<Longrightarrow> db_queued E db2 k ev \<or> (k, ev) \<in> set batch \<or>
                (\<exists>n. stamp ev < cutoff (q n)) \<or> db_get E db2 QuarantineB (EventID ev) \<noteq> None"
              using d(4) by fastforce
            show "dom (db_get E db1 QuarantineB) \<subseteq> dom (db_get E db2 QuarantineB)" by (rule d(5))
          qed (use f(4,5) in blast)+
          ultimately show ?thesis by (intro from1) blast
        next
          case (Inr u)
          note a = acknowledge_ok [OF f(1) dist qb ack [unfolded Inr]]
          have rest: "drain_loop E q (recording send) w fuel (Suc round) quar reason (s1, log @ map snd batch) db2
              = ((s', log'), db', r)" using step SendOk ack Inr by simp
          note ih = Suc.IH [OF a(1) rest]
          from ih obtain sent where "log' = (log @ map snd batch) @ map snd sent" "drained E q w db2 db' sent"
            by blast
          then have ex: "\<exists>sent. log' = log @ map snd sent \<and> drained E q w db1 db' sent"
            using drained_acknowledged [where q = q and n = round, OF Suc.prems(1) fetch ack [unfolded Inr]]
            by (intro exI [of _ "batch @ sent"]) simp
          have "waiting E w db2 < waiting E w db1"
            by (rule waiting_less [of _ _ k0 ev0]) (use a(2) f(5) [OF b0] b0 in force)+
          then have "waiting E w db1 < Suc fuel \<longrightarrow> r \<noteq> Inl OutOfFuel" using ih by simp
          with ih a(3) ex show ?thesis by (intro from1) simp
        qed
      next
        case (SendRejected ids m)
        show ?thesis
        proof (cases "ids = []")
          case True
          with step SendRejected show ?thesis
            by (intro from1) (use f(1) same in \<open>auto intro!: exI [of _ "[]"]\<close>)
        next
          case ids: False
          obtain db2 o3 where qr: "quarantine_rejected_events E (q round) batch ids m db1 = (db2, o3)" by force
          show ?thesis
          proof (cases o3)
            case (Inl e)
            then have "e \<noteq> OutOfFuel" using quarantine_not_fuel [of E "q round" batch ids m db1] qr by auto
            moreover note quarantine_error(1) [OF f(1) dist qb qr [unfolded Inl]]
              quarantine_error(2) [OF f(1) dist qb qr [unfolded Inl], of q w]
            moreover have "log' = log" "db' = db2" "r = Inl e"
              using step SendRejected ids qr Inl by simp_all
            ultimately show ?thesis by (intro from1) (auto intro!: exI [of _ "[]"])
          next
            case (Inr moved)
            note a = quarantine_ok [OF f(1) dist qb qr [unfolded Inr]]
            have rest: "drain_loop E q (recording send) w fuel (Suc round) (quar @ moved)
                (if reason = [] then m else reason) (s1, log) db2 = ((s', log'), db', r)"
              using step SendRejected ids qr Inr by simp
            note ih = Suc.IH [OF a(1) rest]
            from ih obtain sent where "log' = log @ map snd sent" "drained E q w db2 db' sent" by blast
            then have ex: "\<exists>sent. log' = log @ map snd sent \<and> drained E q w db1 db' sent"
              using drained_quarantined [where q = q and n = round, OF Suc.prems(1) fetch qr [unfolded Inr]] by blast
            from a(5,6) obtain k1 ev1 where b1: "(k1, ev1) \<in> set batch" "EventID ev1 \<in> set moved"
            proof -
              from a(5) obtain i where "i \<in> set moved" by (cases moved) auto
              moreover from this a(6) obtain b where "b \<in> set batch" "i = EventID (snd b)" by auto
              ultimately show thesis using that [of "fst b" "snd b"] by simp
            qed
            have gone: "\<not> db_queued E db2 k1 ev2" for ev2
            proof
              assume q2: "db_queued E db2 k1 ev2"
              with a(2) f(5) [OF b1(1)] have "ev2 = ev1" by (auto simp: db_queued_def)
              with a(2) [of k1 ev1] a(4) q2 b1 show False by (auto simp: image_iff)
            qed
            have "waiting E w db2 < waiting E w db1"
              by (rule waiting_less [of _ _ k1 ev1]) (use a(2) f(5) [OF b1(1)] gone in blast)+
            then have "waiting E w db1 < Suc fuel \<longrightarrow> r \<noteq> Inl OutOfFuel" using ih by simp
            with ih a(5) ex show ?thesis by (intro from1) simp
          qed
        qed
      next
        case (SendError m)
        with step show ?thesis
          by (intro from1) (use f(1) same in \<open>auto intro!: exI [of _ "[]"]\<close>)
      qed
    qed
  qed
qed

section \<open>The whole drain\<close>

lemma drain_watermark_ok:
  assumes ok: "db_ok E db" and run: "drain_watermark E q db = (db1, Inr wm)"
  shows "db_ok E db1"
    and "db_queued E db1 k ev \<longleftrightarrow> db_queued E db k ev \<and> \<not> stamp ev < cutoff q"
    and "db_get E db1 QuarantineB = db_get E db QuarantineB"
    and "wm = None \<Longrightarrow> \<not> db_queued E db1 k ev"
    and "wm = Some w \<Longrightarrow> db_queued E db1 k ev \<Longrightarrow> k \<le> w"
proof -
  obtain tx tx1 where inv: "tx_inv E tx" and op: "opened E db tx" and db1: "db1 = Some \<circ> tx1"
    and f: "rbind (prune_expired E q tx) (\<lambda>(tx1, _).
       Inr (tx1, case tx_scan E tx1 Events of [] \<Rightarrow> None | es \<Rightarrow> Some (fst (last es)))) = Inr (tx1, wm)"
    by (rule db_update_Inr [OF ok run [unfolded drain_watermark_def]])
  obtain tx1' n where p: "prune_expired E q tx = Inr (tx1', n)" "tx_inv E tx1'"
    and q1: "\<And>k ev. queued E tx1' k ev \<longleftrightarrow> queued E tx k ev \<and> \<not> stamp ev < cutoff q"
    and quar: "tx_get E tx1' QuarantineB = tx_get E tx QuarantineB"
    by (rule prune_expired_ok [OF inv, of q]) (rule that; (assumption | blast))
  from f p have tx1: "tx1' = tx1"
    and w: "wm = (case tx_scan E tx1 Events of [] \<Rightarrow> None | es \<Rightarrow> Some (fst (last es)))"
    by (auto simp: rbind_eq_Inr_iff)
  have scan: "k \<in> set (map fst (tx_scan E tx1 Events))" if "db_queued E db1 k ev" for k ev
  proof -
    from that obtain v where "(k, v) \<in> set (tx_scan E tx1 Events)" by (auto simp: db1 queued_def tx_scan_iff)
    then show ?thesis by force
  qed
  show "db_ok E db1" using p tx1 by (simp add: db1 db_okI)
  show "db_queued E db1 k ev \<longleftrightarrow> db_queued E db k ev \<and> \<not> stamp ev < cutoff q"
    using q1 by (simp add: db1 opened_queued [OF op] tx1)
  show "db_get E db1 QuarantineB = db_get E db QuarantineB"
    using quar op by (simp add: db1 tx1 opened_def)
  show "wm = None \<Longrightarrow> \<not> db_queued E db1 k ev"
    using scan [of k ev] w by (auto split: list.splits)
  show "k \<le> w" if "wm = Some w" "db_queued E db1 k ev"
  proof -
    let ?ks = "map fst (tx_scan E tx1 Events)"
    have ne: "?ks \<noteq> []" and "w = last ?ks"
      using that(1) w by (auto simp: last_map split: list.splits)
    then have "?ks = butlast ?ks @ [w]" by simp
    moreover have "sorted_wrt (<) ?ks" by (simp add: tx_scan_def scan_sorted)
    ultimately have "sorted_wrt (<) (butlast ?ks @ [w])" by metis
    then have "\<forall>x\<in>set (butlast ?ks @ [w]). x \<le> w" by (auto simp: sorted_wrt_append)
    with scan [OF that(2)] \<open>?ks = butlast ?ks @ [w]\<close> show ?thesis by metis
  qed
qed

lemma drain_watermark_error:
  assumes "db_ok E db" and "drain_watermark E q db = (db', Inl e)"
  shows "db_ok E db'" and "drained E qs w db db' []" and "e \<noteq> OutOfFuel"
proof -
  show "db_ok E db'"
  proof (rule db_update_Inl_ok [OF assms(1) assms(2) [unfolded drain_watermark_def]])
    fix tx tx' :: "'b tx" and x
    assume inv: "tx_inv E tx"
    assume "rbind (prune_expired E q tx) (\<lambda>(tx1, _).
       Inr (tx1, case tx_scan E tx1 Events of [] \<Rightarrow> None | es \<Rightarrow> Some (fst (last es)))) = Inr (tx', x)"
    then obtain n where p: "prune_expired E q tx = Inr (tx', n)" by (auto simp: rbind_eq_Inr_iff)
    obtain tx1 n1 where "prune_expired E q tx = Inr (tx1, n1)" "tx_inv E tx1"
      by (rule prune_expired_ok [OF inv, of q])
    with p show "tx_inv E tx'" by simp
  qed
  from db_update_Inl [OF assms(1) assms(2) [unfolded drain_watermark_def]]
  show "drained E qs w db db' []" by (simp add: drained_def)
  have "snd (drain_watermark E q db) \<noteq> Inl OutOfFuel"
    unfolding drain_watermark_def
  proof (rule db_update_not_fuel)
    fix tx assume "open_queue E db = Inr tx"
    with open_queue_ok(1) [OF assms(1)] have inv: "tx_inv E tx" by blast
    obtain tx1 n where "prune_expired E q tx = Inr (tx1, n)" by (rule prune_expired_ok [OF inv, of q])
    then show "rbind (prune_expired E q tx) (\<lambda>(tx1, _).
       Inr (tx1, case tx_scan E tx1 Events of [] \<Rightarrow> None | es \<Rightarrow> Some (fst (last es)))) \<noteq> Inl OutOfFuel"
      by simp
  qed
  with assms(2) show "e \<noteq> OutOfFuel" by auto
qed

lemma waiting_less_fuel: "waiting E w db < drain_fuel E db"
proof -
  have "waiting E w db \<le> card (dom (db_get E db Events))"
    unfolding waiting_def by (rule card_mono [OF finite_db_events waiting_sub])
  also have "\<dots> < drain_fuel E db"
    by (cases "db Events") (simp_all add: drain_fuel_def db_get_def length_scan dom_def)
  finally show ?thesis .
qed

text \<open>
  One drain: whatever the control plane answers, it ends without running out of fuel; the
  accepted events were queued and went out in order and once; what left the queue was
  accepted, had expired or is quarantined; and a drain that reports success leaves the
  queue empty and quarantines nothing.
\<close>

lemma drain_ok:
  assumes ok: "db_ok E db" and run: "drain E q locked (recording send) (s, []) db = ((s', log), db', r)"
  shows "db_ok E db' \<and> (\<exists>w sent. log = map snd sent \<and> drained E q w db db' sent) \<and> r \<noteq> Inl OutOfFuel \<and>
    (r = Inr () \<longrightarrow> (\<forall>k ev. \<not> db_queued E db' k ev) \<and> db_get E db' QuarantineB = db_get E db QuarantineB)"
proof (cases locked)
  case False
  with run have "db' = db" "log = []" "r = Inl LockError" by (auto simp: drain_def)
  then show ?thesis using ok by (auto intro!: exI [of _ "[]"] simp: drained_def)
next
  case True
  obtain db1 o1 where w: "drain_watermark E (q 0) db = (db1, o1)" by force
  show ?thesis
  proof (cases o1)
    case (Inl e)
    then have res: "db' = db1" "log = []" "r = Inl e" using run w True by (simp_all add: drain_def)
    note err = drain_watermark_error [OF ok w [unfolded Inl]]
    show ?thesis unfolding res using err by (auto intro!: exI [of _ "[]"])
  next
    case (Inr wm)
    note a = drain_watermark_ok [OF ok w [unfolded Inr]]
    have undo_prune: "drained E q wk db db' sent" if "drained E q wk db1 db' sent" for wk sent
    proof (rule drainedI)
      fix k ev
      show "db_queued E db k ev \<Longrightarrow> db_queued E db' k ev \<or> (k, ev) \<in> set sent \<or>
        (\<exists>n. stamp ev < cutoff (q n)) \<or> db_get E db' QuarantineB (EventID ev) \<noteq> None"
        using a(2) drainedD(4) [OF that] by blast
    qed (use drainedD [OF that] a(2,3) in \<open>blast | simp\<close>)+
    show ?thesis
    proof (cases wm)
      case None
      then have res: "db' = db1" "log = []" "r = Inr ()" using run w True Inr by (simp_all add: drain_def)
      have "drained E q [] db1 db1 []" by (simp add: drained_def)
      then have "drained E q [] db db' []" using undo_prune res by simp
      then show ?thesis using a(1,3,4) None res by (auto intro!: exI [of _ "[]"])
    next
      case (Some wk)
      have "drain_loop E q (recording send) wk (drain_fuel E db1) 1 [] [] (s, []) db1 = ((s', log), db', r)"
        using run w True Inr Some by (simp add: drain_def)
      note l = drain_loop_ok [OF a(1) this]
      have "r \<noteq> Inl OutOfFuel" using l waiting_less_fuel by blast
      moreover have "\<not> db_queued E db' k ev" if "r = Inr ()" for k ev
      proof
        assume q: "db_queued E db' k ev"
        from l obtain sent where "drained E q wk db1 db' sent" by blast
        then have "db_queued E db1 k ev" using drainedD(3) q by blast
        with a(5) Some have "k \<le> wk" by blast
        with l that q show False by blast
      qed
      moreover have "\<exists>w sent. log = map snd sent \<and> drained E q w db db' sent"
        using l undo_prune by (metis append_Nil)
      ultimately show ?thesis using l a(3) by simp
    qed
  qed
qed

section \<open>A drain into an accepting control plane succeeds\<close>

lemma open_queue_progress:
  assumes ok: "db_ok E db" and rel: "reliable E"
  shows "\<exists>tx. open_queue E db = Inr tx"
proof -
  from ok consider "db = (\<lambda>_. None)" | tx0 where "db = Some \<circ> tx0" "tx_inv E tx0"
    by (auto simp: db_ok_def)
  then have "\<exists>tx. initialize_queue_buckets E db = Inr tx"
  proof cases
    case 1
    have e: "tx_get E (\<lambda>name. b_empty (store E)) m = Map.empty" for m
      by (rule ext) (simp add: tx_get_def get_empty)
    have s: "tx_scan E (\<lambda>name. b_empty (store E)) Events = []"
      by (simp add: tx_scan_def scan_empty)
    obtain tx where "tx_put E MetaB meta_event_ids_key (encode_uint64 1) (\<lambda>name. b_empty (store E)) = Inr tx"
      by (rule tx_put_ok [of meta_event_ids_key "encode_uint64 1" MetaB])
         (simp_all add: meta_event_ids_key_def max_key_size_def max_value_size_def)
    then show ?thesis
      by (simp add: 1 initialize_queue_buckets_def backfill_queued_event_ids_def e s decode_uint64_def)
  next
    case 2
    then show ?thesis by (simp add: initialize_idem)
  qed
  then show ?thesis using rel by (auto simp: open_queue_def reliable_def)
qed

lemma db_update_progress:
  assumes ok: "db_ok E db" and rel: "reliable E"
    and f: "\<And>tx. tx_inv E tx \<Longrightarrow> opened E db tx \<Longrightarrow> \<exists>r. f tx = Inr r"
  shows "\<exists>db' x. db_update E f db = (db', Inr x)"
proof -
  obtain tx where tx: "open_queue E db = Inr tx" using open_queue_progress [OF ok rel] by blast
  with f open_queue_ok [OF ok tx] obtain tx' x where "f tx = Inr (tx', x)" by fast
  with tx rel show ?thesis by (simp add: db_update_def reliable_def)
qed

lemma record_delivered_progress:
  assumes "i \<noteq> []" and "length i + 8 \<le> max_key_size"
  shows "\<exists>tx'. record_delivered_event_id E i t tx = Inr tx'"
proof -
  let ?key = "delivered_time_key t i"
  define tx0 where "tx0 = (case tx_get E tx DeliveredIDs i of None \<Rightarrow> tx
    | Some previousKey \<Rightarrow> tx_del E DeliveredTimes previousKey tx)"
  have len: "length ?key = length i + 8" by (simp add: delivered_time_key_def)
  obtain tx1 where "tx_put E DeliveredIDs i ?key tx0 = Inr tx1"
    by (rule tx_put_ok [of i ?key DeliveredIDs tx0])
       (use assms len in \<open>simp_all add: max_key_size_def max_value_size_def\<close>)
  moreover obtain tx2 where "tx_put E DeliveredTimes ?key [] tx1 = Inr tx2"
    by (rule tx_put_ok [of ?key "[]" DeliveredTimes tx1])
       (use assms len in \<open>auto simp: max_key_size_def max_value_size_def delivered_time_key_def\<close>)
  ultimately show ?thesis by (simp add: record_delivered_event_id_def tx0_def Let_def)
qed

lemma acknowledge_loop_progress:
  assumes "tx_inv E tx" and "batch_of E tx batch" and "\<forall>(k, ev)\<in>set batch. length (EventID ev) + 8 \<le> max_key_size"
  shows "\<exists>tx'. acknowledge_loop E t batch tx = Inr tx'"
  using assms
proof (induction batch arbitrary: tx)
  case Nil
  then show ?case by simp
next
  case (Cons b batch)
  obtain k ev where b: "b = (k, ev)" by force
  obtain tx1 where r: "(if EventID ev \<noteq> [] then record_delivered_event_id E (EventID ev) t tx else Inr tx) = Inr tx1"
    using record_delivered_progress [of "EventID ev" t tx] Cons.prems(3)
    by (cases "EventID ev = []") (auto simp: b)
  have s1: "tx_inv E tx1 \<and> tx_get E tx1 Events = tx_get E tx Events"
  proof (cases "EventID ev = []")
    case True
    with r Cons.prems(1) show ?thesis by simp
  next
    case False
    with r record_delivered_ok [OF Cons.prems(1) False, of t tx1] show ?thesis by simp
  qed
  have "queued E tx k ev" using Cons.prems(2) by (simp add: b batch_of_def)
  then obtain v n where w: "tx_get E tx1 Events k = Some v" "decodes E v ev n"
    using s1 by (auto simp: queued_def)
  obtain tx2 where d: "delete_queued_event E k True tx1 = Inr tx2" "tx_inv E tx2"
    and ev2: "tx_get E tx2 Events = (tx_get E tx1 Events)(k := None)"
    by (rule delete_queued_event_ok [OF s1 [THEN conjunct1] w])
  have ev2': "tx_get E tx2 Events = (tx_get E tx Events)(k := None)" using ev2 s1 by simp
  obtain tx' where "acknowledge_loop E t batch tx2 = Inr tx'"
    using Cons.IH [OF d(2) batch_of_remove [OF Cons.prems(2) [unfolded b] ev2']] Cons.prems(3) by auto
  with r d show ?case by (simp add: b)
qed

lemma take_batch_progress:
  assumes "\<And>k v. (k, v) \<in> set es \<Longrightarrow> \<exists>ev n. decodes E v ev n"
  shows "\<exists>batch. take_batch E w n es = Inr batch"
  using assms
proof (induction E w n es rule: take_batch.induct)
  case (3 E w n sequence stored es)
  from 3(2) obtain ev m where d: "decode_queued_event E stored = Inr (ev, m)" by force
  show ?case
  proof (cases "w < sequence")
    case False
    with 3(1) [OF False d] 3(2) d show ?thesis by fastforce
  qed simp
qed simp_all

lemma next_drain_batch_progress:
  assumes "db_ok E db" and "reliable E"
  shows "\<exists>db1 batch. next_drain_batch E q w db = (db1, Inr batch)"
  unfolding next_drain_batch_def
proof (rule db_update_progress [OF assms])
  fix tx assume inv: "tx_inv E tx"
  obtain tx1 n where p: "prune_expired E q tx = Inr (tx1, n)" "tx_inv E tx1"
    by (rule prune_expired_ok [OF inv, of q])
  have "\<exists>batch. take_batch E w queue_drain_batch_size (tx_scan E tx1 Events) = Inr batch"
    by (rule take_batch_progress) (use index_inv_decodes [OF tx_inv_index [OF p(2)]] tx_scan_iff in blast)
  with p show "\<exists>r. rbind (prune_expired E q tx) (\<lambda>(tx1, _).
       rbind (take_batch E w queue_drain_batch_size (tx_scan E tx1 Events)) (\<lambda>batch. Inr (tx1, batch))) = Inr r"
    by auto
qed

lemma acknowledge_progress:
  assumes "db_ok E db" and "reliable E" and "distinct (map fst batch)"
    and "\<And>k ev. (k, ev) \<in> set batch \<Longrightarrow> db_queued E db k ev \<and> length (EventID ev) + 8 \<le> max_key_size"
  shows "\<exists>db'. acknowledge E q batch db = (db', Inr ())"
proof -
  have "\<exists>db' x. acknowledge E q batch db = (db', Inr x)"
    unfolding acknowledge_def
  proof (rule db_update_progress [OF assms(1,2)])
    fix tx assume inv: "tx_inv E tx" and op: "opened E db tx"
    have "batch_of E tx batch" using assms(3,4) by (auto simp: batch_of_def opened_queued [OF op])
    then obtain tx' where "acknowledge_loop E (q_now q) batch tx = Inr tx'"
      using acknowledge_loop_progress [OF inv] assms(4) by blast
    then show "\<exists>r. rbind (acknowledge_loop E (q_now q) batch tx) (\<lambda>tx1. Inr (tx1, ())) = Inr r" by simp
  qed
  then show ?thesis by simp
qed

lemma drain_loop_progress:
  assumes "db_ok E db" and "reliable E" and "waiting E w db < fuel"
    and "\<And>k ev. db_queued E db k ev \<Longrightarrow> length (EventID ev) + 8 \<le> max_key_size"
    and "\<And>s evs. snd (send s evs) = SendOk"
  shows "snd (snd (drain_loop E q (recording send) w fuel round [] reason (s, log) db)) = Inr ()"
  using assms(1,3,4)
proof (induction fuel arbitrary: round s log db)
  case 0
  then show ?case by simp
next
  case (Suc fuel)
  obtain db1 batch where fetch: "next_drain_batch E (q round) w db = (db1, Inr batch)"
    using next_drain_batch_progress [OF Suc.prems(1) assms(2)] by blast
  note f = next_drain_batch_ok [OF Suc.prems(1) fetch]
  have dist: "distinct (map fst batch)" using f(4) by (simp add: strict_sorted_iff)
  have qb: "\<forall>(k, ev)\<in>set batch. db_queued E db1 k ev" using f(5) by blast
  show ?case
  proof (cases "batch = []")
    case True
    with fetch show ?thesis by simp
  next
    case False
    then obtain k0 ev0 where b0: "(k0, ev0) \<in> set batch" by (cases batch) auto
    have "length (EventID ev) + 8 \<le> max_key_size" if "(k, ev) \<in> set batch" for k ev
      using Suc.prems(3) f(5) [OF that] f(2) by blast
    then obtain db2 where ack: "acknowledge E (q round) batch db1 = (db2, Inr ())"
      using acknowledge_progress [OF f(1) assms(2) dist, of "q round"] f(5) by blast
    note a = acknowledge_ok [OF f(1) dist qb ack]
    have sub: "db_queued E db k ev" if "db_queued E db2 k ev" for k ev using that a(2) f(2) by blast
    have "waiting E w db2 < waiting E w db"
      by (rule waiting_less [of _ _ k0 ev0]) (use sub a(2) f(2) f(5) [OF b0] b0 in force)+
    then have fuel: "waiting E w db2 < fuel" using Suc.prems(2) by simp
    obtain s1 where "send s (map snd batch) = (s1, SendOk)"
      using assms(5) [of s "map snd batch"] by (metis prod.collapse)
    then have "drain_loop E q (recording send) w (Suc fuel) round [] reason (s, log) db =
        drain_loop E q (recording send) w fuel (Suc round) [] reason (s1, log @ map snd batch) db2"
      using fetch ack False by (simp add: recording_pair)
    with Suc.IH [OF a(1) fuel] Suc.prems(3) sub show ?thesis by metis
  qed
qed

lemma drain_progress:
  assumes ok: "db_ok E db" and rel: "reliable E"
    and ids: "\<And>k ev. db_queued E db k ev \<Longrightarrow> length (EventID ev) + 8 \<le> max_key_size"
    and acc: "\<And>s evs. snd (send s evs) = SendOk"
  shows "snd (snd (drain E q True (recording send) (s, log) db)) = Inr ()"
proof -
  have "\<exists>db1 wm. drain_watermark E (q 0) db = (db1, Inr wm)"
    unfolding drain_watermark_def
  proof (rule db_update_progress [OF ok rel])
    fix tx assume inv: "tx_inv E tx"
    obtain tx1 n where "prune_expired E (q 0) tx = Inr (tx1, n)" by (rule prune_expired_ok [OF inv, of "q 0"])
    then show "\<exists>r. rbind (prune_expired E (q 0) tx) (\<lambda>(tx1, _).
       Inr (tx1, case tx_scan E tx1 Events of [] \<Rightarrow> None | es \<Rightarrow> Some (fst (last es)))) = Inr r" by simp
  qed
  then obtain db1 wm where w: "drain_watermark E (q 0) db = (db1, Inr wm)" by blast
  note a = drain_watermark_ok [OF ok w]
  show ?thesis
  proof (cases wm)
    case None
    with w show ?thesis by (simp add: drain_def)
  next
    case (Some wk)
    have "snd (snd (drain_loop E q (recording send) wk (drain_fuel E db1) 1 [] [] (s, log) db1)) = Inr ()"
      by (rule drain_loop_progress [OF a(1) rel waiting_less_fuel _ acc]) (use ids a(2) in blast)
    with w Some show ?thesis by (simp add: drain_def)
  qed
qed

end

end
