(* ===== verification/Queue_Properties.thy ===== *)
theory Queue_Properties
  imports Queue_Drain
begin

text \<open>
  The properties of the event queue. Each holds for every environment that satisfies
  \<open>queue_laws\<close> (the documented behaviour of bbolt and of the JSON codec); the witnesses
  apply it to \<open>env0\<close>, a store of association lists with a plain codec, after one event
  has been appended.
\<close>

section \<open>An environment for the witnesses\<close>

definition plain_marshal :: "event \<Rightarrow> string option" where
  "plain_marshal ev =
     (if in_int64 (CreatedAt ev)
      then Some (encode_uint64 (word_of_int (CreatedAt ev)) @ EventID ev) else None)"

definition plain_unmarshal :: "string \<Rightarrow> event option" where
  "plain_unmarshal s =
     (if length s < 8 then None
      else Some (empty_event\<lparr>EventID := drop 8 s, CreatedAt := sint (uint64_be (take 8 s))\<rparr>))"

definition env0 :: "(string \<times> string) list queue_env" where
  "env0 =
     \<lparr>store = list_bolt, marshal_event = plain_marshal, unmarshal_event = plain_unmarshal,
      marshal_quarantined = (\<lambda>_ reason ev. Some (reason @ EventID ev))\<rparr>"

lemma env0_sel [simp]:
  "store env0 = list_bolt" "marshal_event env0 = plain_marshal" "unmarshal_event env0 = plain_unmarshal"
  by (simp_all add: env0_def)

interpretation plain: queue_laws env0
proof (intro queue_laws.intro queue_laws_axioms.intro)
  show "bolt_laws (store env0)" by (simp add: list_store.bolt_laws_axioms)
next
  fix ev b
  assume "marshal_event env0 ev = Some b" and "valid_utf8 (EventID ev)"
  then have "in_int64 (CreatedAt ev)" and b: "b = encode_uint64 (word_of_int (CreatedAt ev)) @ EventID ev"
    by (simp_all add: plain_marshal_def split: if_splits)
  then show "\<exists>ev'. unmarshal_event env0 b = Some ev' \<and> EventID ev' = EventID ev \<and> CreatedAt ev' = CreatedAt ev"
    by (simp add: plain_unmarshal_def sint_word_of_int wrap64_id)
qed

lemma reliable_env0 [simp]: "reliable env0"
  by (simp add: reliable_def list_bolt_def)

definition noon :: time where
  "noon = 1700000000 * nanos_per_second"

definition q0 :: queue where
  "q0 = new_queue noon"

definition event_a :: event where
  "event_a = empty_event\<lparr>EventID := ''a'', CreatedAt := noon\<rparr>"

definition fresh_db :: "(string \<times> string) list db" where
  "fresh_db = (\<lambda>_. None)"

definition db_a :: "(string \<times> string) list db" where
  "db_a = fst (append_with_stats env0 q0 [event_a] fresh_db)"

lemma fresh_db_ok: "db_ok env0 fresh_db"
  by (simp add: db_ok_def fresh_db_def)

lemma noon_int64: "in_int64 noon"
  by (simp add: noon_def in_int64_def nanos_per_second_def)

lemma event_a_sel [simp]: "EventID event_a = ''a''" "CreatedAt event_a = noon"
  by (simp_all add: event_a_def)

lemma valid_utf8_a [simp]: "valid_utf8 ''a''"
  by (rule valid_utf8_ascii) (simp add: ascii_char_def byte_def)

lemma utf8_a: "\<forall>ev\<in>set [event_a]. valid_utf8 (EventID ev)"
  by simp

lemma event_a_cost: "event_cost env0 event_a = 10"
  using noon_int64 by (simp add: event_cost_def plain_marshal_def)

lemma fresh_room: "append_room env0 fresh_db [event_a]"
  by (simp add: append_room_def fresh_db_def queue_bytes_def meta_word_def decode_uint64_def event_a_cost)

lemma storable_a: "storable env0 event_a"
  using noon_int64 by (simp add: storable_def plain_marshal_def max_key_size_def max_value_size_def)

lemma event_a_unexpired: "\<not> expired q0 event_a"
  by (simp add: expired_def q0_def new_queue_def cutoff_def queue_max_age_def is_zero_def zero_time_def
      noon_def nanos_per_hour_def nanos_per_minute_def nanos_per_second_def)

lemma append_a: "\<exists>st. append_with_stats env0 q0 [event_a] fresh_db = (db_a, Inr st)"
proof -
  have "\<exists>db' st. append_with_stats env0 q0 [event_a] fresh_db = (db', Inr st)"
    unfolding append_with_stats_def
  proof (rule plain.db_update_progress [OF fresh_db_ok reliable_env0])
    fix tx assume inv: "tx_inv env0 tx" and op: "opened env0 fresh_db tx"
    show "\<exists>r. append_tx env0 q0 [event_a] tx = Inr r"
      by (rule plain.append_tx_progress [OF inv])
         (use fresh_room op storable_a in \<open>simp_all add: append_room_def opened_def\<close>)
  qed
  then show ?thesis by (auto simp: db_a_def)
qed

lemma db_a_ok: "db_ok env0 db_a"
  unfolding db_a_def by (rule plain.append_keeps_db_ok [OF fresh_db_ok _ fresh_room]) simp

lemma fresh_queued [simp]: "\<not> db_queued env0 fresh_db k ev"
  by (simp add: db_queued_def fresh_db_def)

lemma fresh_barred [simp]: "\<not> barred env0 q fresh_db i"
  by (simp add: barred_def fresh_db_def)

lemma db_a_queued: "\<exists>k ev. db_queued env0 db_a k ev \<and> EventID ev = ''a'' \<and> CreatedAt ev = noon"
  and db_a_only: "db_queued env0 db_a k ev \<Longrightarrow> EventID ev = ''a'' \<and> CreatedAt ev = noon"
proof -
  from append_a obtain st where run: "append_with_stats env0 q0 [event_a] fresh_db = (db_a, Inr st)" by blast
  obtain tx tx1 tx2 tx' where q1: "\<And>k ev. queued env0 tx1 k ev \<longleftrightarrow> db_queued env0 fresh_db k ev \<and> \<not> stamp ev < cutoff q0"
    and s1: "\<And>i. settled env0 tx1 i \<longleftrightarrow> barred env0 q0 fresh_db i"
    and b: "queue_bytes (tx_get env0 tx1 Events) \<le> queue_bytes (db_get env0 fresh_db Events)"
    and sub: "\<And>k ev. queued env0 tx' k ev \<Longrightarrow> queued env0 tx2 k ev"
    and same: "queue_bytes (tx_get env0 tx2 Events) \<le> effective_max_bytes q0 \<Longrightarrow> tx' = tx2"
    and a: "appended env0 q0 [event_a] tx1 tx2"
    and db: "db_a = Some \<circ> tx'"
    by (rule plain.append_phases [OF fresh_db_ok utf8_a fresh_room run]) (rule that; (assumption | blast))
  have "queue_bytes (tx_get env0 tx1 Events) \<le> 0" using b by (simp add: fresh_db_def queue_bytes_def)
  then have "queue_bytes (tx_get env0 tx2 Events) \<le> effective_max_bytes q0"
    using a by (simp add: appended_def event_a_cost effective_max_bytes_def q0_def new_queue_def queue_max_bytes_def)
  then have tx': "tx' = tx2" by (rule same)
  have only: "EventID ev = ''a'' \<and> CreatedAt ev = noon" if "queued env0 tx2 k ev" for k ev
    using a q1 that unfolding appended_def by fastforce
  show "db_queued env0 db_a k ev \<Longrightarrow> EventID ev = ''a'' \<and> CreatedAt ev = noon"
    using only by (simp add: db tx')
  have "\<exists>k e. queued env0 tx2 k e \<and> EventID e = EventID event_a"
    using a s1 event_a_unexpired unfolding appended_def by simp
  then show "\<exists>k ev. db_queued env0 db_a k ev \<and> EventID ev = ''a'' \<and> CreatedAt ev = noon"
    using only by (fastforce simp: db tx')
qed

section \<open>Append\<close>

text \<open>
  C3: Whatever an append does and however it ends (an error of the store in the middle
  included), buckets, indexes, counters and delivery records of the queue agree afterwards,
  as long as the byte counter and the sequence numbers have room for the new events.
\<close>

theorem append_preserves_queue_invariant:
  assumes "queue_laws E" and "db_ok E db" and "append_room E db events"
    and "\<forall>ev\<in>set events. valid_utf8 (EventID ev)"
  shows "db_ok E (fst (append_with_stats E q events db))"
  by (rule queue_laws.append_keeps_db_ok [OF assms(1,2,4,3)])

lemma append_preserves_queue_invariant_witness:
  "db_ok env0 (fst (append_with_stats env0 q0 [event_a] fresh_db))"
  by (rule append_preserves_queue_invariant)
     (simp_all add: plain.queue_laws_axioms fresh_db_ok fresh_room)

text \<open>
  C4: After a successful append the queue is within its byte limit, holds no expired event,
  and the returned statistics are the truth: the counted events and bytes are those of the
  event bucket, and the oldest instant is the least one queued.
\<close>

theorem append_respects_limits:
  assumes "queue_laws E" and "db_ok E db" and "append_room E db events"
    and "\<forall>ev\<in>set events. valid_utf8 (EventID ev) \<and> in_int64 (CreatedAt ev)"
    and "append_with_stats E q events db = (db', Inr st)"
  shows "queue_bytes (db_get E db' Events) \<le> effective_max_bytes q \<and>
    QueuedBytes st = queue_bytes (db_get E db' Events) \<and>
    QueuedEvents st = int (card (dom (db_get E db' Events))) \<and>
    (\<forall>k ev. db_queued E db' k ev \<longrightarrow> cutoff q \<le> stamp ev \<and> OldestQueuedAt st \<le> stamp ev)"
proof -
  have utf8: "\<forall>ev\<in>set events. valid_utf8 (EventID ev)" using assms(4) by blast
  obtain tx tx1 tx2 tx' where q1: "\<And>k ev. queued E tx1 k ev \<longleftrightarrow> db_queued E db k ev \<and> \<not> stamp ev < cutoff q"
    and lim: "queue_bytes (tx_get E tx' Events) \<le> effective_max_bytes q"
    and sub: "\<And>k ev. queued E tx' k ev \<Longrightarrow> queued E tx2 k ev"
    and st: "QueuedEvents st = int (card (dom (tx_get E tx' Events)))"
      "QueuedBytes st = queue_bytes (tx_get E tx' Events)"
      "OldestQueuedAt st = OldestQueuedAt (queue_stats_from_tx E tx')"
    and a: "appended E q events tx1 tx2"
    and inv: "tx_inv E tx'" and db: "db' = Some \<circ> tx'"
    by (rule queue_laws.append_phases [OF assms(1,2) utf8 assms(3,5)]) (rule that; (assumption | blast))
  have "cutoff q \<le> stamp ev" if "queued E tx' k ev" for k ev
  proof -
    from sub [OF that] a consider "queued E tx1 k ev" |
      e where "e \<in> set events" "\<not> expired q e" "CreatedAt ev = CreatedAt e"
      unfolding appended_def by blast
    then show ?thesis
    proof cases
      case 1
      with q1 show ?thesis by (simp add: not_less)
    next
      case (2 e)
      with assms(4) show ?thesis by (auto simp: expired_def stamp_def wrap64_id)
    qed
  qed
  with lim st queue_laws.oldest_queued_at(1) [OF assms(1) inv] show ?thesis by (simp add: db)
qed

lemma append_respects_limits_witness:
  "queue_bytes (db_get env0 db_a Events) \<le> effective_max_bytes q0"
proof -
  obtain st where "append_with_stats env0 q0 [event_a] fresh_db = (db_a, Inr st)" using append_a by blast
  from append_respects_limits [OF plain.queue_laws_axioms fresh_db_ok fresh_room _ this] noon_int64
  show ?thesis by simp
qed

text \<open>
  C5: Nothing else gets into the queue: an event that is queued after an append was queued
  before and has not expired, or is an event of the append that is not expired, not
  quarantined and not recently delivered. So an event whose delivery is on record is not
  queued, and not sent, a second time.
\<close>

theorem append_queues_only_new_events:
  assumes "queue_laws E" and "db_ok E db" and "append_room E db events"
    and "\<forall>ev\<in>set events. valid_utf8 (EventID ev)"
    and "append_with_stats E q events db = (db', Inr st)" and "db_queued E db' k e"
  shows "(db_queued E db k e \<and> cutoff q \<le> stamp e) \<or>
    (\<exists>ev\<in>set events. EventID e = EventID ev \<and> CreatedAt e = CreatedAt ev \<and>
       \<not> expired q ev \<and> \<not> barred E q db (EventID ev))"
proof -
  obtain tx tx1 tx2 tx' where q1: "\<And>k ev. queued E tx1 k ev \<longleftrightarrow> db_queued E db k ev \<and> \<not> stamp ev < cutoff q"
    and s1: "\<And>i. settled E tx1 i \<longleftrightarrow> barred E q db i"
    and sub: "\<And>k ev. queued E tx' k ev \<Longrightarrow> queued E tx2 k ev"
    and a: "appended E q events tx1 tx2"
    and db: "db' = Some \<circ> tx'"
    by (rule queue_laws.append_phases [OF assms(1,2,4,3,5)]) (rule that; (assumption | blast))
  from assms(6) have "queued E tx2 k e" by (simp add: db sub)
  then have "queued E tx1 k e \<or> (\<exists>ev\<in>set events. \<not> expired q ev \<and> EventID e = EventID ev \<and>
      CreatedAt e = CreatedAt ev \<and> \<not> barred E q db (EventID ev))"
    using a unfolding appended_def s1 by blast
  then show ?thesis unfolding q1 not_less by blast
qed

lemma append_queues_only_new_events_witness:
  "\<exists>k e. db_queued env0 db_a k e \<and>
    (\<exists>ev\<in>set [event_a]. EventID e = EventID ev \<and> \<not> expired q0 ev \<and> \<not> barred env0 q0 fresh_db (EventID ev))"
proof -
  obtain st where run: "append_with_stats env0 q0 [event_a] fresh_db = (db_a, Inr st)" using append_a by blast
  obtain k e where "db_queued env0 db_a k e" using db_a_queued by blast
  with append_queues_only_new_events [OF plain.queue_laws_axioms fresh_db_ok fresh_room _ run this]
  show ?thesis by fastforce
qed

text \<open>
  C6: Nothing is lost while there is space: when the old and the new records together are
  within the byte limit, every unexpired queued event stays (or a snapshot event of the
  append with the same identifier takes its place), and every new event that is neither
  expired nor barred is queued.
\<close>

theorem append_loses_nothing_within_capacity:
  assumes "queue_laws E" and "db_ok E db" and "append_room E db events"
    and "\<forall>ev\<in>set events. valid_utf8 (EventID ev)"
    and "append_with_stats E q events db = (db', Inr st)"
    and "queue_bytes (db_get E db Events) + (\<Sum>ev\<leftarrow>events. event_cost E ev) \<le> effective_max_bytes q"
  shows "(\<forall>k e. db_queued E db k e \<and> cutoff q \<le> stamp e \<longrightarrow> db_queued E db' k e \<or>
      (\<exists>ev\<in>set events. EventID ev = EventID e \<and> is_compactable_snapshot ev)) \<and>
    (\<forall>ev\<in>set events. \<not> expired q ev \<and> \<not> barred E q db (EventID ev) \<longrightarrow>
      (\<exists>k e. db_queued E db' k e \<and> EventID e = EventID ev))"
  using queue_laws.append_within_capacity [OF assms] by blast

lemma append_loses_nothing_within_capacity_witness:
  "\<exists>k e. db_queued env0 db_a k e \<and> EventID e = EventID event_a"
proof -
  obtain st where run: "append_with_stats env0 q0 [event_a] fresh_db = (db_a, Inr st)" using append_a by blast
  have "queue_bytes (db_get env0 fresh_db Events) + (\<Sum>ev\<leftarrow>[event_a]. event_cost env0 ev) \<le> effective_max_bytes q0"
    by (simp add: fresh_db_def queue_bytes_def event_a_cost effective_max_bytes_def q0_def new_queue_def
        queue_max_bytes_def)
  from append_loses_nothing_within_capacity [OF plain.queue_laws_axioms fresh_db_ok fresh_room _ run this]
  show ?thesis using event_a_unexpired by simp
qed

text \<open>
  Eviction takes the oldest first: an unexpired event that an append pushed out of the
  queue (and that no snapshot of the append replaced) is older than every event that is
  still queued, by its instant and then by its sequence number.
\<close>

theorem append_evicts_oldest_first:
  assumes "queue_laws E" and "db_ok E db" and "append_room E db events"
    and "\<forall>ev\<in>set events. valid_utf8 (EventID ev)"
    and "append_with_stats E q events db = (db', Inr st)"
    and "db_queued E db k e" and "cutoff q \<le> stamp e" and "\<not> db_queued E db' k e"
    and "\<forall>ev\<in>set events. EventID ev \<noteq> EventID e"
    and "db_queued E db' k' e'"
  shows "stamp e < stamp e' \<or> (stamp e = stamp e' \<and> k \<le> k')"
proof -
  obtain tx tx1 tx2 tx' where q1: "\<And>k ev. queued E tx1 k ev \<longleftrightarrow> db_queued E db k ev \<and> \<not> stamp ev < cutoff q"
    and old: "\<And>k ev k' ev'. queued E tx' k ev \<Longrightarrow> queued E tx2 k' ev' \<Longrightarrow> \<not> queued E tx' k' ev' \<Longrightarrow>
       stamp ev' < stamp ev \<or> (stamp ev' = stamp ev \<and> k' \<le> k)"
    and a: "appended E q events tx1 tx2"
    and db: "db' = Some \<circ> tx'"
    by (rule queue_laws.append_phases [OF assms(1,2,4,3,5)]) (rule that; (assumption | blast))
  have "queued E tx1 k e" using assms(6,7) by (simp add: q1)
  with a assms(9) have "queued E tx2 k e" unfolding appended_def by metis
  with old assms(8,10) show ?thesis by (simp add: db)
qed

definition event_b :: event where
  "event_b = empty_event\<lparr>EventID := ''b'', CreatedAt := noon + 1\<rparr>"

definition q_small :: queue where
  "q_small = q0\<lparr>q_maxBytes := 10\<rparr>"

definition db_b :: "(string \<times> string) list db" where
  "db_b = fst (append_with_stats env0 q_small [event_b] db_a)"

lemma plain_queued:
  assumes "db_get env0 db Events k = Some (encode_queued_event (CreatedAt ev) (the (plain_marshal ev)))"
    and "in_int64 (CreatedAt ev)" and "ev = empty_event\<lparr>EventID := EventID ev, CreatedAt := CreatedAt ev\<rparr>"
  shows "db_queued env0 db k ev"
proof -
  have "unmarshal_event env0 (the (plain_marshal ev)) = Some ev"
    using assms(2,3) by (simp add: plain_marshal_def plain_unmarshal_def sint_word_of_int wrap64_id)
  from decode_encode_queued_event [OF this] assms(1) show ?thesis by (auto simp: db_queued_def)
qed

lemma append_b:
  "\<exists>st. append_with_stats env0 q_small [event_b] db_a = (db_b, Inr st)"
proof -
  have "case snd (append_with_stats env0 q_small [event_b] db_a) of Inl _ \<Rightarrow> False | Inr _ \<Rightarrow> True"
    by code_simp
  then show ?thesis by (cases "append_with_stats env0 q_small [event_b] db_a") (auto simp: db_b_def split: sum.splits)
qed

lemma db_a_seq: "db_get env0 db_a Events (encode_uint64 1) = Some (encode_queued_event (CreatedAt event_a) (the (plain_marshal event_a)))"
  by code_simp

lemma db_b_seq:
  "db_get env0 db_b Events (encode_uint64 1) = None"
  "db_get env0 db_b Events (encode_uint64 2) = Some (encode_queued_event (CreatedAt event_b) (the (plain_marshal event_b)))"
  by code_simp+

lemma plain_roomI:
  assumes "db_ok env0 db" and "db \<noteq> (\<lambda>_. None)"
    and "sint (decode_uint64 (db_get env0 db MetaB meta_bytes_key)) + (\<Sum>ev\<leftarrow>events. event_cost env0 ev) < 2 ^ 63"
    and "unat (decode_uint64 (db_get env0 db MetaB meta_next_key)) + length events < 2 ^ 64"
  shows "append_room env0 db events"
proof -
  from assms(1,2) obtain tx where tx: "db = Some \<circ> tx" "tx_inv env0 tx" by (auto simp: db_ok_def)
  with assms(3,4) tx_inv_bytes [OF tx(2)] show ?thesis
    by (simp add: append_room_def queue_meta_int64_def meta_word_def)
qed

lemma db_a_not_fresh: "db_a \<noteq> (\<lambda>_. None)"
  using db_a_queued by (metis db_get_empty db_queued_def option.distinct(1))

lemma db_a_room: "append_room env0 db_a [event_b]"
proof (rule plain_roomI [OF db_a_ok db_a_not_fresh])
  show "sint (decode_uint64 (db_get env0 db_a MetaB meta_bytes_key)) + (\<Sum>ev\<leftarrow>[event_b]. event_cost env0 ev) < 2 ^ 63"
    by code_simp
  have "decode_uint64 (db_get env0 db_a MetaB meta_next_key) = 1" by code_simp
  then show "unat (decode_uint64 (db_get env0 db_a MetaB meta_next_key)) + length [event_b] < 2 ^ 64" by simp
qed

lemma db_a_event: "db_queued env0 db_a (encode_uint64 1) event_a"
  by (rule plain_queued [OF db_a_seq]) (simp_all add: noon_int64, simp add: event_a_def)

lemma append_evicts_oldest_first_witness:
  "\<exists>k e k' e'. db_queued env0 db_a k e \<and> \<not> db_queued env0 db_b k e \<and> db_queued env0 db_b k' e' \<and>
     (stamp e < stamp e' \<or> (stamp e = stamp e' \<and> k \<le> k'))"
proof -
  obtain st where run: "append_with_stats env0 q_small [event_b] db_a = (db_b, Inr st)" using append_b by blast
  note a = db_a_event
  have b: "db_queued env0 db_b (encode_uint64 2) event_b"
    by (rule plain_queued [OF db_b_seq(2)])
       (simp_all add: event_b_def, simp add: noon_def in_int64_def nanos_per_second_def)
  have gone: "\<not> db_queued env0 db_b (encode_uint64 1) event_a" by (simp add: db_queued_def db_b_seq)
  have utf8: "\<forall>ev\<in>set [event_b]. valid_utf8 (EventID ev)"
    by (simp add: event_b_def valid_utf8_ascii ascii_char_def byte_def)
  have "cutoff q_small \<le> stamp event_a" by code_simp
  from append_evicts_oldest_first [OF plain.queue_laws_axioms db_a_ok db_a_room utf8 run a this gone _ b] a b gone
  show ?thesis by (fastforce simp: event_b_def)
qed

text \<open>
  C7: A failed append changes nothing: the queued events, the delivery records and the
  quarantine are what they were, whatever step failed.
\<close>

theorem append_error_changes_nothing:
  assumes "queue_laws E" and "db_ok E db" and "append_with_stats E q events db = (db', Inl err)"
  shows "db_queued E db' = db_queued E db \<and> (\<forall>m. m \<noteq> MetaB \<longrightarrow> db_get E db' m = db_get E db m)"
  using queue_laws.db_update_Inl [OF assms(1,2) assms(3) [unfolded append_with_stats_def]] by blast

definition event_far :: event where
  "event_far = empty_event\<lparr>EventID := ''far'', CreatedAt := 2 ^ 64\<rparr>"

lemma append_error_changes_nothing_witness:
  "db_queued env0 (fst (append_with_stats env0 q0 [event_far] db_a)) = db_queued env0 db_a"
proof -
  have "case snd (append_with_stats env0 q0 [event_far] db_a) of Inl _ \<Rightarrow> True | Inr _ \<Rightarrow> False"
    by code_simp
  then obtain db' err where "append_with_stats env0 q0 [event_far] db_a = (db', Inl err)"
    by (cases "append_with_stats env0 q0 [event_far] db_a") (auto split: sum.splits)
  with append_error_changes_nothing [OF plain.queue_laws_axioms db_a_ok this] show ?thesis by simp
qed

text \<open>
  C8: An append succeeds when the file opens and commits, and every event has a JSON form
  within the limits of the store.
\<close>

theorem append_succeeds:
  assumes "queue_laws E" and "reliable E" and "db_ok E db" and "append_room E db events"
    and "\<forall>ev\<in>set events. storable E ev"
  shows "\<exists>db' st. append_with_stats E q events db = (db', Inr st)"
  unfolding append_with_stats_def
proof (rule queue_laws.db_update_progress [OF assms(1,3,2)])
  fix tx assume inv: "tx_inv E tx" and op: "opened E db tx"
  show "\<exists>r. append_tx E q events tx = Inr r"
    by (rule queue_laws.append_tx_progress [OF assms(1) inv assms(5)])
       (use assms(4) op in \<open>simp_all add: append_room_def opened_def\<close>)
qed

lemma append_succeeds_witness: "\<exists>db' st. append_with_stats env0 q0 [event_a] fresh_db = (db', Inr st)"
  by (rule append_succeeds)
     (simp_all add: plain.queue_laws_axioms fresh_db_ok fresh_room storable_a)

section \<open>Drain\<close>

text \<open>
  No two queued events have the same identifier.
\<close>

theorem queued_identifiers_unique:
  assumes "queue_laws E" and "db_ok E db"
    and "db_queued E db k e" and "db_queued E db k' e'"
    and "EventID e = EventID e'" and "EventID e \<noteq> []"
  shows "k = k' \<and> e = e'"
proof -
  from assms(2) consider "db = (\<lambda>_. None)" | tx where "db = Some \<circ> tx" "tx_inv E tx"
    by (auto simp: db_ok_def)
  then show ?thesis
  proof cases
    case 1
    with assms(3) show ?thesis by (simp add: db_queued_def)
  next
    case (2 tx)
    with assms(3,4) have q: "queued E tx k e" "queued E tx k' e'" by simp_all
    have "k = k'" by (rule queue_laws.queued_id_unique [OF assms(1) 2(2) q assms(5,6)])
    with q queued_fun show ?thesis by metis
  qed
qed

lemma queued_identifiers_unique_witness:
  "\<exists>k e. db_queued env0 db_a k e \<and> (\<forall>k' e'. db_queued env0 db_a k' e' \<longrightarrow> k' = k \<and> e' = e)"
proof -
  obtain k e where k: "db_queued env0 db_a k e" using db_a_queued by blast
  have "k = k' \<and> e = e'" if "db_queued env0 db_a k' e'" for k' e'
    by (rule queued_identifiers_unique [OF plain.queue_laws_axioms db_a_ok k that])
       (use db_a_only [OF k] db_a_only [OF that] in simp_all)
  with k show ?thesis by blast
qed


definition accept_all :: "unit \<Rightarrow> event list \<Rightarrow> unit \<times> send_outcome" where
  "accept_all u evs = ((), SendOk)"


text \<open>
  A drain that reports success has emptied the queue and quarantined nothing.
\<close>

theorem drain_success_empties_queue:
  assumes "queue_laws E" and "db_ok E db"
    and "drain E q locked (recording send) (s, []) db = ((s', log), db', Inr ())"
  shows "(\<forall>k ev. \<not> db_queued E db' k ev) \<and> db_get E db' QuarantineB = db_get E db QuarantineB"
  using queue_laws.drain_ok [OF assms] by simp

text \<open>
  C9: With a control plane that accepts every batch, a store that works and identifiers
  that fit its keys, a drain succeeds.
\<close>

theorem drain_succeeds:
  assumes "queue_laws E" and "reliable E" and "db_ok E db"
    and "\<forall>k ev. db_queued E db k ev \<longrightarrow> length (EventID ev) + 8 \<le> max_key_size"
    and "\<forall>s evs. snd (send s evs) = SendOk"
  shows "snd (snd (drain E q True (recording send) (s, log) db)) = Inr ()"
  by (rule queue_laws.drain_progress [OF assms(1,3,2)]) (use assms(4,5) in auto)

lemma drain_succeeds_witness: "snd (snd (drain env0 (\<lambda>_. q0) True (recording accept_all) ((), []) db_a)) = Inr ()"
  by (rule drain_succeeds [OF plain.queue_laws_axioms reliable_env0 db_a_ok])
     (use db_a_only in \<open>auto simp: accept_all_def max_key_size_def\<close>)

lemma drain_a: "\<exists>log db'. drain env0 (\<lambda>_. q0) True (recording accept_all) ((), []) db_a = (((), log), db', Inr ())"
proof -
  have "snd (snd (drain env0 (\<lambda>_. q0) True (recording accept_all) ((), []) db_a)) = Inr ()"
    by code_simp
  then show ?thesis by (cases "drain env0 (\<lambda>_. q0) True (recording accept_all) ((), []) db_a") auto
qed

lemma drain_success_empties_queue_witness:
  "\<exists>db'. fst (snd (drain env0 (\<lambda>_. q0) True (recording accept_all) ((), []) db_a)) = db' \<and>
     (\<forall>k ev. \<not> db_queued env0 db' k ev)"
proof -
  obtain log db' where run: "drain env0 (\<lambda>_. q0) True (recording accept_all) ((), []) db_a = (((), log), db', Inr ())"
    using drain_a by blast
  with drain_success_empties_queue [OF plain.queue_laws_axioms db_a_ok run] show ?thesis by simp
qed

text \<open>
  C10: A delivered event is not delivered again: once a batch has been acknowledged, an
  append within the retention time leaves none of its identifiers in the queue, whatever
  events it is given.
\<close>

theorem acknowledged_events_stay_out:
  assumes "queue_laws E" and "db_ok E db"
    and "distinct (map fst batch)" and "\<forall>(k, ev)\<in>set batch. db_queued E db k ev"
    and "acknowledge E qa batch db = (db1, Inr ())" and "in_int64 (q_now qa)"
    and "append_room E db1 events" and "\<forall>ev\<in>set events. valid_utf8 (EventID ev)"
    and "append_with_stats E q events db1 = (db2, Inr st)" and "cutoff q \<le> q_now qa"
    and "(k, ev) \<in> set batch" and "EventID ev \<noteq> []"
  shows "\<not> (\<exists>k' ev'. db_queued E db2 k' ev' \<and> EventID ev' = EventID ev)"
proof
  assume "\<exists>k' ev'. db_queued E db2 k' ev' \<and> EventID ev' = EventID ev"
  then obtain k' ev' where q2: "db_queued E db2 k' ev'" "EventID ev' = EventID ev" by blast
  have sub: "\<And>k ev. (k, ev) \<in> set batch \<Longrightarrow> db_queued E db k ev" using assms(4) by blast
  note a = queue_laws.acknowledge_ok [OF assms(1-5)]
  have "EventID ev \<in> EventID ` snd ` set batch" using assms(11) by force
  then have "db_get E db1 DeliveredIDs (EventID ev) = Some (delivered_time_key (q_now qa) (EventID ev))"
    using a(4) assms(12) by simp
  then have barred: "barred E q db1 (EventID ev)"
    using assms(6,10,12) by (auto simp: barred_def wrap64_id)
  obtain tx tx1 tx2 tx' where q1: "\<And>k ev. queued E tx1 k ev \<longleftrightarrow> db_queued E db1 k ev \<and> \<not> stamp ev < cutoff q"
    and s1: "\<And>i. settled E tx1 i \<longleftrightarrow> barred E q db1 i"
    and sub2: "\<And>k ev. queued E tx' k ev \<Longrightarrow> queued E tx2 k ev"
    and ap: "appended E q events tx1 tx2" and db: "db2 = Some \<circ> tx'"
    by (rule queue_laws.append_phases [OF assms(1) a(1) assms(8,7,9)]) (rule that; (assumption | blast))
  have "queued E tx2 k' ev'" using q2 by (simp add: db sub2)
  then have "queued E tx1 k' ev' \<or> (\<exists>e\<in>set events. EventID ev' = EventID e \<and> \<not> settled E tx1 (EventID e))"
    using ap unfolding appended_def by blast
  then have "queued E tx1 k' ev'" using barred q2(2) by (auto simp: s1)
  then have old: "db_queued E db k' ev'" "k' \<notin> fst ` set batch" using a(2) by (auto simp: q1)
  have "db_queued E db k ev" using sub assms(11) by blast
  then have "db \<noteq> (\<lambda>_. None)" by (metis db_get_empty db_queued_def option.distinct(1))
  with assms(2) obtain tx0 where "db = Some \<circ> tx0" and inv0: "tx_inv E tx0" by (auto simp: db_ok_def)
  with \<open>db_queued E db k ev\<close> old(1) have t: "tx_inv E tx0" "queued E tx0 k ev" "queued E tx0 k' ev'" by simp_all
  have "k' = k" by (rule queue_laws.queued_id_unique [OF assms(1) t(1,3,2) q2(2)]) (use q2 assms(12) in simp)
  with old(2) assms(11) show False by force
qed

definition batch_a :: batch where
  "batch_a = [(encode_uint64 1, event_a)]"

definition db_acked :: "(string \<times> string) list db" where
  "db_acked = fst (acknowledge env0 q0 batch_a db_a)"

lemma batch_a_queued: "distinct (map fst batch_a)" "\<forall>(k, ev)\<in>set batch_a. db_queued env0 db_a k ev"
  using db_a_event by (simp_all add: batch_a_def)

lemma acknowledge_a: "acknowledge env0 q0 batch_a db_a = (db_acked, Inr ())"
proof -
  have "snd (acknowledge env0 q0 batch_a db_a) = Inr ()" by code_simp
  then show ?thesis by (simp add: db_acked_def prod_eq_iff)
qed

lemma db_acked_room: "append_room env0 db_acked [event_a]"
proof (rule plain_roomI)
  show "db_ok env0 db_acked"
    using plain.acknowledge_ok(1) [OF db_a_ok batch_a_queued acknowledge_a] .
  have "db_get env0 db_acked MetaB meta_next_key \<noteq> None" by code_simp
  then show "db_acked \<noteq> (\<lambda>_. None)" by (metis db_get_empty)
  show "sint (decode_uint64 (db_get env0 db_acked MetaB meta_bytes_key)) + (\<Sum>ev\<leftarrow>[event_a]. event_cost env0 ev) < 2 ^ 63"
    by code_simp
  have "decode_uint64 (db_get env0 db_acked MetaB meta_next_key) = 1" by code_simp
  then show "unat (decode_uint64 (db_get env0 db_acked MetaB meta_next_key)) + length [event_a] < 2 ^ 64" by simp
qed

lemma append_again: "\<exists>db2 st. append_with_stats env0 q0 [event_a] db_acked = (db2, Inr st)"
proof -
  have "case snd (append_with_stats env0 q0 [event_a] db_acked) of Inl _ \<Rightarrow> False | Inr _ \<Rightarrow> True"
    by code_simp
  then show ?thesis by (cases "append_with_stats env0 q0 [event_a] db_acked") (auto split: sum.splits)
qed

lemma acknowledged_events_stay_out_witness:
  "\<not> (\<exists>k ev. db_queued env0 (fst (append_with_stats env0 q0 [event_a] db_acked)) k ev \<and> EventID ev = ''a'')"
proof -
  obtain db2 st where run: "append_with_stats env0 q0 [event_a] db_acked = (db2, Inr st)" using append_again by blast
  have q: "in_int64 (q_now q0)" "cutoff q0 \<le> q_now q0" by code_simp+
  have "(encode_uint64 1, event_a) \<in> set batch_a" by (simp add: batch_a_def)
  from acknowledged_events_stay_out [OF plain.queue_laws_axioms db_a_ok batch_a_queued acknowledge_a q(1)
      db_acked_room utf8_a run q(2) this] run show ?thesis by simp
qed

text \<open>
  A rejected batch is quarantined exactly: the events named by the control plane leave
  the queue and enter the quarantine, all others stay, and no delivery is recorded. The
  identifiers the control plane names are all among those of the batch.
\<close>

theorem quarantine_moves_exactly_the_rejected:
  assumes "queue_laws E" and "db_ok E db"
    and "distinct (map fst batch)" and "\<forall>(k, ev)\<in>set batch. db_queued E db k ev"
    and "quarantine_rejected_events E q batch ids reason db = (db', Inr moved)"
  shows "db_ok E db' \<and> set moved = trim_space ` set ids \<and> set moved \<subseteq> EventID ` snd ` set batch \<and>
    (\<forall>k ev. db_queued E db' k ev \<longleftrightarrow>
       db_queued E db k ev \<and> \<not> (k \<in> fst ` set batch \<and> EventID ev \<in> set moved)) \<and>
    dom (db_get E db' QuarantineB) = dom (db_get E db QuarantineB) \<union> set moved \<and>
    db_get E db' DeliveredIDs = db_get E db DeliveredIDs"
proof -
  note a = queue_laws.quarantine_ok [OF assms]
  show ?thesis by (intro conjI allI a(1,3,4,6,7)) (simp add: a(2,4))
qed

lemma quarantine_moves_exactly_the_rejected_witness:
  "\<exists>db'. quarantine_rejected_events env0 q0 batch_a ['' a''] ''bad'' db_a = (db', Inr [''a'']) \<and>
     db_get env0 db' QuarantineB ''a'' \<noteq> None"
proof -
  have "snd (quarantine_rejected_events env0 q0 batch_a ['' a''] ''bad'' db_a) = Inr [''a'']" by code_simp
  then obtain db' where run: "quarantine_rejected_events env0 q0 batch_a ['' a''] ''bad'' db_a = (db', Inr [''a''])"
    by (metis prod.collapse)
  have "''a'' \<in> dom (db_get env0 db' QuarantineB)"
    using quarantine_moves_exactly_the_rejected [OF plain.queue_laws_axioms db_a_ok batch_a_queued run] by simp
  with run show ?thesis by blast
qed

section \<open>Keys\<close>

text \<open>
  The time index is ordered like the events: for instants of the 64-bit range the
  16-byte keys compare as the instants do, then as the sequence numbers do, and the key
  gives back the instant and the sequence key.
\<close>

theorem time_keys_sort_by_time:
  assumes "in_int64 t" and "in_int64 t'"
  shows "(queue_time_key t (encode_uint64 s) < queue_time_key t' (encode_uint64 s') \<longleftrightarrow>
      t < t' \<or> (t = t' \<and> s < s')) \<and>
    decode_queue_time_key (queue_time_key t (encode_uint64 s)) = Inr (t, encode_uint64 s)"
  using assms by (simp add: queue_time_key_less encode_uint64_less decode_queue_time_key_key wrap64_id)

lemma time_keys_sort_by_time_witness:
  "queue_time_key (- 1) (encode_uint64 9) < queue_time_key 1 (encode_uint64 2)"
  using time_keys_sort_by_time [of "- 1" 1 9 2] by (simp add: in_int64_def)

end
