(* ===== verification/Regex.thy ===== *)
theory Regex
  imports Go_Strings
begin

text \<open>
  The regular expressions that are fixed in the code, with the leftmost-first semantics of
  Go's \<open>regexp\<close>: \<open>ends e s\<close> lists the lengths of the matches of \<open>e\<close> at the start of
  \<open>s\<close> in order of preference (greedy repetitions prefer more), and a search takes the first
  of them at the leftmost start. Matching goes by runes, an invalid byte being the
  replacement rune. Case-insensitive classes fold ASCII letters and the two letters outside
  ASCII that Unicode folds onto them.
\<close>

section \<open>Expressions\<close>

datatype re =
    Eps
  | Cls "nat \<Rightarrow> bool"
  | Seq re re
  | Alt re re
  | Opt re
  | Many nat re

text \<open>\<open>Many n e\<close> is \<open>e{n,}\<close>; the fuel is one more than the bytes left, and every round of
  the loop takes at least one of them.\<close>

fun many_ends :: "(string \<Rightarrow> nat list) \<Rightarrow> nat \<Rightarrow> nat \<Rightarrow> string \<Rightarrow> nat list" where
  "many_ends f 0 n s = []"
| "many_ends f (Suc fuel) n s =
     concat (map (\<lambda>m. if m = 0 then [] else map ((+) m) (many_ends f fuel (n - 1) (drop m s))) (f s))
       @ (if n = 0 then [0] else [])"

fun ends :: "re \<Rightarrow> string \<Rightarrow> nat list" where
  "ends Eps s = [0]"
| "ends (Cls p) s =
     (if s = [] then [] else let (r, w) = decode_rune s in if p r then [w] else [])"
| "ends (Seq a b) s = concat (map (\<lambda>n. map ((+) n) (ends b (drop n s))) (ends a s))"
| "ends (Alt a b) s = ends a s @ ends b s"
| "ends (Opt a) s = ends a s @ [0]"
| "ends (Many n a) s = many_ends (ends a) (Suc (length s)) n s"

definition match_here :: "re \<Rightarrow> string \<Rightarrow> nat option" where
  "match_here e s = (case ends e s of [] \<Rightarrow> None | n # _ \<Rightarrow> Some n)"

section \<open>Searching\<close>

definition rune_width :: "string \<Rightarrow> nat" where
  "rune_width s = snd (decode_rune s)"

lemma rune_width_pos: "s \<noteq> [] \<Longrightarrow> 0 < rune_width s"
  by (simp add: rune_width_def decode_rune_width_pos)

text \<open>\<open>MatchString\<close>: some start at a rune has a match.\<close>

function re_match :: "re \<Rightarrow> string \<Rightarrow> bool" where
  "re_match e s \<longleftrightarrow> match_here e s \<noteq> None \<or> (if s = [] then False else re_match e (drop (rune_width s) s))"
  by pat_completeness auto
termination
  by (relation "measure (length \<circ> snd)") (use rune_width_pos in auto)

text \<open>
  \<open>ReplaceAllStringFunc\<close>, for an expression without empty matches.
\<close>

function replace_func :: "re \<Rightarrow> (string \<Rightarrow> string) \<Rightarrow> string \<Rightarrow> string" where
  "replace_func e f s =
     (if s = [] then []
      else case match_here e s of
             Some (Suc n) \<Rightarrow> f (take (Suc n) s) @ replace_func e f (drop (Suc n) s)
           | _ \<Rightarrow> take (rune_width s) s @ replace_func e f (drop (rune_width s) s))"
  by pat_completeness auto
termination
  by (relation "measure (\<lambda>(e, f, s). length s)") (use rune_width_pos in auto)

declare re_match.simps [simp del, code del] replace_func.simps [simp del, code del]

lemma re_match_code [code]:
  "re_match e [] \<longleftrightarrow> match_here e [] \<noteq> None"
  "re_match e (c # s) \<longleftrightarrow> match_here e (c # s) \<noteq> None \<or> re_match e (drop (rune_width (c # s)) (c # s))"
  by (simp_all add: re_match.simps)

lemma replace_func_code [code]:
  "replace_func e f [] = []"
  "replace_func e f (c # s) =
     (case match_here e (c # s) of
        Some (Suc n) \<Rightarrow> f (take (Suc n) (c # s)) @ replace_func e f (drop (Suc n) (c # s))
      | _ \<Rightarrow> take (rune_width (c # s)) (c # s) @ replace_func e f (drop (rune_width (c # s)) (c # s)))"
  by (simp_all add: replace_func.simps split: option.splits nat.splits)

section \<open>Literals and classes\<close>

fun lit_runes :: "nat list \<Rightarrow> re" where
  "lit_runes [] = Eps"
| "lit_runes (r # rs) = Seq (Cls (\<lambda>x. x = r)) (lit_runes rs)"

definition lit :: "string \<Rightarrow> re" where
  "lit s = lit_runes (runes s)"

definition fold_rune :: "nat \<Rightarrow> nat" where
  "fold_rune r =
     (if 0x41 \<le> r \<and> r \<le> 0x5A then r + 0x20
      else if r = 0x17F then 0x73 else if r = 0x212A then 0x6B else r)"

fun ilit_runes :: "nat list \<Rightarrow> re" where
  "ilit_runes [] = Eps"
| "ilit_runes (r # rs) = Seq (Cls (\<lambda>x. fold_rune x = r)) (ilit_runes rs)"

text \<open>\<open>(?i)\<close> with a literal written in lower case.\<close>

definition ilit :: "string \<Rightarrow> re" where
  "ilit s = ilit_runes (runes s)"

definition icls :: "(nat \<Rightarrow> bool) \<Rightarrow> re" where
  "icls p = Cls (\<lambda>x. p (fold_rune x))"

fun alts :: "re list \<Rightarrow> re" where
  "alts [] = Eps"
| "alts [e] = e"
| "alts (e # es) = Alt e (alts es)"

fun seqs :: "re list \<Rightarrow> re" where
  "seqs [] = Eps"
| "seqs [e] = e"
| "seqs (e # es) = Seq e (seqs es)"

definition is_digit :: "nat \<Rightarrow> bool" where "is_digit r \<longleftrightarrow> 0x30 \<le> r \<and> r \<le> 0x39"
definition is_upper :: "nat \<Rightarrow> bool" where "is_upper r \<longleftrightarrow> 0x41 \<le> r \<and> r \<le> 0x5A"
definition is_lower :: "nat \<Rightarrow> bool" where "is_lower r \<longleftrightarrow> 0x61 \<le> r \<and> r \<le> 0x7A"
definition is_letter :: "nat \<Rightarrow> bool" where "is_letter r \<longleftrightarrow> is_upper r \<or> is_lower r"

definition rune_in :: "string \<Rightarrow> nat \<Rightarrow> bool" where
  "rune_in s r \<longleftrightarrow> r \<in> byte ` set s"

definition is_re_space :: "nat \<Rightarrow> bool" where
  "is_re_space r \<longleftrightarrow> r \<in> {0x09, 0x0A, 0x0C, 0x0D, 0x20}"

section \<open>Runs of a class\<close>

text \<open>
  For \<open>c{n,}\<close> over a class of ASCII runes a match at the start takes the whole run of
  class bytes, when it is long enough.
\<close>

definition run_length :: "(nat \<Rightarrow> bool) \<Rightarrow> string \<Rightarrow> nat" where
  "run_length p s = length (takeWhile (\<lambda>c. p (byte c)) s)"

definition ascii_class :: "(nat \<Rightarrow> bool) \<Rightarrow> bool" where
  "ascii_class p \<longleftrightarrow> (\<forall>r. p r \<longrightarrow> r < 0x80)"

lemma decode_rune_high: "0x80 \<le> byte c \<Longrightarrow> 0x80 \<le> fst (decode_rune (c # t))"
proof -
  assume hi: "0x80 \<le> byte c"
  have two: "0x80 \<le> (b0 - 0xC0) * 64 + (b1 - 0x80)" if "0xC2 \<le> b0" for b0 b1 :: nat
    using that by simp
  have three: "0x80 \<le> ((b0 - 0xE0) * 64 + (b1 - 0x80)) * 64 + (b2 - 0x80)"
    if "0xE0 \<le> b0" "cont (if b0 = 0xE0 then 0xA0 else 0x80) (if b0 = 0xED then 0x9F else 0xBF) b1" for b0 b1 b2 :: nat
    using that by (cases "b0 = 0xE0") (auto simp: cont_def)
  have four: "0x80 \<le> (((b0 - 0xF0) * 64 + (b1 - 0x80)) * 64 + (b2 - 0x80)) * 64 + (b3 - 0x80)"
    if "0xF0 \<le> b0" "cont (if b0 = 0xF0 then 0x90 else 0x80) (if b0 = 0xF4 then 0x8F else 0xBF) b1" for b0 b1 b2 b3 :: nat
    using that by (cases "b0 = 0xF0") (auto simp: cont_def)
  have map4: "map byte (take 4 (c # t)) = byte c # map byte (take 3 t)" by simp
  note dec = decode_rune_def [of "c # t", unfolded map4 Let_def list.case]
  consider "byte c < 0xC2 \<or> 0xF4 < byte c" | "0xC2 \<le> byte c" "byte c \<le> 0xDF"
    | "0xE0 \<le> byte c" "byte c \<le> 0xEF" | "0xF0 \<le> byte c" "byte c \<le> 0xF4" by linarith
  then show ?thesis
  proof cases
    case 1
    with hi show ?thesis by (auto simp: dec rune_error_def)
  next
    case 2
    have "\<not> byte c < 0x80" using 2 by simp
    with 2 show ?thesis unfolding dec
      by (simp only: if_True if_False simp_thms split: list.split) (simp add: rune_error_def two)
  next
    case 3
    have "\<not> byte c < 0x80" "\<not> byte c \<le> 0xDF" using 3 by simp_all
    with 3 show ?thesis unfolding dec
      by (simp only: if_True if_False simp_thms fst_conv split: list.split if_split)
         (use three [OF 3(1)] in \<open>cases "byte c = 0xE0"; auto simp: rune_error_def\<close>)
  next
    case 4
    have "\<not> byte c < 0x80" "\<not> byte c \<le> 0xDF" "\<not> byte c \<le> 0xEF" using 4 by simp_all
    with 4 show ?thesis unfolding dec
      by (simp only: if_True if_False simp_thms fst_conv split: list.split if_split)
         (use four [OF 4(1)] in \<open>cases "byte c = 0xF0"; auto simp: rune_error_def\<close>)
  qed
qed

lemma ends_ascii_class:
  assumes "ascii_class p"
  shows "ends (Cls p) s = (case s of [] \<Rightarrow> [] | c # _ \<Rightarrow> if p (byte c) then [1] else [])"
proof (cases s)
  case (Cons c t)
  show ?thesis
  proof (cases "byte c < 0x80")
    case True
    then show ?thesis by (simp add: Cons decode_rune_ascii ascii_char_def)
  next
    case False
    then have "\<not> p (byte c)" and "\<not> p (fst (decode_rune (c # t)))"
      using assms decode_rune_high [of c t] by (auto simp: ascii_class_def not_less)
    then show ?thesis by (cases "decode_rune (c # t)") (simp add: Cons)
  qed
qed simp

lemma rev_upt_Suc_shift: "map Suc (rev [m..<n]) = rev [Suc m..<Suc n]"
  by (simp add: rev_map [symmetric] map_Suc_upt)

lemma many_ends_class:
  assumes "ascii_class p" and "length s < fuel"
  shows "many_ends (ends (Cls p)) fuel n s = rev [n..<Suc (run_length p s)]"
  using assms(2)
proof (induction s arbitrary: fuel n)
  case Nil
  then obtain k where "fuel = Suc k" by (cases fuel) auto
  then show ?case by (simp add: run_length_def)
next
  case (Cons c s)
  then obtain k where k: "fuel = Suc k" "length s < k" by (cases fuel) auto
  show ?case
  proof (cases "p (byte c)")
    case False
    then show ?thesis by (simp only: k many_ends.simps ends_ascii_class [OF assms(1)]) (simp add: run_length_def)
  next
    case True
    let ?r = "run_length p s"
    have r: "run_length p (c # s) = Suc ?r" using True by (simp add: run_length_def)
    have "many_ends (ends (Cls p)) fuel n (c # s) =
        map Suc (rev [n - 1..<Suc ?r]) @ (if n = 0 then [0] else [])"
    proof -
      have f: "ends (Cls p) (c # s) = [1]" using True by (simp only: ends_ascii_class [OF assms(1)]) simp
      have one: "(+) (Suc 0) = Suc" by auto
      show ?thesis by (simp only: k many_ends.simps f) (simp only: list.map concat.simps one drop_Suc_Cons drop_0
          One_nat_def Cons.IH [OF k(2)] if_False nat.distinct append_Nil2 zero_neq_one simp_thms)
    qed
    also have "\<dots> = rev [n..<Suc (Suc ?r)]"
    proof (cases n)
      case 0
      have "[0..<Suc (Suc ?r)] = 0 # [Suc 0..<Suc (Suc ?r)]" by (rule upt_conv_Cons) simp
      then show ?thesis by (simp only: 0 rev_upt_Suc_shift) simp
    next
      case (Suc m)
      then show ?thesis by (simp only: rev_upt_Suc_shift) simp
    qed
    finally show ?thesis by (simp only: r)
  qed
qed

lemma match_here_many_class:
  assumes "ascii_class p"
  shows "match_here (Many n (Cls p)) s = (if n \<le> run_length p s then Some (run_length p s) else None)"
  using many_ends_class [OF assms, of s "Suc (length s)" n]
  by (simp add: match_here_def del: many_ends.simps)

lemma run_length_le: "run_length p s \<le> length s"
  by (simp add: run_length_def length_takeWhile_le)

text \<open>
  Replacing all long runs by a text that is outside the class leaves no long run.
\<close>

lemma run_length_Cons: "run_length p (c # s) = (if p (byte c) then Suc (run_length p s) else 0)"
  by (simp add: run_length_def)

lemma run_length_append_stop:
  "s \<noteq> [] \<Longrightarrow> \<not> p (byte (hd s)) \<Longrightarrow> run_length p (s @ t) = 0"
  by (cases s) (simp_all add: run_length_def)

definition short_runs :: "(nat \<Rightarrow> bool) \<Rightarrow> nat \<Rightarrow> string \<Rightarrow> bool" where
  "short_runs p n s \<longleftrightarrow> (\<forall>i. run_length p (drop i s) < n)"

lemma short_runs_append_outside:
  assumes "short_runs p n s" and "\<forall>c\<in>set t. \<not> p (byte c)"
  shows "short_runs p n (t @ s)"
  using assms(2)
proof (induction t)
  case Nil
  then show ?case using assms(1) by simp
next
  case (Cons c t)
  then have ih: "short_runs p n (t @ s)" by simp
  have "run_length p (drop 0 s) < n" using assms(1) unfolding short_runs_def by blast
  then have "0 < n" by simp
  have "run_length p (drop i ((c # t) @ s)) < n" for i
    using ih Cons.prems \<open>0 < n\<close> by (cases i) (auto simp: short_runs_def run_length_Cons)
  then show ?case by (simp add: short_runs_def)
qed

lemma run_length_append_last:
  "s \<noteq> [] \<Longrightarrow> \<not> p (byte (last s)) \<Longrightarrow> run_length p (s @ t) = run_length p s"
  by (induction s) (auto simp: run_length_def split: if_splits)

lemma short_runs_append_last:
  assumes "short_runs p n t" and "short_runs p n s" and "t \<noteq> []" and "\<not> p (byte (last t))"
  shows "short_runs p n (t @ s)"
  unfolding short_runs_def
proof
  fix i
  show "run_length p (drop i (t @ s)) < n"
  proof (cases "i < length t")
    case True
    then have "run_length p (drop i t @ s) = run_length p (drop i t)"
      using assms(4) by (intro run_length_append_last) simp_all
    with assms(1) True show ?thesis by (simp add: short_runs_def)
  next
    case False
    with assms(2) show ?thesis by (simp add: short_runs_def)
  qed
qed

lemma decode_rune_high_conts:
  assumes hi: "0x80 \<le> byte c"
  shows "(\<forall>b\<in>set (take (snd (decode_rune (c # t)) - 1) (map byte (take 3 t))). 0x80 \<le> b) \<and>
    snd (decode_rune (c # t)) \<le> 4"
proof -
  have map4: "map byte (take 4 (c # t)) = byte c # map byte (take 3 t)" by simp
  note dec = decode_rune_def [of "c # t", unfolded map4 Let_def list.case]
  have lo: "0x80 \<le> b" if "cont lo hi b" "0x80 \<le> lo" for lo hi b
    using that by (simp add: cont_def)
  consider "byte c < 0xC2 \<or> 0xF4 < byte c" | "0xC2 \<le> byte c" "byte c \<le> 0xDF"
    | "0xE0 \<le> byte c" "byte c \<le> 0xEF" | "0xF0 \<le> byte c" "byte c \<le> 0xF4" by linarith
  then show ?thesis
  proof cases
    case 1
    with hi show ?thesis by (auto simp: dec)
  next
    case 2
    have "\<not> byte c < 0x80" using 2 by simp
    with 2 show ?thesis unfolding dec
      by (simp only: if_True if_False simp_thms snd_conv split: list.split if_split) (auto dest: lo)
  next
    case 3
    have "\<not> byte c < 0x80" "\<not> byte c \<le> 0xDF" using 3 by simp_all
    with 3 show ?thesis unfolding dec
      by (simp only: if_True if_False simp_thms snd_conv split: list.split if_split) (auto dest: lo)
  next
    case 4
    have "\<not> byte c < 0x80" "\<not> byte c \<le> 0xDF" "\<not> byte c \<le> 0xEF" using 4 by simp_all
    with 4 show ?thesis unfolding dec
      by (simp only: if_True if_False simp_thms snd_conv split: list.split if_split) (auto dest: lo)
  qed
qed

lemma decode_rune_high_bytes:
  assumes "0x80 \<le> byte c" and "x \<in> set (take (rune_width (c # t)) (c # t))"
  shows "0x80 \<le> byte x"
proof -
  define w where "w = rune_width (c # t) - 1"
  have w: "rune_width (c # t) = Suc w" using rune_width_pos [of "c # t"] by (simp add: w_def)
  note conts = decode_rune_high_conts [OF assms(1), of t, folded rune_width_def]
  from assms(2) consider "x = c" | "x \<in> set (take w t)" by (auto simp: w)
  then show ?thesis
  proof cases
    case 1
    with assms(1) show ?thesis by simp
  next
    case 2
    moreover have "w \<le> 3" using conts w by simp
    ultimately have "byte x \<in> set (take w (map byte (take 3 t)))" by (simp add: take_map min_absorb1)
    with conts w show ?thesis by simp
  qed
qed

lemma replace_runs:
  assumes p: "ascii_class p" and n: "0 < n"
    and t: "t \<noteq> []" "\<not> p (byte (hd t))" "\<not> p (byte (last t))" "short_runs p n t"
  shows "short_runs p n (replace_func (Many n (Cls p)) (\<lambda>_. t) s) \<and>
    (run_length p s < n \<longrightarrow>
       run_length p (replace_func (Many n (Cls p)) (\<lambda>_. t) s) = run_length p s)"
proof (induction s rule: length_induct)
  case (1 s)
  let ?e = "Many n (Cls p)" and ?f = "\<lambda>_ :: string. t"
  show ?case
  proof (cases s)
    case Nil
    then show ?thesis using n by (simp add: replace_func_code short_runs_def run_length_def)
  next
    case (Cons c u)
    show ?thesis
    proof (cases "n \<le> run_length p s")
      case True
      then obtain m where m: "run_length p s = Suc m" using n by (cases "run_length p s") auto
      have r: "replace_func ?e ?f s = t @ replace_func ?e ?f (drop (Suc m) s)"
        using True m by (simp add: Cons replace_func_code match_here_many_class [OF p])
      have "length (drop (Suc m) s) < length s" using Cons by simp
      then have "short_runs p n (replace_func ?e ?f (drop (Suc m) s))" using 1 by blast
      with t have "short_runs p n (t @ replace_func ?e ?f (drop (Suc m) s))"
        by (intro short_runs_append_last) auto
      with r True show ?thesis by simp
    next
      case False
      let ?w = "rune_width s"
      have w: "0 < ?w" using Cons by (simp add: rune_width_pos)
      have r: "replace_func ?e ?f s = take ?w s @ replace_func ?e ?f (drop ?w s)"
        using False by (simp add: Cons replace_func_code match_here_many_class [OF p])
      have "length (drop ?w s) < length s" using Cons w by simp
      then have ih: "short_runs p n (replace_func ?e ?f (drop ?w s))"
        "run_length p (drop ?w s) < n \<Longrightarrow> run_length p (replace_func ?e ?f (drop ?w s)) = run_length p (drop ?w s)"
        using 1 by blast+
      show ?thesis
      proof (cases "byte c < 0x80")
        case ascii: True
        then have one: "?w = 1" by (simp add: Cons rune_width_def decode_rune_ascii ascii_char_def)
        from Cons one have tl: "drop ?w s = u" "take ?w s = [c]" by simp_all
        have r1: "replace_func ?e ?f s = c # replace_func ?e ?f u" unfolding r tl by simp
        have "run_length p (c # u) < n" using False Cons by simp
        then have len: "run_length p (replace_func ?e ?f s) = run_length p s"
          unfolding r1 using ih(2) by (auto simp: Cons tl [unfolded Cons] run_length_Cons split: if_splits)
        have "run_length p (drop i (replace_func ?e ?f s)) < n" for i
          using len False ih(1) by (cases i) (auto simp: r1 tl short_runs_def)
        with len show ?thesis by (simp add: short_runs_def)
      next
        case high: False
        have out: "\<forall>x\<in>set (take ?w s). \<not> p (byte x)"
          using p decode_rune_high_bytes [of c _ u] high by (force simp: Cons ascii_class_def)
        have "short_runs p n (replace_func ?e ?f s)"
          unfolding r by (rule short_runs_append_outside [OF ih(1) out])
        moreover have "run_length p s = 0"
          using out w by (simp add: Cons run_length_Cons take_Cons')
        moreover have "run_length p (replace_func ?e ?f s) = 0"
          unfolding r using out w by (intro run_length_append_stop) (simp_all add: Cons take_Cons')
        ultimately show ?thesis by simp
      qed
    qed
  qed
qed

end
