(* ===== verification/Redact.thy ===== *)
theory Redact
  imports Regex Go_Lib
begin

text \<open>
  \<open>pkg/privacy/redact.go\<close>: what the agent blanks out of a text before it leaves the
  device. The patterns of the code are the expressions below; each match is replaced by a
  mark, keeping what stands before a \<open>=\<close> or \<open>:\<close>.
\<close>

section \<open>The patterns\<close>

definition token_char :: "nat \<Rightarrow> bool" where
  "token_char r \<longleftrightarrow> is_letter r \<or> is_digit r \<or> r = 0x5F \<or> r = 0x2D"

definition sk_pattern :: re where
  "sk_pattern = Seq (lit ''sk-'') (Many 20 (Cls token_char))"

definition akia_pattern :: re where
  "akia_pattern =
     seqs (lit ''AKIA'' # replicate 16 (Cls (\<lambda>r. is_digit r \<or> is_upper r)))"

definition email_pattern :: re where
  "email_pattern =
     seqs
       [Many 1 (icls (\<lambda>r. is_lower r \<or> is_digit r \<or> rune_in ''._%+-'' r)),
        lit ''@'',
        Many 1 (icls (\<lambda>r. is_lower r \<or> is_digit r \<or> rune_in ''.-'' r)),
        lit ''.'',
        Many 2 (icls is_lower)]"

definition assignment_pattern :: re where
  "assignment_pattern =
     seqs
       [alts [seqs [ilit ''api'', Opt (Cls (rune_in ''_-'')), ilit ''key''],
              ilit ''token'', ilit ''secret'', ilit ''password''],
        Many 0 (Cls is_re_space),
        Cls (rune_in '':=''),
        Many 0 (Cls is_re_space),
        Opt (Cls (\<lambda>r. r = 0x22 \<or> r = 0x27)),
        Many 1 (Cls (\<lambda>r. \<not> (r = 0x22 \<or> r = 0x27 \<or> is_re_space r \<or> rune_in '',;'' r)))]"

definition bearer_pattern :: re where
  "bearer_pattern =
     seqs
       [ilit ''bearer'',
        Many 1 (Cls is_re_space),
        Many 20 (icls (\<lambda>r. is_lower r \<or> is_digit r \<or> rune_in ''._~+/=-'' r))]"

definition long_token_pattern :: re where
  "long_token_pattern = Many 48 (Cls token_char)"

definition secret_patterns :: "re list" where
  "secret_patterns =
     [sk_pattern, akia_pattern, email_pattern, assignment_pattern, bearer_pattern, long_token_pattern]"

text \<open>The Chinese words of the pattern, in UTF-8.\<close>

definition han_words :: "string list" where
  "han_words =
     [[CHR 0xE8, CHR 0xB4, CHR 0xA6, CHR 0xE5, CHR 0x8F, CHR 0xB7],
      [CHR 0xE8, CHR 0xB4, CHR 0xA6, CHR 0xE6, CHR 0x88, CHR 0xB7],
      [CHR 0xE9, CHR 0x82, CHR 0xAE, CHR 0xE7, CHR 0xAE, CHR 0xB1],
      [CHR 0xE7, CHR 0x99, CHR 0xBB, CHR 0xE5, CHR 0xBD, CHR 0x95],
      [CHR 0xE7, CHR 0x99, CHR 0xBB, CHR 0xE9, CHR 0x99, CHR 0x86],
      [CHR 0xE5, CHR 0xAF, CHR 0x86, CHR 0xE7, CHR 0xA0, CHR 0x81],
      [CHR 0xE7, CHR 0x94, CHR 0xA8, CHR 0xE8, CHR 0xBF, CHR 0x99, CHR 0xE4, CHR 0xB8, CHR 0xAA]]"

definition credential_context_pattern :: re where
  "credential_context_pattern =
     alts
       ([ilit ''login'', ilit ''signin'', ilit ''sign in'', ilit ''password'', ilit ''passwd'',
         ilit ''credential'', seqs [ilit ''api'', Opt (Cls (rune_in ''_ -'')), ilit ''key''],
         ilit ''token'', ilit ''secret'', ilit ''email'', ilit ''mail'']
        @ map lit han_words)"

section \<open>Redaction\<close>

definition redacted_mark :: string where
  "redacted_mark = ''[REDACTED]''"

definition redact_match :: "string \<Rightarrow> string" where
  "redact_match m =
     (case index_of m ''='' of
        Some i \<Rightarrow> take (i + 1) m @ redacted_mark
      | None \<Rightarrow>
          (case index_of m '':'' of
             Some i \<Rightarrow> take (i + 1) m @ redacted_mark
           | None \<Rightarrow> redacted_mark))"

definition looks_like_credential_line :: "string \<Rightarrow> bool" where
  "looks_like_credential_line value =
     (if value = [] \<or> contains_any value [CHR 0x20, CHR 0x09] then False
      else if length value < 6 \<or> length value > 96 then False
      else
        let hasLetter = re_match (Cls is_letter) value; hasDigit = re_match (Cls is_digit) value
        in (hasLetter \<and> hasDigit) \<or> (hasDigit \<and> length value \<ge> 8))"

text \<open>\<open>strings.Replace (s, old, new, 1)\<close>\<close>

definition replace_first :: "string \<Rightarrow> string \<Rightarrow> string \<Rightarrow> string" where
  "replace_first s old new =
     (case index_of s old of None \<Rightarrow> s | Some i \<Rightarrow> take i s @ new @ drop (i + length old) s)"

fun redact_lines :: "nat \<Rightarrow> string list \<Rightarrow> string list" where
  "redact_lines n [] = []"
| "redact_lines n (line # lines) =
     (let trimmed = trim_space line in
      if trimmed = [] then line # redact_lines n lines
      else if n > 0 \<and> looks_like_credential_line trimmed
      then replace_first line trimmed redacted_mark # redact_lines 0 lines
      else if re_match credential_context_pattern trimmed \<or> re_match email_pattern trimmed
      then line # redact_lines 3 lines
      else line # redact_lines (n - 1) lines)"

definition newline :: string where
  "newline = [CHR 0x0A]"

definition redact_credential_blocks :: "string \<Rightarrow> string" where
  "redact_credential_blocks input = join (redact_lines 0 (split input newline)) newline"

definition redact_string :: "string \<Rightarrow> string" where
  "redact_string input =
     foldl (\<lambda>out pattern. replace_func pattern redact_match out)
       (redact_credential_blocks input) secret_patterns"

definition truncated_mark :: string where
  "truncated_mark = newline @ ''[TRUNCATED]''"

definition redact_and_truncate :: "string \<Rightarrow> int \<Rightarrow> string" where
  "redact_and_truncate input limit =
     (let limit = (if limit \<le> 0 then 4096 else limit); out = redact_string input
      in if int (length out) \<le> limit then out else take (nat limit) out @ truncated_mark)"

section \<open>No long token survives\<close>

lemma token_char_ascii: "ascii_class token_char"
  by (auto simp: ascii_class_def token_char_def is_letter_def is_upper_def is_lower_def is_digit_def)

lemma replace_func_cong:
  assumes "\<And>n u. match_here e u = Some n \<Longrightarrow> f (take n u) = g (take n u)"
  shows "replace_func e f s = replace_func e g s"
proof (induction s rule: length_induct)
  case (1 s)
  show ?case
  proof (cases s)
    case (Cons c t)
    have "length (drop (rune_width s) s) < length s" using Cons by (simp add: rune_width_pos)
    with 1 have skip: "replace_func e f (drop (rune_width s) s) = replace_func e g (drop (rune_width s) s)" by blast
    show ?thesis
    proof (cases "match_here e s")
      case None
      with skip show ?thesis by (simp add: Cons replace_func_code)
    next
      case (Some n)
      show ?thesis
      proof (cases n)
        case 0
        with Some skip show ?thesis by (simp add: Cons replace_func_code)
      next
        case (Suc k)
        have "length (drop (Suc k) s) < length s" using Cons by simp
        with 1 have "replace_func e f (drop (Suc k) s) = replace_func e g (drop (Suc k) s)" by blast
        with Some Suc assms [OF Some] show ?thesis by (simp add: Cons replace_func_code)
      qed
    qed
  qed (simp add: replace_func_code)
qed

lemma index_of_char_None: "c \<notin> set s \<Longrightarrow> index_of s [c] = None"
  by (induction s) (auto simp: has_prefix_def)

lemma redact_match_token: "\<forall>c\<in>set m. token_char (byte c) \<Longrightarrow> redact_match m = redacted_mark"
proof -
  assume m: "\<forall>c\<in>set m. token_char (byte c)"
  have "\<not> token_char (byte (CHR ''=''))" and "\<not> token_char (byte (CHR '':''))" by code_simp+
  with m have "CHR ''='' \<notin> set m" and "CHR '':'' \<notin> set m" by blast+
  then show ?thesis by (simp add: redact_match_def index_of_char_None)
qed

lemma redacted_mark_short: "short_runs token_char 48 redacted_mark"
proof -
  have "length (drop i redacted_mark) < 48" for i by (simp add: redacted_mark_def)
  then show ?thesis unfolding short_runs_def using run_length_le le_less_trans by blast
qed

lemma replace_long_tokens:
  "short_runs token_char 48 (replace_func long_token_pattern redact_match s)"
proof -
  have run: "\<forall>c\<in>set (take (run_length token_char u) u). token_char (byte c)" for u
    unfolding run_length_def takeWhile_eq_take [symmetric] by (auto dest: set_takeWhileD)
  have "replace_func long_token_pattern redact_match s = replace_func long_token_pattern (\<lambda>_. redacted_mark) s"
    by (rule replace_func_cong)
       (auto simp: long_token_pattern_def match_here_many_class [OF token_char_ascii] split: if_splits
         intro!: redact_match_token dest: run [rule_format])
  moreover have "short_runs token_char 48 (replace_func long_token_pattern (\<lambda>_. redacted_mark) s)"
    unfolding long_token_pattern_def
    by (rule replace_runs [OF token_char_ascii, THEN conjunct1])
       (simp_all add: redacted_mark_short, simp_all add: redacted_mark_def, code_simp+)
  ultimately show ?thesis by simp
qed

lemma redact_string_last:
  "\<exists>out. redact_string input = replace_func long_token_pattern redact_match out"
  by (auto simp: redact_string_def secret_patterns_def)

lemma redact_string_short: "short_runs token_char 48 (redact_string input)"
  using redact_string_last [of input] replace_long_tokens by metis

lemma run_length_take: "run_length p (take k s) \<le> run_length p s"
  by (induction s arbitrary: k) (auto simp: run_length_def take_Cons')

lemma short_runs_take: "short_runs p n s \<Longrightarrow> short_runs p n (take k s)"
  unfolding short_runs_def by (metis drop_take run_length_take le_less_trans)

lemma length_redact_and_truncate:
  "int (length (redact_and_truncate input limit)) \<le> (if limit \<le> 0 then 4096 else limit) + 12"
  by (auto simp: redact_and_truncate_def Let_def truncated_mark_def newline_def)

lemma redact_and_truncate_short: "short_runs token_char 48 (redact_and_truncate input limit)"
proof -
  have mark: "short_runs token_char 48 truncated_mark"
  proof -
    have "length (drop i truncated_mark) < 48" for i by (simp add: truncated_mark_def newline_def)
    then show ?thesis unfolding short_runs_def using run_length_le le_less_trans by blast
  qed
  have "run_length token_char (s @ truncated_mark @ t) = run_length token_char s" for s t
  proof (induction s)
    case Nil
    have "\<not> token_char (byte (CHR 0x0A))" by code_simp
    then show ?case by (simp add: truncated_mark_def newline_def run_length_def)
  qed (auto simp: run_length_def)
  note stop = this [where t = "[]", simplified]
  have "short_runs token_char 48 (take k s @ truncated_mark)" if "short_runs token_char 48 s" for k s
    unfolding short_runs_def
  proof
    fix i
    show "run_length token_char (drop i (take k s @ truncated_mark)) < 48"
    proof (cases "i < length (take k s)")
      case True
      with short_runs_take [OF that, of k] show ?thesis by (simp add: short_runs_def stop)
    next
      case False
      then have "drop i (take k s) = []" by (intro drop_all) (simp only: not_less)
      with mark show ?thesis unfolding short_runs_def drop_append by simp
    qed
  qed
  then show ?thesis
    using redact_string_short by (simp add: redact_and_truncate_def Let_def)
qed

end
