(* ===== verification/Policy.thy ===== *)
theory Policy
  imports Redact Model
begin

text \<open>
  \<open>pkg/policy/policy.go\<close>: the evaluation of a command against the rules of the control
  plane. Patterns of rules are compiled by the library (\<open>regexp_compile\<close>); a pattern that
  does not compile matches nothing. Paths are those of Unix.
\<close>

section \<open>Decisions\<close>

datatype decision = Allow | Warn | Approval | Block

fun decision_string :: "decision \<Rightarrow> string" where
  "decision_string Allow = ''allow''"
| "decision_string Warn = ''warn''"
| "decision_string Approval = ''approval''"
| "decision_string Block = ''block''"

definition command_preview_limit :: int where
  "command_preview_limit = 240"

record evaluation =
  ev_AgentType :: string
  ev_CommandHash :: string
  ev_CommandPreview :: string
  ev_Decision :: decision
  ev_RiskScore :: int
  ev_RuleIDs :: "string list"
  ev_Reason :: string

definition matched_rule :: "evaluation \<Rightarrow> bool" where
  "matched_rule e \<longleftrightarrow> ev_RuleIDs e \<noteq> []"

record rule_match =
  rm_id :: string
  rm_decision :: decision
  rm_riskScore :: int
  rm_reason :: string

definition normalize_rule_token :: "go_lib \<Rightarrow> string \<Rightarrow> string" where
  "normalize_rule_token L value =
     lower L (map (\<lambda>c. if c = CHR ''-'' \<or> c = CHR '' '' then CHR ''_'' else c) (trim_space value))"

definition decision_from_policy_action :: "go_lib \<Rightarrow> string \<Rightarrow> decision" where
  "decision_from_policy_action L value =
     (let v = normalize_rule_token L value in
      if v \<in> {''block'', ''blocked'', ''deny'', ''denied''} then Block
      else if v \<in> {''approval'', ''requires_approval'', ''require_approval'', ''approval_required'',
                   ''review'', ''review_required''} then Approval
      else if v \<in> {''warn'', ''warning'', ''warned''} then Warn
      else Allow)"

definition risk_score_from_policy_rule :: "go_lib \<Rightarrow> policy_rule \<Rightarrow> int" where
  "risk_score_from_policy_rule L rule =
     (let v = normalize_rule_token L (pr_RiskLevel rule) in
      if v = ''critical'' then 95
      else if v = ''high'' then 80
      else if v = ''medium'' then 55
      else if v = ''low'' then 25
      else (case decision_from_policy_action L (pr_Action rule) of
              Block \<Rightarrow> 85
            | Approval \<Rightarrow> 70
            | Warn \<Rightarrow> 50
            | Allow \<Rightarrow> 0))"

section \<open>The forms of a command\<close>

definition clean_target_token :: "string \<Rightarrow> string" where
  "clean_target_token target = trim_set (trim_space target) [CHR 0x22, CHR 0x27]"

text \<open>\<open>filepath.Base\<close> on Unix.\<close>

definition path_base :: "string \<Rightarrow> string" where
  "path_base path =
     (if path = [] then ''.''
      else
        let stripped = trim_right_set path ''/'';
            base = (case last_index_of stripped ''/'' of None \<Rightarrow> stripped | Some i \<Rightarrow> drop (i + 1) stripped)
        in if base = [] then ''/'' else base)"

definition command_name :: "string \<Rightarrow> string" where
  "command_name path = path_base (clean_target_token path)"

function skip_sudo_options :: "string list \<Rightarrow> string list" where
  "skip_sudo_options [] = []"
| "skip_sudo_options (opt # args) =
     (if \<not> has_prefix opt ''-'' then opt # args
      else if opt \<in> {''-u'', ''-g'', ''-h'', ''--user'', ''--group'', ''--host''}
      then skip_sudo_options (drop 1 args)
      else skip_sudo_options args)"
  by pat_completeness auto
termination by (relation "measure length") auto

function skip_env_words :: "string list \<Rightarrow> string list" where
  "skip_env_words [] = []"
| "skip_env_words (w # args) =
     (if contains w ''='' then skip_env_words args
      else if w = ''-u'' \<or> w = ''--unset'' then skip_env_words (drop 1 args)
      else if has_prefix w ''-'' then skip_env_words args
      else w # args)"
  by pat_completeness auto
termination by (relation "measure length") auto

lemma length_skip_sudo_options: "length (skip_sudo_options args) \<le> length args"
  by (induction args rule: skip_sudo_options.induct) auto

lemma length_skip_env_words: "length (skip_env_words args) \<le> length args"
proof (induction args rule: skip_env_words.induct)
  case (2 w args)
  then show ?case by (cases "contains w ''=''") auto
qed simp

function unwrap_command_prefix :: "string list \<Rightarrow> string list" where
  "unwrap_command_prefix [] = []"
| "unwrap_command_prefix (w # args) =
     (let name = command_name w in
      if name \<in> {''sudo'', ''doas''} then unwrap_command_prefix (skip_sudo_options args)
      else if name = ''env'' then unwrap_command_prefix (skip_env_words args)
      else if name \<in> {''command'', ''builtin'', ''nohup'', ''time''} then unwrap_command_prefix args
      else w # args)"
  by pat_completeness auto
termination
  by (relation "measure length")
     (auto simp: less_Suc_eq_le length_skip_sudo_options length_skip_env_words)

definition flush_form :: "string list \<Rightarrow> string list list" where
  "flush_form current = (if current = [] then [] else [current])"

fun split_shell_fields :: "string list \<Rightarrow> string list \<Rightarrow> string list list" where
  "split_shell_fields current [] = flush_form current"
| "split_shell_fields current (field # fs) =
     (let trimmed = trim_space field in
      if trimmed = [] then split_shell_fields current fs
      else if trimmed \<in> {''&&'', ''||'', ''|'', '';''} then flush_form current @ split_shell_fields [] fs
      else if has_suffix trimmed '';'' then
        (let w = trim_suffix trimmed '';''
         in flush_form (if w \<noteq> [] then current @ [w] else current) @ split_shell_fields [] fs)
      else split_shell_fields (current @ [trimmed]) fs)"

definition split_shell_command_fields :: "string list \<Rightarrow> string list list" where
  "split_shell_command_fields fs = split_shell_fields [] fs"

text \<open>The word after the first \<open>-c\<close>.\<close>

fun dash_c_command :: "string list \<Rightarrow> string option" where
  "dash_c_command (w # c # args) = (if w = ''-c'' then Some c else dash_c_command (c # args))"
| "dash_c_command _ = None"

definition guarded_command_forms :: "string list \<Rightarrow> string list list" where
  "guarded_command_forms args =
     args #
     (let unwrapped = unwrap_command_prefix args in
      if length unwrapped \<ge> 3 \<and> command_name (hd unwrapped) \<in> {''bash'', ''sh'', ''zsh''}
      then case dash_c_command (tl unwrapped) of
             None \<Rightarrow> []
           | Some c \<Rightarrow>
               (let fs = Go_Strings.fields c
                in if fs = [] then [] else fs # split_shell_command_fields fs)
      else [])"

section \<open>Rules\<close>

definition policy_rule_applies_to_agent :: "go_lib \<Rightarrow> policy_rule \<Rightarrow> string \<Rightarrow> bool" where
  "policy_rule_applies_to_agent L rule agentType =
     (if normalize_rule_token L (pr_Status rule) \<noteq> ''active'' then False
      else
        let ruleAgent = normalize_rule_token L (pr_AgentType rule) in
        if ruleAgent = [] \<or> ruleAgent = ''all'' \<or> ruleAgent = ''all_agents'' then True
        else if ruleAgent = ''codex'' then True
        else ruleAgent = normalize_rule_token L agentType)"

definition policy_rule_matches_command :: "go_lib \<Rightarrow> policy_rule \<Rightarrow> string list \<Rightarrow> bool" where
  "policy_rule_matches_command L rule args =
     (let matchValue = trim_space (pr_MatchValue rule) in
      if matchValue = [] then True
      else case regexp_compile L matchValue of
             None \<Rightarrow> False
           | Some expr \<Rightarrow> list_ex (\<lambda>form. regexp_match expr (join form '' '')) (guarded_command_forms args))"

definition rule_hits :: "go_lib \<Rightarrow> string \<Rightarrow> string list \<Rightarrow> policy_rule \<Rightarrow> bool" where
  "rule_hits L agentType args rule \<longleftrightarrow>
     policy_rule_applies_to_agent L rule agentType \<and> policy_rule_matches_command L rule args"

definition match_of_rule :: "go_lib \<Rightarrow> policy_rule \<Rightarrow> rule_match" where
  "match_of_rule L rule =
     \<lparr>rm_id = pr_RuleID rule,
      rm_decision = decision_from_policy_action L (pr_Action rule),
      rm_riskScore = risk_score_from_policy_rule L rule,
      rm_reason = first_non_empty [pr_Description rule, pr_Name rule, ''matched control-plane policy rule'']\<rparr>"

definition policy_rule_matches :: "go_lib \<Rightarrow> string \<Rightarrow> string list \<Rightarrow> policy_rule list \<Rightarrow> rule_match list" where
  "policy_rule_matches L agentType args rules =
     map (match_of_rule L) (filter (rule_hits L agentType args) rules)"

definition apply_match :: "evaluation \<Rightarrow> rule_match \<Rightarrow> evaluation" where
  "apply_match e m =
     e\<lparr>ev_Decision :=
         (if rm_decision m = Block then Block
          else if ev_Decision e \<noteq> Block \<and> rm_decision m = Approval then Approval
          else if ev_Decision e \<noteq> Block \<and> rm_decision m = Warn then Warn
          else ev_Decision e),
       ev_RiskScore := (if rm_riskScore m > ev_RiskScore e then rm_riskScore m else ev_RiskScore e),
       ev_RuleIDs :=
         (if rm_id m \<in> set (ev_RuleIDs e) then ev_RuleIDs e else ev_RuleIDs e @ [rm_id m])\<rparr>"

definition apply_rule_matches :: "evaluation \<Rightarrow> rule_match list \<Rightarrow> evaluation" where
  "apply_rule_matches e matches =
     (if matches = [] then e
      else (foldl apply_match e matches)\<lparr>ev_Reason :=
              join (filter (\<lambda>r. r \<noteq> []) (map rm_reason matches)) ''; ''\<rparr>)"

section \<open>The preview\<close>

definition redact_preview_token :: "go_lib \<Rightarrow> string \<Rightarrow> string" where
  "redact_preview_token L token0 =
     (let token = redact_string token0; low = lower L token in
      if contains low ''.ssh'' then ''[SSH_PATH]''
      else if contains low ''.env'' then ''[ENV_FILE]''
      else if contains low ''id_rsa'' then ''[SSH_KEY_PATH]''
      else if contains low ''credentials'' then ''[CREDENTIALS_PATH]''
      else if contains low ''kubeconfig'' then ''[KUBECONFIG_PATH]''
      else if length token > 96 then take 96 token @ ''...''
      else token)"

definition shell_preview_token :: "go_lib \<Rightarrow> string \<Rightarrow> string" where
  "shell_preview_token L token =
     (if token = [] then [CHR 0x27, CHR 0x27]
      else if contains_any token [CHR 0x20, CHR 0x09, CHR 0x0A, CHR 0x22, CHR 0x27, CHR 0x5C, CHR 0x24, CHR 0x60]
      then sprintf_q L token
      else token)"

definition redacted_preview :: "go_lib \<Rightarrow> string list \<Rightarrow> string" where
  "redacted_preview L args =
     (if args = [] then []
      else
        let preview = join (map (\<lambda>arg. shell_preview_token L (redact_preview_token L arg)) args) '' ''
        in replace_all (redact_and_truncate preview command_preview_limit) newline '' '')"

definition nul :: string where
  "nul = [CHR 0x00]"

definition new_evaluation :: "go_lib \<Rightarrow> string \<Rightarrow> string list \<Rightarrow> string \<Rightarrow> evaluation" where
  "new_evaluation L agentType0 args reason =
     (let agentType = (if agentType0 = [] then ''unknown'' else agentType0) in
      \<lparr>ev_AgentType = agentType,
       ev_CommandHash = hash_string L (agentType @ nul @ join args nul),
       ev_CommandPreview = redacted_preview L args,
       ev_Decision = Allow,
       ev_RiskScore = 0,
       ev_RuleIDs = [],
       ev_Reason = reason\<rparr>)"

definition evaluate_command :: "go_lib \<Rightarrow> string \<Rightarrow> string list \<Rightarrow> evaluation" where
  "evaluate_command L agentType args = new_evaluation L agentType args ''no local policy rules configured''"

definition evaluate_command_with_rules :: "go_lib \<Rightarrow> string \<Rightarrow> string list \<Rightarrow> policy_rule list \<Rightarrow> evaluation" where
  "evaluate_command_with_rules L agentType args rules =
     apply_rule_matches
       (new_evaluation L agentType args ''no control-plane policy rules matched'')
       (policy_rule_matches L agentType args rules)"

definition evaluation_payload :: "evaluation \<Rightarrow> bool \<Rightarrow> int \<Rightarrow> payload" where
  "evaluation_payload e executed exitCode =
     map_of
       [(''command_hash'', GString (ev_CommandHash e)),
        (''command_preview'', GString (ev_CommandPreview e)),
        (''decision'', GString (decision_string (ev_Decision e))),
        (''risk_score'', GInt (ev_RiskScore e)),
        (''rule_ids'', GStrings (ev_RuleIDs e)),
        (''matched_rule'', GBool (matched_rule e)),
        (''reason'', GString (ev_Reason e)),
        (''mode'', GString ''guard''),
        (''executed'', GBool executed),
        (''exit_code'', GInt exitCode),
        (''agent_type'', GString (ev_AgentType e)),
        (''metadata_only'', GBool True)]"

section \<open>The decision of a list of matches\<close>

lemma match_of_rule_sel [simp]:
  "rm_id (match_of_rule L r) = pr_RuleID r"
  "rm_decision (match_of_rule L r) = decision_from_policy_action L (pr_Action r)"
  "rm_riskScore (match_of_rule L r) = risk_score_from_policy_rule L r"
  by (simp_all add: match_of_rule_def)

text \<open>
  Once a match blocks, the decision stays \<open>Block\<close>. Without a blocking match the last
  match that warns or asks for approval decides.
\<close>

definition last_notice :: "decision \<Rightarrow> rule_match list \<Rightarrow> decision" where
  "last_notice d ms =
     (case filter (\<lambda>m. rm_decision m \<noteq> Allow) ms of [] \<Rightarrow> d | ns \<Rightarrow> rm_decision (last ns))"

lemma last_notice_Cons:
  "last_notice d (m # ms) = last_notice (if rm_decision m = Allow then d else rm_decision m) ms"
  by (auto simp: last_notice_def split: list.splits)

lemma last_notice_last:
  assumes "rm_decision m \<noteq> Allow" and "\<forall>m\<in>set later. rm_decision m = Allow"
  shows "last_notice d (before @ m # later) = rm_decision m"
proof -
  have "filter (\<lambda>m. rm_decision m \<noteq> Allow) later = []" using assms(2) by (simp add: filter_empty_conv)
  then have "filter (\<lambda>m. rm_decision m \<noteq> Allow) (before @ m # later)
      = filter (\<lambda>m. rm_decision m \<noteq> Allow) before @ [m]" using assms(1) by simp
  then show ?thesis
    unfolding last_notice_def by (cases "filter (\<lambda>m. rm_decision m \<noteq> Allow) before") simp_all
qed

lemma apply_match_decision:
  "ev_Decision (apply_match e m) =
     (if ev_Decision e = Block \<or> rm_decision m = Block then Block
      else if rm_decision m = Allow then ev_Decision e else rm_decision m)"
  by (cases "rm_decision m") (simp_all add: apply_match_def)

lemma foldl_apply_match_decision:
  "ev_Decision (foldl apply_match e ms) =
     (if ev_Decision e = Block \<or> (\<exists>m\<in>set ms. rm_decision m = Block) then Block
      else last_notice (ev_Decision e) ms)"
proof (induction ms arbitrary: e)
  case Nil
  then show ?case by (simp add: last_notice_def)
next
  case (Cons m ms)
  show ?case
    by (auto simp: Cons.IH last_notice_Cons apply_match_decision)
qed

lemma foldl_apply_match_risk:
  "ev_RiskScore (foldl apply_match e ms) = Max (insert (ev_RiskScore e) (rm_riskScore ` set ms))"
proof (induction ms arbitrary: e)
  case Nil
  then show ?case by simp
next
  case (Cons m ms)
  have "ev_RiskScore (apply_match e m) = max (ev_RiskScore e) (rm_riskScore m)"
    by (simp add: apply_match_def)
  then have "ev_RiskScore (foldl apply_match e (m # ms)) =
      Max (insert (max (ev_RiskScore e) (rm_riskScore m)) (rm_riskScore ` set ms))"
    by (simp add: Cons.IH)
  also have "\<dots> = Max (insert (ev_RiskScore e) (rm_riskScore ` set (m # ms)))"
    by (cases "rm_riskScore ` set ms = {}") (simp_all add: Max_insert max.assoc)
  finally show ?case .
qed

lemma apply_match_ids:
  "ev_RuleIDs (apply_match e m) =
     (if rm_id m \<in> set (ev_RuleIDs e) then ev_RuleIDs e else ev_RuleIDs e @ [rm_id m])"
  by (simp add: apply_match_def)

lemma foldl_apply_match_id_set:
  "set (ev_RuleIDs (foldl apply_match e ms)) = set (ev_RuleIDs e) \<union> rm_id ` set ms"
  by (induction ms arbitrary: e) (auto simp: apply_match_ids)

lemma foldl_apply_match_id_distinct:
  "distinct (ev_RuleIDs e) \<Longrightarrow> distinct (ev_RuleIDs (foldl apply_match e ms))"
  by (induction ms arbitrary: e) (auto simp: apply_match_ids)

lemma ev_Decision_apply_rule_matches:
  "ev_Decision (apply_rule_matches e ms) = ev_Decision (foldl apply_match e ms)"
  by (simp add: apply_rule_matches_def)

lemma ev_RiskScore_apply_rule_matches:
  "ev_RiskScore (apply_rule_matches e ms) = ev_RiskScore (foldl apply_match e ms)"
  by (simp add: apply_rule_matches_def)

lemma ev_RuleIDs_apply_rule_matches:
  "ev_RuleIDs (apply_rule_matches e ms) = ev_RuleIDs (foldl apply_match e ms)"
  by (simp add: apply_rule_matches_def)

lemma new_evaluation_sel [simp]:
  "ev_Decision (new_evaluation L a args r) = Allow" "ev_RiskScore (new_evaluation L a args r) = 0"
  "ev_RuleIDs (new_evaluation L a args r) = []"
  "ev_CommandPreview (new_evaluation L a args r) = redacted_preview L args"
  by (simp_all add: new_evaluation_def Let_def)

lemma policy_decision:
  "ev_Decision (evaluate_command_with_rules L agentType args rules) =
     (if \<exists>r\<in>set rules. rule_hits L agentType args r \<and> decision_from_policy_action L (pr_Action r) = Block
      then Block
      else last_notice Allow (policy_rule_matches L agentType args rules))"
  by (auto simp: evaluate_command_with_rules_def ev_Decision_apply_rule_matches
      foldl_apply_match_decision policy_rule_matches_def)

lemma blocking_decision:
  "ev_Decision (evaluate_command_with_rules L agentType args rules) = Block \<longleftrightarrow>
     (\<exists>r\<in>set rules. rule_hits L agentType args r \<and> decision_from_policy_action L (pr_Action r) = Block)"
proof -
  have "last_notice Allow ms \<noteq> Block" if "\<forall>m\<in>set ms. rm_decision m \<noteq> Block" for ms
    using that by (induction ms) (auto simp: last_notice_def split: list.splits)
  then show ?thesis by (auto simp: policy_decision policy_rule_matches_def)
qed

section \<open>Prefixes of commands\<close>

lemma unwrap_command_prefix_stops:
  "unwrap_command_prefix args = w # rest \<Longrightarrow>
     command_name w \<notin> {''sudo'', ''doas'', ''env'', ''command'', ''builtin'', ''nohup'', ''time''}"
  by (induction args rule: unwrap_command_prefix.induct) (auto simp: Let_def split: if_splits)

lemma unwrap_command_prefix_idem: "unwrap_command_prefix (unwrap_command_prefix args) = unwrap_command_prefix args"
proof (cases "unwrap_command_prefix args")
  case (Cons w rest)
  from unwrap_command_prefix_stops [OF this] Cons show ?thesis by simp
qed simp

end
