(* ===== verification/Guard.thy ===== *)
theory Guard
  imports Policy
begin

text \<open>
  \<open>pkg/agent/guard.go\<close>: the guarded execution of a command. Starting the process is the
  argument \<open>run\<close>, which gives the exit code, whether the process started, and its error; fetching and caching of rules are the arguments \<open>fetched\<close> and \<open>cached\<close>
  (\<open>None\<close> for an error).
\<close>

definition guard_blocked_exit_code :: int where "guard_blocked_exit_code = 45"
definition guard_approval_exit_code :: int where "guard_approval_exit_code = 46"

definition guard_message :: string where "guard_message = ''gesta-agent guard: ''"
definition high_risk_denied_message :: string where
  "high_risk_denied_message = ''Gesta does not allow this high-risk command to run''"
definition high_risk_approval_message :: string where
  "high_risk_approval_message = ''Gesta requires approval before this high-risk command can run''"

datatype guard_error =
    UnsupportedAgent string
  | MissingCommand
  | ExitError int string

text \<open>What a run leaves behind: the warning printed, the command started, the decision recorded, the error.\<close>

record guard_outcome =
  printed_warning :: "string option"
  executed_command :: "string list option"
  recorded_decision :: "payload option"
  guard_result :: "guard_error option"

text \<open>The end of a started or failed process: exit code, whether it started, its error.\<close>

type_synonym process_end = "int \<times> bool \<times> string option"

definition evaluate_guard_command ::
  "go_lib \<Rightarrow> string \<Rightarrow> string list \<Rightarrow> bool \<Rightarrow> policy_rule list option \<Rightarrow> policy_rule list option \<Rightarrow> evaluation" where
  "evaluate_guard_command L agentType args shouldFetch fetched cached =
     (case (if shouldFetch then fetched else None) of
        Some rules \<Rightarrow> evaluate_command_with_rules L agentType args rules
      | None \<Rightarrow>
          (case cached of
             Some rules \<Rightarrow> evaluate_command_with_rules L agentType args rules
           | None \<Rightarrow> evaluate_command L agentType args))"

definition record_guard_decision :: "evaluation \<Rightarrow> bool \<Rightarrow> int \<Rightarrow> payload option" where
  "record_guard_decision e executed exitCode =
     (if \<not> matched_rule e then None else Some (evaluation_payload e executed exitCode))"

definition run_guarded ::
  "go_lib \<Rightarrow> string \<Rightarrow> string list \<Rightarrow> bool \<Rightarrow> policy_rule list option \<Rightarrow> policy_rule list option
    \<Rightarrow> (string list \<Rightarrow> process_end) \<Rightarrow> guard_outcome" where
  "run_guarded L agentType0 args shouldFetch fetched cached run =
     (let agentType = (if agentType0 = [] then ''codex'' else agentType0);
          refused = \<lparr>printed_warning = None, executed_command = None, recorded_decision = None, guard_result = None\<rparr>
      in
      if agentType \<noteq> ''codex'' then refused\<lparr>guard_result := Some (UnsupportedAgent agentType)\<rparr>
      else if args = [] then refused\<lparr>guard_result := Some MissingCommand\<rparr>
      else
        let e = evaluate_guard_command L agentType args shouldFetch fetched cached;
            warning = (if ev_Decision e = Warn then Some (guard_message @ ''warning: '' @ ev_Reason e) else None)
        in
        if ev_Decision e = Approval
        then refused\<lparr>printed_warning := warning,
              recorded_decision := record_guard_decision e False guard_approval_exit_code,
              guard_result := Some (ExitError guard_approval_exit_code (guard_message @ high_risk_approval_message))\<rparr>
        else if ev_Decision e = Block
        then refused\<lparr>printed_warning := warning,
              recorded_decision := record_guard_decision e False guard_blocked_exit_code,
              guard_result := Some (ExitError guard_blocked_exit_code (guard_message @ high_risk_denied_message))\<rparr>
        else
          let (exitCode, started, failed) = run args in
          \<lparr>printed_warning = warning,
           executed_command = (if started then Some args else None),
           recorded_decision = record_guard_decision e started exitCode,
           guard_result =
             (case failed of
                None \<Rightarrow> None
              | Some m \<Rightarrow>
                  if started then Some (ExitError exitCode [])
                  else Some (ExitError exitCode (guard_message @ ''failed to start command: '' @ m)))\<rparr>)"

end
