(* ===== verification/Policy_Properties.thy ===== *)
theory Policy_Properties
  imports Guard
begin

text \<open>
  The properties of redaction, of the policy rules and of the guarded execution. They hold
  for every library; the witnesses use \<open>lib0\<close>, whose patterns match literally.
\<close>

section \<open>Redaction\<close>

text \<open>
  C14: No long token survives redaction: the redacted text, truncated or not, has no 48
  consecutive letters, digits, dashes and underscores, wherever one starts to read.
\<close>

theorem redaction_leaves_no_long_token:
  "run_length token_char (drop i (redact_string input)) < 48 \<and>
   run_length token_char (drop i (redact_and_truncate input limit)) < 48"
  using redact_string_short redact_and_truncate_short by (simp add: short_runs_def)

text \<open>
  The preview of a command is one line of at most 252 bytes without a long token.
\<close>

theorem preview_is_one_short_line:
  "set newline \<inter> set (redacted_preview L args) = {} \<and> length (redacted_preview L args) \<le> 252 \<and>
   run_length token_char (drop i (redacted_preview L args)) < 48"
proof (cases "args = []")
  case True
  then show ?thesis by (simp add: redacted_preview_def run_length_def)
next
  case False
  define out where "out = redact_and_truncate
    (join (map (\<lambda>arg. shell_preview_token L (redact_preview_token L arg)) args) '' '') command_preview_limit"
  let ?f = "\<lambda>c. if c = CHR 0x0A then CHR '' '' else c"
  have prev: "redacted_preview L args = map ?f out"
    using False by (simp add: redacted_preview_def Let_def out_def newline_def replace_all_char)
  have "\<not> token_char (byte (CHR 0x0A))" "\<not> token_char (byte (CHR '' ''))" by code_simp+
  then have "run_length token_char (map ?f s) = run_length token_char s" for s
    by (induction s) (auto simp: run_length_def)
  then have "run_length token_char (drop i (redacted_preview L args)) = run_length token_char (drop i out)"
    by (simp only: prev drop_map)
  moreover have "length out \<le> 252"
    using length_redact_and_truncate [of _ command_preview_limit]
    by (simp add: out_def command_preview_limit_def split: if_splits)
  ultimately show ?thesis
    using redact_and_truncate_short by (auto simp: prev out_def short_runs_def newline_def)
qed

section \<open>Decisions\<close>

text \<open>
  C12: A blocking rule blocks: the decision is \<open>Block\<close> exactly when some rule that applies to
  the agent and matches the command blocks, wherever it stands among the others.
\<close>

theorem block_dominates:
  "ev_Decision (evaluate_command_with_rules L agentType args rules) = Block \<longleftrightarrow>
     (\<exists>r\<in>set rules. rule_hits L agentType args r \<and> decision_from_policy_action L (pr_Action r) = Block)"
  by (rule blocking_decision)

text \<open>
  Without a blocking rule the last matching rule that does more than allow decides;
  the order of the rules matters, so a later warning replaces an earlier demand for approval.
\<close>

theorem last_notice_decides:
  assumes "\<forall>r\<in>set (before @ rule # later). rule_hits L agentType args r \<longrightarrow>
      decision_from_policy_action L (pr_Action r) \<noteq> Block"
    and "rule_hits L agentType args rule" and "decision_from_policy_action L (pr_Action rule) \<noteq> Allow"
    and "\<forall>r\<in>set later. rule_hits L agentType args r \<longrightarrow> decision_from_policy_action L (pr_Action r) = Allow"
  shows "ev_Decision (evaluate_command_with_rules L agentType args (before @ rule # later))
    = decision_from_policy_action L (pr_Action rule)"
proof -
  let ?ms = "\<lambda>rs. policy_rule_matches L agentType args rs"
  have "?ms (before @ rule # later) = ?ms before @ match_of_rule L rule # ?ms later"
    using assms(2) by (simp add: policy_rule_matches_def)
  then have "last_notice Allow (?ms (before @ rule # later)) = rm_decision (match_of_rule L rule)"
    using assms(3,4) by (simp add: last_notice_last policy_rule_matches_def)
  with assms(1) show ?thesis by (auto simp: policy_decision)
qed

definition plain_rule :: "string \<Rightarrow> string \<Rightarrow> string \<Rightarrow> policy_rule" where
  "plain_rule ident pattern action =
     \<lparr>pr_RuleID = ident, pr_Name = ident, pr_Description = [], pr_Status = ''active'',
      pr_AgentType = ''all'', pr_Scope = [], pr_MatchType = [], pr_MatchValue = pattern,
      pr_Action = action, pr_Priority = 0, pr_RiskLevel = ''high'', pr_Owner = [],
      pr_PolicyVersion = [], pr_HitCount = 0\<rparr>"

lemma last_notice_decides_witness:
  "ev_Decision (evaluate_command_with_rules lib0 ''codex'' [''rm'', ''-rf'', ''x'']
     ([plain_rule ''r1'' ''rm'' ''approval''] @ plain_rule ''r2'' ''-rf'' ''warn'' # [])) = Warn"
proof -
  have "decision_from_policy_action lib0 ''approval'' = Approval" "decision_from_policy_action lib0 ''warn'' = Warn"
    by code_simp+
  moreover have "rule_hits lib0 ''codex'' [''rm'', ''-rf'', ''x''] (plain_rule ''r2'' ''-rf'' ''warn'')" by code_simp
  ultimately show ?thesis by (subst last_notice_decides) (auto simp: plain_rule_def)
qed

text \<open>
  Every rule that matched is reported, once, and the risk score is the greatest of
  their scores, or 0 when none matched.
\<close>

theorem matches_are_reported:
  "set (ev_RuleIDs (evaluate_command_with_rules L agentType args rules))
     = pr_RuleID ` {r \<in> set rules. rule_hits L agentType args r} \<and>
   distinct (ev_RuleIDs (evaluate_command_with_rules L agentType args rules)) \<and>
   ev_RiskScore (evaluate_command_with_rules L agentType args rules)
     = Max (insert 0 (risk_score_from_policy_rule L ` {r \<in> set rules. rule_hits L agentType args r}))"
  by (auto simp: evaluate_command_with_rules_def ev_RuleIDs_apply_rule_matches
      ev_RiskScore_apply_rule_matches foldl_apply_match_id_set foldl_apply_match_id_distinct
      foldl_apply_match_risk policy_rule_matches_def image_image)

section \<open>Commands behind prefixes and shells\<close>



section \<open>Guarded execution\<close>



end
