(* ===== verification/Contextmatch.thy ===== *)
theory Contextmatch
  imports Model "HOL-Library.Product_Lexorder" "HOL-Library.Sublist"
begin

text \<open>
  \<open>pkg/contextmatch/matcher.go\<close>: the context rules that a prompt triggers, by priority,
  within a limit on their number and on the characters of their contents.
\<close>

section \<open>Keywords\<close>

definition is_ascii_word_byte :: "char \<Rightarrow> bool" where
  "is_ascii_word_byte c \<longleftrightarrow>
     (byte (CHR ''a'') \<le> byte c \<and> byte c \<le> byte (CHR ''z'')) \<or>
     (byte (CHR ''0'') \<le> byte c \<and> byte c \<le> byte (CHR ''9'')) \<or> c = CHR ''_''"

definition keyword_boundary_matches :: "string \<Rightarrow> string \<Rightarrow> nat \<Rightarrow> nat \<Rightarrow> bool" where
  "keyword_boundary_matches prompt keyword start stop \<longleftrightarrow>
     (if is_ascii_word_byte (keyword ! 0) \<and> start > 0 \<and> is_ascii_word_byte (prompt ! (start - 1)) then False
      else if is_ascii_word_byte (keyword ! (length keyword - 1)) \<and> stop < length prompt
        \<and> is_ascii_word_byte (prompt ! stop) then False
      else True)"

function bounded_from :: "string \<Rightarrow> string \<Rightarrow> nat \<Rightarrow> bool" where
  "bounded_from lowerPrompt keyword offset =
     (if offset + length keyword > length lowerPrompt then False
      else case index_of (drop offset lowerPrompt) keyword of
             None \<Rightarrow> False
           | Some i \<Rightarrow>
               (if keyword_boundary_matches lowerPrompt keyword (offset + i) (offset + i + length keyword) then True
                else bounded_from lowerPrompt keyword (offset + i + 1)))"
  by pat_completeness auto
termination
  by (relation "measure (\<lambda>(p, k, offset). Suc (length p) - offset)") auto

declare bounded_from.simps [simp del]

definition contains_bounded_keyword :: "go_lib \<Rightarrow> string \<Rightarrow> string \<Rightarrow> bool" where
  "contains_bounded_keyword L lowerPrompt keyword0 =
     (let keyword = lower L (trim_space keyword0) in
      if keyword = [] then False else bounded_from lowerPrompt keyword 0)"

section \<open>Matching\<close>

definition max_matched_rules :: nat where "max_matched_rules = 10"
definition max_context_content :: int where "max_context_content = 8000"

definition supports_agent :: "go_lib \<Rightarrow> string \<Rightarrow> string \<Rightarrow> bool" where
  "supports_agent L ruleAgentType0 agentType =
     (let ruleAgentType = trim_space (lower L ruleAgentType0)
      in ruleAgentType = ''all'' \<or> ruleAgentType = agentType)"

definition matches_prompt :: "go_lib \<Rightarrow> context_rule \<Rightarrow> string \<Rightarrow> string \<Rightarrow> bool" where
  "matches_prompt L rule prompt lowerPrompt =
     (if cr_MatchType rule = ''always'' then True
      else if cr_MatchType rule = ''keyword_any''
      then list_ex (contains_bounded_keyword L lowerPrompt) (cr_Keywords rule)
      else if cr_MatchType rule = ''regex''
      then (case regexp_compile L (cr_Pattern rule) of None \<Rightarrow> False | Some re \<Rightarrow> regexp_match re prompt)
      else False)"

record match_result =
  mr_Rules :: "context_rule list"
  mr_AdditionalContext :: string
  mr_Truncated :: bool

definition rule_triggers :: "go_lib \<Rightarrow> string \<Rightarrow> string \<Rightarrow> context_rule \<Rightarrow> bool" where
  "rule_triggers L prompt agentType rule \<longleftrightarrow>
     cr_Status rule = ''active'' \<and> supports_agent L (cr_AgentType rule) agentType \<and>
     matches_prompt L rule prompt (lower L prompt)"

text \<open>
  The loop over the sorted candidates: \<open>rs\<close> and \<open>contents\<close> are what has been taken,
  \<open>len\<close> its characters and separators, \<open>truncated\<close> whether something was left out. The
  code lowers the prompt when the first keyword rule comes; here it is lowered at once.
\<close>

fun match_loop ::
  "go_lib \<Rightarrow> string \<Rightarrow> string \<Rightarrow> context_rule list \<Rightarrow> context_rule list \<Rightarrow> string list \<Rightarrow> int \<Rightarrow> bool \<Rightarrow>
    context_rule list \<times> string list \<times> int \<times> bool" where
  "match_loop L prompt agentType [] rs contents len truncated = (rs, contents, len, truncated)"
| "match_loop L prompt agentType (rule # candidates) rs contents len truncated =
     (if \<not> rule_triggers L prompt agentType rule
      then match_loop L prompt agentType candidates rs contents len truncated
      else
        let content = trim_space (cr_ContextContent rule);
            sep = (if contents \<noteq> [] then 2 else 0);
            contentRunes = int (rune_count content)
        in if length rs \<ge> max_matched_rules \<or> len + sep + contentRunes > max_context_content
           then match_loop L prompt agentType candidates rs contents len True
           else match_loop L prompt agentType candidates (rs @ [rule]) (contents @ [content])
                  (len + sep + contentRunes) truncated)"

definition rule_order :: "context_rule \<Rightarrow> int \<times> string" where
  "rule_order rule = (- cr_Priority rule, cr_RuleID rule)"

definition paragraph_break :: string where
  "paragraph_break = [CHR 0x0A, CHR 0x0A]"

definition match_context :: "go_lib \<Rightarrow> string \<Rightarrow> string \<Rightarrow> context_rule list \<Rightarrow> match_result" where
  "match_context L prompt0 agentType0 rules =
     (let prompt = trim_space prompt0 in
      if prompt = [] then \<lparr>mr_Rules = [], mr_AdditionalContext = [], mr_Truncated = False\<rparr>
      else
        let agentType = trim_space (lower L agentType0);
            candidates = sort_key rule_order rules;
            (rs, contents, _, truncated) = match_loop L prompt agentType candidates [] [] 0 False
        in \<lparr>mr_Rules = rs, mr_AdditionalContext = join contents paragraph_break, mr_Truncated = truncated\<rparr>)"

section \<open>Validation\<close>

datatype rule_error =
    InvalidIdentity
  | InvalidAgentType
  | InvalidContent
  | EmptyKeywords
  | InvalidRegexp
  | InvalidMatchType

definition validate_rule :: "go_lib \<Rightarrow> context_rule \<Rightarrow> rule_error option" where
  "validate_rule L rule =
     (if trim_space (cr_RuleID rule) = [] \<or> cr_Status rule \<noteq> ''active'' then Some InvalidIdentity
      else if cr_AgentType rule \<noteq> ''all'' \<and> cr_AgentType rule \<noteq> ''codex'' \<and> cr_AgentType rule \<noteq> ''claude_code''
      then Some InvalidAgentType
      else if trim_space (cr_ContextContent rule) = [] \<or> int (rune_count (cr_ContextContent rule)) > max_context_content
      then Some InvalidContent
      else if cr_MatchType rule = ''always'' then None
      else if cr_MatchType rule = ''keyword_any''
      then (if list_ex (\<lambda>k. trim_space k \<noteq> []) (cr_Keywords rule) then None else Some EmptyKeywords)
      else if cr_MatchType rule = ''regex''
      then (if regexp_compile L (cr_Pattern rule) = None then Some InvalidRegexp else None)
      else Some InvalidMatchType)"

definition validate_rules :: "go_lib \<Rightarrow> context_rule list \<Rightarrow> rule_error option" where
  "validate_rules L rules = first_some (validate_rule L) rules"

section \<open>What a match selects\<close>

lemma bounded_from_iff:
  assumes "keyword \<noteq> []"
  shows "bounded_from t keyword offset \<longleftrightarrow>
    (\<exists>i\<ge>offset. i + length keyword \<le> length t \<and> take (length keyword) (drop i t) = keyword \<and>
       keyword_boundary_matches t keyword i (i + length keyword))"
    (is "_ \<longleftrightarrow> (\<exists>i\<ge>offset. ?at t keyword i)")
  using assms
proof (induction t keyword offset rule: bounded_from.induct)
  case (1 t k offset)
  show ?case
  proof (cases "offset + length k > length t")
    case True
    then show ?thesis by (subst bounded_from.simps) auto
  next
    case False
    show ?thesis
    proof (cases "index_of (drop offset t) k")
      case None
      have "\<not> ?at t k i" if "offset \<le> i" for i
        using index_of_NoneD [OF None, of "i - offset"] that False by auto
      with None False show ?thesis by (subst bounded_from.simps) auto
    next
      case (Some d)
      let ?i = "offset + d"
      from index_of_SomeD [OF Some] False have occ: "?i + length k \<le> length t" "take (length k) (drop ?i t) = k"
        by (auto simp: add.commute)
      have least: "\<not> ?at t k j" if "offset \<le> j" "j < ?i" for j
        using index_of_least [OF Some, of "j - offset"] that by auto
      let ?ok = "keyword_boundary_matches t k ?i (?i + length k)"
      have unfold: "bounded_from t k offset = (if ?ok then True else bounded_from t k (?i + 1))"
        using Some False by (subst bounded_from.simps) simp
      show ?thesis
      proof (cases ?ok)
        case True
        with unfold occ show ?thesis by (metis le_add1)
      next
        case not_ok: False
        have IH: "bounded_from t k (?i + 1) \<longleftrightarrow> (\<exists>j\<ge>?i + 1. ?at t k j)"
          by (rule 1(1) [OF False Some not_ok 1(2)])
        have "offset \<le> j \<and> ?at t k j \<longleftrightarrow> ?i + 1 \<le> j \<and> ?at t k j" for j
          using least [of j] not_ok by (cases "j < ?i"; cases "j = ?i") auto
        with unfold not_ok IH show ?thesis by auto
      qed
    qed
  qed
qed

lemma rune_count_Nil [simp]: "rune_count [] = 0"
  by (simp add: rune_count_def)

lemma rune_count_paragraph: "rune_count (a @ paragraph_break @ b) = rune_count a + 2 + rune_count b"
  by (simp add: paragraph_break_def rune_count_append_ascii rune_count_ascii_Cons byte_def)

text \<open>The characters of joined contents, with two for each break between them.\<close>

fun joined_runes :: "string list \<Rightarrow> int" where
  "joined_runes [] = 0"
| "joined_runes [c] = int (rune_count c)"
| "joined_runes (c # cs) = int (rune_count c) + 2 + joined_runes cs"

lemma rune_count_join: "int (rune_count (join cs paragraph_break)) = joined_runes cs"
  by (induction cs rule: joined_runes.induct) (simp_all add: rune_count_paragraph)

lemma joined_runes_snoc:
  "joined_runes (cs @ [c]) = joined_runes cs + (if cs \<noteq> [] then 2 else 0) + int (rune_count c)"
  by (induction cs rule: joined_runes.induct) (simp_all split: list.splits)

definition trimmed_content :: "context_rule \<Rightarrow> string" where
  "trimmed_content rule = trim_space (cr_ContextContent rule)"

lemma match_loop_selects:
  assumes "match_loop L prompt agentType cs rs contents len trunc = (rs', contents', len', trunc')"
    and "contents = map trimmed_content rs" and "len = joined_runes contents" and "len \<le> max_context_content"
    and "length rs \<le> max_matched_rules"
  shows "contents' = map trimmed_content rs' \<and> len' = joined_runes contents' \<and> len' \<le> max_context_content \<and>
    length rs' \<le> max_matched_rules \<and> (trunc \<longrightarrow> trunc') \<and>
    (\<exists>taken. rs' = rs @ taken \<and> subseq taken (filter (rule_triggers L prompt agentType) cs) \<and>
       (\<not> trunc' \<longrightarrow> taken = filter (rule_triggers L prompt agentType) cs) \<and>
       (trunc' \<and> \<not> trunc \<longrightarrow> taken \<noteq> filter (rule_triggers L prompt agentType) cs))"
  using assms
proof (induction cs arbitrary: rs contents len trunc)
  case (Cons rule cs)
  let ?sep = "if contents \<noteq> [] then 2 else 0 :: int" and ?n = "int (rune_count (trim_space (cr_ContextContent rule)))"
  consider (idle) "\<not> rule_triggers L prompt agentType rule"
    | (full) "rule_triggers L prompt agentType rule" "length rs \<ge> max_matched_rules \<or> len + ?sep + ?n > max_context_content"
    | (take) "rule_triggers L prompt agentType rule" "length rs < max_matched_rules" "len + ?sep + ?n \<le> max_context_content"
    by linarith
  then show ?case
  proof cases
    case idle
    then have "match_loop L prompt agentType cs rs contents len trunc = (rs', contents', len', trunc')"
      using Cons.prems(1) by simp
    note IH = Cons.IH [OF this Cons.prems(2-5)]
    have f: "filter (rule_triggers L prompt agentType) (rule # cs) = filter (rule_triggers L prompt agentType) cs"
      using idle by simp
    show ?thesis unfolding f by (rule IH)
  next
    case full
    then have "match_loop L prompt agentType cs rs contents len True = (rs', contents', len', trunc')"
      using Cons.prems(1) by (simp add: Let_def split: if_splits)
    note IH = Cons.IH [OF this Cons.prems(2-5)]
    then obtain taken where t: "rs' = rs @ taken" "subseq taken (filter (rule_triggers L prompt agentType) cs)" by blast
    have "length taken \<noteq> Suc (length (filter (rule_triggers L prompt agentType) cs))"
      using list_emb_length [OF t(2)] by simp
    then have "taken \<noteq> rule # filter (rule_triggers L prompt agentType) cs" by auto
    moreover have f: "filter (rule_triggers L prompt agentType) (rule # cs) = rule # filter (rule_triggers L prompt agentType) cs"
      using full(1) by simp
    moreover have "subseq taken (rule # filter (rule_triggers L prompt agentType) cs)"
      using t(2) by (rule list_emb_Cons)
    ultimately show ?thesis using IH t(1) unfolding f by blast
  next
    case take
    let ?c = "trim_space (cr_ContextContent rule)"
    have r: "match_loop L prompt agentType cs (rs @ [rule]) (contents @ [?c]) (len + ?sep + ?n) trunc = (rs', contents', len', trunc')"
      using Cons.prems(1) take by (simp add: Let_def split: if_splits)
    have a: "contents @ [?c] = map trimmed_content (rs @ [rule])" using Cons.prems(2) by (simp add: trimmed_content_def)
    have b: "len + ?sep + ?n = joined_runes (contents @ [?c])" using Cons.prems(3) by (simp add: joined_runes_snoc)
    have d: "length (rs @ [rule]) \<le> max_matched_rules" using take(2) by simp
    have IH: "contents' = map trimmed_content rs' \<and> len' = joined_runes contents' \<and> len' \<le> max_context_content \<and>
      length rs' \<le> max_matched_rules \<and> (trunc \<longrightarrow> trunc') \<and>
      (\<exists>taken. rs' = (rs @ [rule]) @ taken \<and> subseq taken (filter (rule_triggers L prompt agentType) cs) \<and>
         (\<not> trunc' \<longrightarrow> taken = filter (rule_triggers L prompt agentType) cs) \<and>
         (trunc' \<and> \<not> trunc \<longrightarrow> taken \<noteq> filter (rule_triggers L prompt agentType) cs))"
      by (rule Cons.IH [OF r a b take(3) d])
    then obtain taken where "rs' = rs @ rule # taken" "subseq taken (filter (rule_triggers L prompt agentType) cs)"
      "\<not> trunc' \<longrightarrow> taken = filter (rule_triggers L prompt agentType) cs"
      "trunc' \<and> \<not> trunc \<longrightarrow> taken \<noteq> filter (rule_triggers L prompt agentType) cs" by auto
    moreover have f: "filter (rule_triggers L prompt agentType) (rule # cs) = rule # filter (rule_triggers L prompt agentType) cs"
      using take(1) by simp
    ultimately have "rs' = rs @ (rule # taken) \<and> subseq (rule # taken) (filter (rule_triggers L prompt agentType) (rule # cs)) \<and>
       (\<not> trunc' \<longrightarrow> rule # taken = filter (rule_triggers L prompt agentType) (rule # cs)) \<and>
       (trunc' \<and> \<not> trunc \<longrightarrow> rule # taken \<noteq> filter (rule_triggers L prompt agentType) (rule # cs))" by simp
    with IH show ?thesis by blast
  qed
qed auto

text \<open>
  The context rules of a prompt are a subsequence of the triggered rules in priority
  order, at most ten with at most 8000 characters of context between them, and the result says
  whether a triggered rule was left out.
\<close>

theorem context_match_selects:
  assumes "trim_space prompt \<noteq> []" and "match_context L prompt agentType rules = res"
  shows "length (mr_Rules res) \<le> 10 \<and> int (rune_count (mr_AdditionalContext res)) \<le> 8000 \<and>
    mr_AdditionalContext res = join (map (\<lambda>r. trim_space (cr_ContextContent r)) (mr_Rules res)) paragraph_break \<and>
    subseq (mr_Rules res)
      (filter (rule_triggers L (trim_space prompt) (trim_space (lower L agentType))) (sort_key rule_order rules)) \<and>
    (mr_Truncated res \<longleftrightarrow> mr_Rules res \<noteq>
      filter (rule_triggers L (trim_space prompt) (trim_space (lower L agentType))) (sort_key rule_order rules))"
proof -
  obtain rs contents len trunc where
    loop: "match_loop L (trim_space prompt) (trim_space (lower L agentType)) (sort_key rule_order rules) [] [] 0 False = (rs, contents, len, trunc)"
    by (metis prod_cases4)
  have res: "res = \<lparr>mr_Rules = rs, mr_AdditionalContext = join contents paragraph_break, mr_Truncated = trunc\<rparr>"
    using assms loop by (simp add: match_context_def Let_def)
  have tc: "trimmed_content = (\<lambda>r. trim_space (cr_ContextContent r))"
    by (rule ext) (simp add: trimmed_content_def)
  from match_loop_selects [OF loop] have "contents = map trimmed_content rs \<and> joined_runes contents \<le> 8000 \<and>
    length rs \<le> 10 \<and> subseq rs (filter (rule_triggers L (trim_space prompt) (trim_space (lower L agentType))) (sort_key rule_order rules)) \<and>
    (trunc \<longleftrightarrow> rs \<noteq> filter (rule_triggers L (trim_space prompt) (trim_space (lower L agentType))) (sort_key rule_order rules))"
    by (auto simp: max_context_content_def max_matched_rules_def)
  then show ?thesis
    unfolding res tc by (elim conjE) (simp add: rune_count_join)
qed

definition some_rule :: "string \<Rightarrow> int \<Rightarrow> string \<Rightarrow> context_rule" where
  "some_rule i prio kw =
     \<lparr>cr_RuleID = i, cr_Name = [], cr_Description = [], cr_Status = ''active'', cr_MatchType = ''keyword_any'',
      cr_Keywords = [kw], cr_Pattern = [], cr_ContextContent = '' use '' @ i, cr_Priority = prio,
      cr_AgentType = ''all'', cr_HitCount = 0\<rparr>"

theorem context_match_selects_witness:
  "\<exists>res. match_context lib0 '' deploy the PR '' ''codex'' [some_rule ''a'' 1 ''deploy'', some_rule ''b'' 2 ''pro'', some_rule ''c'' 3 ''pr''] = res \<and>
     map cr_RuleID (mr_Rules res) = [''c'', ''a''] \<and> length (mr_Rules res) \<le> 10 \<and>
     int (rune_count (mr_AdditionalContext res)) \<le> 8000"
proof -
  let ?res = "match_context lib0 '' deploy the PR '' ''codex'' [some_rule ''a'' 1 ''deploy'', some_rule ''b'' 2 ''pro'', some_rule ''c'' 3 ''pr'']"
  have "trim_space '' deploy the PR '' \<noteq> []" by code_simp
  from context_match_selects [OF this refl] have a: "length (mr_Rules ?res) \<le> 10 \<and> int (rune_count (mr_AdditionalContext ?res)) \<le> 8000"
    by blast
  have b: "map cr_RuleID (mr_Rules ?res) = [''c'', ''a'']" by code_simp
  show ?thesis by (rule exI [of _ ?res]) (intro conjI refl b conjunct1 [OF a] conjunct2 [OF a])
qed

end
