(* ===== verification/Payloads.thy ===== *)
theory Payloads
  imports Model
begin

text \<open>
  The readers of dynamically typed payloads in \<open>pkg/daemon\<close> (\<open>usage_delta.go\<close>,
  \<open>codex.go\<close>): the first usable string or integer among several keys. A payload is a map
  from keys to values; a nested JSON object is an association list.
\<close>

section \<open>Numbers\<close>

text \<open>\<open>strconv.ParseInt (s, 10, 64)\<close> without its error value: \<open>None\<close> is a syntax or range error.\<close>

fun digits_value :: "int \<Rightarrow> string \<Rightarrow> int option" where
  "digits_value acc [] = Some acc"
| "digits_value acc (c # cs) =
     (if byte (CHR ''0'') \<le> byte c \<and> byte c \<le> byte (CHR ''9'')
      then digits_value (10 * acc + int (byte c - byte (CHR ''0''))) cs else None)"

definition parse_integer :: "string \<Rightarrow> int option" where
  "parse_integer s =
     (let neg = has_prefix s ''-''; ds = (if has_prefix s ''-'' \<or> has_prefix s ''+'' then drop 1 s else s)
      in if ds = [] then None
         else map_option (\<lambda>v. if neg then - v else v) (digits_value 0 ds))"

definition parse_int64 :: "string \<Rightarrow> int option" where
  "parse_int64 s = (case parse_integer s of Some x \<Rightarrow> if in_int64 x then Some x else None | None \<Rightarrow> None)"

text \<open>Its value whatever the error: 0 for a syntax error, the nearest bound out of range.\<close>

definition parse_int64_value :: "string \<Rightarrow> int" where
  "parse_int64_value s =
     (case parse_integer s of
        None \<Rightarrow> 0
      | Some x \<Rightarrow> if x < - (2 ^ 63) then - (2 ^ 63) else if x \<ge> 2 ^ 63 then 2 ^ 63 - 1 else x)"

text \<open>
  The conversion of the finite \<open>float64\<close> \<open>m * 2 ^ e\<close> to \<open>int64\<close> drops the fraction; out
  of range it gives the least integer, as on amd64 (the language leaves it open).
\<close>

definition float_to_int64 :: "int \<Rightarrow> int \<Rightarrow> int" where
  "float_to_int64 m e =
     (let x = (if e \<ge> 0 then m * 2 ^ nat e else sgn m * (\<bar>m\<bar> div 2 ^ nat (- e)))
      in if in_int64 x then x else - (2 ^ 63))"

definition as_int64 :: "gval option \<Rightarrow> int option" where
  "as_int64 value =
     (case value of
        Some (GInt n) \<Rightarrow> Some n
      | Some (GInt64 n) \<Rightarrow> Some n
      | Some (GFloat m e) \<Rightarrow> Some (float_to_int64 m e)
      | Some (GNumber s) \<Rightarrow> parse_int64 s
      | _ \<Rightarrow> None)"

text \<open>\<open>strconv.FormatInt (n, 10)\<close>\<close>

fun nat_digits :: "nat \<Rightarrow> string" where
  "nat_digits n = (if n < 10 then [char_of (48 + n)] else nat_digits (n div 10) @ [char_of (48 + n mod 10)])"

declare nat_digits.simps [simp del]

definition string_int :: "int \<Rightarrow> string" where
  "string_int n = (if n < 0 then ''-'' @ nat_digits (nat (- n)) else nat_digits (nat n))"

section \<open>First usable value among keys\<close>

definition value_string :: "gval option \<Rightarrow> string" where
  "value_string value =
     (case value of
        Some (GString s) \<Rightarrow> trim_space s
      | Some (GNumber s) \<Rightarrow> trim_space s
      | _ \<Rightarrow> [])"

fun first_payload_string :: "payload \<Rightarrow> string list \<Rightarrow> string" where
  "first_payload_string p [] = []"
| "first_payload_string p (key # keys) =
     (if value_string (p key) \<noteq> [] then value_string (p key) else first_payload_string p keys)"

fun payload_int_value :: "payload \<Rightarrow> string list \<Rightarrow> int option" where
  "payload_int_value p [] = None"
| "payload_int_value p (key # keys) =
     (case as_int64 (p key) of Some v \<Rightarrow> Some v | None \<Rightarrow> payload_int_value p keys)"

definition payload_int :: "payload \<Rightarrow> string list \<Rightarrow> int" where
  "payload_int p keys = (case payload_int_value p keys of Some v \<Rightarrow> v | None \<Rightarrow> 0)"

definition payload_bool :: "payload \<Rightarrow> string \<Rightarrow> bool" where
  "payload_bool p key \<longleftrightarrow> p key = Some (GBool True)"

definition payload_int64_value :: "payload \<Rightarrow> string \<Rightarrow> int option" where
  "payload_int64_value p key = as_int64 (p key)"

definition copy_payload_string :: "payload \<Rightarrow> string list \<Rightarrow> payload \<Rightarrow> payload" where
  "copy_payload_string src keys dst =
     (case first_some (\<lambda>key. if first_payload_string src [key] \<noteq> []
                             then Some (key, first_payload_string src [key]) else None) keys of
        None \<Rightarrow> dst
      | Some (key, v) \<Rightarrow> dst(key \<mapsto> GString v))"

definition copy_payload_int_as :: "payload \<Rightarrow> string \<Rightarrow> string \<Rightarrow> payload \<Rightarrow> payload" where
  "copy_payload_int_as src from_key to_key dst =
     (case as_int64 (src from_key) of None \<Rightarrow> dst | Some v \<Rightarrow> dst(to_key \<mapsto> GInt64 v))"

text \<open>The untrimmed readers of \<open>codex.go\<close>.\<close>

definition raw_string :: "gval option \<Rightarrow> string" where
  "raw_string value = (case value of Some (GString s) \<Rightarrow> s | _ \<Rightarrow> [])"

fun first_string :: "payload \<Rightarrow> string list \<Rightarrow> string" where
  "first_string p [] = []"
| "first_string p (key # keys) =
     (if raw_string (p key) \<noteq> [] then raw_string (p key) else first_string p keys)"

definition session_id_keys :: "string list" where
  "session_id_keys = [''session_id'', ''session_id_hash'', ''thread_id'', ''conversation_id'']"

definition session_id_from_payload :: "payload \<Rightarrow> string" where
  "session_id_from_payload p = first_payload_string p session_id_keys"

section \<open>Facts\<close>

named_theorems payload_simps \<open>reads of a payload after a write\<close>

lemma first_payload_string_cong [payload_simps]:
  "\<forall>k\<in>set keys. p k = q k \<Longrightarrow> first_payload_string p keys = first_payload_string q keys"
  by (induction keys) auto

lemma payload_int_value_cong:
  "\<forall>k\<in>set keys. p k = q k \<Longrightarrow> payload_int_value p keys = payload_int_value q keys"
  by (induction keys) (auto split: option.split)

lemma in_int64_float_to_int64: "in_int64 (float_to_int64 m e)"
  by (simp add: float_to_int64_def Let_def in_int64_def)

lemma parse_int64_in_range: "parse_int64 s = Some v \<Longrightarrow> in_int64 v"
  by (auto simp: parse_int64_def split: option.splits if_splits)

lemma copy_payload_string_other:
  "k \<notin> set keys \<Longrightarrow> copy_payload_string src keys dst k = dst k"
  by (auto simp: copy_payload_string_def split: option.splits dest!: first_some_SomeD split: if_splits)

lemma copy_payload_string_single:
  "copy_payload_string src [key] dst =
     (if first_payload_string src [key] \<noteq> [] then dst(key \<mapsto> GString (first_payload_string src [key])) else dst)"
  by (simp add: copy_payload_string_def)

lemma trim_first_payload_string: "trim_space (first_payload_string p keys) = first_payload_string p keys"
  by (induction keys) (auto simp: value_string_def trim_space_idem split: option.splits gval.splits)

lemma first_payload_string_GString:
  "p key = Some (GString s) \<Longrightarrow> trim_space s = s \<Longrightarrow> first_payload_string p [key] = s"
  by (simp add: value_string_def)

end
