(* ===== verification/Turn_Usage.thy ===== *)
theory Turn_Usage
  imports Payloads Regex
begin

text \<open>
  \<open>pkg/turn/types.go\<close> and \<open>classifier.go\<close>: token counters of a turn, the usage event of a
  turn, and the classification of a turn by the keywords in its texts.
\<close>

section \<open>Token totals\<close>

record token_totals =
  tt_Input :: int
  tt_Output :: int
  tt_CacheRead :: int
  tt_CacheWrite :: int

definition zero_totals :: token_totals where
  "zero_totals = \<lparr>tt_Input = 0, tt_Output = 0, tt_CacheRead = 0, tt_CacheWrite = 0\<rparr>"

definition non_negative :: "int \<Rightarrow> int" where
  "non_negative v = (if v < 0 then 0 else v)"

definition totals_total :: "token_totals \<Rightarrow> int" where
  "totals_total t =
     add64 (add64 (add64 (non_negative (tt_Input t)) (non_negative (tt_Output t)))
       (non_negative (tt_CacheRead t))) (non_negative (tt_CacheWrite t))"

definition totals_delta :: "token_totals \<Rightarrow> token_totals \<Rightarrow> token_totals" where
  "totals_delta t previous =
     \<lparr>tt_Input = non_negative (sub64 (tt_Input t) (tt_Input previous)),
      tt_Output = non_negative (sub64 (tt_Output t) (tt_Output previous)),
      tt_CacheRead = non_negative (sub64 (tt_CacheRead t) (tt_CacheRead previous)),
      tt_CacheWrite = non_negative (sub64 (tt_CacheWrite t) (tt_CacheWrite previous))\<rparr>"

definition decreased_from :: "token_totals \<Rightarrow> token_totals \<Rightarrow> bool" where
  "decreased_from t previous \<longleftrightarrow>
     tt_Input t < tt_Input previous \<or> tt_Output t < tt_Output previous \<or>
     tt_CacheRead t < tt_CacheRead previous \<or> tt_CacheWrite t < tt_CacheWrite previous"

section \<open>The usage of a turn\<close>

definition turn_event_type :: string where "turn_event_type = ''turn.usage''"
definition classifier_version :: string where "classifier_version = ''turn-v1''"
definition total_encoding_effective :: string where "total_encoding_effective = ''effective''"

record turn_usage =
  tu_EventID :: string
  tu_SessionIDHash :: string
  tu_TurnIDHash :: string
  tu_Status :: string
  tu_Title :: string
  tu_StartedAt :: time
  tu_EndedAt :: time
  tu_Model :: string
  tu_Repo :: string
  tu_ModelProvider :: string
  tu_Tokens :: token_totals
  tu_WorkType :: string
  tu_TotalEncoding :: string

definition put_nonempty :: "string \<Rightarrow> string \<Rightarrow> payload \<Rightarrow> payload" where
  "put_nonempty k v p = (if v \<noteq> [] then p(k \<mapsto> GString v) else p)"

definition turn_usage_payload :: "go_lib \<Rightarrow> turn_usage \<Rightarrow> payload" where
  "turn_usage_payload L u =
     (let tot = (if tu_TotalEncoding u = total_encoding_effective
                 then add64 (non_negative (tt_Input (tu_Tokens u))) (non_negative (tt_Output (tu_Tokens u)))
                 else totals_total (tu_Tokens u));
          p = map_of
            [(''session_id_hash'', GString (tu_SessionIDHash u)),
             (''turn_id_hash'', GString (tu_TurnIDHash u)),
             (''status'', GString (tu_Status u)),
             (''started_at'', GString (format_rfc3339 L (tu_StartedAt u))),
             (''ended_at'', GString (format_rfc3339 L (tu_EndedAt u))),
             (''total_tokens'', GInt64 tot),
             (''input_tokens'', GInt64 (tt_Input (tu_Tokens u))),
             (''output_tokens'', GInt64 (tt_Output (tu_Tokens u))),
             (''cache_read_tokens'', GInt64 (tt_CacheRead (tu_Tokens u))),
             (''cache_write_tokens'', GInt64 (tt_CacheWrite (tu_Tokens u))),
             (''work_type'', GString (tu_WorkType u)),
             (''work_type_classifier_version'', GString classifier_version)]
      in put_nonempty ''model_provider'' (tu_ModelProvider u)
           (put_nonempty ''repo'' (tu_Repo u)
             (put_nonempty ''title'' (tu_Title u)
               (put_nonempty ''model'' (tu_Model u) p))))"

definition stable_event_id :: "go_lib \<Rightarrow> string \<Rightarrow> string \<Rightarrow> string \<Rightarrow> string" where
  "stable_event_id L daemonID sessionIDHash turnIDHash =
     ''evt_'' @ hash_string L (join [turn_event_type, daemonID, sessionIDHash, turnIDHash] [CHR 0x00])"

section \<open>Classification\<close>

type_synonym scores = "string \<Rightarrow> int"

definition keyword_rules :: "(string \<times> string list) list" where
  "keyword_rules =
    [(''SRE'',
      [''sre'', ''incident'', ''production'', ''prod'', ''deploy'', ''deployment'', ''release'', 
       ''rollback'', ''server'', ''infra'', ''kubernetes'', ''k8s'', ''kubectl'', ''helm'', ''docker'', 
       ''terraform'', ''ansible'', ''aws'', ''gcp'', ''azure'', ''ec2'', ''ecr'', ''eks'', ''gke'', 
       [CHR 0xE9, CHR 0x83, CHR 0xA8, CHR 0xE7, CHR 0xBD, CHR 0xB2], 
       [CHR 0xE5, CHR 0x8F, CHR 0x91, CHR 0xE5, CHR 0xB8, CHR 0x83], 
       [CHR 0xE5, CHR 0x9B, CHR 0x9E, CHR 0xE6, CHR 0xBB, CHR 0x9A], 
       [CHR 0xE7, CHR 0x9B, CHR 0x91, CHR 0xE6, CHR 0x8E, CHR 0xA7], 
       [CHR 0xE9, CHR 0x9B, CHR 0x86, CHR 0xE7, CHR 0xBE, CHR 0xA4], 
       [CHR 0xE8, CHR 0xBF, CHR 0x90, CHR 0xE7, CHR 0xBB, CHR 0xB4], 
       [CHR 0xE6, CHR 0x95, CHR 0x85, CHR 0xE9, CHR 0x9A, CHR 0x9C], 
       [CHR 0xE7, CHR 0xBA, CHR 0xBF, CHR 0xE4, CHR 0xB8, CHR 0x8A]]),
     (''Coding'',
      [''coding'', ''code'', ''implement'', ''implementation'', ''fix'', ''bug'', ''refactor'', ''test'', 
       ''build'', ''compile'', ''pull request'', ''github'', ''git'', ''repo'', ''branch'', ''commit'', 
       ''apply_patch'', [CHR 0xE4, CHR 0xBB, CHR 0xA3, CHR 0xE7, CHR 0xA0, CHR 0x81], 
       [CHR 0xE4, CHR 0xBF, CHR 0xAE, CHR 0xE5, CHR 0xA4, CHR 0x8D], 
       [CHR 0xE5, CHR 0xAE, CHR 0x9E, CHR 0xE7, CHR 0x8E, CHR 0xB0], 
       [CHR 0xE9, CHR 0x87, CHR 0x8D, CHR 0xE6, CHR 0x9E, CHR 0x84], 
       [CHR 0xE6, CHR 0x9E, CHR 0x84, CHR 0xE5, CHR 0xBB, CHR 0xBA], 
       [CHR 0xE6, CHR 0xB5, CHR 0x8B, CHR 0xE8, CHR 0xAF, CHR 0x95], 
       [CHR 0xE4, CHR 0xBB, CHR 0x93, CHR 0xE5, CHR 0xBA, CHR 0x93], 
       [CHR 0xE6, CHR 0x8F, CHR 0x90, CHR 0xE4, CHR 0xBA, CHR 0xA4]]),
     (''Docs'',
      [''docs'', ''documentation'', ''readme'', ''notion'', ''runbook'', ''spec'', ''release notes'', 
       ''markdown'', ''.md'', ''.docx'', [CHR 0xE6, CHR 0x96, CHR 0x87, CHR 0xE6, CHR 0xA1, CHR 0xA3], 
       [CHR 0xE8, CHR 0xAF, CHR 0xB4, CHR 0xE6, CHR 0x98, CHR 0x8E], 
       [CHR 0xE7, CHR 0xAC, CHR 0x94, CHR 0xE8, CHR 0xAE, CHR 0xB0], 
       [CHR 0xE6, CHR 0x95, CHR 0xB4, CHR 0xE7, CHR 0x90, CHR 0x86]]),
     (''Research'',
      [''research'', ''search'', ''lookup'', ''look up'', ''web'', ''browse'', ''investigate'', 
       ''compare'', [CHR 0xE8, CHR 0xB0, CHR 0x83, CHR 0xE7, CHR 0xA0, CHR 0x94], 
       [CHR 0xE6, CHR 0x90, CHR 0x9C, CHR 0xE7, CHR 0xB4, CHR 0xA2], 
       [CHR 0xE6, CHR 0x9F, CHR 0xA5, CHR 0xE6, CHR 0x89, CHR 0xBE], 
       [CHR 0xE7, CHR 0xA0, CHR 0x94, CHR 0xE7, CHR 0xA9, CHR 0xB6], 
       [CHR 0xE8, CHR 0xB5, CHR 0x84, CHR 0xE6, CHR 0x96, CHR 0x99], 
       [CHR 0xE5, CHR 0xAF, CHR 0xB9, CHR 0xE6, CHR 0xAF, CHR 0x94]]),
     (''Visuals'',
      [''visual'', ''image'', ''imagegen'', ''image_gen'', ''design'', ''screenshot'', ''figma'', ''svg'', 
       ''diagram'', [CHR 0xE5, CHR 0x9B, CHR 0xBE, CHR 0xE7, CHR 0x89, CHR 0x87], 
       [CHR 0xE6, CHR 0x88, CHR 0xAA, CHR 0xE5, CHR 0x9B, CHR 0xBE], 
       [CHR 0xE8, CHR 0xAE, CHR 0xBE, CHR 0xE8, CHR 0xAE, CHR 0xA1], 
       [CHR 0xE7, CHR 0x94, CHR 0x9F, CHR 0xE6, CHR 0x88, CHR 0x90, CHR 0xE5, CHR 0x9B, CHR 0xBE]])]"

definition is_ascii :: "string \<Rightarrow> bool" where
  "is_ascii v \<longleftrightarrow> list_all (\<lambda>c. \<not> byte c > 127) v"

definition boundary :: "char \<Rightarrow> bool" where
  "boundary c \<longleftrightarrow>
     \<not> ((byte (CHR ''a'') \<le> byte c \<and> byte c \<le> byte (CHR ''z'')) \<or> (byte (CHR ''0'') \<le> byte c \<and> byte c \<le> byte (CHR ''9'')))"

function keyword_from :: "string \<Rightarrow> string \<Rightarrow> nat \<Rightarrow> bool" where
  "keyword_from text keyword start =
     (if keyword = [] \<or> start > length text then False
      else case index_of (drop start text) keyword of
             None \<Rightarrow> False
           | Some i \<Rightarrow>
               (let index = start + i; after = index + length keyword in
                if (index = 0 \<or> boundary (text ! (index - 1))) \<and> (after = length text \<or> boundary (text ! after))
                then True else keyword_from text keyword after))"
  by pat_completeness auto
termination
proof (relation "measure (\<lambda>(t, k, start). Suc (length t) - start)")
  fix t keyword :: string and start i index after :: nat
  assume g: "\<not> (keyword = [] \<or> length t < start)" and "index = start + i" "after = index + length keyword"
  moreover from g have "0 < length keyword" and "\<not> length t < start" by simp_all
  ultimately have "Suc (length t) - after < Suc (length t) - start" by linarith
  then show "((t, keyword, after), (t, keyword, start)) \<in> measure (\<lambda>(t, k, start). Suc (length t) - start)"
    by simp
qed simp

declare keyword_from.simps [simp del]

definition keyword_match :: "go_lib \<Rightarrow> string \<Rightarrow> string \<Rightarrow> bool" where
  "keyword_match L text keyword0 =
     (let keyword = lower L (trim_space keyword0) in
      if keyword = [] then False
      else if contains_any keyword '' -_./'' \<or> \<not> is_ascii keyword then contains text keyword
      else keyword_from text keyword 0)"

definition score_text :: "go_lib \<Rightarrow> string \<Rightarrow> int \<Rightarrow> scores \<Rightarrow> scores" where
  "score_text L v weight scores =
     (let text = lower L (trim_space v) in
      if text = [] \<or> weight \<le> 0 then scores
      else foldl (\<lambda>sc (label, keywords).
             foldl (\<lambda>sc keyword. if keyword_match L text keyword then sc(label := add64 (sc label) weight) else sc)
               sc keywords) scores keyword_rules)"

definition labels :: "string list" where
  "labels = [''SRE'', ''Coding'', ''Docs'', ''Research'', ''Visuals'']"

definition classify_step :: "scores \<Rightarrow> string \<times> int \<times> int \<Rightarrow> string \<Rightarrow> string \<times> int \<times> int" where
  "classify_step scores = (\<lambda>(bestLabel, bestScore, secondScore) label.
     if scores label > bestScore then (label, scores label, bestScore)
     else if scores label > secondScore then (bestLabel, bestScore, scores label)
     else (bestLabel, bestScore, secondScore))"

definition classify :: "scores \<Rightarrow> string" where
  "classify scores =
     (let (bestLabel, bestScore, secondScore) = foldl (classify_step scores) ([], 0, 0) labels
      in if bestScore < 5 \<or> bestScore - secondScore < 2 then ''Other'' else bestLabel)"

record evidence =
  evi_Text :: string
  evi_Weight :: int

definition classify_evidence :: "go_lib \<Rightarrow> evidence list \<Rightarrow> string" where
  "classify_evidence L items =
     classify (foldl (\<lambda>sc item. score_text L (evi_Text item) (evi_Weight item) sc) (\<lambda>_. 0) items)"

section \<open>Facts\<close>

lemma totals_delta_exact:
  assumes "0 \<le> tt_Input b" "tt_Input b \<le> tt_Input t" "tt_Input t < 2 ^ 63"
  shows "tt_Input (totals_delta t b) = tt_Input t - tt_Input b"
  using assms by (simp add: totals_delta_def non_negative_def sub64_nonneg_exact)

lemma totals_delta_nonneg:
  "0 \<le> tt_Input (totals_delta t b)" "0 \<le> tt_Output (totals_delta t b)"
  "0 \<le> tt_CacheRead (totals_delta t b)" "0 \<le> tt_CacheWrite (totals_delta t b)"
  by (simp_all add: totals_delta_def non_negative_def)

lemma classify_fold:
  assumes "foldl (classify_step scores) (bl, b, s) ls = (bl', b', s')" and "s \<le> b"
  shows "s' \<le> b' \<and> b \<le> b' \<and> s \<le> s' \<and> (b' = b \<and> bl' = bl \<or> bl' \<in> set ls \<and> scores bl' = b' \<and> b < b') \<and>
    (b' = b \<longrightarrow> (\<forall>l\<in>set ls. scores l \<le> s' \<or> scores l \<le> s)) \<and>
    (\<forall>l\<in>set ls. scores l \<le> b')"
  using assms
proof (induction ls arbitrary: bl b s)
  case (Cons l ls)
  show ?case
    using Cons.prems Cons.IH
    by (simp add: classify_step_def split: if_splits) fastforce+
qed simp

section \<open>What the classifier decides\<close>

text \<open>A letter or digit of a keyword; anything else delimits words.\<close>

definition keyword_char :: "char \<Rightarrow> bool" where
  "keyword_char c \<longleftrightarrow> \<not> boundary c"

definition word_at :: "string \<Rightarrow> string \<Rightarrow> nat \<Rightarrow> bool" where
  "word_at t k i \<longleftrightarrow>
     i + length k \<le> length t \<and> take (length k) (drop i t) = k \<and>
     (i = 0 \<or> boundary (t ! (i - 1))) \<and> (i + length k = length t \<or> boundary (t ! (i + length k)))"

lemma word_at_apart:
  assumes "word_at t k j" and "i < j" and "take (length k) (drop i t) = k" and "i + length k \<le> length t"
    and "list_all keyword_char k"
  shows "i + length k \<le> j"
proof (rule ccontr)
  assume "\<not> i + length k \<le> j"
  then have "j - 1 - i < length k" and "j - 1 = i + (j - 1 - i)" using assms(2) by auto
  then have "t ! (j - 1) = take (length k) (drop i t) ! (j - 1 - i)" using assms(4) by (simp add: nth_take)
  then have "t ! (j - 1) = k ! (j - 1 - i)" using assms(3) by simp
  moreover have "\<not> boundary (k ! (j - 1 - i))"
    using assms(5) \<open>j - 1 - i < length k\<close> by (simp add: list_all_length keyword_char_def)
  ultimately show False using assms(1,2) by (simp add: word_at_def)
qed

lemma keyword_from_iff:
  assumes "k \<noteq> []" and "list_all keyword_char k" and "start \<le> length t"
  shows "keyword_from t k start \<longleftrightarrow> (\<exists>i\<ge>start. word_at t k i)"
  using assms
proof (induction t k start rule: keyword_from.induct)
  case (1 t k start)
  show ?case
  proof (cases "index_of (drop start t) k")
    case None
    have "\<not> word_at t k i" if "start \<le> i" for i
      using index_of_NoneD [OF None, of "i - start"] that 1(4) by (auto simp: word_at_def)
    with None 1(2,4) show ?thesis by (subst keyword_from.simps) auto
  next
    case (Some d)
    let ?i = "start + d"
    from index_of_SomeD [OF Some] 1(4) have occ: "?i + length k \<le> length t" "take (length k) (drop ?i t) = k"
      by (auto simp: add.commute)
    have least: "\<not> word_at t k j" if "start \<le> j" "j < ?i" for j
    proof
      assume "word_at t k j"
      moreover have "j - start < d" and "j = start + (j - start)" using that by simp_all
      ultimately show False
        using index_of_least [OF Some \<open>j - start < d\<close>] by (auto simp: word_at_def add.commute)
    qed
    let ?ok = "(?i = 0 \<or> boundary (t ! (?i - 1))) \<and> (?i + length k = length t \<or> boundary (t ! (?i + length k)))"
    have unfold: "keyword_from t k start = (if ?ok then True else keyword_from t k (?i + length k))"
      using Some 1(2,4) by (subst keyword_from.simps) (simp add: Let_def)
    show ?thesis
    proof (cases ?ok)
      case True
      then have "word_at t k ?i" using occ by (simp add: word_at_def)
      with True unfold show ?thesis by (metis le_add1)
    next
      case False
      have IH: "keyword_from t k (?i + length k) \<longleftrightarrow> (\<exists>j\<ge>?i + length k. word_at t k j)"
        by (rule 1(1) [OF _ Some refl refl]) (use False 1(2-4) occ in auto)
      have "start \<le> j \<and> word_at t k j \<longleftrightarrow> ?i + length k \<le> j \<and> word_at t k j" for j
      proof
        assume j: "start \<le> j \<and> word_at t k j"
        then have "?i \<le> j" using least by (meson not_le)
        moreover have "j \<noteq> ?i" using j False by (auto simp: word_at_def)
        ultimately show "?i + length k \<le> j \<and> word_at t k j"
          using j word_at_apart [of t k j ?i] occ 1(3) by simp
      qed auto
      with unfold False IH show ?thesis by auto
    qed
  qed
qed

text \<open>
  A keyword made of letters and digits matches a text exactly when it
  occurs in it as a whole word, wherever and however often it occurs inside longer words.
\<close>

theorem keyword_match_finds_words:
  assumes "keyword \<noteq> []" and "list_all keyword_char keyword"
  shows "keyword_match L t keyword \<longleftrightarrow> (\<exists>i. word_at t keyword i)"
proof -
  have ascii: "list_all ascii_char keyword" "is_ascii keyword"
    using assms(2) by (auto simp: list_all_iff keyword_char_def boundary_def ascii_char_def is_ascii_def byte_def)
  have "map ascii_lower keyword = keyword"
    using assms(2) by (intro map_idI) (auto simp: list_all_iff keyword_char_def boundary_def ascii_lower_def byte_def)
  then have low: "lower L keyword = keyword" using ascii(1) by (simp add: to_lower_def)
  have "word_char c" if "keyword_char c" for c
    using that by (auto simp: keyword_char_def boundary_def word_char_def ascii_char_def byte_def)
  then have trim: "trim_space keyword = keyword"
    using assms by (intro trim_space_word) (auto simp: list_all_iff)
  have "\<not> contains_any keyword '' -_./''"
    using assms(2) by (auto simp: contains_any_def list_all_iff list_ex_iff keyword_char_def boundary_def byte_def)
  then show ?thesis
    using assms(1) ascii(2) keyword_from_iff [OF assms, of 0 t] by (simp add: keyword_match_def Let_def low trim)
qed

theorem keyword_match_finds_words_witness:
  "keyword_match lib0 ''the digit git x'' ''git'' = (\<exists>i. word_at ''the digit git x'' ''git'' i) \<and>
   keyword_match lib0 ''the digit git x'' ''git''"
proof
  have "''git'' \<noteq> []" "list_all keyword_char ''git''" by code_simp+
  then show "keyword_match lib0 ''the digit git x'' ''git'' = (\<exists>i. word_at ''the digit git x'' ''git'' i)"
    by (rule keyword_match_finds_words)
  show "keyword_match lib0 ''the digit git x'' ''git''" by code_simp
qed

lemma classify_scan:
  assumes "distinct ls" and "[] \<notin> set ls" and "foldl (classify_step sc) ([], 0, 0) ls = (bl, b, s)"
  shows "0 \<le> s \<and> s \<le> b \<and> (\<forall>l\<in>set ls. l \<noteq> bl \<longrightarrow> sc l \<le> s) \<and>
    (bl \<in> set ls \<and> sc bl = b \<and> 0 < b \<or> bl = [] \<and> b = 0) \<and>
    (s = 0 \<or> (\<exists>l\<in>set ls. l \<noteq> bl \<and> sc l = s))"
  using assms
proof (induction ls arbitrary: bl b s rule: rev_induct)
  case (snoc l ls)
  obtain bl0 b0 s0 where r: "foldl (classify_step sc) ([], 0, 0) ls = (bl0, b0, s0)" by (metis prod_cases3)
  from snoc.IH [OF _ _ r] snoc.prems(1,2) have IH:
    "0 \<le> s0" "s0 \<le> b0" "\<forall>l\<in>set ls. l \<noteq> bl0 \<longrightarrow> sc l \<le> s0"
    "bl0 \<in> set ls \<and> sc bl0 = b0 \<and> 0 < b0 \<or> bl0 = [] \<and> b0 = 0"
    "s0 = 0 \<or> (\<exists>l\<in>set ls. l \<noteq> bl0 \<and> sc l = s0)" "l \<notin> set ls" "l \<noteq> []" "[] \<notin> set ls" by auto
  have step: "classify_step sc (bl0, b0, s0) l = (bl, b, s)" using snoc.prems(3) r by simp
  consider (best) "sc l > b0" "bl = l" "b = sc l" "s = b0"
    | (second) "\<not> sc l > b0" "sc l > s0" "bl = bl0" "b = b0" "s = sc l"
    | (low) "\<not> sc l > s0" "bl = bl0" "b = b0" "s = s0"
    using step IH(2) by (auto simp: classify_step_def split: if_splits)
  then show ?case
  proof cases
    case best
    have "sc l' \<le> b0" if "l' \<in> set ls" for l'
      using IH(2,3,4,8) that by (cases "l' = bl0") auto
    then show ?thesis using best IH by auto
  next
    case second
    then show ?thesis using IH by fastforce
  next
    case low
    then show ?thesis using IH by fastforce
  qed
qed simp

lemma labels_ok: "distinct labels" "[] \<notin> set labels" "''Other'' \<notin> set labels"
  by (simp_all add: labels_def)

text \<open>
  A turn is classified by a label exactly when that label scores at least five and
  beats every other label by two; otherwise it is classified as Other.
\<close>

theorem classify_decides:
  "(classify sc = ''Other'' \<or> classify sc \<in> set labels) \<and>
   (\<forall>l\<in>set labels. classify sc = l \<longleftrightarrow> 5 \<le> sc l \<and> (\<forall>l'\<in>set labels. l' \<noteq> l \<longrightarrow> sc l' + 2 \<le> sc l))"
proof -
  obtain bl b s where r: "foldl (classify_step sc) ([], 0, 0) labels = (bl, b, s)" by (metis prod_cases3)
  then have c: "classify sc = (if b < 5 \<or> b - s < 2 then ''Other'' else bl)" by (simp add: classify_def)
  note scan = classify_scan [OF labels_ok(1,2) r]
  have "classify sc = l \<longleftrightarrow> 5 \<le> sc l \<and> (\<forall>l'\<in>set labels. l' \<noteq> l \<longrightarrow> sc l' + 2 \<le> sc l)" (is "_ \<longleftrightarrow> ?win l")
    if l: "l \<in> set labels" for l
  proof
    assume "classify sc = l"
    then have "\<not> (b < 5 \<or> b - s < 2)" "bl = l" using c l labels_ok(3) by (auto split: if_splits)
    then show "?win l" using scan by fastforce
  next
    assume w: "?win l"
    have "l = bl"
    proof (rule ccontr)
      assume n: "l \<noteq> bl"
      then have "sc l \<le> s" using scan l by blast
      with w scan n have "bl \<in> set labels" "sc bl = b" by auto
      with w n \<open>sc l \<le> s\<close> scan show False by fastforce
    qed
    moreover have "sc bl = b" using scan calculation l labels_ok(2) by auto
    moreover have "\<not> b < 5" using w calculation by simp
    moreover have "s + 2 \<le> b"
    proof (cases "s = 0")
      case True
      with \<open>\<not> b < 5\<close> show ?thesis by simp
    next
      case False
      then obtain l' where "l' \<in> set labels" "l' \<noteq> bl" "sc l' = s" using scan by blast
      with w \<open>l = bl\<close> \<open>sc bl = b\<close> show ?thesis by auto
    qed
    ultimately show "classify sc = l" using c by simp
  qed
  moreover have "classify sc = ''Other'' \<or> classify sc \<in> set labels" using c scan by (auto split: if_splits)
  ultimately show ?thesis by blast
qed

theorem classify_decides_witness:
  "classify ((\<lambda>_. 0)(''Docs'' := 7, ''SRE'' := 5)) = ''Docs'' \<and>
   classify ((\<lambda>_. 0)(''Docs'' := 7, ''SRE'' := 6)) = ''Other''"
proof
  show "classify ((\<lambda>_. 0)(''Docs'' := 7, ''SRE'' := 5)) = ''Docs''"
    using classify_decides [of "(\<lambda>_. 0)(''Docs'' := 7, ''SRE'' := 5)"] by (auto simp: labels_def)
  show "classify ((\<lambda>_. 0)(''Docs'' := 7, ''SRE'' := 6)) = ''Other''"
    using classify_decides [of "(\<lambda>_. 0)(''Docs'' := 7, ''SRE'' := 6)"] by (auto simp: labels_def)
qed

end
