(* ===== verification/Turn_Codex.thy ===== *)
theory Turn_Codex
  imports Turn_Usage
begin

text \<open>
  \<open>pkg/turn/codex_parser.go\<close>, \<open>codex.go\<close> and \<open>cursor.go\<close>: the state machine that turns the
  records of a Codex rollout into one usage per finished turn, the resumable scan of the
  rollout file, and the collection over all sessions. A file is the string of its bytes;
  the files of a collection are a map from paths, and decoding a line of JSON is an argument.
\<close>

section \<open>Reading JSON objects\<close>

definition map_value :: "gval option \<Rightarrow> (string \<times> gval) list" where
  "map_value value = (case value of Some (GMap m) \<Rightarrow> m | _ \<Rightarrow> [])"

fun string_value :: "payload \<Rightarrow> string list \<Rightarrow> string" where
  "string_value p [] = []"
| "string_value p (key # keys) =
     (if trim_space (raw_string (p key)) \<noteq> [] then trim_space (raw_string (p key))
      else string_value p keys)"

fun int_value :: "payload \<Rightarrow> string list \<Rightarrow> int" where
  "int_value p [] = 0"
| "int_value p (key # keys) =
     (case p key of
        Some (GFloat m e) \<Rightarrow> float_to_int64 m e
      | Some (GInt64 n) \<Rightarrow> n
      | Some (GInt n) \<Rightarrow> n
      | Some (GNumber s) \<Rightarrow> parse_int64_value s
      | _ \<Rightarrow> int_value p keys)"

declare string_value.simps [simp del] int_value.simps [simp del]

definition parse_time :: "go_lib \<Rightarrow> string \<Rightarrow> time \<Rightarrow> time" where
  "parse_time L v fallback =
     (case parse_rfc3339 L (trim_space v) of None \<Rightarrow> fallback | Some t \<Rightarrow> t)"

definition content_part :: "gval \<Rightarrow> string" where
  "content_part item =
     (let object = map_value (Some item) in
      if object = [] then [] else string_value (map_of object) [''text'', ''content'', ''message'', ''input''])"

definition content_text :: "gval option \<Rightarrow> string" where
  "content_text value =
     (case value of
        Some (GString s) \<Rightarrow> s
      | Some (GList items) \<Rightarrow> join (filter (\<lambda>t. t \<noteq> []) (map content_part items)) [CHR 0x0A]
      | _ \<Rightarrow> [])"

text \<open>A missing key reads as the nil interface.\<close>

definition local_text :: "go_lib \<Rightarrow> gval option \<Rightarrow> string" where
  "local_text L value =
     (case value of
        Some (GString s) \<Rightarrow> s
      | v \<Rightarrow> (case json_value L (case v of Some x \<Rightarrow> x | None \<Rightarrow> GNil) of Some t \<Rightarrow> t | None \<Rightarrow> []))"

section \<open>The state of a rollout\<close>

record codex_record =
  cr_Timestamp :: string
  cr_Type :: string
  cr_Payload :: "payload option"

record active_turn =
  at_TurnIDHash :: string
  at_StartedAt :: time
  at_Baseline :: token_totals
  at_Latest :: token_totals
  at_Scores :: scores
  at_Inherited :: bool
  at_CounterReset :: bool
  at_ResetPrevious :: token_totals
  at_ResetCurrent :: token_totals

record turn_cursor =
  tc_RolloutPathHash :: string
  tc_Offset :: int
  tc_Model :: string
  tc_LastTokens :: token_totals
  tc_AwaitingBaseline :: bool
  tc_Active :: "active_turn option"

definition new_turn_cursor :: "string \<Rightarrow> int \<Rightarrow> bool \<Rightarrow> turn_cursor" where
  "new_turn_cursor pathHash offset awaiting =
     \<lparr>tc_RolloutPathHash = pathHash, tc_Offset = offset, tc_Model = [], tc_LastTokens = zero_totals,
      tc_AwaitingBaseline = awaiting, tc_Active = None\<rparr>"

record codex_session =
  cs_SessionID :: string
  cs_LegacySessionID :: string
  cs_ParentSessionID :: string
  cs_RolloutPath :: string
  cs_Title :: string
  cs_Model :: string
  cs_Repo :: string
  cs_ModelProvider :: string
  cs_InheritedTurnIDHashes :: "string list"
  cs_TotalEncoding :: string

record counter_reset =
  cn_SessionIDHash :: string
  cn_TurnIDHash :: string
  cn_Previous :: token_totals
  cn_Current :: token_totals

text \<open>What a record makes known: nothing, a turn, or a call of the callback \<open>OnCounterReset\<close>.\<close>

datatype codex_output = Quiet | Turn turn_usage | Counter_Reset counter_reset

section \<open>Processing a record\<close>

definition start_codex_turn :: "go_lib \<Rightarrow> string \<Rightarrow> time \<Rightarrow> string list \<Rightarrow> turn_cursor \<Rightarrow> turn_cursor" where
  "start_codex_turn L turnID startedAt inherited cur =
     (let turnIDHash = hash_string L turnID in
      if turnID = [] \<or> (case tc_Active cur of Some a \<Rightarrow> at_TurnIDHash a = turnIDHash | None \<Rightarrow> False) then cur
      else cur\<lparr>tc_Active := Some
             \<lparr>at_TurnIDHash = turnIDHash, at_StartedAt = startedAt, at_Baseline = tc_LastTokens cur,
              at_Latest = tc_LastTokens cur, at_Scores = (\<lambda>_. 0), at_Inherited = (turnIDHash \<in> set inherited),
              at_CounterReset = False, at_ResetPrevious = zero_totals, at_ResetCurrent = zero_totals\<rparr>\<rparr>)"

definition codex_token_totals :: "payload \<Rightarrow> token_totals option" where
  "codex_token_totals p =
     (let info = map_of (map_value (p ''info'')); usage = map_value (info ''total_token_usage'');
          tot = map_of usage; inp = int_value tot [''input_tokens''];
          cacheRead = int_value tot [''cached_input_tokens'', ''cache_read_tokens'']
      in if usage = [] then None
         else Some \<lparr>tt_Input = non_negative (sub64 inp cacheRead),
                    tt_Output = int_value tot [''output_tokens''],
                    tt_CacheRead = cacheRead,
                    tt_CacheWrite = int_value tot [''cache_write_input_tokens'', ''cache_write_tokens'']\<rparr>)"

definition set_totals :: "token_totals \<Rightarrow> turn_cursor \<Rightarrow> turn_cursor" where
  "set_totals tot cur =
     (if tc_AwaitingBaseline cur
      then cur\<lparr>tc_LastTokens := tot, tc_AwaitingBaseline := False,
               tc_Active := map_option (\<lambda>a. a\<lparr>at_Baseline := tot, at_Latest := tot\<rparr>) (tc_Active cur)\<rparr>
      else let reset = (\<lambda>a. if decreased_from tot (tc_LastTokens cur)
                            then a\<lparr>at_CounterReset := True, at_ResetPrevious := tc_LastTokens cur,
                                   at_ResetCurrent := tot\<rparr> else a)
           in cur\<lparr>tc_LastTokens := tot,
                  tc_Active := map_option (\<lambda>a. (reset a)\<lparr>at_Latest := tot\<rparr>) (tc_Active cur)\<rparr>)"

definition update_codex_token_totals :: "payload \<Rightarrow> turn_cursor \<Rightarrow> turn_cursor" where
  "update_codex_token_totals p cur =
     (case codex_token_totals p of None \<Rightarrow> cur | Some tot \<Rightarrow> set_totals tot cur)"

definition first_codex_model :: "string list \<Rightarrow> string" where
  "first_codex_model vs = (case find (\<lambda>v. v \<noteq> []) (map trim_space vs) of Some v \<Rightarrow> v | None \<Rightarrow> [])"

text \<open>The turn that a finished active turn reports.\<close>

definition turn_of :: "go_lib \<Rightarrow> codex_session \<Rightarrow> string \<Rightarrow> turn_cursor \<Rightarrow> active_turn \<Rightarrow> string \<Rightarrow> time \<Rightarrow> turn_usage" where
  "turn_of L session daemonID cur active payloadType endedAt =
     \<lparr>tu_EventID = stable_event_id L daemonID (cs_SessionID session) (at_TurnIDHash active),
      tu_SessionIDHash = cs_SessionID session,
      tu_TurnIDHash = at_TurnIDHash active,
      tu_Status = (if payloadType = ''turn_aborted'' then ''aborted'' else ''completed''),
      tu_Title = cs_Title session,
      tu_StartedAt = at_StartedAt active,
      tu_EndedAt = endedAt,
      tu_Model = first_codex_model [tc_Model cur, cs_Model session],
      tu_Repo = cs_Repo session,
      tu_ModelProvider = cs_ModelProvider session,
      tu_Tokens = totals_delta (at_Latest active) (at_Baseline active),
      tu_WorkType = classify (at_Scores active),
      tu_TotalEncoding = cs_TotalEncoding session\<rparr>"

definition reset_of :: "codex_session \<Rightarrow> active_turn \<Rightarrow> counter_reset" where
  "reset_of session active =
     \<lparr>cn_SessionIDHash = cs_SessionID session, cn_TurnIDHash = at_TurnIDHash active,
      cn_Previous = (if at_CounterReset active then at_ResetPrevious active else at_Baseline active),
      cn_Current = (if at_CounterReset active then at_ResetCurrent active else at_Latest active)\<rparr>"

definition complete_codex_turn ::
  "go_lib \<Rightarrow> codex_session \<Rightarrow> string \<Rightarrow> turn_cursor \<Rightarrow> payload \<Rightarrow> string \<Rightarrow> time \<Rightarrow> bool \<Rightarrow> turn_cursor \<times> codex_output" where
  "complete_codex_turn L session daemonID cur p payloadType endedAt emit =
     (case tc_Active cur of
        None \<Rightarrow> (cur, Quiet)
      | Some active \<Rightarrow>
          let turnID = string_value p [''turn_id'']; cur1 = cur\<lparr>tc_Active := None\<rparr> in
          if turnID \<noteq> [] \<and> hash_string L turnID \<noteq> at_TurnIDHash active then (cur, Quiet)
          else if at_Inherited active then (cur1, Quiet)
          else if at_CounterReset active \<or> decreased_from (at_Latest active) (at_Baseline active)
          then (cur1, Counter_Reset (reset_of session active))
          else if \<not> emit \<or> totals_total (totals_delta (at_Latest active) (at_Baseline active)) \<le> 0
          then (cur1, Quiet)
          else (cur1, Turn (turn_of L session daemonID cur active payloadType endedAt)))"

definition tool_payload_types :: "string list" where
  "tool_payload_types = [''function_call'', ''tool_call'', ''custom_tool_call'', ''mcp_tool_call_end'']"

definition score_tool_call :: "go_lib \<Rightarrow> payload \<Rightarrow> scores \<Rightarrow> scores" where
  "score_tool_call L p scores =
     (let name = string_value p [''name'', ''tool_name'']; invocation = map_value (p ''invocation'');
          iv = map_of invocation;
          name1 = (if invocation \<noteq> []
                   then join [name, string_value iv [''server''], string_value iv [''tool'']] '' '' else name);
          scores1 = (if invocation \<noteq> [] then score_text L (local_text L (iv ''arguments'')) 7 scores else scores)
      in score_text L (local_text L (p ''input'')) 7
           (score_text L (local_text L (p ''arguments'')) 7 (score_text L name1 3 scores1)))"

definition score_codex_record :: "go_lib \<Rightarrow> string \<Rightarrow> payload \<Rightarrow> string \<Rightarrow> scores \<Rightarrow> scores" where
  "score_codex_record L recordType p payloadType scores =
     (if recordType \<noteq> ''response_item'' \<and> recordType \<noteq> ''event_msg'' then scores
      else if recordType = ''event_msg'' \<and> payloadType = ''user_message''
      then score_text L (string_value p [''message'']) 5 scores
      else if payloadType = ''message'' \<and> equal_fold (string_value p [''role'']) ''user''
      then score_text L (content_text (p ''content'')) 5 scores
      else if payloadType \<notin> set tool_payload_types then scores
      else score_tool_call L p scores)"

definition score_active :: "go_lib \<Rightarrow> string \<Rightarrow> payload \<Rightarrow> string \<Rightarrow> turn_cursor \<Rightarrow> turn_cursor" where
  "score_active L recordType p payloadType cur =
     cur\<lparr>tc_Active := map_option (\<lambda>a. a\<lparr>at_Scores := score_codex_record L recordType p payloadType (at_Scores a)\<rparr>)
           (tc_Active cur)\<rparr>"

definition process_codex_record ::
  "go_lib \<Rightarrow> codex_session \<Rightarrow> string \<Rightarrow> time \<Rightarrow> bool \<Rightarrow> turn_cursor \<Rightarrow> codex_record \<Rightarrow> payload \<Rightarrow> turn_cursor \<times> codex_output" where
  "process_codex_record L session daemonID observedAt emit cur rc p =
     (let payloadType = lower L (trim_space (string_value p [''type'']));
          recordedAt = parse_time L (cr_Timestamp rc) observedAt;
          turnID = string_value p [''turn_id''];
          inherited = cs_InheritedTurnIDHashes session
      in if cr_Type rc = ''turn_context''
         then let model = string_value p [''model''];
                  cur1 = (if model \<noteq> [] then cur\<lparr>tc_Model := model\<rparr> else cur)
              in (score_active L (cr_Type rc) p payloadType (start_codex_turn L turnID recordedAt inherited cur1), Quiet)
         else if cr_Type rc = ''event_msg'' \<and> payloadType = ''task_started''
         then (score_active L (cr_Type rc) p payloadType (start_codex_turn L turnID recordedAt inherited cur), Quiet)
         else if cr_Type rc = ''event_msg'' \<and> payloadType = ''token_count''
         then (score_active L (cr_Type rc) p payloadType (update_codex_token_totals p cur), Quiet)
         else if cr_Type rc = ''event_msg'' \<and> (payloadType = ''task_complete'' \<or> payloadType = ''turn_aborted'')
         then complete_codex_turn L session daemonID cur p payloadType recordedAt emit
         else (score_active L (cr_Type rc) p payloadType cur, Quiet))"

section \<open>Scanning a rollout\<close>

text \<open>The complete lines of a text, each with its line feed; a last line without one is left.\<close>

fun complete_lines :: "string \<Rightarrow> string \<Rightarrow> string list" where
  "complete_lines line [] = []"
| "complete_lines line (c # cs) =
     (if c = CHR 0x0A then (line @ [c]) # complete_lines [] cs else complete_lines (line @ [c]) cs)"

definition scan_line ::
  "go_lib \<Rightarrow> (string \<Rightarrow> codex_record option) \<Rightarrow> codex_session \<Rightarrow> string \<Rightarrow> time \<Rightarrow> bool \<Rightarrow>
   turn_cursor \<times> codex_output list \<Rightarrow> string \<Rightarrow> turn_cursor \<times> codex_output list" where
  "scan_line L decode session daemonID observedAt emit st line =
     (let cur = (fst st)\<lparr>tc_Offset := add64 (tc_Offset (fst st)) (int (length line))\<rparr> in
      case decode line of
        None \<Rightarrow> (cur, snd st)
      | Some rc \<Rightarrow>
          (case cr_Payload rc of
             None \<Rightarrow> (cur, snd st)
           | Some p \<Rightarrow>
               let (cur1, out) = process_codex_record L session daemonID observedAt emit cur rc p
               in (cur1, if out = Quiet then snd st else snd st @ [out])))"

datatype turn_error = SeekFailed | StatFailed

definition scan_codex ::
  "go_lib \<Rightarrow> (string \<Rightarrow> codex_record option) \<Rightarrow> codex_session \<Rightarrow> string \<Rightarrow> turn_cursor \<Rightarrow> time \<Rightarrow> bool \<Rightarrow> string \<Rightarrow>
   turn_error + turn_cursor \<times> codex_output list" where
  "scan_codex L decode session daemonID cur observedAt emit content =
     (if tc_Offset cur < 0 then Inl SeekFailed
      else Inr (foldl (scan_line L decode session daemonID observedAt emit) (cur, [])
                 (complete_lines [] (drop (nat (tc_Offset cur)) content))))"

definition codex_seed_tail_bytes :: int where
  "codex_seed_tail_bytes = 8 * 1024 * 1024"

text \<open>Seeding scans the tail of the file and emits nothing; it has no callback for resets.\<close>

definition seed_codex_cursor ::
  "go_lib \<Rightarrow> (string \<Rightarrow> codex_record option) \<Rightarrow> string \<Rightarrow> string \<Rightarrow> time \<Rightarrow> string \<Rightarrow> turn_error + turn_cursor" where
  "seed_codex_cursor L decode path pathHash observedAt content =
     (let session = \<lparr>cs_SessionID = ''seed'', cs_LegacySessionID = [], cs_ParentSessionID = [], cs_RolloutPath = path,
                     cs_Title = [], cs_Model = [], cs_Repo = [], cs_ModelProvider = [],
                     cs_InheritedTurnIDHashes = [], cs_TotalEncoding = []\<rparr>;
          offset = non_negative (sub64 (int (length content)) codex_seed_tail_bytes)
      in rbind (scan_codex L decode session [] (new_turn_cursor pathHash offset True) observedAt False content)
           (\<lambda>(cur, _). Inr (cur\<lparr>tc_Active := map_option
              (\<lambda>a. a\<lparr>at_Baseline := tc_LastTokens cur, at_Latest := tc_LastTokens cur\<rparr>) (tc_Active cur)\<rparr>)))"

end
