(* ===== verification/Codex_Collect.thy ===== *)
theory Codex_Collect
  imports Turn_Codex
begin

text \<open>
  \<open>CollectCodex\<close> of \<open>pkg/turn/codex.go\<close>: which rollouts are seeded, which are scanned from
  their start, and which resume at their cursor. The files are one snapshot for a
  collection, so the cache of the parents' turns is not part of the model, and saving the
  cursors is the store the collection returns.
\<close>

record turn_store =
  ts_InitializedAt :: string
  ts_CodexIdentityCutoverAt :: string
  ts_Sessions :: "string \<Rightarrow> turn_cursor option"

text \<open>A rollout decoder and a snapshot of the files, with the clock of the collection.\<close>

record codex_input =
  ci_decode :: "string \<Rightarrow> codex_record option"
  ci_files :: "string \<Rightarrow> string option"
  ci_observedAt :: time
  ci_now :: time

definition parse_or_zero :: "go_lib \<Rightarrow> string \<Rightarrow> time" where
  "parse_or_zero L s = (case parse_rfc3339 L s of Some t \<Rightarrow> t | None \<Rightarrow> zero_time)"

definition observed_at :: "codex_input \<Rightarrow> time" where
  "observed_at I = (if is_zero (ci_observedAt I) then ci_now I else ci_observedAt I)"

section \<open>Turns inherited from a parent\<close>

definition last_line :: "string \<Rightarrow> string" where
  "last_line content = drop (length (concat (complete_lines [] content))) content"

definition completed_step :: "go_lib \<Rightarrow> (string \<Rightarrow> codex_record option) \<Rightarrow> string \<times> string list \<Rightarrow> string \<Rightarrow> string \<times> string list" where
  "completed_step L decode = (\<lambda>(activeTurnID, completed) line.
     if trim_space line = [] then (activeTurnID, completed)
     else case decode line of
            None \<Rightarrow> (activeTurnID, completed)
          | Some rc \<Rightarrow>
              let p = (case cr_Payload rc of Some p \<Rightarrow> p | None \<Rightarrow> Map.empty);
                  payloadType = lower L (trim_space (string_value p [''type'']));
                  own = string_value p [''turn_id''];
                  turnID = (if own = [] then activeTurnID else own)
              in if cr_Type rc \<noteq> ''event_msg'' then (activeTurnID, completed)
                 else if payloadType = ''task_started'' then (own, completed)
                 else if payloadType = ''task_complete'' \<or> payloadType = ''turn_aborted''
                 then ([], if turnID \<noteq> [] \<and> (activeTurnID = [] \<or> turnID = activeTurnID)
                           then hash_string L turnID # completed else completed)
                 else (activeTurnID, completed))"

definition completed_codex_turn_id_hashes :: "go_lib \<Rightarrow> (string \<Rightarrow> codex_record option) \<Rightarrow> string \<Rightarrow> string list" where
  "completed_codex_turn_id_hashes L decode content =
     snd (foldl (completed_step L decode) ([], []) (complete_lines [] content @ [last_line content]))"

definition sessions_by_id :: "codex_session list \<Rightarrow> string \<Rightarrow> codex_session option" where
  "sessions_by_id sessions =
     foldl (\<lambda>m s. if cs_SessionID s \<noteq> [] \<and> cs_ParentSessionID s = cs_SessionID s then m
                  else m(cs_SessionID s \<mapsto> s)) Map.empty sessions"

definition inherited_codex_turn_id_hashes ::
  "go_lib \<Rightarrow> codex_input \<Rightarrow> string \<Rightarrow> (string \<Rightarrow> codex_session option) \<Rightarrow> string list option" where
  "inherited_codex_turn_id_hashes L I parentID byID =
     (case byID parentID of
        None \<Rightarrow> None
      | Some parent \<Rightarrow>
          if trim_space (cs_RolloutPath parent) = [] then None
          else map_option (completed_codex_turn_id_hashes L (ci_decode I)) (ci_files I (cs_RolloutPath parent)))"

definition codex_rollout_started_at_or_after :: "go_lib \<Rightarrow> codex_input \<Rightarrow> string \<Rightarrow> time \<Rightarrow> bool" where
  "codex_rollout_started_at_or_after L I path cutover \<longleftrightarrow>
     \<not> is_zero cutover \<and>
     (case ci_files I path of
        None \<Rightarrow> False
      | Some content \<Rightarrow>
          (case complete_lines [] content of
             [] \<Rightarrow> False
           | line # _ \<Rightarrow>
               (case ci_decode I line of
                  None \<Rightarrow> False
                | Some rc \<Rightarrow>
                    (case parse_rfc3339 L (trim_space (cr_Timestamp rc)) of
                       None \<Rightarrow> False
                     | Some startedAt \<Rightarrow> \<not> startedAt < cutover))))"

section \<open>The cursor a session starts from\<close>

definition migrate_codex_identity_cursor ::
  "go_lib \<Rightarrow> codex_input \<Rightarrow> (string \<Rightarrow> turn_cursor option) \<Rightarrow> codex_session \<Rightarrow> string \<Rightarrow> time \<Rightarrow> turn_error + turn_cursor option" where
  "migrate_codex_identity_cursor L I cursors session pathHash cutoverAt =
     (let path = cs_RolloutPath session;
          seed = (if codex_rollout_started_at_or_after L I path cutoverAt then Inr None
                  else case ci_files I path of
                         None \<Rightarrow> Inl StatFailed
                       | Some content \<Rightarrow>
                           rbind (seed_codex_cursor L (ci_decode I) path pathHash (observed_at I) content)
                             (\<lambda>c. Inr (Some c)))
      in if cs_LegacySessionID session = [] \<or> cs_LegacySessionID session = cs_SessionID session then Inr None
         else case cursors (cs_LegacySessionID session) of
                Some legacy \<Rightarrow>
                  if tc_RolloutPathHash legacy = pathHash
                  then (case ci_files I path of
                          None \<Rightarrow> Inl StatFailed
                        | Some content \<Rightarrow>
                            if int (length content) \<ge> tc_Offset legacy then Inr (Some legacy) else seed)
                  else seed
              | None \<Rightarrow> seed)"

text \<open>
  A rollout without a cursor. \<open>pending\<close> is an error that the migration left behind: it is
  returned only on the path on which the code does not overwrite it.
\<close>

definition fresh_codex_cursor ::
  "go_lib \<Rightarrow> codex_input \<Rightarrow> string \<Rightarrow> bool \<Rightarrow> time \<Rightarrow> (string \<Rightarrow> codex_session option) \<Rightarrow> codex_session \<Rightarrow> string \<Rightarrow> string \<Rightarrow>
   turn_error option \<Rightarrow> turn_error + turn_cursor \<times> codex_output list" where
  "fresh_codex_cursor L I daemonID firstCollection initializedAt byID session pathHash content pending =
     (let seed = rbind (seed_codex_cursor L (ci_decode I) (cs_RolloutPath session) pathHash (observed_at I) content)
                   (\<lambda>c. Inr (c, []));
          scan = (\<lambda>s. scan_codex L (ci_decode I) s daemonID (new_turn_cursor pathHash 0 False) (observed_at I) True content)
      in if firstCollection \<or> \<not> codex_rollout_started_at_or_after L I (cs_RolloutPath session) initializedAt then seed
         else if cs_ParentSessionID session \<noteq> []
         then (case inherited_codex_turn_id_hashes L I (cs_ParentSessionID session) byID of
                 Some inherited \<Rightarrow> scan (session\<lparr>cs_InheritedTurnIDHashes := inherited\<rparr>)
               | None \<Rightarrow> rbind seed (\<lambda>(c, evs). if tc_RolloutPathHash c = [] then scan session else Inr (c, evs)))
         else case pending of Some e \<Rightarrow> Inl e | None \<Rightarrow> scan session)"

definition resume_codex_cursor ::
  "go_lib \<Rightarrow> codex_input \<Rightarrow> string \<Rightarrow> codex_session \<Rightarrow> string \<Rightarrow> turn_cursor \<Rightarrow> string \<Rightarrow> turn_error + turn_cursor \<times> codex_output list" where
  "resume_codex_cursor L I daemonID session pathHash cur content =
     (if tc_RolloutPathHash cur \<noteq> pathHash \<or> int (length content) < tc_Offset cur
      then rbind (seed_codex_cursor L (ci_decode I) (cs_RolloutPath session) pathHash (observed_at I) content)
             (\<lambda>c. Inr (c, []))
      else scan_codex L (ci_decode I) session daemonID cur (observed_at I) True content)"

section \<open>The collection\<close>

definition skipped_session :: "codex_input \<Rightarrow> codex_session \<Rightarrow> bool" where
  "skipped_session I session \<longleftrightarrow>
     trim_space (cs_SessionID session) = [] \<or> trim_space (cs_RolloutPath session) = [] \<or>
     cs_ParentSessionID session = cs_SessionID session \<or> ci_files I (cs_RolloutPath session) = None"

definition store_cursor :: "codex_session \<Rightarrow> string \<Rightarrow> turn_cursor \<Rightarrow> (string \<Rightarrow> turn_cursor option) \<Rightarrow> string \<Rightarrow> turn_cursor option" where
  "store_cursor session pathHash cur cursors =
     (let next = cursors(cs_SessionID session \<mapsto> cur); legacy = cs_LegacySessionID session in
      case next legacy of
        Some c \<Rightarrow> if legacy \<noteq> [] \<and> tc_RolloutPathHash c = pathHash then next(legacy \<mapsto> cur) else next
      | None \<Rightarrow> next)"

definition collect_codex_session ::
  "go_lib \<Rightarrow> codex_input \<Rightarrow> string \<Rightarrow> string \<Rightarrow> bool \<Rightarrow> time \<Rightarrow> time \<Rightarrow> (string \<Rightarrow> codex_session option) \<Rightarrow>
   (string \<Rightarrow> turn_cursor option) \<Rightarrow> codex_session \<Rightarrow> turn_error + (string \<Rightarrow> turn_cursor option) \<times> codex_output list" where
  "collect_codex_session L I daemonID totalEncoding firstCollection initializedAt cutoverAt byID cursors session0 =
     (let session = session0\<lparr>cs_TotalEncoding := totalEncoding\<rparr>;
          pathHash = hash_string L (cs_RolloutPath session);
          content = (case ci_files I (cs_RolloutPath session) of Some c \<Rightarrow> c | None \<Rightarrow> []);
          found = (if \<not> firstCollection \<and> cursors (cs_SessionID session) = None
                   then migrate_codex_identity_cursor L I cursors session pathHash cutoverAt
                   else Inr (cursors (cs_SessionID session)));
          fresh = fresh_codex_cursor L I daemonID firstCollection initializedAt byID session pathHash content
      in if skipped_session I session then Inr (cursors, [])
         else rbind
           (case found of
              Inl e \<Rightarrow> fresh (Some e)
            | Inr None \<Rightarrow> fresh None
            | Inr (Some cur) \<Rightarrow> if firstCollection then fresh None
                                else resume_codex_cursor L I daemonID session pathHash cur content)
           (\<lambda>(cur, evs). Inr (store_cursor session pathHash cur cursors, evs)))"

fun collect_codex_loop where
  "collect_codex_loop step cursors [] = Inr (cursors, [])"
| "collect_codex_loop step cursors (s # ss) =
     rbind (step cursors s) (\<lambda>(next, evs).
       rbind (collect_codex_loop step next ss) (\<lambda>(fin, more). Inr (fin, evs @ more)))"

definition collect_codex ::
  "go_lib \<Rightarrow> codex_input \<Rightarrow> string \<Rightarrow> string \<Rightarrow> codex_session list \<Rightarrow> turn_store \<Rightarrow> turn_error + turn_store \<times> codex_output list" where
  "collect_codex L I daemonID totalEncoding sessions store =
     (let firstCollection = (trim_space (ts_InitializedAt store) = []);
          initializedAt = parse_or_zero L (ts_InitializedAt store);
          cutover = parse_or_zero L (ts_CodexIdentityCutoverAt store);
          cutoverAt = (if is_zero cutover then observed_at I else cutover);
          stamp = format_rfc3339 L (observed_at I)
      in rbind (collect_codex_loop
                  (collect_codex_session L I daemonID totalEncoding firstCollection initializedAt cutoverAt
                     (sessions_by_id sessions))
                  (ts_Sessions store) sessions)
           (\<lambda>(cursors, evs). Inr
             (\<lparr>ts_InitializedAt = (if firstCollection then stamp else ts_InitializedAt store),
               ts_CodexIdentityCutoverAt = (if is_zero cutover then stamp else ts_CodexIdentityCutoverAt store),
               ts_Sessions = cursors\<rparr>, evs)))"

end
