(* ===== verification/Codex_Turn_Properties.thy ===== *)
theory Codex_Turn_Properties
  imports Codex_Collect
begin

text \<open>
  The rollout state machine: the invariant of its cursors, what a finished turn reports,
  that turns never report more tokens than the counters grew, and that a scan resumed at
  its cursor gives what a scan in one go would have given.
\<close>

section \<open>Fields a step keeps\<close>

lemma score_active_simps [simp]:
  "tc_Offset (score_active L ty p pt cur) = tc_Offset cur"
  "tc_RolloutPathHash (score_active L ty p pt cur) = tc_RolloutPathHash cur"
  "tc_LastTokens (score_active L ty p pt cur) = tc_LastTokens cur"
  "tc_AwaitingBaseline (score_active L ty p pt cur) = tc_AwaitingBaseline cur"
  "tc_Active (score_active L ty p pt cur) =
     map_option (\<lambda>a. a\<lparr>at_Scores := score_codex_record L ty p pt (at_Scores a)\<rparr>) (tc_Active cur)"
  by (simp_all add: score_active_def)

lemma start_codex_turn_simps [simp]:
  "tc_Offset (start_codex_turn L i t inh cur) = tc_Offset cur"
  "tc_RolloutPathHash (start_codex_turn L i t inh cur) = tc_RolloutPathHash cur"
  "tc_LastTokens (start_codex_turn L i t inh cur) = tc_LastTokens cur"
  "tc_AwaitingBaseline (start_codex_turn L i t inh cur) = tc_AwaitingBaseline cur"
  by (simp_all add: start_codex_turn_def Let_def)

lemma set_totals_simps [simp]:
  "tc_Offset (set_totals tot cur) = tc_Offset cur"
  "tc_RolloutPathHash (set_totals tot cur) = tc_RolloutPathHash cur"
  "tc_LastTokens (set_totals tot cur) = tot"
  "\<not> tc_AwaitingBaseline (set_totals tot cur)"
  by (simp_all add: set_totals_def Let_def)

lemma update_totals_keeps [simp]:
  "tc_Offset (update_codex_token_totals p cur) = tc_Offset cur"
  "tc_RolloutPathHash (update_codex_token_totals p cur) = tc_RolloutPathHash cur"
  by (simp_all add: update_codex_token_totals_def split: option.split)

lemma complete_codex_turn_keeps [simp]:
  "tc_Offset (fst (complete_codex_turn L s d cur p pt e emit)) = tc_Offset cur"
  "tc_RolloutPathHash (fst (complete_codex_turn L s d cur p pt e emit)) = tc_RolloutPathHash cur"
  "tc_LastTokens (fst (complete_codex_turn L s d cur p pt e emit)) = tc_LastTokens cur"
  "tc_AwaitingBaseline (fst (complete_codex_turn L s d cur p pt e emit)) = tc_AwaitingBaseline cur"
  by (simp_all add: complete_codex_turn_def Let_def split: option.split)

text \<open>
  The five things a record can do to the cursor; every proof on \<open>process_codex_record\<close>
  is a case analysis by this rule.
\<close>

lemma process_codex_record_cases:
  assumes "process_codex_record L s d obs emit cur rc p = (cur', out)"
  obtains (start) m i t where "cur' = score_active L (cr_Type rc) p (lower L (trim_space (string_value p [''type''])))
       (start_codex_turn L i t (cs_InheritedTurnIDHashes s) (cur\<lparr>tc_Model := m\<rparr>))" and "out = Quiet"
  | (count) pt where "cur' = score_active L (cr_Type rc) p pt (update_codex_token_totals p cur)" and "out = Quiet"
  | (complete) pt t where "(cur', out) = complete_codex_turn L s d cur p pt t emit"
  | (score) pt where "cur' = score_active L (cr_Type rc) p pt cur" and "out = Quiet"
proof (cases "cr_Type rc = ''turn_context''")
  case True
  let ?m = "string_value p [''model'']"
  have "cur' = score_active L (cr_Type rc) p (lower L (trim_space (string_value p [''type''])))
      (start_codex_turn L (string_value p [''turn_id'']) (parse_time L (cr_Timestamp rc) obs)
        (cs_InheritedTurnIDHashes s) (cur\<lparr>tc_Model := (if ?m \<noteq> [] then ?m else tc_Model cur)\<rparr>))" and "out = Quiet"
    using assms True by (auto simp: process_codex_record_def Let_def)
  then show ?thesis by (rule start)
next
  case False
  let ?pt = "lower L (trim_space (string_value p [''type'']))"
  let ?t = "parse_time L (cr_Timestamp rc) obs"
  have same: "cur\<lparr>tc_Model := tc_Model cur\<rparr> = cur" by simp
  have "(cur' = score_active L (cr_Type rc) p ?pt
            (start_codex_turn L (string_value p [''turn_id'']) ?t (cs_InheritedTurnIDHashes s) cur) \<and> out = Quiet) \<or>
        (cur' = score_active L (cr_Type rc) p ?pt (update_codex_token_totals p cur) \<and> out = Quiet) \<or>
        (cur', out) = complete_codex_turn L s d cur p ?pt ?t emit \<or>
        (cur' = score_active L (cr_Type rc) p ?pt cur \<and> out = Quiet)"
    using assms False unfolding process_codex_record_def Let_def by (auto split: if_splits)
  then show ?thesis
    using start [of "string_value p [''turn_id'']" ?t "tc_Model cur"] count [of ?pt] complete [of ?pt ?t] score [of ?pt]
    unfolding same by blast
qed

lemma process_keeps [simp]:
  "tc_Offset (fst (process_codex_record L s d obs emit cur rc p)) = tc_Offset cur"
  "tc_RolloutPathHash (fst (process_codex_record L s d obs emit cur rc p)) = tc_RolloutPathHash cur"
proof -
  obtain cur' out where r: "process_codex_record L s d obs emit cur rc p = (cur', out)" by fastforce
  have "tc_Offset cur' = tc_Offset cur \<and> tc_RolloutPathHash cur' = tc_RolloutPathHash cur"
    using r by (cases rule: process_codex_record_cases) (auto dest: arg_cong [where f = fst])
  with r show "tc_Offset (fst (process_codex_record L s d obs emit cur rc p)) = tc_Offset cur"
    "tc_RolloutPathHash (fst (process_codex_record L s d obs emit cur rc p)) = tc_RolloutPathHash cur" by simp_all
qed

section \<open>The invariant of a cursor\<close>

definition turn_inv :: "turn_cursor \<Rightarrow> bool" where
  "turn_inv cur \<longleftrightarrow>
     (\<forall>a. tc_Active cur = Some a \<longrightarrow>
        at_Latest a = tc_LastTokens cur \<and> (\<not> at_CounterReset a \<longrightarrow> \<not> decreased_from (at_Latest a) (at_Baseline a)))"

lemma decreased_from_refl [simp]: "\<not> decreased_from t t"
  by (simp add: decreased_from_def)

lemma decreased_from_trans:
  "\<not> decreased_from b a \<Longrightarrow> \<not> decreased_from c b \<Longrightarrow> \<not> decreased_from c a"
  by (auto simp: decreased_from_def)

lemma turn_inv_score: "turn_inv cur \<Longrightarrow> turn_inv (score_active L ty p pt cur)"
  by (auto simp: turn_inv_def)

lemma turn_inv_start: "turn_inv cur \<Longrightarrow> turn_inv (start_codex_turn L i t inh (cur\<lparr>tc_Model := m\<rparr>))"
  by (auto simp: turn_inv_def start_codex_turn_def Let_def)

lemma turn_inv_set_totals: "turn_inv cur \<Longrightarrow> turn_inv (set_totals tot cur)"
  unfolding turn_inv_def set_totals_def Let_def
  by (auto split: if_splits) (use decreased_from_trans in blast)

lemma turn_inv_update: "turn_inv cur \<Longrightarrow> turn_inv (update_codex_token_totals p cur)"
  by (simp add: update_codex_token_totals_def turn_inv_set_totals split: option.split)

lemma complete_active:
  "tc_Active (fst (complete_codex_turn L s d cur p pt e emit)) \<in> {tc_Active cur, None}"
  by (auto simp: complete_codex_turn_def Let_def split: option.split)

lemma turn_inv_complete: "turn_inv cur \<Longrightarrow> turn_inv (fst (complete_codex_turn L s d cur p pt e emit))"
  using complete_active [of L s d cur p pt e emit] by (auto simp: turn_inv_def)

lemma turn_inv_process: "turn_inv cur \<Longrightarrow> turn_inv (fst (process_codex_record L s d obs emit cur rc p))"
proof -
  assume inv: "turn_inv cur"
  obtain cur' out where r: "process_codex_record L s d obs emit cur rc p = (cur', out)" by fastforce
  have "turn_inv cur'"
    using r
  proof (cases rule: process_codex_record_cases)
    case (complete pt t)
    then show ?thesis using turn_inv_complete [OF inv] by (metis fst_conv)
  qed (use inv in \<open>auto intro: turn_inv_score turn_inv_start turn_inv_update\<close>)
  with r show ?thesis by simp
qed

section \<open>The cursors the code reaches\<close>

definition rebased :: "turn_cursor \<Rightarrow> turn_cursor" where
  "rebased cur = cur\<lparr>tc_Active := map_option
     (\<lambda>a. a\<lparr>at_Baseline := tc_LastTokens cur, at_Latest := tc_LastTokens cur\<rparr>) (tc_Active cur)\<rparr>"

inductive turn_reachable :: "go_lib \<Rightarrow> turn_cursor \<Rightarrow> bool" for L where
  initial: "turn_reachable L (new_turn_cursor pathHash offset awaiting)"
| advance: "turn_reachable L cur \<Longrightarrow> turn_reachable L (cur\<lparr>tc_Offset := offset\<rparr>)"
| process: "turn_reachable L cur \<Longrightarrow> turn_reachable L (fst (process_codex_record L s d obs emit cur rc p))"
| seed: "turn_reachable L cur \<Longrightarrow> turn_reachable L (rebased cur)"

lemma reachable_turn_inv: "turn_reachable L cur \<Longrightarrow> turn_inv cur"
proof (induction rule: turn_reachable.induct)
  case (process cur s d obs emit rc p)
  then show ?case by (simp add: turn_inv_process)
qed (auto simp: turn_inv_def new_turn_cursor_def rebased_def)

lemma scan_line_Pair:
  "scan_line L decode s d obs emit (cur, outs) line =
     (fst (scan_line L decode s d obs emit (cur, []) line), outs @ snd (scan_line L decode s d obs emit (cur, []) line))"
  by (simp add: scan_line_def Let_def case_prod_beta split: option.split)

lemma scan_lines_Pair:
  "foldl (scan_line L decode s d obs emit) (cur, outs) ls =
     (fst (foldl (scan_line L decode s d obs emit) (cur, []) ls),
      outs @ snd (foldl (scan_line L decode s d obs emit) (cur, []) ls))"
proof (induction ls arbitrary: cur outs)
  case (Cons l ls)
  show ?case
    unfolding foldl_Cons
    by (subst (1 2 3) scan_line_Pair, subst (1 2 3) Cons.IH) simp
qed simp

text \<open>A line moves the offset and runs at most one record.\<close>

lemma scan_line_cases:
  assumes "scan_line L decode s d obs emit (cur, []) line = (cur', outs)"
  obtains (skip) "cur' = cur\<lparr>tc_Offset := add64 (tc_Offset cur) (int (length line))\<rparr>" and "outs = []"
  | (run) rc p out where
      "process_codex_record L s d obs emit (cur\<lparr>tc_Offset := add64 (tc_Offset cur) (int (length line))\<rparr>) rc p = (cur', out)"
      and "outs = (if out = Quiet then [] else [out])"
proof -
  let ?cur = "cur\<lparr>tc_Offset := add64 (tc_Offset cur) (int (length line))\<rparr>"
  show ?thesis
  proof (cases "\<exists>rc p. decode line = Some rc \<and> cr_Payload rc = Some p")
    case True
    then obtain rc p where "decode line = Some rc" "cr_Payload rc = Some p" by blast
    then show ?thesis
      using assms run [of rc p "snd (process_codex_record L s d obs emit ?cur rc p)"]
      by (auto simp: scan_line_def Let_def case_prod_beta)
  next
    case False
    then show ?thesis
      using assms skip by (auto simp: scan_line_def Let_def split: option.splits)
  qed
qed

lemma scan_line_reachable:
  "turn_reachable L cur \<Longrightarrow> turn_reachable L (fst (scan_line L decode s d obs emit (cur, []) line))"
proof -
  assume cur: "turn_reachable L cur"
  obtain cur' outs where r: "scan_line L decode s d obs emit (cur, []) line = (cur', outs)" by fastforce
  then show ?thesis
  proof (cases rule: scan_line_cases)
    case skip
    with r cur show ?thesis by (simp add: turn_reachable.advance)
  next
    case (run rc p out)
    with r turn_reachable.process [OF turn_reachable.advance [OF cur], of s d obs emit _ rc p]
    show ?thesis by (metis fst_conv)
  qed
qed

section \<open>Tokens reported and tokens counted\<close>

definition counters :: "(token_totals \<Rightarrow> int) set" where
  "counters = {tt_Input, tt_Output, tt_CacheRead, tt_CacheWrite}"

text \<open>The part of a counter that an open turn will report if it ends now.\<close>

definition turn_pending :: "(token_totals \<Rightarrow> int) \<Rightarrow> turn_cursor \<Rightarrow> int" where
  "turn_pending c cur =
     (case tc_Active cur of
        Some a \<Rightarrow> if at_CounterReset a then 0 else c (tc_LastTokens cur) - c (at_Baseline a)
      | None \<Rightarrow> 0)"

definition out_tokens :: "(token_totals \<Rightarrow> int) \<Rightarrow> codex_output \<Rightarrow> int" where
  "out_tokens c out = (case out of Turn u \<Rightarrow> c (tu_Tokens u) | _ \<Rightarrow> 0)"

definition counter_growth :: "(token_totals \<Rightarrow> int) \<Rightarrow> turn_cursor \<Rightarrow> turn_cursor \<Rightarrow> int" where
  "counter_growth c cur cur' =
     (if tc_AwaitingBaseline cur then 0 else max 0 (c (tc_LastTokens cur') - c (tc_LastTokens cur)))"

lemma counters_mono:
  "c \<in> counters \<Longrightarrow> \<not> decreased_from t b \<Longrightarrow> c b \<le> c t"
  by (auto simp: counters_def decreased_from_def)

lemma totals_delta_le:
  "c \<in> counters \<Longrightarrow> \<not> decreased_from t b \<Longrightarrow> c (totals_delta t b) \<le> c t - c b"
  using wrap64_le [of "c t - c b"]
  by (auto simp: counters_def decreased_from_def totals_delta_def non_negative_def sub64_def)

lemma turn_pending_nonneg:
  assumes "turn_inv cur" and "c \<in> counters"
  shows "0 \<le> turn_pending c cur"
  using assms counters_mono [OF assms(2)]
  by (fastforce simp: turn_pending_def turn_inv_def split: option.splits)

lemma counter_growth_nonneg: "0 \<le> counter_growth c cur cur'"
  by (simp add: counter_growth_def)

lemma pending_score [simp]: "turn_pending c (score_active L ty p pt cur) = turn_pending c cur"
  by (simp add: turn_pending_def split: option.split)

lemma counter_growth_score [simp]:
  "counter_growth c cur (score_active L ty p pt cur') = counter_growth c cur cur'"
  by (simp add: counter_growth_def)

lemma pending_offset [simp]:
  "turn_pending c (cur\<lparr>tc_Offset := off\<rparr>) = turn_pending c cur"
  "counter_growth c (cur\<lparr>tc_Offset := off\<rparr>) cur' = counter_growth c cur cur'"
  "counter_growth c cur (cur\<lparr>tc_Offset := off\<rparr>) = counter_growth c cur cur"
  by (simp_all add: turn_pending_def counter_growth_def split: option.split)

lemma pending_start:
  assumes "turn_inv cur" and "c \<in> counters"
  shows "turn_pending c (start_codex_turn L i t inh (cur\<lparr>tc_Model := m\<rparr>)) \<le> turn_pending c cur"
  using turn_pending_nonneg [OF assms]
  by (auto simp: turn_pending_def start_codex_turn_def Let_def split: option.splits)

lemma pending_set_totals:
  assumes "turn_inv cur" and "c \<in> counters"
  shows "turn_pending c (set_totals tot cur) \<le> turn_pending c cur + counter_growth c cur (set_totals tot cur)"
  using turn_pending_nonneg [OF assms]
  by (auto simp: turn_pending_def counter_growth_def set_totals_def Let_def split: option.splits)

lemma pending_update:
  assumes "turn_inv cur" and "c \<in> counters"
  shows "turn_pending c (update_codex_token_totals p cur)
    \<le> turn_pending c cur + counter_growth c cur (update_codex_token_totals p cur)"
  using pending_set_totals [OF assms] turn_pending_nonneg [OF assms] counter_growth_nonneg [of c cur cur]
  by (simp add: update_codex_token_totals_def split: option.split)

lemma pending_complete:
  assumes "turn_inv cur" and "c \<in> counters"
    and "complete_codex_turn L s d cur p pt e emit = (cur', out)"
  shows "out_tokens c out + turn_pending c cur' \<le> turn_pending c cur"
proof (cases "tc_Active cur")
  case None
  with assms(3) show ?thesis by (auto simp: complete_codex_turn_def out_tokens_def)
next
  case (Some a)
  then have "\<not> at_CounterReset a \<Longrightarrow>
      c (totals_delta (at_Latest a) (at_Baseline a)) \<le> c (tc_LastTokens cur) - c (at_Baseline a)"
    using totals_delta_le [OF assms(2)] assms(1) by (fastforce simp: turn_inv_def)
  with assms(3) Some turn_pending_nonneg [OF assms(1,2)] show ?thesis
    by (auto simp: complete_codex_turn_def Let_def out_tokens_def turn_pending_def turn_of_def split: if_splits)
qed

lemma pending_process:
  assumes inv: "turn_inv cur" and c: "c \<in> counters"
    and r: "process_codex_record L s d obs emit cur rc p = (cur', out)"
  shows "out_tokens c out + turn_pending c cur' \<le> turn_pending c cur + counter_growth c cur cur'"
  using r
proof (cases rule: process_codex_record_cases)
  case (start m i t)
  with pending_start [OF inv c, of L i t "cs_InheritedTurnIDHashes s" m] counter_growth_nonneg [of c cur cur']
  show ?thesis by (simp add: out_tokens_def)
next
  case (count pt)
  with pending_update [OF inv c, of p] show ?thesis by (simp add: out_tokens_def)
next
  case (complete pt t)
  with pending_complete [OF inv c complete [symmetric]] counter_growth_nonneg [of c cur cur'] show ?thesis by simp
next
  case (score pt)
  with counter_growth_nonneg [of c cur cur'] show ?thesis by (simp add: out_tokens_def)
qed

text \<open>The growth of a counter along the lines of a scan.\<close>

fun scan_growth :: "(token_totals \<Rightarrow> int) \<Rightarrow> (turn_cursor \<Rightarrow> string \<Rightarrow> turn_cursor) \<Rightarrow> turn_cursor \<Rightarrow> string list \<Rightarrow> int" where
  "scan_growth c step cur [] = 0"
| "scan_growth c step cur (l # ls) = counter_growth c cur (step cur l) + scan_growth c step (step cur l) ls"

abbreviation line_step where
  "line_step L decode s d obs emit cur l \<equiv> fst (scan_line L decode s d obs emit (cur, []) l)"

lemma pending_line:
  assumes inv: "turn_reachable L cur" and c: "c \<in> counters"
    and r: "scan_line L decode s d obs emit (cur, []) l = (cur', outs)"
  shows "sum_list (map (out_tokens c) outs) + turn_pending c cur' \<le> turn_pending c cur + counter_growth c cur cur'"
  using r
proof (cases rule: scan_line_cases)
  case skip
  then show ?thesis by (simp add: counter_growth_nonneg)
next
  case (run rc p out)
  let ?cur = "cur\<lparr>tc_Offset := add64 (tc_Offset cur) (int (length l))\<rparr>"
  have "turn_inv ?cur" by (rule reachable_turn_inv) (rule turn_reachable.advance [OF inv])
  from pending_process [OF this c run(1)]
  have "out_tokens c out + turn_pending c cur' \<le> turn_pending c cur + counter_growth c cur cur'"
    by simp
  then show ?thesis using run(2) by (auto simp: out_tokens_def)
qed

lemma pending_lines:
  assumes "turn_reachable L cur" and c: "c \<in> counters"
    and "foldl (scan_line L decode s d obs emit) (cur, []) ls = (cur', outs)"
  shows "sum_list (map (out_tokens c) outs) + turn_pending c cur' \<le>
    turn_pending c cur + scan_growth c (line_step L decode s d obs emit) cur ls"
  using assms(1,3)
proof (induction ls arbitrary: cur cur' outs)
  case (Cons l ls)
  obtain cur1 outs1 where l: "scan_line L decode s d obs emit (cur, []) l = (cur1, outs1)" by fastforce
  obtain cur2 outs2 where ls: "foldl (scan_line L decode s d obs emit) (cur1, []) ls = (cur2, outs2)" by fastforce
  have eq: "cur' = cur2 \<and> outs = outs1 @ outs2"
    using Cons.prems(2) l ls scan_lines_Pair [of L decode s d obs emit cur1 outs1 ls] by simp
  have "turn_reachable L cur1" using scan_line_reachable [OF Cons.prems(1)] l by (metis fst_conv)
  from Cons.IH [OF this ls] pending_line [OF Cons.prems(1) c l] eq l show ?case by simp
qed simp

section \<open>Lines and resumed scans\<close>

fun open_line :: "string \<Rightarrow> string \<Rightarrow> string" where
  "open_line line [] = line"
| "open_line line (c # cs) = (if c = CHR 0x0A then open_line [] cs else open_line (line @ [c]) cs)"

lemma complete_lines_append:
  "complete_lines line (s @ t) = complete_lines line s @ complete_lines (open_line line s) t"
  by (induction line s rule: open_line.induct) auto

lemma concat_complete_lines: "concat (complete_lines line s) @ open_line line s = line @ s"
  by (induction line s rule: open_line.induct) auto

lemma open_line_no_LF: "CHR 0x0A \<notin> set line \<Longrightarrow> CHR 0x0A \<notin> set (open_line line s)"
  by (induction line s rule: open_line.induct) auto

lemma complete_lines_open: "CHR 0x0A \<notin> set l \<Longrightarrow> complete_lines line (l @ s) = complete_lines (line @ l) s"
  by (induction l arbitrary: line) auto

lemma complete_lines_none: "CHR 0x0A \<notin> set s \<Longrightarrow> complete_lines line s = []"
  by (induction s arbitrary: line) auto

lemma scan_lines_offset:
  assumes "0 \<le> tc_Offset cur" and "tc_Offset cur + int (length (concat ls)) < 2 ^ 63"
  shows "tc_Offset (fst (foldl (scan_line L decode s d obs emit) (cur, []) ls)) = tc_Offset cur + int (length (concat ls))"
  using assms
proof (induction ls arbitrary: cur)
  case (Cons l ls)
  obtain cur1 outs1 where l: "scan_line L decode s d obs emit (cur, []) l = (cur1, outs1)" by fastforce
  have "tc_Offset cur1 = add64 (tc_Offset cur) (int (length l))"
    using l process_keeps(1) by (cases rule: scan_line_cases) (simp, metis fst_conv turn_cursor.select_convs(2) turn_cursor.surjective turn_cursor.update_convs(2))
  then have off: "tc_Offset cur1 = tc_Offset cur + int (length l)"
    using Cons.prems by (simp add: add64_exact in_int64_nonneg)
  have "tc_Offset (fst (foldl (scan_line L decode s d obs emit) (cur1, []) ls)) = tc_Offset cur1 + int (length (concat ls))"
    by (rule Cons.IH) (use off Cons.prems in auto)
  then show ?case
    using l off scan_lines_Pair [of L decode s d obs emit cur1 outs1 ls] by simp
qed simp

lemma scan_codex_Inr:
  "scan_codex L decode s d cur obs emit content = Inr r \<longleftrightarrow>
     0 \<le> tc_Offset cur \<and>
     r = foldl (scan_line L decode s d obs emit) (cur, []) (complete_lines [] (drop (nat (tc_Offset cur)) content))"
  by (auto simp: scan_codex_def)

text \<open>After a scan the rest of the file holds no complete line.\<close>

lemma scan_codex_rest:
  assumes scan: "scan_codex L decode s d cur obs emit content = Inr (cur', outs)"
    and "tc_Offset cur \<le> int (length content)" and "int (length content) < 2 ^ 63"
  shows "tc_Offset cur \<le> tc_Offset cur'" and "tc_Offset cur' \<le> int (length content)"
    and "drop (nat (tc_Offset cur')) content = open_line [] (drop (nat (tc_Offset cur)) content)"
proof -
  let ?rest = "drop (nat (tc_Offset cur)) content"
  let ?ls = "complete_lines [] ?rest"
  have parts: "concat ?ls @ open_line [] ?rest = ?rest" using concat_complete_lines [of "[]" ?rest] by simp
  then have "length (concat ?ls) + length (open_line [] ?rest) = length ?rest" by (metis length_append)
  then have len: "int (length (concat ?ls)) \<le> int (length content) - tc_Offset cur"
    using scan assms(2) by (simp add: scan_codex_Inr)
  have off: "tc_Offset cur' = tc_Offset cur + int (length (concat ?ls))"
    using scan_lines_offset [of cur ?ls L decode s d obs emit] len assms(3) scan
    by (simp add: scan_codex_Inr) (metis fst_conv)
  then show "tc_Offset cur \<le> tc_Offset cur'" "tc_Offset cur' \<le> int (length content)" using len by simp_all
  have "nat (tc_Offset cur') = length (concat ?ls) + nat (tc_Offset cur)"
    using off scan by (simp add: scan_codex_Inr nat_add_distrib)
  then have "drop (nat (tc_Offset cur')) content = drop (length (concat ?ls)) ?rest" by simp
  also have "\<dots> = open_line [] ?rest" using parts by (metis append_eq_conv_conj)
  finally show "drop (nat (tc_Offset cur')) content = open_line [] ?rest" .
qed

section \<open>The lifecycle of a turn\<close>

fun process_all ::
  "go_lib \<Rightarrow> codex_session \<Rightarrow> string \<Rightarrow> time \<Rightarrow> bool \<Rightarrow> turn_cursor \<Rightarrow> (codex_record \<times> payload) list \<Rightarrow> turn_cursor \<times> codex_output list" where
  "process_all L s d obs emit cur [] = (cur, [])"
| "process_all L s d obs emit cur ((rc, p) # rs) =
     (let (cur1, out) = process_codex_record L s d obs emit cur rc p;
          (cur2, outs) = process_all L s d obs emit cur1 rs in (cur2, out # outs))"

definition event_kind :: "go_lib \<Rightarrow> codex_record \<Rightarrow> payload \<Rightarrow> string" where
  "event_kind L rc p = (if cr_Type rc = ''event_msg'' then lower L (trim_space (string_value p [''type''])) else [])"

definition ends_turn :: "go_lib \<Rightarrow> codex_record \<Rightarrow> payload \<Rightarrow> bool" where
  "ends_turn L rc p \<longleftrightarrow> event_kind L rc p \<in> {''task_complete'', ''turn_aborted''}"

definition starts_turn :: "go_lib \<Rightarrow> codex_record \<Rightarrow> payload \<Rightarrow> string option" where
  "starts_turn L rc p =
     (if (cr_Type rc = ''turn_context'' \<or> event_kind L rc p = ''task_started'') \<and> string_value p [''turn_id''] \<noteq> []
      then Some (hash_string L (string_value p [''turn_id''])) else None)"

text \<open>The totals that the token counts among some records carry.\<close>

fun totals_seen :: "go_lib \<Rightarrow> (codex_record \<times> payload) list \<Rightarrow> token_totals list" where
  "totals_seen L [] = []"
| "totals_seen L ((rc, p) # rs) =
     (case if event_kind L rc p = ''token_count'' then codex_token_totals p else None of
        None \<Rightarrow> totals_seen L rs
      | Some t \<Rightarrow> t # totals_seen L rs)"

text \<open>The last place at which a sequence of totals decreases in some counter.\<close>

fun last_drop :: "token_totals \<Rightarrow> token_totals list \<Rightarrow> (token_totals \<times> token_totals) option" where
  "last_drop b [] = None"
| "last_drop b (t # ts) =
     (case last_drop t ts of
        Some x \<Rightarrow> Some x
      | None \<Rightarrow> if decreased_from t b then Some (b, t) else None)"

lemma last_drop_snoc:
  "last_drop b (ts @ [t]) =
     (if decreased_from t (last (b # ts)) then Some (last (b # ts), t) else last_drop b ts)"
  by (induction ts arbitrary: b) (auto split: option.split)

lemma last_drop_None: "last_drop b ts = None \<Longrightarrow> \<not> decreased_from (last (b # ts)) b"
  by (induction ts arbitrary: b) (auto split: option.splits if_splits, use decreased_from_trans in blast)

definition open_turn :: "string \<Rightarrow> time \<Rightarrow> token_totals \<Rightarrow> token_totals list \<Rightarrow> turn_cursor \<Rightarrow> bool" where
  "open_turn h st b ts cur \<longleftrightarrow>
     \<not> tc_AwaitingBaseline cur \<and> tc_LastTokens cur = last (b # ts) \<and>
     (\<exists>a. tc_Active cur = Some a \<and> at_TurnIDHash a = h \<and> at_StartedAt a = st \<and> at_Baseline a = b \<and>
        \<not> at_Inherited a \<and> at_Latest a = last (b # ts) \<and>
        (case last_drop b ts of
           None \<Rightarrow> \<not> at_CounterReset a
         | Some d \<Rightarrow> at_CounterReset a \<and> (at_ResetPrevious a, at_ResetCurrent a) = d))"

lemma open_turn_score: "open_turn h st b ts cur \<Longrightarrow> open_turn h st b ts (score_active L ty p pt cur)"
  unfolding open_turn_def score_active_simps by (elim conjE exE) (auto split: option.splits)

lemma open_turn_model: "open_turn h st b ts (cur\<lparr>tc_Model := m\<rparr>) \<longleftrightarrow> open_turn h st b ts cur"
  by (simp add: open_turn_def)

lemma open_turn_restart:
  "open_turn h st b ts cur \<Longrightarrow> i = [] \<or> hash_string L i = h \<Longrightarrow> start_codex_turn L i t inh cur = cur"
  by (auto simp: open_turn_def start_codex_turn_def Let_def)

lemma open_turn_totals: "open_turn h st b ts cur \<Longrightarrow> open_turn h st b (ts @ [t]) (set_totals t cur)"
  unfolding open_turn_def last_drop_snoc set_totals_def Let_def
  by (elim conjE exE) (auto split: option.splits)

text \<open>A record that neither ends the turn nor starts another one keeps it open.\<close>

lemma open_turn_step:
  assumes "open_turn h st b ts cur" and "\<not> ends_turn L rc p" and "starts_turn L rc p \<in> {None, Some h}"
    and "process_codex_record L s d obs emit cur rc p = (cur', out)"
  shows "out = Quiet \<and> open_turn h st b (ts @ totals_seen L [(rc, p)]) cur'"
proof -
  let ?i = "string_value p [''turn_id'']" and ?pt = "lower L (trim_space (string_value p [''type'']))"
  have ids: "cr_Type rc = ''turn_context'' \<or> event_kind L rc p = ''task_started'' \<Longrightarrow> ?i = [] \<or> hash_string L ?i = h"
    using assms(3) by (auto simp: starts_turn_def split: if_splits)
  consider (ctx) "cr_Type rc = ''turn_context''"
    | (start) "cr_Type rc = ''event_msg''" "?pt = ''task_started''"
    | (count) "cr_Type rc = ''event_msg''" "?pt = ''token_count''"
    | (other) "cr_Type rc \<noteq> ''turn_context''" "cr_Type rc \<noteq> ''event_msg'' \<or> ?pt \<notin> {''task_started'', ''token_count'', ''task_complete'', ''turn_aborted''}"
    using assms(2) by (cases "cr_Type rc = ''event_msg''") (auto simp: ends_turn_def event_kind_def)
  then show ?thesis
  proof cases
    case ctx
    let ?m = "string_value p [''model'']"
    let ?cur = "if ?m \<noteq> [] then cur\<lparr>tc_Model := ?m\<rparr> else cur"
    have "open_turn h st b ts ?cur" using assms(1) by (simp add: open_turn_model)
    moreover from this ids ctx have "start_codex_turn L ?i t inh ?cur = ?cur" for t inh
      by (intro open_turn_restart) auto
    ultimately show ?thesis
      using assms(4) ctx by (auto simp: process_codex_record_def Let_def event_kind_def open_turn_score)
  next
    case start
    with ids have "start_codex_turn L ?i t inh cur = cur" for t inh
      by (intro open_turn_restart [OF assms(1)]) (auto simp: event_kind_def)
    with start assms(1,4) show ?thesis
      by (auto simp: process_codex_record_def Let_def event_kind_def open_turn_score)
  next
    case count
    with assms(1,4) show ?thesis
      by (auto simp: process_codex_record_def Let_def event_kind_def update_codex_token_totals_def
          intro!: open_turn_score open_turn_totals split: option.splits)
  next
    case other
    with assms(1,4) show ?thesis
      by (auto simp: process_codex_record_def Let_def event_kind_def open_turn_score split: if_splits)
  qed
qed

lemma totals_seen_Cons: "totals_seen L (r # rs) = totals_seen L [r] @ totals_seen L rs"
  by (cases r) (simp split: option.split)

lemma open_turn_records:
  assumes "open_turn h st b ts cur"
    and "\<forall>(rc, p)\<in>set rs. \<not> ends_turn L rc p \<and> starts_turn L rc p \<in> {None, Some h}"
    and "process_all L s d obs emit cur rs = (cur', outs)"
  shows "outs = replicate (length rs) Quiet \<and> open_turn h st b (ts @ totals_seen L rs) cur'"
  using assms
proof (induction rs arbitrary: cur ts cur' outs)
  case (Cons r rs)
  obtain rc p where r: "r = (rc, p)" by fastforce
  obtain cur1 out1 where s1: "process_codex_record L s d obs emit cur rc p = (cur1, out1)" by fastforce
  obtain cur2 outs2 where s2: "process_all L s d obs emit cur1 rs = (cur2, outs2)" by fastforce
  have o1: "out1 = Quiet \<and> open_turn h st b (ts @ totals_seen L [(rc, p)]) cur1"
    by (rule open_turn_step [OF Cons.prems(1) _ _ s1]) (use Cons.prems(2) r in auto)
  have "outs2 = replicate (length rs) Quiet \<and> open_turn h st b ((ts @ totals_seen L [(rc, p)]) @ totals_seen L rs) cur2"
    by (rule Cons.IH [OF conjunct2 [OF o1] _ s2]) (use Cons.prems(2) in auto)
  with o1 Cons.prems(3) s1 s2 r totals_seen_Cons [of L "(rc, p)" rs] show ?case by simp
qed simp

lemma process_all_append:
  "process_all L s d obs emit cur (rs @ rs') =
     (fst (process_all L s d obs emit (fst (process_all L s d obs emit cur rs)) rs'),
      snd (process_all L s d obs emit cur rs) @ snd (process_all L s d obs emit (fst (process_all L s d obs emit cur rs)) rs'))"
  by (induction rs arbitrary: cur) (auto simp: case_prod_beta Let_def)

text \<open>What the totals counted during a turn make of it.\<close>

definition turn_outcome ::
  "go_lib \<Rightarrow> codex_session \<Rightarrow> string \<Rightarrow> bool \<Rightarrow> string \<Rightarrow> token_totals \<Rightarrow> token_totals list \<Rightarrow> codex_output \<Rightarrow> bool" where
  "turn_outcome L s d emit h b ts out \<longleftrightarrow>
     (case last_drop b ts of
        Some (before, after) \<Rightarrow>
          out = Counter_Reset \<lparr>cn_SessionIDHash = cs_SessionID s, cn_TurnIDHash = h, cn_Previous = before, cn_Current = after\<rparr>
      | None \<Rightarrow>
          if emit \<and> totals_total (totals_delta (last (b # ts)) b) > 0
          then (case out of
                  Turn u \<Rightarrow> tu_TurnIDHash u = h \<and> tu_SessionIDHash u = cs_SessionID s \<and>
                    tu_EventID u = stable_event_id L d (cs_SessionID s) h \<and> tu_Tokens u = totals_delta (last (b # ts)) b
                | _ \<Rightarrow> False)
          else out = Quiet)"

lemma open_turn_complete:
  assumes "open_turn h st b ts cur" and "ends_turn L rc p"
    and "string_value p [''turn_id''] = [] \<or> hash_string L (string_value p [''turn_id'']) = h"
    and "process_codex_record L s d obs emit cur rc p = (cur', out)"
  shows "tc_Active cur' = None \<and> turn_outcome L s d emit h b ts out"
proof -
  obtain a where a: "tc_Active cur = Some a" "at_TurnIDHash a = h" "at_Baseline a = b" "\<not> at_Inherited a"
    "at_Latest a = last (b # ts)"
    "case last_drop b ts of None \<Rightarrow> \<not> at_CounterReset a
       | Some d \<Rightarrow> at_CounterReset a \<and> (at_ResetPrevious a, at_ResetCurrent a) = d"
    using assms(1) unfolding open_turn_def by blast
  let ?pt = "lower L (trim_space (string_value p [''type'']))" and ?t = "parse_time L (cr_Timestamp rc) obs"
  have "process_codex_record L s d obs emit cur rc p = complete_codex_turn L s d cur p ?pt ?t emit"
    using assms(2) by (auto simp: process_codex_record_def ends_turn_def event_kind_def Let_def split: if_splits)
  then have r: "complete_codex_turn L s d cur p ?pt ?t emit = (cur', out)" using assms(4) by simp
  show ?thesis
  proof (cases "last_drop b ts")
    case None
    with a r assms(3) last_drop_None [OF None] show ?thesis
      by (auto simp: complete_codex_turn_def Let_def turn_outcome_def turn_of_def split: if_splits)
  next
    case (Some x)
    with a r assms(3) show ?thesis
      by (cases x) (auto simp: complete_codex_turn_def Let_def turn_outcome_def reset_of_def split: if_splits)
  qed
qed

text \<open>
  C18: From an idle rollout, a start, any records that neither end the turn nor start another
  one, and an end of that turn make one output, the last: a counter reset naming the last drop of
  the counted totals if one of them dropped, else the turn with the growth of the totals since its
  start, or nothing when that growth is zero or nothing is to be emitted.
\<close>

theorem codex_turn_lifecycle:
  assumes idle: "tc_Active cur = None" "\<not> tc_AwaitingBaseline cur"
    and start: "starts_turn L rc0 p0 = Some h" "h \<notin> set (cs_InheritedTurnIDHashes s)"
    and during: "\<forall>(rc, p)\<in>set rs. \<not> ends_turn L rc p \<and> starts_turn L rc p \<in> {None, Some h}"
    and finish: "ends_turn L rc1 p1"
      "string_value p1 [''turn_id''] = [] \<or> hash_string L (string_value p1 [''turn_id'']) = h"
    and run: "process_all L s d obs emit cur ((rc0, p0) # rs @ [(rc1, p1)]) = (cur', outs)"
  shows "\<exists>out. outs = replicate (Suc (length rs)) Quiet @ [out] \<and> tc_Active cur' = None \<and>
    turn_outcome L s d emit h (tc_LastTokens cur) (totals_seen L rs) out"
proof -
  obtain cur1 out1 where s1: "process_codex_record L s d obs emit cur rc0 p0 = (cur1, out1)" by fastforce
  obtain cur2 outs2 where s2: "process_all L s d obs emit cur1 rs = (cur2, outs2)" by fastforce
  obtain cur3 out3 where s3: "process_codex_record L s d obs emit cur2 rc1 p1 = (cur3, out3)" by fastforce
  have o1: "out1 = Quiet \<and> open_turn h (parse_time L (cr_Timestamp rc0) obs) (tc_LastTokens cur) [] cur1"
    using s1 start idle
    by (auto simp: starts_turn_def event_kind_def process_codex_record_def Let_def start_codex_turn_def open_turn_def
        split: if_splits)
  have o2: "outs2 = replicate (length rs) Quiet \<and>
      open_turn h (parse_time L (cr_Timestamp rc0) obs) (tc_LastTokens cur) ([] @ totals_seen L rs) cur2"
    by (rule open_turn_records [OF conjunct2 [OF o1] during s2])
  have "tc_Active cur3 = None \<and> turn_outcome L s d emit h (tc_LastTokens cur) (totals_seen L rs) out3"
    using open_turn_complete [OF conjunct2 [OF o2] finish s3] by simp
  then show ?thesis
    using run s1 s2 s3 o1 o2 by (auto simp: process_all_append)
qed

section \<open>Reported tokens, resumed scans and repeated collections\<close>

lemma scan_lines_reachable:
  "turn_reachable L cur \<Longrightarrow> turn_reachable L (fst (foldl (scan_line L decode s d obs emit) (cur, []) ls))"
proof (induction ls arbitrary: cur)
  case (Cons l ls)
  then show ?case
    using scan_line_reachable [OF Cons.prems, of decode s d obs emit l]
      scan_lines_Pair [of L decode s d obs emit "fst (scan_line L decode s d obs emit (cur, []) l)"
        "snd (scan_line L decode s d obs emit (cur, []) l)" ls]
    by simp
qed simp

text \<open>
  Over a scan, the turns of an idle rollout report together at most what each counter
  grew by: no token of the rollout is reported twice.
\<close>

theorem turn_tokens_within_growth:
  assumes "turn_reachable L cur" and "c \<in> {tt_Input, tt_Output, tt_CacheRead, tt_CacheWrite}"
    and "tc_Active cur = None"
    and "scan_codex L decode s d cur obs emit content = Inr (cur', outs)"
  shows "(\<Sum>out\<leftarrow>outs. out_tokens c out) \<le>
    scan_growth c (\<lambda>cur l. fst (scan_line L decode s d obs emit (cur, []) l)) cur
      (complete_lines [] (drop (nat (tc_Offset cur)) content))"
proof -
  have c: "c \<in> counters" using assms(2) by (simp add: counters_def)
  from assms(4) have r: "foldl (scan_line L decode s d obs emit) (cur, [])
      (complete_lines [] (drop (nat (tc_Offset cur)) content)) = (cur', outs)"
    by (simp add: scan_codex_Inr)
  have "turn_reachable L cur'"
    using scan_lines_reachable [OF assms(1)] r by (metis fst_conv)
  from turn_pending_nonneg [OF reachable_turn_inv [OF this] c] pending_lines [OF assms(1) c r] assms(3)
  show ?thesis by (simp add: turn_pending_def)
qed

text \<open>
  C19: A scan of a rollout, resumed at its cursor after lines were appended (even after half a
  line), gives the same cursor and the same turns as one scan of the whole file.
\<close>

theorem scan_resumes:
  assumes "tc_Offset cur \<le> int (length content)" and "int (length (content @ added)) < 2 ^ 63"
    and one: "scan_codex L decode s d cur obs emit content = Inr (cur1, outs1)"
    and two: "scan_codex L decode s d cur1 obs emit (content @ added) = Inr (cur2, outs2)"
  shows "scan_codex L decode s d cur obs emit (content @ added) = Inr (cur2, outs1 @ outs2)"
proof -
  let ?rest = "drop (nat (tc_Offset cur)) content"
  have len: "int (length content) < 2 ^ 63" using assms(2) by simp
  note rest = scan_codex_rest [OF one assms(1) len]
  have "drop (nat (tc_Offset cur1)) (content @ added) = open_line [] ?rest @ added"
    using rest by simp
  moreover have "CHR 0x0A \<notin> set (open_line [] ?rest)" by (rule open_line_no_LF) simp
  ultimately have tail: "complete_lines [] (drop (nat (tc_Offset cur1)) (content @ added)) = complete_lines (open_line [] ?rest) added"
    using complete_lines_open [of "open_line [] ?rest" "[]" added] by simp
  have "drop (nat (tc_Offset cur)) (content @ added) = ?rest @ added" using assms(1) by simp
  then have "complete_lines [] (drop (nat (tc_Offset cur)) (content @ added)) =
      complete_lines [] ?rest @ complete_lines [] (drop (nat (tc_Offset cur1)) (content @ added))"
    by (simp only: complete_lines_append tail)
  then show ?thesis
    using one two scan_lines_Pair [of L decode s d obs emit cur1 outs1] by (simp add: scan_codex_Inr)
      (metis prod.collapse fst_conv snd_conv)
qed

subsection \<open>Repeated collections\<close>

definition caught_up :: "go_lib \<Rightarrow> codex_input \<Rightarrow> string \<Rightarrow> turn_cursor \<Rightarrow> bool" where
  "caught_up L I path cur \<longleftrightarrow>
     tc_RolloutPathHash cur = hash_string L path \<and> 0 \<le> tc_Offset cur \<and>
     (\<exists>content. ci_files I path = Some content \<and> tc_Offset cur \<le> int (length content) \<and>
        CHR 0x0A \<notin> set (drop (nat (tc_Offset cur)) content))"

lemma scan_line_hash:
  "tc_RolloutPathHash (fst (scan_line L decode s d obs emit (cur, []) l)) = tc_RolloutPathHash cur"
  by (simp add: scan_line_def Let_def case_prod_beta split: option.split)

lemma scan_lines_hash:
  "tc_RolloutPathHash (fst (foldl (scan_line L decode s d obs emit) (cur, []) ls)) = tc_RolloutPathHash cur"
proof (induction ls arbitrary: cur)
  case (Cons l ls)
  then show ?case
    using scan_line_hash [of L decode s d obs emit cur l]
      scan_lines_Pair [of L decode s d obs emit "fst (scan_line L decode s d obs emit (cur, []) l)"
        "snd (scan_line L decode s d obs emit (cur, []) l)" ls]
    by simp
qed simp

lemma scan_caught_up:
  assumes scan: "scan_codex L decode s d cur obs emit content = Inr (cur', outs)"
    and "ci_files I path = Some content" and "tc_RolloutPathHash cur = hash_string L path"
    and "tc_Offset cur \<le> int (length content)" and "int (length content) < 2 ^ 63"
  shows "caught_up L I path cur'"
proof -
  note rest = scan_codex_rest [OF scan assms(4,5)]
  have "0 \<le> tc_Offset cur" using scan by (simp add: scan_codex_Inr)
  moreover have "CHR 0x0A \<notin> set (drop (nat (tc_Offset cur')) content)"
    unfolding rest(3) by (rule open_line_no_LF) simp
  moreover have "tc_RolloutPathHash cur' = hash_string L path"
    using scan scan_lines_hash [of L decode s d obs emit cur] assms(3) unfolding scan_codex_Inr by (metis fst_conv)
  ultimately show ?thesis using rest assms(2) by (simp add: caught_up_def)
qed

lemma seed_caught_up:
  assumes seed: "seed_codex_cursor L decode path (hash_string L path) obs content = Inr cur"
    and "ci_files I path = Some content" and "int (length content) < 2 ^ 63"
  shows "caught_up L I path cur"
proof -
  have off: "non_negative (sub64 (int (length content)) codex_seed_tail_bytes) \<le> int (length content)"
    using assms(3) by (simp add: non_negative_def codex_seed_tail_bytes_def sub64_nonneg_exact)
  from seed obtain cur1 outs s where
    scan: "scan_codex L decode s [] (new_turn_cursor (hash_string L path)
       (non_negative (sub64 (int (length content)) codex_seed_tail_bytes)) True) obs False content = Inr (cur1, outs)"
    and cur: "tc_Offset cur = tc_Offset cur1" "tc_RolloutPathHash cur = tc_RolloutPathHash cur1"
    by (fastforce simp: seed_codex_cursor_def Let_def)
  have "caught_up L I path cur1"
    by (rule scan_caught_up [OF scan assms(2) _ _ assms(3)]) (use off in \<open>simp_all add: new_turn_cursor_def\<close>)
  with cur show ?thesis by (simp add: caught_up_def)
qed

lemma fresh_caught_up:
  assumes "fresh_codex_cursor L I d first initialized byID s (hash_string L (cs_RolloutPath s)) content pending = Inr (cur, outs)"
    and f: "ci_files I (cs_RolloutPath s) = Some content" and len: "int (length content) < 2 ^ 63"
  shows "caught_up L I (cs_RolloutPath s) cur" and "first \<Longrightarrow> outs = []"
proof -
  let ?h = "hash_string L (cs_RolloutPath s)"
  have scan: "scan_codex L (ci_decode I) s' d (new_turn_cursor ?h 0 False) (observed_at I) True content = Inr (cur, outs) \<Longrightarrow>
      caught_up L I (cs_RolloutPath s) cur" for s' cur outs
    by (erule scan_caught_up [OF _ f _ _ len]) (simp_all add: new_turn_cursor_def)
  show "caught_up L I (cs_RolloutPath s) cur"
    using assms(1) unfolding fresh_codex_cursor_def Let_def
    by (auto split: if_splits option.splits intro: scan seed_caught_up [OF _ f len])
  show "first \<Longrightarrow> outs = []"
    using assms(1) unfolding fresh_codex_cursor_def Let_def by auto
qed

lemma resume_caught_up:
  assumes "resume_codex_cursor L I d s (hash_string L (cs_RolloutPath s)) cur0 content = Inr (cur, outs)"
    and f: "ci_files I (cs_RolloutPath s) = Some content" and len: "int (length content) < 2 ^ 63"
  shows "caught_up L I (cs_RolloutPath s) cur"
  using assms(1) unfolding resume_codex_cursor_def
  by (auto split: if_splits intro: scan_caught_up [OF _ f _ _ len] seed_caught_up [OF _ f len])

lemma resume_when_caught_up:
  assumes "caught_up L I path cur" and "path = cs_RolloutPath s"
    and "ci_files J path = ci_files I path" and "ci_files J path = Some content"
  shows "resume_codex_cursor L J d s (hash_string L path) cur content = Inr (cur, [])"
  using assms by (auto simp: resume_codex_cursor_def caught_up_def scan_codex_def complete_lines_none)

text \<open>A session whose rollout has been read to its last complete line.\<close>

definition settled :: "go_lib \<Rightarrow> codex_input \<Rightarrow> (string \<Rightarrow> turn_cursor option) \<Rightarrow> codex_session \<Rightarrow> bool" where
  "settled L I cursors s \<longleftrightarrow>
     (\<exists>cur. cursors (cs_SessionID s) = Some cur \<and> caught_up L I (cs_RolloutPath s) cur)"

definition files_bounded :: "codex_input \<Rightarrow> bool" where
  "files_bounded I \<longleftrightarrow> (\<forall>path content. ci_files I path = Some content \<longrightarrow> int (length content) < 2 ^ 63)"

lemma collect_session_step:
  assumes "collect_codex_session L I d enc first initialized cutover byID cursors s = Inr (cursors', outs)"
    and "\<not> skipped_session I s" and "files_bounded I"
  obtains cur where "cursors' = store_cursor s (hash_string L (cs_RolloutPath s)) cur cursors"
    and "caught_up L I (cs_RolloutPath s) cur"
    and "first \<Longrightarrow> outs = []"
proof -
  let ?s = "s\<lparr>cs_TotalEncoding := enc\<rparr>" and ?h = "hash_string L (cs_RolloutPath s)"
  from assms(2) obtain content where f: "ci_files I (cs_RolloutPath s) = Some content"
    by (auto simp: skipped_session_def)
  then have len: "int (length content) < 2 ^ 63" using assms(3) by (auto simp: files_bounded_def)
  have skip: "\<not> skipped_session I ?s" using assms(2) by (simp add: skipped_session_def)
  have store: "store_cursor ?s h c cs = store_cursor s h c cs" for h c cs by (simp add: store_cursor_def)
  have fresh: "caught_up L I (cs_RolloutPath s) cur \<and> (first \<longrightarrow> outs = [])"
    if "fresh_codex_cursor L I d first initialized byID ?s ?h content pending = Inr (cur, outs)" for pending cur outs
    using fresh_caught_up [of L I d first initialized byID ?s content pending cur outs] that f len by (cases first) simp_all
  have resume: "caught_up L I (cs_RolloutPath s) cur"
    if "resume_codex_cursor L I d ?s ?h cur0 content = Inr (cur, outs)" for cur0 cur outs
    using resume_caught_up [of L I d ?s cur0 content cur outs] that f len by simp
  have "\<exists>cur. cursors' = store_cursor s ?h cur cursors \<and>
      ((\<exists>pending. fresh_codex_cursor L I d first initialized byID ?s ?h content pending = Inr (cur, outs)) \<or>
       \<not> first \<and> (\<exists>cur0. resume_codex_cursor L I d ?s ?h cur0 content = Inr (cur, outs)))"
    using assms(1) skip f unfolding collect_codex_session_def Let_def
    by (auto simp: store split: sum.splits option.splits if_splits)
  then show ?thesis using that fresh resume by blast
qed

lemma store_cursor_own: "\<exists>c. store_cursor s h cur cursors (cs_SessionID s) = Some c \<and> (c = cur)"
  by (auto simp: store_cursor_def Let_def split: option.split)

lemma store_cursor_other:
  assumes "store_cursor s h cur cursors k = c" and "k \<noteq> cs_SessionID s"
  shows "c = cursors k \<or> c = Some cur \<and> (\<exists>old. cursors k = Some old \<and> tc_RolloutPathHash old = h)"
  using assms by (auto simp: store_cursor_def Let_def split: option.splits if_splits)

definition distinct_sessions :: "go_lib \<Rightarrow> codex_session list \<Rightarrow> bool" where
  "distinct_sessions L ss \<longleftrightarrow>
     distinct (map cs_SessionID ss) \<and> inj_on (hash_string L) (set (map cs_RolloutPath ss))"

lemma settled_store:
  assumes "settled L I cursors t" and "cs_SessionID t \<noteq> cs_SessionID s"
    and "caught_up L I (cs_RolloutPath s) cur"
    and "inj_on (hash_string L) {cs_RolloutPath s, cs_RolloutPath t}"
  shows "settled L I (store_cursor s (hash_string L (cs_RolloutPath s)) cur cursors) t"
proof -
  obtain c where c: "cursors (cs_SessionID t) = Some c" "caught_up L I (cs_RolloutPath t) c"
    using assms(1) by (auto simp: settled_def)
  have hc: "tc_RolloutPathHash c = hash_string L (cs_RolloutPath t)"
    using c(2) by (simp add: caught_up_def)
  have same: "cs_RolloutPath t = cs_RolloutPath s" if "hash_string L (cs_RolloutPath t) = hash_string L (cs_RolloutPath s)"
    using inj_onD [OF assms(4) that] by simp
  let ?c' = "store_cursor s (hash_string L (cs_RolloutPath s)) cur cursors (cs_SessionID t)"
  from store_cursor_other [OF refl assms(2), of "hash_string L (cs_RolloutPath s)" cur cursors]
  have "?c' = Some c \<or> ?c' = Some cur \<and> cs_RolloutPath t = cs_RolloutPath s"
    unfolding c(1) using hc same by auto
  then show ?thesis
    unfolding settled_def using c(2) assms(3) by (metis (no_types))
qed

lemma collect_session_settles:
  assumes step: "collect_codex_session L I d enc first initialized cutover byID cursors s = Inr (cursors', outs)"
    and b: "files_bounded I"
  shows "\<not> skipped_session I s \<Longrightarrow> settled L I cursors' s"
    and "settled L I cursors t \<Longrightarrow> cs_SessionID t \<noteq> cs_SessionID s \<Longrightarrow>
      inj_on (hash_string L) {cs_RolloutPath s, cs_RolloutPath t} \<Longrightarrow> settled L I cursors' t"
    and "first \<Longrightarrow> outs = []"
proof -
  have step': "\<exists>cur. cursors' = store_cursor s (hash_string L (cs_RolloutPath s)) cur cursors \<and>
      caught_up L I (cs_RolloutPath s) cur \<and> (first \<longrightarrow> outs = [])" if "\<not> skipped_session I s"
    using collect_session_step [OF step that b] by metis
  have skip: "cursors' = cursors \<and> outs = []" if "skipped_session I s"
    using step that by (simp add: collect_codex_session_def Let_def skipped_session_def)
  show "settled L I cursors' s" if "\<not> skipped_session I s"
    using step' [OF that] store_cursor_own by (fastforce simp: settled_def)
  show "settled L I cursors' t" if t: "settled L I cursors t" "cs_SessionID t \<noteq> cs_SessionID s"
    "inj_on (hash_string L) {cs_RolloutPath s, cs_RolloutPath t}"
  proof (cases "skipped_session I s")
    case True
    with skip t(1) show ?thesis by simp
  next
    case False
    from step' [OF this] settled_store [OF t(1,2) _ t(3)] show ?thesis by blast
  qed
  show "outs = []" if first
    using skip step' that by blast
qed

lemma collect_loop_settles:
  assumes "collect_codex_loop (collect_codex_session L I d enc first initialized cutover byID) cursors ss = Inr (cursors', outs)"
    and "distinct_sessions L (seen @ ss)" and "files_bounded I"
    and "\<forall>s\<in>set seen. \<not> skipped_session I s \<longrightarrow> settled L I cursors s"
  shows "(\<forall>s\<in>set (seen @ ss). \<not> skipped_session I s \<longrightarrow> settled L I cursors' s) \<and> (first \<longrightarrow> outs = [])"
  using assms(1,2,4)
proof (induction ss arbitrary: cursors outs seen)
  case (Cons s ss)
  obtain c1 o1 o2 where step: "collect_codex_session L I d enc first initialized cutover byID cursors s = Inr (c1, o1)"
    and rest: "collect_codex_loop (collect_codex_session L I d enc first initialized cutover byID) c1 ss = Inr (cursors', o2)"
    and o: "outs = o1 @ o2"
    using Cons.prems(1) by auto
  note settles = collect_session_settles [OF step assms(3)]
  have "settled L I c1 t" if "t \<in> set (seen @ [s])" "\<not> skipped_session I t" for t
  proof (cases "t = s")
    case False
    then have t: "t \<in> set seen" using that(1) by simp
    have inj: "inj_on (hash_string L) (set (map cs_RolloutPath (seen @ s # ss)))"
      and ids: "cs_SessionID s \<notin> cs_SessionID ` set seen"
      using Cons.prems(2) by (simp_all add: distinct_sessions_def)
    show ?thesis
    proof (rule settles(2))
      show "settled L I cursors t" using t that(2) Cons.prems(3) by blast
      show "cs_SessionID t \<noteq> cs_SessionID s" using imageI [OF t, of cs_SessionID] ids by metis
      show "inj_on (hash_string L) {cs_RolloutPath s, cs_RolloutPath t}"
        by (rule inj_on_subset [OF inj]) (use t in auto)
    qed
  qed (use settles(1) that in simp)
  then have "\<forall>t\<in>set (seen @ [s]). \<not> skipped_session I t \<longrightarrow> settled L I c1 t" by blast
  from Cons.IH [OF rest _ this] Cons.prems(2) settles(3) o show ?case by auto
qed simp_all

lemma collect_codex_Inr:
  assumes "collect_codex L I d enc sessions store = Inr (store', outs)"
  shows "collect_codex_loop
      (collect_codex_session L I d enc (trim_space (ts_InitializedAt store) = []) (parse_or_zero L (ts_InitializedAt store))
        (if is_zero (parse_or_zero L (ts_CodexIdentityCutoverAt store)) then observed_at I
         else parse_or_zero L (ts_CodexIdentityCutoverAt store)) (sessions_by_id sessions))
      (ts_Sessions store) sessions = Inr (ts_Sessions store', outs)"
    and "ts_InitializedAt store' =
      (if trim_space (ts_InitializedAt store) = [] then format_rfc3339 L (observed_at I) else ts_InitializedAt store)"
  using assms by (auto simp: collect_codex_def Let_def)

lemma settled_session_quiet:
  assumes s: "\<not> skipped_session I s \<longrightarrow> settled L I cursors s" and files: "ci_files J = ci_files I"
  shows "\<exists>cursors'. collect_codex_session L J d enc False initialized cutover byID cursors s = Inr (cursors', [])"
proof (cases "skipped_session I s")
  case True
  then show ?thesis
    using files by (simp add: collect_codex_session_def Let_def skipped_session_def)
next
  case False
  then obtain cur content where cur: "cursors (cs_SessionID s) = Some cur" "caught_up L I (cs_RolloutPath s) cur"
    and f: "ci_files I (cs_RolloutPath s) = Some content"
    using s by (auto simp: settled_def skipped_session_def)
  have "\<not> skipped_session J (s\<lparr>cs_TotalEncoding := enc\<rparr>)" using False files by (simp add: skipped_session_def)
  moreover have "resume_codex_cursor L J d (s\<lparr>cs_TotalEncoding := enc\<rparr>) (hash_string L (cs_RolloutPath s)) cur content = Inr (cur, [])"
    by (rule resume_when_caught_up [OF cur(2)]) (use files f in simp_all)
  ultimately show ?thesis
    using cur(1) f files by (simp add: collect_codex_session_def Let_def)
qed

lemma settled_loop_quiet:
  assumes "\<forall>s\<in>set (seen @ ss). \<not> skipped_session I s \<longrightarrow> settled L I cursors s"
    and "ci_files J = ci_files I" and "distinct_sessions L (seen @ ss)" and "files_bounded I"
  shows "\<exists>cursors'. collect_codex_loop (collect_codex_session L J d enc False initialized cutover byID) cursors ss = Inr (cursors', [])"
  using assms(1,3)
proof (induction ss arbitrary: cursors seen)
  case (Cons s ss)
  obtain c1 where step: "collect_codex_session L J d enc False initialized cutover byID cursors s = Inr (c1, [])"
    using settled_session_quiet [of I s L cursors J d enc initialized cutover byID] Cons.prems(1) assms(2) by auto
  have J: "files_bounded J" "skipped_session J = skipped_session I" "settled L J = settled L I"
    using assms(2,4) by (auto simp: files_bounded_def skipped_session_def settled_def caught_up_def fun_eq_iff)
  note settles = collect_session_settles [OF step J(1), unfolded J]
  have inj: "inj_on (hash_string L) (set (map cs_RolloutPath (seen @ s # ss)))"
    and ids: "cs_SessionID s \<notin> cs_SessionID ` (set seen \<union> set ss)"
    using Cons.prems(2) by (auto simp: distinct_sessions_def)
  have "settled L I c1 t" if t: "t \<in> set ((seen @ [s]) @ ss)" "\<not> skipped_session I t" for t
  proof (cases "t = s")
    case False
    then have mem: "t \<in> set seen \<union> set ss" using t(1) by auto
    show ?thesis
    proof (rule settles(2))
      show "settled L I cursors t" using mem t(2) Cons.prems(1) by auto
      show "cs_SessionID t \<noteq> cs_SessionID s" using imageI [OF mem, of cs_SessionID] ids by metis
      show "inj_on (hash_string L) {cs_RolloutPath s, cs_RolloutPath t}"
        by (rule inj_on_subset [OF inj]) (use mem in auto)
    qed
  qed (use settles(1) t in simp)
  then have "\<forall>t\<in>set ((seen @ [s]) @ ss). \<not> skipped_session I t \<longrightarrow> settled L I c1 t" by blast
  from Cons.IH [OF this] Cons.prems(2) step show ?case by auto
qed simp

text \<open>
  C20: A second collection over unchanged rollouts succeeds and reports nothing, and the
  first collection of all reports nothing either.
\<close>

theorem repeated_collection_is_quiet:
  assumes first: "collect_codex L I d enc sessions store = Inr (store', outs)"
    and same: "ci_files J = ci_files I" "\<forall>path content. ci_files I path = Some content \<longrightarrow> int (length content) < 2 ^ 63"
    and ids: "distinct (map cs_SessionID sessions)" "inj_on (hash_string L) (set (map cs_RolloutPath sessions))"
    and clock: "trim_space (format_rfc3339 L (observed_at I)) \<noteq> []"
  shows "(\<exists>store''. collect_codex L J d enc sessions store' = Inr (store'', [])) \<and>
    (trim_space (ts_InitializedAt store) = [] \<longrightarrow> outs = [])"
proof (rule conjI)
  have b: "files_bounded I" using same(2) by (simp add: files_bounded_def)
  have dist: "distinct_sessions L ([] @ sessions)" using ids by (simp add: distinct_sessions_def)
  note loop = collect_loop_settles [OF collect_codex_Inr(1) [OF first] dist b]
  then show "trim_space (ts_InitializedAt store) = [] \<longrightarrow> outs = []" by simp
  have "\<not> trim_space (ts_InitializedAt store') = []"
    using collect_codex_Inr(2) [OF first] clock by (auto split: if_splits)
  moreover obtain cursors' where
    "collect_codex_loop (collect_codex_session L J d enc False (parse_or_zero L (ts_InitializedAt store'))
        (if is_zero (parse_or_zero L (ts_CodexIdentityCutoverAt store')) then observed_at J
         else parse_or_zero L (ts_CodexIdentityCutoverAt store')) (sessions_by_id sessions))
      (ts_Sessions store') sessions = Inr (cursors', [])"
    using settled_loop_quiet [of "[]" sessions I L "ts_Sessions store'" J] loop same(1) dist b by fastforce
  ultimately show "\<exists>store''. collect_codex L J d enc sessions store' = Inr (store'', [])"
    by (simp add: collect_codex_def Let_def)
qed

section \<open>Witnesses\<close>

definition rollout_record :: "string \<Rightarrow> (string \<times> gval) list \<Rightarrow> codex_record \<times> payload" where
  "rollout_record kind extra =
     (\<lparr>cr_Timestamp = ''tt'', cr_Type = ''event_msg'', cr_Payload = Some (map_of ((''type'', GString kind) # extra))\<rparr>,
      map_of ((''type'', GString kind) # extra))"

definition started_record :: "codex_record \<times> payload" where
  "started_record = rollout_record ''task_started'' [(''turn_id'', GString ''T1'')]"

definition counted_record :: "int \<Rightarrow> codex_record \<times> payload" where
  "counted_record n = rollout_record ''token_count''
     [(''info'', GMap [(''total_token_usage'', GMap [(''input_tokens'', GInt64 n), (''output_tokens'', GInt64 2)])])]"

definition completed_record :: "codex_record \<times> payload" where
  "completed_record = rollout_record ''task_complete'' []"

text \<open>A decoder for rollouts whose lines are one letter each.\<close>

definition letter_decoder :: "string \<Rightarrow> codex_record option" where
  "letter_decoder line =
     (if line = ''s'' @ [CHR 0x0A] then Some (fst started_record)
      else if line = ''n'' @ [CHR 0x0A] then Some (fst (counted_record 5))
      else if line = ''m'' @ [CHR 0x0A] then Some (fst (counted_record 9))
      else if line = ''e'' @ [CHR 0x0A] then Some (fst completed_record) else None)"

definition some_session :: "string \<Rightarrow> codex_session" where
  "some_session sid =
     \<lparr>cs_SessionID = sid, cs_LegacySessionID = [], cs_ParentSessionID = [], cs_RolloutPath = sid @ ''p'',
      cs_Title = [], cs_Model = ''m'', cs_Repo = [], cs_ModelProvider = [], cs_InheritedTurnIDHashes = [],
      cs_TotalEncoding = total_encoding_effective\<rparr>"

definition idle_cursor :: turn_cursor where
  "idle_cursor = new_turn_cursor ''h'' 0 False"

theorem codex_turn_lifecycle_witness:
  "\<exists>out. snd (process_all lib0 (some_session ''A'') ''d'' 0 True idle_cursor
       ([started_record] @ [counted_record 5, counted_record 9] @ [completed_record])) = [Quiet, Quiet, Quiet, out] \<and>
     turn_outcome lib0 (some_session ''A'') ''d'' True (hash_string lib0 ''T1'') (tc_LastTokens idle_cursor)
       (totals_seen lib0 [counted_record 5, counted_record 9]) out \<and>
     map tt_Input (totals_seen lib0 [counted_record 5, counted_record 9]) = [5, 9]"
proof -
  have "tc_Active idle_cursor = None" "\<not> tc_AwaitingBaseline idle_cursor"
    by (simp_all add: idle_cursor_def new_turn_cursor_def)
  moreover have "starts_turn lib0 (fst started_record) (snd started_record) = Some (hash_string lib0 ''T1'')"
    "hash_string lib0 ''T1'' \<notin> set (cs_InheritedTurnIDHashes (some_session ''A''))" by code_simp+
  moreover have "\<forall>(rc, p)\<in>set [counted_record 5, counted_record 9].
      \<not> ends_turn lib0 rc p \<and> starts_turn lib0 rc p \<in> {None, Some (hash_string lib0 ''T1'')}" by code_simp
  moreover have "ends_turn lib0 (fst completed_record) (snd completed_record)"
    "string_value (snd completed_record) [''turn_id''] = [] \<or>
     hash_string lib0 (string_value (snd completed_record) [''turn_id'']) = hash_string lib0 ''T1''" by code_simp+
  moreover have "process_all lib0 (some_session ''A'') ''d'' 0 True idle_cursor
      ((fst started_record, snd started_record) # [counted_record 5, counted_record 9] @ [(fst completed_record, snd completed_record)]) =
      (fst (process_all lib0 (some_session ''A'') ''d'' 0 True idle_cursor
        (started_record # [counted_record 5, counted_record 9] @ [completed_record])),
       snd (process_all lib0 (some_session ''A'') ''d'' 0 True idle_cursor
        (started_record # [counted_record 5, counted_record 9] @ [completed_record])))"
    by simp
  ultimately have "\<exists>out. snd (process_all lib0 (some_session ''A'') ''d'' 0 True idle_cursor
        (started_record # [counted_record 5, counted_record 9] @ [completed_record])) =
        replicate (Suc (length [counted_record 5, counted_record 9])) Quiet @ [out] \<and>
     tc_Active (fst (process_all lib0 (some_session ''A'') ''d'' 0 True idle_cursor
        (started_record # [counted_record 5, counted_record 9] @ [completed_record]))) = None \<and>
     turn_outcome lib0 (some_session ''A'') ''d'' True (hash_string lib0 ''T1'') (tc_LastTokens idle_cursor)
       (totals_seen lib0 [counted_record 5, counted_record 9]) out"
    by (rule codex_turn_lifecycle)
  moreover have "map tt_Input (totals_seen lib0 [counted_record 5, counted_record 9]) = [5, 9]" by code_simp
  ultimately show ?thesis by auto
qed

definition letters :: "string \<Rightarrow> string" where
  "letters s = concat (map (\<lambda>c. [c, CHR 0x0A]) s)"

definition letters_scan :: "string \<Rightarrow> turn_cursor \<times> codex_output list" where
  "letters_scan s = foldl (scan_line lib0 letter_decoder (some_session ''A'') ''d'' 0 True) (idle_cursor, [])
     (complete_lines [] (letters s))"

lemma letters_scan_codex:
  "scan_codex lib0 letter_decoder (some_session ''A'') ''d'' idle_cursor 0 True (letters s) =
     Inr (fst (letters_scan s), snd (letters_scan s))"
  by (simp add: scan_codex_def letters_scan_def idle_cursor_def new_turn_cursor_def)

theorem turn_tokens_within_growth_witness:
  "(\<Sum>out\<leftarrow>snd (letters_scan ''snmesne''). out_tokens tt_Input out) \<le>
     scan_growth tt_Input
       (\<lambda>cur l. fst (scan_line lib0 letter_decoder (some_session ''A'') ''d'' 0 True (cur, []) l))
       idle_cursor (complete_lines [] (letters ''snmesne'')) \<and>
   (\<Sum>out\<leftarrow>snd (letters_scan ''snmesne''). out_tokens tt_Input out) = 9"
proof
  have r: "turn_reachable lib0 idle_cursor" unfolding idle_cursor_def by (rule turn_reachable.initial)
  have c: "tt_Input \<in> {tt_Input, tt_Output, tt_CacheRead, tt_CacheWrite}" by simp
  have i: "tc_Active idle_cursor = None" "tc_Offset idle_cursor = 0"
    by (simp_all add: idle_cursor_def new_turn_cursor_def)
  show "(\<Sum>out\<leftarrow>snd (letters_scan ''snmesne''). out_tokens tt_Input out) \<le>
     scan_growth tt_Input
       (\<lambda>cur l. fst (scan_line lib0 letter_decoder (some_session ''A'') ''d'' 0 True (cur, []) l))
       idle_cursor (complete_lines [] (letters ''snmesne''))"
    using turn_tokens_within_growth [OF r c i(1) letters_scan_codex [of "''snmesne''"]] i(2) by simp
  show "(\<Sum>out\<leftarrow>snd (letters_scan ''snmesne''). out_tokens tt_Input out) = 9" by code_simp
qed

theorem scan_resumes_witness:
  "scan_codex lib0 letter_decoder (some_session ''A'') ''d'' idle_cursor 0 True (letters ''sn'' @ letters ''me'') =
     Inr (letters_scan ''snme'') \<and> length (snd (letters_scan ''snme'')) = 1"
proof
  let ?c = "letters ''sn''" and ?c' = "letters ''sn'' @ letters ''me''"
  let ?cur1 = "fst (letters_scan ''sn'')"
  let ?two = "foldl (scan_line lib0 letter_decoder (some_session ''A'') ''d'' 0 True) (?cur1, [])
     (complete_lines [] (drop (nat (tc_Offset ?cur1)) ?c'))"
  have "tc_Offset idle_cursor \<le> int (length ?c)" "int (length ?c') < 2 ^ 63" by code_simp+
  moreover note letters_scan_codex [of "''sn''"]
  moreover have "tc_Offset ?cur1 \<ge> 0" by code_simp
  then have "scan_codex lib0 letter_decoder (some_session ''A'') ''d'' ?cur1 0 True ?c' = Inr (fst ?two, snd ?two)"
    by (simp add: scan_codex_def)
  ultimately have r: "scan_codex lib0 letter_decoder (some_session ''A'') ''d'' idle_cursor 0 True ?c' =
      Inr (fst ?two, snd (letters_scan ''sn'') @ snd ?two)"
    by (rule scan_resumes)
  have "?c' = letters ''snme''" by (simp add: letters_def)
  then show "scan_codex lib0 letter_decoder (some_session ''A'') ''d'' idle_cursor 0 True ?c' = Inr (letters_scan ''snme'')"
    using letters_scan_codex [of "''snme''"] r by simp
  show "length (snd (letters_scan ''snme'')) = 1" by code_simp
qed

definition some_input :: codex_input where
  "some_input = \<lparr>ci_decode = letter_decoder,
     ci_files = map_of [(''Ap'', letters ''snme''), (''Bp'', letters ''sn'' @ ''m'')],
     ci_observedAt = 0, ci_now = 0\<rparr>"

definition some_store :: turn_store where
  "some_store = \<lparr>ts_InitializedAt = ''t'', ts_CodexIdentityCutoverAt = ''t'', ts_Sessions = Map.empty\<rparr>"

theorem repeated_collection_is_quiet_witness:
  "\<exists>store' outs store''.
     collect_codex lib0 some_input ''d'' total_encoding_effective [some_session ''A'', some_session ''B''] some_store = Inr (store', outs) \<and>
     length outs = 1 \<and>
     collect_codex lib0 some_input ''d'' total_encoding_effective [some_session ''A'', some_session ''B''] store' = Inr (store'', [])"
proof -
  let ?ss = "[some_session ''A'', some_session ''B'']"
  have "case collect_codex lib0 some_input ''d'' total_encoding_effective ?ss some_store of
      Inr (store', outs) \<Rightarrow> length outs = 1 | Inl e \<Rightarrow> False" by code_simp
  then obtain store' outs where first: "collect_codex lib0 some_input ''d'' total_encoding_effective ?ss some_store = Inr (store', outs)"
    and one: "length outs = 1"
    by (auto split: sum.splits)
  have files: "\<forall>path content. ci_files some_input path = Some content \<longrightarrow> int (length content) < 2 ^ 63"
    by (auto simp: some_input_def letters_def)
  have "distinct (map cs_SessionID ?ss)" "inj_on (hash_string lib0) (set (map cs_RolloutPath ?ss))"
    "trim_space (format_rfc3339 lib0 (observed_at some_input)) \<noteq> []"
    unfolding inj_on_def by code_simp+
  from repeated_collection_is_quiet [OF first refl files this] first one show ?thesis by blast
qed

end
