(* ===== verification/Turn_Claude.thy ===== *)
theory Turn_Claude
  imports Turn_Usage
begin

text \<open>
  \<open>pkg/turn/claude.go\<close>: the collection of finished Claude turns. A cursor per session holds
  the end of the last turn taken and the turns taken at that instant; saving the store is
  the store the collection returns, \<open>None\<close> when there is nothing to save.
\<close>

section \<open>Sessions and cursors\<close>

record claude_turn =
  ct_TurnID :: string
  ct_Status :: string
  ct_StartedAt :: time
  ct_EndedAt :: time
  ct_Model :: string
  ct_Repo :: string
  ct_Tokens :: token_totals
  ct_Evidence :: "evidence list"
  ct_ModelProvider :: string
  ct_Inherited :: bool

record claude_session =
  cls_SessionIDHash :: string
  cls_FirstEventAt :: time
  cls_SeedOnly :: bool
  cls_Turns :: "claude_turn list"

text \<open>\<open>SeenTurnHashes\<close> is the list of the keys that map to true.\<close>

record claude_session_cursor =
  csc_LastEndedAt :: string
  csc_SeenTurnHashes :: "string list"

record claude_cursor_store =
  ccs_InitializedAt :: string
  ccs_Sessions :: "string \<Rightarrow> claude_session_cursor option"

record turn_config =
  tcf_DaemonID :: string
  tcf_TotalEncoding :: string

definition empty_claude_cursor :: claude_session_cursor where
  "empty_claude_cursor = \<lparr>csc_LastEndedAt = [], csc_SeenTurnHashes = []\<rparr>"

definition claude_turn_after_cursor :: "go_lib \<Rightarrow> claude_session_cursor \<Rightarrow> time \<Rightarrow> string \<Rightarrow> bool" where
  "claude_turn_after_cursor L cursor endedAt turnIDHash \<longleftrightarrow>
     (case parse_rfc3339 L (csc_LastEndedAt cursor) of
        None \<Rightarrow> turnIDHash \<notin> set (csc_SeenTurnHashes cursor)
      | Some lastEndedAt \<Rightarrow>
          endedAt > lastEndedAt \<or> (endedAt = lastEndedAt \<and> turnIDHash \<notin> set (csc_SeenTurnHashes cursor)))"

definition advance_claude_cursor :: "go_lib \<Rightarrow> claude_session_cursor \<Rightarrow> time \<Rightarrow> string \<Rightarrow> claude_session_cursor" where
  "advance_claude_cursor L cursor endedAt turnIDHash =
     (let value = format_rfc3339 L endedAt;
          seen = (if csc_LastEndedAt cursor \<noteq> value then [] else csc_SeenTurnHashes cursor)
      in \<lparr>csc_LastEndedAt = value, csc_SeenTurnHashes = turnIDHash # seen\<rparr>)"

section \<open>The collection\<close>

text \<open>The order of the turns: by their end, then by their identifier.\<close>

definition sorted_turns :: "claude_turn list \<Rightarrow> claude_turn list" where
  "sorted_turns ts = sort_key ct_EndedAt (sort_key ct_TurnID ts)"

definition usable_turn :: "claude_turn \<Rightarrow> bool" where
  "usable_turn t \<longleftrightarrow>
     \<not> (ct_TurnID t = [] \<or> totals_total (ct_Tokens t) \<le> 0 \<or> is_zero (ct_StartedAt t) \<or> ct_EndedAt t < ct_StartedAt t)"

definition turn_id_hash :: "go_lib \<Rightarrow> claude_turn \<Rightarrow> string" where
  "turn_id_hash L t = hash_string L (trim_space (ct_TurnID t))"

definition reported_claude_turn :: "go_lib \<Rightarrow> turn_config \<Rightarrow> claude_session \<Rightarrow> claude_turn \<Rightarrow> turn_usage" where
  "reported_claude_turn L cfg session t =
     \<lparr>tu_EventID = stable_event_id L (tcf_DaemonID cfg) (cls_SessionIDHash session) (turn_id_hash L t),
      tu_SessionIDHash = cls_SessionIDHash session,
      tu_TurnIDHash = turn_id_hash L t,
      tu_Status = (if lower L (trim_space (ct_Status t)) \<noteq> ''aborted'' then ''completed'' else ''aborted''),
      tu_Title = [],
      tu_StartedAt = ct_StartedAt t,
      tu_EndedAt = ct_EndedAt t,
      tu_Model = ct_Model t,
      tu_Repo = ct_Repo t,
      tu_ModelProvider = ct_ModelProvider t,
      tu_Tokens = ct_Tokens t,
      tu_WorkType = classify_evidence L (ct_Evidence t),
      tu_TotalEncoding = tcf_TotalEncoding cfg\<rparr>"

fun claude_turn_loop ::
  "go_lib \<Rightarrow> turn_config \<Rightarrow> claude_session \<Rightarrow> bool \<Rightarrow> claude_session_cursor \<Rightarrow> claude_turn list \<Rightarrow>
   claude_session_cursor \<times> turn_usage list \<times> bool" where
  "claude_turn_loop L cfg session emit cursor [] = (cursor, [], False)"
| "claude_turn_loop L cfg session emit cursor (t # ts) =
     (if \<not> usable_turn t \<or> \<not> claude_turn_after_cursor L cursor (ct_EndedAt t) (turn_id_hash L t)
      then claude_turn_loop L cfg session emit cursor ts
      else let (cursor1, evs, dirty) =
                 claude_turn_loop L cfg session emit (advance_claude_cursor L cursor (ct_EndedAt t) (turn_id_hash L t)) ts
           in (cursor1, (if emit \<and> \<not> ct_Inherited t then [reported_claude_turn L cfg session t] else []) @ evs, True))"

definition collect_claude_session ::
  "go_lib \<Rightarrow> turn_config \<Rightarrow> bool \<Rightarrow> time \<Rightarrow> (string \<Rightarrow> claude_session_cursor option) \<Rightarrow> claude_session \<Rightarrow>
   (string \<Rightarrow> claude_session_cursor option) \<times> turn_usage list \<times> bool" where
  "collect_claude_session L cfg firstCollection initializedAt cursors session =
     (if trim_space (cls_SessionIDHash session) = [] then (cursors, [], False)
      else let found = cursors (cls_SessionIDHash session);
               cursor = (case found of Some c \<Rightarrow> c | None \<Rightarrow> empty_claude_cursor);
               emit = (\<not> cls_SeedOnly session \<and> \<not> firstCollection \<and>
                       (found \<noteq> None \<or> \<not> cls_FirstEventAt session < initializedAt));
               (cursor1, evs, dirty) = claude_turn_loop L cfg session emit cursor (sorted_turns (cls_Turns session))
           in (cursors(cls_SessionIDHash session \<mapsto> cursor1), evs, found = None \<or> dirty))"

fun collect_claude_loop ::
  "go_lib \<Rightarrow> turn_config \<Rightarrow> bool \<Rightarrow> time \<Rightarrow> (string \<Rightarrow> claude_session_cursor option) \<Rightarrow> claude_session list \<Rightarrow>
   (string \<Rightarrow> claude_session_cursor option) \<times> turn_usage list \<times> bool" where
  "collect_claude_loop L cfg first initialized cursors [] = (cursors, [], False)"
| "collect_claude_loop L cfg first initialized cursors (s # ss) =
     (let (next, evs, dirty) = collect_claude_session L cfg first initialized cursors s;
          (fin, more, dirty') = collect_claude_loop L cfg first initialized next ss
      in (fin, evs @ more, dirty \<or> dirty'))"

definition collect_claude ::
  "go_lib \<Rightarrow> turn_config \<Rightarrow> claude_session list \<Rightarrow> time \<Rightarrow> time \<Rightarrow> claude_cursor_store \<Rightarrow> turn_usage list \<times> claude_cursor_store option" where
  "collect_claude L cfg sessions observedAt0 now store =
     (let observedAt = (if is_zero observedAt0 then now else observedAt0);
          firstCollection = (trim_space (ccs_InitializedAt store) = []);
          initializedAt = (case parse_rfc3339 L (ccs_InitializedAt store) of Some t \<Rightarrow> t | None \<Rightarrow> zero_time);
          (cursors, evs, dirty) =
            collect_claude_loop L cfg firstCollection initializedAt (ccs_Sessions store) (sort_key cls_SessionIDHash sessions)
      in (evs,
          if firstCollection \<or> dirty
          then Some \<lparr>ccs_InitializedAt = (if firstCollection then format_rfc3339 L observedAt else ccs_InitializedAt store),
                     ccs_Sessions = cursors\<rparr>
          else None))"

text \<open>The store on disk after the collection is committed.\<close>

definition committed :: "claude_cursor_store \<Rightarrow> claude_cursor_store option \<Rightarrow> claude_cursor_store" where
  "committed store commit = (case commit of Some next \<Rightarrow> next | None \<Rightarrow> store)"

section \<open>Cursors cover what was taken\<close>

definition cursor_ok :: "go_lib \<Rightarrow> claude_session_cursor \<Rightarrow> bool" where
  "cursor_ok L c \<longleftrightarrow>
     c = empty_claude_cursor \<or> (\<exists>l. csc_LastEndedAt c = format_rfc3339 L l \<and> parse_rfc3339 L (format_rfc3339 L l) = Some l)"

definition covers :: "go_lib \<Rightarrow> claude_session_cursor \<Rightarrow> time \<times> string \<Rightarrow> bool" where
  "covers L c x \<longleftrightarrow> \<not> claude_turn_after_cursor L c (fst x) (snd x)"

definition time_law :: "go_lib \<Rightarrow> time \<Rightarrow> bool" where
  "time_law L t \<longleftrightarrow> parse_rfc3339 L (format_rfc3339 L t) = Some t"

declare split_paired_All [simp del] split_paired_Ex [simp del]

lemma advance_ok: "time_law L e \<Longrightarrow> cursor_ok L (advance_claude_cursor L c e h)"
  by (auto simp: cursor_ok_def advance_claude_cursor_def time_law_def Let_def)

lemma advance_covers_self: "time_law L e \<Longrightarrow> covers L (advance_claude_cursor L c e h) (e, h)"
  by (simp add: covers_def claude_turn_after_cursor_def advance_claude_cursor_def time_law_def Let_def)

lemma claude_advance_keeps_covered:
  assumes "parse_rfc3339 L [] = None" and "cursor_ok L c" and "time_law L e"
    and "claude_turn_after_cursor L c e h" and "covers L c x"
  shows "covers L (advance_claude_cursor L c e h) x"
proof -
  from assms(1,2,5) obtain l where l: "csc_LastEndedAt c = format_rfc3339 L l" "parse_rfc3339 L (format_rfc3339 L l) = Some l"
    by (auto simp: cursor_ok_def covers_def claude_turn_after_cursor_def empty_claude_cursor_def)
  with assms(3,4,5) show ?thesis
    by (auto simp: covers_def claude_turn_after_cursor_def advance_claude_cursor_def time_law_def Let_def)
qed

lemma turn_loop_covers:
  assumes law: "parse_rfc3339 L [] = None" and "\<forall>t\<in>set ts. time_law L (ct_EndedAt t)"
    and "cursor_ok L c" and "claude_turn_loop L cfg s emit c ts = (c', evs, dirty)"
  shows "cursor_ok L c' \<and> (\<forall>x. covers L c x \<longrightarrow> covers L c' x) \<and>
    (\<forall>u\<in>set evs. covers L c' (tu_EndedAt u, tu_TurnIDHash u) \<and> \<not> covers L c (tu_EndedAt u, tu_TurnIDHash u) \<and>
       tu_SessionIDHash u = cls_SessionIDHash s) \<and>
    distinct (map (\<lambda>u. (tu_EndedAt u, tu_TurnIDHash u)) evs) \<and> (\<not> dirty \<longrightarrow> c' = c)"
  using assms(2-)
proof (induction ts arbitrary: c c' evs dirty)
  case (Cons t ts)
  let ?h = "turn_id_hash L t"
  show ?case
  proof (cases "\<not> usable_turn t \<or> \<not> claude_turn_after_cursor L c (ct_EndedAt t) ?h")
    case True
    then have "claude_turn_loop L cfg s emit c ts = (c', evs, dirty)" using Cons.prems(3) by simp
    moreover have "\<forall>t\<in>set ts. time_law L (ct_EndedAt t)" using Cons.prems(1) by simp
    ultimately show ?thesis using Cons.IH [OF _ Cons.prems(2)] by blast
  next
    case False
    let ?c1 = "advance_claude_cursor L c (ct_EndedAt t) ?h"
    obtain c2 more d2 where rec: "claude_turn_loop L cfg s emit ?c1 ts = (c2, more, d2)" by (metis prod_cases3)
    from False Cons.prems(3) rec have eq: "c' = c2" "dirty"
      "evs = (if emit \<and> \<not> ct_Inherited t then [reported_claude_turn L cfg s t] else []) @ more"
      by auto
    have t: "time_law L (ct_EndedAt t)" "\<forall>t\<in>set ts. time_law L (ct_EndedAt t)" using Cons.prems(1) by auto
    note IH = Cons.IH [OF t(2) advance_ok [OF t(1)] rec]
    have keep: "covers L c x \<Longrightarrow> covers L ?c1 x" for x
      using claude_advance_keeps_covered [OF law Cons.prems(2) t(1)] False by blast
    have self: "covers L ?c1 (ct_EndedAt t, ?h)" by (rule advance_covers_self [OF t(1)])
    have new: "\<not> covers L c (ct_EndedAt t, ?h)" using False by (simp add: covers_def)
    from IH have ok: "cursor_ok L c2" and mono: "\<And>x. covers L ?c1 x \<Longrightarrow> covers L c2 x"
      and tail: "\<And>u. u \<in> set more \<Longrightarrow> covers L c2 (tu_EndedAt u, tu_TurnIDHash u) \<and>
        \<not> covers L ?c1 (tu_EndedAt u, tu_TurnIDHash u) \<and> tu_SessionIDHash u = cls_SessionIDHash s"
      and dist: "distinct (map (\<lambda>u. (tu_EndedAt u, tu_TurnIDHash u)) more)" by blast+
    have old: "\<not> covers L c (tu_EndedAt u, tu_TurnIDHash u)" if "u \<in> set more" for u
      using tail [OF that] keep by blast
    have apart: "(tu_EndedAt u, tu_TurnIDHash u) \<noteq> (ct_EndedAt t, ?h)" if "u \<in> set more" for u
      using tail [OF that] self by metis
    let ?new = "if emit \<and> \<not> ct_Inherited t then [reported_claude_turn L cfg s t] else []"
    have new_keys: "map (\<lambda>u. (tu_EndedAt u, tu_TurnIDHash u)) ?new = (if ?new = [] then [] else [(ct_EndedAt t, ?h)])"
      and new_session: "u \<in> set ?new \<Longrightarrow> tu_EndedAt u = ct_EndedAt t \<and> tu_TurnIDHash u = ?h \<and> tu_SessionIDHash u = cls_SessionIDHash s" for u
      by (auto simp: reported_claude_turn_def split: if_splits)
    have "\<forall>u\<in>set evs. covers L c' (tu_EndedAt u, tu_TurnIDHash u) \<and> \<not> covers L c (tu_EndedAt u, tu_TurnIDHash u) \<and>
        tu_SessionIDHash u = cls_SessionIDHash s"
      unfolding eq set_append using tail old new_session mono [OF self] new by auto
    moreover have "distinct (map (\<lambda>u. (tu_EndedAt u, tu_TurnIDHash u)) evs)"
      unfolding eq map_append new_keys using dist apart by force
    moreover have "\<forall>x. covers L c x \<longrightarrow> covers L c' x" using keep mono eq by blast
    ultimately show ?thesis using ok eq by blast
  qed
qed simp

definition store_ok :: "go_lib \<Rightarrow> (string \<Rightarrow> claude_session_cursor option) \<Rightarrow> bool" where
  "store_ok L cursors \<longleftrightarrow> (\<forall>k c. cursors k = Some c \<longrightarrow> cursor_ok L c)"

definition covered :: "go_lib \<Rightarrow> (string \<Rightarrow> claude_session_cursor option) \<Rightarrow> string \<times> time \<times> string \<Rightarrow> bool" where
  "covered L cursors x \<longleftrightarrow> (\<exists>c. cursors (fst x) = Some c \<and> covers L c (snd x))"

definition turn_key :: "turn_usage \<Rightarrow> string \<times> time \<times> string" where
  "turn_key u = (tu_SessionIDHash u, tu_EndedAt u, tu_TurnIDHash u)"

text \<open>What a collection step does to the turns reported so far: none is reported again.\<close>

definition takes_new_turns :: "go_lib \<Rightarrow> (string \<Rightarrow> claude_session_cursor option) \<Rightarrow> (string \<Rightarrow> claude_session_cursor option) \<Rightarrow> turn_usage list \<Rightarrow> bool" where
  "takes_new_turns L cursors cursors' evs \<longleftrightarrow>
     store_ok L cursors' \<and> (\<forall>x. covered L cursors x \<longrightarrow> covered L cursors' x) \<and>
     (\<forall>u\<in>set evs. covered L cursors' (turn_key u) \<and> \<not> covered L cursors (turn_key u)) \<and>
     distinct (map turn_key evs)"

lemma takes_new_turns_trans:
  assumes "takes_new_turns L a b evs" and "takes_new_turns L b c rest"
  shows "takes_new_turns L a c (evs @ rest)"
proof -
  have "turn_key u \<noteq> turn_key v" if "u \<in> set evs" "v \<in> set rest" for u v
    using assms that unfolding takes_new_turns_def by metis
  then have "turn_key ` set evs \<inter> turn_key ` set rest = {}" by blast
  with assms show ?thesis unfolding takes_new_turns_def by auto
qed

lemma sorted_turns_set [simp]: "set (sorted_turns ts) = set ts"
  by (simp add: sorted_turns_def)

lemma empty_cursor_ok: "cursor_ok L empty_claude_cursor"
  by (simp add: cursor_ok_def)

lemma collect_session_new_turns:
  assumes law: "parse_rfc3339 L [] = None" and "\<forall>t\<in>set (cls_Turns s). time_law L (ct_EndedAt t)"
    and ok: "store_ok L cursors"
    and run: "collect_claude_session L cfg first initialized cursors s = (cursors', evs, dirty)"
  shows "takes_new_turns L cursors cursors' evs \<and> (\<not> dirty \<longrightarrow> cursors' = cursors)"
proof (cases "trim_space (cls_SessionIDHash s) = []")
  case True
  with run ok show ?thesis by (auto simp: collect_claude_session_def takes_new_turns_def)
next
  case False
  let ?k = "cls_SessionIDHash s"
  let ?c = "case cursors ?k of Some c \<Rightarrow> c | None \<Rightarrow> empty_claude_cursor"
  let ?emit = "\<not> cls_SeedOnly s \<and> \<not> first \<and> (cursors ?k \<noteq> None \<or> \<not> cls_FirstEventAt s < initialized)"
  obtain c1 more d where loop: "claude_turn_loop L cfg s ?emit ?c (sorted_turns (cls_Turns s)) = (c1, more, d)"
    by (metis prod_cases3)
  have out: "cursors' = cursors(?k \<mapsto> c1)" "evs = more" "dirty \<longleftrightarrow> cursors ?k = None \<or> d"
    using run False loop by (auto simp: collect_claude_session_def Let_def)
  have c: "cursor_ok L ?c" using ok by (auto simp: store_ok_def empty_cursor_ok split: option.split)
  have turns: "\<forall>t\<in>set (sorted_turns (cls_Turns s)). time_law L (ct_EndedAt t)" using assms(2) by simp
  note facts = turn_loop_covers [OF law turns c loop]
  have keep: "covers L c1 y" if "cursors ?k = Some c'" "covers L c' y" for c' y
    using facts that by simp
  have "covered L cursors x \<Longrightarrow> covered L cursors' x" for x
    unfolding covered_def out(1) by (cases "fst x = ?k") (auto intro: keep)
  moreover have "store_ok L cursors'" using ok facts out by (auto simp: store_ok_def)
  moreover have "\<forall>u\<in>set evs. covered L cursors' (turn_key u) \<and> \<not> covered L cursors (turn_key u)"
    using facts out by (auto simp: covered_def turn_key_def)
  moreover have "distinct (map turn_key evs)"
    using facts out by (auto simp: distinct_map turn_key_def inj_on_def)
  moreover have "\<not> dirty \<longrightarrow> cursors' = cursors" using facts out by auto
  ultimately show ?thesis by (simp add: takes_new_turns_def)
qed

lemma collect_loop_new_turns:
  assumes law: "parse_rfc3339 L [] = None" and "\<forall>s\<in>set ss. \<forall>t\<in>set (cls_Turns s). time_law L (ct_EndedAt t)"
    and "store_ok L cursors"
    and "collect_claude_loop L cfg first initialized cursors ss = (cursors', evs, dirty)"
  shows "takes_new_turns L cursors cursors' evs \<and> (\<not> dirty \<longrightarrow> cursors' = cursors)"
  using assms(2-)
proof (induction ss arbitrary: cursors cursors' evs dirty)
  case (Cons s ss)
  obtain c1 e1 d1 where one: "collect_claude_session L cfg first initialized cursors s = (c1, e1, d1)" by (metis prod_cases3)
  obtain c2 e2 d2 where two: "collect_claude_loop L cfg first initialized c1 ss = (c2, e2, d2)" by (metis prod_cases3)
  have a: "takes_new_turns L cursors c1 e1 \<and> (\<not> d1 \<longrightarrow> c1 = cursors)"
    by (rule collect_session_new_turns [OF law _ Cons.prems(2) one]) (use Cons.prems(1) in simp)
  have b: "takes_new_turns L c1 c2 e2 \<and> (\<not> d2 \<longrightarrow> c2 = c1)"
    by (rule Cons.IH [OF _ _ two]) (use a Cons.prems(1) in \<open>auto simp: takes_new_turns_def\<close>)
  from Cons.prems(3) one two have "cursors' = c2" "evs = e1 @ e2" "dirty \<longleftrightarrow> d1 \<or> d2" by auto
  with a b takes_new_turns_trans [of L cursors c1 e1 c2 e2] show ?case by auto
qed (simp add: takes_new_turns_def)

lemma collect_claude_new_turns:
  assumes "parse_rfc3339 L [] = None" and "\<forall>s\<in>set sessions. \<forall>t\<in>set (cls_Turns s). time_law L (ct_EndedAt t)"
    and "store_ok L (ccs_Sessions store)"
    and run: "collect_claude L cfg sessions obs now store = (evs, commit)"
  shows "takes_new_turns L (ccs_Sessions store) (ccs_Sessions (committed store commit)) evs"
proof -
  let ?first = "trim_space (ccs_InitializedAt store) = []"
  let ?init = "case parse_rfc3339 L (ccs_InitializedAt store) of Some t \<Rightarrow> t | None \<Rightarrow> zero_time"
  obtain cursors evs' dirty where
    loop: "collect_claude_loop L cfg ?first ?init (ccs_Sessions store) (sort_key cls_SessionIDHash sessions) = (cursors, evs', dirty)"
    by (metis prod_cases3)
  have "takes_new_turns L (ccs_Sessions store) cursors evs' \<and> (\<not> dirty \<longrightarrow> cursors = ccs_Sessions store)"
    by (rule collect_loop_new_turns [OF assms(1) _ assms(3) loop]) (use assms(2) in simp)
  with run loop show ?thesis
    by (auto simp: collect_claude_def Let_def committed_def split: if_splits)
qed

text \<open>
  C21: Over two collections, whatever sessions they see, no Claude turn is reported twice with
  the same end.
\<close>

theorem claude_turns_reported_once:
  assumes law: "parse_rfc3339 L [] = None"
    "\<forall>s\<in>set sessions \<union> set sessions'. \<forall>t\<in>set (cls_Turns s). parse_rfc3339 L (format_rfc3339 L (ct_EndedAt t)) = Some (ct_EndedAt t)"
    and ok: "\<forall>k c. ccs_Sessions store k = Some c \<longrightarrow> cursor_ok L c"
    and one: "collect_claude L cfg sessions obs now store = (evs, commit)"
    and two: "collect_claude L cfg' sessions' obs' now' (committed store commit) = (evs', commit')"
  shows "distinct (map (\<lambda>u. (tu_SessionIDHash u, tu_EndedAt u, tu_TurnIDHash u)) (evs @ evs'))"
proof -
  have "takes_new_turns L (ccs_Sessions store) (ccs_Sessions (committed store commit)) evs"
    by (rule collect_claude_new_turns [OF law(1) _ _ one]) (use law(2) ok in \<open>auto simp: time_law_def store_ok_def\<close>)
  moreover from this have
    "takes_new_turns L (ccs_Sessions (committed store commit)) (ccs_Sessions (committed (committed store commit) commit')) evs'"
    by (intro collect_claude_new_turns [OF law(1) _ _ two]) (use law(2) in \<open>auto simp: time_law_def takes_new_turns_def\<close>)
  ultimately have "distinct (map turn_key (evs @ evs'))"
    using takes_new_turns_trans unfolding takes_new_turns_def by blast
  then show ?thesis unfolding turn_key_def .
qed

definition some_turn :: "string \<Rightarrow> claude_turn" where
  "some_turn i = \<lparr>ct_TurnID = i, ct_Status = ''done'', ct_StartedAt = 1, ct_EndedAt = 2, ct_Model = ''m'', ct_Repo = [],
     ct_Tokens = \<lparr>tt_Input = 3, tt_Output = 4, tt_CacheRead = 0, tt_CacheWrite = 0\<rparr>, ct_Evidence = [],
     ct_ModelProvider = [], ct_Inherited = False\<rparr>"

definition some_claude_session :: "string list \<Rightarrow> claude_session" where
  "some_claude_session ids =
     \<lparr>cls_SessionIDHash = ''S'', cls_FirstEventAt = 1, cls_SeedOnly = False, cls_Turns = map some_turn ids\<rparr>"

definition some_claude_store :: claude_cursor_store where
  "some_claude_store = \<lparr>ccs_InitializedAt = ''t'', ccs_Sessions = Map.empty\<rparr>"

definition some_turn_config :: turn_config where
  "some_turn_config = \<lparr>tcf_DaemonID = ''d'', tcf_TotalEncoding = ''all_tier''\<rparr>"

theorem claude_turns_reported_once_witness:
  "\<exists>evs commit evs' commit'.
     collect_claude lib0 some_turn_config [some_claude_session [''a'']] 5 5 some_claude_store = (evs, commit) \<and>
     collect_claude lib0 some_turn_config [some_claude_session [''b'', ''a'']] 6 6 (committed some_claude_store commit) = (evs', commit') \<and>
     length evs = 1 \<and> length evs' = 1 \<and>
     distinct (map (\<lambda>u. (tu_SessionIDHash u, tu_EndedAt u, tu_TurnIDHash u)) (evs @ evs'))"
proof -
  let ?one = "collect_claude lib0 some_turn_config [some_claude_session [''a'']] 5 5 some_claude_store"
  let ?two = "collect_claude lib0 some_turn_config [some_claude_session [''b'', ''a'']] 6 6 (committed some_claude_store (snd ?one))"
  have "parse_rfc3339 lib0 [] = None"
    "\<forall>s\<in>set [some_claude_session [''a'']] \<union> set [some_claude_session [''b'', ''a'']]. \<forall>t\<in>set (cls_Turns s).
       parse_rfc3339 lib0 (format_rfc3339 lib0 (ct_EndedAt t)) = Some (ct_EndedAt t)"
    by code_simp+
  moreover have "\<forall>k c. ccs_Sessions some_claude_store k = Some c \<longrightarrow> cursor_ok lib0 c"
    by (simp add: some_claude_store_def)
  ultimately have "distinct (map (\<lambda>u. (tu_SessionIDHash u, tu_EndedAt u, tu_TurnIDHash u)) (fst ?one @ fst ?two))"
    by (rule claude_turns_reported_once [OF _ _ _ prod.collapse [symmetric] prod.collapse [symmetric]])
  moreover have "length (fst ?one) = 1" "length (fst ?two) = 1" by code_simp+
  moreover have "?one = (fst ?one, snd ?one)" "?two = (fst ?two, snd ?two)" by (simp_all only: prod.collapse)
  ultimately show ?thesis by blast
qed

end
