(* ===== verification/Config.thy ===== *)
theory Config
  imports Model
begin

text \<open>
  \<open>pkg/daemon/config.go\<close>: the configuration of the daemon, its defaults and its checks. The
  home directory, the host and the user are arguments.
\<close>

record config =
  cfg_ServerURL :: string
  cfg_ControlURL :: string
  cfg_DaemonID :: string
  cfg_APIKey :: string
  cfg_Token :: string
  cfg_DeviceID :: string
  cfg_TeamID :: string
  cfg_HostType :: string
  cfg_InstallMode :: string
  cfg_PolicyVersion :: string
  cfg_DataDir :: string
  cfg_UsageWindow :: string
  cfg_DailyWorkTimezone :: string
  cfg_TurnUsageTotal :: string

definition default_policy_version :: string where
  "default_policy_version = ''bootstrap-v0''"

definition default_to :: "string \<Rightarrow> string \<Rightarrow> string" where
  "default_to d v = (if v = [] then d else v)"

definition normalize_config :: "string \<Rightarrow> config \<Rightarrow> config" where
  "normalize_config defaultDataDir cfg =
     (let cfg = cfg\<lparr>cfg_APIKey := default_to (cfg_Token cfg) (cfg_APIKey cfg)\<rparr>;
          cfg = cfg\<lparr>cfg_Token := default_to (cfg_APIKey cfg) (cfg_Token cfg)\<rparr>;
          cfg = cfg\<lparr>cfg_ServerURL := default_to (cfg_ControlURL cfg) (cfg_ServerURL cfg)\<rparr>;
          cfg = cfg\<lparr>cfg_ControlURL := default_to (cfg_ServerURL cfg) (cfg_ControlURL cfg)\<rparr>
      in cfg\<lparr>cfg_HostType := default_to ''laptop'' (cfg_HostType cfg),
             cfg_InstallMode := default_to ''daemon'' (cfg_InstallMode cfg),
             cfg_PolicyVersion := default_to default_policy_version (cfg_PolicyVersion cfg),
             cfg_DataDir := default_to defaultDataDir (cfg_DataDir cfg),
             cfg_UsageWindow := default_to ''10m'' (cfg_UsageWindow cfg)\<rparr>)"

text \<open>What \<open>SaveConfig\<close> writes: one key under \<open>api_key\<close>, and neither URL alias nor team.\<close>

definition persisted_config :: "string \<Rightarrow> config \<Rightarrow> config" where
  "persisted_config defaultDataDir cfg0 =
     (let cfg = normalize_config defaultDataDir cfg0
      in cfg\<lparr>cfg_ControlURL := [], cfg_TeamID := [],
             cfg_APIKey := default_to (cfg_Token cfg) (cfg_APIKey cfg), cfg_Token := []\<rparr>)"

definition effective_server_url :: "config \<Rightarrow> string" where
  "effective_server_url cfg = (if cfg_ServerURL cfg \<noteq> [] then cfg_ServerURL cfg else cfg_ControlURL cfg)"

definition effective_usage_window :: "go_lib \<Rightarrow> config \<Rightarrow> int" where
  "effective_usage_window L cfg =
     (case parse_duration L (cfg_UsageWindow cfg) of
        None \<Rightarrow> 10 * nanos_per_minute
      | Some window \<Rightarrow> if window \<le> 0 then 10 * nanos_per_minute else window)"

definition new_runtime_config :: "string \<Rightarrow> string \<Rightarrow> string \<Rightarrow> config" where
  "new_runtime_config deviceID defaultDataDir serverURL0 =
     (let serverURL = (if serverURL0 = [] then ''http://localhost:8080'' else serverURL0)
      in \<lparr>cfg_ServerURL = serverURL, cfg_ControlURL = serverURL, cfg_DaemonID = [], cfg_APIKey = [],
          cfg_Token = [], cfg_DeviceID = deviceID, cfg_TeamID = [], cfg_HostType = ''laptop'',
          cfg_InstallMode = ''daemon'', cfg_PolicyVersion = default_policy_version,
          cfg_DataDir = defaultDataDir, cfg_UsageWindow = ''10m'', cfg_DailyWorkTimezone = [],
          cfg_TurnUsageTotal = []\<rparr>)"

definition new_direct_runtime_config ::
  "go_lib \<Rightarrow> string \<Rightarrow> string \<Rightarrow> string \<Rightarrow> string \<Rightarrow> string \<Rightarrow> string \<Rightarrow> config" where
  "new_direct_runtime_config L hostname goos localUser defaultDataDir serverURL apiKey0 =
     (let apiKey = trim_space apiKey0;
          identity = join [lower L hostname, goos, localUser, hash_string L apiKey] ''|''
      in (new_runtime_config [] defaultDataDir serverURL)
           \<lparr>cfg_DeviceID := ''dev_'' @ short_hash L identity,
            cfg_DaemonID := ''daemon_'' @ short_hash L identity,
            cfg_APIKey := apiKey, cfg_Token := apiKey\<rparr>)"

definition validate_enrolled :: "config \<Rightarrow> bool" where
  "validate_enrolled cfg \<longleftrightarrow>
     \<not> (effective_server_url cfg = [] \<or> cfg_DaemonID cfg = [] \<or> cfg_Token cfg = [] \<or> cfg_DeviceID cfg = [])"

definition validate_deregister :: "config \<Rightarrow> bool" where
  "validate_deregister cfg \<longleftrightarrow>
     \<not> (effective_server_url cfg = [] \<or> cfg_DaemonID cfg = [] \<or> cfg_Token cfg = [])"

section \<open>Facts\<close>

lemma effective_usage_window_pos: "0 < effective_usage_window L cfg"
  by (auto simp: effective_usage_window_def nanos_per_minute_def nanos_per_second_def split: option.splits)

lemma default_to_default_to:
  "default_to d (default_to d v) = default_to d v"
  "default_to (default_to (default_to t k) t) (default_to t k) = default_to t k"
  "default_to (default_to t k) (default_to (default_to t k) t) = default_to (default_to t k) t"
  "v \<noteq> [] \<Longrightarrow> default_to d v = v"
  "default_to [] v = v"
  by (auto simp: default_to_def)

lemma normalize_config_idem: "normalize_config d (normalize_config d cfg) = normalize_config d cfg"
  by (cases cfg) (simp add: normalize_config_def default_to_default_to)

text \<open>Saving and loading a configuration keeps what the daemon runs on.\<close>

lemma normalize_persisted_config:
  assumes "cfg_ServerURL cfg \<noteq> []" and "cfg_ControlURL cfg = cfg_ServerURL cfg" and "cfg_TeamID cfg = []"
    and "cfg_Token cfg = cfg_APIKey cfg"
  shows "normalize_config d (persisted_config d cfg) = normalize_config d cfg"
  using assms by (cases cfg) (simp add: normalize_config_def persisted_config_def default_to_default_to, simp add: default_to_def)

end
