(* ===== verification/Usage_Delta.thy ===== *)
theory Usage_Delta
  imports Payloads Config
begin

text \<open>
  \<open>pkg/daemon/usage_delta.go\<close>: from the cumulative token counters that the collectors
  report, the growth since the cursor of the session. A cursor is kept per daemon, source,
  agent, session and accounting scheme; \<open>BuildUsageDeltaEvents\<close> reads the store of cursors
  and returns the delta events and the next store, which is saved once the events are queued.
  The identifiers of new events are the argument \<open>ids\<close>, the clock the argument \<open>now\<close>.
\<close>

section \<open>Cursors and observations\<close>

record usage_cursor =
  uc_TotalTokens :: int
  uc_InputTokens :: int
  uc_OutputTokens :: int
  uc_CacheReadTokens :: int
  uc_CacheWriteTokens :: int
  uc_ObservedAt :: string
  uc_CacheObserved :: bool

type_synonym usage_store = "string \<Rightarrow> usage_cursor option"

record usage_observation =
  ob_sessionID :: string
  ob_outputSessionID :: string
  ob_total :: int
  ob_input :: int
  ob_output :: int
  ob_cacheRead :: int
  ob_cacheWrite :: int
  ob_cacheObserved :: bool

record usage_token_delta =
  td_total :: int
  td_input :: int
  td_output :: int
  td_cacheRead :: int
  td_cacheWrite :: int

text \<open>The private keys of \<open>session_baseline.go\<close>.\<close>

definition internal_initial_delta_key :: string where
  "internal_initial_delta_key = ''_gesta_internal_initial_delta''"
definition internal_previous_total_key :: string where
  "internal_previous_total_key = ''_gesta_internal_previous_total_tokens''"
definition internal_previous_input_key :: string where
  "internal_previous_input_key = ''_gesta_internal_previous_input_tokens''"
definition internal_previous_output_key :: string where
  "internal_previous_output_key = ''_gesta_internal_previous_output_tokens''"
definition internal_previous_cache_read_key :: string where
  "internal_previous_cache_read_key = ''_gesta_internal_previous_cache_read_tokens''"
definition internal_previous_cache_write_key :: string where
  "internal_previous_cache_write_key = ''_gesta_internal_previous_cache_write_tokens''"
definition internal_previous_observed_at_key :: string where
  "internal_previous_observed_at_key = ''_gesta_internal_previous_observed_at''"

lemmas internal_keys =
  internal_initial_delta_key_def internal_previous_total_key_def internal_previous_input_key_def
  internal_previous_output_key_def internal_previous_cache_read_key_def
  internal_previous_cache_write_key_def internal_previous_observed_at_key_def

definition usage_observation_from_event :: "event \<Rightarrow> usage_observation option" where
  "usage_observation_from_event ev =
     (if EventType ev \<noteq> ''usage.summary'' \<and> EventType ev \<noteq> ''session.summary'' then None
      else
        let p = Payload ev;
            sessionID = trim_space (session_id_from_payload p);
            tot = payload_int p [''total_tokens'', ''tokens_used''];
            cacheRead = payload_int_value p [''cache_read_tokens'', ''cached_input_tokens'', ''cache_read_input_tokens''];
            cacheWrite = payload_int_value p [''cache_creation_tokens'', ''cache_write_tokens'', ''cache_creation_input_tokens'']
        in if sessionID = [] \<or> tot \<le> 0 then None
           else Some
             \<lparr>ob_sessionID = sessionID,
              ob_outputSessionID = first_non_empty [first_payload_string p [''index_session_id''], sessionID],
              ob_total = tot,
              ob_input = payload_int p [''input_tokens'', ''prompt_tokens''],
              ob_output = payload_int p [''output_tokens'', ''completion_tokens''],
              ob_cacheRead = (case cacheRead of Some v \<Rightarrow> v | None \<Rightarrow> 0),
              ob_cacheWrite = (case cacheWrite of Some v \<Rightarrow> v | None \<Rightarrow> 0),
              ob_cacheObserved = (cacheRead \<noteq> None \<or> cacheWrite \<noteq> None)\<rparr>)"

definition nul_separator :: string where
  "nul_separator = [CHR 0x00]"

definition usage_cursor_key :: "go_lib \<Rightarrow> event \<Rightarrow> string \<Rightarrow> string \<Rightarrow> string" where
  "usage_cursor_key L ev sessionID tokenAccounting =
     hash_string L
       (join ([DaemonID ev, Source ev, AgentType ev, sessionID]
              @ (if trim_space tokenAccounting \<noteq> [] then [trim_space tokenAccounting] else [])) nul_separator)"

definition previous_usage_cursor_from_payload :: "go_lib \<Rightarrow> payload \<Rightarrow> time \<Rightarrow> usage_cursor option" where
  "previous_usage_cursor_from_payload L p fallbackObservedAt =
     (case payload_int_value p [internal_previous_total_key] of
        None \<Rightarrow> None
      | Some tot \<Rightarrow>
          let observedAt = first_payload_string p [internal_previous_observed_at_key]
          in Some
            \<lparr>uc_TotalTokens = tot,
             uc_InputTokens = payload_int p [internal_previous_input_key],
             uc_OutputTokens = payload_int p [internal_previous_output_key],
             uc_CacheReadTokens = payload_int p [internal_previous_cache_read_key],
             uc_CacheWriteTokens = payload_int p [internal_previous_cache_write_key],
             uc_ObservedAt = (if observedAt = [] then format_rfc3339 L fallbackObservedAt else observedAt),
             uc_CacheObserved = (payload_int_value p [internal_previous_cache_read_key] \<noteq> None)\<rparr>)"

definition calculate_usage_token_delta :: "usage_observation \<Rightarrow> usage_cursor \<Rightarrow> usage_token_delta \<times> bool" where
  "calculate_usage_token_delta ob previous =
     (let delta =
        \<lparr>td_total = sub64 (ob_total ob) (uc_TotalTokens previous),
         td_input = max (sub64 (ob_input ob) (uc_InputTokens previous)) 0,
         td_output = max (sub64 (ob_output ob) (uc_OutputTokens previous)) 0,
         td_cacheRead = max (sub64 (ob_cacheRead ob) (uc_CacheReadTokens previous)) 0,
         td_cacheWrite = max (sub64 (ob_cacheWrite ob) (uc_CacheWriteTokens previous)) 0\<rparr>
      in (delta, td_total delta > 0))"

section \<open>The window of a delta\<close>

definition parse_usage_cursor_time :: "go_lib \<Rightarrow> string \<Rightarrow> time \<Rightarrow> time" where
  "parse_usage_cursor_time L v fallback = (case parse_rfc3339 L v of Some t \<Rightarrow> t | None \<Rightarrow> fallback)"

text \<open>The last second of a day, given its midnight.\<close>

definition end_of_day :: "time \<Rightarrow> time" where
  "end_of_day midnight = midnight + 86399 * nanos_per_second"

definition usage_delta_window :: "go_lib \<Rightarrow> config \<Rightarrow> payload \<Rightarrow> usage_cursor \<Rightarrow> time \<Rightarrow> time \<times> time" where
  "usage_delta_window L cfg p previous observedAt =
     (let windowStart = parse_usage_cursor_time L (uc_ObservedAt previous) (observedAt - effective_usage_window L cfg);
          windowEnd = observedAt;
          day = first_payload_string p [''usage_day'']
      in if day = [] then (windowStart, windowEnd)
         else case parse_day L day of
                None \<Rightarrow> (windowStart, windowEnd)
              | Some parsedDay \<Rightarrow>
                  let windowEnd = (if end_of_day parsedDay > observedAt then observedAt else end_of_day parsedDay)
                  in (if windowStart > windowEnd then windowEnd else windowStart, windowEnd))"

section \<open>Deltas\<close>

definition base_event :: "config \<Rightarrow> string \<Rightarrow> time \<Rightarrow> string \<Rightarrow> string \<Rightarrow> string \<Rightarrow> payload \<Rightarrow> event" where
  "base_event cfg eventID now eventType source agentType p =
     empty_event\<lparr>EventID := eventID, DaemonID := cfg_DaemonID cfg, DeviceID := cfg_DeviceID cfg,
       TeamID := cfg_TeamID cfg, EventType := eventType, Source := source, AgentType := agentType,
       CreatedAt := now, Payload := p\<rparr>"

definition cursor_of_observation :: "go_lib \<Rightarrow> usage_observation \<Rightarrow> time \<Rightarrow> usage_cursor" where
  "cursor_of_observation L ob observedAt =
     \<lparr>uc_TotalTokens = ob_total ob, uc_InputTokens = ob_input ob, uc_OutputTokens = ob_output ob,
      uc_CacheReadTokens = ob_cacheRead ob, uc_CacheWriteTokens = ob_cacheWrite ob,
      uc_ObservedAt = format_rfc3339 L observedAt, uc_CacheObserved = ob_cacheObserved ob\<rparr>"

text \<open>Where a session without a cursor starts: a baseline in the payload, or zero for a new session.\<close>

definition starting_cursor :: "go_lib \<Rightarrow> config \<Rightarrow> payload \<Rightarrow> time \<Rightarrow> usage_cursor option" where
  "starting_cursor L cfg p observedAt =
     (let fallback = observedAt - effective_usage_window L cfg in
      case previous_usage_cursor_from_payload L p fallback of
        Some c \<Rightarrow> Some c
      | None \<Rightarrow>
          if payload_bool p internal_initial_delta_key
          then Some \<lparr>uc_TotalTokens = 0, uc_InputTokens = 0, uc_OutputTokens = 0, uc_CacheReadTokens = 0,
                     uc_CacheWriteTokens = 0, uc_ObservedAt = format_rfc3339 L fallback, uc_CacheObserved = True\<rparr>
          else None)"

text \<open>A cursor from before cache accounting takes the current cache counters as its own.\<close>

definition seed_cache :: "usage_observation \<Rightarrow> usage_cursor \<Rightarrow> usage_cursor" where
  "seed_cache ob previous =
     (if uc_CacheObserved previous then previous
      else previous\<lparr>uc_CacheReadTokens := ob_cacheRead ob, uc_CacheWriteTokens := ob_cacheWrite ob\<rparr>)"

definition usage_delta_payload ::
  "go_lib \<Rightarrow> config \<Rightarrow> event \<Rightarrow> usage_observation \<Rightarrow> usage_cursor \<Rightarrow> usage_token_delta \<Rightarrow> time \<times> time \<Rightarrow> bool \<Rightarrow> payload" where
  "usage_delta_payload L cfg ev ob previous d window seen =
     (let p0 = map_of
        [(''accounting'', GString ''delta''),
         (''source_event_id'', GString (EventID ev)),
         (''source_session_id'', GString (ob_sessionID ob)),
         (''session_id'', GString (ob_outputSessionID ob)),
         (''window_start'', GString (format_rfc3339 L (fst window))),
         (''window_end'', GString (format_rfc3339 L (snd window))),
         (''configured_window_sec'', GInt64 (effective_usage_window L cfg div nanos_per_second)),
         (''total_tokens'', GInt64 (td_total d)),
         (''tokens_used'', GInt64 (td_total d)),
         (''input_tokens'', GInt64 (td_input d)),
         (''output_tokens'', GInt64 (td_output d)),
         (''cache_read_tokens'', GInt64 (td_cacheRead d)),
         (''cache_write_tokens'', GInt64 (td_cacheWrite d)),
         (''session_total_tokens'', GInt64 (ob_total ob)),
         (''session_input_tokens'', GInt64 (ob_input ob)),
         (''session_output_tokens'', GInt64 (ob_output ob)),
         (''session_previous_total'', GInt64 (uc_TotalTokens previous))];
          p1 = (if \<not> seen then p0(''initial_observation'' \<mapsto> GBool True) else p0);
          src = Payload ev;
          p2 = copy_payload_string src [''model'', ''model_name'', ''model_id''] p1;
          p3 = copy_payload_string src
                 [''repo'', ''repository'', ''repo_name'', ''repo_path_hash'', ''workspace'', ''workspace_hash'', ''source_hash''] p2;
          p4 = copy_payload_string src [''model_provider''] p3;
          p5 = copy_payload_string src [''token_accounting''] p4
      in copy_payload_int_as src ''raw_total_tokens'' ''session_raw_total_tokens'' p5)"

text \<open>
  The result is the cursor key, the next cursor and, when there is growth to report, the
  delta event; \<open>None\<close> for an event that is no usage summary.
\<close>

definition usage_delta_from_event ::
  "go_lib \<Rightarrow> config \<Rightarrow> string \<Rightarrow> event \<Rightarrow> usage_store \<Rightarrow> time \<Rightarrow> (string \<times> usage_cursor \<times> event option) option" where
  "usage_delta_from_event L cfg eventID ev sessions observedAt =
     (case usage_observation_from_event ev of
        None \<Rightarrow> None
      | Some ob \<Rightarrow>
          let key = usage_cursor_key L ev (ob_sessionID ob) (first_payload_string (Payload ev) [''token_accounting'']);
              nextCursor = cursor_of_observation L ob observedAt;
              seen = sessions key \<noteq> None
          in case (case sessions key of Some c \<Rightarrow> Some c | None \<Rightarrow> starting_cursor L cfg (Payload ev) observedAt) of
               None \<Rightarrow> Some (key, nextCursor, None)
             | Some previous0 \<Rightarrow>
                 let previous = seed_cache ob previous0;
                     (d, ok) = calculate_usage_token_delta ob previous
                 in if \<not> ok then Some (key, nextCursor, None)
                    else
                      let window = usage_delta_window L cfg (Payload ev) previous observedAt
                      in Some (key, nextCursor, Some
                           (base_event cfg eventID (snd window) ''usage.delta'' (Source ev) (AgentType ev)
                              (usage_delta_payload L cfg ev ob previous d window seen))))"

text \<open>The loop over the events: \<open>n\<close> counts the identifiers drawn so far.\<close>

fun usage_delta_loop ::
  "go_lib \<Rightarrow> config \<Rightarrow> (nat \<Rightarrow> string) \<Rightarrow> usage_store \<Rightarrow> time \<Rightarrow> nat \<Rightarrow> event list \<Rightarrow> usage_store \<Rightarrow> event list \<times> usage_store" where
  "usage_delta_loop L cfg ids sessions observedAt n [] upd = ([], upd)"
| "usage_delta_loop L cfg ids sessions observedAt n (ev # events) upd =
     (case usage_delta_from_event L cfg (ids n) ev sessions observedAt of
        None \<Rightarrow> usage_delta_loop L cfg ids sessions observedAt n events upd
      | Some (key, cursor, None) \<Rightarrow> usage_delta_loop L cfg ids sessions observedAt n events (upd(key \<mapsto> cursor))
      | Some (key, cursor, Some delta) \<Rightarrow>
          (let (ds, upd') = usage_delta_loop L cfg ids sessions observedAt (Suc n) events (upd(key \<mapsto> cursor))
           in (if EventID delta \<noteq> [] then delta # ds else ds, upd')))"

definition build_usage_delta_events ::
  "go_lib \<Rightarrow> config \<Rightarrow> (nat \<Rightarrow> string) \<Rightarrow> time \<Rightarrow> string + usage_store \<Rightarrow> event list \<Rightarrow> time \<Rightarrow> string + event list \<times> usage_store" where
  "build_usage_delta_events L cfg ids now loaded events observedAt0 =
     (let observedAt = (if is_zero observedAt0 then now else observedAt0) in
      rbind loaded (\<lambda>sessions. Inr (usage_delta_loop L cfg ids sessions observedAt 0 events sessions)))"

end
