(* ===== verification/Transcript_Chunk.thy ===== *)
theory Transcript_Chunk
  imports Usage_Delta
begin

text \<open>
  \<open>pkg/daemon/transcript_chunk.go\<close> and \<open>transcript_summary_phase.go\<close>, with the session record
  of \<open>session_baseline_store.go\<close>: the messages of a transcript that were not sent before, cut
  into chunks by number, size and local date. A message is an association list; the cursor of
  a session remembers the versions of the messages it has sent.
\<close>

section \<open>The session record\<close>

record baseline_session =
  bs_UpdatedAt :: string
  bs_TranscriptHash :: string
  bs_TranscriptMessageVersions :: "string list"
  bs_TranscriptSequence :: int
  bs_TranscriptCursorInitialized :: bool
  bs_TotalTokens :: int
  bs_InputTokens :: int
  bs_OutputTokens :: int
  bs_CacheReadTokens :: int
  bs_CacheWriteTokens :: int
  bs_TokenAccounting :: string
  bs_TokensObserved :: bool
  bs_CacheObserved :: bool
  bs_PreviousTotalTokens :: int
  bs_PreviousInputTokens :: int
  bs_PreviousOutputTokens :: int
  bs_PreviousCacheReadTokens :: int
  bs_PreviousCacheWriteTokens :: int
  bs_PreviousObservedAt :: string
  bs_PreviousCacheObserved :: bool
  bs_MCPToolCallCursorAt :: string
  bs_MCPToolCallCursorEventIDs :: "string list"

definition empty_session :: baseline_session where
  "empty_session =
     \<lparr>bs_UpdatedAt = [], bs_TranscriptHash = [], bs_TranscriptMessageVersions = [],
      bs_TranscriptSequence = 0, bs_TranscriptCursorInitialized = False, bs_TotalTokens = 0,
      bs_InputTokens = 0, bs_OutputTokens = 0, bs_CacheReadTokens = 0, bs_CacheWriteTokens = 0,
      bs_TokenAccounting = [], bs_TokensObserved = False, bs_CacheObserved = False,
      bs_PreviousTotalTokens = 0, bs_PreviousInputTokens = 0, bs_PreviousOutputTokens = 0,
      bs_PreviousCacheReadTokens = 0, bs_PreviousCacheWriteTokens = 0, bs_PreviousObservedAt = [],
      bs_PreviousCacheObserved = False, bs_MCPToolCallCursorAt = [], bs_MCPToolCallCursorEventIDs = []\<rparr>"

section \<open>Summary phases\<close>

definition codex_transcript_summary_phase :: "go_lib \<Rightarrow> string \<Rightarrow> string" where
  "codex_transcript_summary_phase L v =
     (let s = lower L (trim_space v) in
      if s = ''final_answer'' then ''final'' else if s = ''commentary'' then ''progress'' else ''unknown'')"

definition claude_transcript_summary_phase :: "go_lib \<Rightarrow> string \<Rightarrow> string" where
  "claude_transcript_summary_phase L v =
     (let s = lower L (trim_space v) in
      if s = ''end_turn'' \<or> s = ''stop_sequence'' then ''final''
      else if s = ''tool_use'' then ''progress'' else ''unknown'')"

definition normalize_transcript_summary_phase :: "go_lib \<Rightarrow> string \<Rightarrow> string" where
  "normalize_transcript_summary_phase L v =
     (let s = lower L (trim_space v) in
      if s = ''final'' then ''final'' else if s = ''progress'' then ''progress'' else ''unknown'')"

definition transcript_summary_phase_rank :: "go_lib \<Rightarrow> string \<Rightarrow> nat" where
  "transcript_summary_phase_rank L v =
     (let p = normalize_transcript_summary_phase L v in
      if p = ''final'' then 2 else if p = ''progress'' then 1 else 0)"

section \<open>Messages\<close>

type_synonym message = "(string \<times> gval) list"

definition transcript_chunk_max_messages :: nat where "transcript_chunk_max_messages = 64"
definition transcript_chunk_max_bytes :: int where "transcript_chunk_max_bytes = 128 * 1024"
definition transcript_cursor_max_versions :: int where "transcript_cursor_max_versions = 4096"

definition normalized_message :: "go_lib \<Rightarrow> string \<Rightarrow> message \<Rightarrow> message option" where
  "normalized_message L sessionID fields0 =
     (let r = map_of fields0;
          role0 = lower L (trim_space (first_string r [''role'', ''type'']));
          role = (if role0 = ''human'' then ''user'' else role0);
          text = trim_space (first_string r [''text'', ''content'', ''message'']);
          sourceTimestamp = first_string r [''timestamp'', ''created_at'', ''observed_at''];
          sourceID = first_string r [''message_id'', ''id''];
          identity = (if sourceID \<noteq> [] then [sessionID, role, sourceID]
                      else [sessionID, role, sourceTimestamp, text]);
          model = first_string r [''model'']
      in if role \<notin> {''user'', ''assistant'', ''system''} then None
         else if text = [] then None
         else Some
           ([(''message_id'', GString (''msg_'' @ hash_string L (join identity nul_separator))),
             (''role'', GString role), (''text'', GString text)]
            @ (if sourceTimestamp \<noteq> [] then [(''timestamp'', GString sourceTimestamp)] else [])
            @ (if model \<noteq> [] then [(''model'', GString model)] else [])
            @ (if role = ''assistant''
               then [(''summary_phase'', GString (normalize_transcript_summary_phase L (first_string r [''summary_phase''])))]
               else [])))"

fun object_of :: "gval \<Rightarrow> message option" where
  "object_of (GMap fs) = Some fs"
| "object_of _ = None"

definition normalized_transcript_messages :: "go_lib \<Rightarrow> string \<Rightarrow> payload \<Rightarrow> message list" where
  "normalized_transcript_messages L sessionID p =
     (let values = (case p ''messages'' of
                      Some (GList vs) \<Rightarrow> List.map_filter object_of vs
                    | Some (GMaps ms) \<Rightarrow> ms
                    | _ \<Rightarrow> [])
      in List.map_filter (normalized_message L sessionID) values)"

definition transcript_message_version :: "go_lib \<Rightarrow> message \<Rightarrow> string" where
  "transcript_message_version L m =
     (let r = map_of m;
          content = join [first_string r [''role''], first_string r [''text''], first_string r [''timestamp''],
                          first_string r [''model''], first_string r [''summary_phase'']] nul_separator
      in first_string r [''message_id''] @ '':'' @ hash_string L content)"

definition transcript_message_bytes :: "go_lib \<Rightarrow> message \<Rightarrow> int" where
  "transcript_message_bytes L m =
     (case message_json_size L m of Some n \<Rightarrow> int n | None \<Rightarrow> int (length (first_string (map_of m) [''text''])))"

text \<open>A location formats an instant as its local day; \<open>format_day L\<close> is that of UTC.\<close>

definition transcript_message_date :: "go_lib \<Rightarrow> (time \<Rightarrow> string) \<Rightarrow> time \<Rightarrow> payload \<Rightarrow> time \<Rightarrow> message \<Rightarrow> string" where
  "transcript_message_date L location now p observedAt m =
     (case first_some (parse_rfc3339 L)
             [first_string (map_of m) [''timestamp''], first_string p [''updated_at'', ''last_event_at'']] of
        Some t \<Rightarrow> location t
      | None \<Rightarrow> location (if is_zero observedAt then now else observedAt))"

definition daily_work_location :: "go_lib \<Rightarrow> string \<Rightarrow> time \<Rightarrow> string" where
  "daily_work_location L name = (case load_location L (trim_space name) of Some loc \<Rightarrow> loc | None \<Rightarrow> format_day L)"

section \<open>The cursor\<close>

definition bounded_transcript_versions :: "string list \<Rightarrow> string list" where
  "bounded_transcript_versions versions =
     (if int (length versions) \<le> transcript_cursor_max_versions then versions
      else drop (nat (int (length versions) - transcript_cursor_max_versions)) versions)"

definition seen_versions :: "string list \<Rightarrow> string list" where
  "seen_versions versions = filter (\<lambda>v. v \<noteq> []) (map trim_space versions)"

text \<open>The messages whose version has not been seen, and the versions in the order they come.\<close>

fun unseen_messages :: "go_lib \<Rightarrow> string list \<Rightarrow> message list \<Rightarrow> string list \<times> message list" where
  "unseen_messages L seen [] = ([], [])"
| "unseen_messages L seen (m # ms) =
     (let version = transcript_message_version L m in
      if version \<in> set seen then unseen_messages L seen ms
      else (let (vs, us) = unseen_messages L (version # seen) ms in (version # vs, m # us)))"

definition seed_transcript_cursor :: "go_lib \<Rightarrow> payload \<Rightarrow> baseline_session \<Rightarrow> baseline_session" where
  "seed_transcript_cursor L p existing =
     (let sessionID = session_id_from_payload p in
      if sessionID = [] then existing
      else
        let versions = bs_TranscriptMessageVersions existing;
            added = fst (unseen_messages L (seen_versions versions) (normalized_transcript_messages L sessionID p))
        in existing\<lparr>bs_TranscriptMessageVersions := bounded_transcript_versions (versions @ added),
                    bs_TranscriptCursorInitialized := True\<rparr>)"

section \<open>Chunks\<close>

definition transcript_metadata_fields :: "string list" where
  "transcript_metadata_fields =
     [''title'', ''model'', ''model_provider'', ''repo'', ''git_branch'', ''git_sha'',
      ''parent_session_id'', ''parent_session_id_hash'']"

definition metadata_of :: "payload \<Rightarrow> (string \<times> gval) list" where
  "metadata_of source =
     map (\<lambda>f. (f, GString (first_string source [f])))
       (filter (\<lambda>f. first_string source [f] \<noteq> []) transcript_metadata_fields)"

definition transcript_chunk_payload :: "go_lib \<Rightarrow> payload \<Rightarrow> message list \<Rightarrow> int \<Rightarrow> string \<Rightarrow> payload" where
  "transcript_chunk_payload L source messages sequence localDate =
     (let sessionID = session_id_from_payload source;
          p0 = map_of
            [(''schema_version'', GInt 1),
             (''session_id'', GString sessionID),
             (''session_id_hash'', GString sessionID),
             (''sequence'', GInt64 sequence),
             (''local_date'', GString localDate),
             (''agent_type'', GString (first_string source [''agent_type''])),
             (''repo'', GString (first_string source [''repo''])),
             (''messages'', GMaps messages),
             (''message_count'', GInt (int (length messages))),
             (''session_metadata'', GMap (metadata_of source))];
          p1 = p0 ++ map_of (metadata_of source);
          rolloutPath = first_string source [''_rollout_path''];
          p2 = (if rolloutPath \<noteq> [] then p1(''_rollout_path'' \<mapsto> GString rolloutPath) else p1)
      in p2(''chunk_id'' \<mapsto> GString (''tchunk_'' @ hash_string L (chunk_json L sessionID sequence messages))))"

definition transcript_chunk_event_id :: "payload \<Rightarrow> string" where
  "transcript_chunk_event_id p = ''evt_'' @ first_string p [''chunk_id'']"

text \<open>
  The loop over the unseen messages: \<open>current\<close>, its size and its date are the open chunk,
  \<open>sequence\<close> the number of the last chunk. The result is the chunks and the last number.
\<close>

fun chunk_loop ::
  "go_lib \<Rightarrow> (message \<Rightarrow> string) \<Rightarrow> payload \<Rightarrow> message list \<Rightarrow> message list \<Rightarrow> int \<Rightarrow> string \<Rightarrow> int \<Rightarrow> payload list \<times> int" where
  "chunk_loop L date source [] current currentBytes currentDate sequence =
     (if current = [] then ([], sequence)
      else ([transcript_chunk_payload L source current (add64 sequence 1) currentDate], add64 sequence 1))"
| "chunk_loop L date source (m # ms) current currentBytes currentDate sequence =
     (let messageBytes = transcript_message_bytes L m; localDate = date m in
      if current \<noteq> [] \<and>
         (length current \<ge> transcript_chunk_max_messages \<or>
          currentBytes + messageBytes > transcript_chunk_max_bytes \<or> localDate \<noteq> currentDate)
      then (let (chunks, lastSequence) = chunk_loop L date source ms [m] messageBytes localDate (add64 sequence 1)
            in (transcript_chunk_payload L source current (add64 sequence 1) currentDate # chunks, lastSequence))
      else chunk_loop L date source ms (current @ [m]) (currentBytes + messageBytes) localDate sequence)"

definition prepare_transcript_chunks ::
  "go_lib \<Rightarrow> (time \<Rightarrow> string) \<Rightarrow> time \<Rightarrow> payload \<Rightarrow> baseline_session \<Rightarrow> time \<Rightarrow> payload list \<times> baseline_session" where
  "prepare_transcript_chunks L location now p existing observedAt =
     (let sessionID = session_id_from_payload p in
      if sessionID = [] then ([], existing)
      else
        let versions = bs_TranscriptMessageVersions existing;
            (added, unseen) = unseen_messages L (seen_versions versions) (normalized_transcript_messages L sessionID p);
            (chunks, lastSequence) =
              chunk_loop L (transcript_message_date L location now p observedAt) p unseen [] 0 []
                (bs_TranscriptSequence existing)
        in (chunks,
            existing\<lparr>bs_TranscriptMessageVersions := bounded_transcript_versions (versions @ added),
                     bs_TranscriptCursorInitialized := True,
                     bs_TranscriptSequence := lastSequence\<rparr>))"

section \<open>The cursor as a payload\<close>

definition versions_key :: string where "versions_key = ''_gesta_transcript_message_versions''"
definition sequence_key :: string where "sequence_key = ''_gesta_transcript_sequence''"
definition cursor_initialized_key :: string where
  "cursor_initialized_key = ''_gesta_transcript_cursor_initialized''"

lemmas cursor_keys = versions_key_def sequence_key_def cursor_initialized_key_def

definition transcript_cursor_payload :: "payload \<Rightarrow> baseline_session \<Rightarrow> payload" where
  "transcript_cursor_payload p cursor =
     p(versions_key \<mapsto> GStrings (bs_TranscriptMessageVersions cursor),
       sequence_key \<mapsto> GInt64 (bs_TranscriptSequence cursor),
       cursor_initialized_key \<mapsto> GBool (bs_TranscriptCursorInitialized cursor))"

definition transcript_cursor_from_payload :: "go_lib \<Rightarrow> payload \<Rightarrow> baseline_session \<Rightarrow> baseline_session" where
  "transcript_cursor_from_payload L p existing =
     (let s1 = (case p versions_key of
                  Some (GStrings vs) \<Rightarrow> existing\<lparr>bs_TranscriptMessageVersions := vs\<rparr>
                | Some (GList vs) \<Rightarrow>
                    existing\<lparr>bs_TranscriptMessageVersions := filter (\<lambda>i. i \<noteq> []) (map (trim_space \<circ> sprint L) vs)\<rparr>
                | _ \<Rightarrow> existing);
          s2 = (case payload_int64_value p sequence_key of
                  Some n \<Rightarrow> s1\<lparr>bs_TranscriptSequence := n\<rparr> | None \<Rightarrow> s1)
      in case p cursor_initialized_key of
           Some (GBool b) \<Rightarrow> s2\<lparr>bs_TranscriptCursorInitialized := b\<rparr>
         | _ \<Rightarrow> s2)"

end
