(* ===== verification/Transcript_Properties.thy ===== *)
theory Transcript_Properties
  imports Transcript_Chunk
begin

text \<open>
  The laws of transcript chunks: the chunks of a collection partition the unseen messages
  within the limits, with consecutive sequence numbers, and a message version is sent once.
  \<open>hash_text\<close> is the one law of the hash that they need.
\<close>


section \<open>Chunks\<close>

definition chunk_messages :: "payload \<Rightarrow> message list" where
  "chunk_messages c = (case c ''messages'' of Some (GMaps ms) \<Rightarrow> ms | _ \<Rightarrow> [])"

definition chunk_size :: "go_lib \<Rightarrow> payload \<Rightarrow> int" where
  "chunk_size L c = (\<Sum>m\<leftarrow>chunk_messages c. transcript_message_bytes L m)"

text \<open>A chunk within the limits: only a single message may be larger than a chunk.\<close>

definition chunk_ok :: "go_lib \<Rightarrow> (message \<Rightarrow> string) \<Rightarrow> payload \<Rightarrow> bool" where
  "chunk_ok L date c \<longleftrightarrow>
     1 \<le> length (chunk_messages c) \<and> length (chunk_messages c) \<le> transcript_chunk_max_messages \<and>
     (chunk_size L c \<le> transcript_chunk_max_bytes \<or> length (chunk_messages c) = 1) \<and>
     (\<forall>m\<in>set (chunk_messages c). c ''local_date'' = Some (GString (date m)))"

lemma metadata_of_other: "f \<notin> set transcript_metadata_fields \<Longrightarrow> map_of (metadata_of source) f = None"
  by (auto simp: metadata_of_def map_of_eq_None_iff)

lemma transcript_chunk_payload_reads:
  "transcript_chunk_payload L source ms n d ''messages'' = Some (GMaps ms)"
  "transcript_chunk_payload L source ms n d ''local_date'' = Some (GString d)"
  "transcript_chunk_payload L source ms n d ''sequence'' = Some (GInt64 n)"
  by (simp_all add: transcript_chunk_payload_def Let_def map_add_def metadata_of_other transcript_metadata_fields_def)

lemma chunk_messages_payload [simp]: "chunk_messages (transcript_chunk_payload L source ms n d) = ms"
  by (simp add: chunk_messages_def transcript_chunk_payload_reads)

text \<open>The open chunk of the loop.\<close>

definition open_chunk_ok :: "go_lib \<Rightarrow> (message \<Rightarrow> string) \<Rightarrow> message list \<Rightarrow> int \<Rightarrow> string \<Rightarrow> bool" where
  "open_chunk_ok L date current currentBytes currentDate \<longleftrightarrow>
     length current \<le> transcript_chunk_max_messages \<and>
     currentBytes = (\<Sum>m\<leftarrow>current. transcript_message_bytes L m) \<and>
     (currentBytes \<le> transcript_chunk_max_bytes \<or> length current \<le> 1) \<and>
     (\<forall>m\<in>set current. date m = currentDate)"

lemma chunk_ok_payload:
  "open_chunk_ok L date ms n d \<Longrightarrow> ms \<noteq> [] \<Longrightarrow> chunk_ok L date (transcript_chunk_payload L source ms k d)"
  by (cases ms) (auto simp: chunk_ok_def open_chunk_ok_def chunk_size_def transcript_chunk_payload_reads)

lemma open_chunk_ok_Nil: "open_chunk_ok L date [] 0 d"
  by (simp add: open_chunk_ok_def transcript_chunk_max_bytes_def)

lemma open_chunk_ok_single: "open_chunk_ok L date [m] (transcript_message_bytes L m) (date m)"
  by (simp add: open_chunk_ok_def transcript_chunk_max_messages_def)

lemma open_chunk_ok_add:
  assumes "open_chunk_ok L date current n d"
    and "\<not> (current \<noteq> [] \<and> (length current \<ge> transcript_chunk_max_messages \<or>
          n + transcript_message_bytes L m > transcript_chunk_max_bytes \<or> date m \<noteq> d))"
  shows "open_chunk_ok L date (current @ [m]) (n + transcript_message_bytes L m) (date m)"
  using assms by (cases "current = []") (auto simp: open_chunk_ok_def transcript_chunk_max_messages_def)

lemma chunk_loop_ok:
  assumes "chunk_loop L date source ms current n d k = (chunks, k')" and "open_chunk_ok L date current n d"
  shows "concat (map chunk_messages chunks) = current @ ms \<and> (\<forall>c\<in>set chunks. chunk_ok L date c)"
  using assms
proof (induction ms arbitrary: current n d k chunks)
  case Nil
  then show ?case by (auto simp: chunk_ok_payload split: if_splits)
next
  case (Cons m ms)
  let ?full = "current \<noteq> [] \<and> (length current \<ge> transcript_chunk_max_messages \<or>
      n + transcript_message_bytes L m > transcript_chunk_max_bytes \<or> date m \<noteq> d)"
  show ?case
  proof (cases ?full)
    case True
    then obtain chunks1 where run: "chunk_loop L date source ms [m] (transcript_message_bytes L m) (date m) (add64 k 1) = (chunks1, k')"
      and chunks: "chunks = transcript_chunk_payload L source current (add64 k 1) d # chunks1"
      using Cons.prems(1) by (auto simp: Let_def split: prod.splits)
    from Cons.IH [OF run open_chunk_ok_single] True Cons.prems(2) show ?thesis
      by (simp add: chunks chunk_ok_payload)
  next
    case False
    then have "chunk_loop L date source ms (current @ [m]) (n + transcript_message_bytes L m) (date m) k = (chunks, k')"
      using Cons.prems(1) by (simp only: chunk_loop.simps Let_def if_False)
    from Cons.IH [OF this open_chunk_ok_add [OF Cons.prems(2) False]] show ?thesis by simp
  qed
qed

lemma chunk_loop_sequence:
  assumes "chunk_loop L date source ms current n d k = (chunks, k')"
    and "in_int64 k" and "k + int (length current + length ms) < 2 ^ 63"
  shows "map (\<lambda>c. c ''sequence'') chunks = map (\<lambda>i. Some (GInt64 (k + 1 + int i))) [0..<length chunks] \<and>
    k' = k + int (length chunks) \<and> length chunks \<le> length current + length ms"
  using assms
proof (induction ms arbitrary: current n d k chunks)
  case Nil
  then show ?case
    by (auto simp: transcript_chunk_payload_reads add64_exact in_int64_def neq_Nil_conv split: if_splits)
next
  case (Cons m ms)
  let ?full = "current \<noteq> [] \<and> (length current \<ge> transcript_chunk_max_messages \<or>
      n + transcript_message_bytes L m > transcript_chunk_max_bytes \<or> date m \<noteq> d)"
  show ?case
  proof (cases ?full)
    case True
    then have len: "1 \<le> length current" by (cases current) auto
    have k1: "add64 k 1 = k + 1"
      by (rule add64_exact) (use Cons.prems(2,3) len in \<open>simp add: in_int64_def\<close>)
    from True obtain chunks1 where run: "chunk_loop L date source ms [m] (transcript_message_bytes L m) (date m) (k + 1) = (chunks1, k')"
      and chunks: "chunks = transcript_chunk_payload L source current (k + 1) d # chunks1"
      using Cons.prems(1) by (auto simp: Let_def k1 split: prod.splits)
    have "in_int64 (k + 1)" "k + 1 + int (length [m] + length ms) < 2 ^ 63"
      using Cons.prems(2,3) len by (simp_all add: in_int64_def)
    from Cons.IH [OF run this] len show ?thesis
      by (simp add: chunks transcript_chunk_payload_reads upt_conv_Cons map_Suc_upt [symmetric] del: upt_Suc)
  next
    case False
    then have run: "chunk_loop L date source ms (current @ [m]) (n + transcript_message_bytes L m) (date m) k = (chunks, k')"
      using Cons.prems(1) by (simp only: chunk_loop.simps Let_def if_False)
    from Cons.IH [OF this] Cons.prems(2,3) show ?thesis by simp
  qed
qed

section \<open>Versions\<close>

lemma unseen_messages_fst: "fst (unseen_messages L seen ms) = map (transcript_message_version L) (snd (unseen_messages L seen ms))"
  by (induction L seen ms rule: unseen_messages.induct) (auto simp: Let_def split: prod.splits)

lemma unseen_messages_ok:
  "distinct (fst (unseen_messages L seen ms)) \<and> set (fst (unseen_messages L seen ms)) \<inter> set seen = {} \<and>
   transcript_message_version L ` set ms \<subseteq> set seen \<union> set (fst (unseen_messages L seen ms)) \<and>
   set (snd (unseen_messages L seen ms)) \<subseteq> set ms"
  by (induction L seen ms rule: unseen_messages.induct) (auto simp: Let_def image_subset_iff split: prod.splits)

lemma unseen_messages_length: "length (snd (unseen_messages L seen ms)) \<le> length ms"
  by (induction L seen ms rule: unseen_messages.induct) (auto simp: Let_def split: prod.splits)

lemma guarded_Some: "(if P then None else if Q then None else Some x) = Some y \<Longrightarrow> x = y"
  by (simp split: if_splits)

lemma normalized_message_id:
  assumes "normalized_message L sid fs = Some m"
  shows "\<exists>i rest. m = (''message_id'', GString (''msg_'' @ i)) # rest"
proof -
  note eq = guarded_Some [OF assms [unfolded normalized_message_def Let_def], symmetric]
  from eq show ?thesis by (simp only: append_Cons append_Nil) blast
qed

lemma trim_version:
  assumes "hash_text L" and "normalized_message L sid fs = Some m"
  shows "trim_space (transcript_message_version L m) = transcript_message_version L m \<and> transcript_message_version L m \<noteq> []"
proof -
  from normalized_message_id [OF assms(2)] obtain i where i: "first_string (map_of m) [''message_id''] = ''msg_'' @ i"
    by (auto simp: raw_string_def)
  have h: "hash_string L s \<noteq> []" "word_char (last (hash_string L s))" for s
    using assms(1) last_in_set by (auto simp: hash_text_def hash_string_def list_all_iff)
  have w: "word_char (CHR ''m'')" by code_simp
  obtain s where "transcript_message_version L m = (''msg_'' @ i) @ '':'' @ hash_string L s"
    by (simp only: transcript_message_version_def Let_def i)
  with h [of s] w show ?thesis by (intro conjI trim_space_word) (simp_all add: last_append)
qed


section \<open>Properties\<close>

definition sent_messages :: "payload list \<Rightarrow> message list" where
  "sent_messages chunks = concat (map chunk_messages chunks)"

definition transcript_messages :: "go_lib \<Rightarrow> payload \<Rightarrow> message list" where
  "transcript_messages L p = normalized_transcript_messages L (session_id_from_payload p) p"

lemma prepare_transcript_chunks_cases:
  assumes "prepare_transcript_chunks L loc now p s t = (chunks, s')" and "session_id_from_payload p \<noteq> []"
  obtains added unseen k where
    "unseen_messages L (seen_versions (bs_TranscriptMessageVersions s)) (transcript_messages L p) = (added, unseen)"
    "chunk_loop L (transcript_message_date L loc now p t) p unseen [] 0 [] (bs_TranscriptSequence s) = (chunks, k)"
    "s' = s\<lparr>bs_TranscriptMessageVersions := bounded_transcript_versions (bs_TranscriptMessageVersions s @ added),
            bs_TranscriptCursorInitialized := True, bs_TranscriptSequence := k\<rparr>"
  using assms by (auto simp: prepare_transcript_chunks_def transcript_messages_def Let_def split: prod.splits)

text \<open>
  C17: The chunks are a partition: together they hold exactly the unseen messages in their
  order; each has 1 to 64 messages of one local date, and at most 128 KiB unless it is a
  single message; their sequence numbers go on from the cursor without a gap.
\<close>

theorem transcript_chunks_partition:
  assumes "prepare_transcript_chunks L loc now p s t = (chunks, s')" and "session_id_from_payload p \<noteq> []"
    and "in_int64 (bs_TranscriptSequence s)"
    and "bs_TranscriptSequence s + int (length (transcript_messages L p)) < 2 ^ 63"
  shows "sent_messages chunks =
      snd (unseen_messages L (seen_versions (bs_TranscriptMessageVersions s)) (transcript_messages L p)) \<and>
    (\<forall>c\<in>set chunks. chunk_ok L (transcript_message_date L loc now p t) c) \<and>
    map (\<lambda>c. c ''sequence'') chunks
      = map (\<lambda>i. Some (GInt64 (bs_TranscriptSequence s + 1 + int i))) [0..<length chunks] \<and>
    bs_TranscriptSequence s' = bs_TranscriptSequence s + int (length chunks)"
proof -
  obtain added unseen k where
    u: "unseen_messages L (seen_versions (bs_TranscriptMessageVersions s)) (transcript_messages L p) = (added, unseen)"
    and run: "chunk_loop L (transcript_message_date L loc now p t) p unseen [] 0 [] (bs_TranscriptSequence s) = (chunks, k)"
    and s': "s' = s\<lparr>bs_TranscriptMessageVersions := bounded_transcript_versions (bs_TranscriptMessageVersions s @ added),
            bs_TranscriptCursorInitialized := True, bs_TranscriptSequence := k\<rparr>"
    by (rule prepare_transcript_chunks_cases [OF assms(1,2)]) (rule that; assumption)
  have "length unseen \<le> length (transcript_messages L p)"
    using unseen_messages_length [of L "seen_versions (bs_TranscriptMessageVersions s)" "transcript_messages L p"] by (simp add: u)
  with assms(4) have "bs_TranscriptSequence s + int (length [] + length unseen) < 2 ^ 63" by simp
  from chunk_loop_sequence [OF run assms(3) this] chunk_loop_ok [OF run open_chunk_ok_Nil]
  show ?thesis by (simp add: u s' sent_messages_def)
qed

lemma seen_versions_append: "seen_versions (vs @ ws) = seen_versions vs @ seen_versions ws"
  by (simp add: seen_versions_def)

lemma transcript_message_normalized: "m \<in> set (transcript_messages L p) \<Longrightarrow> \<exists>sid fs. normalized_message L sid fs = Some m"
  unfolding transcript_messages_def normalized_transcript_messages_def List.map_filter_def Let_def set_map set_filter
  by (elim imageE CollectE conjE) (metis option.collapse comp_def)

text \<open>
  Every message is sent once: no version occurs twice in the chunks of one collection or
  of the next one, and each message of the transcript was sent before or is in a chunk, as
  long as the cursor has room for the versions.
\<close>

theorem transcript_messages_sent_once:
  assumes "hash_text L"
    and "prepare_transcript_chunks L loc now p s t = (chunks, s1)"
    and "prepare_transcript_chunks L loc' now' p' s1 t' = (chunks', s2)"
    and "session_id_from_payload p \<noteq> []" and "session_id_from_payload p' \<noteq> []"
    and "int (length (bs_TranscriptMessageVersions s) + length (transcript_messages L p)) \<le> transcript_cursor_max_versions"
  shows "distinct (map (transcript_message_version L) (sent_messages chunks @ sent_messages chunks')) \<and>
    transcript_message_version L ` set (transcript_messages L p)
      \<subseteq> set (seen_versions (bs_TranscriptMessageVersions s)) \<union> transcript_message_version L ` set (sent_messages chunks)"
proof -
  let ?v = "transcript_message_version L" and ?seen = "seen_versions (bs_TranscriptMessageVersions s)"
  obtain added unseen k where
    u: "unseen_messages L ?seen (transcript_messages L p) = (added, unseen)"
    and run: "chunk_loop L (transcript_message_date L loc now p t) p unseen [] 0 [] (bs_TranscriptSequence s) = (chunks, k)"
    and s1: "s1 = s\<lparr>bs_TranscriptMessageVersions := bounded_transcript_versions (bs_TranscriptMessageVersions s @ added),
            bs_TranscriptCursorInitialized := True, bs_TranscriptSequence := k\<rparr>"
    by (rule prepare_transcript_chunks_cases [OF assms(2,4)]) (rule that; assumption)
  obtain added' unseen' k' where
    u': "unseen_messages L (seen_versions (bs_TranscriptMessageVersions s1)) (transcript_messages L p') = (added', unseen')"
    and run': "chunk_loop L (transcript_message_date L loc' now' p' t') p' unseen' [] 0 [] (bs_TranscriptSequence s1) = (chunks', k')"
    by (rule prepare_transcript_chunks_cases [OF assms(3,5)]) (rule that; assumption)
  have sent: "sent_messages chunks = unseen" "sent_messages chunks' = unseen'"
    using chunk_loop_ok [OF run open_chunk_ok_Nil] chunk_loop_ok [OF run' open_chunk_ok_Nil] by (simp_all add: sent_messages_def)
  note ok = unseen_messages_ok [of L ?seen "transcript_messages L p"]
  note ok' = unseen_messages_ok [of L "seen_versions (bs_TranscriptMessageVersions s1)" "transcript_messages L p'"]
  have added: "added = map ?v unseen" "added' = map ?v unseen'"
    using unseen_messages_fst [of L ?seen "transcript_messages L p"]
      unseen_messages_fst [of L "seen_versions (bs_TranscriptMessageVersions s1)" "transcript_messages L p'"]
    by (simp_all add: u u')
  have "length added \<le> length (transcript_messages L p)"
    using unseen_messages_length [of L ?seen "transcript_messages L p"] by (simp add: u added)
  then have versions: "bs_TranscriptMessageVersions s1 = bs_TranscriptMessageVersions s @ added"
    using assms(6) by (simp add: s1 bounded_transcript_versions_def)
  have "trim_space (?v m) = ?v m \<and> ?v m \<noteq> []" if "m \<in> set unseen" for m
  proof -
    have "m \<in> set (transcript_messages L p)" using ok that by (auto simp: u)
    with transcript_message_normalized obtain sid fs where "normalized_message L sid fs = Some m" by blast
    from trim_version [OF assms(1) this] show ?thesis .
  qed
  then have "seen_versions added = added"
    by (simp add: seen_versions_def added filter_id_conv map_idI comp_def cong: map_cong)
  then have "set added \<subseteq> set (seen_versions (bs_TranscriptMessageVersions s1))"
    by (simp add: versions seen_versions_append)
  then have "set added \<inter> set added' = {}" using ok' by (auto simp: u')
  with ok ok' show ?thesis by (auto simp: sent u u' added)
qed

section \<open>Witnesses\<close>

definition transcript0 :: payload where
  "transcript0 =
     [''session_id'' \<mapsto> GString ''s'',
      ''messages'' \<mapsto> GMaps
        [[(''role'', GString ''user''), (''text'', GString ''a''), (''timestamp'', GString ''t'')],
         [(''role'', GString ''human''), (''content'', GString ''b''), (''timestamp'', GString ''t'')]]]"

lemma transcript_chunks_partition_witness:
  "\<exists>chunks s'. prepare_transcript_chunks lib0 (\<lambda>_. ''d'') 0 transcript0 empty_session 0 = (chunks, s') \<and>
     length (sent_messages chunks) = 2 \<and> bs_TranscriptSequence s' = 1"
proof -
  obtain chunks s' where run: "prepare_transcript_chunks lib0 (\<lambda>_. ''d'') 0 transcript0 empty_session 0 = (chunks, s')" by fastforce
  have n: "length (fst (prepare_transcript_chunks lib0 (\<lambda>_. ''d'') 0 transcript0 empty_session 0)) = 1"
    "session_id_from_payload transcript0 \<noteq> []" "length (transcript_messages lib0 transcript0) = 2"
    "length (snd (unseen_messages lib0 (seen_versions (bs_TranscriptMessageVersions empty_session)) (transcript_messages lib0 transcript0))) = 2"
    by code_simp+
  from transcript_chunks_partition [OF run n(2)] n run show ?thesis
    by (simp add: empty_session_def in_int64_def)
qed

lemma transcript_messages_sent_once_witness:
  "\<exists>chunks s1. prepare_transcript_chunks lib0 (\<lambda>_. ''d'') 0 transcript0 empty_session 0 = (chunks, s1) \<and>
     sent_messages chunks \<noteq> [] \<and>
     (\<forall>m\<in>set (sent_messages chunks). \<forall>m'\<in>set (sent_messages (fst (prepare_transcript_chunks lib0 (\<lambda>_. ''d'') 0 transcript0 s1 0))).
        transcript_message_version lib0 m \<noteq> transcript_message_version lib0 m')"
proof -
  obtain chunks s1 where run: "prepare_transcript_chunks lib0 (\<lambda>_. ''d'') 0 transcript0 empty_session 0 = (chunks, s1)" by fastforce
  obtain chunks' s2 where run': "prepare_transcript_chunks lib0 (\<lambda>_. ''d'') 0 transcript0 s1 0 = (chunks', s2)" by fastforce
  have n: "sent_messages (fst (prepare_transcript_chunks lib0 (\<lambda>_. ''d'') 0 transcript0 empty_session 0)) \<noteq> []"
    "session_id_from_payload transcript0 \<noteq> []"
    "length (bs_TranscriptMessageVersions empty_session) + length (transcript_messages lib0 transcript0) = 2"
    by code_simp+
  have "int (length (bs_TranscriptMessageVersions empty_session) + length (transcript_messages lib0 transcript0)) \<le> transcript_cursor_max_versions"
    unfolding n(3) by (simp add: transcript_cursor_max_versions_def)
  from transcript_messages_sent_once [OF hash_text_lib0 run run' n(2,2) this] n(1) run run' show ?thesis by fastforce
qed

end
