(* ===== verification/Session_Baseline.thy ===== *)
theory Session_Baseline
  imports Transcript_Chunk
begin

text \<open>
  \<open>pkg/daemon/session_baseline.go\<close>, \<open>session_baseline_store.go\<close> and \<open>claude_baseline.go\<close>: the
  baseline remembers for each session what has been reported. The first collection only
  records the sessions there are; later ones let through what has advanced, mark it with
  the cursor it advanced from, and return the baseline to commit once the events are queued.
  A payload is a map, so a marker the code writes into a shared payload is written into both
  its copies, the one returned and the one kept for the update of the baseline.
\<close>

section \<open>The store\<close>

type_synonym sessions = "string \<Rightarrow> baseline_session option"

record codex_baseline =
  cb_InitializedAt :: string
  cb_StateDBHash :: string
  cb_Sessions :: sessions

record claude_baseline =
  cl_InitializedAt :: string
  cl_MCPInitializedAt :: string
  cl_Sessions :: sessions

record baseline_store =
  st_Version :: int
  st_StateDBs :: "string \<Rightarrow> codex_baseline option"
  st_ClaudeCode :: claude_baseline

definition new_session_baseline_store :: baseline_store where
  "new_session_baseline_store =
     \<lparr>st_Version = 1, st_StateDBs = Map.empty,
      st_ClaudeCode = \<lparr>cl_InitializedAt = [], cl_MCPInitializedAt = [], cl_Sessions = Map.empty\<rparr>\<rparr>"

definition normalize_session_baseline_store :: "baseline_store \<Rightarrow> baseline_store" where
  "normalize_session_baseline_store st = (if st_Version st = 0 then st\<lparr>st_Version := 1\<rparr> else st)"

section \<open>Time stamps\<close>

definition parse_baseline_timestamp :: "go_lib \<Rightarrow> string \<Rightarrow> time option" where
  "parse_baseline_timestamp L v = (if v = [] then None else parse_rfc3339 L v)"

definition baseline_timestamp_after :: "go_lib \<Rightarrow> string \<Rightarrow> string \<Rightarrow> bool" where
  "baseline_timestamp_after L candidate existing =
     (case (parse_baseline_timestamp L candidate, parse_baseline_timestamp L existing) of
        (Some c, Some e) \<Rightarrow> c > e
      | _ \<Rightarrow> candidate > existing)"

definition should_replace_updated_at :: "go_lib \<Rightarrow> string \<Rightarrow> string \<Rightarrow> bool" where
  "should_replace_updated_at L existing candidate =
     (if candidate = [] then False
      else if existing = [] then True
      else baseline_timestamp_after L candidate existing)"

definition payload_updated_after_baseline :: "go_lib \<Rightarrow> string \<Rightarrow> string \<Rightarrow> bool" where
  "payload_updated_after_baseline L existing candidate =
     (if existing = [] \<or> candidate = [] then False else baseline_timestamp_after L candidate existing)"

section \<open>Markers\<close>

definition internal_cursor_only_key :: string where
  "internal_cursor_only_key = ''_gesta_internal_cursor_only''"
definition internal_previous_accounting_key :: string where
  "internal_previous_accounting_key = ''_gesta_internal_previous_accounting''"
definition internal_accounting_cutover_key :: string where
  "internal_accounting_cutover_key = ''_gesta_internal_accounting_cutover''"
definition internal_fork_inherited_key :: string where
  "internal_fork_inherited_key = ''_gesta_internal_fork_inherited''"
definition internal_transcript_fallback_key :: string where
  "internal_transcript_fallback_key = ''_gesta_transcript_fallback''"

lemmas baseline_keys =
  internal_cursor_only_key_def internal_previous_accounting_key_def internal_accounting_cutover_key_def
  internal_fork_inherited_key_def internal_transcript_fallback_key_def

definition mark_internal_cursor_only :: "payload \<Rightarrow> payload" where
  "mark_internal_cursor_only p = p(internal_cursor_only_key \<mapsto> GBool True)"

definition mark_internal_initial_delta :: "payload \<Rightarrow> payload" where
  "mark_internal_initial_delta p = p(internal_initial_delta_key \<mapsto> GBool True)"

definition put_when :: "bool \<Rightarrow> string \<Rightarrow> gval \<Rightarrow> payload \<Rightarrow> payload" where
  "put_when b k v p = (if b then p(k \<mapsto> v) else p)"

definition mark_internal_previous_cursor :: "baseline_session \<Rightarrow> payload \<Rightarrow> payload" where
  "mark_internal_previous_cursor s p =
     (let p1 = p(internal_previous_total_key \<mapsto> GInt64 (bs_TotalTokens s),
                 internal_previous_input_key \<mapsto> GInt64 (bs_InputTokens s),
                 internal_previous_output_key \<mapsto> GInt64 (bs_OutputTokens s));
          p2 = put_when (bs_CacheObserved s) internal_previous_cache_read_key (GInt64 (bs_CacheReadTokens s)) p1;
          p3 = put_when (bs_CacheObserved s) internal_previous_cache_write_key (GInt64 (bs_CacheWriteTokens s)) p2;
          p4 = put_when (bs_UpdatedAt s \<noteq> []) internal_previous_observed_at_key (GString (bs_UpdatedAt s)) p3
      in put_when (bs_TokenAccounting s \<noteq> []) internal_previous_accounting_key (GString (bs_TokenAccounting s)) p4)"

definition mark_internal_recovery_cursor :: "baseline_session \<Rightarrow> payload \<Rightarrow> payload" where
  "mark_internal_recovery_cursor s p =
     (let p1 = p(internal_previous_total_key \<mapsto> GInt64 (bs_PreviousTotalTokens s),
                 internal_previous_input_key \<mapsto> GInt64 (bs_PreviousInputTokens s),
                 internal_previous_output_key \<mapsto> GInt64 (bs_PreviousOutputTokens s));
          p2 = put_when (bs_PreviousCacheObserved s) internal_previous_cache_read_key (GInt64 (bs_PreviousCacheReadTokens s)) p1;
          p3 = put_when (bs_PreviousCacheObserved s) internal_previous_cache_write_key (GInt64 (bs_PreviousCacheWriteTokens s)) p2;
          p4 = put_when (bs_PreviousObservedAt s \<noteq> []) internal_previous_observed_at_key (GString (bs_PreviousObservedAt s)) p3
      in put_when (bs_TokenAccounting s \<noteq> []) internal_previous_accounting_key (GString (bs_TokenAccounting s)) p4)"

definition filter_internal_events :: "event list \<Rightarrow> event list \<times> nat" where
  "filter_internal_events events =
     (let keep = filter (\<lambda>ev. \<not> payload_bool (Payload ev) internal_cursor_only_key) events
      in (keep, length events - length keep))"

section \<open>Recording a session\<close>

definition tokens_keys :: "string list" where "tokens_keys = [''total_tokens'', ''tokens_used'']"
definition input_keys :: "string list" where "input_keys = [''input_tokens'', ''prompt_tokens'']"
definition output_keys :: "string list" where "output_keys = [''output_tokens'', ''completion_tokens'']"
definition cache_read_keys :: "string list" where
  "cache_read_keys = [''cache_read_tokens'', ''cached_input_tokens'', ''cache_read_input_tokens'']"
definition cache_write_keys :: "string list" where
  "cache_write_keys = [''cache_creation_tokens'', ''cache_write_tokens'', ''cache_creation_input_tokens'']"

text \<open>The steps of \<open>addBaselineSession\<close>, each with its effect on the flag \<open>changed\<close>.\<close>

definition apply_cutover :: "payload \<Rightarrow> baseline_session \<times> bool \<Rightarrow> baseline_session \<times> bool" where
  "apply_cutover p = (\<lambda>(s, changed).
     if payload_bool p internal_accounting_cutover_key
     then (s\<lparr>bs_TotalTokens := 0, bs_InputTokens := 0, bs_OutputTokens := 0, bs_CacheReadTokens := 0,
             bs_CacheWriteTokens := 0, bs_PreviousTotalTokens := 0, bs_PreviousInputTokens := 0,
             bs_PreviousOutputTokens := 0, bs_PreviousCacheReadTokens := 0, bs_PreviousCacheWriteTokens := 0,
             bs_TokensObserved := False, bs_CacheObserved := False, bs_PreviousCacheObserved := False,
             bs_TokenAccounting := []\<rparr>, True)
     else (s, changed))"

definition update_updated_at :: "go_lib \<Rightarrow> payload \<Rightarrow> baseline_session \<times> bool \<Rightarrow> baseline_session \<times> bool" where
  "update_updated_at L p = (\<lambda>(s, changed).
     let updatedAt = first_payload_string p [''updated_at''] in
     if should_replace_updated_at L (bs_UpdatedAt s) updatedAt then (s\<lparr>bs_UpdatedAt := updatedAt\<rparr>, True) else (s, changed))"

definition update_transcript_hash :: "payload \<Rightarrow> baseline_session \<times> bool \<Rightarrow> baseline_session \<times> bool" where
  "update_transcript_hash p = (\<lambda>(s, changed).
     let h = first_payload_string p [''transcript_hash''] in
     if h \<noteq> [] \<and> h \<noteq> bs_TranscriptHash s then (s\<lparr>bs_TranscriptHash := h\<rparr>, True) else (s, changed))"

definition update_transcript_cursor :: "go_lib \<Rightarrow> payload \<Rightarrow> baseline_session \<times> bool \<Rightarrow> baseline_session \<times> bool" where
  "update_transcript_cursor L p = (\<lambda>(s, changed).
     let s' = (if p cursor_initialized_key \<noteq> None then transcript_cursor_from_payload L p s
               else if p ''messages'' \<noteq> None then seed_transcript_cursor L p s else s)
     in (s', changed \<or> length (bs_TranscriptMessageVersions s') \<noteq> length (bs_TranscriptMessageVersions s)
                \<or> bs_TranscriptSequence s' \<noteq> bs_TranscriptSequence s
                \<or> bs_TranscriptCursorInitialized s' \<noteq> bs_TranscriptCursorInitialized s))"

definition update_total :: "payload \<Rightarrow> string \<Rightarrow> baseline_session \<times> bool \<Rightarrow> baseline_session \<times> bool" where
  "update_total p priorObservedAt = (\<lambda>(s, changed).
     case payload_int_value p tokens_keys of
       None \<Rightarrow> (s, changed)
     | Some tot \<Rightarrow>
         if \<not> bs_TokensObserved s \<or> tot > bs_TotalTokens s
         then ((if bs_TokensObserved s
                then s\<lparr>bs_PreviousTotalTokens := bs_TotalTokens s, bs_PreviousInputTokens := bs_InputTokens s,
                       bs_PreviousOutputTokens := bs_OutputTokens s,
                       bs_PreviousCacheReadTokens := bs_CacheReadTokens s,
                       bs_PreviousCacheWriteTokens := bs_CacheWriteTokens s,
                       bs_PreviousCacheObserved := bs_CacheObserved s,
                       bs_PreviousObservedAt := priorObservedAt\<rparr>
                else s\<lparr>bs_PreviousTotalTokens := tot\<rparr>)
               \<lparr>bs_TotalTokens := tot, bs_TokensObserved := True\<rparr>, True)
         else (s, changed))"

definition update_input :: "payload \<Rightarrow> baseline_session \<times> bool \<Rightarrow> baseline_session \<times> bool" where
  "update_input p = (\<lambda>(s, changed).
     case payload_int_value p input_keys of
       None \<Rightarrow> (s, changed)
     | Some n \<Rightarrow> if \<not> bs_TokensObserved s \<or> n > bs_InputTokens s then (s\<lparr>bs_InputTokens := n\<rparr>, True) else (s, changed))"

definition update_output :: "payload \<Rightarrow> baseline_session \<times> bool \<Rightarrow> baseline_session \<times> bool" where
  "update_output p = (\<lambda>(s, changed).
     case payload_int_value p output_keys of
       None \<Rightarrow> (s, changed)
     | Some n \<Rightarrow> if \<not> bs_TokensObserved s \<or> n > bs_OutputTokens s then (s\<lparr>bs_OutputTokens := n\<rparr>, True) else (s, changed))"

definition update_cache_read :: "payload \<Rightarrow> baseline_session \<times> bool \<Rightarrow> baseline_session \<times> bool" where
  "update_cache_read p = (\<lambda>(s, changed).
     case payload_int_value p cache_read_keys of
       None \<Rightarrow> (s, changed)
     | Some n \<Rightarrow>
         if \<not> bs_TokensObserved s \<or> n > bs_CacheReadTokens s
         then (s\<lparr>bs_CacheReadTokens := n, bs_CacheObserved := True\<rparr>, True) else (s, changed))"

definition update_cache_write :: "payload \<Rightarrow> baseline_session \<times> bool \<Rightarrow> baseline_session \<times> bool" where
  "update_cache_write p = (\<lambda>(s, changed).
     case payload_int_value p cache_write_keys of
       None \<Rightarrow> (s, changed)
     | Some n \<Rightarrow>
         if \<not> bs_TokensObserved s \<or> n > bs_CacheWriteTokens s
         then (s\<lparr>bs_CacheWriteTokens := n, bs_CacheObserved := True\<rparr>, True) else (s, changed))"

definition update_accounting :: "payload \<Rightarrow> baseline_session \<times> bool \<Rightarrow> baseline_session \<times> bool" where
  "update_accounting p = (\<lambda>(s, changed).
     let a = first_payload_string p [''token_accounting''] in
     if a \<noteq> [] \<and> a \<noteq> bs_TokenAccounting s then (s\<lparr>bs_TokenAccounting := a\<rparr>, True) else (s, changed))"

definition updated_session :: "go_lib \<Rightarrow> payload \<Rightarrow> baseline_session \<times> bool \<Rightarrow> baseline_session \<times> bool" where
  "updated_session L p sc =
     (let sc1 = apply_cutover p sc;
          priorObservedAt = bs_UpdatedAt (fst sc1)
      in update_accounting p (update_cache_write p (update_cache_read p (update_output p (update_input p
           (update_total p priorObservedAt
             (update_transcript_cursor L p (update_transcript_hash p (update_updated_at L p sc1)))))))))"

definition add_baseline_session :: "go_lib \<Rightarrow> payload \<Rightarrow> sessions \<Rightarrow> sessions \<times> bool" where
  "add_baseline_session L p sessions =
     (let sessionID = session_id_from_payload p in
      if sessionID = [] then (sessions, False)
      else
        let existing = (case sessions sessionID of Some s \<Rightarrow> s | None \<Rightarrow> empty_session);
            (s, changed) = updated_session L p (existing, sessions sessionID = None)
        in (sessions(sessionID \<mapsto> s), changed))"

fun add_baseline_sessions :: "go_lib \<Rightarrow> payload list \<Rightarrow> sessions \<Rightarrow> sessions \<times> bool" where
  "add_baseline_sessions L [] sessions = (sessions, False)"
| "add_baseline_sessions L (p # ps) sessions =
     (let (sessions1, c1) = add_baseline_session L p sessions;
          (sessions2, c2) = add_baseline_sessions L ps sessions1
      in (sessions2, c1 \<or> c2))"

end
