(* ===== verification/Baseline_Filter.thy ===== *)
theory Baseline_Filter
  imports Session_Baseline "HOL-Library.Product_Lexorder"
begin

text \<open>
  The filters of \<open>session_baseline.go\<close> and \<open>claude_baseline.go\<close>: which usage summaries,
  transcripts and MCP calls of a collection are new with respect to the baseline. The
  verdict on a usage payload says whether it is passed on, whether it updates the baseline,
  or neither.
\<close>

section \<open>Codex usage\<close>

datatype verdict =
    Skipped
  | Ignored payload bool
  | Passed payload bool

definition baseline_token_accounting_changed :: "baseline_session \<Rightarrow> payload \<Rightarrow> bool" where
  "baseline_token_accounting_changed existing p =
     (let current = first_payload_string p [''token_accounting''] in
      if current = [] then False else bs_TokenAccounting existing \<noteq> current)"

definition baseline_usage_advanced :: "go_lib \<Rightarrow> baseline_session \<Rightarrow> payload \<Rightarrow> int \<Rightarrow> bool" where
  "baseline_usage_advanced L existing p tot =
     (if tot \<le> bs_TotalTokens existing then False
      else
        let updatedAt = first_payload_string p [''updated_at''] in
        if updatedAt = [] \<or> bs_UpdatedAt existing = [] then True
        else baseline_timestamp_after L updatedAt (bs_UpdatedAt existing))"

definition compatible_parent_baseline :: "string \<Rightarrow> payload \<Rightarrow> sessions \<Rightarrow> baseline_session option" where
  "compatible_parent_baseline parentID p sessions =
     (case sessions parentID of
        None \<Rightarrow> None
      | Some parent \<Rightarrow>
          if \<not> bs_TokensObserved parent then None
          else if bs_TokenAccounting parent \<noteq> first_payload_string p [''token_accounting''] then None
          else Some parent)"

text \<open>\<open>None\<close> when the session is no fork, otherwise the parent's session if it is known.\<close>

definition codex_fork_parent_baseline_cursor :: "go_lib \<Rightarrow> payload \<Rightarrow> sessions \<Rightarrow> baseline_session option option" where
  "codex_fork_parent_baseline_cursor L p sessions =
     (let parentID = first_payload_string p
            [''parent_session_id'', ''parent_session_id_hash'', ''forked_from_id'', ''forked_from''];
          hashed = short_hash L parentID
      in if parentID = [] then None
         else case compatible_parent_baseline parentID p sessions of
                Some parent \<Rightarrow> Some (Some parent)
              | None \<Rightarrow>
                  if hashed \<noteq> parentID then Some (compatible_parent_baseline hashed p sessions) else Some None)"

definition codex_usage_verdict :: "go_lib \<Rightarrow> sessions \<Rightarrow> payload \<Rightarrow> verdict" where
  "codex_usage_verdict L sessions p =
     (let sessionID = session_id_from_payload p; tokens = payload_int_value p tokens_keys in
      if sessionID = [] then Skipped
      else case sessions sessionID of
             Some existing \<Rightarrow>
               if \<not> bs_TokensObserved existing then Ignored p (tokens \<noteq> None)
               else if baseline_token_accounting_changed existing p then Ignored p (tokens \<noteq> None)
               else (case tokens of
                       None \<Rightarrow> Ignored p False
                     | Some tot \<Rightarrow>
                         if \<not> baseline_usage_advanced L existing p tot
                         then Ignored p (tot > bs_TotalTokens existing)
                         else Passed (mark_internal_cursor_only (mark_internal_previous_cursor existing p)) True)
           | None \<Rightarrow>
               (case codex_fork_parent_baseline_cursor L p sessions of
                  Some (Some parent) \<Rightarrow> Passed (mark_internal_cursor_only (mark_internal_previous_cursor parent p)) True
                | Some None \<Rightarrow> Passed (mark_internal_cursor_only p) True
                | None \<Rightarrow> Passed (mark_internal_cursor_only (mark_internal_initial_delta p)) True))"

section \<open>Claude usage\<close>

definition claude_usage_verdict :: "sessions \<Rightarrow> payload \<Rightarrow> verdict" where
  "claude_usage_verdict sessions p =
     (let sessionID = session_id_from_payload p; tokens = payload_int_value p tokens_keys in
      if sessionID = [] then Skipped
      else if payload_bool p internal_accounting_cutover_key \<or>
        (case sessions sessionID of Some existing \<Rightarrow> baseline_token_accounting_changed existing p | None \<Rightarrow> False)
      then Ignored (p(internal_accounting_cutover_key \<mapsto> GBool True)) True
      else case sessions sessionID of
             None \<Rightarrow> Passed (mark_internal_cursor_only (mark_internal_initial_delta p)) True
           | Some existing \<Rightarrow>
               (case tokens of
                  None \<Rightarrow> Ignored p False
                | Some tot \<Rightarrow>
                    if \<not> bs_TokensObserved existing then Ignored p True
                    else if tot \<le> bs_TotalTokens existing
                    then (if tot = bs_TotalTokens existing \<and> bs_PreviousTotalTokens existing < bs_TotalTokens existing
                          then Passed (mark_internal_cursor_only (mark_internal_recovery_cursor existing p)) False
                          else Ignored p False)
                    else Passed (mark_internal_cursor_only (mark_internal_previous_cursor existing p)) True))"

text \<open>The loop of both filters: what is passed on, the updates, and the ignored sessions.\<close>

fun usage_filter :: "(payload \<Rightarrow> verdict) \<Rightarrow> payload list \<Rightarrow> payload list \<times> payload list \<times> string list" where
  "usage_filter verdict_of [] = ([], [], [])"
| "usage_filter verdict_of (p # ps) =
     (let (filtered, updates, ignored) = usage_filter verdict_of ps in
      case verdict_of p of
        Skipped \<Rightarrow> (filtered, updates, ignored)
      | Ignored q update \<Rightarrow>
          (filtered, if update then q # updates else updates, List.insert (session_id_from_payload p) ignored)
      | Passed q update \<Rightarrow> (q # filtered, if update then q # updates else updates, ignored))"

definition filter_codex_usage_baseline :: "go_lib \<Rightarrow> codex_baseline \<Rightarrow> payload list \<Rightarrow> payload list \<times> payload list \<times> string list" where
  "filter_codex_usage_baseline L baseline ps = usage_filter (codex_usage_verdict L (cb_Sessions baseline)) ps"

definition filter_claude_usage_baseline :: "claude_baseline \<Rightarrow> payload list \<Rightarrow> payload list \<times> payload list \<times> string list" where
  "filter_claude_usage_baseline baseline ps = usage_filter (claude_usage_verdict (cl_Sessions baseline)) ps"

section \<open>Transcripts\<close>

definition should_skip_baseline_transcript :: "go_lib \<Rightarrow> codex_baseline \<Rightarrow> payload \<Rightarrow> bool" where
  "should_skip_baseline_transcript L baseline p =
     (let sessionID = session_id_from_payload p;
          transcriptHash = first_payload_string p [''transcript_hash''];
          updatedAt = first_payload_string p [''updated_at'']
      in if sessionID = [] then False
         else case cb_Sessions baseline sessionID of
                None \<Rightarrow> False
              | Some existing \<Rightarrow>
                  if bs_TranscriptHash existing \<noteq> [] \<and> transcriptHash \<noteq> []
                  then bs_TranscriptHash existing = transcriptHash
                  else if payload_updated_after_baseline L (bs_UpdatedAt existing) updatedAt then False
                  else if bs_UpdatedAt existing = [] \<and> payload_updated_after_baseline L (cb_InitializedAt baseline) updatedAt
                  then False
                  else True)"

definition seed_transcript_cursor_before_baseline :: "go_lib \<Rightarrow> payload \<Rightarrow> baseline_session \<Rightarrow> string \<Rightarrow> baseline_session" where
  "seed_transcript_cursor_before_baseline L p existing initializedAt =
     (case parse_baseline_timestamp L initializedAt of
        None \<Rightarrow> existing
      | Some bound \<Rightarrow>
          let old = filter (\<lambda>m. case parse_baseline_timestamp L (first_string (map_of m) [''timestamp'']) of
                                  Some t \<Rightarrow> \<not> t > bound | None \<Rightarrow> True)
                      (normalized_transcript_messages L (session_id_from_payload p) p);
              versions = bs_TranscriptMessageVersions existing;
              added = fst (unseen_messages L (filter (\<lambda>v. v \<noteq> []) versions) old)
          in existing\<lparr>bs_TranscriptMessageVersions := bounded_transcript_versions (versions @ added),
                      bs_TranscriptCursorInitialized := True\<rparr>)"

text \<open>
  The step for one transcript payload: its chunks, the update of the baseline, and whether
  the session is ignored; \<open>None\<close> for a payload without a session.
\<close>

definition codex_transcript_step ::
  "go_lib \<Rightarrow> (time \<Rightarrow> string) \<Rightarrow> time \<Rightarrow> codex_baseline \<Rightarrow> time \<Rightarrow> payload \<Rightarrow> (payload list \<times> payload list \<times> bool) option" where
  "codex_transcript_step L location now baseline observedAt p =
     (let sessionID = session_id_from_payload p;
          stored = cb_Sessions baseline sessionID;
          cursor0 = (case stored of Some s \<Rightarrow> s | None \<Rightarrow> empty_session);
          cursor = (if stored = None \<and> payload_bool p internal_transcript_fallback_key
                    then seed_transcript_cursor_before_baseline L p cursor0 (cb_InitializedAt baseline) else cursor0)
      in if sessionID = [] then None
         else if stored \<noteq> None \<and> \<not> bs_TranscriptCursorInitialized cursor
         then Some ([], [transcript_cursor_payload p (seed_transcript_cursor L p cursor)], True)
         else if should_skip_baseline_transcript L baseline p then Some ([], [], True)
         else
           let (chunks, cursor') = prepare_transcript_chunks L location now p cursor observedAt
           in Some (chunks, [transcript_cursor_payload p cursor'], False))"

definition filter_codex_transcript_baseline ::
  "go_lib \<Rightarrow> (time \<Rightarrow> string) \<Rightarrow> time \<Rightarrow> codex_baseline \<Rightarrow> payload list \<Rightarrow> payload list \<Rightarrow> string list \<Rightarrow> time
    \<Rightarrow> payload list \<times> payload list \<times> string list" where
  "filter_codex_transcript_baseline L location now baseline ps updates ignored observedAt =
     (let results = List.map_filter (\<lambda>p. map_option (Pair (session_id_from_payload p))
                      (codex_transcript_step L location now baseline observedAt p)) ps
      in (concat (map (\<lambda>(_, chunks, _, _). chunks) results),
          updates @ concat (map (\<lambda>(_, _, us, _). us) results),
          fold List.insert (map fst (filter (\<lambda>(_, _, _, skipped). skipped) results)) ignored))"

definition claude_should_skip_baseline_session :: "sessions \<Rightarrow> payload \<Rightarrow> bool" where
  "claude_should_skip_baseline_session sessions p =
     (let sessionID = session_id_from_payload p;
          transcriptHash = first_payload_string p [''transcript_hash'']
      in if sessionID = [] then False
         else case sessions sessionID of
                None \<Rightarrow> False
              | Some existing \<Rightarrow>
                  if bs_TranscriptHash existing \<noteq> [] \<and> transcriptHash \<noteq> []
                  then bs_TranscriptHash existing = transcriptHash else True)"

definition claude_session_step ::
  "go_lib \<Rightarrow> (time \<Rightarrow> string) \<Rightarrow> time \<Rightarrow> sessions \<Rightarrow> time \<Rightarrow> payload \<Rightarrow> (payload list \<times> payload list) option" where
  "claude_session_step L location now sessions observedAt p =
     (let sessionID = session_id_from_payload p;
          stored = sessions sessionID;
          cursor = (case stored of Some s \<Rightarrow> s | None \<Rightarrow> empty_session)
      in if sessionID = [] then None
         else if stored \<noteq> None \<and> \<not> bs_TranscriptCursorInitialized cursor
         then Some ([], [transcript_cursor_payload p (seed_transcript_cursor L p cursor)])
         else if claude_should_skip_baseline_session sessions p then None
         else
           let (chunks, cursor') = prepare_transcript_chunks L location now p cursor observedAt
           in Some (chunks, [transcript_cursor_payload p cursor']))"

definition filter_claude_session_payloads ::
  "go_lib \<Rightarrow> (time \<Rightarrow> string) \<Rightarrow> time \<Rightarrow> claude_baseline \<Rightarrow> payload list \<Rightarrow> payload list \<Rightarrow> time \<Rightarrow> payload list \<times> payload list" where
  "filter_claude_session_payloads L location now baseline ps updates observedAt =
     (let results = List.map_filter (claude_session_step L location now (cl_Sessions baseline) observedAt) ps
      in (concat (map fst results), updates @ concat (map snd results)))"

section \<open>MCP calls\<close>

definition mcp_session_id :: "event \<Rightarrow> string" where
  "mcp_session_id ev = first_payload_string (Payload ev) [''session_id'', ''session_id_hash'']"

definition parse_claude_timestamp :: "go_lib \<Rightarrow> string \<Rightarrow> time option" where
  "parse_claude_timestamp L v = (if trim_space v = [] then None else parse_rfc3339 L (trim_space v))"

definition mcp_order :: "event \<Rightarrow> string \<times> time \<times> string" where
  "mcp_order ev = (mcp_session_id ev, CreatedAt ev, EventID ev)"

definition claude_mcp_event_after_cursor :: "go_lib \<Rightarrow> event \<Rightarrow> baseline_session \<Rightarrow> time \<Rightarrow> bool" where
  "claude_mcp_event_after_cursor L ev cursor bound =
     (case parse_claude_timestamp L (bs_MCPToolCallCursorAt cursor) of
        None \<Rightarrow> CreatedAt ev > bound
      | Some cursorAt \<Rightarrow>
          if CreatedAt ev > cursorAt then True
          else if CreatedAt ev \<noteq> cursorAt then False
          else EventID ev \<notin> set (bs_MCPToolCallCursorEventIDs cursor))"

definition advance_claude_mcp_cursor :: "go_lib \<Rightarrow> event \<Rightarrow> sessions \<Rightarrow> sessions \<times> bool" where
  "advance_claude_mcp_cursor L ev sessions =
     (let sessionID = mcp_session_id ev in
      if sessionID = [] \<or> EventID ev = [] \<or> is_zero (CreatedAt ev) then (sessions, False)
      else
        let cursor = (case sessions sessionID of Some s \<Rightarrow> s | None \<Rightarrow> empty_session);
            cursorAt = parse_claude_timestamp L (bs_MCPToolCallCursorAt cursor);
            later = (case cursorAt of None \<Rightarrow> True | Some t \<Rightarrow> CreatedAt ev > t)
        in if later
           then (sessions(sessionID \<mapsto> cursor\<lparr>bs_MCPToolCallCursorAt := format_rfc3339 L (CreatedAt ev),
                                             bs_MCPToolCallCursorEventIDs := [EventID ev]\<rparr>), True)
           else if Some (CreatedAt ev) = cursorAt
           then (if EventID ev \<in> set (bs_MCPToolCallCursorEventIDs cursor) then (sessions, False)
                 else (sessions(sessionID \<mapsto> cursor\<lparr>bs_MCPToolCallCursorEventIDs :=
                                   sort (bs_MCPToolCallCursorEventIDs cursor @ [EventID ev])\<rparr>), True))
           else (sessions, False))"

fun advance_claude_mcp_cursors :: "go_lib \<Rightarrow> event list \<Rightarrow> sessions \<Rightarrow> sessions" where
  "advance_claude_mcp_cursors L [] sessions = sessions"
| "advance_claude_mcp_cursors L (ev # evs) sessions =
     advance_claude_mcp_cursors L evs (fst (advance_claude_mcp_cursor L ev sessions))"

fun mcp_filter_loop :: "go_lib \<Rightarrow> time \<Rightarrow> event list \<Rightarrow> sessions \<Rightarrow> event list \<times> sessions \<times> bool" where
  "mcp_filter_loop L bound [] sessions = ([], sessions, False)"
| "mcp_filter_loop L bound (ev # evs) sessions =
     (if mcp_session_id ev = [] \<or> is_zero (CreatedAt ev) then mcp_filter_loop L bound evs sessions
      else
        let cursor = (case sessions (mcp_session_id ev) of Some s \<Rightarrow> s | None \<Rightarrow> empty_session);
            pass = \<not> payload_bool (Payload ev) internal_fork_inherited_key \<and> claude_mcp_event_after_cursor L ev cursor bound;
            (sessions1, advanced) = advance_claude_mcp_cursor L ev sessions;
            (filtered, sessions2, dirty) = mcp_filter_loop L bound evs sessions1
        in (if pass then ev # filtered else filtered, sessions2, advanced \<or> dirty))"

definition filter_claude_mcp_baseline :: "go_lib \<Rightarrow> claude_baseline \<Rightarrow> event list \<Rightarrow> time \<Rightarrow> event list \<times> claude_baseline \<times> bool" where
  "filter_claude_mcp_baseline L baseline events observedAt =
     (let ordered = sort_key mcp_order events in
      if cl_MCPInitializedAt baseline = []
      then ([], baseline\<lparr>cl_Sessions := advance_claude_mcp_cursors L ordered (cl_Sessions baseline),
                         cl_MCPInitializedAt := format_rfc3339 L observedAt\<rparr>, True)
      else
        let bound = (case parse_claude_timestamp L (cl_MCPInitializedAt baseline) of Some t \<Rightarrow> t | None \<Rightarrow> observedAt);
            (filtered, sessions, dirty) = mcp_filter_loop L bound ordered (cl_Sessions baseline)
        in (filtered, baseline\<lparr>cl_Sessions := sessions\<rparr>, dirty))"

section \<open>The filters\<close>

text \<open>
  The results: what is passed on, and the baseline to commit after queueing (\<open>None\<close> when
  there is nothing to commit). The counters reported as meta data are left out.
\<close>

record codex_filter_result =
  cf_UsageEvents :: "payload list"
  cf_TranscriptEvents :: "payload list"
  cf_Commit :: "codex_baseline option"

definition initialize_codex_baseline :: "go_lib \<Rightarrow> codex_baseline \<Rightarrow> string \<Rightarrow> payload list \<Rightarrow> payload list \<Rightarrow> time \<Rightarrow> codex_baseline" where
  "initialize_codex_baseline L baseline stateDBHash usageEvents transcriptEvents observedAt =
     baseline\<lparr>cb_Sessions := fst (add_baseline_sessions L (usageEvents @ transcriptEvents) (cb_Sessions baseline)),
              cb_InitializedAt := format_rfc3339 L observedAt, cb_StateDBHash := stateDBHash\<rparr>"

definition filter_codex_session_backfill ::
  "go_lib \<Rightarrow> config \<Rightarrow> time \<Rightarrow> string + baseline_store \<Rightarrow> string \<Rightarrow> payload list \<Rightarrow> payload list \<Rightarrow> time
    \<Rightarrow> string + codex_filter_result" where
  "filter_codex_session_backfill L cfg now loaded stateDB usageEvents transcriptEvents observedAt0 =
     (let observedAt = (if is_zero observedAt0 then now else observedAt0) in
      rbind loaded (\<lambda>store.
        let stateDBHash = short_hash L stateDB;
            baseline = (case st_StateDBs store stateDBHash of
                          Some b \<Rightarrow> b
                        | None \<Rightarrow> \<lparr>cb_InitializedAt = [], cb_StateDBHash = [], cb_Sessions = Map.empty\<rparr>)
        in if cb_InitializedAt baseline = []
           then Inr \<lparr>cf_UsageEvents = [], cf_TranscriptEvents = [],
                     cf_Commit = Some (initialize_codex_baseline L baseline stateDBHash usageEvents transcriptEvents observedAt)\<rparr>
           else
             let (filtered, updates1, ignored) = filter_codex_usage_baseline L baseline usageEvents;
                 (chunks, updates, _) = filter_codex_transcript_baseline L
                    (daily_work_location L (cfg_DailyWorkTimezone cfg)) now baseline transcriptEvents updates1 ignored observedAt;
                 (sessions, dirty) = add_baseline_sessions L updates (cb_Sessions baseline)
             in Inr \<lparr>cf_UsageEvents = filtered, cf_TranscriptEvents = chunks,
                     cf_Commit = (if dirty then Some (baseline\<lparr>cb_Sessions := sessions\<rparr>) else None)\<rparr>))"

definition commit_codex_baseline :: "string \<Rightarrow> codex_baseline \<Rightarrow> baseline_store \<Rightarrow> baseline_store" where
  "commit_codex_baseline stateDBHash baseline store =
     normalize_session_baseline_store (store\<lparr>st_StateDBs := (st_StateDBs store)(stateDBHash \<mapsto> baseline)\<rparr>)"

record claude_filter_result =
  lf_UsageEvents :: "payload list"
  lf_SessionEvents :: "payload list"
  lf_MCPEvents :: "event list"
  lf_Commit :: "claude_baseline option"

definition initialize_claude_usage_baseline :: "go_lib \<Rightarrow> claude_baseline \<Rightarrow> payload list \<Rightarrow> payload list \<Rightarrow> time \<Rightarrow> claude_baseline" where
  "initialize_claude_usage_baseline L baseline usageEvents sessionEvents observedAt =
     baseline\<lparr>cl_Sessions := fst (add_baseline_sessions L (usageEvents @ sessionEvents) (cl_Sessions baseline)),
              cl_InitializedAt := format_rfc3339 L observedAt\<rparr>"

definition filter_claude_session_baseline ::
  "go_lib \<Rightarrow> config \<Rightarrow> time \<Rightarrow> string + baseline_store \<Rightarrow> payload list \<Rightarrow> payload list \<Rightarrow> event list \<Rightarrow> time
    \<Rightarrow> string + claude_filter_result" where
  "filter_claude_session_baseline L cfg now loaded usageEvents sessionEvents mcpEvents observedAt0 =
     (let observedAt = (if is_zero observedAt0 then now else observedAt0) in
      rbind loaded (\<lambda>store.
        let baseline = st_ClaudeCode store;
            (usage, chunks, baseline1, dirty) =
              (if cl_InitializedAt baseline = []
               then ([], [], initialize_claude_usage_baseline L baseline usageEvents sessionEvents observedAt, True)
               else
                 let (filtered, updates1, _) = filter_claude_usage_baseline baseline usageEvents;
                     (chunks, updates) = filter_claude_session_payloads L
                        (daily_work_location L (cfg_DailyWorkTimezone cfg)) now baseline sessionEvents updates1 observedAt;
                     (sessions, dirty) = add_baseline_sessions L updates (cl_Sessions baseline)
                 in (filtered, chunks, baseline\<lparr>cl_Sessions := sessions\<rparr>, dirty));
            (mcp, baseline2, mcpDirty) = filter_claude_mcp_baseline L baseline1 mcpEvents observedAt
        in Inr \<lparr>lf_UsageEvents = usage, lf_SessionEvents = chunks, lf_MCPEvents = mcp,
                lf_Commit = (if dirty \<or> mcpDirty then Some baseline2 else None)\<rparr>))"

definition commit_claude_baseline :: "claude_baseline \<Rightarrow> baseline_store \<Rightarrow> baseline_store" where
  "commit_claude_baseline baseline store = normalize_session_baseline_store (store\<lparr>st_ClaudeCode := baseline\<rparr>)"

end
