(* ===== verification/Usage_Accounting.thy ===== *)
theory Usage_Accounting
  imports Usage_Delta
begin

text \<open>
  What the usage deltas amount to: a delta names its session by the fields of its payload
  (\<open>delta_key\<close>), each event adds its growth over the cursor as it was before the round, and
  over the rounds of the daemon (build the deltas, queue them, commit the store) the growth
  telescopes.
\<close>


section \<open>What a delta says\<close>

definition delta_total :: "event \<Rightarrow> int" where
  "delta_total d = payload_int (Payload d) [''total_tokens'']"

definition delta_key :: "go_lib \<Rightarrow> event \<Rightarrow> string" where
  "delta_key L d =
     usage_cursor_key L d (first_payload_string (Payload d) [''source_session_id''])
       (first_payload_string (Payload d) [''token_accounting''])"

text \<open>The key and the cumulative total that an event reports.\<close>

definition observed :: "go_lib \<Rightarrow> event \<Rightarrow> (string \<times> usage_observation) option" where
  "observed L ev =
     map_option (\<lambda>ob. (usage_cursor_key L ev (ob_sessionID ob) (first_payload_string (Payload ev) [''token_accounting'']), ob))
       (usage_observation_from_event ev)"

definition observed_total :: "go_lib \<Rightarrow> string \<Rightarrow> event \<Rightarrow> int option" where
  "observed_total L k ev = (case observed L ev of Some (key, ob) \<Rightarrow> if key = k then Some (ob_total ob) else None | None \<Rightarrow> None)"

lemma observed_SomeD:
  assumes "observed L ev = Some (key, ob)"
  shows "usage_observation_from_event ev = Some ob" "trim_space (ob_sessionID ob) = ob_sessionID ob" "0 < ob_total ob"
    "key = usage_cursor_key L ev (ob_sessionID ob) (first_payload_string (Payload ev) [''token_accounting''])"
  using assms by (auto simp: observed_def usage_observation_from_event_def Let_def split: if_splits)

lemmas payload_reads = copy_payload_int_as_def copy_payload_string_other

lemma usage_delta_payload_reads:
  "usage_delta_payload L cfg ev ob previous d window seen ''total_tokens'' = Some (GInt64 (td_total d))"
  "usage_delta_payload L cfg ev ob previous d window seen ''input_tokens'' = Some (GInt64 (td_input d))"
  "usage_delta_payload L cfg ev ob previous d window seen ''output_tokens'' = Some (GInt64 (td_output d))"
  "usage_delta_payload L cfg ev ob previous d window seen ''cache_read_tokens'' = Some (GInt64 (td_cacheRead d))"
  "usage_delta_payload L cfg ev ob previous d window seen ''cache_write_tokens'' = Some (GInt64 (td_cacheWrite d))"
  "usage_delta_payload L cfg ev ob previous d window seen ''source_session_id'' = Some (GString (ob_sessionID ob))"
  by (simp_all add: usage_delta_payload_def Let_def payload_reads split: option.split)

lemma usage_delta_payload_accounting:
  "first_payload_string (usage_delta_payload L cfg ev ob previous d window seen) [''token_accounting'']
     = first_payload_string (Payload ev) [''token_accounting'']"
proof -
  let ?src = "Payload ev"
  have "first_payload_string (copy_payload_int_as ?src ''raw_total_tokens'' ''session_raw_total_tokens''
      (copy_payload_string ?src [''token_accounting''] p)) [''token_accounting'']
     = first_payload_string ?src [''token_accounting'']" if "p ''token_accounting'' = None" for p
    using that
    by (auto simp: copy_payload_int_as_def copy_payload_string_single value_string_def
        split: option.splits gval.splits)
  then show ?thesis
    by (simp add: usage_delta_payload_def Let_def copy_payload_string_other)
qed

lemma delta_of_event:
  assumes "observed L ev = Some (key, ob)" and "DaemonID ev = cfg_DaemonID cfg"
  shows "delta_key L (base_event cfg i t ty (Source ev) (AgentType ev)
           (usage_delta_payload L cfg ev ob previous d window seen)) = key"
    and "delta_total (base_event cfg i t ty (Source ev) (AgentType ev)
           (usage_delta_payload L cfg ev ob previous d window seen)) = td_total d"
proof -
  let ?p = "usage_delta_payload L cfg ev ob previous d window seen"
  have "first_payload_string ?p [''source_session_id''] = ob_sessionID ob"
    by (rule first_payload_string_GString) (simp_all only: usage_delta_payload_reads observed_SomeD(2) [OF assms(1)])
  then show "delta_key L (base_event cfg i t ty (Source ev) (AgentType ev) ?p) = key"
    using assms(2) observed_SomeD(4) [OF assms(1)]
    by (simp add: delta_key_def base_event_def usage_cursor_key_def usage_delta_payload_accounting empty_event_def
        del: first_payload_string.simps)
  show "delta_total (base_event cfg i t ty (Source ev) (AgentType ev) ?p) = td_total d"
    by (simp add: delta_total_def base_event_def payload_int_def usage_delta_payload_reads as_int64_def)
qed

section \<open>The growth an event reports\<close>

definition previous_cursor :: "go_lib \<Rightarrow> config \<Rightarrow> event \<Rightarrow> usage_store \<Rightarrow> time \<Rightarrow> string \<Rightarrow> usage_cursor option" where
  "previous_cursor L cfg ev sessions observedAt key =
     (case sessions key of Some c \<Rightarrow> Some c | None \<Rightarrow> starting_cursor L cfg (Payload ev) observedAt)"

definition growth :: "usage_observation \<Rightarrow> usage_cursor option \<Rightarrow> int" where
  "growth ob previous =
     (case previous of None \<Rightarrow> 0 | Some c \<Rightarrow> max 0 (sub64 (ob_total ob) (uc_TotalTokens c)))"

lemma seed_cache_total [simp]: "uc_TotalTokens (seed_cache ob c) = uc_TotalTokens c"
  by (simp add: seed_cache_def)

lemma usage_delta_from_event_None: "observed L ev = None \<Longrightarrow> usage_delta_from_event L cfg i ev sessions t = None"
  by (simp add: observed_def usage_delta_from_event_def)

lemma usage_delta_from_event_Some:
  assumes "observed L ev = Some (key, ob)" and "DaemonID ev = cfg_DaemonID cfg"
  obtains delta where "usage_delta_from_event L cfg i ev sessions t = Some (key, cursor_of_observation L ob t, delta)"
    and "\<And>d. delta = Some d \<Longrightarrow> EventID d = i \<and> delta_key L d = key"
    and "(case delta of None \<Rightarrow> 0 | Some d \<Rightarrow> delta_total d) = growth ob (previous_cursor L cfg ev sessions t key)"
proof -
  note o = observed_SomeD [OF assms(1)]
  let ?prev = "case sessions key of Some c \<Rightarrow> Some c | None \<Rightarrow> starting_cursor L cfg (Payload ev) t"
  define delta where "delta =
    (case ?prev of None \<Rightarrow> None
     | Some c0 \<Rightarrow>
        let previous = seed_cache ob c0; (d, ok) = calculate_usage_token_delta ob previous
        in if \<not> ok then None
           else let window = usage_delta_window L cfg (Payload ev) previous t
             in Some (base_event cfg i (snd window) ''usage.delta'' (Source ev) (AgentType ev)
                   (usage_delta_payload L cfg ev ob previous d window (sessions key \<noteq> None))))"
  show ?thesis
  proof (rule that [of delta])
    show "usage_delta_from_event L cfg i ev sessions t = Some (key, cursor_of_observation L ob t, delta)"
      unfolding usage_delta_from_event_def delta_def
      by (simp only: o(1) option.case Let_def o(4) [symmetric])
         (cases ?prev; simp add: calculate_usage_token_delta_def Let_def)
    show "EventID d = i \<and> delta_key L d = key" if "delta = Some d" for d
      using that unfolding delta_def
      by (cases ?prev) (auto simp: Let_def calculate_usage_token_delta_def delta_of_event [OF assms]
          simp del: delta_key_def split: if_splits, simp_all add: base_event_def)
    show "(case delta of None \<Rightarrow> 0 | Some d \<Rightarrow> delta_total d) = growth ob (previous_cursor L cfg ev sessions t key)"
      unfolding delta_def previous_cursor_def growth_def
      by (cases ?prev) (auto simp: Let_def calculate_usage_token_delta_def delta_of_event [OF assms] max_def)
  qed
qed


section \<open>The loop and the rounds\<close>

definition key_total :: "go_lib \<Rightarrow> string \<Rightarrow> event list \<Rightarrow> int" where
  "key_total L k ds = (\<Sum>d\<leftarrow>filter (\<lambda>d. delta_key L d = k) ds. delta_total d)"

lemma key_total_simps [simp]:
  "key_total L k [] = 0"
  "key_total L k (d # ds) = (if delta_key L d = k then delta_total d else 0) + key_total L k ds"
  "key_total L k (ds @ ds') = key_total L k ds + key_total L k ds'"
  by (simp_all add: key_total_def)

definition event_growth :: "go_lib \<Rightarrow> config \<Rightarrow> usage_store \<Rightarrow> time \<Rightarrow> string \<Rightarrow> event \<Rightarrow> int" where
  "event_growth L cfg sessions t k ev =
     (case observed L ev of
        Some (key, ob) \<Rightarrow> if key = k then growth ob (previous_cursor L cfg ev sessions t k) else 0
      | None \<Rightarrow> 0)"

definition last_cursor :: "go_lib \<Rightarrow> time \<Rightarrow> string \<Rightarrow> event list \<Rightarrow> usage_cursor option \<Rightarrow> usage_cursor option" where
  "last_cursor L t k events c =
     foldl (\<lambda>c ev. case observed L ev of
              Some (key, ob) \<Rightarrow> if key = k then Some (cursor_of_observation L ob t) else c
            | None \<Rightarrow> c) c events"

text \<open>
  Every event of a round is compared with the cursors as they were before the round, so two
  summaries of one session in one round are both counted from the same cursor.
\<close>

lemma usage_delta_loop_growth:
  assumes "usage_delta_loop L cfg ids sessions t n events upd = (ds, upd')"
    and "\<forall>ev\<in>set events. DaemonID ev = cfg_DaemonID cfg" and "\<forall>n. ids n \<noteq> []"
  shows "key_total L k ds = (\<Sum>ev\<leftarrow>events. event_growth L cfg sessions t k ev) \<and>
    upd' k = last_cursor L t k events (upd k)"
  using assms
proof (induction events arbitrary: n upd ds upd')
  case Nil
  then show ?case by (simp add: last_cursor_def)
next
  case (Cons ev events)
  show ?case
  proof (cases "observed L ev")
    case None
    with Cons.prems Cons.IH [of n upd ds upd'] show ?thesis
      by (simp add: usage_delta_from_event_None event_growth_def last_cursor_def)
  next
    case (Some kob)
    obtain key ob where kob: "kob = (key, ob)" by fastforce
    with Some have o: "observed L ev = Some (key, ob)" by simp
    have di: "DaemonID ev = cfg_DaemonID cfg" using Cons.prems(2) by simp
    obtain delta where d: "usage_delta_from_event L cfg (ids n) ev sessions t = Some (key, cursor_of_observation L ob t, delta)"
      and dk: "\<And>d. delta = Some d \<Longrightarrow> EventID d = ids n \<and> delta_key L d = key"
      and g: "(case delta of None \<Rightarrow> 0 | Some d \<Rightarrow> delta_total d) = growth ob (previous_cursor L cfg ev sessions t key)"
      by (rule usage_delta_from_event_Some [OF o di]) (rule that; (assumption | blast))
    let ?upd = "upd(key \<mapsto> cursor_of_observation L ob t)"
    let ?m = "case delta of None \<Rightarrow> n | Some _ \<Rightarrow> Suc n"
    obtain ds1 where run: "usage_delta_loop L cfg ids sessions t ?m events ?upd = (ds1, upd')"
      and ds: "ds = (case delta of None \<Rightarrow> ds1 | Some x \<Rightarrow> x # ds1)"
      using Cons.prems(1,3) d dk by (cases delta) (auto split: prod.splits)
    have ih: "key_total L k ds1 = (\<Sum>ev\<leftarrow>events. event_growth L cfg sessions t k ev) \<and>
        upd' k = last_cursor L t k events (?upd k)"
      by (rule Cons.IH [OF run]) (use Cons.prems in auto)
    have "key_total L k ds = event_growth L cfg sessions t k ev + key_total L k ds1"
      using g dk by (cases delta) (auto simp: ds event_growth_def o)
    moreover have "last_cursor L t k (ev # events) (upd k) = last_cursor L t k events (?upd k)"
      by (simp add: last_cursor_def o)
    ultimately show ?thesis using ih by simp
  qed
qed

text \<open>
  Rounds of collection: each builds the deltas of its events and commits the store.
\<close>

fun usage_rounds ::
  "go_lib \<Rightarrow> config \<Rightarrow> (nat \<Rightarrow> nat \<Rightarrow> string) \<Rightarrow> nat \<Rightarrow> (event list \<times> time) list \<Rightarrow> usage_store \<Rightarrow> event list \<times> usage_store" where
  "usage_rounds L cfg ids n [] sessions = ([], sessions)"
| "usage_rounds L cfg ids n ((events, t) # rounds) sessions =
     (let (ds, sessions1) = usage_delta_loop L cfg (ids n) sessions t 0 events sessions;
          (ds', sessions2) = usage_rounds L cfg ids (Suc n) rounds sessions1
      in (ds @ ds', sessions2))"

definition round_totals :: "go_lib \<Rightarrow> string \<Rightarrow> event list \<Rightarrow> int list" where
  "round_totals L k events = List.map_filter (observed_total L k) events"

lemma round_totals_simps [simp]:
  "round_totals L k [] = []"
  "round_totals L k (ev # events) =
     (case observed_total L k ev of None \<Rightarrow> round_totals L k events | Some v \<Rightarrow> v # round_totals L k events)"
  by (simp_all add: round_totals_def List.map_filter_def split: option.split)

lemma round_growth:
  assumes "sessions k = Some c" and "length (round_totals L k events) \<le> 1"
  shows "(\<Sum>ev\<leftarrow>events. event_growth L cfg sessions t k ev)
      = (case round_totals L k events of [] \<Rightarrow> 0 | v # _ \<Rightarrow> max 0 (sub64 v (uc_TotalTokens c)))"
    and "\<exists>c'. last_cursor L t k events (Some c) = Some c' \<and>
        uc_TotalTokens c' = (case round_totals L k events of [] \<Rightarrow> uc_TotalTokens c | v # _ \<Rightarrow> v)"
proof -
  have none: "(\<Sum>ev\<leftarrow>events. event_growth L cfg sessions t k ev) = 0 \<and> last_cursor L t k events c0 = c0"
    if "round_totals L k events = []" for events c0
    using that
    by (induction events)
      (auto simp: event_growth_def last_cursor_def observed_total_def split: option.splits prod.splits if_splits)
  show "(\<Sum>ev\<leftarrow>events. event_growth L cfg sessions t k ev)
      = (case round_totals L k events of [] \<Rightarrow> 0 | v # _ \<Rightarrow> max 0 (sub64 v (uc_TotalTokens c)))"
    using assms
  proof (induction events)
    case (Cons ev events)
    then show ?case
      using none [of events]
      by (auto simp: event_growth_def observed_total_def growth_def previous_cursor_def split: option.splits prod.splits if_splits)
  qed simp
  show "\<exists>c'. last_cursor L t k events (Some c) = Some c' \<and>
        uc_TotalTokens c' = (case round_totals L k events of [] \<Rightarrow> uc_TotalTokens c | v # _ \<Rightarrow> v)"
    using assms(2)
  proof (induction events)
    case Nil
    then show ?case by (simp add: last_cursor_def)
  next
    case (Cons ev events)
    show ?case
    proof (cases "observed_total L k ev")
      case None
      then have "last_cursor L t k (ev # events) (Some c) = last_cursor L t k events (Some c)"
        by (auto simp: last_cursor_def observed_total_def split: option.splits prod.splits if_splits)
      with None Cons show ?thesis by simp
    next
      case (Some v)
      then obtain ob where o: "observed L ev = Some (k, ob)" "ob_total ob = v"
        by (auto simp: observed_total_def split: option.splits prod.splits if_splits)
      from Some Cons.prems have "round_totals L k events = []" by simp
      from none [OF this, of "Some (cursor_of_observation L ob t)"] o Some show ?thesis
        by (simp add: last_cursor_def cursor_of_observation_def)
    qed
  qed
qed

text \<open>
  C15: Usage adds up: over any number of rounds of collection, for a session with a cursor
  whose reported totals never fall and that is reported at most once a round, the token
  totals of the delta events sum up to exactly the growth since the first cursor, which is
  where the last cursor stands.
\<close>

theorem usage_deltas_telescope:
  assumes "usage_rounds L cfg ids n rounds sessions = (ds, sessions')"
    and "sessions k = Some c" and "0 \<le> uc_TotalTokens c"
    and "\<forall>(events, t)\<in>set rounds. length (round_totals L k events) \<le> 1 \<and> (\<forall>ev\<in>set events. DaemonID ev = cfg_DaemonID cfg)"
    and "sorted (uc_TotalTokens c # concat (map (round_totals L k \<circ> fst) rounds))"
    and "last (uc_TotalTokens c # concat (map (round_totals L k \<circ> fst) rounds)) < 2 ^ 63"
    and "\<forall>n m. ids n m \<noteq> []"
  shows "\<exists>c'. sessions' k = Some c' \<and> key_total L k ds = uc_TotalTokens c' - uc_TotalTokens c \<and>
    uc_TotalTokens c' = last (uc_TotalTokens c # concat (map (round_totals L k \<circ> fst) rounds))"
  using assms(1-6)
proof (induction rounds arbitrary: n sessions ds sessions' c)
  case Nil
  then show ?case by simp
next
  case (Cons r rounds)
  obtain events t where r: "r = (events, t)" by fastforce
  obtain ds1 s1 ds2 where run1: "usage_delta_loop L cfg (ids n) sessions t 0 events sessions = (ds1, s1)"
    and run2: "usage_rounds L cfg ids (Suc n) rounds s1 = (ds2, sessions')" and ds: "ds = ds1 @ ds2"
    using Cons.prems(1) by (auto simp: r split: prod.splits)
  have one: "length (round_totals L k events) \<le> 1" and di: "\<forall>ev\<in>set events. DaemonID ev = cfg_DaemonID cfg"
    using Cons.prems(4) by (simp_all add: r)
  have loop: "key_total L k ds1 = (\<Sum>ev\<leftarrow>events. event_growth L cfg sessions t k ev)"
      "s1 k = last_cursor L t k events (Some c)"
    using usage_delta_loop_growth [OF run1 di, of k] assms(7) Cons.prems(2) by simp_all
  obtain c1 where c1: "s1 k = Some c1"
    and tot: "uc_TotalTokens c1 = (case round_totals L k events of [] \<Rightarrow> uc_TotalTokens c | v # _ \<Rightarrow> v)"
    using round_growth(2) [where sessions = sessions and k = k and c = c, OF Cons.prems(2) one, of t] loop(2) by auto
  let ?rest = "concat (map (round_totals L k \<circ> fst) rounds)"
  have all: "concat (map (round_totals L k \<circ> fst) (r # rounds)) = round_totals L k events @ ?rest" by (simp add: r)
  from one consider "round_totals L k events = []" | v where "round_totals L k events = [v]"
    by (cases "round_totals L k events") auto
  then have "sorted (uc_TotalTokens c1 # ?rest) \<and> uc_TotalTokens c \<le> uc_TotalTokens c1 \<and>
      last (uc_TotalTokens c # round_totals L k events @ ?rest) = last (uc_TotalTokens c1 # ?rest)"
    using Cons.prems(5) tot by cases (simp_all add: all r comp_def)
  then have sorted1: "sorted (uc_TotalTokens c1 # ?rest)" and ge: "uc_TotalTokens c \<le> uc_TotalTokens c1"
    and last1: "last (uc_TotalTokens c # round_totals L k events @ ?rest) = last (uc_TotalTokens c1 # ?rest)"
    by blast+
  have "uc_TotalTokens c1 \<le> last (uc_TotalTokens c1 # ?rest)" 
    using sorted1 last_in_set [of ?rest] by (cases "?rest = []") auto
  moreover have lim: "last (uc_TotalTokens c1 # ?rest) < 2 ^ 63" using Cons.prems(6) unfolding all last1 .
  ultimately have c1_less: "uc_TotalTokens c1 < 2 ^ 63" by (rule order_le_less_trans)
  have "key_total L k ds1 = uc_TotalTokens c1 - uc_TotalTokens c"
    using loop(1) round_growth(1) [where sessions = sessions and k = k and c = c, OF Cons.prems(2) one, of cfg t] tot ge c1_less Cons.prems(3)
    by (auto simp: sub64_nonneg_exact split: list.splits)
  moreover have "\<exists>c'. sessions' k = Some c' \<and> key_total L k ds2 = uc_TotalTokens c' - uc_TotalTokens c1 \<and>
      uc_TotalTokens c' = last (uc_TotalTokens c1 # ?rest)"
    by (rule Cons.IH [OF run2 c1 _ _ sorted1 lim]) (use Cons.prems(3,4) ge in \<open>simp_all add: r\<close>)
  ultimately show ?case unfolding all last1 by (auto simp: ds simp del: last.simps)
qed


lemma usage_delta_loop_member:
  assumes "usage_delta_loop L cfg ids sessions t n events upd = (ds, upd')" and "d \<in> set ds"
  shows "\<exists>ev\<in>set events. \<exists>i key c. usage_delta_from_event L cfg (ids i) ev sessions t = Some (key, c, Some d)"
  using assms
proof (induction events arbitrary: n upd ds upd')
  case (Cons ev events)
  show ?case
  proof (cases "usage_delta_from_event L cfg (ids n) ev sessions t")
    case None
    with Cons show ?thesis by fastforce
  next
    case (Some r)
    obtain key c delta where r: "r = (key, c, delta)" by (cases r) auto
    let ?m = "case delta of None \<Rightarrow> n | Some _ \<Rightarrow> Suc n"
    obtain ds1 where run: "usage_delta_loop L cfg ids sessions t ?m events (upd(key \<mapsto> c)) = (ds1, upd')"
      and ds: "set ds \<subseteq> set ds1 \<union> (case delta of None \<Rightarrow> {} | Some x \<Rightarrow> {x})"
      using Cons.prems(1) Some r by (cases delta) (auto split: prod.splits if_splits)
    from ds Cons.prems(2) consider "d \<in> set ds1" | "delta = Some d" by (cases delta) auto
    then show ?thesis
    proof cases
      case 1
      from Cons.IH [OF run this] show ?thesis by auto
    next
      case 2
      with Some r show ?thesis by auto
    qed
  qed
qed simp

text \<open>The delta of one event, spelled out.\<close>

lemma usage_delta_from_event_delta:
  assumes "usage_delta_from_event L cfg i ev sessions t = Some (key, c, Some d)"
  obtains ob c0 previous td where "observed L ev = Some (key, ob)" and "previous_cursor L cfg ev sessions t key = Some c0"
    and "previous = seed_cache ob c0" and "td = fst (calculate_usage_token_delta ob previous)" and "0 < td_total td"
    and "d = base_event cfg i (snd (usage_delta_window L cfg (Payload ev) previous t)) ''usage.delta'' (Source ev) (AgentType ev)
           (usage_delta_payload L cfg ev ob previous td (usage_delta_window L cfg (Payload ev) previous t) (sessions key \<noteq> None))"
proof -
  from assms obtain ob where ob: "usage_observation_from_event ev = Some ob"
    by (auto simp: usage_delta_from_event_def split: option.splits)
  define k where "k = usage_cursor_key L ev (ob_sessionID ob) (first_payload_string (Payload ev) [''token_accounting''])"
  have o: "observed L ev = Some (k, ob)" by (simp add: observed_def ob k_def del: first_payload_string.simps)
  have un: "usage_delta_from_event L cfg i ev sessions t =
      (case previous_cursor L cfg ev sessions t k of
         None \<Rightarrow> Some (k, cursor_of_observation L ob t, None)
       | Some c0 \<Rightarrow>
          let previous = seed_cache ob c0; (td, ok) = calculate_usage_token_delta ob previous
          in if \<not> ok then Some (k, cursor_of_observation L ob t, None)
             else let window = usage_delta_window L cfg (Payload ev) previous t
               in Some (k, cursor_of_observation L ob t, Some
                    (base_event cfg i (snd window) ''usage.delta'' (Source ev) (AgentType ev)
                      (usage_delta_payload L cfg ev ob previous td window (sessions k \<noteq> None)))))"
    by (simp only: usage_delta_from_event_def ob option.case Let_def k_def [symmetric] previous_cursor_def)
  from assms obtain c0 where c0: "previous_cursor L cfg ev sessions t k = Some c0"
    unfolding un by (auto split: option.splits)
  have td: "snd (calculate_usage_token_delta ob p) = (0 < td_total (fst (calculate_usage_token_delta ob p)))" for p
    by (simp add: calculate_usage_token_delta_def Let_def)
  have kk: "k = key" using assms unfolding un c0 option.case Let_def case_prod_beta td by (auto split: if_splits)
  from assms c0 o show ?thesis
    unfolding un c0 option.case Let_def case_prod_beta td kk
    by (intro that [OF _ _ refl refl]) (auto split: if_splits)
qed

text \<open>
  Every delta event reports growth: its total is positive and none of its counters is
  negative; and when the cursor predates cache accounting it reports no cache tokens, so the
  cache history of a session is never counted at once.
\<close>

theorem usage_deltas_are_growth:
  assumes "build_usage_delta_events L cfg ids now (Inr sessions) events t = Inr (ds, sessions')"
    and "\<forall>ev\<in>set events. DaemonID ev = cfg_DaemonID cfg" and "d \<in> set ds"
  shows "EventType d = ''usage.delta'' \<and> 0 < delta_total d \<and>
    0 \<le> payload_int (Payload d) [''input_tokens''] \<and> 0 \<le> payload_int (Payload d) [''output_tokens''] \<and>
    0 \<le> payload_int (Payload d) [''cache_read_tokens''] \<and> 0 \<le> payload_int (Payload d) [''cache_write_tokens''] \<and>
    (\<forall>c. sessions (delta_key L d) = Some c \<and> \<not> uc_CacheObserved c \<longrightarrow>
       payload_int (Payload d) [''cache_read_tokens''] = 0 \<and> payload_int (Payload d) [''cache_write_tokens''] = 0)"
proof -
  let ?t = "if is_zero t then now else t"
  have "usage_delta_loop L cfg ids sessions ?t 0 events sessions = (ds, sessions')"
    using assms(1) by (simp add: build_usage_delta_events_def)
  from usage_delta_loop_member [OF this assms(3)] obtain ev i key c
    where ev: "ev \<in> set events" and run: "usage_delta_from_event L cfg (ids i) ev sessions ?t = Some (key, c, Some d)"
    by blast
  have di: "DaemonID ev = cfg_DaemonID cfg" using assms(2) ev by blast
  from run obtain ob c0 previous td where o: "observed L ev = Some (key, ob)"
    and c0: "previous_cursor L cfg ev sessions ?t key = Some c0" and p: "previous = seed_cache ob c0"
    and td: "td = fst (calculate_usage_token_delta ob previous)" and pos: "0 < td_total td"
    and d: "d = base_event cfg (ids i) (snd (usage_delta_window L cfg (Payload ev) previous ?t)) ''usage.delta'' (Source ev) (AgentType ev)
           (usage_delta_payload L cfg ev ob previous td (usage_delta_window L cfg (Payload ev) previous ?t) (sessions key \<noteq> None))"
    by (rule usage_delta_from_event_delta) (rule that; (assumption | blast))
  have reads: "payload_int (Payload d) [''input_tokens''] = td_input td" "payload_int (Payload d) [''output_tokens''] = td_output td"
      "payload_int (Payload d) [''cache_read_tokens''] = td_cacheRead td" "payload_int (Payload d) [''cache_write_tokens''] = td_cacheWrite td"
      "EventType d = ''usage.delta''"
    by (simp_all add: d base_event_def payload_int_def usage_delta_payload_reads as_int64_def)
  have key: "delta_key L d = key" and tot: "delta_total d = td_total td"
    unfolding d by (rule delta_of_event [OF o di])+
  have nonneg: "0 \<le> td_input td" "0 \<le> td_output td" "0 \<le> td_cacheRead td" "0 \<le> td_cacheWrite td"
    by (simp_all add: td calculate_usage_token_delta_def Let_def)
  have "td_cacheRead td = 0 \<and> td_cacheWrite td = 0" if "sessions key = Some c'" "\<not> uc_CacheObserved c'" for c'
    using that c0 by (simp add: td p previous_cursor_def calculate_usage_token_delta_def Let_def seed_cache_def sub64_def wrap64_def)
  with nonneg pos show ?thesis unfolding reads key tot by blast
qed

text \<open>
  The first observation of a session that was not tracked from its start and has no
  baseline reports nothing; it only sets the cursor.
\<close>

theorem usage_first_observation_only_seeds:
  assumes "observed L ev = Some (key, ob)" and "sessions key = None"
    and "payload_int_value (Payload ev) [internal_previous_total_key] = None"
    and "\<not> payload_bool (Payload ev) internal_initial_delta_key"
  shows "usage_delta_from_event L cfg i ev sessions t = Some (key, cursor_of_observation L ob t, None)"
proof -
  have "starting_cursor L cfg (Payload ev) t = None"
    by (simp only: starting_cursor_def previous_usage_cursor_from_payload_def assms(3,4) Let_def option.case if_False)
  with assms(2) observed_SomeD(1,4) [OF assms(1)] show ?thesis
    by (simp only: usage_delta_from_event_def option.case Let_def)
qed

section \<open>Witnesses\<close>

definition cfg0 :: config where
  "cfg0 = (new_runtime_config ''dev'' ''d'' [])\<lparr>cfg_DaemonID := ''dm''\<rparr>"

definition summary_event :: "int \<Rightarrow> event" where
  "summary_event n = empty_event\<lparr>EventID := ''e'', DaemonID := ''dm'', EventType := ''usage.summary'',
     AgentType := ''codex'', Payload := [''session_id'' \<mapsto> GString ''s1'', ''total_tokens'' \<mapsto> GInt64 n]\<rparr>"

definition key0 :: string where
  "key0 = usage_cursor_key lib0 (summary_event 1) ''s1'' []"

definition cursor0 :: usage_cursor where
  "cursor0 = \<lparr>uc_TotalTokens = 4, uc_InputTokens = 0, uc_OutputTokens = 0, uc_CacheReadTokens = 0,
     uc_CacheWriteTokens = 0, uc_ObservedAt = [], uc_CacheObserved = False\<rparr>"

definition rounds0 :: "(event list \<times> time) list" where
  "rounds0 = [([summary_event 10], 1), ([], 2), ([summary_event 25], 3)]"

lemma usage_deltas_telescope_witness:
  "key_total lib0 key0 (fst (usage_rounds lib0 cfg0 (\<lambda>_ _. ''id'') 0 rounds0 [key0 \<mapsto> cursor0])) = 21"
proof -
  obtain ds s where run: "usage_rounds lib0 cfg0 (\<lambda>_ _. ''id'') 0 rounds0 [key0 \<mapsto> cursor0] = (ds, s)" by fastforce
  have totals: "concat (map (round_totals lib0 key0 \<circ> fst) rounds0) = [10, 25]" by code_simp
  have "\<forall>(events, t)\<in>set rounds0. length (round_totals lib0 key0 events) \<le> 1 \<and> (\<forall>ev\<in>set events. DaemonID ev = cfg_DaemonID cfg0)"
    by code_simp
  from usage_deltas_telescope [OF run _ _ this, where c = cursor0]
  show ?thesis unfolding totals run by (auto simp: cursor0_def)
qed

lemma usage_deltas_are_growth_witness:
  "\<exists>d s. build_usage_delta_events lib0 cfg0 (\<lambda>_. ''id'') 7 (Inr [key0 \<mapsto> cursor0]) [summary_event 10] 5 = Inr ([d], s) \<and>
     0 < delta_total d"
proof -
  have "case build_usage_delta_events lib0 cfg0 (\<lambda>_. ''id'') 7 (Inr [key0 \<mapsto> cursor0]) [summary_event 10] 5
      of Inr (ds, s) \<Rightarrow> length ds = 1 | _ \<Rightarrow> False" by code_simp
  then obtain d s where run: "build_usage_delta_events lib0 cfg0 (\<lambda>_. ''id'') 7 (Inr [key0 \<mapsto> cursor0]) [summary_event 10] 5 = Inr ([d], s)"
    by (auto split: sum.splits prod.splits simp: length_Suc_conv)
  have "\<forall>ev\<in>set [summary_event 10]. DaemonID ev = cfg_DaemonID cfg0" by code_simp
  from usage_deltas_are_growth [OF run this, of d] run show ?thesis by auto
qed

lemma usage_first_observation_only_seeds_witness:
  "\<exists>key c. usage_delta_from_event lib0 cfg0 ''id'' (summary_event 10) Map.empty 5 = Some (key, c, None)"
proof -
  have "observed lib0 (summary_event 10) \<noteq> None" by code_simp
  then obtain key ob where o: "observed lib0 (summary_event 10) = Some (key, ob)" by auto
  have "payload_int_value (Payload (summary_event 10)) [internal_previous_total_key] = None"
    and "\<not> payload_bool (Payload (summary_event 10)) internal_initial_delta_key" by code_simp+
  from usage_first_observation_only_seeds [OF o _ this, where sessions = Map.empty] show ?thesis by blast
qed

end
