(* ===== verification/Baseline_Properties.thy ===== *)
theory Baseline_Properties
  imports Baseline_Filter Usage_Accounting
begin

text \<open>
  The laws of the session baseline: its counters never go back, history is not reported, a
  marked summary leads to a usage delta of exactly the growth over the cursor it was marked
  with (so a delta lost between two commits is recovered once), and an MCP call is reported
  once. \<open>time_text\<close> is the law of the time format that the MCP cursors need.
\<close>


section \<open>What recording a session does to its counters\<close>

text \<open>The transcript cursor and the token counters of a session do not touch each other.\<close>

definition same_counters :: "baseline_session \<Rightarrow> baseline_session \<Rightarrow> bool" where
  "same_counters s s' \<longleftrightarrow>
     bs_TotalTokens s' = bs_TotalTokens s \<and> bs_InputTokens s' = bs_InputTokens s \<and>
     bs_OutputTokens s' = bs_OutputTokens s \<and> bs_CacheReadTokens s' = bs_CacheReadTokens s \<and>
     bs_CacheWriteTokens s' = bs_CacheWriteTokens s \<and> bs_TokensObserved s' = bs_TokensObserved s \<and>
     bs_PreviousTotalTokens s' = bs_PreviousTotalTokens s \<and> bs_TokenAccounting s' = bs_TokenAccounting s"

lemma same_counters_refl [simp]: "same_counters s s"
  by (simp add: same_counters_def)

lemma same_counters_trans: "same_counters s s' \<Longrightarrow> same_counters s' s'' \<Longrightarrow> same_counters s s''"
  by (simp add: same_counters_def)

lemma same_counters_seed: "same_counters s (seed_transcript_cursor L p s)"
  by (simp add: seed_transcript_cursor_def Let_def same_counters_def)

lemma same_counters_cursor: "same_counters s (transcript_cursor_from_payload L p s)"
  unfolding transcript_cursor_from_payload_def Let_def
  by (simp add: same_counters_def split: option.split gval.split)

lemma same_counters_steps:
  "same_counters (fst sc) (fst (update_transcript_cursor L p (update_transcript_hash p (update_updated_at L p sc))))"
proof -
  have "same_counters (fst sc) (fst (update_updated_at L p sc))" for sc
    by (cases sc) (simp add: update_updated_at_def Let_def same_counters_def)
  moreover have "same_counters (fst sc) (fst (update_transcript_hash p sc))" for sc
    by (cases sc) (simp add: update_transcript_hash_def Let_def same_counters_def)
  moreover have "same_counters (fst sc) (fst (update_transcript_cursor L p sc))" for sc
    by (cases sc) (simp add: update_transcript_cursor_def Let_def same_counters_seed same_counters_cursor)
  ultimately show ?thesis using same_counters_trans by metis
qed

text \<open>The counters after the later steps, as functions of the session before them.\<close>

definition raised :: "bool \<Rightarrow> int \<Rightarrow> int option \<Rightarrow> int" where
  "raised ob old new = (case new of None \<Rightarrow> old | Some n \<Rightarrow> if \<not> ob \<or> n > old then n else old)"

lemma update_total_counters:
  "bs_TotalTokens (fst (update_total p t sc)) = raised (bs_TokensObserved (fst sc)) (bs_TotalTokens (fst sc)) (payload_int_value p tokens_keys)"
  "bs_TokensObserved (fst (update_total p t sc)) = (bs_TokensObserved (fst sc) \<or> payload_int_value p tokens_keys \<noteq> None)"
  "bs_InputTokens (fst (update_total p t sc)) = bs_InputTokens (fst sc)"
  "bs_OutputTokens (fst (update_total p t sc)) = bs_OutputTokens (fst sc)"
  "bs_CacheReadTokens (fst (update_total p t sc)) = bs_CacheReadTokens (fst sc)"
  "bs_CacheWriteTokens (fst (update_total p t sc)) = bs_CacheWriteTokens (fst sc)"
  "bs_TokenAccounting (fst (update_total p t sc)) = bs_TokenAccounting (fst sc)"
  "bs_PreviousTotalTokens (fst (update_total p t sc)) =
     (case payload_int_value p tokens_keys of
        None \<Rightarrow> bs_PreviousTotalTokens (fst sc)
      | Some n \<Rightarrow>
          if \<not> bs_TokensObserved (fst sc) then n
          else if n > bs_TotalTokens (fst sc) then bs_TotalTokens (fst sc)
          else bs_PreviousTotalTokens (fst sc))"
  by (cases sc; simp add: update_total_def raised_def split: option.split)+

lemma update_later_total:
  fixes p sc
  defines "r \<equiv> fst (update_accounting p (update_cache_write p (update_cache_read p (update_output p (update_input p sc)))))"
  shows "bs_TotalTokens r = bs_TotalTokens (fst sc)" "bs_TokensObserved r = bs_TokensObserved (fst sc)"
    "bs_PreviousTotalTokens r = bs_PreviousTotalTokens (fst sc)"
    "bs_InputTokens r = raised (bs_TokensObserved (fst sc)) (bs_InputTokens (fst sc)) (payload_int_value p input_keys)"
    "bs_OutputTokens r = raised (bs_TokensObserved (fst sc)) (bs_OutputTokens (fst sc)) (payload_int_value p output_keys)"
    "bs_CacheReadTokens r = raised (bs_TokensObserved (fst sc)) (bs_CacheReadTokens (fst sc)) (payload_int_value p cache_read_keys)"
    "bs_CacheWriteTokens r = raised (bs_TokensObserved (fst sc)) (bs_CacheWriteTokens (fst sc)) (payload_int_value p cache_write_keys)"
    "bs_TokenAccounting r = (let a = first_payload_string p [''token_accounting''] in if a \<noteq> [] then a else bs_TokenAccounting (fst sc))"
proof -
  define P where "P = (\<lambda>f :: baseline_session \<times> bool \<Rightarrow> baseline_session \<times> bool. \<forall>sc.
     bs_TotalTokens (fst (f sc)) = bs_TotalTokens (fst sc) \<and> bs_TokensObserved (fst (f sc)) = bs_TokensObserved (fst sc) \<and>
     bs_PreviousTotalTokens (fst (f sc)) = bs_PreviousTotalTokens (fst sc))"
  have i: "P (update_input p)" "P (update_output p)" "P (update_cache_read p)" "P (update_cache_write p)" "P (update_accounting p)"
    by (auto simp: P_def update_input_def update_output_def update_cache_read_def update_cache_write_def update_accounting_def Let_def
        split: option.split)
  note steps = i [unfolded P_def, rule_format]
  show "bs_TotalTokens r = bs_TotalTokens (fst sc)" "bs_TokensObserved r = bs_TokensObserved (fst sc)"
    "bs_PreviousTotalTokens r = bs_PreviousTotalTokens (fst sc)"
    by (simp_all add: r_def steps del: first_payload_string.simps)
  have inp: "bs_InputTokens (fst (update_input p sc)) = raised (bs_TokensObserved (fst sc)) (bs_InputTokens (fst sc)) (payload_int_value p input_keys)"
    "bs_OutputTokens (fst (update_input p sc)) = bs_OutputTokens (fst sc)"
    "bs_CacheReadTokens (fst (update_input p sc)) = bs_CacheReadTokens (fst sc)"
    "bs_CacheWriteTokens (fst (update_input p sc)) = bs_CacheWriteTokens (fst sc)"
    "bs_TokenAccounting (fst (update_input p sc)) = bs_TokenAccounting (fst sc)" for sc
    by (cases sc; simp add: update_input_def raised_def split: option.split)+
  have out: "bs_OutputTokens (fst (update_output p sc)) = raised (bs_TokensObserved (fst sc)) (bs_OutputTokens (fst sc)) (payload_int_value p output_keys)"
    "bs_InputTokens (fst (update_output p sc)) = bs_InputTokens (fst sc)"
    "bs_CacheReadTokens (fst (update_output p sc)) = bs_CacheReadTokens (fst sc)"
    "bs_CacheWriteTokens (fst (update_output p sc)) = bs_CacheWriteTokens (fst sc)"
    "bs_TokenAccounting (fst (update_output p sc)) = bs_TokenAccounting (fst sc)" for sc
    by (cases sc; simp add: update_output_def raised_def split: option.split)+
  have cr: "bs_CacheReadTokens (fst (update_cache_read p sc)) = raised (bs_TokensObserved (fst sc)) (bs_CacheReadTokens (fst sc)) (payload_int_value p cache_read_keys)"
    "bs_InputTokens (fst (update_cache_read p sc)) = bs_InputTokens (fst sc)"
    "bs_OutputTokens (fst (update_cache_read p sc)) = bs_OutputTokens (fst sc)"
    "bs_CacheWriteTokens (fst (update_cache_read p sc)) = bs_CacheWriteTokens (fst sc)"
    "bs_TokenAccounting (fst (update_cache_read p sc)) = bs_TokenAccounting (fst sc)" for sc
    by (cases sc; simp add: update_cache_read_def raised_def split: option.split)+
  have cw: "bs_CacheWriteTokens (fst (update_cache_write p sc)) = raised (bs_TokensObserved (fst sc)) (bs_CacheWriteTokens (fst sc)) (payload_int_value p cache_write_keys)"
    "bs_InputTokens (fst (update_cache_write p sc)) = bs_InputTokens (fst sc)"
    "bs_OutputTokens (fst (update_cache_write p sc)) = bs_OutputTokens (fst sc)"
    "bs_CacheReadTokens (fst (update_cache_write p sc)) = bs_CacheReadTokens (fst sc)"
    "bs_TokenAccounting (fst (update_cache_write p sc)) = bs_TokenAccounting (fst sc)" for sc
    by (cases sc; simp add: update_cache_write_def raised_def split: option.split)+
  have ac: "bs_InputTokens (fst (update_accounting p sc)) = bs_InputTokens (fst sc)"
    "bs_OutputTokens (fst (update_accounting p sc)) = bs_OutputTokens (fst sc)"
    "bs_CacheReadTokens (fst (update_accounting p sc)) = bs_CacheReadTokens (fst sc)"
    "bs_CacheWriteTokens (fst (update_accounting p sc)) = bs_CacheWriteTokens (fst sc)"
    "bs_TokenAccounting (fst (update_accounting p sc)) =
       (let a = first_payload_string p [''token_accounting''] in if a \<noteq> [] then a else bs_TokenAccounting (fst sc))" for sc
    by (cases sc; auto simp add: update_accounting_def Let_def simp del: first_payload_string.simps)+
  show "bs_InputTokens r = raised (bs_TokensObserved (fst sc)) (bs_InputTokens (fst sc)) (payload_int_value p input_keys)"
    "bs_OutputTokens r = raised (bs_TokensObserved (fst sc)) (bs_OutputTokens (fst sc)) (payload_int_value p output_keys)"
    "bs_CacheReadTokens r = raised (bs_TokensObserved (fst sc)) (bs_CacheReadTokens (fst sc)) (payload_int_value p cache_read_keys)"
    "bs_CacheWriteTokens r = raised (bs_TokensObserved (fst sc)) (bs_CacheWriteTokens (fst sc)) (payload_int_value p cache_write_keys)"
    "bs_TokenAccounting r = (let a = first_payload_string p [''token_accounting''] in if a \<noteq> [] then a else bs_TokenAccounting (fst sc))"
    by (simp_all only: r_def inp out cr cw ac steps)
qed

lemma updated_session_counters:
  fixes L p sc
  defines "s0 \<equiv> fst (apply_cutover p sc)" and "s' \<equiv> fst (updated_session L p sc)"
  shows "bs_TotalTokens s' = raised (bs_TokensObserved s0) (bs_TotalTokens s0) (payload_int_value p tokens_keys)"
    "bs_TokensObserved s' = (bs_TokensObserved s0 \<or> payload_int_value p tokens_keys \<noteq> None)"
    "bs_PreviousTotalTokens s' = (case payload_int_value p tokens_keys of
        None \<Rightarrow> bs_PreviousTotalTokens s0
      | Some n \<Rightarrow> if \<not> bs_TokensObserved s0 then n else if n > bs_TotalTokens s0 then bs_TotalTokens s0
                 else bs_PreviousTotalTokens s0)"
    "bs_InputTokens s' = raised (bs_TokensObserved s') (bs_InputTokens s0) (payload_int_value p input_keys)"
    "bs_OutputTokens s' = raised (bs_TokensObserved s') (bs_OutputTokens s0) (payload_int_value p output_keys)"
    "bs_CacheReadTokens s' = raised (bs_TokensObserved s') (bs_CacheReadTokens s0) (payload_int_value p cache_read_keys)"
    "bs_CacheWriteTokens s' = raised (bs_TokensObserved s') (bs_CacheWriteTokens s0) (payload_int_value p cache_write_keys)"
    "bs_TokenAccounting s' = (let a = first_payload_string p [''token_accounting''] in if a \<noteq> [] then a else bs_TokenAccounting s0)"
proof -
  define sc2 where "sc2 = update_transcript_cursor L p (update_transcript_hash p (update_updated_at L p (apply_cutover p sc)))"
  have same: "same_counters s0 (fst sc2)" unfolding sc2_def s0_def by (rule same_counters_steps)
  note same = same [unfolded same_counters_def]
  have s': "s' = fst (update_accounting p (update_cache_write p (update_cache_read p (update_output p (update_input p
      (update_total p (bs_UpdatedAt s0) sc2))))))"
    by (simp only: s'_def updated_session_def Let_def sc2_def s0_def)
  note later = update_later_total [of p "update_total p (bs_UpdatedAt s0) sc2", folded s', unfolded update_total_counters]
  show tot: "bs_TokensObserved s' = (bs_TokensObserved s0 \<or> payload_int_value p tokens_keys \<noteq> None)"
    using later(2) same by simp
  show "bs_TotalTokens s' = raised (bs_TokensObserved s0) (bs_TotalTokens s0) (payload_int_value p tokens_keys)"
    using later(1) same by simp
  show "bs_PreviousTotalTokens s' = (case payload_int_value p tokens_keys of
        None \<Rightarrow> bs_PreviousTotalTokens s0
      | Some n \<Rightarrow> if \<not> bs_TokensObserved s0 then n else if n > bs_TotalTokens s0 then bs_TotalTokens s0
                 else bs_PreviousTotalTokens s0)"
    using later(3) same by (simp split: option.split)
  show "bs_InputTokens s' = raised (bs_TokensObserved s') (bs_InputTokens s0) (payload_int_value p input_keys)"
    "bs_OutputTokens s' = raised (bs_TokensObserved s') (bs_OutputTokens s0) (payload_int_value p output_keys)"
    "bs_CacheReadTokens s' = raised (bs_TokensObserved s') (bs_CacheReadTokens s0) (payload_int_value p cache_read_keys)"
    "bs_CacheWriteTokens s' = raised (bs_TokensObserved s') (bs_CacheWriteTokens s0) (payload_int_value p cache_write_keys)"
    "bs_TokenAccounting s' = (let a = first_payload_string p [''token_accounting''] in if a \<noteq> [] then a else bs_TokenAccounting s0)"
    using later(4-8) same unfolding tot by simp_all
qed

lemma raised_ge: "ob \<Longrightarrow> old \<le> raised ob old new"
  by (simp add: raised_def split: option.split)

text \<open>The cursor a session advanced from is not past the one it stands at.\<close>

definition session_ok :: "baseline_session \<Rightarrow> bool" where
  "session_ok s \<longleftrightarrow> (bs_TokensObserved s \<longrightarrow> bs_PreviousTotalTokens s \<le> bs_TotalTokens s)"

lemma session_ok_updated: "session_ok (fst sc) \<Longrightarrow> session_ok (fst (updated_session L p sc))"
proof -
  assume "session_ok (fst sc)"
  then have "session_ok (fst (apply_cutover p sc))" by (cases sc) (simp add: apply_cutover_def session_ok_def)
  then show ?thesis
    by (auto simp: session_ok_def updated_session_counters raised_def split: option.splits)
qed

text \<open>
  Recording a session never lowers its counters, unless the payload marks a change of the
  accounting scheme; when the total grows, the previous total is the one it grew from; no
  session is forgotten.
\<close>

theorem baseline_never_goes_back:
  assumes "add_baseline_session L p sessions = (sessions', changed)"
    and "\<forall>i s. sessions i = Some s \<longrightarrow> session_ok s"
  shows "(\<forall>i s. sessions' i = Some s \<longrightarrow> session_ok s) \<and> dom sessions \<subseteq> dom sessions' \<and>
    (\<forall>i s. sessions i = Some s \<and> bs_TokensObserved s \<and> \<not> payload_bool p internal_accounting_cutover_key \<longrightarrow>
      (\<exists>s'. sessions' i = Some s' \<and> bs_TokensObserved s' \<and> bs_TotalTokens s \<le> bs_TotalTokens s' \<and>
        bs_InputTokens s \<le> bs_InputTokens s' \<and> bs_OutputTokens s \<le> bs_OutputTokens s' \<and>
        bs_CacheReadTokens s \<le> bs_CacheReadTokens s' \<and> bs_CacheWriteTokens s \<le> bs_CacheWriteTokens s' \<and>
        (bs_TotalTokens s < bs_TotalTokens s' \<longrightarrow> bs_PreviousTotalTokens s' = bs_TotalTokens s)))"
proof (cases "session_id_from_payload p = []")
  case True
  with assms show ?thesis by (auto simp: add_baseline_session_def)
next
  case False
  let ?i = "session_id_from_payload p"
  define old where "old = (case sessions ?i of Some s \<Rightarrow> s | None \<Rightarrow> empty_session)"
  define new where "new = fst (updated_session L p (old, sessions ?i = None))"
  have s': "sessions' = sessions(?i \<mapsto> new)"
    using assms(1) False by (auto simp: add_baseline_session_def Let_def new_def old_def split: prod.splits option.splits)
  have "session_ok old" using assms(2) by (auto simp: old_def empty_session_def session_ok_def split: option.split)
  then have ok: "session_ok new" unfolding new_def by (rule session_ok_updated [of "(old, _)", simplified])
  have up: "bs_TokensObserved new \<and> bs_TotalTokens old \<le> bs_TotalTokens new \<and>
        bs_InputTokens old \<le> bs_InputTokens new \<and> bs_OutputTokens old \<le> bs_OutputTokens new \<and>
        bs_CacheReadTokens old \<le> bs_CacheReadTokens new \<and> bs_CacheWriteTokens old \<le> bs_CacheWriteTokens new \<and>
        (bs_TotalTokens old < bs_TotalTokens new \<longrightarrow> bs_PreviousTotalTokens new = bs_TotalTokens old)"
    if "bs_TokensObserved old" "\<not> payload_bool p internal_accounting_cutover_key"
  proof -
    have cut: "fst (apply_cutover p (old, b)) = old" for b using that(2) by (simp add: apply_cutover_def)
    note c = updated_session_counters [of L p "(old, sessions ?i = None)", unfolded cut, folded new_def]
    have "bs_TokensObserved new" using c(2) that(1) by simp
    with c(1,3-7) that(1) show ?thesis
      by (simp add: raised_ge) (auto simp: raised_def split: option.splits)
  qed
  show ?thesis
    using assms(2) ok up by (auto simp: s' old_def)
qed


section \<open>From the baseline to the usage deltas\<close>

text \<open>The markers are read back as the cursor they were written from, and touch no other key.\<close>

definition marker_keys :: "string set" where
  "marker_keys = {internal_previous_total_key, internal_previous_input_key, internal_previous_output_key,
     internal_previous_cache_read_key, internal_previous_cache_write_key, internal_previous_observed_at_key,
     internal_previous_accounting_key, internal_cursor_only_key, internal_initial_delta_key}"

lemmas marker_defs = mark_internal_cursor_only_def mark_internal_initial_delta_def mark_internal_previous_cursor_def
  mark_internal_recovery_cursor_def put_when_def Let_def

lemma mark_other:
  assumes "k \<notin> marker_keys"
  shows "mark_internal_cursor_only p k = p k" "mark_internal_initial_delta p k = p k"
    "mark_internal_previous_cursor s p k = p k" "mark_internal_recovery_cursor s p k = p k"
  using assms by (simp_all add: marker_defs marker_keys_def)

lemma mark_total:
  "mark_internal_cursor_only (mark_internal_previous_cursor s p) internal_previous_total_key = Some (GInt64 (bs_TotalTokens s))"
  "mark_internal_cursor_only (mark_internal_recovery_cursor s p) internal_previous_total_key = Some (GInt64 (bs_PreviousTotalTokens s))"
  by (simp_all add: marker_defs internal_keys baseline_keys)

lemma not_marker:
  "set tokens_keys \<inter> marker_keys = {}" "set session_id_keys \<inter> marker_keys = {}" "''token_accounting'' \<notin> marker_keys"
  by (simp_all add: marker_keys_def internal_keys baseline_keys tokens_keys_def session_id_keys_def)

lemma starting_cursor_marked:
  assumes "p internal_previous_total_key = Some (GInt64 n)"
  shows "\<exists>c. starting_cursor L cfg p t = Some c \<and> uc_TotalTokens c = n"
  by (simp add: starting_cursor_def previous_usage_cursor_from_payload_def Let_def assms as_int64_def)

text \<open>The growth reported for a marked summary whose session has no usage cursor, or has one.\<close>

lemma marked_summary_growth:
  assumes "usage_observation_from_event ev = Some ob" and "DaemonID ev = cfg_DaemonID cfg"
    and "Payload ev internal_previous_total_key = Some (GInt64 n)"
    and "0 \<le> n" and "n < ob_total ob" and "ob_total ob < 2 ^ 63"
    and "key = usage_cursor_key L ev (ob_sessionID ob) (first_payload_string (Payload ev) [''token_accounting''])"
  shows "cursors key = None \<Longrightarrow>
      \<exists>d. usage_delta_from_event L cfg i ev cursors t = Some (key, cursor_of_observation L ob t, Some d) \<and>
        delta_total d = ob_total ob - n"
    and "cursors key = Some c \<Longrightarrow> uc_TotalTokens c = ob_total ob \<Longrightarrow>
      usage_delta_from_event L cfg i ev cursors t = Some (key, cursor_of_observation L ob t, None)"
proof -
  have o: "observed L ev = Some (key, ob)" using assms(1,7) by (simp add: observed_def)
  have loop: "usage_delta_from_event L cfg i ev cursors t = Some (key, cursor_of_observation L ob t, delta) \<Longrightarrow>
      (case delta of None \<Rightarrow> 0 | Some d \<Rightarrow> delta_total d) = growth ob (previous_cursor L cfg ev cursors t key)" for delta
    by (rule usage_delta_from_event_Some [OF o assms(2), of i cursors t]) auto
  obtain delta where d: "usage_delta_from_event L cfg i ev cursors t = Some (key, cursor_of_observation L ob t, delta)"
    by (rule usage_delta_from_event_Some [OF o assms(2), of i cursors t]) blast
  show "\<exists>d. usage_delta_from_event L cfg i ev cursors t = Some (key, cursor_of_observation L ob t, Some d) \<and>
        delta_total d = ob_total ob - n" if none: "cursors key = None"
  proof -
    obtain c where "previous_cursor L cfg ev cursors t key = Some c" "uc_TotalTokens c = n"
      using starting_cursor_marked [where p = "Payload ev" and n = n, OF assms(3), of L cfg t] none by (auto simp: previous_cursor_def)
    then have "growth ob (previous_cursor L cfg ev cursors t key) = ob_total ob - n"
      using assms(4-6) by (simp add: growth_def sub64_nonneg_exact)
    with loop [OF d] assms(5) d show ?thesis by (cases delta) auto
  qed
  show "usage_delta_from_event L cfg i ev cursors t = Some (key, cursor_of_observation L ob t, None)"
    if "cursors key = Some c" "uc_TotalTokens c = ob_total ob"
  proof (cases delta)
    case None
    with d show ?thesis by simp
  next
    case (Some x)
    from usage_delta_from_event_delta [OF d [unfolded Some]] obtain ob' c0 previous td where
      x: "observed L ev = Some (key, ob')" "previous_cursor L cfg ev cursors t key = Some c0"
        "previous = seed_cache ob' c0" "td = fst (calculate_usage_token_delta ob' previous)" "0 < td_total td"
      by metis
    then have "td_total td = 0"
      using o that by (simp add: previous_cursor_def calculate_usage_token_delta_def Let_def sub64_def wrap64_def)
    with x(5) show ?thesis by simp
  qed
qed

lemma payload_int_marked:
  assumes "\<forall>k\<in>set tokens_keys. p' k = p k" and "payload_int_value p tokens_keys = Some n"
    and "usage_observation_from_event ev = Some ob" and "Payload ev = p'"
  shows "ob_total ob = n"
proof -
  have "payload_int_value p' tokens_keys = Some n" using payload_int_value_cong [OF assms(1)] assms(2) by simp
  then show ?thesis
    using assms(3,4) by (auto simp: usage_observation_from_event_def Let_def payload_int_def tokens_keys_def split: if_splits)
qed


text \<open>
  A known Codex session passes its usage only when the total has grown, and a session
  without a usage cursor then reports exactly the growth over the baseline.
\<close>

theorem usage_advance_reports_growth:
  assumes "codex_usage_verdict L sessions p = Passed q update" and "sessions (session_id_from_payload p) = Some s"
    and "0 \<le> bs_TotalTokens s" and "payload_int_value p tokens_keys = Some n" and "n < 2 ^ 63"
    and "usage_observation_from_event ev = Some ob" and "Payload ev = q" and "DaemonID ev = cfg_DaemonID cfg"
    and "key = usage_cursor_key L ev (ob_sessionID ob) (first_payload_string (Payload ev) [''token_accounting''])"
    and "cursors key = None"
  shows "bs_TotalTokens s < n \<and> update \<and>
    (\<exists>d. usage_delta_from_event L cfg i ev cursors t = Some (key, cursor_of_observation L ob t, Some d) \<and>
       delta_total d = n - bs_TotalTokens s)"
proof -
  have q: "q = mark_internal_cursor_only (mark_internal_previous_cursor s p)" "update" and lt: "bs_TotalTokens s < n"
    using assms(1,2,4) by (auto simp: codex_usage_verdict_def baseline_usage_advanced_def Let_def split: if_splits)
  have "\<forall>k\<in>set tokens_keys. k \<notin> marker_keys" using not_marker(1) by blast
  then have "\<forall>k\<in>set tokens_keys. q k = p k" by (simp add: q mark_other)
  from payload_int_marked [OF this assms(4,6,7)] have tot: "ob_total ob = n" .
  have mark: "Payload ev internal_previous_total_key = Some (GInt64 (bs_TotalTokens s))"
    using q(1) assms(7) mark_total(1) by simp
  from marked_summary_growth(1) [OF assms(6,8) mark assms(3), of key L cursors, unfolded tot, OF lt assms(5,9,10)] lt q(2)
  show ?thesis by blast
qed


section \<open>The first collection\<close>

lemma add_baseline_session_fst:
  "fst (add_baseline_session L p sessions) =
     (if session_id_from_payload p = [] then sessions
      else sessions(session_id_from_payload p \<mapsto>
        fst (updated_session L p (case sessions (session_id_from_payload p) of Some s \<Rightarrow> s | None \<Rightarrow> empty_session,
          sessions (session_id_from_payload p) = None))))"
  by (simp add: add_baseline_session_def Let_def split: prod.splits)

lemma add_baseline_sessions_fst:
  "fst (add_baseline_sessions L (p # ps) sessions) = fst (add_baseline_sessions L ps (fst (add_baseline_session L p sessions)))"
  by (simp split: prod.splits)

lemma add_baseline_sessions_other:
  "i \<notin> session_id_from_payload ` set ps \<Longrightarrow> fst (add_baseline_sessions L ps sessions) i = sessions i"
  by (induction ps arbitrary: sessions) (simp_all only: add_baseline_sessions_fst, simp_all add: add_baseline_session_fst)

lemma add_baseline_sessions_new:
  assumes "distinct (map session_id_from_payload ps)" and "p \<in> set ps" and "session_id_from_payload p \<noteq> []"
    and "sessions (session_id_from_payload p) = None"
  shows "fst (add_baseline_sessions L ps sessions) (session_id_from_payload p) = Some (fst (updated_session L p (empty_session, True)))"
  using assms
proof (induction ps arbitrary: sessions)
  case (Cons q ps)
  show ?case
  proof (cases "p = q")
    case True
    with Cons.prems show ?thesis
      by (simp only: add_baseline_sessions_fst) (simp add: add_baseline_sessions_other add_baseline_session_fst)
  next
    case False
    with Cons.prems have "p \<in> set ps" "session_id_from_payload q \<noteq> session_id_from_payload p" by auto
    with Cons.IH Cons.prems show ?thesis
      by (simp only: add_baseline_sessions_fst) (simp add: add_baseline_session_fst)
  qed
qed simp

text \<open>A session recorded from a payload does not pass that payload.\<close>

lemma recorded_usage_ignored:
  assumes "sessions (session_id_from_payload p) = Some (fst (updated_session L p (empty_session, True)))"
  shows "\<forall>q update. claude_usage_verdict sessions p \<noteq> Passed q update"
proof -
  define s where "s = fst (updated_session L p (empty_session, True))"
  have cut: "fst (apply_cutover p (empty_session, True)) = empty_session"
    by (simp add: apply_cutover_def empty_session_def)
  note c = updated_session_counters [of L p "(empty_session, True)", unfolded cut, folded s_def]
  have acc: "\<not> baseline_token_accounting_changed s p"
    using c(8) by (simp add: baseline_token_accounting_changed_def Let_def del: first_payload_string.simps)
  have e: "\<not> bs_TokensObserved empty_session" by (simp add: empty_session_def)
  show ?thesis
  proof (cases "payload_int_value p tokens_keys")
    case None
    with assms show ?thesis by (simp add: claude_usage_verdict_def Let_def)
  next
    case (Some n)
    then have "bs_TotalTokens s = n" "bs_PreviousTotalTokens s = n" "bs_TokensObserved s"
      using c(1-3) e by (simp_all add: raised_def)
    with assms Some acc show ?thesis by (auto simp: claude_usage_verdict_def Let_def s_def)
  qed
qed

lemma usage_filter_nothing:
  "(\<And>p q u. p \<in> set ps \<Longrightarrow> verdict_of p \<noteq> Passed q u) \<Longrightarrow> fst (usage_filter verdict_of ps) = []"
proof (induction ps)
  case (Cons p ps)
  then have "fst (usage_filter verdict_of ps) = []" "\<And>q u. verdict_of p \<noteq> Passed q u" by simp_all
  then show ?case by (cases "verdict_of p") (auto split: prod.splits)
qed simp

text \<open>
  The first collection reports nothing of what is there: it only records the baseline, and
  the same summaries do not pass against that baseline afterwards.
\<close>

theorem history_is_not_reported:
  assumes "filter_claude_session_baseline L cfg now (Inr store) usage transcripts mcp t = Inr r"
    and "cl_InitializedAt (st_ClaudeCode store) = []" and "cl_Sessions (st_ClaudeCode store) = Map.empty"
    and "distinct (map session_id_from_payload usage)"
    and "session_id_from_payload ` set usage \<inter> session_id_from_payload ` set transcripts = {}"
    and "baseline = initialize_claude_usage_baseline L (st_ClaudeCode store) usage transcripts (if is_zero t then now else t)"
  shows "lf_UsageEvents r = [] \<and> lf_SessionEvents r = [] \<and> lf_Commit r \<noteq> None \<and>
    fst (filter_claude_usage_baseline baseline usage) = []"
proof -
  have "lf_UsageEvents r = [] \<and> lf_SessionEvents r = [] \<and> lf_Commit r \<noteq> None"
    using assms(1,2) by (auto simp: filter_claude_session_baseline_def Let_def split: prod.splits)
  moreover have "claude_usage_verdict (cl_Sessions baseline) p \<noteq> Passed q u" if "p \<in> set usage" for p q u
  proof (cases "session_id_from_payload p = []")
    case True
    then show ?thesis by (simp add: claude_usage_verdict_def)
  next
    case False
    have app: "fst (add_baseline_sessions L (ps @ qs) ss) = fst (add_baseline_sessions L qs (fst (add_baseline_sessions L ps ss)))" for ps qs ss
      by (induction ps arbitrary: ss) (simp_all only: append_Cons append_Nil add_baseline_sessions_fst, simp)
    have "session_id_from_payload p \<notin> session_id_from_payload ` set transcripts" using assms(5) that by blast
    then have "cl_Sessions baseline (session_id_from_payload p) = Some (fst (updated_session L p (empty_session, True)))"
      using add_baseline_sessions_new [OF assms(4) that False, of Map.empty L]
      by (simp add: assms(3,6) initialize_claude_usage_baseline_def app add_baseline_sessions_other)
    from recorded_usage_ignored [where sessions = "cl_Sessions baseline" and p = p, OF this] show ?thesis by blast
  qed
  ultimately show ?thesis by (simp add: filter_claude_usage_baseline_def usage_filter_nothing)
qed

section \<open>MCP calls\<close>

text \<open>What the cursors rely on of the time format: an instant survives printing and parsing.\<close>

definition time_text :: "go_lib \<Rightarrow> time \<Rightarrow> bool" where
  "time_text L t \<longleftrightarrow> format_rfc3339 L t \<noteq> [] \<and> trim_space (format_rfc3339 L t) = format_rfc3339 L t \<and>
     parse_rfc3339 L (format_rfc3339 L t) = Some t"

text \<open>The cursor of its session is past the event, or at its instant and names it.\<close>

definition covered :: "go_lib \<Rightarrow> sessions \<Rightarrow> event \<Rightarrow> bool" where
  "covered L sessions ev \<longleftrightarrow>
     (\<exists>s t. sessions (mcp_session_id ev) = Some s \<and> parse_claude_timestamp L (bs_MCPToolCallCursorAt s) = Some t \<and>
        (CreatedAt ev < t \<or> (CreatedAt ev = t \<and> EventID ev \<in> set (bs_MCPToolCallCursorEventIDs s))))"

lemma parse_claude_timestamp_format: "time_text L t \<Longrightarrow> parse_claude_timestamp L (format_rfc3339 L t) = Some t"
  by (simp add: parse_claude_timestamp_def time_text_def)

lemma advance_covers:
  assumes "mcp_session_id ev \<noteq> []" and "EventID ev \<noteq> []" and "\<not> is_zero (CreatedAt ev)" and "time_text L (CreatedAt ev)"
  shows "covered L (fst (advance_claude_mcp_cursor L ev sessions)) ev"
proof -
  let ?c = "case sessions (mcp_session_id ev) of Some s \<Rightarrow> s | None \<Rightarrow> empty_session"
  have none: "parse_claude_timestamp L (bs_MCPToolCallCursorAt empty_session) = None"
    by (simp add: parse_claude_timestamp_def empty_session_def)
  show ?thesis
  proof (cases "parse_claude_timestamp L (bs_MCPToolCallCursorAt ?c)")
    case None
    with assms show ?thesis
      by (simp add: advance_claude_mcp_cursor_def Let_def covered_def parse_claude_timestamp_format)
  next
    case (Some t)
    with none have stored: "sessions (mcp_session_id ev) = Some ?c" by (cases "sessions (mcp_session_id ev)") auto
    with assms Some show ?thesis
      by (auto simp add: advance_claude_mcp_cursor_def Let_def covered_def parse_claude_timestamp_format)
  qed
qed

lemma advance_keeps_covered:
  assumes "covered L sessions e" and "time_text L (CreatedAt ev)"
  shows "covered L (fst (advance_claude_mcp_cursor L ev sessions)) e"
proof -
  obtain s t where s: "sessions (mcp_session_id e) = Some s" "parse_claude_timestamp L (bs_MCPToolCallCursorAt s) = Some t"
    "CreatedAt e < t \<or> (CreatedAt e = t \<and> EventID e \<in> set (bs_MCPToolCallCursorEventIDs s))"
    using assms(1) by (auto simp: covered_def)
  show ?thesis
  proof (cases "mcp_session_id ev = mcp_session_id e")
    case True
    with s assms(2) show ?thesis
      by (auto simp: advance_claude_mcp_cursor_def Let_def covered_def parse_claude_timestamp_format)
  next
    case False
    with s show ?thesis
      by (auto simp: advance_claude_mcp_cursor_def Let_def covered_def)
  qed
qed

lemma covered_not_advanced:
  assumes "covered L sessions ev"
  shows "advance_claude_mcp_cursor L ev sessions = (sessions, False)"
    and "\<not> claude_mcp_event_after_cursor L ev (case sessions (mcp_session_id ev) of Some s \<Rightarrow> s | None \<Rightarrow> empty_session) bound"
  using assms by (auto simp: covered_def advance_claude_mcp_cursor_def Let_def claude_mcp_event_after_cursor_def)

lemma mcp_filter_loop_covers:
  assumes "mcp_filter_loop L bound evs sessions = (filtered, sessions', dirty)"
    and "\<forall>ev\<in>set evs. EventID ev \<noteq> [] \<and> time_text L (CreatedAt ev)"
  shows "(\<forall>e. covered L sessions e \<longrightarrow> covered L sessions' e) \<and>
    (\<forall>ev\<in>set evs. mcp_session_id ev = [] \<or> is_zero (CreatedAt ev) \<or> covered L sessions' ev)"
  using assms
proof (induction evs arbitrary: sessions filtered dirty)
  case (Cons ev evs)
  show ?case
  proof (cases "mcp_session_id ev = [] \<or> is_zero (CreatedAt ev)")
    case True
    with Cons.prems Cons.IH [of sessions filtered dirty] show ?thesis by auto
  next
    case False
    obtain filtered1 dirty1 where run: "mcp_filter_loop L bound evs (fst (advance_claude_mcp_cursor L ev sessions)) = (filtered1, sessions', dirty1)"
      using Cons.prems(1) False by (auto simp: Let_def split: prod.splits)
    have prem: "\<forall>ev\<in>set evs. EventID ev \<noteq> [] \<and> time_text L (CreatedAt ev)" and tt: "time_text L (CreatedAt ev)" "EventID ev \<noteq> []"
      using Cons.prems(2) by simp_all
    note ih = Cons.IH [OF run prem]
    have "covered L (fst (advance_claude_mcp_cursor L ev sessions)) ev"
      using advance_covers [OF _ tt(2) _ tt(1)] False by blast
    with ih advance_keeps_covered [OF _ tt(1)] show ?thesis by auto
  qed
qed simp

lemma advance_cursors_cover:
  assumes "\<forall>ev\<in>set evs. EventID ev \<noteq> [] \<and> time_text L (CreatedAt ev)"
  shows "(\<forall>e. covered L sessions e \<longrightarrow> covered L (advance_claude_mcp_cursors L evs sessions) e) \<and>
    (\<forall>ev\<in>set evs. mcp_session_id ev = [] \<or> is_zero (CreatedAt ev) \<or> covered L (advance_claude_mcp_cursors L evs sessions) ev)"
  using assms
proof (induction evs arbitrary: sessions)
  case (Cons ev evs)
  then have tt: "time_text L (CreatedAt ev)" "EventID ev \<noteq> []" by simp_all
  have ih: "(\<forall>e. covered L sessions e \<longrightarrow> covered L (advance_claude_mcp_cursors L evs sessions) e) \<and>
    (\<forall>ev\<in>set evs. mcp_session_id ev = [] \<or> is_zero (CreatedAt ev) \<or> covered L (advance_claude_mcp_cursors L evs sessions) ev)" for sessions
    using Cons by simp
  have "mcp_session_id ev = [] \<or> is_zero (CreatedAt ev) \<or> covered L (fst (advance_claude_mcp_cursor L ev sessions)) ev"
    using advance_covers [OF _ tt(2) _ tt(1)] by blast
  with ih [of "fst (advance_claude_mcp_cursor L ev sessions)"] advance_keeps_covered [OF _ tt(1)] show ?case by auto
qed simp

lemma mcp_filter_loop_covered:
  "\<forall>ev\<in>set evs. mcp_session_id ev = [] \<or> is_zero (CreatedAt ev) \<or> covered L sessions ev \<Longrightarrow>
    mcp_filter_loop L bound evs sessions = ([], sessions, False)"
proof (induction evs)
  case (Cons ev evs)
  then have ih: "mcp_filter_loop L bound evs sessions = ([], sessions, False)" by simp
  show ?case
  proof (cases "mcp_session_id ev = [] \<or> is_zero (CreatedAt ev)")
    case True
    with ih show ?thesis by simp
  next
    case False
    with Cons.prems have "covered L sessions ev" by simp
    with ih False show ?thesis by (simp add: Let_def covered_not_advanced)
  qed
qed simp

text \<open>
  An MCP call is reported at most once: after a collection, none of its calls passes
  again, whichever of them are seen, and the cursors do not move.
\<close>

theorem mcp_calls_reported_once:
  assumes "filter_claude_mcp_baseline L baseline events t = (filtered, baseline1, dirty)"
    and "\<forall>ev\<in>set events. EventID ev \<noteq> [] \<and> time_text L (CreatedAt ev)" and "time_text L t"
    and "set events' \<subseteq> set events"
  shows "filter_claude_mcp_baseline L baseline1 events' t' = ([], baseline1, False)"
proof -
  have ev: "\<forall>ev\<in>set (sort_key mcp_order events). EventID ev \<noteq> [] \<and> time_text L (CreatedAt ev)" using assms(2) by simp
  have "(\<forall>ev\<in>set events. mcp_session_id ev = [] \<or> is_zero (CreatedAt ev) \<or> covered L (cl_Sessions baseline1) ev) \<and>
      cl_MCPInitializedAt baseline1 \<noteq> []"
  proof (cases "cl_MCPInitializedAt baseline = []")
    case True
    with assms(1,3) advance_cursors_cover [OF ev, of "cl_Sessions baseline"] show ?thesis
      by (auto simp: filter_claude_mcp_baseline_def Let_def time_text_def)
  next
    case False
    let ?bound = "case parse_claude_timestamp L (cl_MCPInitializedAt baseline) of Some t \<Rightarrow> t | None \<Rightarrow> t"
    obtain sessions where run: "mcp_filter_loop L ?bound (sort_key mcp_order events) (cl_Sessions baseline) = (filtered, sessions, dirty)"
      and b: "baseline1 = baseline\<lparr>cl_Sessions := sessions\<rparr>"
      using assms(1) False by (auto simp: filter_claude_mcp_baseline_def Let_def split: prod.splits)
    from mcp_filter_loop_covers [OF run ev] False show ?thesis by (simp add: b)
  qed
  then have "\<forall>ev\<in>set (sort_key mcp_order events'). mcp_session_id ev = [] \<or> is_zero (CreatedAt ev) \<or> covered L (cl_Sessions baseline1) ev"
    and i: "cl_MCPInitializedAt baseline1 \<noteq> []" using assms(4) by auto
  from mcp_filter_loop_covered [OF this(1)] i show ?thesis
    by (simp add: filter_claude_mcp_baseline_def Let_def)
qed


section \<open>Witnesses\<close>

definition usage_payload :: "int \<Rightarrow> payload" where
  "usage_payload n = [''session_id'' \<mapsto> GString ''s1'', ''total_tokens'' \<mapsto> GInt64 n]"

definition session0 :: baseline_session where
  "session0 = empty_session\<lparr>bs_TotalTokens := 25, bs_TokensObserved := True, bs_PreviousTotalTokens := 10\<rparr>"

definition recovery_event :: event where
  "recovery_event = empty_event\<lparr>EventID := ''e'', DaemonID := ''dm'', EventType := ''usage.summary'',
     AgentType := ''claude_code'',
     Payload := mark_internal_cursor_only (mark_internal_recovery_cursor session0 (usage_payload 25))\<rparr>"

lemma baseline_never_goes_back_witness:
  "\<exists>s'. fst (add_baseline_session lib0 (usage_payload 30) [''s1'' \<mapsto> session0]) ''s1'' = Some s' \<and> 25 \<le> bs_TotalTokens s'"
proof -
  obtain ss c where run: "add_baseline_session lib0 (usage_payload 30) [''s1'' \<mapsto> session0] = (ss, c)" by fastforce
  have "\<forall>i s. [''s1'' \<mapsto> session0] i = Some s \<longrightarrow> session_ok s"
    by (simp add: session_ok_def session0_def)
  note up = baseline_never_goes_back [OF run this, THEN conjunct2, THEN conjunct2, rule_format, of "''s1''" session0]
  have "bs_TokensObserved session0" "bs_TotalTokens session0 = 25" "\<not> payload_bool (usage_payload 30) internal_accounting_cutover_key"
    by code_simp+
  with up run show ?thesis by auto
qed


definition advance_event :: event where
  "advance_event = recovery_event\<lparr>Payload :=
     mark_internal_cursor_only (mark_internal_previous_cursor session0 (usage_payload 40))\<rparr>"

lemma usage_advance_reports_growth_witness:
  "\<exists>key c d. usage_delta_from_event lib0 cfg0 ''id'' advance_event Map.empty 5 = Some (key, c, Some d) \<and> delta_total d = 15"
proof -
  have "usage_observation_from_event advance_event \<noteq> None" by code_simp
  then obtain ob where ob: "usage_observation_from_event advance_event = Some ob" by auto
  have facts: "payload_int_value (usage_payload 40) tokens_keys = Some 40"
    "DaemonID advance_event = cfg_DaemonID cfg0" "session_id_from_payload (usage_payload 40) = ''s1''" by code_simp+
  have v: "codex_usage_verdict lib0 [''s1'' \<mapsto> session0] (usage_payload 40)
      = Passed (mark_internal_cursor_only (mark_internal_previous_cursor session0 (usage_payload 40))) True"
  proof -
    have "\<not> baseline_token_accounting_changed session0 (usage_payload 40)"
      "baseline_usage_advanced lib0 session0 (usage_payload 40) 40" by code_simp+
    then show ?thesis by (simp add: codex_usage_verdict_def Let_def facts session0_def)
  qed
  show ?thesis
    using usage_advance_reports_growth [OF v _ _ facts(1) _ ob _ facts(2) refl, where s = session0 and cursors = Map.empty
        and i = "''id''" and t = 5]
    by (auto simp: facts(3) session0_def advance_event_def)
qed

definition fresh_claude :: claude_baseline where
  "fresh_claude = \<lparr>cl_InitializedAt = [], cl_MCPInitializedAt = [], cl_Sessions = Map.empty\<rparr>"

lemma history_is_not_reported_witness:
  "\<exists>r. filter_claude_session_baseline lib0 cfg0 1 (Inr new_session_baseline_store) [usage_payload 7] [] [] 5 = Inr r \<and>
     lf_UsageEvents r = [] \<and>
     fst (filter_claude_usage_baseline (initialize_claude_usage_baseline lib0 fresh_claude [usage_payload 7] [] 5) [usage_payload 7]) = []"
proof -
  obtain r where run: "filter_claude_session_baseline lib0 cfg0 1 (Inr new_session_baseline_store) [usage_payload 7] [] [] 5 = Inr r"
    by (simp add: filter_claude_session_baseline_def new_session_baseline_store_def filter_claude_mcp_baseline_def
        initialize_claude_usage_baseline_def Let_def)
  from history_is_not_reported [OF run, where baseline = "initialize_claude_usage_baseline lib0 fresh_claude [usage_payload 7] [] 5"] run
  show ?thesis
    by (simp add: new_session_baseline_store_def fresh_claude_def is_zero_def zero_time_def)
qed

definition mcp_event :: event where
  "mcp_event = empty_event\<lparr>EventID := ''m'', CreatedAt := 3, Payload := [''session_id'' \<mapsto> GString ''s1'']\<rparr>"

lemma mcp_calls_reported_once_witness:
  "\<exists>f b d. filter_claude_mcp_baseline lib0 (fresh_claude\<lparr>cl_MCPInitializedAt := ''tt''\<rparr>) [mcp_event] 4 = (f, b, d) \<and>
     map EventID f = [''m''] \<and> filter_claude_mcp_baseline lib0 b [mcp_event] 9 = ([], b, False)"
proof -
  have tt: "time_text lib0 3" "time_text lib0 4" by code_simp+
  have m: "EventID mcp_event = ''m''" "CreatedAt mcp_event = 3" by (simp_all add: mcp_event_def)
  obtain f b d where run: "filter_claude_mcp_baseline lib0 (fresh_claude\<lparr>cl_MCPInitializedAt := ''tt''\<rparr>) [mcp_event] 4 = (f, b, d)"
    by (metis prod_cases3)
  have "map EventID (fst (filter_claude_mcp_baseline lib0 (fresh_claude\<lparr>cl_MCPInitializedAt := ''tt''\<rparr>) [mcp_event] 4)) = [''m'']"
    by code_simp
  moreover have "filter_claude_mcp_baseline lib0 b [mcp_event] 9 = ([], b, False)"
    by (rule mcp_calls_reported_once [OF run _ tt(2)]) (simp_all add: m tt)
  ultimately show ?thesis using run by simp
qed

end
