(* ===== verification/Claude_Usage.thy ===== *)
theory Claude_Usage
  imports Baseline_Filter Turn_Usage Redact Mcpmeta
begin

text \<open>
  \<open>pkg/daemon/claude_usage_types.go\<close> and \<open>claude_transcript_merge.go\<close>: the usage of a Claude
  Code session, and merging the transcript files that belong to one session. A map that
  \<open>ByModelDay\<close> is in the code is an association list here, in the order of its first writes.
\<close>

section \<open>Merging by key\<close>

text \<open>
  The idiom of the code: a list with an index from keys to positions, in which a known key is
  combined in place and a new one appended.
\<close>

fun upsert :: "('a \<Rightarrow> 'k) \<Rightarrow> ('a \<Rightarrow> 'a) \<Rightarrow> ('a \<Rightarrow> 'a \<Rightarrow> 'a) \<Rightarrow> 'a \<Rightarrow> 'a list \<Rightarrow> 'a list" where
  "upsert key fresh combine x [] = [fresh x]"
| "upsert key fresh combine x (y # ys) =
     (if key y = key x then combine y x # ys else y # upsert key fresh combine x ys)"

definition keep_better :: "('a \<Rightarrow> 'a \<Rightarrow> bool) \<Rightarrow> 'a \<Rightarrow> 'a \<Rightarrow> 'a" where
  "keep_better better old new = (if better new old then new else old)"

definition merge_by :: "('a \<Rightarrow> string) \<Rightarrow> ('a \<Rightarrow> 'a \<Rightarrow> bool) \<Rightarrow> 'a list \<Rightarrow> 'a list" where
  "merge_by key better xs = foldl (\<lambda>m x. upsert key (\<lambda>x. x) (keep_better better) x m) [] xs"

section \<open>Usage\<close>

definition claude_synthetic_model :: string where
  "claude_synthetic_model = ''<synthetic>''"

record claude_usage =
  cu_InputTokens :: int
  cu_OutputTokens :: int
  cu_CacheCreationTokens :: int
  cu_CacheReadTokens :: int

definition no_usage :: claude_usage where
  "no_usage = \<lparr>cu_InputTokens = 0, cu_OutputTokens = 0, cu_CacheCreationTokens = 0, cu_CacheReadTokens = 0\<rparr>"

definition usage_total :: "claude_usage \<Rightarrow> int" where
  "usage_total u =
     add64 (add64 (add64 (cu_InputTokens u) (cu_OutputTokens u)) (cu_CacheCreationTokens u)) (cu_CacheReadTokens u)"

definition usage_add :: "claude_usage \<Rightarrow> claude_usage \<Rightarrow> claude_usage" where
  "usage_add u v =
     \<lparr>cu_InputTokens = add64 (cu_InputTokens u) (cu_InputTokens v),
      cu_OutputTokens = add64 (cu_OutputTokens u) (cu_OutputTokens v),
      cu_CacheCreationTokens = add64 (cu_CacheCreationTokens u) (cu_CacheCreationTokens v),
      cu_CacheReadTokens = add64 (cu_CacheReadTokens u) (cu_CacheReadTokens v)\<rparr>"

definition usage_is_zero :: "claude_usage \<Rightarrow> bool" where
  "usage_is_zero u \<longleftrightarrow>
     cu_InputTokens u = 0 \<and> cu_OutputTokens u = 0 \<and> cu_CacheCreationTokens u = 0 \<and> cu_CacheReadTokens u = 0"

text \<open>A model and a day.\<close>

type_synonym model_day = "string \<times> string"

record claude_invocation =
  inv_InvocationID :: string
  inv_ObservedAt :: time
  inv_Model :: string
  inv_Usage :: claude_usage

record claude_turn_usage =
  ctu_TurnID :: string
  ctu_Status :: string
  ctu_StartedAt :: time
  ctu_EndedAt :: time
  ctu_Model :: string
  ctu_Usage :: claude_usage
  ctu_Evidence :: "evidence list"
  ctu_AccountingInherited :: bool

record transcript_candidate =
  cand_Role :: string
  cand_Text :: string
  cand_Timestamp :: string
  cand_Model :: string
  cand_MessageID :: string
  cand_SummaryPhase :: string

record transcript_tool_call =
  mtc_Name :: string
  mtc_CallID :: string
  mtc_Timestamp :: string
  mtc_MCPServer :: string
  mtc_MCPTool :: string
  mtc_BlockIndex :: nat
  mtc_AccountingInherited :: bool

record claude_session_usage =
  csu_SessionID :: string
  csu_CWD :: string
  csu_GitBranch :: string
  csu_Title :: string
  csu_FirstEventAt :: time
  csu_LastEventAt :: time
  csu_AssistantEvents :: int
  csu_Models :: "string list"
  csu_ByModelDay :: "(model_day \<times> claude_usage) list"
  csu_Total :: claude_usage
  csu_Messages :: "message list"
  csu_TranscriptTruncated :: bool
  csu_MCPToolCalls :: "transcript_tool_call list"
  csu_Turns :: "claude_turn_usage list"
  csu_Invocations :: "claude_invocation list"
  csu_AccountingSeedOnly :: bool
  csu_AccountingFirstEventAt :: time

definition new_session_usage :: claude_session_usage where
  "new_session_usage =
     \<lparr>csu_SessionID = [], csu_CWD = [], csu_GitBranch = [], csu_Title = [], csu_FirstEventAt = zero_time,
      csu_LastEventAt = zero_time, csu_AssistantEvents = 0, csu_Models = [], csu_ByModelDay = [],
      csu_Total = no_usage, csu_Messages = [], csu_TranscriptTruncated = False, csu_MCPToolCalls = [],
      csu_Turns = [], csu_Invocations = [], csu_AccountingSeedOnly = False, csu_AccountingFirstEventAt = zero_time\<rparr>"

definition bump_usage :: "model_day \<Rightarrow> claude_usage \<Rightarrow> (model_day \<times> claude_usage) list \<Rightarrow> (model_day \<times> claude_usage) list" where
  "bump_usage key u m =
     upsert fst (\<lambda>(k, v). (k, usage_add no_usage v)) (\<lambda>(k, old) (_, v). (k, usage_add old v)) (key, u) m"

definition day_of :: "go_lib \<Rightarrow> time \<Rightarrow> string" where
  "day_of L t = (if is_zero t then [] else format_day L t)"

section \<open>Texts that are not chat\<close>

definition non_chat_prefixes :: "string list" where
  "non_chat_prefixes =
     [''<environment_context>'', ''<system_context>'', ''<developer_context>'', ''<tools>'', ''<local-command-caveat>'',
      ''<local-command-stdout>'', ''<local-command-stderr>'', ''<command-name>'', ''<command-message>'',
      ''<command-args>'', ''<command-stdout>'', ''<command-stderr>'', ''<command-error>'']"

definition is_codex_non_chat_text :: "go_lib \<Rightarrow> string \<Rightarrow> bool" where
  "is_codex_non_chat_text L v =
     (let normalized = trim_space v; low = lower L normalized in
      normalized = [] \<or> list_ex (has_prefix low) non_chat_prefixes \<or>
      (contains low ''<cwd>'' \<and> contains low ''<current_date>''))"

section \<open>Transcript candidates\<close>

definition nul_byte :: string where "nul_byte = [CHR 0x00]"

definition candidate_key :: "transcript_candidate \<Rightarrow> string" where
  "candidate_key c =
     (if cand_MessageID c \<noteq> [] then cand_Role c @ nul_byte @ cand_MessageID c
      else join [cand_Role c, cand_MessageID c, cand_Timestamp c, cand_Text c] nul_byte)"

definition better_candidate :: "go_lib \<Rightarrow> transcript_candidate \<Rightarrow> transcript_candidate \<Rightarrow> bool" where
  "better_candidate L new old \<longleftrightarrow>
     (let rank = transcript_summary_phase_rank L (cand_SummaryPhase new);
          old_rank = transcript_summary_phase_rank L (cand_SummaryPhase old)
      in rank > old_rank \<or> (rank = old_rank \<and> length (cand_Text new) \<ge> length (cand_Text old)))"

definition add_claude_transcript_candidate ::
  "go_lib \<Rightarrow> string \<Rightarrow> string \<Rightarrow> string \<Rightarrow> string \<Rightarrow> string \<Rightarrow> string \<Rightarrow> transcript_candidate list \<Rightarrow> transcript_candidate list" where
  "add_claude_transcript_candidate L role0 text0 timestamp modelName messageID phase candidates =
     (let role = lower L (trim_space role0); tx = trim_space text0;
          c = \<lparr>cand_Role = role, cand_Text = tx, cand_Timestamp = trim_space timestamp,
               cand_Model = trim_space modelName, cand_MessageID = trim_space messageID,
               cand_SummaryPhase = (if role = ''assistant'' then normalize_transcript_summary_phase L phase else [])\<rparr>
      in if (role \<noteq> ''user'' \<and> role \<noteq> ''assistant'') \<or> tx = [] \<or> is_codex_non_chat_text L tx then candidates
         else upsert candidate_key (\<lambda>x. x) (keep_better (better_candidate L)) c candidates)"

definition codex_max_transcript_messages :: nat where "codex_max_transcript_messages = 80"
definition codex_max_transcript_message_bytes :: int where "codex_max_transcript_message_bytes = 8 * 1024"
definition codex_max_transcript_total_bytes :: int where "codex_max_transcript_total_bytes = 256 * 1024"

definition message_text :: "message \<Rightarrow> string" where
  "message_text m = first_string (map_of m) [''text'']"

text \<open>Dropping the oldest messages while there are too many of them or too many bytes.\<close>

fun trim_oldest :: "int \<Rightarrow> message list \<Rightarrow> int \<times> message list \<times> bool" where
  "trim_oldest totalBytes [] = (totalBytes, [], False)"
| "trim_oldest totalBytes (m # ms) =
     (if length (m # ms) > codex_max_transcript_messages \<or> totalBytes > codex_max_transcript_total_bytes
      then (let (tot, rest, _) = trim_oldest (totalBytes - int (length (message_text m))) ms in (tot, rest, True))
      else (totalBytes, m # ms, False))"

definition candidate_message :: "go_lib \<Rightarrow> transcript_candidate \<Rightarrow> string \<Rightarrow> message" where
  "candidate_message L c tx =
     [(''role'', GString (cand_Role c)), (''text'', GString tx)]
     @ (if cand_MessageID c \<noteq> [] then [(''message_id'', GString (cand_MessageID c))] else [])
     @ (if cand_Timestamp c \<noteq> [] then [(''timestamp'', GString (cand_Timestamp c))] else [])
     @ (if cand_Role c = ''assistant'' \<and> cand_Model c \<noteq> [] then [(''model'', GString (cand_Model c))] else [])
     @ (if cand_Role c = ''assistant''
        then [(''summary_phase'', GString (normalize_transcript_summary_phase L (cand_SummaryPhase c)))] else [])"

definition candidate_text :: "transcript_candidate \<Rightarrow> string" where
  "candidate_text c = trim_space (redact_and_truncate (cand_Text c) codex_max_transcript_message_bytes)"

fun messages_loop :: "go_lib \<Rightarrow> message list \<times> int \<times> bool \<Rightarrow> transcript_candidate list \<Rightarrow> message list \<times> int \<times> bool" where
  "messages_loop L st [] = st"
| "messages_loop L (messages, totalBytes, truncated) (c # cs) =
     (let tx = candidate_text c in
      if tx = [] \<or> is_codex_non_chat_text L tx then messages_loop L (messages, totalBytes, truncated) cs
      else let (tot, rest, dropped) =
                 trim_oldest (totalBytes + int (length tx)) (messages @ [candidate_message L c tx])
           in messages_loop L (rest, tot, truncated \<or> dropped) cs)"

definition claude_transcript_messages_from_candidates :: "go_lib \<Rightarrow> transcript_candidate list \<Rightarrow> message list \<times> bool" where
  "claude_transcript_messages_from_candidates L candidates =
     (let (messages, _, truncated) = messages_loop L ([], 0, False) candidates in (messages, truncated))"

section \<open>Merging the files of a session\<close>

text \<open>Messages are put in the order of their times, those without a time last.\<close>

definition message_order :: "go_lib \<Rightarrow> message \<Rightarrow> nat \<times> time" where
  "message_order L m =
     (case parse_claude_timestamp L (first_string (map_of m) [''timestamp'']) of
        Some t \<Rightarrow> (0, t) | None \<Rightarrow> (1, 0))"

definition merge_claude_transcript_messages :: "go_lib \<Rightarrow> message list \<Rightarrow> message list \<Rightarrow> bool \<Rightarrow> message list \<times> bool" where
  "merge_claude_transcript_messages L existing next already =
     (let combined = sort_key (message_order L) (existing @ next);
          read = (\<lambda>m key. first_string (map_of m) [key]);
          candidates = foldl (\<lambda>cs m. add_claude_transcript_candidate L (read m ''role'') (read m ''text'')
             (read m ''timestamp'') (read m ''model'') (read m ''message_id'') (read m ''summary_phase'') cs) [] combined;
          (messages, truncated) = claude_transcript_messages_from_candidates L candidates
      in (messages, already \<or> truncated))"

definition merge_claude_invocations :: "claude_invocation list \<Rightarrow> claude_invocation list \<Rightarrow> claude_invocation list" where
  "merge_claude_invocations existing next =
     sort_key (\<lambda>i. (inv_ObservedAt i, inv_InvocationID i))
       (merge_by (\<lambda>i. trim_space (inv_InvocationID i)) (\<lambda>new old. usage_total (inv_Usage new) > usage_total (inv_Usage old))
          (filter (\<lambda>i. trim_space (inv_InvocationID i) \<noteq> []) (existing @ next)))"

definition merge_claude_turns :: "claude_turn_usage list \<Rightarrow> claude_turn_usage list \<Rightarrow> claude_turn_usage list" where
  "merge_claude_turns existing next =
     sort_key (\<lambda>t. (ctu_EndedAt t, ctu_TurnID t))
       (merge_by (\<lambda>t. trim_space (ctu_TurnID t))
          (\<lambda>new old. usage_total (ctu_Usage new) > usage_total (ctu_Usage old) \<or>
             (usage_total (ctu_Usage new) = usage_total (ctu_Usage old) \<and> ctu_Status new = ''completed''))
          (filter (\<lambda>t. trim_space (ctu_TurnID t) \<noteq> []) (existing @ next)))"

definition claude_mcp_tool_call_key :: "transcript_tool_call \<Rightarrow> string" where
  "claude_mcp_tool_call_key call =
     (if trim_space (mtc_CallID call) \<noteq> [] then ''id'' @ nul_byte @ trim_space (mtc_CallID call)
      else join [''metadata'', mtc_Timestamp call, mtc_Name call, string_int (int (mtc_BlockIndex call))] nul_byte)"

definition merge_claude_mcp_tool_calls :: "transcript_tool_call list \<Rightarrow> transcript_tool_call list \<Rightarrow> transcript_tool_call list" where
  "merge_claude_mcp_tool_calls existing next =
     sort_key (\<lambda>c. (mtc_Timestamp c, mtc_CallID c, mtc_Name c, mtc_BlockIndex c))
       (merge_by claude_mcp_tool_call_key (\<lambda>new old. mtc_Timestamp old = [] \<and> mtc_Timestamp new \<noteq> []) (existing @ next))"

definition rebuild_claude_invocation_totals :: "go_lib \<Rightarrow> claude_session_usage \<Rightarrow> claude_session_usage" where
  "rebuild_claude_invocation_totals L s =
     s\<lparr>csu_ByModelDay := foldl (\<lambda>m i. bump_usage (inv_Model i, day_of L (inv_ObservedAt i)) (inv_Usage i) m) [] (csu_Invocations s),
       csu_Total := foldl (\<lambda>u i. usage_add u (inv_Usage i)) no_usage (csu_Invocations s)\<rparr>"

definition first_file_of_session :: "claude_session_usage \<Rightarrow> claude_session_usage" where
  "first_file_of_session f =
     f\<lparr>csu_MCPToolCalls := merge_claude_mcp_tool_calls [] (csu_MCPToolCalls f),
       csu_Turns := merge_claude_turns [] (csu_Turns f),
       csu_Invocations := merge_claude_invocations [] (csu_Invocations f),
       csu_ByModelDay := [], csu_Total := no_usage,
       csu_AccountingSeedOnly := False, csu_AccountingFirstEventAt := zero_time,
       csu_Models := sort (remdups (csu_Models f))\<rparr>"

definition next_file_of_session :: "go_lib \<Rightarrow> claude_session_usage \<Rightarrow> claude_session_usage \<Rightarrow> claude_session_usage" where
  "next_file_of_session L s f =
     (let (messages, truncated) = merge_claude_transcript_messages L (csu_Messages s) (csu_Messages f)
            (csu_TranscriptTruncated s \<or> csu_TranscriptTruncated f)
      in s\<lparr>csu_CWD := (if csu_CWD s = [] then csu_CWD f else csu_CWD s),
           csu_GitBranch := (if csu_GitBranch s = [] then csu_GitBranch f else csu_GitBranch s),
           csu_Title := (if csu_Title s = [] then csu_Title f else csu_Title s),
           csu_FirstEventAt := (if \<not> is_zero (csu_FirstEventAt f) \<and>
               (is_zero (csu_FirstEventAt s) \<or> csu_FirstEventAt f < csu_FirstEventAt s)
             then csu_FirstEventAt f else csu_FirstEventAt s),
           csu_LastEventAt := (if csu_LastEventAt f > csu_LastEventAt s then csu_LastEventAt f else csu_LastEventAt s),
           csu_AssistantEvents := add64 (csu_AssistantEvents s) (csu_AssistantEvents f),
           csu_Messages := messages, csu_TranscriptTruncated := truncated,
           csu_MCPToolCalls := merge_claude_mcp_tool_calls (csu_MCPToolCalls s) (csu_MCPToolCalls f),
           csu_Turns := merge_claude_turns (csu_Turns s) (csu_Turns f),
           csu_Invocations := merge_claude_invocations (csu_Invocations s) (csu_Invocations f),
           csu_Models := sort (csu_Models s @ filter (\<lambda>n. n \<notin> set (csu_Models s)) (remdups (csu_Models f)))\<rparr>)"

definition merge_claude_sessions_by_id :: "go_lib \<Rightarrow> claude_session_usage list \<Rightarrow> claude_session_usage list" where
  "merge_claude_sessions_by_id L sessions =
     (let ordered = sort_key (\<lambda>s. (csu_FirstEventAt s, csu_SessionID s)) sessions;
          merged = foldl (\<lambda>m f. upsert csu_SessionID first_file_of_session (next_file_of_session L) f m) [] ordered
      in sort_key csu_SessionID
           (map (\<lambda>s. if csu_Invocations s \<noteq> [] then rebuild_claude_invocation_totals L s else s) merged))"

end
