(* ===== verification/Claude_Transcript.thy ===== *)
theory Claude_Transcript
  imports Claude_Usage
begin

text \<open>
  \<open>pkg/daemon/claude_transcript_parse.go\<close>, with the titles of \<open>transcript_title.go\<close>: one
  transcript file of Claude Code, read record by record into the usage, turns, messages and
  tool calls of its session. Decoding a line of JSON is an argument; a field \<open>interface{}\<close> is
  a value or, for nil, \<open>None\<close>.
\<close>

section \<open>Titles\<close>

definition is_codex_approval_review_title :: "go_lib \<Rightarrow> string \<Rightarrow> bool" where
  "is_codex_approval_review_title L v =
     (let low = lower L (trim_space v) in
      has_prefix low ''>>> approval request start'' \<or>
      has_prefix low ''the following is the codex agent history added since your last approval assessment.'' \<or>
      has_prefix low ''the following is the codex agent history whose request action you are assessing.'')"

definition max_title_length :: nat where "max_title_length = 120"

definition title_from_transcript_text :: "go_lib \<Rightarrow> string \<Rightarrow> string" where
  "title_from_transcript_text L v =
     (let normalized = join (Go_Strings.fields v) '' ''; low = lower L normalized; rs = runes normalized in
      if normalized = [] \<or> is_codex_approval_review_title L normalized
        \<or> has_prefix low ''<environment_context>'' \<or> has_prefix low ''<system_context>'' then []
      else if length rs \<le> max_title_length then normalized
      else trim_space (concat (map encode_rune (take (max_title_length - 1) rs))) @ ''...'')"

section \<open>Contents\<close>

lemma size_map_of:
  "map_of m k = Some v \<Longrightarrow> size v < Suc (size_list (size_prod (\<lambda>_. 0) size) (m :: (string \<times> gval) list))"
  by (induction m) (auto split: if_splits)

lemma size_member: "v \<in> set xs \<Longrightarrow> size v < Suc (size_list size (xs :: gval list))"
  by (induction xs) auto

text \<open>The types of a content block that carry text: none and \<open>text\<close>.\<close>

definition block_type :: "go_lib \<Rightarrow> (string \<times> gval) list \<Rightarrow> string" where
  "block_type L m = lower L (trim_space (first_string (map_of m) [''type'']))"

definition first_text :: "string list \<Rightarrow> string" where
  "first_text ts = (case filter (\<lambda>t. t \<noteq> []) ts of [] \<Rightarrow> [] | t # _ \<Rightarrow> t)"

function content_texts :: "go_lib \<Rightarrow> gval \<Rightarrow> string" and block_text :: "go_lib \<Rightarrow> gval \<Rightarrow> string" where
  "content_texts L (GString s) = s"
| "content_texts L (GList items) = join (filter (\<lambda>t. t \<noteq> []) (map (block_text L) items)) [CHR 0x0A]"
| "content_texts L (GMap m) =
     (if block_type L m \<noteq> [] \<and> block_type L m \<noteq> ''text'' then []
      else first_text (map (\<lambda>k. case map_of m k of Some v \<Rightarrow> content_texts L v | None \<Rightarrow> [])
             [''text'', ''content'', ''message'', ''input'', ''output'']))"
| "content_texts L GNil = []"
| "content_texts L (GBool b) = []"
| "content_texts L (GInt n) = []"
| "content_texts L (GInt64 n) = []"
| "content_texts L (GFloat n e) = []"
| "content_texts L (GNumber s) = []"
| "content_texts L (GStrings ss) = []"
| "content_texts L (GMaps ms) = []"
| "block_text L (GString s) = (if trim_space s \<noteq> [] then s else [])"
| "block_text L (GMap m) =
     (if block_type L m \<noteq> [] \<and> block_type L m \<noteq> ''text'' then []
      else first_text (map (\<lambda>k. case map_of m k of Some v \<Rightarrow> content_texts L v | None \<Rightarrow> [])
             [''text'', ''content'', ''message'']))"
| "block_text L GNil = []"
| "block_text L (GBool b) = []"
| "block_text L (GInt n) = []"
| "block_text L (GInt64 n) = []"
| "block_text L (GFloat n e) = []"
| "block_text L (GNumber s) = []"
| "block_text L (GStrings ss) = []"
| "block_text L (GList items) = []"
| "block_text L (GMaps ms) = []"
  by pat_completeness auto
termination
  by (relation "measure (case_sum (\<lambda>(L, v). size v) (\<lambda>(L, v). size v))") (auto dest: size_map_of size_member)

definition claude_transcript_content_text :: "go_lib \<Rightarrow> gval option \<Rightarrow> string" where
  "claude_transcript_content_text L value = (case value of Some v \<Rightarrow> content_texts L v | None \<Rightarrow> [])"

definition blocks_of :: "gval option \<Rightarrow> gval list" where
  "blocks_of value = (case value of Some (GList items) \<Rightarrow> items | _ \<Rightarrow> [])"

fun object_fields :: "gval \<Rightarrow> (string \<times> gval) list" where
  "object_fields (GMap m) = m"
| "object_fields v = []"

definition claude_title_from_content :: "go_lib \<Rightarrow> gval option \<Rightarrow> string" where
  "claude_title_from_content L value =
     (case value of
        Some (GString s) \<Rightarrow> title_from_transcript_text L s
      | Some (GList items) \<Rightarrow>
          first_text (map (\<lambda>item. case item of
              GMap m \<Rightarrow>
                (let ty = raw_string (map_of m ''type'') in
                 if ty \<noteq> [] \<and> ty \<noteq> ''text'' then []
                 else case map_of m ''text'' of Some (GString s) \<Rightarrow> title_from_transcript_text L s | _ \<Rightarrow> [])
            | _ \<Rightarrow> []) items)
      | _ \<Rightarrow> [])"

definition tool_use_types :: "string list" where
  "tool_use_types = [''tool_use'', ''server_tool_use'', ''mcp_tool_use'']"

definition claude_assistant_continues :: "go_lib \<Rightarrow> string \<Rightarrow> gval option \<Rightarrow> bool" where
  "claude_assistant_continues L stopReason content \<longleftrightarrow>
     lower L (trim_space stopReason) \<in> {''tool_use'', ''pause_turn''} \<or>
     list_ex (\<lambda>item. block_type L (object_fields item) \<in> set tool_use_types) (blocks_of content)"

definition tool_block_evidence :: "go_lib \<Rightarrow> (string \<times> gval) list \<Rightarrow> evidence list" where
  "tool_block_evidence L m =
     (if block_type L m \<notin> set tool_use_types then []
      else (let name = first_string (map_of m) [''name'', ''tool_name''] in
            if name \<noteq> [] then [\<lparr>evi_Text = name, evi_Weight = 3\<rparr>] else [])
         @ (case json_value L (case map_of m ''input'' of Some v \<Rightarrow> v | None \<Rightarrow> GNil) of
              None \<Rightarrow> []
            | Some inp \<Rightarrow> if inp \<noteq> ''null'' then [\<lparr>evi_Text = inp, evi_Weight = 7\<rparr>] else []))"

definition claude_tool_evidence :: "go_lib \<Rightarrow> gval option \<Rightarrow> evidence list" where
  "claude_tool_evidence L content = concat (map (\<lambda>item. tool_block_evidence L (object_fields item)) (blocks_of content))"

text \<open>The MCP calls of a content: the index of a block counts the objects visited before it.\<close>

function visit_calls :: "go_lib \<Rightarrow> string \<Rightarrow> gval \<Rightarrow> nat \<times> transcript_tool_call list \<Rightarrow> nat \<times> transcript_tool_call list"
  and visit_all :: "go_lib \<Rightarrow> string \<Rightarrow> gval list \<Rightarrow> nat \<times> transcript_tool_call list \<Rightarrow> nat \<times> transcript_tool_call list" where
  "visit_calls L timestamp (GList items) st = visit_all L timestamp items st"
| "visit_calls L timestamp (GMap m) (blockIndex, calls) =
     (if block_type L m = ''tool_use''
      then let name = trim_space (first_string (map_of m) [''name'']); (server, tool) = tool_parts L name in
           if server = [] \<or> tool = [] then (blockIndex + 1, calls)
           else (blockIndex + 1, calls @
             [\<lparr>mtc_Name = name, mtc_CallID = trim_space (first_string (map_of m) [''id'', ''call_id'']),
               mtc_Timestamp = trim_space timestamp, mtc_MCPServer = server, mtc_MCPTool = tool,
               mtc_BlockIndex = blockIndex, mtc_AccountingInherited = False\<rparr>])
      else case map_of m ''content'' of
             Some v \<Rightarrow> visit_calls L timestamp v (blockIndex + 1, calls)
           | None \<Rightarrow> (blockIndex + 1, calls))"
| "visit_calls L timestamp GNil st = st"
| "visit_calls L timestamp (GBool b) st = st"
| "visit_calls L timestamp (GString s) st = st"
| "visit_calls L timestamp (GInt n) st = st"
| "visit_calls L timestamp (GInt64 n) st = st"
| "visit_calls L timestamp (GFloat n e) st = st"
| "visit_calls L timestamp (GNumber s) st = st"
| "visit_calls L timestamp (GStrings ss) st = st"
| "visit_calls L timestamp (GMaps ms) st = st"
| "visit_all L timestamp [] st = st"
| "visit_all L timestamp (x # xs) st = visit_all L timestamp xs (visit_calls L timestamp x st)"
  by pat_completeness auto
termination
  by (relation "measure (case_sum (\<lambda>(L, t, v, st). size v) (\<lambda>(L, t, xs, st). size_list size xs))") (auto dest: size_map_of)

definition claude_mcp_tool_calls_from_content :: "go_lib \<Rightarrow> gval option \<Rightarrow> string \<Rightarrow> transcript_tool_call list" where
  "claude_mcp_tool_calls_from_content L value timestamp =
     (case value of None \<Rightarrow> [] | Some v \<Rightarrow> snd (visit_calls L timestamp v (0, [])))"

section \<open>The accumulator\<close>

record claude_record =
  crc_UUID :: string
  crc_Type :: string
  crc_SessionID :: string
  crc_CWD :: string
  crc_GitBranch :: string
  crc_Timestamp :: string
  crc_IsMeta :: bool
  crc_IsSidechain :: bool
  crc_MessageID :: string
  crc_Model :: string
  crc_StopReason :: string
  crc_Usage :: claude_usage
  crc_Content :: "gval option"

record claude_turn_accumulator =
  cta_TurnID :: string
  cta_StartedAt :: time
  cta_EndedAt :: time
  cta_Model :: string
  cta_Usage :: claude_usage
  cta_Evidence :: "evidence list"

record transcript_accumulator =
  ta_session :: claude_session_usage
  ta_modelsSeen :: "string list"
  ta_seenMessageIDs :: "string list"
  ta_seenMCPToolCalls :: "string list"
  ta_candidates :: "transcript_candidate list"
  ta_firstUserText :: string
  ta_activeTurn :: "claude_turn_accumulator option"

definition new_accumulator :: transcript_accumulator where
  "new_accumulator =
     \<lparr>ta_session = new_session_usage, ta_modelsSeen = [], ta_seenMessageIDs = [], ta_seenMCPToolCalls = [],
      ta_candidates = [], ta_firstUserText = [], ta_activeTurn = None\<rparr>"

text \<open>An accumulator with its session changed.\<close>

definition on_session :: "(claude_session_usage \<Rightarrow> claude_session_usage) \<Rightarrow> transcript_accumulator \<Rightarrow> transcript_accumulator" where
  "on_session f a = a\<lparr>ta_session := f (ta_session a)\<rparr>"

definition finish_claude_turn :: "string \<Rightarrow> transcript_accumulator \<Rightarrow> transcript_accumulator" where
  "finish_claude_turn status a =
     (case ta_activeTurn a of
        None \<Rightarrow> a
      | Some t \<Rightarrow>
          (let a1 = a\<lparr>ta_activeTurn := None\<rparr> in
           if usage_is_zero (cta_Usage t) \<or> is_zero (cta_StartedAt t) \<or> cta_EndedAt t < cta_StartedAt t then a1
           else on_session (\<lambda>s. s\<lparr>csu_Turns := csu_Turns s @
             [\<lparr>ctu_TurnID = cta_TurnID t, ctu_Status = status, ctu_StartedAt = cta_StartedAt t, ctu_EndedAt = cta_EndedAt t,
               ctu_Model = cta_Model t, ctu_Usage = cta_Usage t, ctu_Evidence = cta_Evidence t,
               ctu_AccountingInherited = False\<rparr>]\<rparr>) a1))"

definition start_claude_turn :: "go_lib \<Rightarrow> claude_record \<Rightarrow> transcript_accumulator \<Rightarrow> transcript_accumulator" where
  "start_claude_turn L rc a =
     (let tx = trim_space (claude_transcript_content_text L (crc_Content rc));
          startedAt = (case parse_claude_timestamp L (crc_Timestamp rc) of Some t \<Rightarrow> t | None \<Rightarrow> zero_time);
          uuid = trim_space (crc_UUID rc);
          turnID = (if uuid = [] then hash_string L (join [crc_Timestamp rc, tx] nul_byte) else uuid)
      in if crc_IsMeta rc \<or> crc_IsSidechain rc \<or> tx = [] \<or> is_codex_non_chat_text L tx then a
         else (finish_claude_turn ''aborted'' a)
           \<lparr>ta_activeTurn := Some
             \<lparr>cta_TurnID = turnID, cta_StartedAt = startedAt, cta_EndedAt = zero_time, cta_Model = [],
              cta_Usage = no_usage, cta_Evidence = [\<lparr>evi_Text = tx, evi_Weight = 5\<rparr>]\<rparr>\<rparr>)"

fun add_new_calls :: "transcript_tool_call list \<Rightarrow> string list \<Rightarrow> transcript_tool_call list \<Rightarrow> string list \<times> transcript_tool_call list" where
  "add_new_calls [] seen acc = (seen, acc)"
| "add_new_calls (c # cs) seen acc =
     (if claude_mcp_tool_call_key c \<in> set seen then add_new_calls cs seen acc
      else add_new_calls cs (claude_mcp_tool_call_key c # seen) (acc @ [c]))"

definition add_content :: "go_lib \<Rightarrow> claude_record \<Rightarrow> string \<Rightarrow> transcript_accumulator \<Rightarrow> transcript_accumulator" where
  "add_content L rc role a =
     (let tx = claude_transcript_content_text L (crc_Content rc);
          candidates = add_claude_transcript_candidate L role tx (crc_Timestamp rc) (trim_space (crc_Model rc))
            (crc_MessageID rc) (claude_transcript_summary_phase L (crc_StopReason rc)) (ta_candidates a);
          title = (if role = ''user'' \<and> ta_firstUserText a = [] \<and> \<not> is_codex_non_chat_text L tx
                   then title_from_transcript_text L tx else ta_firstUserText a);
          (seen, calls) = (if role \<noteq> ''assistant'' then (ta_seenMCPToolCalls a, csu_MCPToolCalls (ta_session a))
            else add_new_calls (claude_mcp_tool_calls_from_content L (crc_Content rc) (crc_Timestamp rc))
                   (ta_seenMCPToolCalls a) (csu_MCPToolCalls (ta_session a)))
      in a\<lparr>ta_candidates := candidates, ta_firstUserText := title, ta_seenMCPToolCalls := seen,
           ta_session := (ta_session a)\<lparr>csu_MCPToolCalls := calls\<rparr>\<rparr>)"

definition claude_invocation_id :: "go_lib \<Rightarrow> claude_record \<Rightarrow> claude_usage \<Rightarrow> string" where
  "claude_invocation_id L rc usage =
     (if trim_space (crc_MessageID rc) \<noteq> [] then ''message:'' @ trim_space (crc_MessageID rc)
      else if trim_space (crc_UUID rc) \<noteq> [] then ''record:'' @ trim_space (crc_UUID rc)
      else ''fallback:'' @ hash_string L (join
        [crc_Timestamp rc, crc_Model rc, string_int (cu_InputTokens usage), string_int (cu_OutputTokens usage),
         string_int (cu_CacheCreationTokens usage), string_int (cu_CacheReadTokens usage),
         (case json_value L (case crc_Content rc of Some v \<Rightarrow> v | None \<Rightarrow> GNil) of Some t \<Rightarrow> t | None \<Rightarrow> [])] nul_byte))"

text \<open>The assistant record of a real model that was not counted before.\<close>

definition counted_assistant :: "claude_record \<Rightarrow> transcript_accumulator \<Rightarrow> bool" where
  "counted_assistant rc a \<longleftrightarrow>
     trim_space (crc_Model rc) \<noteq> [] \<and> trim_space (crc_Model rc) \<noteq> claude_synthetic_model \<and>
     (trim_space (crc_MessageID rc) = [] \<or> trim_space (crc_MessageID rc) \<notin> set (ta_seenMessageIDs a))"

definition note_assistant_event :: "go_lib \<Rightarrow> claude_record \<Rightarrow> transcript_accumulator \<Rightarrow> transcript_accumulator" where
  "note_assistant_event L rc a =
     (let messageID = trim_space (crc_MessageID rc); modelName = trim_space (crc_Model rc); s = ta_session a;
          s1 = (case parse_claude_timestamp L (crc_Timestamp rc) of
                  None \<Rightarrow> s
                | Some t \<Rightarrow>
                    s\<lparr>csu_FirstEventAt := (if is_zero (csu_FirstEventAt s) \<or> t < csu_FirstEventAt s then t else csu_FirstEventAt s),
                      csu_LastEventAt := (if t > csu_LastEventAt s then t else csu_LastEventAt s)\<rparr>)
      in a\<lparr>ta_seenMessageIDs := (if messageID = [] then ta_seenMessageIDs a else messageID # ta_seenMessageIDs a),
           ta_modelsSeen := (if modelName \<in> set (ta_modelsSeen a) then ta_modelsSeen a else modelName # ta_modelsSeen a),
           ta_session := s1\<lparr>csu_AssistantEvents := add64 (csu_AssistantEvents s1) 1\<rparr>\<rparr>)"

definition add_usage :: "go_lib \<Rightarrow> claude_record \<Rightarrow> transcript_accumulator \<Rightarrow> transcript_accumulator" where
  "add_usage L rc a =
     (let usage = crc_Usage rc; observed = parse_claude_timestamp L (crc_Timestamp rc); modelName = trim_space (crc_Model rc);
          day = (case observed of Some t \<Rightarrow> format_day L t | None \<Rightarrow> [])
      in on_session (\<lambda>s. s\<lparr>csu_ByModelDay := bump_usage (modelName, day) usage (csu_ByModelDay s),
                          csu_Total := usage_add (csu_Total s) usage,
                          csu_Invocations := csu_Invocations s @
                            [\<lparr>inv_InvocationID = claude_invocation_id L rc usage,
                              inv_ObservedAt = (case observed of Some t \<Rightarrow> t | None \<Rightarrow> zero_time),
                              inv_Model = modelName, inv_Usage = usage\<rparr>]\<rparr>) a)"

text \<open>The usage of an assistant record goes to the active turn, or makes a turn of its own.\<close>

definition add_claude_assistant_turn_usage :: "go_lib \<Rightarrow> claude_record \<Rightarrow> claude_usage \<Rightarrow> transcript_accumulator \<Rightarrow> transcript_accumulator \<times> bool" where
  "add_claude_assistant_turn_usage L rc usage a =
     (case (parse_claude_timestamp L (crc_Timestamp rc), ta_activeTurn a) of
        (Some endedAt, Some t) \<Rightarrow>
          (let a1 = a\<lparr>ta_activeTurn := Some (t\<lparr>cta_EndedAt := endedAt, cta_Model := trim_space (crc_Model rc),
                       cta_Usage := usage_add (cta_Usage t) usage,
                       cta_Evidence := cta_Evidence t @ claude_tool_evidence L (crc_Content rc)\<rparr>)\<rparr>
           in (if claude_assistant_continues L (crc_StopReason rc) (crc_Content rc) then a1
               else finish_claude_turn ''completed'' a1, True))
      | _ \<Rightarrow> (a, False))"

definition add_claude_internal_turn_usage :: "go_lib \<Rightarrow> claude_record \<Rightarrow> claude_usage \<Rightarrow> transcript_accumulator \<Rightarrow> transcript_accumulator" where
  "add_claude_internal_turn_usage L rc usage a =
     (case parse_claude_timestamp L (crc_Timestamp rc) of
        None \<Rightarrow> a
      | Some t \<Rightarrow>
          (let identity = (if trim_space (crc_MessageID rc) \<noteq> [] then trim_space (crc_MessageID rc)
                           else if trim_space (crc_UUID rc) \<noteq> [] then trim_space (crc_UUID rc)
                           else claude_invocation_id L rc usage)
           in on_session (\<lambda>s. s\<lparr>csu_Turns := csu_Turns s @
             [\<lparr>ctu_TurnID = ''internal:'' @ identity, ctu_Status = ''completed'', ctu_StartedAt = t, ctu_EndedAt = t,
               ctu_Model = trim_space (crc_Model rc), ctu_Usage = usage, ctu_Evidence = [],
               ctu_AccountingInherited = False\<rparr>]\<rparr>) a))"

definition add_assistant :: "go_lib \<Rightarrow> claude_record \<Rightarrow> transcript_accumulator \<Rightarrow> transcript_accumulator" where
  "add_assistant L rc a =
     (if \<not> counted_assistant rc a then a
      else if usage_is_zero (crc_Usage rc) then note_assistant_event L rc a
      else let a1 = add_usage L rc (note_assistant_event L rc a);
               (a2, assigned) = (if crc_IsMeta rc \<or> crc_IsSidechain rc then (a1, False)
                                 else add_claude_assistant_turn_usage L rc (crc_Usage rc) a1)
           in if assigned then a2 else add_claude_internal_turn_usage L rc (crc_Usage rc) a2)"

definition note_identity :: "claude_record \<Rightarrow> transcript_accumulator \<Rightarrow> transcript_accumulator" where
  "note_identity rc a =
     on_session (\<lambda>s. s\<lparr>csu_SessionID := (if csu_SessionID s = [] then crc_SessionID rc else csu_SessionID s),
                       csu_CWD := (if csu_CWD s = [] then crc_CWD rc else csu_CWD s),
                       csu_GitBranch := (if csu_GitBranch s = [] then crc_GitBranch rc else csu_GitBranch s)\<rparr>) a"

definition note_title :: "go_lib \<Rightarrow> claude_record \<Rightarrow> transcript_accumulator \<Rightarrow> transcript_accumulator" where
  "note_title L rc a =
     (let title = claude_title_from_content L (crc_Content rc) in
      if ta_firstUserText a = [] \<and> title \<noteq> [] \<and> \<not> is_codex_non_chat_text L title
      then a\<lparr>ta_firstUserText := title\<rparr> else a)"

definition add_record :: "go_lib \<Rightarrow> transcript_accumulator \<Rightarrow> claude_record \<Rightarrow> transcript_accumulator" where
  "add_record L a rc =
     (let role = lower L (trim_space (crc_Type rc)); a1 = note_identity rc a
      in if role = ''user''
         then note_title L rc (add_content L rc role (start_claude_turn L rc a1))
         else if role = ''assistant'' then add_assistant L rc (add_content L rc role a1)
         else a1)"

definition transcript_result :: "go_lib \<Rightarrow> transcript_accumulator \<Rightarrow> claude_session_usage option" where
  "transcript_result L a =
     (let (messages, truncated) = claude_transcript_messages_from_candidates L (ta_candidates a);
          s = (ta_session a)\<lparr>csu_Title := ta_firstUserText a, csu_Messages := messages, csu_TranscriptTruncated := truncated\<rparr>
      in if csu_SessionID s = [] \<or> (csu_AssistantEvents s = 0 \<and> messages = []) then None
         else Some (s\<lparr>csu_Models := sort (ta_modelsSeen a)\<rparr>))"

text \<open>
  \<open>bufio.Scanner\<close>: the lines of a text without their line feeds and a carriage return before
  them; a line that does not fit its buffer is an error.
\<close>

definition claude_scanner_max_bytes :: int where
  "claude_scanner_max_bytes = 16 * 1024 * 1024"

definition scanner_lines :: "int \<Rightarrow> string \<Rightarrow> string list option" where
  "scanner_lines limit content =
     (let parts = split content [CHR 0x0A];
          ls = (if last parts = [] then butlast parts else parts)
      in if list_ex (\<lambda>l. int (length l) \<ge> limit) ls then None
         else Some (map (\<lambda>l. trim_suffix l [CHR 0x0D]) ls))"

definition parse_claude_transcript ::
  "go_lib \<Rightarrow> (string \<Rightarrow> claude_record option) \<Rightarrow> string \<Rightarrow> claude_session_usage option" where
  "parse_claude_transcript L decode content =
     (case scanner_lines claude_scanner_max_bytes content of
        None \<Rightarrow> None
      | Some ls \<Rightarrow> transcript_result L (foldl (add_record L) new_accumulator (List.map_filter decode ls)))"

end
