(* ===== verification/Claude_Transcript_Properties.thy ===== *)
theory Claude_Transcript_Properties
  imports Claude_Transcript
begin

text \<open>
  What reading a Claude Code transcript guarantees: every message is counted once, no token is
  given to two turns, and the newest messages are kept within the limits.
\<close>

section \<open>Every message is counted once\<close>

definition usage_counters :: "(claude_usage \<Rightarrow> int) set" where
  "usage_counters = {cu_InputTokens, cu_OutputTokens, cu_CacheCreationTokens, cu_CacheReadTokens}"

lemma usage_add_exact:
  "c \<in> usage_counters \<Longrightarrow> 0 \<le> c u \<Longrightarrow> 0 \<le> c v \<Longrightarrow> c u + c v < 2 ^ 63 \<Longrightarrow> c (usage_add u v) = c u + c v"
  by (auto simp: usage_counters_def usage_add_def add64_exact in_int64_nonneg)

lemma no_usage_counter [simp]: "c \<in> usage_counters \<Longrightarrow> c no_usage = 0"
  by (auto simp: usage_counters_def no_usage_def)

definition day_sum :: "(claude_usage \<Rightarrow> int) \<Rightarrow> (model_day \<times> claude_usage) list \<Rightarrow> int" where
  "day_sum c m = (\<Sum>(k, u)\<leftarrow>m. c u)"

lemma day_sum_nonneg: "\<forall>(k, v)\<in>set m. 0 \<le> c v \<Longrightarrow> 0 \<le> day_sum c m"
  by (induction m) (auto simp: day_sum_def)

lemma bump_usage_sum:
  assumes "c \<in> usage_counters" and "\<forall>(k, v)\<in>set m. 0 \<le> c v" and "0 \<le> c u" and "day_sum c m + c u < 2 ^ 63"
  shows "day_sum c (bump_usage key u m) = day_sum c m + c u \<and> (\<forall>(k, v)\<in>set (bump_usage key u m). 0 \<le> c v)"
  using assms(2,4)
proof (induction m)
  case Nil
  then show ?case using assms(1,3) usage_add_exact [OF assms(1), of no_usage u] by (simp add: bump_usage_def day_sum_def)
next
  case (Cons x m)
  obtain k v where x: "x = (k, v)" by fastforce
  have nonneg: "0 \<le> c v" "0 \<le> day_sum c m" using Cons.prems(1) x day_sum_nonneg [of m c] by auto
  have tail: "day_sum c (x # m) = c v + day_sum c m" by (simp add: day_sum_def x)
  show ?case
  proof (cases "k = key")
    case True
    have "c (usage_add v u) = c v + c u"
      by (rule usage_add_exact [OF assms(1)]) (use nonneg assms(3) Cons.prems(2) tail in auto)
    with True x Cons.prems nonneg assms(3) show ?thesis by (auto simp: bump_usage_def day_sum_def)
  next
    case False
    have "day_sum c m + c u < 2 ^ 63" using Cons.prems(2) tail nonneg by simp
    with Cons x False nonneg show ?thesis by (auto simp: bump_usage_def day_sum_def)
  qed
qed

definition active_usage :: "(claude_usage \<Rightarrow> int) \<Rightarrow> transcript_accumulator \<Rightarrow> int" where
  "active_usage c a = (case ta_activeTurn a of Some t \<Rightarrow> c (cta_Usage t) | None \<Rightarrow> 0)"

definition turn_usage_sum :: "(claude_usage \<Rightarrow> int) \<Rightarrow> claude_session_usage \<Rightarrow> int" where
  "turn_usage_sum c s = (\<Sum>t\<leftarrow>csu_Turns s. c (ctu_Usage t))"

definition invocation_sum :: "(claude_usage \<Rightarrow> int) \<Rightarrow> claude_session_usage \<Rightarrow> int" where
  "invocation_sum c s = (\<Sum>i\<leftarrow>csu_Invocations s. c (inv_Usage i))"

text \<open>
  The invariant of the accumulator, for one counter: the total is the sum over the invocations
  and over the model-day buckets, and the finished turns with the active one do not exceed it.
\<close>

definition accounted :: "(claude_usage \<Rightarrow> int) \<Rightarrow> transcript_accumulator \<Rightarrow> bool" where
  "accounted c a \<longleftrightarrow>
     invocation_sum c (ta_session a) = c (csu_Total (ta_session a)) \<and>
     day_sum c (csu_ByModelDay (ta_session a)) = c (csu_Total (ta_session a)) \<and>
     (\<forall>(k, v)\<in>set (csu_ByModelDay (ta_session a)). 0 \<le> c v) \<and>
     0 \<le> turn_usage_sum c (ta_session a) \<and> 0 \<le> active_usage c a \<and>
     turn_usage_sum c (ta_session a) + active_usage c a \<le> c (csu_Total (ta_session a))"

lemmas accounted_simps = accounted_def invocation_sum_def turn_usage_sum_def active_usage_def on_session_def

lemma accounted_total_nonneg: "accounted c a \<Longrightarrow> 0 \<le> c (csu_Total (ta_session a))"
  by (simp add: accounted_def)

lemma accounted_new: "c \<in> usage_counters \<Longrightarrow> accounted c new_accumulator"
  by (simp add: accounted_simps new_accumulator_def new_session_usage_def day_sum_def)

lemma accounted_finish: "accounted c a \<Longrightarrow> accounted c (finish_claude_turn status a)"
  by (auto simp: accounted_simps finish_claude_turn_def Let_def split: option.splits)

lemma finish_total [simp]: "csu_Total (ta_session (finish_claude_turn status a)) = csu_Total (ta_session a)"
  by (simp add: finish_claude_turn_def Let_def on_session_def split: option.split)

text \<open>Steps that change neither the usage nor the turns.\<close>

lemma accounted_cong:
  assumes "csu_Invocations (ta_session b) = csu_Invocations (ta_session a)"
    and "csu_ByModelDay (ta_session b) = csu_ByModelDay (ta_session a)"
    and "csu_Total (ta_session b) = csu_Total (ta_session a)"
    and "csu_Turns (ta_session b) = csu_Turns (ta_session a)" and "ta_activeTurn b = ta_activeTurn a"
  shows "accounted c b \<longleftrightarrow> accounted c a"
  using assms by (simp add: accounted_simps)

lemma add_content_keeps:
  "csu_Invocations (ta_session (add_content L rc role a)) = csu_Invocations (ta_session a)"
  "csu_ByModelDay (ta_session (add_content L rc role a)) = csu_ByModelDay (ta_session a)"
  "csu_Total (ta_session (add_content L rc role a)) = csu_Total (ta_session a)"
  "csu_Turns (ta_session (add_content L rc role a)) = csu_Turns (ta_session a)"
  "ta_activeTurn (add_content L rc role a) = ta_activeTurn a"
  "ta_seenMessageIDs (add_content L rc role a) = ta_seenMessageIDs a"
  by (simp_all add: add_content_def Let_def case_prod_beta)

lemma note_identity_keeps:
  "csu_Invocations (ta_session (note_identity rc a)) = csu_Invocations (ta_session a)"
  "csu_ByModelDay (ta_session (note_identity rc a)) = csu_ByModelDay (ta_session a)"
  "csu_Total (ta_session (note_identity rc a)) = csu_Total (ta_session a)"
  "csu_Turns (ta_session (note_identity rc a)) = csu_Turns (ta_session a)"
  "ta_activeTurn (note_identity rc a) = ta_activeTurn a"
  "ta_seenMessageIDs (note_identity rc a) = ta_seenMessageIDs a"
  by (simp_all add: note_identity_def on_session_def)

lemma note_title_keeps:
  "ta_session (note_title L rc a) = ta_session a" "ta_activeTurn (note_title L rc a) = ta_activeTurn a"
  "ta_seenMessageIDs (note_title L rc a) = ta_seenMessageIDs a"
  by (simp_all add: note_title_def Let_def)

lemma note_event_keeps:
  "csu_Invocations (ta_session (note_assistant_event L rc a)) = csu_Invocations (ta_session a)"
  "csu_ByModelDay (ta_session (note_assistant_event L rc a)) = csu_ByModelDay (ta_session a)"
  "csu_Total (ta_session (note_assistant_event L rc a)) = csu_Total (ta_session a)"
  "csu_Turns (ta_session (note_assistant_event L rc a)) = csu_Turns (ta_session a)"
  "ta_activeTurn (note_assistant_event L rc a) = ta_activeTurn a"
  by (simp_all add: note_assistant_event_def Let_def split: option.split)

lemma accounted_start:
  assumes "c \<in> usage_counters" and "accounted c a"
  shows "accounted c (start_claude_turn L rc a)"
    and "csu_Total (ta_session (start_claude_turn L rc a)) = csu_Total (ta_session a)"
proof -
  have start: "start_claude_turn L rc a = a \<or>
      (\<exists>t. cta_Usage t = no_usage \<and> start_claude_turn L rc a = (finish_claude_turn ''aborted'' a)\<lparr>ta_activeTurn := Some t\<rparr>)"
  proof (cases "crc_IsMeta rc \<or> crc_IsSidechain rc \<or> trim_space (claude_transcript_content_text L (crc_Content rc)) = [] \<or>
      is_codex_non_chat_text L (trim_space (claude_transcript_content_text L (crc_Content rc)))")
    case False
    show ?thesis
      unfolding start_claude_turn_def Let_def if_not_P [OF False]
      by (rule disjI2, rule exI, rule conjI [rotated], rule refl, simp)
  qed (simp add: start_claude_turn_def Let_def)
  have "accounted c (b\<lparr>ta_activeTurn := Some t\<rparr>)" if "accounted c b" "cta_Usage t = no_usage" for b t
    using that assms(1) by (auto simp: accounted_simps)
  with start accounted_finish [OF assms(2)] assms(2) show "accounted c (start_claude_turn L rc a)" by metis
  show "csu_Total (ta_session (start_claude_turn L rc a)) = csu_Total (ta_session a)"
    by (simp add: start_claude_turn_def Let_def)
qed

text \<open>Counting a usage and giving it to one turn.\<close>

lemma accounted_add_assistant:
  assumes c: "c \<in> usage_counters" and a: "accounted c a" and u: "0 \<le> c (crc_Usage rc)"
    and room: "c (csu_Total (ta_session a)) + c (crc_Usage rc) < 2 ^ 63"
  shows "accounted c (add_assistant L rc a) \<and>
    c (csu_Total (ta_session (add_assistant L rc a))) \<le> c (csu_Total (ta_session a)) + c (crc_Usage rc)"
proof (cases "\<not> counted_assistant rc a \<or> usage_is_zero (crc_Usage rc)")
  case True
  then show ?thesis
    using a u by (auto simp: add_assistant_def note_event_keeps accounted_cong [of "note_assistant_event L rc a" a])
next
  case False
  let ?u = "crc_Usage rc" and ?n = "note_assistant_event L rc a"
  let ?a1 = "add_usage L rc ?n"
  have n: "accounted c ?n" using a accounted_cong [of ?n a c] by (simp add: note_event_keeps)
  have tot: "c (usage_add (csu_Total (ta_session a)) ?u) = c (csu_Total (ta_session a)) + c ?u"
    by (rule usage_add_exact [OF c accounted_total_nonneg [OF a] u room])
  have s1: "c (csu_Total (ta_session ?a1)) = c (csu_Total (ta_session a)) + c ?u"
    "invocation_sum c (ta_session ?a1) = c (csu_Total (ta_session ?a1))"
    "day_sum c (csu_ByModelDay (ta_session ?a1)) = c (csu_Total (ta_session ?a1))"
    "\<forall>(k, v)\<in>set (csu_ByModelDay (ta_session ?a1)). 0 \<le> c v"
    "csu_Turns (ta_session ?a1) = csu_Turns (ta_session a)" "ta_activeTurn ?a1 = ta_activeTurn a"
    using n a tot room u bump_usage_sum [OF c, of "csu_ByModelDay (ta_session a)" ?u]
    by (auto simp: add_usage_def Let_def accounted_simps note_event_keeps)
  have half: "turn_usage_sum c (ta_session ?a1) + active_usage c ?a1 + c ?u \<le> c (csu_Total (ta_session ?a1))"
    "0 \<le> turn_usage_sum c (ta_session ?a1)" "0 \<le> active_usage c ?a1"
    using a s1 by (simp_all add: accounted_simps)
  have internal: "accounted c (add_claude_internal_turn_usage L rc ?u ?a1) \<and>
      csu_Total (ta_session (add_claude_internal_turn_usage L rc ?u ?a1)) = csu_Total (ta_session ?a1)"
    using s1 half u
    by (auto simp: add_claude_internal_turn_usage_def Let_def accounted_simps split: option.split)
  obtain a2 assigned where r: "add_claude_assistant_turn_usage L rc ?u ?a1 = (a2, assigned)" by fastforce
  have given: "if assigned then accounted c a2 \<and> csu_Total (ta_session a2) = csu_Total (ta_session ?a1) else a2 = ?a1"
  proof (cases "parse_claude_timestamp L (crc_Timestamp rc)")
    case None
    with r show ?thesis by (simp add: add_claude_assistant_turn_usage_def)
  next
    case time: (Some endedAt)
    show ?thesis
    proof (cases "ta_activeTurn ?a1")
      case None
      with r time show ?thesis by (simp add: add_claude_assistant_turn_usage_def)
    next
      case (Some t)
      let ?t = "t\<lparr>cta_EndedAt := endedAt, cta_Model := trim_space (crc_Model rc),
        cta_Usage := usage_add (cta_Usage t) ?u, cta_Evidence := cta_Evidence t @ claude_tool_evidence L (crc_Content rc)\<rparr>"
      let ?b = "?a1\<lparr>ta_activeTurn := Some ?t\<rparr>"
      have "c (usage_add (cta_Usage t) ?u) = c (cta_Usage t) + c ?u"
        by (rule usage_add_exact [OF c _ u]) (use half Some s1(1) room in \<open>simp_all add: active_usage_def\<close>)
      moreover have at: "ta_activeTurn a = Some t" using Some s1(6) by simp
      ultimately have "accounted c ?b"
        using s1(1-5) half(1,2) half(3) u unfolding accounted_simps s1(6) by simp
      moreover have "csu_Total (ta_session ?b) = csu_Total (ta_session ?a1)" by simp
      ultimately show ?thesis
        using r time Some accounted_finish [of c ?b "''completed''"] finish_total [of "''completed''" ?b]
        by (auto simp: add_claude_assistant_turn_usage_def Let_def split: if_splits)
    qed
  qed
  show ?thesis
    using False internal given r s1(1) u
    by (auto simp: add_assistant_def Let_def split: if_splits)
qed


lemma accounted_add_record:
  assumes c: "c \<in> usage_counters" and a: "accounted c a" and u: "0 \<le> c (crc_Usage rc)"
    and room: "c (csu_Total (ta_session a)) + c (crc_Usage rc) < 2 ^ 63"
  shows "accounted c (add_record L a rc) \<and>
    c (csu_Total (ta_session (add_record L a rc))) \<le> c (csu_Total (ta_session a)) + c (crc_Usage rc)"
proof -
  let ?role = "lower L (trim_space (crc_Type rc))" and ?a1 = "note_identity rc a"
  have a1: "accounted c ?a1" using a accounted_cong [of ?a1 a c] by (simp add: note_identity_keeps)
  have content: "accounted c (add_content L rc role b) \<longleftrightarrow> accounted c b" for role b
    by (rule accounted_cong) (simp_all add: add_content_keeps)
  have title: "accounted c (note_title L rc b) \<longleftrightarrow> accounted c b" for b
    by (rule accounted_cong) (simp_all add: note_title_keeps)
  note start = accounted_start [OF c a1, of L rc]
  have assistant: "accounted c (add_assistant L rc (add_content L rc role ?a1)) \<and>
    c (csu_Total (ta_session (add_assistant L rc (add_content L rc role ?a1)))) \<le> c (csu_Total (ta_session a)) + c (crc_Usage rc)" for role
    using accounted_add_assistant [OF c _ u, of "add_content L rc role ?a1" L] a1 content room
    by (simp add: add_content_keeps note_identity_keeps)
  show ?thesis
    unfolding add_record_def Let_def
    using assistant start a1 u by (simp add: content title note_title_keeps add_content_keeps note_identity_keeps)
qed

lemma accounted_records:
  assumes c: "c \<in> usage_counters" and "accounted c a" and "\<forall>rc\<in>set rs. 0 \<le> c (crc_Usage rc)"
    and "c (csu_Total (ta_session a)) + (\<Sum>rc\<leftarrow>rs. c (crc_Usage rc)) < 2 ^ 63"
  shows "accounted c (foldl (add_record L) a rs)"
  using assms(2-)
proof (induction rs arbitrary: a)
  case (Cons rc rs)
  have "0 \<le> (\<Sum>rc\<leftarrow>rs. c (crc_Usage rc))" by (rule sum_list_nonneg) (use Cons.prems(2) in auto)
  then have "accounted c (add_record L a rc) \<and>
      c (csu_Total (ta_session (add_record L a rc))) \<le> c (csu_Total (ta_session a)) + c (crc_Usage rc)"
    by (intro accounted_add_record [OF c Cons.prems(1)]) (use Cons.prems(2,3) in auto)
  with Cons.IH [of "add_record L a rc"] Cons.prems(2,3) show ?case by simp
qed simp

text \<open>No message identifier is counted twice.\<close>

definition message_ids :: "claude_session_usage \<Rightarrow> string list" where
  "message_ids s = filter (\<lambda>i. has_prefix i ''message:'') (map inv_InvocationID (csu_Invocations s))"

definition ids_noted :: "transcript_accumulator \<Rightarrow> bool" where
  "ids_noted a \<longleftrightarrow> distinct (message_ids (ta_session a)) \<and>
     set (message_ids (ta_session a)) \<subseteq> (\<lambda>m. ''message:'' @ m) ` set (ta_seenMessageIDs a)"

lemma ids_noted_cong:
  "csu_Invocations (ta_session b) = csu_Invocations (ta_session a) \<Longrightarrow> ta_seenMessageIDs b = ta_seenMessageIDs a \<Longrightarrow>
    ids_noted b \<longleftrightarrow> ids_noted a"
  by (simp add: ids_noted_def message_ids_def)

lemma finish_keeps [simp]:
  "csu_Invocations (ta_session (finish_claude_turn status a)) = csu_Invocations (ta_session a)"
  "ta_seenMessageIDs (finish_claude_turn status a) = ta_seenMessageIDs a"
  by (simp_all add: finish_claude_turn_def Let_def on_session_def split: option.split)

lemma start_keeps [simp]:
  "csu_Invocations (ta_session (start_claude_turn L rc a)) = csu_Invocations (ta_session a)"
  "ta_seenMessageIDs (start_claude_turn L rc a) = ta_seenMessageIDs a"
  by (simp_all add: start_claude_turn_def Let_def)

lemma turn_steps_keep [simp]:
  "csu_Invocations (ta_session (add_claude_internal_turn_usage L rc u a)) = csu_Invocations (ta_session a)"
  "ta_seenMessageIDs (add_claude_internal_turn_usage L rc u a) = ta_seenMessageIDs a"
  "csu_Invocations (ta_session (fst (add_claude_assistant_turn_usage L rc u a))) = csu_Invocations (ta_session a)"
  "ta_seenMessageIDs (fst (add_claude_assistant_turn_usage L rc u a)) = ta_seenMessageIDs a"
  by (simp_all add: add_claude_internal_turn_usage_def add_claude_assistant_turn_usage_def Let_def on_session_def
      split: option.split)

lemma invocation_id_message:
  "has_prefix (claude_invocation_id L rc u) ''message:'' \<Longrightarrow>
    trim_space (crc_MessageID rc) \<noteq> [] \<and> claude_invocation_id L rc u = ''message:'' @ trim_space (crc_MessageID rc)"
  by (auto simp: claude_invocation_id_def has_prefix_def split: if_splits)

lemma ids_noted_add_usage:
  assumes "ids_noted a" and "counted_assistant rc a"
  shows "ids_noted (add_usage L rc (note_assistant_event L rc a))"
proof -
  let ?b = "add_usage L rc (note_assistant_event L rc a)" and ?i = "claude_invocation_id L rc (crc_Usage rc)"
  let ?m = "trim_space (crc_MessageID rc)"
  have ids: "message_ids (ta_session ?b) = message_ids (ta_session a) @ (if has_prefix ?i ''message:'' then [?i] else [])"
    by (simp add: message_ids_def add_usage_def on_session_def Let_def note_event_keeps)
  have seen: "ta_seenMessageIDs ?b = (if ?m = [] then ta_seenMessageIDs a else ?m # ta_seenMessageIDs a)"
    by (simp add: add_usage_def on_session_def Let_def note_assistant_event_def)
  show ?thesis
    using assms invocation_id_message [of L rc "crc_Usage rc"]
    unfolding ids_noted_def ids seen by (auto simp: counted_assistant_def)
qed

lemma ids_noted_add_record: "ids_noted a \<Longrightarrow> ids_noted (add_record L a rc)"
proof -
  assume a: "ids_noted a"
  have event: "ids_noted b \<Longrightarrow> ids_noted (note_assistant_event L rc b)" for b
    by (auto simp: ids_noted_def message_ids_def note_event_keeps) (auto simp: note_assistant_event_def Let_def)
  have assistant: "ids_noted (add_assistant L rc b)" if "ids_noted b" for b
  proof (cases "counted_assistant rc b \<and> \<not> usage_is_zero (crc_Usage rc)")
    case True
    let ?b = "add_usage L rc (note_assistant_event L rc b)"
    have "ids_noted ?b" using that True ids_noted_add_usage by blast
    moreover have "csu_Invocations (ta_session (add_assistant L rc b)) = csu_Invocations (ta_session ?b)"
      "ta_seenMessageIDs (add_assistant L rc b) = ta_seenMessageIDs ?b"
      using True turn_steps_keep(3,4) [of L rc "crc_Usage rc" ?b] by (auto simp: add_assistant_def Let_def case_prod_beta)
    ultimately show ?thesis using ids_noted_cong by blast
  next
    case False
    then show ?thesis using that event by (auto simp: add_assistant_def)
  qed
  have "ids_noted (note_identity rc a)" using a ids_noted_cong by (metis note_identity_keeps(1,6))
  then have "ids_noted (add_content L rc role (note_identity rc a))"
    "ids_noted (note_title L rc (add_content L rc role (start_claude_turn L rc (note_identity rc a))))" for role
    by (metis ids_noted_cong add_content_keeps(1,6) note_title_keeps(1,3) start_keeps)+
  with assistant \<open>ids_noted (note_identity rc a)\<close> show ?thesis by (simp add: add_record_def Let_def)
qed


lemma transcript_result_keeps:
  assumes "transcript_result L a = Some s"
  shows "csu_Invocations s = csu_Invocations (ta_session a)" "csu_ByModelDay s = csu_ByModelDay (ta_session a)"
    "csu_Total s = csu_Total (ta_session a)" "csu_Turns s = csu_Turns (ta_session a)"
    "claude_transcript_messages_from_candidates L (ta_candidates a) = (csu_Messages s, csu_TranscriptTruncated s)"
  using assms by (auto simp: transcript_result_def Let_def split: prod.splits if_splits)

lemma ids_noted_records: "ids_noted a \<Longrightarrow> ids_noted (foldl (add_record L) a rs)"
  by (induction rs arbitrary: a) (auto intro: ids_noted_add_record)


section \<open>The newest messages are kept\<close>

definition message_bytes :: "message list \<Rightarrow> int" where
  "message_bytes ms = (\<Sum>m\<leftarrow>ms. int (length (message_text m)))"

lemma trim_oldest_keeps_newest:
  assumes "trim_oldest (message_bytes ms) ms = (tot, rest, dropped)"
  shows "tot = message_bytes rest \<and> length rest \<le> codex_max_transcript_messages \<and>
    tot \<le> codex_max_transcript_total_bytes \<and> (\<exists>old. ms = old @ rest \<and> (dropped \<longleftrightarrow> old \<noteq> []))"
  using assms
proof (induction ms arbitrary: tot rest dropped)
  case Nil
  then show ?case by (simp add: message_bytes_def codex_max_transcript_total_bytes_def)
next
  case (Cons m ms)
  show ?case
  proof (cases "length (m # ms) > codex_max_transcript_messages \<or> message_bytes (m # ms) > codex_max_transcript_total_bytes")
    case True
    obtain t r d where rec: "trim_oldest (message_bytes ms) ms = (t, r, d)" by (metis prod_cases3)
    have "message_bytes (m # ms) - int (length (message_text m)) = message_bytes ms" by (simp add: message_bytes_def)
    with True rec Cons.prems have eq: "tot = t" "rest = r" "dropped" by (auto simp: Let_def)
    from Cons.IH [OF rec] obtain old where "ms = old @ r" by blast
    then have "m # ms = (m # old) @ rest" using eq by simp
    then show ?thesis using Cons.IH [OF rec] eq by blast
  next
    case False
    then have "tot = message_bytes (m # ms)" "rest = m # ms" "\<not> dropped" using Cons.prems by auto
    with False show ?thesis by (auto simp: not_less)
  qed
qed

definition visible_messages :: "go_lib \<Rightarrow> transcript_candidate list \<Rightarrow> message list" where
  "visible_messages L cs =
     map (\<lambda>c. candidate_message L c (candidate_text c))
       (filter (\<lambda>c. candidate_text c \<noteq> [] \<and> \<not> is_codex_non_chat_text L (candidate_text c)) cs)"

lemma message_text_candidate: "tx \<noteq> [] \<Longrightarrow> message_text (candidate_message L c tx) = tx"
  by (simp add: message_text_def candidate_message_def raw_string_def)

lemma messages_loop_keeps_newest:
  assumes "messages_loop L (ms, message_bytes ms, truncated) cs = (ms', tot, truncated')"
    and "length ms \<le> codex_max_transcript_messages" "message_bytes ms \<le> codex_max_transcript_total_bytes"
  shows "tot = message_bytes ms' \<and> length ms' \<le> codex_max_transcript_messages \<and> tot \<le> codex_max_transcript_total_bytes \<and>
    (\<exists>old. ms @ visible_messages L cs = old @ ms' \<and> (truncated' \<longleftrightarrow> truncated \<or> old \<noteq> []))"
  using assms
proof (induction cs arbitrary: ms truncated)
  case Nil
  then show ?case by (auto simp: visible_messages_def)
next
  case (Cons c cs)
  let ?tx = "candidate_text c"
  show ?case
  proof (cases "?tx = [] \<or> is_codex_non_chat_text L ?tx")
    case True
    then have "visible_messages L (c # cs) = visible_messages L cs" by (auto simp: visible_messages_def)
    with True Cons show ?thesis by auto
  next
    case False
    let ?m = "candidate_message L c ?tx"
    have vis: "visible_messages L (c # cs) = ?m # visible_messages L cs" using False by (simp add: visible_messages_def)
    obtain t rest d where tr: "trim_oldest (message_bytes (ms @ [?m])) (ms @ [?m]) = (t, rest, d)" by (metis prod_cases3)
    have "message_bytes (ms @ [?m]) = message_bytes ms + int (length ?tx)"
      using False by (simp add: message_bytes_def message_text_candidate)
    with Cons.prems(1) False tr have run: "messages_loop L (rest, t, truncated \<or> d) cs = (ms', tot, truncated')"
      by (simp add: Let_def)
    from trim_oldest_keeps_newest [OF tr] obtain old where
      rest: "t = message_bytes rest" "length rest \<le> codex_max_transcript_messages" "t \<le> codex_max_transcript_total_bytes"
        "ms @ [?m] = old @ rest" "d \<longleftrightarrow> old \<noteq> []" by blast
    from Cons.IH [of rest "truncated \<or> d"] run rest(1-3) obtain old' where
      "rest @ visible_messages L cs = old' @ ms'" "truncated' \<longleftrightarrow> (truncated \<or> d) \<or> old' \<noteq> []"
      and IH: "tot = message_bytes ms' \<and> length ms' \<le> codex_max_transcript_messages \<and> tot \<le> codex_max_transcript_total_bytes"
      by auto
    then have "ms @ visible_messages L (c # cs) = (old @ old') @ ms' \<and> (truncated' \<longleftrightarrow> truncated \<or> old @ old' \<noteq> [])"
      using rest(4,5) vis by (metis append.assoc append_Cons append_Nil append_is_Nil_conv)
    with IH show ?thesis by blast
  qed
qed

text \<open>
  The messages kept of a transcript are its newest visible ones, at most 80 with at most
  256 KiB of text, and it is marked truncated exactly when older ones were dropped.
\<close>

theorem transcript_keeps_newest_messages:
  "length (fst (claude_transcript_messages_from_candidates L cs)) \<le> 80 \<and>
   (\<Sum>m\<leftarrow>fst (claude_transcript_messages_from_candidates L cs). int (length (message_text m))) \<le> 256 * 1024 \<and>
   (\<exists>old. visible_messages L cs = old @ fst (claude_transcript_messages_from_candidates L cs) \<and>
      (snd (claude_transcript_messages_from_candidates L cs) \<longleftrightarrow> old \<noteq> []))"
proof -
  obtain ms tot truncated where run: "messages_loop L ([], message_bytes [], False) cs = (ms, tot, truncated)"
    by (metis prod_cases3)
  then have r: "claude_transcript_messages_from_candidates L cs = (ms, truncated)"
    by (simp add: claude_transcript_messages_from_candidates_def message_bytes_def)
  from messages_loop_keeps_newest [OF run] show ?thesis
    unfolding r by (simp add: codex_max_transcript_messages_def codex_max_transcript_total_bytes_def message_bytes_def)
qed

section \<open>Witnesses\<close>

definition sample_record :: "string \<Rightarrow> string \<Rightarrow> int \<Rightarrow> claude_record" where
  "sample_record kind i n =
     \<lparr>crc_UUID = ''u'' @ i, crc_Type = kind, crc_SessionID = ''S'', crc_CWD = ''/w'', crc_GitBranch = ''main'',
      crc_Timestamp = ''tt'', crc_IsMeta = False, crc_IsSidechain = False, crc_MessageID = i, crc_Model = ''m'',
      crc_StopReason = ''end_turn'',
      crc_Usage = \<lparr>cu_InputTokens = n, cu_OutputTokens = 1, cu_CacheCreationTokens = 0, cu_CacheReadTokens = 0\<rparr>,
      crc_Content = Some (GList [GMap [(''type'', GString ''text''), (''text'', GString ''hi'')]])\<rparr>"

definition sample_decode :: "string \<Rightarrow> claude_record option" where
  "sample_decode line =
     (if line = ''u'' then Some (sample_record ''user'' [] 0)
      else if line = ''a'' then Some (sample_record ''assistant'' ''M1'' 3)
      else if line = ''b'' then Some (sample_record ''assistant'' ''M2'' 4) else None)"

definition sample_transcript :: string where
  "sample_transcript = join [''u'', ''a'', ''a'', ''b''] [CHR 0x0A]"


end
