(* ===== verification/Claude_Fork.thy ===== *)
theory Claude_Fork
  imports Claude_Transcript
begin

text \<open>
  \<open>pkg/daemon/claude_fork_accounting.go\<close>: Claude Code copies the history of a session into the
  sessions forked from it. Each invocation, turn and tool call that several sessions hold is
  owned by one of them, the one ranked first, and only there it counts. The maps of the store
  are association lists sorted by key, so that comparing two stores is comparing their maps.
\<close>

section \<open>Sorted association lists\<close>

fun smap_put :: "string \<Rightarrow> 'v \<Rightarrow> (string \<times> 'v) list \<Rightarrow> (string \<times> 'v) list" where
  "smap_put k v [] = [(k, v)]"
| "smap_put k v ((k', v') # m) =
     (if k = k' then (k, v) # m else if k < k' then (k, v) # (k', v') # m else (k', v') # smap_put k v m)"

lemma map_of_smap_put [simp]: "map_of (smap_put k v m) = (map_of m)(k \<mapsto> v)"
  by (induction k v m rule: smap_put.induct) (auto simp: fun_eq_iff)

section \<open>The store\<close>

record fork_store =
  fs_Version :: int
  fs_InitializedAt :: string
  fs_NextSessionRank :: "64 word"
  fs_SessionRanks :: "(string \<times> 64 word) list"
  fs_ActiveSessions :: "(string \<times> bool) list"
  fs_InheritedOffsets :: "(string \<times> (string \<times> claude_usage) list) list"

definition new_fork_store :: fork_store where
  "new_fork_store =
     \<lparr>fs_Version = 0, fs_InitializedAt = [], fs_NextSessionRank = 0, fs_SessionRanks = [],
      fs_ActiveSessions = [], fs_InheritedOffsets = []\<rparr>"

definition claude_fork_accounting_schema :: int where
  "claude_fork_accounting_schema = 2"

definition session_hash :: "go_lib \<Rightarrow> claude_session_usage \<Rightarrow> string" where
  "session_hash L s = short_hash L (csu_SessionID s)"

definition claude_accounting_needs_cutover :: "int \<Rightarrow> bool \<Rightarrow> bool" where
  "claude_accounting_needs_cutover version hasBaselineSessions \<longleftrightarrow>
     version \<noteq> claude_fork_accounting_schema \<and> hasBaselineSessions"

definition assign_rank :: "fork_store \<Rightarrow> string \<Rightarrow> fork_store" where
  "assign_rank store i =
     store\<lparr>fs_NextSessionRank := fs_NextSessionRank store + 1,
           fs_SessionRanks := smap_put i (fs_NextSessionRank store + 1) (fs_SessionRanks store)\<rparr>"

definition assign_claude_session_ranks :: "go_lib \<Rightarrow> claude_session_usage list \<Rightarrow> fork_store \<Rightarrow> fork_store" where
  "assign_claude_session_ranks L sessions store =
     foldl assign_rank store
       (sort (filter (\<lambda>i. map_of (fs_SessionRanks store) i = None) (map (session_hash L) sessions)))"

section \<open>Owners\<close>

definition add_occurrence :: "(string \<times> string list) list \<Rightarrow> string \<times> string \<Rightarrow> (string \<times> string list) list" where
  "add_occurrence occ = (\<lambda>(identity0, sessionID0).
     let identity = trim_space identity0; sessionID = trim_space sessionID0 in
     if identity = [] \<or> sessionID = [] then occ
     else upsert fst (\<lambda>x. x) (\<lambda>(k, old) (_, new). (k, if sessionID \<in> set old then old else old @ new))
            (identity, [sessionID]) occ)"

definition occurrences :: "(string \<times> string) list \<Rightarrow> (string \<times> string list) list" where
  "occurrences pairs = foldl add_occurrence [] pairs"

definition invocation_pairs :: "go_lib \<Rightarrow> claude_session_usage list \<Rightarrow> (string \<times> string) list" where
  "invocation_pairs L sessions =
     concat (map (\<lambda>s. map (\<lambda>i. (hash_string L (inv_InvocationID i), session_hash L s)) (csu_Invocations s)) sessions)"

definition turn_pairs :: "go_lib \<Rightarrow> claude_session_usage list \<Rightarrow> (string \<times> string) list" where
  "turn_pairs L sessions =
     concat (map (\<lambda>s. map (\<lambda>t. (hash_string L (ctu_TurnID t), session_hash L s)) (csu_Turns s)) sessions)"

definition call_pairs :: "go_lib \<Rightarrow> claude_session_usage list \<Rightarrow> (string \<times> string) list" where
  "call_pairs L sessions =
     concat (map (\<lambda>s. map (\<lambda>c. (hash_string L (claude_mcp_tool_call_key c), session_hash L s)) (csu_MCPToolCalls s)) sessions)"

definition rank_of :: "(string \<times> 64 word) list \<Rightarrow> string \<Rightarrow> 64 word" where
  "rank_of ranks s = (case map_of ranks s of Some r \<Rightarrow> r | None \<Rightarrow> 0)"

definition better_owner :: "(string \<times> 64 word) list \<Rightarrow> string \<Rightarrow> string \<Rightarrow> string" where
  "better_owner ranks owner s =
     (if owner = [] \<or> rank_of ranks s < rank_of ranks owner \<or> (rank_of ranks s = rank_of ranks owner \<and> s < owner)
      then s else owner)"

definition resolve_claude_accounting_owners ::
  "(string \<times> string list) list \<Rightarrow> (string \<times> 64 word) list \<Rightarrow> (string \<times> string) list" where
  "resolve_claude_accounting_owners occ ranks =
     map (\<lambda>(identity, ss). (identity, foldl (better_owner ranks) [] ss)) (filter (\<lambda>(_, ss). length ss \<ge> 2) occ)"

definition owner_of :: "(string \<times> string) list \<Rightarrow> string \<Rightarrow> string" where
  "owner_of owners identity = (case map_of owners identity of Some owner \<Rightarrow> owner | None \<Rightarrow> [])"

definition inherited_item :: "(string \<times> string) list \<Rightarrow> string \<Rightarrow> string \<Rightarrow> bool" where
  "inherited_item owners identity sessionID \<longleftrightarrow>
     owner_of owners identity \<noteq> [] \<and> owner_of owners identity \<noteq> sessionID"

section \<open>Offsets\<close>

definition claude_accounting_bucket_key_from_day :: "go_lib \<Rightarrow> string \<Rightarrow> string \<Rightarrow> string" where
  "claude_accounting_bucket_key_from_day L model day = hash_string L (join [model, day] nul_byte)"

definition claude_accounting_bucket_key :: "go_lib \<Rightarrow> string \<Rightarrow> time \<Rightarrow> string" where
  "claude_accounting_bucket_key L model observedAt = claude_accounting_bucket_key_from_day L model (day_of L observedAt)"

definition offset_at :: "(string \<times> claude_usage) list \<Rightarrow> string \<Rightarrow> claude_usage" where
  "offset_at offsets key = (case map_of offsets key of Some u \<Rightarrow> u | None \<Rightarrow> no_usage)"

definition subtract_offset :: "claude_usage \<Rightarrow> claude_usage \<Rightarrow> claude_usage" where
  "subtract_offset u offset =
     \<lparr>cu_InputTokens = max 0 (sub64 (cu_InputTokens u) (cu_InputTokens offset)),
      cu_OutputTokens = max 0 (sub64 (cu_OutputTokens u) (cu_OutputTokens offset)),
      cu_CacheCreationTokens = max 0 (sub64 (cu_CacheCreationTokens u) (cu_CacheCreationTokens offset)),
      cu_CacheReadTokens = max 0 (sub64 (cu_CacheReadTokens u) (cu_CacheReadTokens offset))\<rparr>"

definition max_offset :: "claude_usage \<Rightarrow> claude_usage \<Rightarrow> claude_usage" where
  "max_offset u v =
     \<lparr>cu_InputTokens = max (cu_InputTokens u) (cu_InputTokens v),
      cu_OutputTokens = max (cu_OutputTokens u) (cu_OutputTokens v),
      cu_CacheCreationTokens = max (cu_CacheCreationTokens u) (cu_CacheCreationTokens v),
      cu_CacheReadTokens = max (cu_CacheReadTokens u) (cu_CacheReadTokens v)\<rparr>"

definition merge_claude_usage_offsets ::
  "(string \<times> claude_usage) list \<Rightarrow> (string \<times> claude_usage) list \<Rightarrow> (string \<times> claude_usage) list" where
  "merge_claude_usage_offsets left right =
     foldl (\<lambda>m (k, v). smap_put k (max_offset (offset_at m k) v) m) left right"

text \<open>What a session holds of invocations that others own, by bucket.\<close>

definition observed_offsets :: "go_lib \<Rightarrow> (string \<times> string) list \<Rightarrow> claude_session_usage \<Rightarrow> (string \<times> claude_usage) list" where
  "observed_offsets L owners s =
     foldl (\<lambda>m i. if inherited_item owners (hash_string L (inv_InvocationID i)) (session_hash L s)
                  then let key = claude_accounting_bucket_key L (inv_Model i) (inv_ObservedAt i)
                       in smap_put key (usage_add (offset_at m key) (inv_Usage i)) m
                  else m) [] (csu_Invocations s)"

definition stored_offsets :: "(string \<times> (string \<times> claude_usage) list) list \<Rightarrow> string \<Rightarrow> (string \<times> claude_usage) list" where
  "stored_offsets stored sessionID = (case map_of stored sessionID of Some m \<Rightarrow> m | None \<Rightarrow> [])"

definition next_claude_inherited_offsets ::
  "go_lib \<Rightarrow> (string \<times> (string \<times> claude_usage) list) list \<Rightarrow> claude_session_usage list \<Rightarrow> (string \<times> string) list \<Rightarrow>
   (string \<times> (string \<times> claude_usage) list) list" where
  "next_claude_inherited_offsets L stored sessions owners =
     foldl (\<lambda>next s.
        let sessionID = session_hash L s;
            merged = merge_claude_usage_offsets (stored_offsets stored sessionID) (observed_offsets L owners s)
        in if merged = [] then filter (\<lambda>(k, _). k \<noteq> sessionID) next else smap_put sessionID merged next) [] sessions"

definition apply_claude_inherited_offsets :: "go_lib \<Rightarrow> (string \<times> claude_usage) list \<Rightarrow> claude_session_usage \<Rightarrow> claude_session_usage" where
  "apply_claude_inherited_offsets L offsets s =
     (if offsets = [] then s
      else let reduced = filter (\<lambda>(_, u). \<not> usage_is_zero u)
                 (map (\<lambda>(k, u). (k, subtract_offset u (offset_at offsets (claude_accounting_bucket_key_from_day L (fst k) (snd k)))))
                    (csu_ByModelDay s))
           in s\<lparr>csu_ByModelDay := reduced, csu_Total := foldl (\<lambda>acc (_, u). usage_add acc u) no_usage reduced\<rparr>)"

section \<open>Preparing the sessions\<close>

definition mark_claude_inherited_turns :: "go_lib \<Rightarrow> string \<Rightarrow> (string \<times> string) list \<Rightarrow> claude_turn_usage list \<Rightarrow> claude_turn_usage list" where
  "mark_claude_inherited_turns L sessionID owners ts =
     map (\<lambda>t. t\<lparr>ctu_AccountingInherited := inherited_item owners (hash_string L (ctu_TurnID t)) sessionID\<rparr>) ts"

definition mark_claude_inherited_mcp_calls ::
  "go_lib \<Rightarrow> string \<Rightarrow> (string \<times> string) list \<Rightarrow> transcript_tool_call list \<Rightarrow> transcript_tool_call list" where
  "mark_claude_inherited_mcp_calls L sessionID owners calls =
     map (\<lambda>c. c\<lparr>mtc_AccountingInherited := inherited_item owners (hash_string L (claude_mcp_tool_call_key c)) sessionID\<rparr>) calls"

definition first_claude_accounted_turn_at :: "claude_turn_usage list \<Rightarrow> time" where
  "first_claude_accounted_turn_at ts =
     foldl (\<lambda>first t. if ctu_AccountingInherited t \<or> is_zero (ctu_StartedAt t) then first
                      else if is_zero first \<or> ctu_StartedAt t < first then ctu_StartedAt t else first) zero_time ts"

definition account_session ::
  "go_lib \<Rightarrow> fork_store \<Rightarrow> fork_store \<Rightarrow> bool \<Rightarrow> (string \<times> string) list \<Rightarrow> (string \<times> string) list \<Rightarrow>
   claude_session_usage \<Rightarrow> claude_session_usage" where
  "account_session L store next cutover turnOwners callOwners s =
     (let sessionID = session_hash L s;
          initializedAt = (case parse_rfc3339 L (fs_InitializedAt store) of Some t \<Rightarrow> t | None \<Rightarrow> zero_time);
          s1 = apply_claude_inherited_offsets L (stored_offsets (fs_InheritedOffsets next) sessionID) s;
          ts = mark_claude_inherited_turns L sessionID turnOwners (csu_Turns s);
          firstAt = first_claude_accounted_turn_at ts;
          historical = (map_of (fs_ActiveSessions store) sessionID \<noteq> Some True \<and> \<not> is_zero initializedAt \<and>
                        \<not> is_zero firstAt \<and> firstAt < initializedAt)
      in s1\<lparr>csu_Turns := ts,
            csu_MCPToolCalls := mark_claude_inherited_mcp_calls L sessionID callOwners (csu_MCPToolCalls s),
            csu_AccountingFirstEventAt := firstAt,
            csu_AccountingSeedOnly := (cutover \<or> historical)\<rparr>)"

definition next_fork_store :: "go_lib \<Rightarrow> claude_session_usage list \<Rightarrow> time \<Rightarrow> fork_store \<Rightarrow> fork_store" where
  "next_fork_store L sessions observedAt store =
     (let ranked = assign_claude_session_ranks L sessions
            (store\<lparr>fs_Version := claude_fork_accounting_schema,
                   fs_InitializedAt := (if fs_InitializedAt store = [] then format_rfc3339 L observedAt else fs_InitializedAt store),
                   fs_ActiveSessions := []\<rparr>);
          owners = resolve_claude_accounting_owners (occurrences (invocation_pairs L sessions)) (fs_SessionRanks ranked)
      in ranked\<lparr>fs_InheritedOffsets := next_claude_inherited_offsets L (fs_InheritedOffsets store) sessions owners,
               fs_ActiveSessions := foldl (\<lambda>m s. smap_put (session_hash L s) True m) [] sessions\<rparr>)"

definition prepare_claude_fork_accounting ::
  "go_lib \<Rightarrow> claude_session_usage list \<Rightarrow> time \<Rightarrow> bool \<Rightarrow> fork_store \<Rightarrow> claude_session_usage list \<times> fork_store option" where
  "prepare_claude_fork_accounting L sessions observedAt hasBaselineSessions store =
     (let cutover = claude_accounting_needs_cutover (fs_Version store) hasBaselineSessions;
          next = next_fork_store L sessions observedAt store;
          ranks = fs_SessionRanks next;
          turnOwners = resolve_claude_accounting_owners (occurrences (turn_pairs L sessions)) ranks;
          callOwners = resolve_claude_accounting_owners (occurrences (call_pairs L sessions)) ranks
      in (map (account_session L store next cutover turnOwners callOwners) sessions,
          if store = next then None else Some next))"

end
