(* ===== verification/Claude_Fork_Properties.thy ===== *)
theory Claude_Fork_Properties
  imports Claude_Fork
begin

text \<open>
  What \<open>prepareClaudeForkAccounting\<close> promises: an item that several sessions hold is counted in
  exactly one of them, the first of them in the order of ranks, and a session that was ranked
  once stays before the sessions met later.
\<close>

section \<open>Each shared item has one owner\<close>

lemma map_of_upsert:
  "map_of (upsert fst (\<lambda>x. x) (\<lambda>(k, old) (_, new). (k, f old new)) (i, v) m) k =
     (if k = i then Some (case map_of m i of Some old \<Rightarrow> f old v | None \<Rightarrow> v) else map_of m k)"
  by (induction m) (auto split: option.split)

lemma map_of_add_occurrence:
  "map_of (add_occurrence occ (i, s)) k =
     (if trim_space i = [] \<or> trim_space s = [] \<or> k \<noteq> trim_space i then map_of occ k
      else Some (case map_of occ k of None \<Rightarrow> [trim_space s]
                 | Some old \<Rightarrow> if trim_space s \<in> set old then old else old @ [trim_space s]))"
  by (auto simp: add_occurrence_def map_of_upsert Let_def split: option.split)

text \<open>The sessions that hold an item, in the order in which they were met.\<close>

definition holders :: "(string \<times> string) list \<Rightarrow> string \<Rightarrow> string list" where
  "holders pairs k = (case map_of (occurrences pairs) k of Some ss \<Rightarrow> ss | None \<Rightarrow> [])"

lemma holders_snoc:
  "holders (pairs @ [(i, s)]) k =
     (if trim_space i = [] \<or> trim_space s = [] \<or> k \<noteq> trim_space i \<or> trim_space s \<in> set (holders pairs k)
      then holders pairs k else holders pairs k @ [trim_space s])"
  by (auto simp: holders_def occurrences_def map_of_add_occurrence split: option.split)

lemma holders_spec:
  "distinct (holders pairs k) \<and>
   set (holders pairs k) =
     (if k = [] then {} else (\<lambda>p. trim_space (snd p)) ` {p \<in> set pairs. trim_space (fst p) = k \<and> trim_space (snd p) \<noteq> []})"
proof (induction pairs rule: rev_induct)
  case Nil
  then show ?case by (simp add: holders_def occurrences_def)
next
  case (snoc x pairs)
  have "{p \<in> set (pairs @ [x]). trim_space (fst p) = k \<and> trim_space (snd p) \<noteq> []} =
    (if trim_space (fst x) = k \<and> trim_space (snd x) \<noteq> [] then insert x else id)
      {p \<in> set pairs. trim_space (fst p) = k \<and> trim_space (snd p) \<noteq> []}" by auto
  with snoc show ?case
    using holders_snoc [of pairs "fst x" "snd x" k] by (auto simp: image_insert)
qed

definition precedes :: "(string \<times> 64 word) list \<Rightarrow> string \<Rightarrow> string \<Rightarrow> bool" where
  "precedes ranks s s' \<longleftrightarrow> rank_of ranks s < rank_of ranks s' \<or> (rank_of ranks s = rank_of ranks s' \<and> s \<le> s')"

lemma precedes_refl [simp]: "precedes ranks s s"
  by (simp add: precedes_def)

lemma precedes_trans: "precedes ranks a b \<Longrightarrow> precedes ranks b c \<Longrightarrow> precedes ranks a c"
  by (auto simp: precedes_def)

lemma precedes_antisym: "precedes ranks a b \<Longrightarrow> precedes ranks b a \<Longrightarrow> a = b"
  by (auto simp: precedes_def)

lemma better_owner_precedes:
  "o' \<noteq> [] \<Longrightarrow> better_owner ranks o' s \<in> {o', s} \<and> precedes ranks (better_owner ranks o' s) o' \<and> precedes ranks (better_owner ranks o' s) s"
  by (auto simp: better_owner_def precedes_def)

lemma fold_owner:
  assumes "o' \<noteq> []" and "[] \<notin> set ss"
  shows "foldl (better_owner ranks) o' ss \<in> insert o' (set ss) \<and> foldl (better_owner ranks) o' ss \<noteq> [] \<and>
    (\<forall>s\<in>insert o' (set ss). precedes ranks (foldl (better_owner ranks) o' ss) s)"
  using assms
proof (induction ss arbitrary: o')
  case (Cons s ss)
  let ?o = "better_owner ranks o' s"
  have o: "?o \<in> {o', s}" "precedes ranks ?o o'" "precedes ranks ?o s" using better_owner_precedes [OF Cons.prems(1)] by auto
  then have "?o \<noteq> []" using Cons.prems by auto
  from Cons.IH [OF this] Cons.prems(2) o show ?case
    by (auto intro: precedes_trans)
qed simp

lemma keys_upsert:
  "set (map fst (upsert fst (\<lambda>x. x) (\<lambda>(k, old) (_, new). (k, f old new)) (i, v) m)) = insert i (set (map fst m))"
  by (induction m) auto

lemma distinct_keys_upsert:
  "distinct (map fst m) \<Longrightarrow> distinct (map fst (upsert fst (\<lambda>x. x) (\<lambda>(k, old) (_, new). (k, f old new)) (i, v) m))"
proof (induction m)
  case (Cons y ys)
  then show ?case using keys_upsert [of f i v ys] by (auto split: prod.splits)
qed simp

lemma distinct_occurrences: "distinct (map fst (occurrences pairs))"
  unfolding occurrences_def
proof (induction pairs rule: rev_induct)
  case (snoc x xs)
  then show ?case
    by (cases x) (auto simp: add_occurrence_def Let_def intro!: distinct_keys_upsert simp del: map_map)
qed simp

lemma map_of_owners:
  assumes "distinct (map fst occ)"
  shows "map_of (resolve_claude_accounting_owners occ ranks) k =
    (case map_of occ k of Some ss \<Rightarrow> if length ss \<ge> 2 then Some (foldl (better_owner ranks) [] ss) else None | None \<Rightarrow> None)"
  using assms
proof (induction occ)
  case (Cons x occ)
  obtain i ss where x: "x = (i, ss)" by fastforce
  have "map_of occ i = None" using Cons.prems x by (auto simp: map_of_eq_None_iff)
  with Cons show ?case by (auto simp: x resolve_claude_accounting_owners_def split: option.splits)
qed (simp add: resolve_claude_accounting_owners_def)

lemma owner_of_shared:
  assumes "length (holders pairs k) \<ge> 2"
  shows "owner_of (resolve_claude_accounting_owners (occurrences pairs) ranks) k \<in> set (holders pairs k) \<and>
    owner_of (resolve_claude_accounting_owners (occurrences pairs) ranks) k \<noteq> [] \<and>
    (\<forall>s\<in>set (holders pairs k). precedes ranks (owner_of (resolve_claude_accounting_owners (occurrences pairs) ranks) k) s)"
proof -
  note keys = distinct_occurrences [of pairs]
  obtain s ss where h: "map_of (occurrences pairs) k = Some (s # ss)" "length (s # ss) \<ge> 2"
    using assms by (cases "holders pairs k") (auto simp: holders_def split: option.splits)
  have "[] \<notin> set (holders pairs k)" using holders_spec [of pairs k] by (auto split: if_splits)
  then have ne: "s \<noteq> []" "[] \<notin> set ss" using h by (auto simp: holders_def)
  have "owner_of (resolve_claude_accounting_owners (occurrences pairs) ranks) k = foldl (better_owner ranks) s ss"
    using h map_of_owners [OF keys, of ranks k] by (simp add: owner_of_def better_owner_def)
  then show ?thesis
    using fold_owner [OF ne, of ranks] h by (simp add: holders_def)
qed

section \<open>Turns of forked sessions\<close>

definition holds_turn :: "go_lib \<Rightarrow> string \<Rightarrow> claude_session_usage \<Rightarrow> bool" where
  "holds_turn L k s \<longleftrightarrow> list_ex (\<lambda>turn. hash_string L (ctu_TurnID turn) = k) (csu_Turns s)"

definition accounts_turn :: "go_lib \<Rightarrow> string \<Rightarrow> claude_session_usage \<Rightarrow> bool" where
  "accounts_turn L k s \<longleftrightarrow>
     list_ex (\<lambda>turn. hash_string L (ctu_TurnID turn) = k \<and> \<not> ctu_AccountingInherited turn) (csu_Turns s)"

lemma turn_holders:
  assumes "hash_text L"
  shows "set (holders (turn_pairs L sessions) k) = session_hash L ` {s \<in> set sessions. holds_turn L k s}"
proof -
  have "(\<lambda>p. trim_space (snd p)) ` {p \<in> set (turn_pairs L sessions). trim_space (fst p) = k \<and> trim_space (snd p) \<noteq> []} =
    session_hash L ` {s \<in> set sessions. holds_turn L k s}"
    using assms
    by (force simp: turn_pairs_def holds_turn_def list_ex_iff session_hash_def trim_hash trim_short_hash image_iff)
  moreover have "\<not> holds_turn L [] s" for s
    using trim_hash [OF assms] by (auto simp: holds_turn_def list_ex_iff)
  ultimately show ?thesis using holders_spec [of "turn_pairs L sessions" k] by simp
qed

lemma inherited_iff_not_first:
  assumes "h \<in> set (holders pairs k)"
  shows "inherited_item (resolve_claude_accounting_owners (occurrences pairs) ranks) k h \<longleftrightarrow>
    (\<exists>h'\<in>set (holders pairs k). \<not> precedes ranks h h')"
proof (cases "length (holders pairs k) \<ge> 2")
  case True
  from owner_of_shared [OF this, of ranks] assms show ?thesis
    unfolding inherited_item_def using precedes_antisym by blast
next
  case False
  with assms have "holders pairs k = [h]" by (cases "holders pairs k") (auto simp: Suc_le_eq)
  moreover from this have "owner_of (resolve_claude_accounting_owners (occurrences pairs) ranks) k = []"
    using map_of_owners [OF distinct_occurrences [of pairs], of ranks k] by (auto simp: owner_of_def holders_def split: option.splits)
  ultimately show ?thesis by (simp add: inherited_item_def)
qed

lemma first_exists: "finite H \<Longrightarrow> H \<noteq> {} \<Longrightarrow> \<exists>h\<in>H. \<forall>h'\<in>H. precedes ranks h h'"
proof (induction rule: finite_ne_induct)
  case (insert x F)
  then obtain h where h: "h \<in> F" "\<forall>h'\<in>F. precedes ranks h h'" by blast
  have "precedes ranks h x \<or> precedes ranks x h" by (auto simp: precedes_def)
  with h precedes_trans show ?case by (metis insert_iff precedes_refl)
qed simp

lemma account_session_fields [simp]:
  "csu_SessionID (account_session L store next cutover tw co s) = csu_SessionID s"
  "session_hash L (account_session L store next cutover tw co s) = session_hash L s"
  "csu_Turns (account_session L store next cutover tw co s) = mark_claude_inherited_turns L (session_hash L s) tw (csu_Turns s)"
  by (simp_all add: account_session_def apply_claude_inherited_offsets_def session_hash_def Let_def)

lemma holds_account_session [simp]:
  "holds_turn L k (account_session L store next cutover tw co s) = holds_turn L k s"
  by (simp add: holds_turn_def mark_claude_inherited_turns_def list_ex_iff)

lemma accounts_account_session:
  "accounts_turn L k (account_session L store next cutover tw co s) \<longleftrightarrow>
     holds_turn L k s \<and> \<not> inherited_item tw k (session_hash L s)"
  by (auto simp: accounts_turn_def holds_turn_def mark_claude_inherited_turns_def list_ex_iff)

lemma accounts_turn_iff_first:
  assumes "hash_text L"
    and prep: "prepare_claude_fork_accounting L sessions observedAt hasBaselineSessions store = (accounted, changed)"
    and a: "a \<in> set accounted"
  shows "accounts_turn L k a \<longleftrightarrow> holds_turn L k a \<and>
    (\<forall>b\<in>set accounted. holds_turn L k b \<longrightarrow>
       precedes (fs_SessionRanks (next_fork_store L sessions observedAt store)) (session_hash L a) (session_hash L b))"
proof -
  from prep obtain cutover co where acc: "accounted = map (account_session L store (next_fork_store L sessions observedAt store) cutover
      (resolve_claude_accounting_owners (occurrences (turn_pairs L sessions)) (fs_SessionRanks (next_fork_store L sessions observedAt store))) co) sessions"
    unfolding prepare_claude_fork_accounting_def Let_def by blast
  from a obtain s where s: "s \<in> set sessions" "a = account_session L store (next_fork_store L sessions observedAt store) cutover
      (resolve_claude_accounting_owners (occurrences (turn_pairs L sessions)) (fs_SessionRanks (next_fork_store L sessions observedAt store))) co s"
    unfolding acc by auto
  show ?thesis
  proof (cases "holds_turn L k s")
    case True
    then have "session_hash L s \<in> set (holders (turn_pairs L sessions) k)"
      using s turn_holders [OF assms(1), of sessions k] by auto
    from inherited_iff_not_first [OF this] show ?thesis
      using turn_holders [OF assms(1), of sessions k]
      by (auto simp: s(2) acc accounts_account_session True)
  qed (simp add: s(2) accounts_account_session)
qed

text \<open>
  C23: A turn that the transcripts of several forked sessions hold is counted in exactly one of
  them, the one that was ranked first.
\<close>

theorem forked_turn_accounted_once:
  assumes "hash_text L"
    and "prepare_claude_fork_accounting L sessions observedAt hasBaselineSessions store = (accounted, changed)"
    and "distinct (map (session_hash L) sessions)"
    and "list_ex (holds_turn L k) sessions"
  shows "(\<exists>!a. a \<in> set accounted \<and> accounts_turn L k a) \<and>
    (\<forall>a\<in>set accounted. \<forall>b\<in>set accounted. accounts_turn L k a \<longrightarrow> holds_turn L k b \<longrightarrow>
       precedes (fs_SessionRanks (next_fork_store L sessions observedAt store)) (session_hash L a) (session_hash L b))"
proof -
  let ?ranks = "fs_SessionRanks (next_fork_store L sessions observedAt store)"
  note first = accounts_turn_iff_first [OF assms(1,2)]
  from assms(2) obtain f where acc: "accounted = map f sessions"
    and f: "\<And>s. session_hash L (f s) = session_hash L s" "\<And>s. holds_turn L k (f s) = holds_turn L k s"
    unfolding prepare_claude_fork_accounting_def Let_def
    by (metis (no_types, lifting) account_session_fields(2) holds_account_session prod.inject)
  have dist: "distinct (map (session_hash L) accounted)" using assms(3) f by (simp add: acc comp_def)
  let ?H = "session_hash L ` {a \<in> set accounted. holds_turn L k a}"
  have "?H \<noteq> {}" using assms(4) f by (auto simp: acc list_ex_iff)
  then obtain a where a: "a \<in> set accounted" "holds_turn L k a" "\<forall>h\<in>?H. precedes ?ranks (session_hash L a) h"
    using first_exists [of ?H ?ranks] by auto
  have "accounts_turn L k a" using first [OF a(1)] a by auto
  moreover have "b = a" if "b \<in> set accounted" "accounts_turn L k b" for b
  proof -
    have "session_hash L b = session_hash L a"
      using first [OF that(1)] that a precedes_antisym by blast
    with dist that(1) a(1) show ?thesis by (metis (no_types, lifting) distinct_map inj_onD)
  qed
  ultimately show ?thesis using a(1) first by blast
qed

section \<open>Ranks over time\<close>

text \<open>No rank was given that is greater than the last one.\<close>

definition ranks_ok :: "fork_store \<Rightarrow> bool" where
  "ranks_ok store \<longleftrightarrow> list_all (\<lambda>(_, r). r \<le> fs_NextSessionRank store) (fs_SessionRanks store)"

lemma set_smap_put: "set (smap_put k v m) \<subseteq> insert (k, v) (set m)"
  by (induction k v m rule: smap_put.induct) auto

lemma rank_le: "ranks_ok store \<Longrightarrow> map_of (fs_SessionRanks store) k = Some r \<Longrightarrow> r \<le> fs_NextSessionRank store"
  by (auto simp: ranks_ok_def list_all_iff dest: map_of_SomeD)

lemma unat_next_rank: "unat (x :: 64 word) + Suc n < 2 ^ 64 \<Longrightarrow> unat (x + 1) = Suc (unat x)"
  by (simp add: unat_word_ariths)

lemma assign_rank_ok:
  assumes "ranks_ok store" "unat (fs_NextSessionRank store) + Suc n < 2 ^ 64"
  shows "ranks_ok (assign_rank store i) \<and> fs_NextSessionRank store < fs_NextSessionRank (assign_rank store i)"
proof -
  have "fs_NextSessionRank store < fs_NextSessionRank store + 1"
    using unat_next_rank [OF assms(2)] by (simp add: word_less_nat_alt)
  then show ?thesis
    using assms(1) set_smap_put [of i "fs_NextSessionRank store + 1" "fs_SessionRanks store"]
    by (fastforce simp: ranks_ok_def assign_rank_def list_all_iff)
qed

lemma assign_ranks:
  assumes "ranks_ok store" "unat (fs_NextSessionRank store) + length ids < 2 ^ 64"
  shows "ranks_ok (foldl assign_rank store ids) \<and>
    fs_NextSessionRank store \<le> fs_NextSessionRank (foldl assign_rank store ids) \<and>
    (\<forall>i. if i \<in> set ids
         then (\<exists>r. map_of (fs_SessionRanks (foldl assign_rank store ids)) i = Some r \<and> fs_NextSessionRank store < r)
         else map_of (fs_SessionRanks (foldl assign_rank store ids)) i = map_of (fs_SessionRanks store) i)"
  using assms
proof (induction ids arbitrary: store)
  case (Cons i ids)
  from Cons.prems(2) have bound: "unat (fs_NextSessionRank store) + Suc (length ids) < 2 ^ 64" by simp
  from assign_rank_ok [OF Cons.prems(1) bound]
  have ok: "ranks_ok (assign_rank store i)" "fs_NextSessionRank store < fs_NextSessionRank (assign_rank store i)" by auto
  have "unat (fs_NextSessionRank (assign_rank store i)) + length ids < 2 ^ 64"
    using bound unat_next_rank [OF bound] by (simp add: assign_rank_def)
  note IH = Cons.IH [OF ok(1) this]
  have put: "map_of (fs_SessionRanks (assign_rank store i)) = (map_of (fs_SessionRanks store))(i \<mapsto> fs_NextSessionRank (assign_rank store i))"
    by (simp add: assign_rank_def)
  from IH ok show ?case
    by (simp only: foldl_Cons put) (auto simp: fun_upd_apply split: if_splits intro: less_le_trans order.strict_trans)
qed simp

lemma next_fork_store_ranks:
  assumes "ranks_ok store" "unat (fs_NextSessionRank store) + length sessions < 2 ^ 64"
  shows "ranks_ok (next_fork_store L sessions observedAt store)"
    and "map_of (fs_SessionRanks store) i = Some r \<Longrightarrow>
      map_of (fs_SessionRanks (next_fork_store L sessions observedAt store)) i = Some r"
    and "map_of (fs_SessionRanks store) i = None \<Longrightarrow> i \<in> session_hash L ` set sessions \<Longrightarrow>
      \<exists>r. map_of (fs_SessionRanks (next_fork_store L sessions observedAt store)) i = Some r \<and> fs_NextSessionRank store < r"
proof -
  let ?s0 = "store\<lparr>fs_Version := claude_fork_accounting_schema,
    fs_InitializedAt := (if fs_InitializedAt store = [] then format_rfc3339 L observedAt else fs_InitializedAt store),
    fs_ActiveSessions := []\<rparr>"
  let ?ids = "sort (filter (\<lambda>i. map_of (fs_SessionRanks store) i = None) (map (session_hash L) sessions))"
  have ok: "ranks_ok ?s0" using assms(1) by (simp add: ranks_ok_def)
  have len: "unat (fs_NextSessionRank ?s0) + length ?ids < 2 ^ 64"
    using assms(2) by (simp add: order.strict_trans1 [OF add_left_mono [OF length_filter_le]])
  have nx: "fs_SessionRanks (next_fork_store L sessions observedAt store) = fs_SessionRanks (foldl assign_rank ?s0 ?ids)"
    "fs_NextSessionRank (next_fork_store L sessions observedAt store) = fs_NextSessionRank (foldl assign_rank ?s0 ?ids)"
    by (simp_all add: next_fork_store_def assign_claude_session_ranks_def Let_def)
  have same: "fs_SessionRanks ?s0 = fs_SessionRanks store" "fs_NextSessionRank ?s0 = fs_NextSessionRank store" by simp_all
  note all = assign_ranks [OF ok len, unfolded same]
  have each: "if i \<in> set ?ids
    then \<exists>r. map_of (fs_SessionRanks (next_fork_store L sessions observedAt store)) i = Some r \<and> fs_NextSessionRank store < r
    else map_of (fs_SessionRanks (next_fork_store L sessions observedAt store)) i = map_of (fs_SessionRanks store) i" for i
    using all unfolding nx by blast
  show "ranks_ok (next_fork_store L sessions observedAt store)"
    using all by (simp add: ranks_ok_def nx)
  show "map_of (fs_SessionRanks (next_fork_store L sessions observedAt store)) i = Some r"
    if "map_of (fs_SessionRanks store) i = Some r"
    using each [of i] that by simp
  show "\<exists>r. map_of (fs_SessionRanks (next_fork_store L sessions observedAt store)) i = Some r \<and> fs_NextSessionRank store < r"
    if "map_of (fs_SessionRanks store) i = None" "i \<in> session_hash L ` set sessions"
    using each [of i] that by simp
qed

text \<open>
  A turn of a session that an earlier collection ranked is never counted in a session met
  for the first time, such as a fork of it, and the ranks stay in order.
\<close>

theorem known_session_keeps_turns:
  assumes "hash_text L"
    and "prepare_claude_fork_accounting L sessions observedAt hasBaselineSessions store = (accounted, changed)"
    and "ranks_ok store" and "unat (fs_NextSessionRank store) + length sessions < 2 ^ 64"
    and "a \<in> set accounted" and "map_of (fs_SessionRanks store) (session_hash L a) \<noteq> None" and "holds_turn L k a"
    and "b \<in> set accounted" and "map_of (fs_SessionRanks store) (session_hash L b) = None"
  shows "\<not> accounts_turn L k b \<and> ranks_ok (next_fork_store L sessions observedAt store)"
proof -
  let ?next = "next_fork_store L sessions observedAt store"
  note ranks = next_fork_store_ranks [OF assms(3,4), where L = L and observedAt = observedAt]
  from assms(6) obtain r where r: "map_of (fs_SessionRanks store) (session_hash L a) = Some r" by blast
  have "session_hash L b \<in> session_hash L ` set sessions"
    using assms(2,8) by (auto simp: prepare_claude_fork_accounting_def Let_def)
  from ranks(3) [OF assms(9) this] obtain q where
    q: "map_of (fs_SessionRanks ?next) (session_hash L b) = Some q" "fs_NextSessionRank store < q" by blast
  have "r < q" using rank_le [OF assms(3) r] q(2) by simp
  then have "\<not> precedes (fs_SessionRanks ?next) (session_hash L b) (session_hash L a)"
    using q(1) ranks(2) [OF r] by (auto simp: precedes_def rank_of_def)
  with accounts_turn_iff_first [OF assms(1,2,8), of k] assms(5,7) ranks(1) show ?thesis by blast
qed

section \<open>Witnesses\<close>

definition sample_turn :: "string \<Rightarrow> claude_turn_usage" where
  "sample_turn i =
     \<lparr>ctu_TurnID = i, ctu_Status = ''completed'', ctu_StartedAt = 5, ctu_EndedAt = 6, ctu_Model = ''m'',
      ctu_Usage = no_usage, ctu_Evidence = [], ctu_AccountingInherited = False\<rparr>"

definition sample_fork :: "string \<Rightarrow> string list \<Rightarrow> claude_session_usage" where
  "sample_fork i turns = new_session_usage\<lparr>csu_SessionID := i, csu_Turns := map sample_turn turns\<rparr>"

definition sample_forks :: "claude_session_usage list" where
  "sample_forks = [sample_fork ''a'' [''T'', ''U''], sample_fork ''b'' [''T'']]"

definition sample_fork_store :: fork_store where
  "sample_fork_store = new_fork_store\<lparr>fs_NextSessionRank := 1, fs_SessionRanks := [(short_hash lib0 ''b'', 1)]\<rparr>"

theorem forked_turn_accounted_once_witness:
  "\<exists>!a. a \<in> set (fst (prepare_claude_fork_accounting lib0 sample_forks 9 False sample_fork_store)) \<and>
     accounts_turn lib0 (hash_string lib0 ''T'') a"
proof -
  have "distinct (map (session_hash lib0) sample_forks)"
    "list_ex (holds_turn lib0 (hash_string lib0 ''T'')) sample_forks" by code_simp+
  from forked_turn_accounted_once [OF hash_text_lib0 prod.collapse [symmetric] this] show ?thesis by blast
qed

theorem known_session_keeps_turns_witness:
  "let a = fst (prepare_claude_fork_accounting lib0 sample_forks 9 False sample_fork_store) ! 0
   in csu_SessionID a = ''a'' \<and> \<not> accounts_turn lib0 (hash_string lib0 ''T'') a"
proof -
  let ?acc = "fst (prepare_claude_fork_accounting lib0 sample_forks 9 False sample_fork_store)"
  have len: "length ?acc = 2" by (simp add: prepare_claude_fork_accounting_def Let_def sample_forks_def)
  have mem: "?acc ! 1 \<in> set ?acc" "?acc ! 0 \<in> set ?acc" using len by (auto intro: nth_mem)
  have "ranks_ok sample_fork_store" by code_simp
  moreover have "unat (fs_NextSessionRank sample_fork_store) + length sample_forks < 2 ^ 64"
    by (simp add: sample_fork_store_def sample_forks_def)
  moreover have "map_of (fs_SessionRanks sample_fork_store) (session_hash lib0 (?acc ! 1)) \<noteq> None"
    "holds_turn lib0 (hash_string lib0 ''T'') (?acc ! 1)"
    "map_of (fs_SessionRanks sample_fork_store) (session_hash lib0 (?acc ! 0)) = None"
    "csu_SessionID (?acc ! 0) = ''a''"
    by code_simp+
  ultimately show ?thesis
    using known_session_keeps_turns [OF hash_text_lib0 prod.collapse [symmetric] _ _ mem(1) _ _ mem(2)] by metis
qed

end
