(* ===== verification/Claude_Payload.thy ===== *)
theory Claude_Payload
  imports Claude_Fork
begin

text \<open>
  \<open>pkg/daemon/claude_payload.go\<close>, \<open>claude_mcp_events.go\<close> and the constructors of events of
  \<open>collect.go\<close>: what is reported of a Claude Code session, as usage summaries by model and day,
  one index entry and one event for each MCP call. \<open>fresh n\<close> is the identifier and the time
  that \<open>baseEvent\<close> gives to the \<open>n\<close>th event of a collection.
\<close>

section \<open>Events\<close>

type_synonym fresh = "nat \<Rightarrow> string \<times> time"

definition fresh_event :: "config \<Rightarrow> fresh \<Rightarrow> nat \<Rightarrow> string \<Rightarrow> string \<Rightarrow> string \<Rightarrow> payload \<Rightarrow> event" where
  "fresh_event cfg fresh n eventType source agentType p =
     base_event cfg (fst (fresh n)) (snd (fresh n)) eventType source agentType p"

text \<open>The JSON of a payload has its keys in order; a payload without JSON keeps its fresh identifier.\<close>

definition snapshot_event ::
  "go_lib \<Rightarrow> config \<Rightarrow> fresh \<Rightarrow> nat \<Rightarrow> string \<Rightarrow> string \<Rightarrow> string \<Rightarrow> (string \<times> gval) list \<Rightarrow> event" where
  "snapshot_event L cfg fresh n eventType source agentType p =
     (let ev = fresh_event cfg fresh n eventType source agentType (map_of p) in
      case json_value L (GMap (sort_key fst p)) of
        None \<Rightarrow> ev
      | Some payloadJSON \<Rightarrow>
          ev\<lparr>EventID := ''evt_snapshot_'' @ hash_string L
               (join [cfg_DaemonID cfg, eventType, source, agentType, payloadJSON] nul_byte)\<rparr>)"

section \<open>Payloads\<close>

definition claude_code :: string where "claude_code = ''claude_code''"

definition claude_token_accounting :: string where
  "claude_token_accounting = ''claude_code_by_model_day_fork_dedup_v2''"

definition claude_repo_hash :: "go_lib \<Rightarrow> string \<Rightarrow> string" where
  "claude_repo_hash L cwd0 = (let cwd = trim_space cwd0 in if cwd = [] then [] else short_hash L cwd)"

definition put_string :: "string \<Rightarrow> string \<Rightarrow> (string \<times> gval) list" where
  "put_string k v = (if v \<noteq> [] then [(k, GString v)] else [])"

definition claude_usage_summary_payload :: "go_lib \<Rightarrow> claude_session_usage \<Rightarrow> model_day \<Rightarrow> claude_usage \<Rightarrow> payload" where
  "claude_usage_summary_payload L s key u =
     (let sessionHash = short_hash L (csu_SessionID s);
          bucketSessionID = short_hash L (join [csu_SessionID s, fst key, snd key] nul_byte)
      in map_of (
        [(''agent_type'', GString claude_code), (''metadata_only'', GBool True),
         (''session_id'', GString bucketSessionID), (''session_id_hash'', GString bucketSessionID),
         (''session_id_is_hashed'', GBool True), (''parent_session_id'', GString sessionHash),
         (''index_session_id'', GString sessionHash), (''model'', GString (fst key)), (''usage_day'', GString (snd key)),
         (''total_tokens'', GInt64 (usage_total u)), (''tokens_used'', GInt64 (usage_total u)),
         (''input_tokens'', GInt64 (cu_InputTokens u)), (''output_tokens'', GInt64 (cu_OutputTokens u)),
         (''cached_input_tokens'', GInt64 (cu_CacheReadTokens u)),
         (''cache_creation_tokens'', GInt64 (cu_CacheCreationTokens u)),
         (''token_accounting'', GString claude_token_accounting)]
        @ (if csu_AccountingSeedOnly s then [(internal_accounting_cutover_key, GBool True)] else [])
        @ put_string ''repo_path_hash'' (claude_repo_hash L (csu_CWD s))
        @ put_string ''git_branch'' (csu_GitBranch s)
        @ put_string ''title'' (csu_Title s)))"

text \<open>Buckets by day, then model.\<close>

definition sorted_claude_model_day_keys :: "(model_day \<times> claude_usage) list \<Rightarrow> (model_day \<times> claude_usage) list" where
  "sorted_claude_model_day_keys m = sort_key (\<lambda>(k, _). (snd k, fst k)) m"

definition json_text :: "go_lib \<Rightarrow> gval \<Rightarrow> string" where
  "json_text L v = (case json_value L v of Some t \<Rightarrow> t | None \<Rightarrow> [])"

definition claude_session_fingerprint :: "go_lib \<Rightarrow> claude_session_usage \<Rightarrow> string" where
  "claude_session_fingerprint L s =
     join ([csu_SessionID s, format_rfc3339 L (csu_LastEventAt s)]
       @ map (\<lambda>(k, u). snd k @ ''|'' @ fst k @ ''|'' @ string_int (usage_total u)) (sorted_claude_model_day_keys (csu_ByModelDay s))
       @ map (\<lambda>c. join [''mcp'', mtc_Timestamp c, mtc_Name c, short_hash L (mtc_CallID c)] ''|'') (csu_MCPToolCalls s)
       @ (if csu_Messages s \<noteq> [] then [json_text L (GMaps (csu_Messages s))] else [])) nul_byte"

definition claude_session_index_payload :: "go_lib \<Rightarrow> claude_session_usage \<Rightarrow> payload" where
  "claude_session_index_payload L s =
     (let sessionHash = short_hash L (csu_SessionID s);
          primaryModel = (case csu_Models s of [] \<Rightarrow> [] | m # _ \<Rightarrow> m);
          tot = usage_total (csu_Total s);
          stamp = (\<lambda>keys t. if is_zero t then [] else map (\<lambda>k. (k, GString (format_rfc3339 L t))) keys)
      in map_of (
        [(''agent_type'', GString claude_code), (''metadata_only'', GBool False),
         (''session_id'', GString sessionHash), (''session_id_hash'', GString sessionHash),
         (''session_id_is_hashed'', GBool True), (''model'', GString primaryModel), (''models'', GStrings (csu_Models s)),
         (''event_count'', GInt (csu_AssistantEvents s)), (''total_tokens'', GInt64 tot), (''tokens_used'', GInt64 tot),
         (''input_tokens'', GInt64 (cu_InputTokens (csu_Total s))), (''output_tokens'', GInt64 (cu_OutputTokens (csu_Total s))),
         (''cached_input_tokens'', GInt64 (cu_CacheReadTokens (csu_Total s))),
         (''cache_creation_tokens'', GInt64 (cu_CacheCreationTokens (csu_Total s))),
         (''transcript_source'', GString ''claude_code_transcript_jsonl'')]
        @ put_string ''repo_path_hash'' (claude_repo_hash L (csu_CWD s))
        @ put_string ''git_branch'' (csu_GitBranch s)
        @ stamp [''first_event_at''] (csu_FirstEventAt s)
        @ stamp [''last_event_at'', ''updated_at''] (csu_LastEventAt s)
        @ put_string ''title'' (csu_Title s)
        @ (if csu_Messages s \<noteq> []
           then [(''messages'', GMaps (csu_Messages s)), (''message_count'', GInt (int (length (csu_Messages s)))),
                 (''transcript_truncated'', GBool (csu_TranscriptTruncated s)),
                 (''transcript_max_messages'', GInt (int codex_max_transcript_messages)),
                 (''transcript_max_message_bytes'', GInt codex_max_transcript_message_bytes),
                 (''transcript_max_total_text_bytes'', GInt codex_max_transcript_total_bytes)]
           else if csu_Title s \<noteq> []
           then [(''messages'', GMaps [[(''role'', GString ''user''), (''text'', GString (csu_Title s))]]),
                 (''message_count'', GInt 1), (''transcript_truncated'', GBool False)]
           else [])
        @ [(''transcript_hash'', GString (hash_string L (claude_session_fingerprint L s)))]))"

section \<open>MCP calls\<close>

definition claude_mcp_tool_call_event_id :: "go_lib \<Rightarrow> string \<Rightarrow> transcript_tool_call \<Rightarrow> string" where
  "claude_mcp_tool_call_event_id L sessionID c =
     ''evt_'' @ short_hash L (join
       ([''claude_code.tool.call'', sessionID]
        @ (if trim_space (mtc_CallID c) \<noteq> [] then [''call_id'', short_hash L (trim_space (mtc_CallID c))]
           else [''metadata'', mtc_Timestamp c, mtc_Name c, mtc_MCPServer c, mtc_MCPTool c, string_int (int (mtc_BlockIndex c))]))
       nul_byte)"

definition claude_mcp_tool_call_payload ::
  "go_lib \<Rightarrow> claude_session_usage \<Rightarrow> transcript_tool_call \<Rightarrow> time \<Rightarrow> string \<Rightarrow> string \<Rightarrow> payload" where
  "claude_mcp_tool_call_payload L s c observedAt serverID serverName =
     (let sessionID = short_hash L (csu_SessionID s);
          tool = trim_space (mtc_MCPTool c);
          name = (if trim_space (mtc_Name c) = [] then ''mcp__'' @ serverID @ ''__'' @ tool else trim_space (mtc_Name c))
      in map_of (
        [(''agent_type'', GString claude_code), (''metadata_only'', GBool True), (''tool_name'', GString name),
         (''tool_type'', GString ''mcp''), (''mcp_server_id'', GString serverID), (''mcp_tool'', GString tool),
         (''session_id'', GString sessionID), (''session_id_hash'', GString sessionID),
         (''session_id_is_hashed'', GBool True), (''observed_at'', GString (format_rfc3339 L observedAt))]
        @ (if csu_AccountingSeedOnly s \<or> mtc_AccountingInherited c then [(internal_fork_inherited_key, GBool True)] else [])
        @ put_string ''mcp_server_name'' serverName
        @ (if trim_space (mtc_CallID c) \<noteq> []
           then [(''call_id_hash'', GString (short_hash L (trim_space (mtc_CallID c))))] else [])))"

definition claude_mcp_tool_call_event ::
  "go_lib \<Rightarrow> config \<Rightarrow> (string \<times> time) \<Rightarrow> claude_session_usage \<Rightarrow> transcript_tool_call \<Rightarrow> event option" where
  "claude_mcp_tool_call_event L cfg fresh s c =
     (let (serverID, serverName) = server_identity L (mtc_MCPServer c) in
      case parse_claude_timestamp L (mtc_Timestamp c) of
        None \<Rightarrow> None
      | Some observedAt \<Rightarrow>
          if serverID = [] \<or> trim_space (mtc_MCPTool c) = [] then None
          else Some ((base_event cfg (fst fresh) (snd fresh) ''tool.call'' claude_code claude_code
                       (claude_mcp_tool_call_payload L s c observedAt serverID serverName))
                 \<lparr>CreatedAt := observedAt,
                  EventID := claude_mcp_tool_call_event_id L (short_hash L (csu_SessionID s)) c\<rparr>))"

definition claude_mcp_tool_call_events :: "go_lib \<Rightarrow> config \<Rightarrow> (string \<times> time) \<Rightarrow> claude_session_usage \<Rightarrow> event list" where
  "claude_mcp_tool_call_events L cfg fresh s =
     (if trim_space (csu_SessionID s) = [] then []
      else List.map_filter (claude_mcp_tool_call_event L cfg fresh s) (csu_MCPToolCalls s))"

end
