(* ===== verification/Claude_Collect.thy ===== *)
theory Claude_Collect
  imports Claude_Payload Turn_Claude
begin

text \<open>
  \<open>pkg/daemon/claude.go\<close> and \<open>claude_collect.go\<close>: one collection of Claude Code. The sessions go
  through the fork accounting, the collection of turns and the session baseline; what comes out
  are the events to queue and the commits to run once they are queued, in their order. A store
  that could not be read is the left side of a sum, with the text of the error.
\<close>

section \<open>Reading the transcripts\<close>

definition merged_claude_sessions ::
  "go_lib \<Rightarrow> (string \<Rightarrow> claude_record option) \<Rightarrow> string list \<Rightarrow> claude_session_usage list" where
  "merged_claude_sessions L decode contents =
     sort_key csu_SessionID (merge_claude_sessions_by_id L (List.map_filter (parse_claude_transcript L decode) contents))"

section \<open>Turns\<close>

definition claude_turn_of :: "go_lib \<Rightarrow> claude_session_usage \<Rightarrow> claude_turn_usage \<Rightarrow> claude_turn" where
  "claude_turn_of L s t =
     \<lparr>ct_TurnID = ctu_TurnID t, ct_Status = ctu_Status t, ct_StartedAt = ctu_StartedAt t, ct_EndedAt = ctu_EndedAt t,
      ct_Model = ctu_Model t, ct_Repo = claude_repo_hash L (csu_CWD s),
      ct_Tokens = \<lparr>tt_Input = cu_InputTokens (ctu_Usage t), tt_Output = cu_OutputTokens (ctu_Usage t),
                   tt_CacheRead = cu_CacheReadTokens (ctu_Usage t), tt_CacheWrite = cu_CacheCreationTokens (ctu_Usage t)\<rparr>,
      ct_Evidence = ctu_Evidence t, ct_ModelProvider = ''anthropic'', ct_Inherited = ctu_AccountingInherited t\<rparr>"

definition claude_turn_sessions :: "go_lib \<Rightarrow> claude_session_usage list \<Rightarrow> claude_session list" where
  "claude_turn_sessions L sessions =
     map (\<lambda>s. \<lparr>cls_SessionIDHash = short_hash L (csu_SessionID s), cls_FirstEventAt = csu_AccountingFirstEventAt s,
               cls_SeedOnly = csu_AccountingSeedOnly s, cls_Turns = map (claude_turn_of L s) (csu_Turns s)\<rparr>) sessions"

definition turn_event :: "go_lib \<Rightarrow> config \<Rightarrow> fresh \<Rightarrow> string \<Rightarrow> nat \<Rightarrow> turn_usage \<Rightarrow> event" where
  "turn_event L cfg fresh source n u =
     (fresh_event cfg fresh n turn_event_type source source (turn_usage_payload L u))
       \<lparr>EventID := tu_EventID u, CreatedAt := tu_EndedAt u\<rparr>"

section \<open>The baseline\<close>

definition transcript_chunk_event :: string where "transcript_chunk_event = ''session.transcript.chunk''"

definition raw_usage :: "go_lib \<Rightarrow> claude_session_usage list \<Rightarrow> payload list" where
  "raw_usage L sessions =
     concat (map (\<lambda>s. map (\<lambda>(k, u). claude_usage_summary_payload L s k u) (sorted_claude_model_day_keys (csu_ByModelDay s))) sessions)"

definition raw_mcp_events :: "go_lib \<Rightarrow> config \<Rightarrow> (string \<times> time) \<Rightarrow> claude_session_usage list \<Rightarrow> event list" where
  "raw_mcp_events L cfg fresh sessions = concat (map (claude_mcp_tool_call_events L cfg fresh) sessions)"

definition collect_claude_events_from_sessions ::
  "go_lib \<Rightarrow> config \<Rightarrow> (string \<times> time) \<Rightarrow> string + baseline_store \<Rightarrow> claude_session_usage list \<Rightarrow> time \<Rightarrow> string + claude_filter_result" where
  "collect_claude_events_from_sessions L cfg fresh loaded sessions observedAt =
     filter_claude_session_baseline L cfg (snd fresh) loaded (raw_usage L sessions)
       (map (claude_session_index_payload L) sessions) (raw_mcp_events L cfg fresh sessions) observedAt"

text \<open>The counters that \<open>filterClaudeSessionBaseline\<close> reports about a collection.\<close>

definition count_value :: "'a set \<Rightarrow> gval" where
  "count_value S = GInt (int (card S))"

definition claude_baseline_meta ::
  "go_lib \<Rightarrow> config \<Rightarrow> time \<Rightarrow> claude_baseline \<Rightarrow> payload list \<Rightarrow> payload list \<Rightarrow> event list \<Rightarrow> time \<Rightarrow> (string \<times> gval) list" where
  "claude_baseline_meta L cfg now baseline usageEvents sessionEvents mcpEvents observedAt =
     (let initial = (cl_InitializedAt baseline = []);
          (filtered, updates1, ignored) = filter_claude_usage_baseline baseline usageEvents;
          (chunks, updates) = filter_claude_session_payloads L (daily_work_location L (cfg_DailyWorkTimezone cfg)) now
             baseline sessionEvents updates1 observedAt;
          baseline1 = (if initial then initialize_claude_usage_baseline L baseline usageEvents sessionEvents observedAt
                       else baseline\<lparr>cl_Sessions := fst (add_baseline_sessions L updates (cl_Sessions baseline))\<rparr>);
          (passed, baseline2, _) = filter_claude_mcp_baseline L baseline1 mcpEvents observedAt
      in [(''session_backfill'', GString ''disabled''), (''session_baseline_enabled'', GBool True),
          (''usage_summary_mode'', GString ''cursor_only''), (''session_baseline_initialized'', GBool initial),
          (''historical_sessions_ignored'',
             if initial then count_value (dom (cl_Sessions baseline1)) else GInt (int (length ignored)))]
         @ (if initial then [] else [(''usage_summary_events_cursor_only'', GInt (int (length filtered)))])
         @ [(''session_baseline_initialized_at'', GString (cl_InitializedAt baseline1)),
            (''session_baseline_ignored_sessions'', count_value (dom (cl_Sessions baseline1))),
            (''mcp_baseline_initialized'', GBool (cl_MCPInitializedAt baseline1 = [])),
            (''mcp_baseline_initialized_at'', GString (cl_MCPInitializedAt baseline2)),
            (if cl_MCPInitializedAt baseline1 = [] then (''historical_mcp_calls_ignored'', GInt (int (length mcpEvents)))
             else (''mcp_tool_call_events'', GInt (int (length passed))))])"

section \<open>One collection\<close>

datatype claude_commit =
    SaveClaudeTurns claude_cursor_store
  | SaveClaudeBaseline claude_baseline
  | SaveForks fork_store

record claude_stores =
  sto_forks :: "string + fork_store"
  sto_turns :: "string + claude_cursor_store"
  sto_baseline :: "string + baseline_store"

text \<open>\<open>prepareClaudeForkAccounting\<close> with the stores it loads: the baseline only for a cutover.\<close>

definition load_claude_fork_accounting ::
  "go_lib \<Rightarrow> claude_stores \<Rightarrow> claude_session_usage list \<Rightarrow> time \<Rightarrow> string + claude_session_usage list \<times> fork_store option" where
  "load_claude_fork_accounting L stores sessions observedAt =
     rbind (sto_forks stores) (\<lambda>store.
     rbind (if fs_Version store = claude_fork_accounting_schema then Inr False
            else rbind (sto_baseline stores) (\<lambda>b. Inr (cl_Sessions (st_ClaudeCode b) \<noteq> Map.empty)))
       (\<lambda>hasBaselineSessions. Inr (prepare_claude_fork_accounting L sessions observedAt hasBaselineSessions store)))"

definition warning_event :: "go_lib \<Rightarrow> config \<Rightarrow> fresh \<Rightarrow> nat \<Rightarrow> string \<Rightarrow> string \<Rightarrow> event" where
  "warning_event L cfg fresh n scope err =
     snapshot_event L cfg fresh n ''adapter.warning'' claude_code claude_code
       [(''scope'', GString scope), (''error'', GString (redact_and_truncate err 2048))]"

definition claude_turn_events ::
  "go_lib \<Rightarrow> config \<Rightarrow> fresh \<Rightarrow> string + claude_cursor_store \<Rightarrow> claude_session_usage list \<Rightarrow> time \<Rightarrow> event list \<times> claude_commit list" where
  "claude_turn_events L cfg fresh loaded sessions observedAt =
     (case loaded of
        Inl err \<Rightarrow> ([warning_event L cfg fresh 0 ''turn_usage'' err], [])
      | Inr store \<Rightarrow>
          (let (usages, commit) = collect_claude L \<lparr>tcf_DaemonID = cfg_DaemonID cfg, tcf_TotalEncoding = cfg_TurnUsageTotal cfg\<rparr>
                 (claude_turn_sessions L sessions) observedAt (snd (fresh 0)) store
           in (map (\<lambda>(n, u). turn_event L cfg fresh claude_code n u) (enumerate 0 usages),
               case commit of None \<Rightarrow> [] | Some next \<Rightarrow> [SaveClaudeTurns next])))"

definition claude_collection_events ::
  "go_lib \<Rightarrow> config \<Rightarrow> fresh \<Rightarrow> nat \<Rightarrow> (string \<times> gval) list \<Rightarrow> claude_filter_result \<Rightarrow> event list" where
  "claude_collection_events L cfg fresh n meta r =
     [snapshot_event L cfg fresh n ''claude_code.usage_summary'' claude_code claude_code meta]
     @ map (\<lambda>(i, p). fresh_event cfg fresh i ''usage.summary'' claude_code claude_code p) (enumerate (n + 1) (lf_UsageEvents r))
     @ map (\<lambda>(i, p). (fresh_event cfg fresh i transcript_chunk_event claude_code claude_code p)
                       \<lparr>EventID := transcript_chunk_event_id p\<rparr>)
         (enumerate (n + 1 + length (lf_UsageEvents r)) (lf_SessionEvents r))
     @ lf_MCPEvents r"

definition claude_events_from_sessions ::
  "go_lib \<Rightarrow> config \<Rightarrow> fresh \<Rightarrow> claude_stores \<Rightarrow> claude_session_usage list \<Rightarrow> time \<Rightarrow> event list \<times> claude_commit list" where
  "claude_events_from_sessions L cfg fresh stores sessions observedAt =
     (case load_claude_fork_accounting L stores sessions observedAt of
        Inl err \<Rightarrow> ([warning_event L cfg fresh 0 ''fork_accounting'' err], [])
      | Inr (accounted, accountingCommit) \<Rightarrow>
          (let (turnEvents, turnCommits) = claude_turn_events L cfg fresh (sto_turns stores) accounted observedAt;
               n = length turnEvents;
               clock = fresh n
           in case collect_claude_events_from_sessions L cfg clock (sto_baseline stores) accounted observedAt of
                Inl err \<Rightarrow> (turnEvents @ [warning_event L cfg fresh n ''session_baseline'' err], turnCommits)
              | Inr r \<Rightarrow>
                  (let meta = (case sto_baseline stores of
                         Inl _ \<Rightarrow> []
                       | Inr b \<Rightarrow> claude_baseline_meta L cfg (snd clock) (st_ClaudeCode b) (raw_usage L accounted)
                                    (map (claude_session_index_payload L) accounted) (raw_mcp_events L cfg clock accounted) observedAt)
                   in (turnEvents @ claude_collection_events L cfg fresh n meta r,
                       turnCommits
                       @ (case lf_Commit r of None \<Rightarrow> [] | Some b \<Rightarrow> [SaveClaudeBaseline b])
                       @ (case (sto_turns stores, accountingCommit) of (Inr _, Some f) \<Rightarrow> [SaveForks f] | _ \<Rightarrow> [])))))"

section \<open>Commits\<close>

text \<open>
  \<open>combineAdapterCommits\<close>: the commits run in their order until one fails; \<open>works n\<close> says whether
  the \<open>n\<close>th write succeeds. The result is what is on disk afterwards and whether all succeeded.
\<close>

fun run_commits :: "('c \<Rightarrow> 's \<Rightarrow> 's) \<Rightarrow> (nat \<Rightarrow> bool) \<Rightarrow> nat \<Rightarrow> 'c list \<Rightarrow> 's \<Rightarrow> 's \<times> bool" where
  "run_commits put works n [] s = (s, True)"
| "run_commits put works n (c # cs) s = (if works n then run_commits put works (Suc n) cs (put c s) else (s, False))"

definition put_claude :: "claude_commit \<Rightarrow> claude_stores \<Rightarrow> claude_stores" where
  "put_claude c s =
     (case c of
        SaveClaudeTurns t \<Rightarrow> s\<lparr>sto_turns := Inr t\<rparr>
      | SaveClaudeBaseline b \<Rightarrow> s\<lparr>sto_baseline := map_sum (\<lambda>e. e) (commit_claude_baseline b) (sto_baseline s)\<rparr>
      | SaveForks f \<Rightarrow> s\<lparr>sto_forks := Inr f\<rparr>)"

end
