(* ===== verification/Claude_Collect_Properties.thy ===== *)
theory Claude_Collect_Properties
  imports Claude_Collect Baseline_Properties
begin

text \<open>
  The cutover to a new version of the fork accounting. Until its last commit is on disk, every
  collection only seeds cursors and baseline: however often the daemon is interrupted between
  its commits, no turn, usage summary or tool call of the history is reported.
\<close>

section \<open>Seeding sessions report nothing\<close>

definition cutover_pending :: "claude_stores \<Rightarrow> bool" where
  "cutover_pending stores \<longleftrightarrow>
     (\<exists>f b. sto_forks stores = Inr f \<and> fs_Version f \<noteq> claude_fork_accounting_schema \<and>
            sto_baseline stores = Inr b \<and> dom (cl_Sessions (st_ClaudeCode b)) \<noteq> {})"

definition seed_only :: "claude_session_usage list \<Rightarrow> bool" where
  "seed_only sessions \<longleftrightarrow> list_all csu_AccountingSeedOnly sessions"

lemma cutover_seeds:
  assumes "cutover_pending stores" and "load_claude_fork_accounting L stores sessions observedAt = Inr (accounted, commit)"
  shows "seed_only accounted"
proof -
  from assms(1) obtain f b where
    "sto_forks stores = Inr f" "fs_Version f \<noteq> claude_fork_accounting_schema" "sto_baseline stores = Inr b"
    "cl_Sessions (st_ClaudeCode b) \<noteq> Map.empty" by (auto simp: cutover_pending_def)
  with assms(2) have "prepare_claude_fork_accounting L sessions observedAt True f = (accounted, commit)"
    "claude_accounting_needs_cutover (fs_Version f) True"
    by (auto simp: load_claude_fork_accounting_def claude_accounting_needs_cutover_def)
  then show ?thesis
    by (auto simp: prepare_claude_fork_accounting_def seed_only_def list_all_iff account_session_def Let_def)
qed

lemma turn_loop_silent: "fst (snd (claude_turn_loop L cfg s False cursor ts)) = []"
  by (induction ts arbitrary: cursor) (auto simp: Let_def case_prod_beta)

lemma collect_loop_silent:
  "list_all cls_SeedOnly ss \<Longrightarrow> fst (snd (collect_claude_loop L cfg first initialized cursors ss)) = []"
  by (induction ss arbitrary: cursors)
     (auto simp: collect_claude_session_def turn_loop_silent Let_def case_prod_beta)

lemma collect_claude_silent:
  assumes "list_all cls_SeedOnly ss"
  shows "fst (collect_claude L cfg ss observedAt now store) = []"
proof -
  have "list_all cls_SeedOnly (sort_key cls_SessionIDHash ss)" using assms by (simp add: list_all_iff)
  from collect_loop_silent [OF this] show ?thesis by (simp add: collect_claude_def Let_def case_prod_beta)
qed

lemma seed_only_turns:
  "seed_only sessions \<Longrightarrow> list_all cls_SeedOnly (claude_turn_sessions L sessions)"
  by (simp add: seed_only_def claude_turn_sessions_def list_all_iff)

lemma summary_cutover:
  "csu_AccountingSeedOnly s \<Longrightarrow> payload_bool (claude_usage_summary_payload L s k u) internal_accounting_cutover_key"
  by (simp add: claude_usage_summary_payload_def payload_bool_def put_string_def baseline_keys Let_def)

lemma usage_filter_cutover:
  "\<forall>p\<in>set ps. payload_bool p internal_accounting_cutover_key \<Longrightarrow> fst (usage_filter (claude_usage_verdict sessions) ps) = []"
  by (induction ps) (auto simp: claude_usage_verdict_def Let_def case_prod_beta)

lemma mcp_call_inherited:
  "csu_AccountingSeedOnly s \<Longrightarrow> claude_mcp_tool_call_event L cfg fresh s c = Some ev \<Longrightarrow>
   payload_bool (Payload ev) internal_fork_inherited_key"
  by (auto simp: claude_mcp_tool_call_event_def claude_mcp_tool_call_payload_def payload_bool_def base_event_def baseline_keys
      Let_def split: prod.splits option.splits if_splits)

lemma mcp_event_inherited:
  "csu_AccountingSeedOnly s \<Longrightarrow> ev \<in> set (claude_mcp_tool_call_events L cfg fresh s) \<Longrightarrow>
   payload_bool (Payload ev) internal_fork_inherited_key"
  by (auto simp: claude_mcp_tool_call_events_def List.map_filter_def intro: mcp_call_inherited split: if_splits option.splits)

lemma mcp_loop_inherited:
  "\<forall>ev\<in>set evs. payload_bool (Payload ev) internal_fork_inherited_key \<Longrightarrow> fst (mcp_filter_loop L bound evs sessions) = []"
  by (induction evs arbitrary: sessions) (auto simp: Let_def case_prod_beta)

lemma collection_silent:
  assumes "seed_only sessions" and "collect_claude_events_from_sessions L cfg fresh loaded sessions observedAt = Inr r"
  shows "lf_UsageEvents r = [] \<and> lf_MCPEvents r = []"
proof -
  have "\<forall>p\<in>set (raw_usage L sessions). payload_bool p internal_accounting_cutover_key"
    using assms(1) by (auto simp: raw_usage_def seed_only_def list_all_iff summary_cutover)
  note usage = usage_filter_cutover [OF this]
  have "\<forall>ev\<in>set (sort_key mcp_order (raw_mcp_events L cfg fresh sessions)). payload_bool (Payload ev) internal_fork_inherited_key"
    using assms(1) by (auto simp: raw_mcp_events_def seed_only_def list_all_iff intro: mcp_event_inherited)
  note mcp = mcp_loop_inherited [OF this]
  have "fst (filter_claude_mcp_baseline L b (raw_mcp_events L cfg fresh sessions) t) = []" for b t
    by (simp add: filter_claude_mcp_baseline_def mcp Let_def case_prod_beta)
  then show ?thesis
    using assms(2) usage
    by (auto simp: collect_claude_events_from_sessions_def filter_claude_session_baseline_def filter_claude_usage_baseline_def
        Let_def case_prod_beta split: if_splits)
qed

section \<open>The baseline keeps its sessions\<close>

lemma dom_add_baseline_session: "dom sessions \<subseteq> dom (fst (add_baseline_session L p sessions))"
  by (auto simp: add_baseline_session_fst)

lemma dom_add_baseline_sessions: "dom sessions \<subseteq> dom (fst (add_baseline_sessions L ps sessions))"
proof (induction ps arbitrary: sessions)
  case (Cons p ps)
  show ?case
    using dom_add_baseline_session [of sessions L p] Cons.IH [of "fst (add_baseline_session L p sessions)"]
    by (auto simp: case_prod_beta)
qed simp

lemma dom_advance: "dom sessions \<subseteq> dom (fst (advance_claude_mcp_cursor L ev sessions))"
  by (auto simp: advance_claude_mcp_cursor_def Let_def)

lemma dom_advance_all: "dom sessions \<subseteq> dom (advance_claude_mcp_cursors L evs sessions)"
proof (induction evs arbitrary: sessions)
  case (Cons ev evs)
  show ?case using dom_advance [of sessions L ev] Cons.IH [of "fst (advance_claude_mcp_cursor L ev sessions)"] by auto
qed simp

lemma dom_mcp_loop: "dom sessions \<subseteq> dom (fst (snd (mcp_filter_loop L bound evs sessions)))"
proof (induction evs arbitrary: sessions)
  case (Cons ev evs)
  show ?case
    using order_trans [OF dom_advance [of sessions L ev] Cons.IH [of "fst (advance_claude_mcp_cursor L ev sessions)"]] Cons.IH [of sessions]
    by (simp add: Let_def case_prod_beta)
qed simp

lemma dom_mcp_filter: "dom (cl_Sessions b) \<subseteq> dom (cl_Sessions (fst (snd (filter_claude_mcp_baseline L b evs t))))"
  using dom_advance_all dom_mcp_loop by (simp add: filter_claude_mcp_baseline_def Let_def case_prod_beta)

lemma commit_keeps_sessions:
  assumes "filter_claude_session_baseline L cfg now (Inr store) us ss evs t = Inr r" and "lf_Commit r = Some b"
  shows "dom (cl_Sessions (st_ClaudeCode store)) \<subseteq> dom (cl_Sessions b)"
proof -
  have "\<exists>b1 observedAt. b = fst (snd (filter_claude_mcp_baseline L b1 evs observedAt)) \<and>
    dom (cl_Sessions (st_ClaudeCode store)) \<subseteq> dom (cl_Sessions b1)"
  proof (cases "cl_InitializedAt (st_ClaudeCode store) = []")
    case True
    let ?b1 = "initialize_claude_usage_baseline L (st_ClaudeCode store) us ss (if is_zero t then now else t)"
    have "b = fst (snd (filter_claude_mcp_baseline L ?b1 evs (if is_zero t then now else t)))"
      using assms True by (auto simp: filter_claude_session_baseline_def Let_def case_prod_beta split: if_splits)
    moreover have "dom (cl_Sessions (st_ClaudeCode store)) \<subseteq> dom (cl_Sessions ?b1)"
      by (simp add: initialize_claude_usage_baseline_def dom_add_baseline_sessions)
    ultimately show ?thesis by blast
  next
    case False
    then obtain ps where "b = fst (snd (filter_claude_mcp_baseline L
        ((st_ClaudeCode store)\<lparr>cl_Sessions := fst (add_baseline_sessions L ps (cl_Sessions (st_ClaudeCode store)))\<rparr>)
        evs (if is_zero t then now else t)))"
      using assms by (auto simp: filter_claude_session_baseline_def Let_def case_prod_beta split: if_splits)
    moreover have "dom (cl_Sessions (st_ClaudeCode store)) \<subseteq> dom (cl_Sessions
        ((st_ClaudeCode store)\<lparr>cl_Sessions := fst (add_baseline_sessions L ps (cl_Sessions (st_ClaudeCode store)))\<rparr>))"
      by (simp add: dom_add_baseline_sessions)
    ultimately show ?thesis by blast
  qed
  then obtain b1 observedAt where b: "b = fst (snd (filter_claude_mcp_baseline L b1 evs observedAt))"
    and "dom (cl_Sessions (st_ClaudeCode store)) \<subseteq> dom (cl_Sessions b1)" by blast
  with dom_mcp_filter [of b1 L evs observedAt] show ?thesis by blast
qed

section \<open>Interrupted collections\<close>

text \<open>
  What is on disk after collections whose commits were interrupted: each ran some of its commits,
  in their order, but not the last one.
\<close>

inductive interrupted :: "go_lib \<Rightarrow> config \<Rightarrow> claude_stores \<Rightarrow> claude_stores \<Rightarrow> bool" for L cfg where
  not_yet: "interrupted L cfg s s"
| once_more: "interrupted L cfg s t \<Longrightarrow>
    run_commits put_claude works 0 (snd (claude_events_from_sessions L cfg fresh t sessions observedAt)) t = (u, False) \<Longrightarrow>
    interrupted L cfg s u"

definition historical_event :: "event \<Rightarrow> bool" where
  "historical_event ev \<longleftrightarrow> EventType ev \<in> {turn_event_type, ''usage.summary'', ''tool.call''}"

lemma run_commits_False:
  "run_commits put works n cs s = (u, False) \<Longrightarrow> \<exists>k < length cs. u = foldl (\<lambda>s c. put c s) s (take k cs)"
proof (induction cs arbitrary: n s)
  case (Cons c cs)
  then show ?case by (auto split: if_splits) (use Suc_less_eq take_Suc_Cons foldl_Cons in fastforce)
qed simp

definition harmless :: "claude_stores \<Rightarrow> claude_commit \<Rightarrow> bool" where
  "harmless s c \<longleftrightarrow>
     (case c of SaveClaudeTurns _ \<Rightarrow> True
      | SaveClaudeBaseline b \<Rightarrow> (\<exists>store. sto_baseline s = Inr store \<and> dom (cl_Sessions (st_ClaudeCode store)) \<subseteq> dom (cl_Sessions b))
      | SaveForks _ \<Rightarrow> False)"

lemma claude_commits_order:
  "\<exists>cs fs. snd (claude_events_from_sessions L cfg fresh s sessions observedAt) = cs @ fs \<and>
     list_all (harmless s) cs \<and> length fs \<le> 1"
proof (cases "load_claude_fork_accounting L s sessions observedAt")
  case (Inl e)
  then have "snd (claude_events_from_sessions L cfg fresh s sessions observedAt) = []"
    by (simp add: claude_events_from_sessions_def)
  then show ?thesis by simp
next
  case (Inr ac)
  obtain accounted commit where ac: "ac = (accounted, commit)" by fastforce
  obtain te tc where te: "claude_turn_events L cfg fresh (sto_turns s) accounted observedAt = (te, tc)" by fastforce
  have tc: "list_all (harmless s) tc"
    using te by (auto simp: claude_turn_events_def harmless_def split: sum.splits prod.splits option.splits)
  show ?thesis
  proof (cases "collect_claude_events_from_sessions L cfg (fresh (length te)) (sto_baseline s) accounted observedAt")
    case (Inl e)
    with Inr ac te have "snd (claude_events_from_sessions L cfg fresh s sessions observedAt) = tc"
      by (simp add: claude_events_from_sessions_def)
    with tc show ?thesis by (intro exI [of _ tc] exI [of _ "[]"]) simp
  next
    case (Inr r)
    let ?b = "case lf_Commit r of None \<Rightarrow> [] | Some b \<Rightarrow> [SaveClaudeBaseline b]"
    let ?f = "case (sto_turns s, commit) of (Inr _, Some f) \<Rightarrow> [SaveForks f] | _ \<Rightarrow> []"
    have "snd (claude_events_from_sessions L cfg fresh s sessions observedAt) = (tc @ ?b) @ ?f"
      using Inr \<open>load_claude_fork_accounting L s sessions observedAt = Inr ac\<close> ac te by (simp add: claude_events_from_sessions_def Let_def)
    moreover have "list_all (harmless s) ?b"
    proof (cases "sto_baseline s")
      case (Inl e)
      then show ?thesis using Inr by (simp add: collect_claude_events_from_sessions_def filter_claude_session_baseline_def)
    next
      case (Inr store)
      have "\<And>b. lf_Commit r = Some b \<Longrightarrow> dom (cl_Sessions (st_ClaudeCode store)) \<subseteq> dom (cl_Sessions b)"
        using commit_keeps_sessions \<open>_ = Inr r\<close> Inr by (auto simp: collect_claude_events_from_sessions_def)
      with Inr show ?thesis by (auto simp: harmless_def split: option.split)
    qed
    moreover have "length ?f \<le> 1" by (auto split: sum.split option.split)
    ultimately show ?thesis using tc by (metis list_all_append)
  qed
qed

lemma harmless_keeps_pending:
  assumes "cutover_pending t" and "harmless s c" and "\<forall>store. sto_baseline s = Inr store \<longrightarrow> dom (cl_Sessions (st_ClaudeCode store)) \<noteq> {}"
  shows "cutover_pending (put_claude c t)"
  using assms
  by (auto simp: cutover_pending_def harmless_def put_claude_def commit_claude_baseline_def normalize_session_baseline_store_def
      split: claude_commit.splits)

lemma harmless_all_keep_pending:
  assumes "cutover_pending t" and "list_all (harmless s) cs" and "cutover_pending s"
  shows "cutover_pending (foldl (\<lambda>s c. put_claude c s) t cs)"
proof -
  have "\<forall>store. sto_baseline s = Inr store \<longrightarrow> dom (cl_Sessions (st_ClaudeCode store)) \<noteq> {}"
    using assms(3) by (auto simp: cutover_pending_def)
  note keep = harmless_keeps_pending [OF _ _ this]
  from assms(1,2) show ?thesis
  proof (induction cs arbitrary: t)
    case (Cons c cs)
    then have "cutover_pending (put_claude c t)" using keep [of t c] by simp
    with Cons show ?case by simp
  qed simp
qed

lemma interruption_keeps_pending:
  assumes "cutover_pending s"
    and "run_commits put_claude works 0 (snd (claude_events_from_sessions L cfg fresh s sessions observedAt)) s = (u, False)"
  shows "cutover_pending u"
proof -
  from claude_commits_order [of L cfg fresh s sessions observedAt] obtain cs fs where
    cs: "snd (claude_events_from_sessions L cfg fresh s sessions observedAt) = cs @ fs" "list_all (harmless s) cs" "length fs \<le> 1" by blast
  from run_commits_False [OF assms(2)] cs obtain k where
    k: "k < length (cs @ fs)" "u = foldl (\<lambda>s c. put_claude c s) s (take k (cs @ fs))" by auto
  then have "take k (cs @ fs) = take k cs" using cs(3) by simp
  moreover have "list_all (harmless s) (take k cs)" using cs(2) by (auto simp: list_all_iff dest: in_set_takeD)
  ultimately show ?thesis using k(2) harmless_all_keep_pending assms(1) by metis
qed

lemma pending_collection_silent:
  assumes "cutover_pending s" and "ev \<in> set (fst (claude_events_from_sessions L cfg fresh s sessions observedAt))"
  shows "\<not> historical_event ev"
proof (cases "load_claude_fork_accounting L s sessions observedAt")
  case (Inl e)
  with assms(2) show ?thesis
    by (auto simp: claude_events_from_sessions_def warning_event_def snapshot_event_def fresh_event_def base_event_def
        historical_event_def turn_event_type_def Let_def split: option.splits)
next
  case (Inr ac)
  obtain accounted commit where ac: "ac = (accounted, commit)" by fastforce
  have seed: "seed_only accounted" using cutover_seeds assms(1) Inr ac by blast
  have snap: "\<not> historical_event (snapshot_event L cfg fresh n ty src ag p)"
    if "ty \<in> {''adapter.warning'', ''claude_code.usage_summary''}" for n ty src ag p
    using that by (auto simp: snapshot_event_def fresh_event_def base_event_def historical_event_def turn_event_type_def
        Let_def split: option.split)
  obtain te tc where te: "claude_turn_events L cfg fresh (sto_turns s) accounted observedAt = (te, tc)" by fastforce
  have turns: "\<forall>e\<in>set te. \<not> historical_event e"
    using te collect_claude_silent [OF seed_only_turns [OF seed]] snap
    by (auto simp: claude_turn_events_def warning_event_def case_prod_beta Let_def split: sum.splits)
  show ?thesis
  proof (cases "collect_claude_events_from_sessions L cfg (fresh (length te)) (sto_baseline s) accounted observedAt")
    case (Inl e)
    with Inr ac te turns assms(2) snap show ?thesis
      by (auto simp: claude_events_from_sessions_def warning_event_def)
  next
    case (Inr r)
    have none: "lf_UsageEvents r = []" "lf_MCPEvents r = []" using collection_silent [OF seed Inr] by auto
    have "\<forall>e\<in>set (claude_collection_events L cfg fresh n meta r). \<not> historical_event e" for n meta
      using none snap by (auto simp: claude_collection_events_def historical_event_def fresh_event_def base_event_def
          turn_event_type_def transcript_chunk_event_def)
    with \<open>load_claude_fork_accounting L s sessions observedAt = Inr ac\<close> Inr ac te turns assms(2) show ?thesis
      by (auto simp: claude_events_from_sessions_def Let_def)
  qed
qed

text \<open>
  C24: Until the last commit of a cutover of the fork accounting is on disk, however often
  collections are interrupted between their commits, no collection reports a turn, a usage
  summary or a tool call, so no history is replayed.
\<close>

theorem interrupted_cutover_reports_nothing:
  assumes "interrupted L cfg s t" and "cutover_pending s"
  shows "cutover_pending t \<and>
    list_all (\<lambda>ev. \<not> historical_event ev) (fst (claude_events_from_sessions L cfg fresh t sessions observedAt))"
proof -
  have "cutover_pending t" using assms by (induction rule: interrupted.induct) (auto intro: interruption_keeps_pending)
  then show ?thesis using pending_collection_silent by (auto simp: list_all_iff)
qed

section \<open>Witness\<close>

definition pending_config :: config where
  "pending_config =
     \<lparr>cfg_ServerURL = [], cfg_ControlURL = [], cfg_DaemonID = ''d'', cfg_APIKey = [], cfg_Token = [], cfg_DeviceID = [],
      cfg_TeamID = [], cfg_HostType = [], cfg_InstallMode = [], cfg_PolicyVersion = [], cfg_DataDir = [],
      cfg_UsageWindow = [], cfg_DailyWorkTimezone = [], cfg_TurnUsageTotal = []\<rparr>"

definition pending_fresh :: fresh where
  "pending_fresh n = (string_int (int n), 9)"

definition pending_stores :: claude_stores where
  "pending_stores =
     \<lparr>sto_forks = Inr new_fork_store, sto_turns = Inr \<lparr>ccs_InitializedAt = ''t'', ccs_Sessions = Map.empty\<rparr>,
      sto_baseline = Inr (new_session_baseline_store\<lparr>st_ClaudeCode :=
        \<lparr>cl_InitializedAt = ''t'', cl_MCPInitializedAt = ''t'', cl_Sessions = [''x'' \<mapsto> empty_session]\<rparr>\<rparr>)\<rparr>"

definition pending_sessions :: "claude_session_usage list" where
  "pending_sessions =
     [new_session_usage\<lparr>csu_SessionID := ''a'', csu_Turns :=
        [\<lparr>ctu_TurnID = ''T'', ctu_Status = ''completed'', ctu_StartedAt = 5, ctu_EndedAt = 6, ctu_Model = ''m'',
          ctu_Usage = \<lparr>cu_InputTokens = 3, cu_OutputTokens = 1, cu_CacheCreationTokens = 0, cu_CacheReadTokens = 0\<rparr>,
          ctu_Evidence = [], ctu_AccountingInherited = False\<rparr>]\<rparr>]"

lemma collect_from_loaded:
  "\<exists>r. collect_claude_events_from_sessions L cfg fresh (Inr store) sessions observedAt = Inr r"
  by (simp add: collect_claude_events_from_sessions_def filter_claude_session_baseline_def Let_def case_prod_beta)

text \<open>A collection interrupted after its first commit, which saved the cursor of the session's turns.\<close>

theorem interrupted_cutover_reports_nothing_witness:
  "\<exists>t. interrupted lib0 pending_config pending_stores t \<and> sto_turns t \<noteq> sto_turns pending_stores \<and>
     list_all (\<lambda>ev. \<not> historical_event ev)
       (fst (claude_events_from_sessions lib0 pending_config pending_fresh t pending_sessions 9))"
proof -
  let ?prep = "prepare_claude_fork_accounting lib0 pending_sessions 9 True new_fork_store"
  let ?turns = "claude_turn_events lib0 pending_config pending_fresh (sto_turns pending_stores) (fst ?prep) 9"
  have load: "load_claude_fork_accounting lib0 pending_stores pending_sessions 9 = Inr ?prep"
    by (simp add: load_claude_fork_accounting_def pending_stores_def new_fork_store_def claude_fork_accounting_schema_def
        fun_eq_iff)
  have "length (snd ?turns) = 1 \<and>
    (case hd (snd ?turns) of SaveClaudeTurns x \<Rightarrow> ccs_Sessions x (short_hash lib0 ''a'') \<noteq> None | _ \<Rightarrow> False)" by code_simp
  then obtain x where x: "snd ?turns = [SaveClaudeTurns x]" "ccs_Sessions x (short_hash lib0 ''a'') \<noteq> None"
    by (cases "hd (snd ?turns)") (auto simp: length_Suc_conv)
  have "snd ?prep \<noteq> None" by code_simp
  then obtain f where f: "snd ?prep = Some f" by blast
  obtain b where b: "sto_baseline pending_stores = Inr b" by (simp add: pending_stores_def)
  obtain r where r: "collect_claude_events_from_sessions lib0 pending_config (pending_fresh (length (fst ?turns)))
      (sto_baseline pending_stores) (fst ?prep) 9 = Inr r" unfolding b using collect_from_loaded by blast
  have turns: "sto_turns pending_stores = Inr \<lparr>ccs_InitializedAt = ''t'', ccs_Sessions = Map.empty\<rparr>"
    by (simp add: pending_stores_def)
  let ?commits = "snd (claude_events_from_sessions lib0 pending_config pending_fresh pending_stores pending_sessions 9)"
  have "\<exists>c cs. ?commits = SaveClaudeTurns x # c # cs"
    using x(1) r f turns
    by (cases "lf_Commit r") (simp_all add: claude_events_from_sessions_def load Let_def case_prod_beta)
  then have "run_commits put_claude (\<lambda>n. n < 1) 0 ?commits pending_stores = (put_claude (SaveClaudeTurns x) pending_stores, False)"
    by auto
  from once_more [OF not_yet this] have i: "interrupted lib0 pending_config pending_stores (put_claude (SaveClaudeTurns x) pending_stores)" .
  have "cutover_pending pending_stores"
    by (simp add: cutover_pending_def pending_stores_def new_fork_store_def claude_fork_accounting_schema_def)
  from interrupted_cutover_reports_nothing [OF i this]
  have silent: "list_all (\<lambda>ev. \<not> historical_event ev) (fst (claude_events_from_sessions lib0 pending_config pending_fresh
      (put_claude (SaveClaudeTurns x) pending_stores) pending_sessions 9))" by blast
  have "sto_turns (put_claude (SaveClaudeTurns x) pending_stores) \<noteq> sto_turns pending_stores"
    using x(2) turns by (auto simp: put_claude_def)
  with i silent show ?thesis by blast
qed

end
