(* ===== verification/Go_Files.thy ===== *)
theory Go_Files
  imports Go_Strings
begin

text \<open>
  What the daemon uses of \<open>path/filepath\<close> (with the separator of Unix) and of \<open>bufio\<close>: cleaning a
  path, its last element and its extension, and the lines of a text.
\<close>

section \<open>Paths\<close>

text \<open>\<open>filepath.Clean\<close>: the second list is the cleaned path so far, innermost first.\<close>

fun clean_parts :: "bool \<Rightarrow> string list \<Rightarrow> string list \<Rightarrow> string list" where
  "clean_parts rooted [] kept = rev kept"
| "clean_parts rooted (p # ps) kept =
     (if p = [] \<or> p = ''.'' then clean_parts rooted ps kept
      else if p = ''..''
      then (case kept of
              k # ks \<Rightarrow> if k = ''..'' then clean_parts rooted ps (p # kept) else clean_parts rooted ps ks
            | [] \<Rightarrow> clean_parts rooted ps (if rooted then [] else [p]))
      else clean_parts rooted ps (p # kept))"

definition clean_path :: "string \<Rightarrow> string" where
  "clean_path path =
     (let rooted = has_prefix path ''/''; body = join (clean_parts rooted (split path ''/'') []) ''/''
      in if rooted then ''/'' @ body else if body = [] then ''.'' else body)"

definition base_name :: "string \<Rightarrow> string" where
  "base_name path =
     (let p = trim_right_set path ''/''
      in if path = [] then ''.'' else if p = [] then ''/''
         else case last_index_of p ''/'' of None \<Rightarrow> p | Some i \<Rightarrow> drop (i + 1) p)"

definition path_ext :: "string \<Rightarrow> string" where
  "path_ext path = (case last_index_of path ''.'' of None \<Rightarrow> [] | Some i \<Rightarrow> if contains (drop i path) ''/'' then [] else drop i path)"

section \<open>Lines\<close>

definition line_feed :: string where "line_feed = [CHR 0x0A]"

text \<open>\<open>bufio.Scanner\<close>: the lines before one that does not fit its buffer, and whether there was none.\<close>

definition scan_text :: "int \<Rightarrow> string \<Rightarrow> string list \<times> bool" where
  "scan_text limit content =
     (let parts = split content line_feed;
          ls = (if last parts = [] then butlast parts else parts);
          fits = (\<lambda>l. int (length l) < limit)
      in (map (\<lambda>l. trim_suffix l [CHR 0x0D]) (takeWhile fits ls), list_all fits ls))"

end
