(* ===== verification/Codex_Transcript.thy ===== *)
theory Codex_Transcript
  imports Claude_Payload Turn_Codex Go_Files
begin

text \<open>
  \<open>pkg/daemon/codex_transcript.go\<close> and \<open>transcript_title.go\<close>: the messages of a Codex rollout and
  their transcript payload. A file is the string of its bytes, \<open>None\<close> when it cannot be read.
  Decoding a line of JSON into the shape that a function declares is a field of \<open>codex_json\<close>.
\<close>

section \<open>Files and JSON\<close>

record token_entry =
  te_Type :: string
  te_PayloadType :: string
  te_InputTokens :: int
  te_CachedInputTokens :: int
  te_OutputTokens :: int
  te_TotalTokens :: int

record meta_entry =
  me_Type :: string
  me_SessionID :: string
  me_ID :: string
  me_CWD :: string
  me_Model :: string
  me_ModelProvider :: string

record fork_entry =
  fe_Type :: string
  fe_ForkedFromID :: string
  fe_ForkedFrom :: string
  fe_ParentThreadID :: string

record codex_json =
  cj_record :: "string \<Rightarrow> codex_record option"
  cj_typed :: "string \<Rightarrow> (string \<times> payload option) option"
  cj_object :: "string \<Rightarrow> (string \<times> gval) list option"
  cj_token :: "string \<Rightarrow> token_entry option"
  cj_meta :: "string \<Rightarrow> meta_entry option"
  cj_fork :: "string \<Rightarrow> fork_entry option"
  cj_index :: "string \<Rightarrow> (string \<times> string) option"

record codex_disk =
  cd_file :: "string \<Rightarrow> string option"
  cd_modTime :: "string \<Rightarrow> time"
  cd_error :: "string \<Rightarrow> string"

definition codex_max_transcript_rows :: nat where "codex_max_transcript_rows = 40"
definition codex_transcript_tail_bytes :: int where "codex_transcript_tail_bytes = 8 * 1024 * 1024"
definition codex_scanner_max_bytes :: int where "codex_scanner_max_bytes = 10 * 1024 * 1024"

text \<open>\<open>transcriptReader\<close>: a large file from the first line that starts in its last 8 MiB.\<close>

definition transcript_reader :: "string \<Rightarrow> string" where
  "transcript_reader content =
     (if int (length content) \<le> codex_transcript_tail_bytes then content
      else let tl = drop (length content - nat codex_transcript_tail_bytes) content
           in case index_of tl line_feed of None \<Rightarrow> [] | Some i \<Rightarrow> drop (i + 1) tl)"

text \<open>\<open>bufio.Scanner\<close>: the lines before one that does not fit its buffer, and whether there was none.\<close>

section \<open>Titles\<close>

definition codex_title_fields :: "string list" where
  "codex_title_fields = [''title'', ''thread_name'', ''session_title'', ''conversation_title'', ''thread_title'']"

definition codex_safe_explicit_title :: "go_lib \<Rightarrow> string \<Rightarrow> string" where
  "codex_safe_explicit_title L v =
     (let normalized = trim_space v in if is_codex_approval_review_title L normalized then [] else normalized)"

definition copy_codex_title_fields :: "go_lib \<Rightarrow> payload \<Rightarrow> payload \<Rightarrow> payload" where
  "copy_codex_title_fields L source destination =
     foldl (\<lambda>d field. let title = codex_safe_explicit_title L (first_string source [field]) in
                      if title \<noteq> [] then d(field \<mapsto> GString title) else d) destination codex_title_fields"

definition codex_session_index_titles :: "go_lib \<Rightarrow> codex_json \<Rightarrow> string option \<Rightarrow> string \<Rightarrow> string option" where
  "codex_session_index_titles L J content =
     (case content of
        None \<Rightarrow> Map.empty
      | Some c \<Rightarrow>
          foldl (\<lambda>titles (i, name). let i' = trim_space i; title = title_from_transcript_text L name in
                 if i' = [] \<or> title = [] then titles else titles(i' \<mapsto> title, short_hash L i' \<mapsto> title))
            Map.empty (List.map_filter (cj_index J) (fst (scan_text (1024 * 1024) (transcript_reader c)))))"

definition first_non_empty_string :: "string list \<Rightarrow> string" where
  "first_non_empty_string vs = first_non_empty vs"

definition codex_session_identity :: "string \<Rightarrow> string \<Rightarrow> string \<times> string" where
  "codex_session_identity i sessionID =
     (let canonical = first_non_empty_string [i, sessionID]; legacy = trim_space sessionID
      in (canonical, if legacy = canonical then [] else legacy))"

definition codex_session_identity_from_row :: "payload \<Rightarrow> string \<times> string" where
  "codex_session_identity_from_row row = codex_session_identity (first_string row [''id'']) (first_string row [''session_id''])"

definition title_of :: "(string \<Rightarrow> string option) \<Rightarrow> string \<Rightarrow> string" where
  "title_of titles k = (case titles k of Some t \<Rightarrow> t | None \<Rightarrow> [])"

definition codex_session_index_title :: "go_lib \<Rightarrow> (string \<Rightarrow> string option) \<Rightarrow> payload \<Rightarrow> string" where
  "codex_session_index_title L titles row =
     (let sessionID = fst (codex_session_identity_from_row row) in
      if sessionID = [] then []
      else if title_of titles sessionID \<noteq> [] then title_of titles sessionID
      else title_of titles (short_hash L sessionID))"

definition message_title :: "go_lib \<Rightarrow> message \<Rightarrow> string" where
  "message_title L m = title_from_transcript_text L (first_string (map_of m) [''text'', ''content'', ''message''])"

definition user_message :: "go_lib \<Rightarrow> message \<Rightarrow> bool" where
  "user_message L m \<longleftrightarrow>
     (let role = lower L (trim_space (first_string (map_of m) [''role''])) in contains role ''user'' \<or> role = ''human'')"

definition transcript_title :: "go_lib \<Rightarrow> message list \<Rightarrow> string" where
  "transcript_title L ms =
     (let fromUser = first_text (map (message_title L) (filter (user_message L) ms))
      in if fromUser \<noteq> [] then fromUser else first_text (map (message_title L) ms))"

section \<open>Candidates\<close>

record codex_candidate =
  cc_Timestamp :: string
  cc_ItemType :: string
  cc_Role :: string
  cc_Text :: string
  cc_MessageID :: string
  cc_Phase :: string

definition text_keys :: "string list" where
  "text_keys = [''text'', ''content'', ''message'', ''input'', ''output'']"

definition codex_content_part :: "gval \<Rightarrow> string" where
  "codex_content_part item =
     (case item of
        GString s \<Rightarrow> if trim_space s \<noteq> [] then s else []
      | GMap m \<Rightarrow> first_string (map_of m) text_keys
      | _ \<Rightarrow> [])"

definition codex_content_text :: "gval option \<Rightarrow> string" where
  "codex_content_text value =
     (case value of
        Some (GString s) \<Rightarrow> s
      | Some (GList items) \<Rightarrow> join (filter (\<lambda>t. t \<noteq> []) (map codex_content_part items)) line_feed
      | Some (GMap m) \<Rightarrow> first_string (map_of m) text_keys
      | _ \<Rightarrow> [])"

definition is_codex_transcript_role :: "string \<Rightarrow> bool" where
  "is_codex_transcript_role role \<longleftrightarrow> role = ''user'' \<or> role = ''assistant''"

definition codex_transcript_candidate :: "go_lib \<Rightarrow> codex_record \<Rightarrow> codex_candidate option" where
  "codex_transcript_candidate L rc =
     (case cr_Payload rc of
        None \<Rightarrow> None
      | Some p \<Rightarrow>
          (let itemType = first_string p [''type''];
               role = lower L (trim_space (first_string p [''role'']));
               tx = codex_content_text (p ''content'')
           in if cr_Type rc \<noteq> ''response_item'' \<or> itemType \<in> {''function_call'', ''function_call_output'', ''tool_call''}
                 \<or> \<not> is_codex_transcript_role role \<or> is_codex_non_chat_text L tx then None
              else Some \<lparr>cc_Timestamp = cr_Timestamp rc, cc_ItemType = itemType, cc_Role = role, cc_Text = tx,
                         cc_MessageID = first_string p [''id'', ''message_id''], cc_Phase = first_string p [''phase'']\<rparr>))"

definition codex_transcript_candidate_from_json :: "go_lib \<Rightarrow> codex_json \<Rightarrow> string \<Rightarrow> codex_candidate option" where
  "codex_transcript_candidate_from_json L J line =
     (case cj_record J line of None \<Rightarrow> None | Some rc \<Rightarrow> codex_transcript_candidate L rc)"

section \<open>Approval reviews are not chat\<close>

definition is_codex_approval_envelope :: "go_lib \<Rightarrow> string \<Rightarrow> string \<Rightarrow> bool" where
  "is_codex_approval_envelope L role v \<longleftrightarrow>
     role = ''user'' \<and>
     (let low = lower L (trim_space v) in
      (has_prefix low ''>>> approval request start'' \<and> contains low ''>>> approval request end'') \<or>
      (has_prefix low ''the following is the codex agent history added since your last approval assessment.'' \<and>
       contains low ''>>> transcript delta start'' \<and> contains low ''>>> transcript delta end''))"

definition decision_keys :: "string list" where
  "decision_keys = [''outcome'', ''rationale'', ''risk_level'', ''user_authorization'']"

definition is_codex_approval_decision :: "codex_json \<Rightarrow> string \<Rightarrow> string \<Rightarrow> bool" where
  "is_codex_approval_decision J role v \<longleftrightarrow>
     role = ''assistant'' \<and>
     (case cj_object J (trim_space v) of
        None \<Rightarrow> False
      | Some decision \<Rightarrow>
          length decision = 4 \<and>
          list_all (\<lambda>key. case map_of decision key of Some (GString s) \<Rightarrow> trim_space s \<noteq> [] | _ \<Rightarrow> False) decision_keys)"

text \<open>The first argument is \<open>approvalPending\<close>.\<close>

fun visible_candidates :: "go_lib \<Rightarrow> codex_json \<Rightarrow> bool \<Rightarrow> codex_candidate list \<Rightarrow> codex_candidate list" where
  "visible_candidates L J pending [] = []"
| "visible_candidates L J pending (c # cs) =
     (if is_codex_approval_envelope L (cc_Role c) (cc_Text c) then visible_candidates L J True cs
      else let pending1 = (if cc_Role c = ''user'' then False else pending) in
           if pending1 \<and> is_codex_approval_decision J (cc_Role c) (cc_Text c) then visible_candidates L J False cs
           else c # visible_candidates L J pending1 cs)"

definition codex_visible_transcript_candidates :: "go_lib \<Rightarrow> codex_json \<Rightarrow> codex_candidate list \<Rightarrow> codex_candidate list" where
  "codex_visible_transcript_candidates L J cs = visible_candidates L J False cs"

definition codex_latest_transcript_candidates :: "codex_candidate list \<Rightarrow> codex_candidate list" where
  "codex_latest_transcript_candidates cs =
     foldl (\<lambda>latest c. if cc_MessageID c = [] then latest @ [c]
                        else upsert cc_MessageID (\<lambda>c. c) (\<lambda>_ new. new) c latest) [] cs"

section \<open>Messages\<close>

definition codex_candidate_message :: "go_lib \<Rightarrow> codex_candidate \<Rightarrow> string \<Rightarrow> message" where
  "codex_candidate_message L c tx =
     [(''role'', GString (cc_Role c)), (''text'', GString tx)]
     @ (if cc_Role c = ''assistant'' then [(''summary_phase'', GString (codex_transcript_summary_phase L (cc_Phase c)))] else [])
     @ put_string ''message_id'' (cc_MessageID c)
     @ put_string ''type'' (cc_ItemType c)
     @ put_string ''timestamp'' (cc_Timestamp c)"

definition codex_candidate_text :: "codex_candidate \<Rightarrow> string" where
  "codex_candidate_text c = redact_and_truncate (cc_Text c) codex_max_transcript_message_bytes"

text \<open>The loop ends at the first message that would take the transcript over its total size.\<close>

fun codex_messages_loop :: "go_lib \<Rightarrow> message list \<times> int \<times> bool \<Rightarrow> codex_candidate list \<Rightarrow> message list \<times> bool" where
  "codex_messages_loop L (messages, totalBytes, truncated) [] = (messages, truncated)"
| "codex_messages_loop L (messages, totalBytes, truncated) (c # cs) =
     (let tx = codex_candidate_text c in
      if totalBytes + int (length tx) > codex_max_transcript_total_bytes then (messages, True)
      else let (tot, rest, dropped) =
                 trim_oldest (totalBytes + int (length tx)) (messages @ [codex_candidate_message L c tx])
           in codex_messages_loop L (rest, tot, truncated \<or> dropped) cs)"

definition codex_transcript_messages :: "go_lib \<Rightarrow> codex_candidate list \<Rightarrow> message list \<times> bool" where
  "codex_transcript_messages L cs = codex_messages_loop L ([], 0, False) cs"

definition read_codex_transcript :: "go_lib \<Rightarrow> codex_json \<Rightarrow> string \<Rightarrow> (message list \<times> bool) option" where
  "read_codex_transcript L J content =
     (let (ls, ok) = scan_text codex_scanner_max_bytes (transcript_reader content);
          cs = codex_latest_transcript_candidates (List.map_filter (codex_transcript_candidate_from_json L J) ls)
      in if ok then Some (codex_transcript_messages L (codex_visible_transcript_candidates L J cs)) else None)"

section \<open>The payload\<close>

definition copy_string_field :: "payload \<Rightarrow> string \<Rightarrow> payload \<Rightarrow> payload" where
  "copy_string_field src name dst =
     (if first_string src [name] \<noteq> [] then dst(name \<mapsto> GString (first_string src [name])) else dst)"

definition copy_codex_time_field :: "go_lib \<Rightarrow> payload \<Rightarrow> string \<Rightarrow> payload \<Rightarrow> payload" where
  "copy_codex_time_field L src name dst =
     (if first_string src [name] \<noteq> [] then dst(name \<mapsto> GString (first_string src [name]))
      else case as_int64 (src (name @ ''_ms'')) of
             Some ms \<Rightarrow>
               if ms > 0 then dst(name \<mapsto> GString (format_rfc3339 L (ms * 1000000)))
               else (case as_int64 (src name) of
                       Some s \<Rightarrow> if s > 0 then dst(name \<mapsto> GString (format_rfc3339 L (s * nanos_per_second))) else dst
                     | None \<Rightarrow> dst)
           | None \<Rightarrow>
               (case as_int64 (src name) of
                  Some s \<Rightarrow> if s > 0 then dst(name \<mapsto> GString (format_rfc3339 L (s * nanos_per_second))) else dst
                | None \<Rightarrow> dst))"

definition put_text :: "string \<Rightarrow> string \<Rightarrow> payload \<Rightarrow> payload" where
  "put_text k v p = (if v \<noteq> [] then p(k \<mapsto> GString v) else p)"

definition index_title_fields :: "string \<Rightarrow> payload \<Rightarrow> payload" where
  "index_title_fields title p =
     (if title \<noteq> [] then p(''title'' \<mapsto> GString title, ''title_source'' \<mapsto> GString ''codex_session_index'') else p)"

definition codex_transcript_payload_of ::
  "go_lib \<Rightarrow> payload \<Rightarrow> payload \<Rightarrow> (string \<Rightarrow> string option) \<Rightarrow> string \<Rightarrow> string \<Rightarrow> message list \<Rightarrow> bool \<Rightarrow> payload" where
  "codex_transcript_payload_of L row usage titles rolloutPath sessionID messages truncated =
     (let p0 = map_of
            [(''agent_type'', GString ''codex''), (''metadata_only'', GBool False), (''session_id'', GString sessionID),
             (''session_id_hash'', GString sessionID), (''session_id_is_hashed'', GBool True), (''messages'', GMaps messages),
             (''message_count'', GInt (int (length messages))), (''transcript_source'', GString ''codex_rollout_jsonl''),
             (''transcript_path_hash'', GString (short_hash L rolloutPath)), (''transcript_truncated'', GBool truncated),
             (''transcript_max_messages'', GInt (int codex_max_transcript_messages)),
             (''transcript_max_message_bytes'', GInt codex_max_transcript_message_bytes),
             (''transcript_max_total_text_bytes'', GInt codex_max_transcript_total_bytes),
             (''_rollout_path'', GString rolloutPath)];
          p1 = copy_string_field usage ''parent_session_id_hash'' (copy_string_field usage ''parent_session_id'' p0);
          p2 = (case usage ''parent_session_id_is_hashed'' of
                  Some (GBool b) \<Rightarrow> p1(''parent_session_id_is_hashed'' \<mapsto> GBool b) | _ \<Rightarrow> p1);
          p3 = copy_codex_title_fields L row (copy_string_field row ''model'' (copy_string_field row ''model_provider'' p2));
          p4 = index_title_fields (codex_session_index_title L titles row) p3;
          cwd = first_string row [''cwd'', ''repo_root'', ''worktree''];
          p5 = (if cwd \<noteq> [] then p4(''_cwd'' \<mapsto> GString cwd, ''repo_path_hash'' \<mapsto> GString (short_hash L cwd)) else p4);
          p6 = copy_string_field row ''git_sha'' (copy_string_field row ''git_branch'' p5);
          p7 = copy_codex_time_field L row ''updated_at'' (copy_codex_time_field L row ''created_at'' p6);
          p8 = copy_string_field usage ''repo'' p7;
          p9 = (if first_string p8 codex_title_fields = [] then put_text ''title'' (transcript_title L messages) p8 else p8)
      in p9(''transcript_hash'' \<mapsto> GString (hash_string L (json_text L (GMaps messages)))))"

definition codex_transcript_payload ::
  "go_lib \<Rightarrow> codex_json \<Rightarrow> codex_disk \<Rightarrow> payload \<Rightarrow> payload \<Rightarrow> (string \<Rightarrow> string option) \<Rightarrow> payload option" where
  "codex_transcript_payload L J D row usage titles =
     (let rolloutPath = first_string row [''rollout_path'']; sessionID = first_string usage [''session_id'', ''session_id_hash''] in
      if rolloutPath = [] \<or> sessionID = [] then None
      else case Option.bind (cd_file D rolloutPath) (read_codex_transcript L J) of
             None \<Rightarrow> None
           | Some (messages, truncated) \<Rightarrow>
               if messages = [] then None
               else Some (codex_transcript_payload_of L row usage titles rolloutPath sessionID messages truncated))"

definition codex_public_transcript_payload :: "payload \<Rightarrow> payload" where
  "codex_public_transcript_payload p = (\<lambda>key. if has_prefix key ''_'' then None else p key)"

section \<open>Rollouts without a row in the thread database\<close>

definition codex_transcript_payload_from_session ::
  "go_lib \<Rightarrow> codex_json \<Rightarrow> codex_disk \<Rightarrow> codex_session \<Rightarrow> time \<Rightarrow> payload option" where
  "codex_transcript_payload_from_session L J D session modifiedAt =
     (let title = codex_safe_explicit_title L (cs_Title session);
          row = map_of
            ([(''rollout_path'', GString (cs_RolloutPath session)), (''model'', GString (cs_Model session)),
              (''model_provider'', GString (cs_ModelProvider session)), (''title'', GString title)]
             @ (if is_zero modifiedAt then [] else [(''updated_at'', GString (format_rfc3339 L modifiedAt))]));
          usage = map_of
            [(''session_id'', GString (cs_SessionID session)), (''session_id_hash'', GString (cs_SessionID session)),
             (''session_id_is_hashed'', GBool True), (''parent_session_id'', GString (cs_ParentSessionID session)),
             (''parent_session_id_hash'', GString (cs_ParentSessionID session)), (''repo'', GString (cs_Repo session)),
             (''title'', GString title)]
      in codex_transcript_payload L J D row usage Map.empty)"

fun take_fallbacks :: "nat \<Rightarrow> ('a \<Rightarrow> payload option) \<Rightarrow> 'a list \<Rightarrow> payload list" where
  "take_fallbacks n f [] = []"
| "take_fallbacks n f (x # xs) =
     (if n = 0 then []
      else case f x of None \<Rightarrow> take_fallbacks n f xs
           | Some p \<Rightarrow> p(internal_transcript_fallback_key \<mapsto> GBool True) # take_fallbacks (n - 1) f xs)"

definition merge_codex_transcript_fallbacks ::
  "go_lib \<Rightarrow> codex_json \<Rightarrow> codex_disk \<Rightarrow> payload list \<Rightarrow> codex_session list \<Rightarrow> payload list \<times> nat" where
  "merge_codex_transcript_fallbacks L J D existing sessions =
     (let seen = filter (\<lambda>i. i \<noteq> []) (map session_id_from_payload existing);
          candidates = filter (\<lambda>s. trim_space (cs_RolloutPath s) \<noteq> [] \<and> cs_SessionID s \<notin> set seen) sessions;
          ordered = sort_key (\<lambda>s. (- cd_modTime D (cs_RolloutPath s), cs_SessionID s)) candidates;
          added = take_fallbacks codex_max_transcript_rows
            (\<lambda>s. codex_transcript_payload_from_session L J D s (cd_modTime D (cs_RolloutPath s))) ordered
      in (existing @ added, length added))"

end
