(* ===== verification/Codex_Tools.thy ===== *)
theory Codex_Tools
  imports Codex_Transcript
begin

text \<open>
  \<open>pkg/daemon/codex_tool_calls.go\<close>, with \<open>readCodexToolCalls\<close> of \<open>codex_transcript.go\<close>: the tool
  calls of a rollout, an MCP call recognised by the name of its tool, by the namespace of the
  call or by the event that ends it, and the events that report them.
\<close>

section \<open>Names\<close>

definition quote_chars :: string where "quote_chars = [CHR 0x60, CHR 0x22, CHR 0x27]"

definition codex_is_app_mcp_server :: "go_lib \<Rightarrow> string \<Rightarrow> bool" where
  "codex_is_app_mcp_server L v \<longleftrightarrow>
     trim_space (trim_right_set (trim_set (lower L (trim_space v)) quote_chars) '':'') \<in> {''codex_apps'', ''codex-apps''}"

definition codex_is_app_tool_name :: "go_lib \<Rightarrow> string \<Rightarrow> bool" where
  "codex_is_app_tool_name L v \<longleftrightarrow>
     (let normalized = trim_set (lower L (trim_space v)) quote_chars in
      normalized = ''codex_apps'' \<or> has_prefix normalized ''codex_apps.'' \<or> has_prefix normalized ''codex_apps__'' \<or>
      has_prefix normalized ''mcp__codex_apps__'')"

definition codex_mcp_tool_parts :: "go_lib \<Rightarrow> string \<Rightarrow> string \<times> string" where
  "codex_mcp_tool_parts L name =
     (let trimmed = trim_space name; rest = trim_prefix trimmed ''mcp__'';
          parts = (if contains rest ''__'' then split rest ''__'' else split_n2 rest ''.'');
          server = trim_space (hd parts); tool = trim_space (join (tl parts) ''__'')
      in if \<not> has_prefix trimmed ''mcp__'' \<or> \<not> (contains rest ''__'' \<or> contains rest ''.'')
           \<or> server = [] \<or> tool = [] \<or> codex_is_app_mcp_server L server then ([], [])
         else (server, tool))"

definition codex_mcp_server_from_namespace :: "go_lib \<Rightarrow> string \<Rightarrow> string" where
  "codex_mcp_server_from_namespace L namespace =
     (let trimmed = trim_space namespace;
          rest = trim_set (trim_prefix trimmed ''mcp__'') ''_'';
          server = (case index_of rest ''__'' of Some i \<Rightarrow> take i rest | None \<Rightarrow> rest)
      in if \<not> has_prefix trimmed ''mcp__'' \<or> codex_is_app_mcp_server L server then [] else trim_space server)"

section \<open>The calls of a rollout\<close>

record codex_tool_call =
  tcl_Name :: string
  tcl_CallID :: string
  tcl_Timestamp :: string
  tcl_MCPServer :: string
  tcl_MCPTool :: string

definition tool_call_key :: "codex_tool_call \<Rightarrow> string" where
  "tool_call_key c =
     (if trim_space (tcl_CallID c) \<noteq> [] then trim_space (tcl_CallID c)
      else join [tcl_Timestamp c, tcl_Name c, tcl_MCPServer c, tcl_MCPTool c] nul_byte)"

definition add_tool_call :: "bool \<Rightarrow> codex_tool_call \<Rightarrow> codex_tool_call list \<Rightarrow> codex_tool_call list" where
  "add_tool_call prefer c calls =
     upsert tool_call_key (\<lambda>c. c)
       (keep_better (\<lambda>new old. prefer \<or> (tcl_MCPServer old = [] \<and> tcl_MCPServer new \<noteq> []))) c calls"

text \<open>The call that a record reports, and whether it replaces a call with the same key.\<close>

definition ended_call :: "go_lib \<Rightarrow> string \<Rightarrow> payload \<Rightarrow> codex_tool_call option" where
  "ended_call L timestamp p =
     (let invocation = map_of (map_value (p ''invocation''));
          server = first_string invocation [''server'']; tool = first_string invocation [''tool''];
          callID = first_string p [''call_id'', ''id'']
      in if lower L (trim_space (first_string p [''type''])) \<noteq> ''mcp_tool_call_end'' \<or> server = [] \<or> tool = [] then None
         else if codex_is_app_mcp_server L server
         then Some \<lparr>tcl_Name = ''codex_apps.'' @ tool, tcl_CallID = callID, tcl_Timestamp = timestamp,
                    tcl_MCPServer = [], tcl_MCPTool = []\<rparr>
         else Some \<lparr>tcl_Name = tool, tcl_CallID = callID, tcl_Timestamp = timestamp,
                    tcl_MCPServer = server, tcl_MCPTool = tool\<rparr>)"

definition response_call :: "go_lib \<Rightarrow> string \<Rightarrow> payload \<Rightarrow> codex_tool_call option" where
  "response_call L timestamp p =
     (let itemType = lower L (trim_space (first_string p [''type'']));
          name = first_string p [''name'', ''tool_name''];
          (server0, tool0) = codex_mcp_tool_parts L name;
          fromNamespace = codex_mcp_server_from_namespace L (first_string p [''namespace'']);
          (server1, tool1) = (if server0 = [] then (fromNamespace, if fromNamespace \<noteq> [] then name else tool0) else (server0, tool0));
          (server, tool) = (if codex_is_app_tool_name L name \<or> codex_is_app_mcp_server L server1 then ([], []) else (server1, tool1))
      in if itemType \<notin> {''function_call'', ''tool_call''} \<or> name = [] then None
         else Some \<lparr>tcl_Name = name, tcl_CallID = first_string p [''call_id'', ''id''], tcl_Timestamp = timestamp,
                    tcl_MCPServer = server, tcl_MCPTool = tool\<rparr>)"

definition tool_call_of_record :: "go_lib \<Rightarrow> codex_record \<Rightarrow> (codex_tool_call \<times> bool) option" where
  "tool_call_of_record L rc =
     (case cr_Payload rc of
        None \<Rightarrow> None
      | Some p \<Rightarrow>
          if cr_Type rc = ''event_msg'' then map_option (\<lambda>c. (c, True)) (ended_call L (cr_Timestamp rc) p)
          else if cr_Type rc = ''response_item'' then map_option (\<lambda>c. (c, False)) (response_call L (cr_Timestamp rc) p)
          else None)"

definition read_codex_tool_calls :: "go_lib \<Rightarrow> codex_json \<Rightarrow> string \<Rightarrow> codex_tool_call list option" where
  "read_codex_tool_calls L J content =
     (let (ls, ok) = scan_text codex_scanner_max_bytes (transcript_reader content);
          found = List.map_filter (\<lambda>l. Option.bind (cj_record J l) (tool_call_of_record L)) ls
      in if ok then Some (foldl (\<lambda>calls (c, prefer). add_tool_call prefer c calls) [] found) else None)"

section \<open>Events\<close>

definition codex_tool_call_event_id :: "go_lib \<Rightarrow> string \<Rightarrow> codex_tool_call \<Rightarrow> string" where
  "codex_tool_call_event_id L sessionID c =
     ''evt_'' @ short_hash L (join [''codex.tool.call'', sessionID, tcl_Timestamp c, tcl_Name c, short_hash L (tcl_CallID c)] nul_byte)"

definition parse_codex_tool_call_time :: "go_lib \<Rightarrow> string \<Rightarrow> time option" where
  "parse_codex_tool_call_time L v = (if trim_space v = [] then None else parse_rfc3339 L (trim_space v))"

text \<open>The MCP server and tool that the event names, if any.\<close>

definition reported_mcp_parts :: "go_lib \<Rightarrow> codex_tool_call \<Rightarrow> string \<times> string" where
  "reported_mcp_parts L c =
     (let name = trim_space (tcl_Name c);
          (server0, tool0) = (if codex_is_app_mcp_server L (tcl_MCPServer c) then ([], []) else (tcl_MCPServer c, tcl_MCPTool c));
          (server1, tool1) = (if server0 = [] then codex_mcp_tool_parts L name else (server0, tool0))
      in if codex_is_app_tool_name L name \<or> codex_is_app_mcp_server L server1 then ([], []) else (server1, tool1))"

definition codex_tool_call_payload :: "go_lib \<Rightarrow> string \<Rightarrow> string \<Rightarrow> codex_tool_call \<Rightarrow> (string \<times> gval) list \<Rightarrow> payload" where
  "codex_tool_call_payload L rolloutPath sessionID c mcp =
     map_of ([(''agent_type'', GString ''codex''), (''metadata_only'', GBool True), (''tool_name'', GString (trim_space (tcl_Name c))),
       (''session_id'', GString sessionID), (''session_id_hash'', GString sessionID), (''session_id_is_hashed'', GBool True),
       (''transcript_path_hash'', GString (short_hash L rolloutPath))]
      @ (if trim_space (tcl_CallID c) \<noteq> [] then [(''call_id_hash'', GString (short_hash L (trim_space (tcl_CallID c))))] else [])
      @ put_string ''observed_at'' (tcl_Timestamp c)
      @ mcp)"

definition codex_tool_call_event ::
  "go_lib \<Rightarrow> config \<Rightarrow> (string \<times> time) \<Rightarrow> string \<Rightarrow> string \<Rightarrow> codex_tool_call \<Rightarrow> event option" where
  "codex_tool_call_event L cfg fresh rolloutPath sessionID c =
     (let (server, tool) = reported_mcp_parts L c;
          (serverID, serverName) = server_identity L server;
          mcp = (if server = [] then [(''tool_type'', GString ''agent_tool'')]
                 else [(''tool_type'', GString ''mcp''), (''mcp_server_id'', GString serverID)]
                      @ put_string ''mcp_server_name'' serverName @ [(''mcp_tool'', GString tool)]);
          ev = base_event cfg (fst fresh) (snd fresh) ''tool.call'' ''codex'' ''codex'' (codex_tool_call_payload L rolloutPath sessionID c mcp)
      in if trim_space (tcl_Name c) = [] \<or> (server \<noteq> [] \<and> serverID = []) then None
         else Some (ev\<lparr>CreatedAt := (case parse_codex_tool_call_time L (tcl_Timestamp c) of Some t \<Rightarrow> t | None \<Rightarrow> CreatedAt ev),
                       EventID := codex_tool_call_event_id L sessionID c\<rparr>))"

definition codex_tool_call_events_from_transcript ::
  "go_lib \<Rightarrow> codex_json \<Rightarrow> codex_disk \<Rightarrow> config \<Rightarrow> (string \<times> time) \<Rightarrow> payload \<Rightarrow> event list" where
  "codex_tool_call_events_from_transcript L J D cfg fresh transcript =
     (let rolloutPath = first_string transcript [''_rollout_path''];
          sessionID = first_string transcript [''session_id'', ''session_id_hash'']
      in if rolloutPath = [] \<or> sessionID = [] then []
         else case Option.bind (cd_file D rolloutPath) (read_codex_tool_calls L J) of
                None \<Rightarrow> []
              | Some calls \<Rightarrow> List.map_filter (codex_tool_call_event L cfg fresh rolloutPath sessionID) calls)"

end
