(* ===== verification/Codex_State.thy ===== *)
theory Codex_State
  imports Codex_Transcript "HOL-Library.AList"
begin

text \<open>
  \<open>pkg/daemon/codex_tokens.go\<close> and \<open>codex_state.go\<close>: what the thread database of Codex and the
  rollouts say about sessions and their tokens. A query of the database is a function from the
  SQL text to its rows, or to an error; a row is a payload.
\<close>

section \<open>Token counts of a rollout\<close>

definition codex_token_usage_max_line_bytes :: int where
  "codex_token_usage_max_line_bytes = 4 * 1024 * 1024"

record codex_token_usage =
  ctk_InputTokens :: int
  ctk_CachedInputTokens :: int
  ctk_OutputTokens :: int
  ctk_TotalTokens :: int

definition effective_tokens :: "codex_token_usage \<Rightarrow> int" where
  "effective_tokens u =
     (let inp = max 0 (sub64 (ctk_InputTokens u) (ctk_CachedInputTokens u)); tot = add64 inp (ctk_OutputTokens u)
      in if tot > 0 then tot else ctk_TotalTokens u)"

text \<open>The lines of a file with their line feeds, those longer than 4 MiB left out.\<close>

definition bounded_lines :: "string \<Rightarrow> string list" where
  "bounded_lines content =
     (let parts = split content line_feed;
          ls = map (\<lambda>l. l @ line_feed) (butlast parts) @ (if last parts = [] then [] else [last parts])
      in filter (\<lambda>l. int (length l) \<le> codex_token_usage_max_line_bytes) ls)"

definition codex_token_usage_from_json_line :: "codex_json \<Rightarrow> string \<Rightarrow> codex_token_usage option" where
  "codex_token_usage_from_json_line J line =
     (case cj_token J line of
        None \<Rightarrow> None
      | Some e \<Rightarrow>
          if te_Type e \<noteq> ''event_msg'' \<or> te_PayloadType e \<noteq> ''token_count'' \<or> te_TotalTokens e \<le> 0 then None
          else Some \<lparr>ctk_InputTokens = te_InputTokens e, ctk_CachedInputTokens = te_CachedInputTokens e,
                     ctk_OutputTokens = te_OutputTokens e, ctk_TotalTokens = te_TotalTokens e\<rparr>)"

definition quoted :: "string \<Rightarrow> string" where "quoted s = [CHR 0x22] @ s @ [CHR 0x22]"

definition codex_effective_token_usage :: "codex_json \<Rightarrow> string option \<Rightarrow> codex_token_usage option" where
  "codex_effective_token_usage J content =
     (case content of
        None \<Rightarrow> None
      | Some c \<Rightarrow>
          (let found = List.map_filter (codex_token_usage_from_json_line J)
                 (filter (\<lambda>l. contains l (quoted ''token_count'')) (bounded_lines c))
           in if found = [] \<or> ctk_TotalTokens (last found) \<le> 0 then None else Some (last found)))"

definition codex_fork_parent_from_json_line :: "codex_json \<Rightarrow> string \<Rightarrow> string" where
  "codex_fork_parent_from_json_line J line =
     (case cj_fork J line of
        None \<Rightarrow> []
      | Some e \<Rightarrow>
          if fe_Type e \<noteq> ''session_meta'' then []
          else first_non_empty_string [fe_ForkedFromID e, fe_ForkedFrom e, fe_ParentThreadID e])"

definition codex_fork_parent_from_rollout :: "codex_json \<Rightarrow> string option \<Rightarrow> string" where
  "codex_fork_parent_from_rollout J content =
     (case content of
        None \<Rightarrow> []
      | Some c \<Rightarrow> first_text (map (codex_fork_parent_from_json_line J)
          (filter (\<lambda>l. contains l (CHR 0x22 # ''forked_from'') \<or> contains l (quoted ''parent_thread_id'')) (bounded_lines c))))"

section \<open>SQL\<close>

definition quote_ident :: "string \<Rightarrow> string" where
  "quote_ident name = quoted (replace_all name [CHR 0x22] [CHR 0x22, CHR 0x22])"

definition codex_token_columns :: "string list" where
  "codex_token_columns =
     [''tokens_used'', ''total_tokens'', ''input_tokens'', ''output_tokens'', ''cached_input_tokens'', ''reasoning_tokens'']"

definition codex_recent_columns :: "string list" where
  "codex_recent_columns =
     [''id'', ''session_id'', ''source'', ''cwd'', ''repo_id'', ''repository_id'', ''repo_root'', ''worktree'', ''title'',
      ''session_title'', ''conversation_title'', ''thread_title'', ''parent_session_id'', ''parent_thread_id'',
      ''forked_from_id'', ''forked_from'', ''model_provider'', ''model'', ''rollout_path'', ''tokens_used'', ''total_tokens'',
      ''input_tokens'', ''output_tokens'', ''cached_input_tokens'', ''reasoning_tokens'', ''git_branch'', ''git_sha'',
      ''created_at'', ''created_at_ms'', ''updated_at'', ''updated_at_ms'']"

definition first_available_column :: "string set \<Rightarrow> string list \<Rightarrow> string" where
  "first_available_column columns names = (case filter (\<lambda>n. n \<in> columns) names of [] \<Rightarrow> [] | n # _ \<Rightarrow> n)"

definition codex_aggregate_sql :: "string set \<Rightarrow> string" where
  "codex_aggregate_sql columns =
     ''select '' @ join ((''count(*) as '' @ quoted ''session_count'')
       # map (\<lambda>c. ''coalesce(sum('' @ quote_ident c @ ''),0) as '' @ quote_ident c)
           (filter (\<lambda>c. c \<in> columns) codex_token_columns)) '', '' @ '' from threads;''"

definition codex_usage_sql :: "string set \<Rightarrow> string" where
  "codex_usage_sql columns =
     (let selected = map (\<lambda>c. quote_ident c @ '' as '' @ quote_ident c) (filter (\<lambda>c. c \<in> columns) codex_recent_columns);
          predicates = map (\<lambda>c. ''coalesce('' @ quote_ident c @ '',0) > 0'') (filter (\<lambda>c. c \<in> columns) codex_token_columns);
          orderBy = first_available_column columns [''updated_at'', ''created_at'', ''id'', ''session_id''];
          orderClause = (if orderBy \<noteq> [] then '' order by '' @ quote_ident orderBy @ '' desc'' else [])
      in if selected = [] \<or> predicates = [] then []
         else ''select '' @ join selected '', '' @ '' from threads where ('' @ join predicates '' or '' @ '')'' @ orderClause @ '';'')"

definition sqlite_columns :: "(string \<Rightarrow> string + payload list) \<Rightarrow> string \<Rightarrow> string + string set" where
  "sqlite_columns query table =
     map_sum (\<lambda>e. e) (\<lambda>rows. set (List.map_filter (\<lambda>row. case row ''name'' of Some (GString n) \<Rightarrow> Some n | _ \<Rightarrow> None) rows))
       (query (''pragma table_info('' @ quote_ident table @ '');''))"

definition spawn_parents_sql :: string where
  "spawn_parents_sql =
     ''select parent_thread_id, child_thread_id from thread_spawn_edges where parent_thread_id != ''
     @ [CHR 0x27, CHR 0x27] @ '' and child_thread_id != '' @ [CHR 0x27, CHR 0x27] @ '';''"

definition codex_thread_spawn_parents :: "(string \<Rightarrow> string + payload list) \<Rightarrow> string \<Rightarrow> string option" where
  "codex_thread_spawn_parents query =
     (case query spawn_parents_sql of
        Inl _ \<Rightarrow> Map.empty
      | Inr rows \<Rightarrow>
          foldl (\<lambda>parents row.
             let parentID = first_string row [''parent_thread_id'']; childID = first_string row [''child_thread_id''] in
             if parentID = [] \<or> childID = [] then parents else parents(childID \<mapsto> parentID)) Map.empty rows)"

section \<open>Usage of a row\<close>

definition int64_at :: "payload \<Rightarrow> string \<Rightarrow> int" where
  "int64_at row key = (case as_int64 (row key) of Some v \<Rightarrow> v | None \<Rightarrow> 0)"

definition row_total_tokens :: "payload \<Rightarrow> int" where
  "row_total_tokens row =
     (case as_int64 (row ''tokens_used'') of
        Some v \<Rightarrow> v
      | None \<Rightarrow> (case as_int64 (row ''total_tokens'') of
                    Some v \<Rightarrow> v
                  | None \<Rightarrow> add64 (int64_at row ''input_tokens'') (int64_at row ''output_tokens'')))"

definition copy_number_field :: "payload \<Rightarrow> string \<Rightarrow> payload \<Rightarrow> payload" where
  "copy_number_field src name dst = (case as_int64 (src name) of Some v \<Rightarrow> dst(name \<mapsto> GInt64 v) | None \<Rightarrow> dst)"

definition is_safe_source_label :: "string \<Rightarrow> bool" where
  "is_safe_source_label source \<longleftrightarrow> source \<in> {''cli'', ''vscode'', ''app'', ''cloud'', ''ci''}"

definition put_hashed :: "go_lib \<Rightarrow> string \<Rightarrow> string \<Rightarrow> payload \<Rightarrow> payload" where
  "put_hashed L name v p =
     (let hashed = short_hash L v
      in p(name \<mapsto> GString hashed, name @ ''_hash'' \<mapsto> GString hashed, name @ ''_is_hashed'' \<mapsto> GBool True))"

definition copy_codex_parent_session_field :: "go_lib \<Rightarrow> codex_json \<Rightarrow> codex_disk \<Rightarrow> payload \<Rightarrow> payload \<Rightarrow> payload" where
  "copy_codex_parent_session_field L J D row p =
     (let direct = first_string row [''parent_session_id'', ''parent_thread_id'', ''forked_from_id'', ''forked_from''];
          parentID = (if direct \<noteq> [] then direct
                      else codex_fork_parent_from_rollout J (cd_file D (first_string row [''rollout_path''])))
      in if parentID = [] then p else put_hashed L ''parent_session_id'' parentID p)"

definition source_fields :: "go_lib \<Rightarrow> payload \<Rightarrow> payload \<Rightarrow> payload" where
  "source_fields L row p =
     (let cwd = first_string row [''cwd'', ''repo_root'', ''worktree'']; source = first_string row [''source''];
          p1 = (if cwd \<noteq> [] then p(''cwd_hash'' \<mapsto> GString (short_hash L cwd)) else p)
      in if source = [] then p1
         else let p2 = p1(''source_hash'' \<mapsto> GString (short_hash L source)) in
              if is_safe_source_label source then p2(''source'' \<mapsto> GString source)
              else if cwd = [] then p2(''cwd_hash'' \<mapsto> GString (short_hash L source)) else p2)"

definition token_fields :: "codex_json \<Rightarrow> codex_disk \<Rightarrow> payload \<Rightarrow> payload \<Rightarrow> payload" where
  "token_fields J D row p =
     (let rolloutPath = first_string row [''rollout_path''];
          usage = (if rolloutPath = [] then None else codex_effective_token_usage J (cd_file D rolloutPath))
      in case usage of
           None \<Rightarrow> p(''tokens_used'' \<mapsto> GInt64 (row_total_tokens row), ''total_tokens'' \<mapsto> GInt64 (row_total_tokens row))
         | Some u \<Rightarrow>
             p(''token_accounting'' \<mapsto> GString ''raw_total'', ''input_tokens'' \<mapsto> GInt64 (ctk_InputTokens u),
               ''cached_input_tokens'' \<mapsto> GInt64 (ctk_CachedInputTokens u), ''output_tokens'' \<mapsto> GInt64 (ctk_OutputTokens u),
               ''effective_tokens'' \<mapsto> GInt64 (effective_tokens u), ''raw_total_tokens'' \<mapsto> GInt64 (ctk_TotalTokens u),
               ''tokens_used'' \<mapsto> GInt64 (ctk_TotalTokens u), ''total_tokens'' \<mapsto> GInt64 (ctk_TotalTokens u)))"

definition codex_usage_payload ::
  "go_lib \<Rightarrow> codex_json \<Rightarrow> codex_disk \<Rightarrow> payload \<Rightarrow> (string \<Rightarrow> string option) \<Rightarrow> payload" where
  "codex_usage_payload L J D row titles =
     (let sessionID = fst (codex_session_identity_from_row row);
          p0 = map_of [(''agent_type'', GString ''codex''), (''metadata_only'', GBool True)];
          p1 = (if sessionID \<noteq> [] then put_hashed L ''session_id'' sessionID p0 else p0);
          p2 = copy_codex_parent_session_field L J D row p1;
          repoID = first_string row [''repo_id'', ''repository_id''];
          p3 = (if repoID \<noteq> [] then put_hashed L ''repo_id'' repoID p2 else p2);
          p4 = source_fields L row p3;
          p5 = copy_codex_title_fields L row (copy_string_field row ''model'' (copy_string_field row ''model_provider'' p4));
          p6 = index_title_fields (codex_session_index_title L titles row) p5;
          p7 = copy_string_field row ''git_sha'' (copy_string_field row ''git_branch'' p6);
          p8 = copy_codex_time_field L row ''updated_at'' (copy_codex_time_field L row ''created_at'' p7);
          p9 = foldl (\<lambda>p c. if c = ''tokens_used'' then p else copy_number_field row c p) p8 codex_token_columns
      in token_fields J D row p9)"

section \<open>The rows of a collection\<close>

definition hash_optional_codex_session_id :: "go_lib \<Rightarrow> string \<Rightarrow> string" where
  "hash_optional_codex_session_id L v = (if trim_space v = [] then [] else short_hash L v)"

definition codex_turn_session :: "go_lib \<Rightarrow> payload \<Rightarrow> payload \<Rightarrow> codex_session option" where
  "codex_turn_session L row usage =
     (let session = \<lparr>cs_SessionID = first_string usage [''session_id_hash'', ''session_id''],
            cs_LegacySessionID = hash_optional_codex_session_id L (snd (codex_session_identity_from_row row)),
            cs_ParentSessionID = first_string usage [''parent_session_id_hash'', ''parent_session_id''],
            cs_RolloutPath = first_string row [''rollout_path''],
            cs_Title = first_string usage codex_title_fields,
            cs_Model = first_string row [''model'', ''model_name'', ''model_id''],
            cs_Repo = first_string usage [''repo'', ''repo_path_hash'', ''cwd_hash'', ''source_hash'', ''workspace_hash''],
            cs_ModelProvider = first_string row [''model_provider''],
            cs_InheritedTurnIDHashes = [], cs_TotalEncoding = []\<rparr>
      in if cs_SessionID session \<noteq> [] \<and> cs_RolloutPath session \<noteq> [] then Some session else None)"

definition with_spawn_parent :: "(string \<Rightarrow> string option) \<Rightarrow> payload \<Rightarrow> payload" where
  "with_spawn_parent parents row =
     (let sessionID = fst (codex_session_identity_from_row row); parentID = title_of parents sessionID
      in if sessionID \<noteq> [] \<and> parentID \<noteq> [] then row(''parent_session_id'' \<mapsto> GString parentID) else row)"

definition collect_codex_rows ::
  "go_lib \<Rightarrow> codex_json \<Rightarrow> codex_disk \<Rightarrow> payload list \<Rightarrow> (string \<Rightarrow> string option) \<Rightarrow> (string \<Rightarrow> string option)
    \<Rightarrow> payload list \<times> payload list \<times> codex_session list" where
  "collect_codex_rows L J D rows parents titles =
     (let rows1 = map (with_spawn_parent parents) rows;
          usage = map (\<lambda>row. (row, codex_usage_payload L J D row titles)) rows1
      in (map snd usage,
          List.map_filter (\<lambda>(row, p). codex_transcript_payload L J D row p titles) (take codex_max_transcript_rows usage),
          List.map_filter (\<lambda>(row, p). codex_turn_session L row p) usage))"

text \<open>A row lists its columns. The aggregate of the database: a Go map whose entries are listed.\<close>

type_synonym db_row = "(string \<times> gval) list"

definition codex_aggregate :: "go_lib \<Rightarrow> string \<Rightarrow> db_row list \<Rightarrow> (string \<times> gval) list" where
  "codex_aggregate L dbPath rows =
     (let p0 = [(''state_db_present'', GBool True), (''state_db_hash'', GString (short_hash L dbPath)),
                (''sqlite3_present'', GBool True), (''threads'', GInt 0), (''total_tokens'', GInt 0), (''metadata_only'', GBool True)]
      in case rows of
           [] \<Rightarrow> p0
         | row # _ \<Rightarrow>
             (let p1 = foldl (\<lambda>p (k, v). AList.update k v p) p0 row;
                  p2 = (case as_int64 (map_of row ''session_count'') of
                          Some n \<Rightarrow> AList.update ''threads'' (GInt64 n) p1 | None \<Rightarrow> p1)
              in AList.update ''total_tokens'' (GInt64 (row_total_tokens (map_of row))) p2))"

text \<open>
  \<open>readCodexState\<close>: the aggregate and, unless the database has no usable columns, the usage
  payloads, transcript payloads and turn sessions; \<open>Inl\<close> when a query fails.
\<close>

definition rows_as_maps :: "(string \<Rightarrow> string + db_row list) \<Rightarrow> string \<Rightarrow> string + payload list" where
  "rows_as_maps query sql = map_sum (\<lambda>e. e) (map map_of) (query sql)"

definition read_codex_state ::
  "go_lib \<Rightarrow> codex_json \<Rightarrow> codex_disk \<Rightarrow> bool \<Rightarrow> (string \<Rightarrow> string + db_row list) \<Rightarrow> string option \<Rightarrow> string
    \<Rightarrow> string + (string \<times> gval) list \<times> payload list \<times> payload list \<times> codex_session list" where
  "read_codex_state L J D sqlite3Present query indexContent dbPath =
     (if \<not> sqlite3Present
      then Inr ([(''state_db_present'', GBool True), (''state_db_hash'', GString (short_hash L dbPath)),
                 (''sqlite3_present'', GBool False)], [], [], [])
      else rbind (sqlite_columns (rows_as_maps query) ''threads'') (\<lambda>columns.
           rbind (query (codex_aggregate_sql columns)) (\<lambda>aggregateRows.
             let aggregate = codex_aggregate L dbPath aggregateRows; usageSQL = codex_usage_sql columns in
             if usageSQL = [] then Inr (aggregate, [], [], [])
             else rbind (rows_as_maps query usageSQL) (\<lambda>rows.
                    Inr (aggregate, collect_codex_rows L J D rows (codex_thread_spawn_parents (rows_as_maps query))
                           (codex_session_index_titles L J indexContent))))))"

end
