(* ===== verification/Codex_Discovery.thy ===== *)
theory Codex_Discovery
  imports Codex_State
begin

text \<open>
  \<open>pkg/daemon/codex_turn_discovery.go\<close> and \<open>codex_turn_discovery_cache.go\<close>: finding the rollouts
  below the sessions directory. The first line of a rollout names its session; a cache in memory
  keeps what was read of each file and the modification times of the directories, so that a
  later discovery reads only files and directories that changed. The file system is the tree
  of one moment: files with size and modification time, directories, and what walking reports.
\<close>

section \<open>Reading one rollout\<close>

definition codex_fallback_title_scan_bytes :: int where "codex_fallback_title_scan_bytes = 1024 * 1024"

definition clean_codex_fallback_title :: "string \<Rightarrow> string" where
  "clean_codex_fallback_title v =
     (let marker = ''## My request:'';
          tl = (case last_index_of v marker of Some i \<Rightarrow> drop (i + length marker) v | None \<Rightarrow> v);
          joined = join (Go_Strings.fields tl) '' '';
          rs = runes joined
      in trim_space (if length rs > 120 then concat (map encode_rune (take 120 rs)) else joined))"

text \<open>The title a record gives, and whether a turn starts with it.\<close>

definition codex_user_title_state_from_record :: "go_lib \<Rightarrow> codex_json \<Rightarrow> string \<Rightarrow> string \<times> bool" where
  "codex_user_title_state_from_record L J line =
     (case cj_typed J line of
        Some (ty, Some p) \<Rightarrow>
          (let payloadType = lower L (trim_space (first_string p [''type'']));
               tx = (if ty = ''response_item'' \<and> payloadType = ''message'' \<and> equal_fold (first_string p [''role'']) ''user''
                     then codex_content_text (p ''content'')
                     else if ty = ''event_msg'' \<and> payloadType = ''user_message'' then first_string p [''message''] else [])
           in (clean_codex_fallback_title tx,
               ty = ''turn_context'' \<or> (ty = ''event_msg'' \<and> payloadType = ''task_started'')))
      | _ \<Rightarrow> ([], False))"

text \<open>The lines that end with a line feed, and what follows the last of them.\<close>

fun title_scan :: "go_lib \<Rightarrow> codex_json \<Rightarrow> int \<Rightarrow> string list \<Rightarrow> string \<Rightarrow> string \<times> bool" where
  "title_scan L J bytesRead [] open_line =
     (if bytesRead \<ge> codex_fallback_title_scan_bytes then ([], False)
      else let (title, started) = codex_user_title_state_from_record L J open_line in
           if title \<noteq> [] then (title, False) else ([], \<not> started))"
| "title_scan L J bytesRead (l # ls) open_line =
     (if bytesRead \<ge> codex_fallback_title_scan_bytes then ([], False)
      else let (title, started) = codex_user_title_state_from_record L J l in
           if title \<noteq> [] then (title, False) else if started then ([], False)
           else title_scan L J (bytesRead + int (length l)) ls open_line)"

definition first_codex_user_title :: "go_lib \<Rightarrow> codex_json \<Rightarrow> string \<Rightarrow> string \<times> bool" where
  "first_codex_user_title L J content =
     (let parts = split content line_feed in title_scan L J 0 (map (\<lambda>l. l @ line_feed) (butlast parts)) (last parts))"

datatype rollout_read = Read_Error string | Self_Parent | No_Session | Session_Read codex_session bool

definition read_codex_turn_session :: "go_lib \<Rightarrow> codex_json \<Rightarrow> codex_disk \<Rightarrow> string \<Rightarrow> rollout_read" where
  "read_codex_turn_session L J D path =
     (case cd_file D path of
        None \<Rightarrow> Read_Error (cd_error D path)
      | Some content \<Rightarrow>
          (let parts = split content line_feed;
               line = (if tl parts = [] then hd parts else hd parts @ line_feed)
           in case cj_meta J line of
                None \<Rightarrow> Read_Error (cd_error D path)
              | Some m \<Rightarrow>
                  (let (rawID, legacyID) = codex_session_identity (me_ID m) (me_SessionID m);
                       (title, titlePending) = first_codex_user_title L J (drop (length line) content);
                       parentID = codex_fork_parent_from_json_line J line;
                       cwd = trim_space (me_CWD m)
                   in if me_Type m \<noteq> ''session_meta'' \<or> rawID = [] then No_Session
                      else if parentID \<noteq> [] \<and> trim_space parentID = rawID then Self_Parent
                      else Session_Read
                        \<lparr>cs_SessionID = short_hash L rawID, cs_LegacySessionID = hash_optional_codex_session_id L legacyID,
                         cs_ParentSessionID = (if parentID \<noteq> [] then short_hash L parentID else []), cs_RolloutPath = path,
                         cs_Title = title, cs_Model = trim_space (me_Model m),
                         cs_Repo = (if cwd \<noteq> [] then short_hash L cwd else []), cs_ModelProvider = trim_space (me_ModelProvider m),
                         cs_InheritedTurnIDHashes = [], cs_TotalEncoding = []\<rparr> titlePending)))"

section \<open>The cache\<close>

record file_info =
  fi_Size :: int
  fi_ModTime :: int

record rollout_tree =
  rt_files :: "(string \<times> file_info) list"
  rt_directories :: "(string \<times> int) list"
  rt_errors :: "string \<Rightarrow> string list"

record rollout_cache_entry =
  rce_size :: int
  rce_modifiedAt :: int
  rce_titlePending :: bool
  rce_retryPending :: bool
  rce_validationFailed :: bool
  rce_session :: codex_session

definition no_codex_session :: codex_session where
  "no_codex_session =
     \<lparr>cs_SessionID = [], cs_LegacySessionID = [], cs_ParentSessionID = [], cs_RolloutPath = [], cs_Title = [], cs_Model = [],
      cs_Repo = [], cs_ModelProvider = [], cs_InheritedTurnIDHashes = [], cs_TotalEncoding = []\<rparr>"

record discovery_cache =
  dc_entries :: "(string \<times> rollout_cache_entry) list"
  dc_directories :: "(string \<times> int) list"
  dc_initializedRoots :: "string list"

definition put_entry :: "string \<Rightarrow> rollout_cache_entry \<Rightarrow> discovery_cache \<Rightarrow> discovery_cache" where
  "put_entry path e cache = cache\<lparr>dc_entries := smap_put path e (dc_entries cache)\<rparr>"

text \<open>\<open>filepath.Rel\<close> on cleaned absolute paths.\<close>

definition path_within :: "string \<Rightarrow> string \<Rightarrow> bool" where
  "path_within root path \<longleftrightarrow> path = root \<or> has_prefix path (if has_suffix root ''/'' then root else root @ ''/'')"

definition same_file :: "rollout_cache_entry \<Rightarrow> file_info \<Rightarrow> bool" where
  "same_file e info \<longleftrightarrow> rce_size e = fi_Size info \<and> rce_modifiedAt e = fi_ModTime info"

definition entry_of_read :: "file_info \<Rightarrow> rollout_read \<Rightarrow> rollout_cache_entry" where
  "entry_of_read info r =
     (let e = \<lparr>rce_size = fi_Size info, rce_modifiedAt = fi_ModTime info, rce_titlePending = False, rce_retryPending = False,
               rce_validationFailed = False, rce_session = no_codex_session\<rparr>
      in case r of
           Session_Read s pending \<Rightarrow> e\<lparr>rce_titlePending := pending, rce_session := s\<rparr>
         | Self_Parent \<Rightarrow> e\<lparr>rce_validationFailed := True\<rparr>
         | _ \<Rightarrow> e\<lparr>rce_retryPending := True\<rparr>)"

definition read_errors :: "string \<Rightarrow> rollout_read \<Rightarrow> string list" where
  "read_errors path r =
     (case r of
        Read_Error e \<Rightarrow> [path @ '': '' @ e]
      | Self_Parent \<Rightarrow> [path @ '': codex fork parent matches canonical session id'']
      | _ \<Rightarrow> [])"

text \<open>\<open>cachedCodexTurnSession\<close>: the cache afterwards and the errors.\<close>

definition cached_codex_turn_session ::
  "go_lib \<Rightarrow> codex_json \<Rightarrow> codex_disk \<Rightarrow> string \<Rightarrow> file_info \<Rightarrow> discovery_cache \<Rightarrow> discovery_cache \<times> string list" where
  "cached_codex_turn_session L J D path info cache =
     (let again = (let r = read_codex_turn_session L J D path in (put_entry path (entry_of_read info r) cache, read_errors path r)) in
      case map_of (dc_entries cache) path of
        None \<Rightarrow> again
      | Some e \<Rightarrow>
          if same_file e info \<and> (rce_validationFailed e \<or> \<not> rce_retryPending e) then (cache, [])
          else if fi_Size info > rce_size e \<and> \<not> rce_titlePending e \<and> \<not> rce_retryPending e \<and> \<not> rce_validationFailed e
          then (put_entry path (e\<lparr>rce_size := fi_Size info, rce_modifiedAt := fi_ModTime info\<rparr>) cache, [])
          else again)"

definition pending_entry :: "(string \<Rightarrow> string option) \<Rightarrow> rollout_cache_entry \<Rightarrow> bool" where
  "pending_entry titles e \<longleftrightarrow>
     rce_retryPending e \<or> rce_validationFailed e \<or>
     (rce_titlePending e \<and> trim_space (title_of titles (cs_SessionID (rce_session e))) = [])"

definition refresh_step ::
  "go_lib \<Rightarrow> codex_json \<Rightarrow> codex_disk \<Rightarrow> rollout_tree \<Rightarrow> discovery_cache \<times> string list \<Rightarrow> string \<times> rollout_cache_entry \<Rightarrow> discovery_cache \<times> string list" where
  "refresh_step L J D T = (\<lambda>(cache, errs) (path, e).
     case map_of (rt_files T) path of
       None \<Rightarrow> (cache, errs)
     | Some info \<Rightarrow>
         if \<not> rce_retryPending e \<and> same_file e info then (cache, errs)
         else let (cache1, more) = cached_codex_turn_session L J D path info cache in (cache1, errs @ more))"

definition refresh_pending_codex_rollouts ::
  "go_lib \<Rightarrow> codex_json \<Rightarrow> codex_disk \<Rightarrow> rollout_tree \<Rightarrow> string \<Rightarrow> (string \<Rightarrow> string option) \<Rightarrow> discovery_cache \<Rightarrow> discovery_cache \<times> string list" where
  "refresh_pending_codex_rollouts L J D T root titles cache =
     foldl (refresh_step L J D T) (cache, [])
       (filter (\<lambda>(path, e). path_within root path \<and> pending_entry titles e) (dc_entries cache))"

fun uncovered :: "string list \<Rightarrow> string list \<Rightarrow> string list" where
  "uncovered selected [] = selected"
| "uncovered selected (c # cs) =
     uncovered (if list_ex (\<lambda>parent. path_within parent c) selected then selected else selected @ [c]) cs"

definition changed_codex_discovery_directories :: "rollout_tree \<Rightarrow> string \<Rightarrow> discovery_cache \<Rightarrow> string list" where
  "changed_codex_discovery_directories T root cache =
     (let directories = filter (\<lambda>(path, _). path_within root path) (dc_directories cache);
          changed = map fst (filter (\<lambda>(path, modifiedAt). map_of (rt_directories T) path \<noteq> Some modifiedAt) directories)
      in if root \<notin> set (dc_initializedRoots cache) \<or> directories = [] then [root]
         else uncovered [] (sort_key length changed))"

definition remove_codex_discovery_subtree :: "string \<Rightarrow> discovery_cache \<Rightarrow> discovery_cache" where
  "remove_codex_discovery_subtree scanRoot cache =
     cache\<lparr>dc_entries := filter (\<lambda>(path, _). \<not> path_within scanRoot path) (dc_entries cache),
           dc_directories := filter (\<lambda>(path, _). \<not> path_within scanRoot path) (dc_directories cache)\<rparr>"

definition update_codex_discovery_subtree ::
  "string \<Rightarrow> string \<Rightarrow> string list \<Rightarrow> (string \<times> int) list \<Rightarrow> bool \<Rightarrow> discovery_cache \<Rightarrow> discovery_cache" where
  "update_codex_discovery_subtree root scanRoot seenFiles seenDirectories prune cache =
     (if \<not> prune then cache
      else cache\<lparr>dc_entries := filter (\<lambda>(path, _). path_within scanRoot path \<longrightarrow> path \<in> set seenFiles) (dc_entries cache),
                 dc_directories := foldl (\<lambda>m (path, modifiedAt). smap_put path modifiedAt m)
                   (filter (\<lambda>(path, _). path_within scanRoot path \<longrightarrow> path \<in> fst ` set seenDirectories) (dc_directories cache))
                   seenDirectories,
                 dc_initializedRoots := (if scanRoot = root then List.insert root (dc_initializedRoots cache)
                                         else dc_initializedRoots cache)\<rparr>)"

definition scan_codex_discovery_directory ::
  "go_lib \<Rightarrow> codex_json \<Rightarrow> codex_disk \<Rightarrow> rollout_tree \<Rightarrow> string \<Rightarrow> string \<Rightarrow> discovery_cache \<Rightarrow> discovery_cache \<times> string list" where
  "scan_codex_discovery_directory L J D T root scanRoot cache =
     (if map_of (rt_directories T) scanRoot = None then (remove_codex_discovery_subtree scanRoot cache, [])
      else
        let rollouts = filter (\<lambda>(path, _). path_within scanRoot path \<and> equal_fold (path_ext path) ''.jsonl'') (rt_files T);
            directories = filter (\<lambda>(path, _). path_within scanRoot path) (rt_directories T);
            (cache1, errs) = foldl (\<lambda>(cache, errs) (path, info).
               let (cache1, more) = cached_codex_turn_session L J D path info cache in (cache1, errs @ more)) (cache, []) rollouts
        in (update_codex_discovery_subtree root scanRoot (map fst rollouts) directories (rt_errors T scanRoot = []) cache1,
            rt_errors T scanRoot @ errs))"

text \<open>The sessions of the cache: of several rollouts of a session the newest, then the largest.\<close>

definition newer_entry :: "rollout_cache_entry \<Rightarrow> rollout_cache_entry \<Rightarrow> bool" where
  "newer_entry new old \<longleftrightarrow>
     rce_modifiedAt new > rce_modifiedAt old \<or> (rce_modifiedAt new = rce_modifiedAt old \<and> rce_size new > rce_size old)"

definition titled_entry :: "(string \<Rightarrow> string option) \<Rightarrow> string \<times> rollout_cache_entry \<Rightarrow> rollout_cache_entry" where
  "titled_entry titles = (\<lambda>(path, e).
     let title = trim_space (title_of titles (cs_SessionID (rce_session e))); s = (rce_session e)\<lparr>cs_RolloutPath := path\<rparr>
     in e\<lparr>rce_session := (if title \<noteq> [] then s\<lparr>cs_Title := title\<rparr> else s)\<rparr>)"

definition cached_codex_turn_sessions :: "string \<Rightarrow> (string \<Rightarrow> string option) \<Rightarrow> discovery_cache \<Rightarrow> codex_session list" where
  "cached_codex_turn_sessions root titles cache =
     (let usable = filter (\<lambda>(path, e). path_within root path \<and> \<not> rce_retryPending e \<and> cs_SessionID (rce_session e) \<noteq> []) (dc_entries cache);
          byID = merge_by (\<lambda>e. cs_SessionID (rce_session e)) newer_entry (map (titled_entry titles) usable)
      in sort_key cs_RolloutPath (map rce_session byID))"

definition discover_codex_turn_sessions_with_titles ::
  "go_lib \<Rightarrow> codex_json \<Rightarrow> codex_disk \<Rightarrow> rollout_tree \<Rightarrow> string \<Rightarrow> (string \<Rightarrow> string option) \<Rightarrow> discovery_cache
    \<Rightarrow> discovery_cache \<times> codex_session list \<times> string list" where
  "discover_codex_turn_sessions_with_titles L J D T root titles cache =
     (if root = [] \<or> root = ''.'' \<or> map_of (rt_directories T) root = None then (cache, [], [])
      else
        let (cache1, errs1) = refresh_pending_codex_rollouts L J D T root titles cache;
            (cache2, errs2) = foldl (\<lambda>(cache, errs) scanRoot.
               let (cache', more) = scan_codex_discovery_directory L J D T root scanRoot cache in (cache', errs @ more))
              (cache1, errs1) (changed_codex_discovery_directories T root cache1)
        in (cache2, cached_codex_turn_sessions root titles cache2, errs2))"

end
