(* ===== verification/Codex_Collection.thy ===== *)
theory Codex_Collection
  imports Codex_Tools Codex_State Codex_Discovery Codex_Collect Claude_Collect
begin

text \<open>
  \<open>pkg/daemon/codex_collection.go\<close>: one collection of Codex. The sessions of the thread database
  and the rollouts found on disk are merged, the turns of the rollouts collected, and the
  transcripts cut against the session baseline; the results are the events to queue and the
  commits to run once they are queued.
\<close>

section \<open>Merging sessions\<close>

text \<open>\<open>filepath.Clean\<close>: the second list is the cleaned path so far, innermost first.\<close>

definition codex_rollout_key :: "string \<Rightarrow> string" where
  "codex_rollout_key path = (if trim_space path = [] then [] else clean_path (trim_space path))"

definition fill :: "string \<Rightarrow> string \<Rightarrow> string" where
  "fill own other = (if own = [] then other else own)"

definition merge_codex_turn_session :: "codex_session \<Rightarrow> codex_session \<Rightarrow> codex_session" where
  "merge_codex_turn_session state discovered =
     (let d1 = (if cs_SessionID state = cs_SessionID discovered
                then discovered\<lparr>cs_LegacySessionID := fill (cs_LegacySessionID discovered) (cs_LegacySessionID state)\<rparr>
                else if cs_LegacySessionID state = cs_SessionID discovered
                then discovered\<lparr>cs_SessionID := cs_SessionID state, cs_LegacySessionID := cs_LegacySessionID state\<rparr>
                else discovered)
      in d1\<lparr>cs_ParentSessionID := fill (cs_ParentSessionID d1) (cs_ParentSessionID state),
            cs_Title := fill (cs_Title d1) (cs_Title state),
            cs_Model := fill (cs_Model d1) (cs_Model state),
            cs_Repo := fill (cs_Repo d1) (cs_Repo state),
            cs_ModelProvider := fill (cs_ModelProvider d1) (cs_ModelProvider state)\<rparr>)"

text \<open>The maps of the merge: sessions by identifier, and identifiers by rollout.\<close>

type_synonym session_maps = "(string \<times> codex_session) list \<times> (string \<times> string) list"

definition drop_key :: "string \<Rightarrow> (string \<times> 'v) list \<Rightarrow> (string \<times> 'v) list" where
  "drop_key k m = filter (\<lambda>(k', _). k' \<noteq> k) m"

definition index_session :: "codex_session \<Rightarrow> session_maps \<Rightarrow> session_maps" where
  "index_session s = (\<lambda>(byID, byRollout).
     (smap_put (cs_SessionID s) s byID,
      if codex_rollout_key (cs_RolloutPath s) = [] then byRollout
      else smap_put (codex_rollout_key (cs_RolloutPath s)) (cs_SessionID s) byRollout))"

definition known_codex_session :: "codex_session \<Rightarrow> session_maps \<Rightarrow> (string \<times> codex_session) option" where
  "known_codex_session discovered = (\<lambda>(byID, byRollout).
     case map_of byID (cs_SessionID discovered) of
       Some s \<Rightarrow> Some (cs_SessionID discovered, s)
     | None \<Rightarrow>
         (case map_of byRollout (codex_rollout_key (cs_RolloutPath discovered)) of
            Some i \<Rightarrow> Some (i, case map_of byID i of Some s \<Rightarrow> s | None \<Rightarrow> no_codex_session)
          | None \<Rightarrow> None))"

definition merge_discovered :: "codex_session \<Rightarrow> session_maps \<Rightarrow> session_maps" where
  "merge_discovered discovered maps =
     (case known_codex_session discovered maps of
        None \<Rightarrow> index_session discovered maps
      | Some (i, existing) \<Rightarrow>
          index_session (merge_codex_turn_session existing discovered)
            (drop_key i (fst maps), drop_key (codex_rollout_key (cs_RolloutPath existing)) (snd maps)))"

definition merge_codex_turn_sessions :: "codex_session list \<Rightarrow> codex_session list \<Rightarrow> codex_session list" where
  "merge_codex_turn_sessions stateSessions discoveredSessions =
     map snd (fst (fold merge_discovered discoveredSessions (fold index_session stateSessions ([], []))))"

definition self_parent :: "codex_session \<Rightarrow> bool" where
  "self_parent s \<longleftrightarrow> cs_SessionID s \<noteq> [] \<and> cs_ParentSessionID s = cs_SessionID s"

definition filter_invalid_codex_turn_sessions :: "codex_session list \<Rightarrow> codex_session list \<times> bool" where
  "filter_invalid_codex_turn_sessions sessions = (filter (\<lambda>s. \<not> self_parent s) sessions, list_ex self_parent sessions)"

section \<open>The baseline\<close>

definition codex_rollout_baseline_source :: string where "codex_rollout_baseline_source = ''codex-rollout-jsonl''"

definition codex_baseline_source_for_collection :: "string \<Rightarrow> bool \<Rightarrow> nat \<Rightarrow> payload list \<Rightarrow> string" where
  "codex_baseline_source_for_collection stateDB stateReadOK transcriptFallbacks transcriptEvents =
     (if \<not> stateReadOK \<and> transcriptFallbacks = 0 then []
      else if stateDB \<noteq> [] then stateDB
      else if transcriptEvents \<noteq> [] then codex_rollout_baseline_source else [])"

text \<open>The counters that \<open>filterCodexSessionBackfill\<close> reports about a collection.\<close>

definition codex_baseline_meta ::
  "go_lib \<Rightarrow> config \<Rightarrow> time \<Rightarrow> baseline_store \<Rightarrow> string \<Rightarrow> payload list \<Rightarrow> payload list \<Rightarrow> time \<Rightarrow> (string \<times> gval) list" where
  "codex_baseline_meta L cfg now store source usageEvents transcriptEvents observedAt0 =
     (let observedAt = (if is_zero observedAt0 then now else observedAt0);
          stateDBHash = short_hash L source;
          baseline = (case st_StateDBs store stateDBHash of
                        Some b \<Rightarrow> b | None \<Rightarrow> \<lparr>cb_InitializedAt = [], cb_StateDBHash = [], cb_Sessions = Map.empty\<rparr>);
          (filtered, updates1, ignored1) = filter_codex_usage_baseline L baseline usageEvents;
          (_, updates, ignored) = filter_codex_transcript_baseline L (daily_work_location L (cfg_DailyWorkTimezone cfg)) now
             baseline transcriptEvents updates1 ignored1 observedAt
      in [(''session_backfill'', GString ''disabled''), (''session_baseline_enabled'', GBool True),
          (''session_baseline_state_db_hash'', GString stateDBHash), (''usage_summary_mode'', GString ''cursor_only''),
          (''session_baseline_initialized'', GBool (cb_InitializedAt baseline = []))]
         @ (if cb_InitializedAt baseline = []
            then [(''historical_sessions_ignored'',
                   count_value (dom (cb_Sessions (initialize_codex_baseline L baseline stateDBHash usageEvents transcriptEvents observedAt))))]
            else [(''session_baseline_ignored_sessions'',
                   count_value (dom (fst (add_baseline_sessions L updates (cb_Sessions baseline))))),
                  (''historical_sessions_ignored'', GInt (int (length ignored))),
                  (''usage_summary_events_cursor_only'', GInt (int (length filtered)))]))"

section \<open>One collection\<close>

record codex_world =
  cw_json :: codex_json
  cw_disk :: codex_disk
  cw_tree :: rollout_tree
  cw_root :: string
  cw_index :: "string option"
  cw_sqlite3 :: bool
  cw_query :: "string \<Rightarrow> string + db_row list"
  cw_turns :: "string + turn_store"
  cw_turn_error :: "turn_error \<Rightarrow> string"
  cw_baseline :: "string + baseline_store"

datatype codex_commit =
    SaveCodexTurns turn_store
  | SaveCodexBaseline string codex_baseline

definition codex_warning_event :: "go_lib \<Rightarrow> config \<Rightarrow> fresh \<Rightarrow> string \<Rightarrow> string \<Rightarrow> string \<Rightarrow> nat \<Rightarrow> event" where
  "codex_warning_event L cfg fresh stateDB scope err n =
     snapshot_event L cfg fresh n ''adapter.warning'' ''codex'' ''codex''
       ([(''error'', GString (redact_and_truncate err 2048)), (''scope'', GString scope)]
        @ (if stateDB \<noteq> [] then [(''state_db_hash'', GString (short_hash L stateDB))] else []))"

definition counter_reset_event :: "go_lib \<Rightarrow> config \<Rightarrow> fresh \<Rightarrow> counter_reset \<Rightarrow> nat \<Rightarrow> event" where
  "counter_reset_event L cfg fresh r n =
     snapshot_event L cfg fresh n ''adapter.warning'' ''codex'' ''codex''
       [(''scope'', GString ''turn_usage_counter_reset''), (''session_id_hash'', GString (cn_SessionIDHash r)),
        (''turn_id_hash'', GString (cn_TurnIDHash r))]"

text \<open>The sessions that were scanned before one failed have already reported their counter resets.\<close>

fun outputs_before_error where
  "outputs_before_error step cursors [] = []"
| "outputs_before_error step cursors (s # ss) =
     (case step cursors s of Inl _ \<Rightarrow> [] | Inr (cursors', outs) \<Rightarrow> outs @ outputs_before_error step cursors' ss)"

definition codex_resets :: "go_lib \<Rightarrow> codex_input \<Rightarrow> config \<Rightarrow> codex_session list \<Rightarrow> turn_store \<Rightarrow> counter_reset list" where
  "codex_resets L I cfg sessions store =
     (let cutover = parse_or_zero L (ts_CodexIdentityCutoverAt store);
          step = collect_codex_session L I (cfg_DaemonID cfg) (cfg_TurnUsageTotal cfg) (trim_space (ts_InitializedAt store) = [])
            (parse_or_zero L (ts_InitializedAt store)) (if is_zero cutover then observed_at I else cutover) (sessions_by_id sessions)
      in List.map_filter (\<lambda>out. case out of Counter_Reset r \<Rightarrow> Some r | _ \<Rightarrow> None)
           (outputs_before_error step (ts_Sessions store) sessions))"

definition codex_turns_of :: "codex_output list \<Rightarrow> turn_usage list" where
  "codex_turns_of outs = List.map_filter (\<lambda>out. case out of Turn u \<Rightarrow> Some u | _ \<Rightarrow> None) outs"

text \<open>
  The events of a collection are numbered in their order, because each takes the identifier and
  the clock of its own: an event that is not yet numbered is a function of its number.
\<close>

definition codex_turn_part ::
  "go_lib \<Rightarrow> config \<Rightarrow> fresh \<Rightarrow> codex_world \<Rightarrow> string \<Rightarrow> codex_session list \<Rightarrow> time \<Rightarrow> (nat \<Rightarrow> event) list \<times> codex_commit list" where
  "codex_turn_part L cfg fresh W stateDB sessions observedAt =
     (let I = \<lparr>ci_decode = cj_record (cw_json W), ci_files = cd_file (cw_disk W), ci_observedAt = observedAt, ci_now = snd (fresh 0)\<rparr>;
          warning = codex_warning_event L cfg fresh stateDB ''turn_usage''
      in case cw_turns W of
           Inl err \<Rightarrow> ([warning err], [])
         | Inr store \<Rightarrow>
             (let resets = map (counter_reset_event L cfg fresh) (codex_resets L I cfg sessions store) in
              case collect_codex L I (cfg_DaemonID cfg) (cfg_TurnUsageTotal cfg) sessions store of
                Inl err \<Rightarrow> (warning (cw_turn_error W err) # resets, [])
              | Inr (next, outs) \<Rightarrow>
                  (map (\<lambda>u n. turn_event L cfg fresh ''codex'' n u) (codex_turns_of outs) @ resets, [SaveCodexTurns next])))"

text \<open>The tool calls of a session are reported with the first of its transcripts.\<close>

fun transcript_events ::
  "go_lib \<Rightarrow> codex_world \<Rightarrow> config \<Rightarrow> fresh \<Rightarrow> string list \<Rightarrow> payload list \<Rightarrow> (nat \<Rightarrow> event) list" where
  "transcript_events L W cfg fresh collected [] = []"
| "transcript_events L W cfg fresh collected (transcript # rest) =
     (let sessionID = first_string transcript [''session_id'', ''session_id_hash''];
          calls = (if sessionID \<in> set collected then []
                   else codex_tool_call_events_from_transcript L (cw_json W) (cw_disk W) cfg (fresh 0) transcript);
          public = codex_public_transcript_payload transcript
      in map (\<lambda>ev n. ev) calls
         @ (\<lambda>n. (fresh_event cfg fresh n transcript_chunk_event ''codex'' ''codex'' public)\<lparr>EventID := transcript_chunk_event_id public\<rparr>)
         # transcript_events L W cfg fresh (sessionID # collected) rest)"

definition codex_baseline_part ::
  "go_lib \<Rightarrow> config \<Rightarrow> fresh \<Rightarrow> codex_world \<Rightarrow> string \<Rightarrow> string \<Rightarrow> payload list \<Rightarrow> payload list \<Rightarrow> time
    \<Rightarrow> (nat \<Rightarrow> event) list \<times> payload list \<times> codex_commit list \<times> (string \<times> gval) list" where
  "codex_baseline_part L cfg fresh W stateDB source usageEvents transcripts observedAt =
     (if source = [] then ([], transcripts, [], [])
      else case filter_codex_session_backfill L cfg (snd (fresh 0)) (cw_baseline W) source usageEvents transcripts observedAt of
             Inl err \<Rightarrow> ([codex_warning_event L cfg fresh stateDB ''session_baseline'' err], [], [], [])
           | Inr r \<Rightarrow>
               ([], cf_TranscriptEvents r,
                case cf_Commit r of None \<Rightarrow> [] | Some b \<Rightarrow> [SaveCodexBaseline (short_hash L source) b],
                case cw_baseline W of
                  Inl _ \<Rightarrow> []
                | Inr store \<Rightarrow> codex_baseline_meta L cfg (snd (fresh 0)) store source usageEvents transcripts observedAt))"

definition codex_state_part ::
  "go_lib \<Rightarrow> codex_world \<Rightarrow> string \<Rightarrow> string option \<times> (string \<times> gval) list \<times> payload list \<times> payload list \<times> codex_session list" where
  "codex_state_part L W stateDB =
     (if stateDB = [] then (None, [(''state_db_present'', GBool False)], [], [], [])
      else case read_codex_state L (cw_json W) (cw_disk W) (cw_sqlite3 W) (cw_query W) (cw_index W) stateDB of
             Inl err \<Rightarrow> (Some err, [(''state_db_present'', GBool True), (''state_db_hash'', GString (short_hash L stateDB))], [], [], [])
           | Inr state \<Rightarrow> (None, state))"

definition put_all :: "(string \<times> gval) list \<Rightarrow> (string \<times> gval) list \<Rightarrow> (string \<times> gval) list" where
  "put_all new p = foldl (\<lambda>p (k, v). AList.update k v p) p new"

definition only_if :: "bool \<Rightarrow> 'a list \<Rightarrow> 'a list" where
  "only_if c xs = (if c then xs else [])"

definition collect_codex_state_events ::
  "go_lib \<Rightarrow> config \<Rightarrow> fresh \<Rightarrow> codex_world \<Rightarrow> discovery_cache \<Rightarrow> string \<Rightarrow> time
    \<Rightarrow> discovery_cache \<times> event list \<times> codex_commit list" where
  "collect_codex_state_events L cfg fresh W cache stateDB observedAt =
     (let (stateErr, aggregate, usageEvents, stateTranscripts, stateSessions) = codex_state_part L W stateDB;
          titles = codex_session_index_titles L (cw_json W) (cw_index W);
          (cache1, discovered, discoveryErrs) =
            discover_codex_turn_sessions_with_titles L (cw_json W) (cw_disk W) (cw_tree W) (cw_root W) titles cache;
          (turnSessions, invalidIdentity) =
            filter_invalid_codex_turn_sessions (merge_codex_turn_sessions stateSessions discovered);
          (transcripts, fallbacks) =
            merge_codex_transcript_fallbacks L (cw_json W) (cw_disk W) stateTranscripts turnSessions;
          (turnEvents, turnCommits) = codex_turn_part L cfg fresh W stateDB turnSessions observedAt;
          source = codex_baseline_source_for_collection stateDB (stateErr = None) fallbacks transcripts;
          (baselineEvents, chunks, baselineCommits, meta) =
            codex_baseline_part L cfg fresh W stateDB source usageEvents transcripts observedAt;
          summary = put_all meta (put_all
            [(''transcript_fallback'', GBool True), (''transcript_fallback_sessions'', GInt (int (length discovered))),
             (''transcript_fallback_payloads'', GInt (int fallbacks))] aggregate);
          warning = codex_warning_event L cfg fresh stateDB;
          events =
            (case stateErr of None \<Rightarrow> [] | Some err \<Rightarrow> [warning ''state_db'' err])
            @ only_if (discoveryErrs \<noteq> []) [warning ''turn_discovery'' (join discoveryErrs line_feed)]
            @ only_if invalidIdentity [warning ''turn_identity'' ''ignored codex session with self-referential fork parent'']
            @ turnEvents @ baselineEvents
            @ [\<lambda>n. snapshot_event L cfg fresh n ''codex.usage_summary'' ''codex'' ''codex'' summary]
            @ transcript_events L W cfg fresh [] chunks
      in (cache1, map (\<lambda>(n, ev). ev n) (enumerate 0 events), turnCommits @ baselineCommits))"

record codex_stores =
  cst_turns :: "string + turn_store"
  cst_baseline :: "string + baseline_store"

definition put_codex :: "codex_commit \<Rightarrow> codex_stores \<Rightarrow> codex_stores" where
  "put_codex c s =
     (case c of
        SaveCodexTurns t \<Rightarrow> s\<lparr>cst_turns := Inr t\<rparr>
      | SaveCodexBaseline h b \<Rightarrow> s\<lparr>cst_baseline := map_sum (\<lambda>e. e) (commit_codex_baseline h b) (cst_baseline s)\<rparr>)"

end
