(* ===== verification/Mcp_Inventory.thy ===== *)
theory Mcp_Inventory
  imports Mcpmeta Claude_Payload
begin

text \<open>
  \<open>pkg/daemon/mcp_inventory.go\<close> and \<open>claude_mcp_inventory.go\<close>: the MCP servers that Codex prints
  and that Claude Code has configured, as the inventory a heartbeat carries.
\<close>

section \<open>Statuses\<close>

record mcp_server_configuration =
  ms_Name :: string
  ms_Enabled :: bool

record mcp_inventory_status =
  mi_ScanStatus :: string
  mi_ObservedAt :: string
  mi_Hash :: string
  mi_ErrorCode :: string
  mi_Servers :: "mcp_server_configuration list"

record adapter_status =
  as_Name :: string
  as_Detected :: bool
  as_Version :: string
  as_Status :: string
  as_UpdatedAt :: string
  as_MCPInventory :: "mcp_inventory_status option"

definition inventory_error :: "go_lib \<Rightarrow> string \<Rightarrow> string \<Rightarrow> time \<Rightarrow> mcp_inventory_status" where
  "inventory_error L scanStatus code observedAt =
     \<lparr>mi_ScanStatus = scanStatus, mi_ObservedAt = format_rfc3339 L observedAt, mi_Hash = [], mi_ErrorCode = code, mi_Servers = []\<rparr>"

definition server_json :: "mcp_server_configuration \<Rightarrow> (string \<times> gval) list" where
  "server_json s = [(''name'', GString (ms_Name s)), (''enabled'', GBool (ms_Enabled s))]"

definition inventory_of :: "go_lib \<Rightarrow> mcp_server_configuration list \<Rightarrow> time \<Rightarrow> mcp_inventory_status" where
  "inventory_of L servers observedAt =
     \<lparr>mi_ScanStatus = ''ok'', mi_ObservedAt = format_rfc3339 L observedAt,
      mi_Hash = hash_string L (json_text L (GMaps (map server_json servers))), mi_ErrorCode = [], mi_Servers = servers\<rparr>"

section \<open>The list Codex prints\<close>

text \<open>\<open>strings.Trim\<close> with a set of runes, given by their encodings.\<close>

function strip_left :: "string list \<Rightarrow> string \<Rightarrow> string" where
  "strip_left cuts s =
     (case find (\<lambda>p. p \<noteq> [] \<and> has_prefix s p) cuts of None \<Rightarrow> s | Some p \<Rightarrow> strip_left cuts (drop (length p) s))"
  by pat_completeness auto
termination
  by (relation "measure (\<lambda>(cuts, s). length s)") (auto simp: has_prefix_def dest!: find_SomeD intro!: diff_less)

function strip_right :: "string list \<Rightarrow> string \<Rightarrow> string" where
  "strip_right cuts s =
     (case find (\<lambda>p. p \<noteq> [] \<and> has_suffix s p) cuts of None \<Rightarrow> s | Some p \<Rightarrow> strip_right cuts (take (length s - length p) s))"
  by pat_completeness auto
termination
  by (relation "measure (\<lambda>(cuts, s). length s)") (auto simp: has_suffix_def dest!: find_SomeD intro!: diff_less)

declare strip_left.simps [simp del] strip_right.simps [simp del]

definition status_marks :: "string list" where
  "status_marks = [[CHR 0xE2, CHR 0x9C, CHR 0x93], [CHR 0xE2, CHR 0x9C, CHR 0x97], [CHR 0xE2, CHR 0x9C, CHR 0x94], '':'']"

text \<open>\<open>mcpEnabledFromFields\<close>: enabled, and whether a field says so.\<close>

fun mcp_enabled_from_fields :: "go_lib \<Rightarrow> string list \<Rightarrow> bool \<times> bool" where
  "mcp_enabled_from_fields L [] = (True, False)"
| "mcp_enabled_from_fields L (field # more_fields) =
     (let word = lower L (strip_right status_marks (strip_left status_marks field)) in
      if word = ''enabled'' \<or> word = ''connected'' then (True, True)
      else if word = ''disabled'' then (False, True)
      else mcp_enabled_from_fields L more_fields)"

record list_scan =
  ls_servers :: "(string \<times> mcp_server_configuration) list"
  ls_recognized :: bool
  ls_health :: bool

definition list_row :: "go_lib \<Rightarrow> string \<Rightarrow> list_scan \<Rightarrow> list_scan" where
  "list_row L trimmed st =
     (let fs = Go_Strings.fields trimmed;
          name = normalize_server_name L (hd fs);
          (enabled, hasStatus) = mcp_enabled_from_fields L (tl fs);
          isHealthRow = ls_health st \<and> has_suffix (hd fs) '':'';
          key = lower L name;
          existing = map_of (ls_servers st) key;
          before = (case existing of Some s \<Rightarrow> ms_Enabled s | None \<Rightarrow> False)
      in if fs = [] \<or> trim_set name ''-'' = [] \<or> \<not> (hasStatus \<or> isHealthRow) then st
         else st\<lparr>ls_recognized := True,
                 ls_servers := (if existing = None \<or> hasStatus
                                then smap_put key \<lparr>ms_Name = name, ms_Enabled = enabled \<or> before\<rparr> (ls_servers st)
                                else ls_servers st)\<rparr>)"

definition list_line :: "go_lib \<Rightarrow> list_scan \<Rightarrow> string \<Rightarrow> list_scan" where
  "list_line L st line =
     (let trimmed = trim_space line; low = lower L trimmed in
      if trimmed = [] then st
      else if contains low ''no mcp'' then st\<lparr>ls_recognized := True\<rparr>
      else if has_prefix low ''name '' then st\<lparr>ls_recognized := True, ls_health := False\<rparr>
      else if has_prefix low ''checking '' \<and> contains low ''mcp'' then st\<lparr>ls_recognized := True, ls_health := True\<rparr>
      else list_row L trimmed st)"

definition parse_mcp_servers_from_list_output :: "go_lib \<Rightarrow> string \<Rightarrow> mcp_server_configuration list \<times> bool" where
  "parse_mcp_servers_from_list_output L output =
     (let st = foldl (list_line L) \<lparr>ls_servers = [], ls_recognized = False, ls_health = False\<rparr> (split output [CHR 0x0A])
      in (map snd (sort_key (\<lambda>(_, s). lower L (ms_Name s)) (ls_servers st)), ls_recognized st))"

definition mcp_inventory_from_list_output :: "go_lib \<Rightarrow> string \<Rightarrow> time \<Rightarrow> mcp_inventory_status" where
  "mcp_inventory_from_list_output L output observedAt =
     (let (servers, recognized) = parse_mcp_servers_from_list_output L output in
      if \<not> recognized then inventory_error L ''error'' ''parse_failed'' observedAt else inventory_of L servers observedAt)"

text \<open>The argument says whether the command ran into its deadline.\<close>

definition failed_mcp_inventory :: "go_lib \<Rightarrow> bool \<Rightarrow> time \<Rightarrow> mcp_inventory_status" where
  "failed_mcp_inventory L timedOut observedAt =
     inventory_error L ''error'' (if timedOut then ''timeout'' else ''command_failed'') observedAt"

definition unsupported_mcp_inventory :: "go_lib \<Rightarrow> time \<Rightarrow> mcp_inventory_status" where
  "unsupported_mcp_inventory L observedAt = inventory_error L ''unsupported'' ''unsupported'' observedAt"

section \<open>The configuration of Claude Code\<close>

text \<open>The names of the servers in a configuration, and those of its projects.\<close>

record claude_mcp_config =
  cm_MCPServers :: "string list"
  cm_Projects :: "string list list"

definition claude_mcp_config_max_bytes :: int where "claude_mcp_config_max_bytes = 8 * 1024 * 1024"

definition add_servers :: "go_lib \<Rightarrow> (string \<times> mcp_server_configuration) list \<Rightarrow> string list \<Rightarrow> (string \<times> mcp_server_configuration) list" where
  "add_servers L servers names =
     foldl (\<lambda>m name. let n = normalize_server_name L name in
              if n = [] then m else smap_put n \<lparr>ms_Name = n, ms_Enabled = True\<rparr> m) servers names"

definition claude_mcp_inventory_error :: "go_lib \<Rightarrow> time \<Rightarrow> string \<Rightarrow> time \<Rightarrow> mcp_inventory_status" where
  "claude_mcp_inventory_error L now code observedAt =
     inventory_error L ''error'' code (if is_zero observedAt then now else observedAt)"

definition claude_mcp_inventory_from_config_data ::
  "go_lib \<Rightarrow> (string \<Rightarrow> claude_mcp_config option) \<Rightarrow> time \<Rightarrow> string \<Rightarrow> time \<Rightarrow> mcp_inventory_status" where
  "claude_mcp_inventory_from_config_data L decode now data observedAt =
     (case decode data of
        None \<Rightarrow> claude_mcp_inventory_error L now ''config_parse_failed'' observedAt
      | Some config \<Rightarrow>
          inventory_of L (map snd (foldl (add_servers L) (add_servers L [] (cm_MCPServers config)) (cm_Projects config)))
            (if is_zero observedAt then now else observedAt))"

datatype file_read = Missing | Unreadable | Read_File string

definition claude_mcp_inventory ::
  "go_lib \<Rightarrow> (string \<Rightarrow> claude_mcp_config option) \<Rightarrow> time \<Rightarrow> (string \<Rightarrow> file_read) \<Rightarrow> string \<Rightarrow> time \<Rightarrow> mcp_inventory_status" where
  "claude_mcp_inventory L decode now read path observedAt =
     (if trim_space path = [] then claude_mcp_inventory_error L now ''config_path_unavailable'' observedAt
      else case read path of
             Missing \<Rightarrow> claude_mcp_inventory_from_config_data L decode now ''{}'' observedAt
           | Unreadable \<Rightarrow> claude_mcp_inventory_error L now ''config_unreadable'' observedAt
           | Read_File data \<Rightarrow>
               if int (length data) > claude_mcp_config_max_bytes then claude_mcp_inventory_error L now ''config_too_large'' observedAt
               else claude_mcp_inventory_from_config_data L decode now data observedAt)"

section \<open>Every configured server once\<close>

lemma keys_smap_put: "fst ` set (smap_put k v m) = insert k (fst ` set m)"
  by (induction k v m rule: smap_put.induct) auto

lemma sorted_smap_put: "sorted_wrt (<) (map fst m) \<Longrightarrow> sorted_wrt (<) (map fst (smap_put k v m))"
proof (induction k v m rule: smap_put.induct)
  case (2 k v k' v' m)
  then have below: "\<forall>y\<in>fst ` set m. k' < y" and rest: "sorted_wrt (<) (map fst m)" by auto
  consider "k = k'" | "k < k'" | "k \<noteq> k'" "\<not> k < k'" by blast
  then show ?case
  proof cases
    case 2
    with below have "\<forall>y\<in>fst ` set m. k < y" by (meson less_trans)
    with 2 below rest show ?thesis by simp
  next
    case 3
    then have "k' < k" by auto
    with below have "\<forall>y\<in>fst ` set (smap_put k v m). k' < y" by (simp add: keys_smap_put)
    moreover have "sorted_wrt (<) (map fst (smap_put k v m))" using "2.IH" 3 rest by simp
    ultimately show ?thesis using 3 by simp
  qed (use below rest in simp)
qed simp

definition named :: "(string \<times> mcp_server_configuration) list \<Rightarrow> bool" where
  "named m \<longleftrightarrow> list_all (\<lambda>(k, s). ms_Name s = k \<and> ms_Enabled s) m"

lemma named_smap_put: "named m \<Longrightarrow> named (smap_put n \<lparr>ms_Name = n, ms_Enabled = True\<rparr> m)"
  by (induction n "\<lparr>ms_Name = n, ms_Enabled = True\<rparr>" m rule: smap_put.induct) (auto simp: named_def)

lemma add_servers_inv:
  "sorted_wrt (<) (map fst m) \<and> named m \<Longrightarrow>
   sorted_wrt (<) (map fst (add_servers L m names)) \<and> named (add_servers L m names) \<and>
   fst ` set (add_servers L m names) = fst ` set m \<union> {n \<in> normalize_server_name L ` set names. n \<noteq> []}"
  unfolding add_servers_def
  by (induction names arbitrary: m) (auto simp: Let_def sorted_smap_put named_smap_put keys_smap_put)

lemma add_projects_inv:
  "sorted_wrt (<) (map fst m) \<and> named m \<Longrightarrow>
   sorted_wrt (<) (map fst (foldl (add_servers L) m projects)) \<and> named (foldl (add_servers L) m projects) \<and>
   fst ` set (foldl (add_servers L) m projects) = fst ` set m \<union> {n \<in> normalize_server_name L ` set (concat projects). n \<noteq> []}"
proof (induction projects arbitrary: m)
  case (Cons names projects)
  from Cons.IH [of "add_servers L m names"] add_servers_inv [OF Cons.prems, of L names] show ?case by auto
qed simp

lemma named_names: "named m \<Longrightarrow> map (ms_Name \<circ> snd) m = map fst m"
  by (induction m) (auto simp: named_def)

text \<open>
  The inventory of a readable configuration of Claude Code names exactly the servers that are
  configured for the user or for a project, each once under its normal name, in order, enabled.
\<close>

theorem claude_inventory_lists_each_server_once:
  assumes "decode data = Some config"
  shows "let inv = claude_mcp_inventory_from_config_data L decode now data observedAt; names = map ms_Name (mi_Servers inv) in
    mi_ScanStatus inv = ''ok'' \<and> sorted_wrt (<) names \<and> (\<forall>s\<in>set (mi_Servers inv). ms_Enabled s) \<and>
    set names = {n. n \<noteq> [] \<and> (\<exists>name\<in>set (cm_MCPServers config) \<union> \<Union> (set ` set (cm_Projects config)). n = normalize_server_name L name)}"
proof -
  let ?start = "add_servers L [] (cm_MCPServers config)" and ?final = "foldl (add_servers L) (add_servers L [] (cm_MCPServers config)) (cm_Projects config)"
  have "sorted_wrt (<) (map fst ?start) \<and> named ?start \<and> fst ` set ?start = {n \<in> normalize_server_name L ` set (cm_MCPServers config). n \<noteq> []}"
    using add_servers_inv [of "[]" L] by (simp add: named_def)
  with add_projects_inv [of ?start L] have "sorted_wrt (<) (map fst ?final)" "named ?final"
    "fst ` set ?final = {n \<in> normalize_server_name L ` (set (cm_MCPServers config) \<union> set (concat (cm_Projects config))). n \<noteq> []}"
    by auto
  note final = this
  have servers: "claude_mcp_inventory_from_config_data L decode now data observedAt =
      inventory_of L (map snd ?final) (if is_zero observedAt then now else observedAt)"
    using assms by (simp add: claude_mcp_inventory_from_config_data_def)
  have names: "map ms_Name (map snd ?final) = map fst ?final" using named_names [OF final(2)] by simp
  have enabled: "\<forall>s\<in>set (map snd ?final). ms_Enabled s" using final(2) by (auto simp: named_def list_all_iff)
  have listed: "set (map fst ?final) =
      {n. n \<noteq> [] \<and> (\<exists>name\<in>set (cm_MCPServers config) \<union> \<Union> (set ` set (cm_Projects config)). n = normalize_server_name L name)}"
    using final(3) by (simp add: image_iff conj_commute)
  show ?thesis
    unfolding servers Let_def inventory_of_def mcp_inventory_status.simps names
    by (intro conjI refl final(1) enabled listed)
qed

definition configured0 :: "string \<Rightarrow> claude_mcp_config option" where
  "configured0 = (\<lambda>_. Some \<lparr>cm_MCPServers = [''files'', ''Jira:''], cm_Projects = [[''jira'']]\<rparr>)"

lemma claude_inventory_lists_each_server_once_witness:
  "''jira'' \<in> set (map ms_Name (mi_Servers (claude_mcp_inventory_from_config_data lib0 configured0 3 ''{}'' 0)))"
proof -
  have "normalize_server_name lib0 ''Jira:'' = ''jira''" by code_simp
  then have "\<exists>name\<in>set [''files'', ''Jira:''] \<union> \<Union> (set ` set [[''jira'']]). ''jira'' = normalize_server_name lib0 name"
    by auto
  with claude_inventory_lists_each_server_once [of configured0 "''{}''" _ lib0 3 0] show ?thesis
    by (auto simp: configured0_def Let_def)
qed

end
