(* ===== verification/Collectors.thy ===== *)
theory Collectors
  imports Codex_Collection Mcp_Inventory Usage_Delta
begin

text \<open>
  The adapters of the daemon, \<open>codex.go\<close>, \<open>codex_desktop.go\<close>, \<open>claude.go\<close>, and \<open>collect.go\<close>, which
  puts their results together. What a probe of the machine finds (a binary, its version, the
  output of a command) is an argument. The stores that the commits of a collection write are one
  record, because Codex and Claude Code share the session baseline.
\<close>

section \<open>Stores and commits\<close>

record daemon_stores =
  dm_codexTurns :: "string + turn_store"
  dm_claudeTurns :: "string + claude_cursor_store"
  dm_forks :: "string + fork_store"
  dm_baseline :: "string + baseline_store"
  dm_usage :: "string + usage_store"

datatype daemon_commit =
    Codex_Commit codex_commit
  | Claude_Commit claude_commit
  | Usage_Commit usage_store

definition codex_view :: "daemon_stores \<Rightarrow> codex_stores" where
  "codex_view s = \<lparr>cst_turns = dm_codexTurns s, cst_baseline = dm_baseline s\<rparr>"

definition claude_view :: "daemon_stores \<Rightarrow> claude_stores" where
  "claude_view s = \<lparr>sto_forks = dm_forks s, sto_turns = dm_claudeTurns s, sto_baseline = dm_baseline s\<rparr>"

definition put_daemon :: "daemon_commit \<Rightarrow> daemon_stores \<Rightarrow> daemon_stores" where
  "put_daemon c s =
     (case c of
        Codex_Commit cc \<Rightarrow>
          (let v = put_codex cc (codex_view s) in s\<lparr>dm_codexTurns := cst_turns v, dm_baseline := cst_baseline v\<rparr>)
      | Claude_Commit cc \<Rightarrow>
          (let v = put_claude cc (claude_view s)
           in s\<lparr>dm_forks := sto_forks v, dm_claudeTurns := sto_turns v, dm_baseline := sto_baseline v\<rparr>)
      | Usage_Commit u \<Rightarrow> s\<lparr>dm_usage := Inr u\<rparr>)"

record adapter_result =
  ar_Status :: adapter_status
  ar_Commits :: "daemon_commit list"
  ar_Events :: "event list"

section \<open>Codex\<close>

text \<open>\<open>pc_mcp\<close> is the output of \<open>codex mcp list\<close>, or whether it timed out.\<close>

record codex_probe =
  pc_path :: string
  pc_stateDB :: string
  pc_sessionsPresent :: bool
  pc_version :: "string option"
  pc_mcp :: "bool + string"

definition safe_version :: "string option \<Rightarrow> string" where
  "safe_version output = (case output of None \<Rightarrow> [] | Some out \<Rightarrow> trim_space (redact_and_truncate out 512))"

definition not_found :: "string \<Rightarrow> string \<Rightarrow> mcp_inventory_status option \<Rightarrow> adapter_result" where
  "not_found name now inventory =
     \<lparr>ar_Status = \<lparr>as_Name = name, as_Detected = False, as_Version = [], as_Status = ''not_found'', as_UpdatedAt = now,
                   as_MCPInventory = inventory\<rparr>,
      ar_Commits = [], ar_Events = []\<rparr>"

definition codex_discovery_payload :: "go_lib \<Rightarrow> codex_probe \<Rightarrow> string \<Rightarrow> (string \<times> gval) list" where
  "codex_discovery_payload L P version =
     (''version'', GString version)
     # (if pc_path P \<noteq> [] then [(''binary_path_hash'', GString (short_hash L (pc_path P))), (''binary_found'', GBool True)]
        else if pc_stateDB P \<noteq> []
        then [(''binary_found'', GBool False), (''state_db_hash'', GString (short_hash L (pc_stateDB P)))]
        else [(''binary_found'', GBool False), (''transcript_sessions_found'', GBool True)])"

definition codex_collect ::
  "go_lib \<Rightarrow> config \<Rightarrow> fresh \<Rightarrow> codex_probe \<Rightarrow> codex_world \<Rightarrow> discovery_cache \<Rightarrow> string \<Rightarrow> time \<Rightarrow> discovery_cache \<times> adapter_result" where
  "codex_collect L cfg fresh P W cache now observedAt =
     (if pc_path P = [] \<and> pc_stateDB P = [] \<and> \<not> pc_sessionsPresent P
      then (cache, not_found ''codex'' now (Some (unsupported_mcp_inventory L observedAt)))
      else
        let version = (if pc_path P \<noteq> [] then safe_version (pc_version P) else []);
            statusText = (if pc_path P \<noteq> [] then ''ok'' else if pc_stateDB P \<noteq> [] then ''state_db_only'' else ''transcript_only'');
            inventory = (if pc_path P = [] then unsupported_mcp_inventory L observedAt
                         else case pc_mcp P of
                                Inr out \<Rightarrow> mcp_inventory_from_list_output L out observedAt
                              | Inl timedOut \<Rightarrow> failed_mcp_inventory L timedOut observedAt);
            discovery = snapshot_event L cfg fresh 0 ''agent.discovery'' ''daemon'' ''codex'' (codex_discovery_payload L P version);
            (cache', events, commits) = collect_codex_state_events L cfg (\<lambda>n. fresh (Suc n)) W cache (pc_stateDB P) observedAt
        in (cache',
            \<lparr>ar_Status = \<lparr>as_Name = ''codex'', as_Detected = True, as_Version = version, as_Status = statusText, as_UpdatedAt = now,
                          as_MCPInventory = Some inventory\<rparr>,
             ar_Commits = map Codex_Commit commits, ar_Events = discovery # events\<rparr>))"

section \<open>The Codex desktop application\<close>

text \<open>A candidate with the values of its \<open>Info.plist\<close>, \<open>None\<close> when it has no such file.\<close>

type_synonym app_bundle = "string \<times> (string \<Rightarrow> string) option"

definition codex_desktop_bundle_identifier :: string where
  "codex_desktop_bundle_identifier = ''com.openai.codex''"

definition codex_desktop_bundle_version :: "(string \<Rightarrow> string) \<Rightarrow> string" where
  "codex_desktop_bundle_version read =
     (if trim_space (read ''CFBundleShortVersionString'') \<noteq> [] then trim_space (read ''CFBundleShortVersionString'')
      else trim_space (read ''CFBundleVersion''))"

fun find_codex_desktop_bundle :: "app_bundle list \<Rightarrow> string \<times> string" where
  "find_codex_desktop_bundle [] = ([], [])"
| "find_codex_desktop_bundle ((candidate, plist) # rest) =
     (case plist of
        None \<Rightarrow> find_codex_desktop_bundle rest
      | Some read \<Rightarrow>
          if trim_space (read ''CFBundleIdentifier'') \<noteq> codex_desktop_bundle_identifier then find_codex_desktop_bundle rest
          else (candidate, codex_desktop_bundle_version read))"

definition codex_desktop_collect :: "go_lib \<Rightarrow> config \<Rightarrow> fresh \<Rightarrow> app_bundle list \<Rightarrow> string \<Rightarrow> adapter_result" where
  "codex_desktop_collect L cfg fresh bundles now =
     (let (bundlePath, version) = find_codex_desktop_bundle bundles in
      if bundlePath = [] then not_found ''codex_desktop'' now None
      else \<lparr>ar_Status = \<lparr>as_Name = ''codex_desktop'', as_Detected = True, as_Version = version, as_Status = ''ok'',
                          as_UpdatedAt = now, as_MCPInventory = None\<rparr>,
            ar_Commits = [],
            ar_Events = [snapshot_event L cfg fresh 0 ''agent.discovery'' ''daemon'' ''codex_desktop''
              [(''bundle_path_hash'', GString (short_hash L bundlePath)), (''version'', GString version)]]\<rparr>)"

section \<open>Claude Code\<close>

record claude_probe =
  pl_path :: "string option"
  pl_version :: "string option"
  pl_directory :: string
  pl_entries :: "nat option"
  pl_config :: "string \<Rightarrow> file_read"
  pl_configPath :: string
  pl_decode :: "string \<Rightarrow> claude_mcp_config option"
  pl_transcripts :: "string list"
  pl_records :: "string \<Rightarrow> claude_record option"

definition claude_discovery_events :: "go_lib \<Rightarrow> config \<Rightarrow> fresh \<Rightarrow> claude_probe \<Rightarrow> string \<Rightarrow> string \<Rightarrow> event list" where
  "claude_discovery_events L cfg fresh P path version =
     snapshot_event L cfg fresh 0 ''agent.discovery'' ''daemon'' claude_code
       [(''binary_path_hash'', GString (short_hash L path)), (''version'', GString version)]
     # (case pl_entries P of
          None \<Rightarrow> []
        | Some n \<Rightarrow>
            [snapshot_event L cfg fresh 1 ''claude_code.config_snapshot'' claude_code claude_code
               [(''config_dir_present'', GBool True), (''config_dir_hash'', GString (short_hash L (pl_directory P))),
                (''config_entry_count'', GInt (int n)), (''metadata_only'', GBool True)]])"

definition claude_collect ::
  "go_lib \<Rightarrow> config \<Rightarrow> fresh \<Rightarrow> claude_probe \<Rightarrow> claude_stores \<Rightarrow> string \<Rightarrow> time \<Rightarrow> adapter_result" where
  "claude_collect L cfg fresh P stores now observedAt =
     (case pl_path P of
        None \<Rightarrow> not_found claude_code now (Some (unsupported_mcp_inventory L observedAt))
      | Some path \<Rightarrow>
          (let version = safe_version (pl_version P);
               sessions = merged_claude_sessions L (pl_records P) (pl_transcripts P);
               (events, commits) = claude_events_from_sessions L cfg (\<lambda>n. fresh (n + 2)) stores sessions observedAt
           in \<lparr>ar_Status = \<lparr>as_Name = claude_code, as_Detected = True, as_Version = version, as_Status = ''ok'', as_UpdatedAt = now,
                             as_MCPInventory = Some (claude_mcp_inventory L (pl_decode P) (snd (fresh 0)) (pl_config P) (pl_configPath P) observedAt)\<rparr>,
               ar_Commits = map Claude_Commit commits,
               ar_Events = claude_discovery_events L cfg fresh P path version @ events\<rparr>))"

section \<open>All adapters\<close>

record machine =
  mc_hostname :: string
  mc_os :: string
  mc_arch :: string

definition system_event :: "go_lib \<Rightarrow> config \<Rightarrow> fresh \<Rightarrow> machine \<Rightarrow> string \<Rightarrow> event" where
  "system_event L cfg fresh M daemonVersion =
     snapshot_event L cfg fresh 0 ''daemon.system_snapshot'' ''daemon'' []
       [(''hostname'', GString (mc_hostname M)), (''os'', GString (mc_os M)), (''arch'', GString (mc_arch M)),
        (''host_type'', GString (cfg_HostType cfg)), (''daemon_version'', GString daemonVersion),
        (''data_dir_hash'', GString (short_hash L (cfg_DataDir cfg)))]"

text \<open>\<open>CollectWithAdapters\<close>: the adapters run concurrently but only read; their results keep their order.\<close>

definition collect_with_adapters ::
  "go_lib \<Rightarrow> config \<Rightarrow> fresh \<Rightarrow> machine \<Rightarrow> string \<Rightarrow> adapter_result list \<Rightarrow> event list \<times> adapter_status list \<times> daemon_commit list" where
  "collect_with_adapters L cfg fresh M daemonVersion results =
     (concat (map ar_Events results) @ [system_event L cfg fresh M daemonVersion],
      map ar_Status results, concat (map ar_Commits results))"

record probes =
  pb_codex :: codex_probe
  pb_world :: codex_world
  pb_bundles :: "app_bundle list"
  pb_claude :: claude_probe
  pb_machine :: machine
  pb_now :: string
  pb_observedAt :: time

text \<open>\<open>Collect\<close> with the default adapters; \<open>fresh\<close> gives each adapter its identifiers.\<close>

definition collect ::
  "go_lib \<Rightarrow> config \<Rightarrow> (nat \<Rightarrow> fresh) \<Rightarrow> probes \<Rightarrow> string \<Rightarrow> daemon_stores \<Rightarrow> discovery_cache
    \<Rightarrow> discovery_cache \<times> event list \<times> adapter_status list \<times> daemon_commit list" where
  "collect L cfg fresh P daemonVersion stores cache =
     (let W = (pb_world P)\<lparr>cw_turns := dm_codexTurns stores, cw_baseline := dm_baseline stores\<rparr>;
          (cache', codex) = codex_collect L cfg (fresh 0) (pb_codex P) W cache (pb_now P) (pb_observedAt P);
          desktop = (if mc_os (pb_machine P) = ''darwin''
                     then [codex_desktop_collect L cfg (fresh 1) (pb_bundles P) (pb_now P)] else []);
          claude = claude_collect L cfg (fresh 2) (pb_claude P) (claude_view stores) (pb_now P) (pb_observedAt P)
      in (cache', collect_with_adapters L cfg (fresh 3) (pb_machine P) daemonVersion (codex # desktop @ [claude])))"

end
