(* ===== verification/Upgrade.thy ===== *)
theory Upgrade
  imports Payloads Go_Files "HOL-Library.Product_Lexorder"
begin

text \<open>
  \<open>pkg/agentupgrade/upgrade.go\<close> with its Unix parts, and \<open>pkg/daemon/upgrade.go\<close>: when the agent
  replaces its own binary, and with what. Requests, running the downloaded binary and the file
  operations are fields of \<open>upgrade_env\<close>; a binary is the string of its bytes.
\<close>

section \<open>Versions\<close>

record daemon_version =
  dv_major :: int
  dv_minor :: int
  dv_patch :: int
  dv_pre :: string
  dv_preN :: int
  dv_hasPre :: bool

definition split_prerelease :: "go_lib \<Rightarrow> string \<Rightarrow> string \<times> int" where
  "split_prerelease L v =
     (let value = lower L (trim_space v);
          number = rev (takeWhile (\<lambda>c. CHR ''0'' \<le> c \<and> c \<le> CHR ''9'') (rev value));
          label = take (length value - length number) value
      in (trim_right_set (trim_right_set label ''.'') ''-'', if number = [] then 0 else parse_int64_value number))"

definition parse_daemon_version :: "go_lib \<Rightarrow> string \<Rightarrow> daemon_version option" where
  "parse_daemon_version L v0 =
     (let v = trim_prefix (trim_space v0) ''v'';
          (core, pre, hasPre) = (case index_of v ''-'' of Some i \<Rightarrow> (take i v, drop (i + 1) v, True) | None \<Rightarrow> (v, [], False));
          (label, n) = (if hasPre then split_prerelease L pre else ([], 0))
      in if v = [] then None
         else case map parse_int64 (split core ''.'') of
                [Some a, Some b, Some c] \<Rightarrow>
                  if a < 0 \<or> b < 0 \<or> c < 0 then None
                  else Some \<lparr>dv_major = a, dv_minor = b, dv_patch = c, dv_pre = label, dv_preN = n, dv_hasPre = hasPre\<rparr>
              | _ \<Rightarrow> None)"

definition compare_versions :: "daemon_version \<Rightarrow> daemon_version \<Rightarrow> int" where
  "compare_versions l r =
     (if dv_major l < dv_major r then -1 else if dv_major l > dv_major r then 1
      else if dv_minor l < dv_minor r then -1 else if dv_minor l > dv_minor r then 1
      else if dv_patch l < dv_patch r then -1 else if dv_patch l > dv_patch r then 1
      else if dv_hasPre l \<noteq> dv_hasPre r then (if dv_hasPre l then -1 else 1)
      else if dv_pre l \<noteq> dv_pre r then (if dv_pre l < dv_pre r then -1 else 1)
      else if dv_preN l < dv_preN r then -1 else if dv_preN l > dv_preN r then 1 else 0)"

definition compare_daemon_versions :: "go_lib \<Rightarrow> string \<Rightarrow> string \<Rightarrow> int option" where
  "compare_daemon_versions L left right =
     (case (parse_daemon_version L left, parse_daemon_version L right) of
        (Some l, Some r) \<Rightarrow> Some (compare_versions l r) | _ \<Rightarrow> None)"

section \<open>The decision\<close>

record upgrade_policy =
  up_Mode :: string
  up_TargetVersion :: string
  up_URL :: string
  up_SHA256 :: string
  up_ChecksumURL :: string

record upgrade_decision =
  ud_Mode :: string
  ud_ShouldApply :: bool
  ud_Reason :: string

definition normalize_upgrade_mode :: "go_lib \<Rightarrow> string \<Rightarrow> string" where
  "normalize_upgrade_mode L mode =
     (let m = lower L (trim_space mode) in
      if m \<in> {''notify'', ''manual''} then ''notify''
      else if m \<in> {''auto'', ''automatic''} then ''auto''
      else if m \<in> {''required'', ''force'', ''forced''} then ''required'' else ''off'')"

definition hook_launcher_upgrade_required :: "upgrade_policy \<Rightarrow> bool" where
  "hook_launcher_upgrade_required policy = False"

definition upgrade_decision_reason :: "int \<Rightarrow> string" where
  "upgrade_decision_reason versionComparison =
     (if versionComparison = 0 then ''required companion artifact is missing or outdated'' else ''target version is newer'')"

definition decide_agent_upgrade :: "go_lib \<Rightarrow> upgrade_policy \<Rightarrow> string \<Rightarrow> upgrade_decision" where
  "decide_agent_upgrade L policy currentVersion =
     (let mode = normalize_upgrade_mode L (up_Mode policy);
          target = trim_space (up_TargetVersion policy);
          keep = (\<lambda>reason. \<lparr>ud_Mode = mode, ud_ShouldApply = False, ud_Reason = reason\<rparr>)
      in if mode = ''off'' then keep ''server disabled upgrades''
         else if target = [] then keep ''missing target version''
         else if trim_space (up_URL policy) = [] then keep ''missing download url''
         else case compare_daemon_versions L currentVersion target of
                None \<Rightarrow> keep ''could not compare daemon versions''
              | Some cmp \<Rightarrow>
                  if cmp > 0 then keep ''current version is already at or above target''
                  else if cmp = 0 \<and> \<not> hook_launcher_upgrade_required policy
                  then keep ''current version and required artifacts are already installed''
                  else \<lparr>ud_Mode = mode, ud_ShouldApply = (mode = ''auto'' \<or> mode = ''required''),
                        ud_Reason = upgrade_decision_reason cmp\<rparr>)"

section \<open>Checksums and addresses\<close>

definition hex_digit :: "char \<Rightarrow> bool" where
  "hex_digit c \<longleftrightarrow> c \<in> set ''0123456789abcdefABCDEF''"

definition normalize_sha256 :: "go_lib \<Rightarrow> string \<Rightarrow> string" where
  "normalize_sha256 L v =
     (let value = lower L (trim_space v) in if length value = 64 \<and> list_all hex_digit value then value else [])"

record parsed_url =
  pu_Scheme :: string
  pu_Hostname :: string
  pu_EscapedPath :: string

text \<open>
  Files and the network: \<open>ue_get\<close> is the status and the body of a response, \<open>ue_sha256\<close> the
  digest of a file in hexadecimal, \<open>ue_version\<close> what running a file with \<open>version\<close> prints, and the
  other fields say whether a file operation succeeds.
\<close>

record upgrade_env =
  ue_parseURL :: "string \<Rightarrow> parsed_url option"
  ue_pathUnescape :: "string \<Rightarrow> string"
  ue_isLoopback :: "string \<Rightarrow> bool"
  ue_get :: "string \<Rightarrow> (int \<times> string) option"
  ue_sha256 :: "string \<Rightarrow> string"
  ue_version :: "string \<Rightarrow> string option"
  ue_stage :: bool
  ue_executable :: bool
  ue_backup :: bool
  ue_install :: bool
  ue_restore :: bool
  ue_isRoot :: bool
  ue_chown :: bool
  ue_chmod :: bool
  ue_saveState :: bool

definition is_local_upgrade_host :: "go_lib \<Rightarrow> upgrade_env \<Rightarrow> string \<Rightarrow> bool" where
  "is_local_upgrade_host L U host =
     (let h = lower L (trim_space host) in h = ''localhost'' \<or> ue_isLoopback U h)"

definition validate_upgrade_url :: "go_lib \<Rightarrow> upgrade_env \<Rightarrow> string \<Rightarrow> bool" where
  "validate_upgrade_url L U raw =
     (case ue_parseURL U raw of
        None \<Rightarrow> False
      | Some u \<Rightarrow> pu_Scheme u = ''https'' \<or> (pu_Scheme u = ''http'' \<and> is_local_upgrade_host L U (pu_Hostname u)))"

definition checksum_asset_name :: "upgrade_env \<Rightarrow> string \<Rightarrow> string" where
  "checksum_asset_name U rawURL =
     (case ue_parseURL U rawURL of
        None \<Rightarrow> []
      | Some u \<Rightarrow>
          (let path = ue_pathUnescape U (trim_prefix (pu_EscapedPath u) ''/'')
           in case index_of path ''bin/gesta-agent-'' of Some i \<Rightarrow> drop i path | None \<Rightarrow> base_name path))"

datatype upgrade_error =
    TargetPathRequired
  | InsecureURL
  | TargetVersionRequired
  | ChecksumRequired
  | InsecureChecksumURL
  | NoAssetName
  | ChecksumsUnavailable
  | ChecksumMalformed
  | ChecksumMissing
  | StagingFailed
  | DownloadFailed
  | ChecksumMismatch
  | VersionUnreadable
  | WrongVersion
  | NoCurrentBinary
  | BackupFailed
  | InstallFailed
  | OwnershipFailed
  | ModeFailed

text \<open>The lines of a checksum file: the first entry for the asset decides.\<close>

fun checksum_entry :: "go_lib \<Rightarrow> string \<Rightarrow> string list \<Rightarrow> (upgrade_error + string) option" where
  "checksum_entry L assetName [] = None"
| "checksum_entry L assetName (line # ls) =
     (case Go_Strings.fields line of
        digest # file # _ \<Rightarrow>
          (let name = trim_prefix file ''*'' in
           if name = assetName \<or> base_name name = base_name assetName
           then Some (if normalize_sha256 L digest = [] then Inl ChecksumMalformed else Inr (normalize_sha256 L digest))
           else checksum_entry L assetName ls)
      | _ \<Rightarrow> checksum_entry L assetName ls)"

definition download_expected_sha :: "go_lib \<Rightarrow> upgrade_env \<Rightarrow> string \<Rightarrow> string \<Rightarrow> upgrade_error + string" where
  "download_expected_sha L U checksumURL assetName =
     (case ue_get U checksumURL of
        None \<Rightarrow> Inl ChecksumsUnavailable
      | Some (status, body) \<Rightarrow>
          if status < 200 \<or> status > 299 then Inl ChecksumsUnavailable
          else (let (ls, ok) = scan_text 65536 body in
                case checksum_entry L assetName ls of
                  Some r \<Rightarrow> r
                | None \<Rightarrow> if ok then Inl ChecksumMissing else Inl ChecksumsUnavailable))"

definition expected_upgrade_sha :: "go_lib \<Rightarrow> upgrade_env \<Rightarrow> upgrade_policy \<Rightarrow> upgrade_error + string" where
  "expected_upgrade_sha L U policy =
     (let sha = normalize_sha256 L (up_SHA256 policy); checksumURL = trim_space (up_ChecksumURL policy);
          name = checksum_asset_name U (up_URL policy)
      in if sha \<noteq> [] then Inr sha
         else if checksumURL = [] then Inl ChecksumRequired
         else if \<not> validate_upgrade_url L U checksumURL then Inl InsecureChecksumURL
         else if name = [] then Inl NoAssetName
         else download_expected_sha L U checksumURL name)"

definition download_upgrade_file :: "upgrade_env \<Rightarrow> string \<Rightarrow> upgrade_error + string" where
  "download_upgrade_file U url =
     (case ue_get U url of
        None \<Rightarrow> Inl DownloadFailed
      | Some (status, body) \<Rightarrow> if status < 200 \<or> status > 299 then Inl DownloadFailed else Inr body)"

definition verify_file_sha256 :: "go_lib \<Rightarrow> upgrade_env \<Rightarrow> string \<Rightarrow> string \<Rightarrow> upgrade_error + unit" where
  "verify_file_sha256 L U content expected =
     (let e = normalize_sha256 L expected in
      if e = [] then Inl ChecksumRequired else if ue_sha256 U content \<noteq> e then Inl ChecksumMismatch else Inr ())"

definition verify_downloaded_agent_version :: "upgrade_env \<Rightarrow> string \<Rightarrow> string \<Rightarrow> upgrade_error + unit" where
  "verify_downloaded_agent_version U content targetVersion =
     (case ue_version U content of
        None \<Rightarrow> Inl VersionUnreadable
      | Some out \<Rightarrow> if trim_space out = targetVersion then Inr () else Inl WrongVersion)"

section \<open>Replacing the binary\<close>

text \<open>The binary at the target path and the copy kept beside it.\<close>

record installation =
  in_target :: "string option"
  in_prev :: "string option"

definition replace_agent_binary :: "upgrade_env \<Rightarrow> string \<Rightarrow> installation \<Rightarrow> installation \<times> (upgrade_error + unit)" where
  "replace_agent_binary U content i =
     (case in_target i of
        None \<Rightarrow> (i, Inl NoCurrentBinary)
      | Some current \<Rightarrow>
          if \<not> ue_backup U then (i\<lparr>in_prev := None\<rparr>, Inl BackupFailed)
          else if \<not> ue_install U
          then (if ue_restore U then i\<lparr>in_prev := None\<rparr> else \<lparr>in_target = None, in_prev = Some current\<rparr>, Inl InstallFailed)
          else (\<lparr>in_target = Some content, in_prev = Some current\<rparr>,
                if ue_isRoot U \<and> \<not> ue_chown U then Inl OwnershipFailed
                else if \<not> ue_chmod U then Inl ModeFailed else Inr ()))"

text \<open>What has to hold before the binary is touched: its content, or the first check that fails.\<close>

definition verified_download :: "go_lib \<Rightarrow> upgrade_env \<Rightarrow> upgrade_policy \<Rightarrow> string \<Rightarrow> upgrade_error + string" where
  "verified_download L U policy targetPath =
     (let url = trim_space (up_URL policy); targetVersion = trim_space (up_TargetVersion policy) in
      if trim_space targetPath = [] then Inl TargetPathRequired
      else if \<not> validate_upgrade_url L U url then Inl InsecureURL
      else if targetVersion = [] then Inl TargetVersionRequired
      else rbind (expected_upgrade_sha L U policy) (\<lambda>sha.
           if \<not> ue_stage U then Inl StagingFailed
           else rbind (download_upgrade_file U url) (\<lambda>content.
                rbind (verify_file_sha256 L U content sha) (\<lambda>_.
                if \<not> ue_executable U then Inl StagingFailed
                else rbind (verify_downloaded_agent_version U content targetVersion) (\<lambda>_. Inr content)))))"

definition apply_agent_upgrade_to_path ::
  "go_lib \<Rightarrow> upgrade_env \<Rightarrow> upgrade_policy \<Rightarrow> string \<Rightarrow> installation \<Rightarrow> installation \<times> (upgrade_error + unit)" where
  "apply_agent_upgrade_to_path L U policy targetPath i =
     (case verified_download L U policy targetPath of
        Inl e \<Rightarrow> (i, Inl e)
      | Inr content \<Rightarrow> replace_agent_binary U content i)"

section \<open>The daemon\<close>

record upgrade_state =
  us_Enabled :: bool
  us_TargetVersion :: string
  us_State :: string
  us_LastCheckedAt :: time
  us_LastAttemptAt :: time
  us_LastSucceededAt :: time
  us_Error :: string

definition no_upgrade_state :: upgrade_state where
  "no_upgrade_state =
     \<lparr>us_Enabled = False, us_TargetVersion = [], us_State = [], us_LastCheckedAt = zero_time,
      us_LastAttemptAt = zero_time, us_LastSucceededAt = zero_time, us_Error = []\<rparr>"

definition upgrade_failure_retry_after :: int where "upgrade_failure_retry_after = nanos_per_hour"

definition auto_update_disabled :: "go_lib \<Rightarrow> string \<Rightarrow> bool" where
  "auto_update_disabled L v \<longleftrightarrow>
     lower L (trim_space v) \<in> {''0'', ''false'', ''no'', ''n'', ''off'', ''disabled''}"

definition retry_suppressed :: "upgrade_policy \<Rightarrow> time \<Rightarrow> upgrade_state \<Rightarrow> bool" where
  "retry_suppressed policy now state \<longleftrightarrow>
     us_State state = ''failed'' \<and> us_TargetVersion state = up_TargetVersion policy \<and>
     \<not> is_zero (us_LastAttemptAt state) \<and> now - us_LastAttemptAt state < upgrade_failure_retry_after"

text \<open>The state file (\<open>None\<close> when it cannot be read), and the local setting.\<close>

record upgrade_host =
  uh_current :: string
  uh_autoUpdate :: string
  uh_path :: string
  uh_errorText :: "upgrade_error \<Rightarrow> string"

definition save_upgrade_state :: "upgrade_env \<Rightarrow> upgrade_state \<Rightarrow> upgrade_state option \<Rightarrow> upgrade_state option" where
  "save_upgrade_state U s stored = (if ue_saveState U then Some s else stored)"

text \<open>The installation and the state file afterwards, and whether the agent has to restart.\<close>

definition apply_upgrade_from_heartbeat ::
  "go_lib \<Rightarrow> upgrade_env \<Rightarrow> upgrade_host \<Rightarrow> upgrade_policy option \<Rightarrow> time \<Rightarrow> time
    \<Rightarrow> installation \<times> upgrade_state option \<Rightarrow> (installation \<times> upgrade_state option) \<times> bool" where
  "apply_upgrade_from_heartbeat L U H upgrade now later = (\<lambda>(i, stored).
     case upgrade of
       None \<Rightarrow> ((i, stored), False)
     | Some policy \<Rightarrow>
         (let decision = decide_agent_upgrade L policy (uh_current H);
              state = (case stored of Some s \<Rightarrow> s | None \<Rightarrow> no_upgrade_state);
              running = state\<lparr>us_Enabled := True, us_TargetVersion := up_TargetVersion policy, us_State := ''running'',
                              us_Error := [], us_LastCheckedAt := now, us_LastAttemptAt := now\<rparr>;
              stored1 = save_upgrade_state U running stored
          in if ud_Mode decision = ''off'' \<or> ud_Mode decision = ''notify'' \<or> \<not> ud_ShouldApply decision
                \<or> auto_update_disabled L (uh_autoUpdate H) \<or> retry_suppressed policy now state
             then ((i, stored), False)
             else case apply_agent_upgrade_to_path L U policy (uh_path H) i of
                    (i', Inl e) \<Rightarrow>
                      ((i', save_upgrade_state U (running\<lparr>us_State := ''failed'', us_Error := uh_errorText H e\<rparr>) stored1), False)
                  | (i', Inr _) \<Rightarrow>
                      ((i', save_upgrade_state U (running\<lparr>us_State := ''succeeded'', us_LastSucceededAt := later\<rparr>) stored1), True)))"

text \<open>A heartbeat during collection applies an upgrade only when there is something to do.\<close>

definition apply_actionable_upgrade_from_heartbeat ::
  "go_lib \<Rightarrow> upgrade_env \<Rightarrow> upgrade_host \<Rightarrow> upgrade_policy option \<Rightarrow> time \<Rightarrow> time
    \<Rightarrow> installation \<times> upgrade_state option \<Rightarrow> (installation \<times> upgrade_state option) \<times> bool" where
  "apply_actionable_upgrade_from_heartbeat L U H upgrade now later st =
     (case upgrade of
        None \<Rightarrow> (st, False)
      | Some policy \<Rightarrow>
          if ud_ShouldApply (decide_agent_upgrade L policy (uh_current H))
          then apply_upgrade_from_heartbeat L U H upgrade now later st else (st, False))"

end
