(* ===== verification/Runner.thy ===== *)
theory Runner
  imports Collectors Upgrade Event_Queue
begin

text \<open>
  \<open>pkg/daemon/runner.go\<close>: a round of the daemon. It collects, queues the events, moves the cursors
  of the collectors and of the usage deltas, and then drains the queue between heartbeats. Logging
  and the synchronisation of rules, which only writes rule caches, are left out.
\<close>

section \<open>Collecting\<close>

datatype round_error =
    DeltasFailed string
  | QueueFailed queue_error
  | CommitFailed

text \<open>
  \<open>works n\<close> says whether the \<open>n\<close>th write of a cursor file succeeds. A daemon that is stopped
  between two writes leaves the same files behind as one whose next write fails.
\<close>

definition round_events ::
  "go_lib \<Rightarrow> config \<Rightarrow> (nat \<Rightarrow> string) \<Rightarrow> time \<Rightarrow> string + usage_store \<Rightarrow> event list \<Rightarrow> string + event list \<times> usage_store" where
  "round_events L cfg ids now loaded events =
     rbind (build_usage_delta_events L cfg ids now loaded events now) (\<lambda>(deltas, upd).
       Inr (fst (filter_internal_events events) @ deltas, upd))"

definition collect_and_queue ::
  "'b queue_env \<Rightarrow> queue \<Rightarrow> go_lib \<Rightarrow> config \<Rightarrow> (nat \<Rightarrow> string) \<Rightarrow> time \<Rightarrow> (nat \<Rightarrow> bool) \<Rightarrow> event list \<Rightarrow> daemon_commit list
    \<Rightarrow> 'b db \<times> daemon_stores \<Rightarrow> ('b db \<times> daemon_stores) \<times> (round_error + unit)" where
  "collect_and_queue E q L cfg ids now works events commits = (\<lambda>(db, stores).
     case round_events L cfg ids now (dm_usage stores) events of
       Inl err \<Rightarrow> ((db, stores), Inl (DeltasFailed err))
     | Inr (queueEvents, upd) \<Rightarrow>
         (case append_with_stats E q queueEvents db of
            (db', Inl err) \<Rightarrow> ((db', stores), Inl (QueueFailed err))
          | (db', Inr _) \<Rightarrow>
              (let (stores', ok) = run_commits put_daemon works 0 (commits @ [Usage_Commit upd]) stores
               in ((db', stores'), if ok then Inr () else Inl CommitFailed))))"

section \<open>Heartbeats\<close>

record output_classification =
  oc_Revision :: int
  oc_CodeSuffixes :: "string list"
  oc_CodeFilenames :: "string list"

record heartbeat_response =
  hr_Upgrade :: "upgrade_policy option"
  hr_OutputClassification :: "output_classification option"
  hr_DailyWorkTimezone :: string
  hr_TurnUsageTotal :: string

record runner =
  rn_cfg :: config
  rn_runtimeSettingsSynced :: bool
  rn_classification :: "output_classification option"

definition total_encoding_all_tier :: string where "total_encoding_all_tier = ''all_tier''"

text \<open>A new runner talks to a control plane that may not know about the all-tier total.\<close>

definition new_runner :: "config \<Rightarrow> runner" where
  "new_runner cfg =
     \<lparr>rn_cfg = cfg\<lparr>cfg_TurnUsageTotal := total_encoding_effective\<rparr>, rn_runtimeSettingsSynced = False, rn_classification = None\<rparr>"

definition with_settings :: "heartbeat_response \<Rightarrow> config \<Rightarrow> config" where
  "with_settings response cfg =
     cfg\<lparr>cfg_DailyWorkTimezone := trim_space (hr_DailyWorkTimezone response),
         cfg_TurnUsageTotal := (if trim_space (hr_TurnUsageTotal response) = total_encoding_all_tier
                                then total_encoding_all_tier else total_encoding_effective)\<rparr>"

text \<open>The argument is what the control plane answered, and whether the cache can be written.\<close>

definition send_heartbeat :: "heartbeat_response option \<Rightarrow> bool \<Rightarrow> runner \<Rightarrow> runner \<times> heartbeat_response option" where
  "send_heartbeat answer cacheWorks r =
     (case answer of
        None \<Rightarrow> (r, None)
      | Some response \<Rightarrow>
          (let r1 = r\<lparr>rn_cfg := with_settings response (rn_cfg r)\<rparr> in
           case hr_OutputClassification response of
             None \<Rightarrow> (r1, Some response)
           | Some settings \<Rightarrow>
               if oc_Revision settings \<le> 0 \<or> \<not> cacheWorks then (r1, None)
               else (r1\<lparr>rn_classification := Some settings, rn_runtimeSettingsSynced := True\<rparr>, Some response)))"

section \<open>A round\<close>

record 'b daemon =
  da_db :: "'b db"
  da_stores :: daemon_stores
  da_runner :: runner
  da_binary :: "installation \<times> upgrade_state option"
  da_cache :: discovery_cache

datatype outcome = Finished | Failed | Restart

text \<open>The world of a round: the answers to its heartbeats by their health, the control plane's to events.\<close>

record 's round_env =
  re_upgrade :: upgrade_env
  re_host :: upgrade_host
  re_answer :: "string \<Rightarrow> heartbeat_response option"
  re_cacheWorks :: bool
  re_now :: time
  re_later :: time
  re_locked :: bool
  re_send :: "'s \<Rightarrow> event list \<Rightarrow> 's \<times> send_outcome"
  re_queue :: "nat \<Rightarrow> queue"
  re_works :: "nat \<Rightarrow> bool"
  re_fresh :: "nat \<Rightarrow> fresh"
  re_ids :: "nat \<Rightarrow> string"

definition heartbeat :: "'s round_env \<Rightarrow> string \<Rightarrow> 'b daemon \<Rightarrow> 'b daemon \<times> heartbeat_response option" where
  "heartbeat R health d =
     (let (r, answer) = send_heartbeat (re_answer R health) (re_cacheWorks R) (da_runner d) in (d\<lparr>da_runner := r\<rparr>, answer))"

text \<open>Whether the agent has to restart: a response is acted on if \<open>act\<close> says so.\<close>

definition with_upgrade ::
  "'s round_env \<Rightarrow> (upgrade_policy option \<Rightarrow> installation \<times> upgrade_state option \<Rightarrow> (installation \<times> upgrade_state option) \<times> bool)
    \<Rightarrow> heartbeat_response option \<Rightarrow> 'b daemon \<Rightarrow> 'b daemon \<times> bool" where
  "with_upgrade R act answer d =
     (case answer of
        None \<Rightarrow> (d, False)
      | Some response \<Rightarrow> (let (b, restart) = act (hr_Upgrade response) (da_binary d) in (d\<lparr>da_binary := b\<rparr>, restart)))"

definition actionable :: "go_lib \<Rightarrow> 's round_env \<Rightarrow> heartbeat_response option \<Rightarrow> 'b daemon \<Rightarrow> 'b daemon \<times> bool" where
  "actionable L R =
     with_upgrade R (\<lambda>u. apply_actionable_upgrade_from_heartbeat L (re_upgrade R) (re_host R) u (re_now R) (re_later R))"

definition handle_upgrade :: "go_lib \<Rightarrow> 's round_env \<Rightarrow> heartbeat_response option \<Rightarrow> 'b daemon \<Rightarrow> 'b daemon \<times> bool" where
  "handle_upgrade L R =
     with_upgrade R (\<lambda>u. apply_upgrade_from_heartbeat L (re_upgrade R) (re_host R) u (re_now R) (re_later R))"

definition ensure_runtime_settings :: "go_lib \<Rightarrow> 's round_env \<Rightarrow> 'b daemon \<Rightarrow> 'b daemon \<times> bool" where
  "ensure_runtime_settings L R d =
     (if rn_runtimeSettingsSynced (da_runner d) then (d, False)
      else let (d1, answer) = heartbeat R ''collecting'' d in actionable L R answer d1)"

definition flush :: "'b queue_env \<Rightarrow> 's round_env \<Rightarrow> 's \<Rightarrow> 'b daemon \<Rightarrow> 's \<times> 'b daemon \<times> (queue_error + unit)" where
  "flush E R s d =
     (case stats E (da_db d) of
        (db1, Inl err) \<Rightarrow> (s, d\<lparr>da_db := db1\<rparr>, Inl err)
      | (db1, Inr st) \<Rightarrow>
          if QueuedEvents st = 0 then (s, d\<lparr>da_db := db1\<rparr>, Inr ())
          else (let (s', db2, r) = drain E (re_queue R) (re_locked R) (re_send R) s db1 in (s', d\<lparr>da_db := db2\<rparr>, r)))"

definition flush_with_heartbeat ::
  "'b queue_env \<Rightarrow> go_lib \<Rightarrow> 's round_env \<Rightarrow> 's \<Rightarrow> 'b daemon \<Rightarrow> 's \<times> 'b daemon \<times> outcome" where
  "flush_with_heartbeat E L R s d =
     (let (d1, answer1) = heartbeat R ''collecting'' d; (d2, restart1) = actionable L R answer1 d1 in
      if restart1 then (s, d2, Restart)
      else case flush E R s d2 of
             (s', d3, Inl _) \<Rightarrow>
               (let (d4, answer2) = heartbeat R ''degraded'' d3; (d5, restart2) = actionable L R answer2 d4
                in (s', d5, if restart2 then Restart else Failed))
           | (s', d3, Inr _) \<Rightarrow>
               (case heartbeat R ''ok'' d3 of
                  (d4, None) \<Rightarrow> (s', d4, Failed)
                | (d4, Some response) \<Rightarrow>
                    (let (d5, restart2) = handle_upgrade L R (Some response) d4
                     in (s', d5, if restart2 then Restart else Finished))))"

definition run_once ::
  "'b queue_env \<Rightarrow> go_lib \<Rightarrow> 's round_env \<Rightarrow> probes \<Rightarrow> 's \<Rightarrow> 'b daemon \<Rightarrow> 's \<times> 'b daemon \<times> outcome" where
  "run_once E L R P s d =
     (let (d1, restart) = ensure_runtime_settings L R d in
      if restart then (s, d1, Restart)
      else
        let cfg = rn_cfg (da_runner d1);
            (cache, events, _, commits) = collect L cfg (re_fresh R) P (uh_current (re_host R)) (da_stores d1) (da_cache d1);
            ((db, stores), r) = collect_and_queue E (re_queue R 0) L cfg (re_ids R) (re_now R) (re_works R) events commits
              (da_db d1, da_stores d1);
            d2 = d1\<lparr>da_cache := cache, da_db := db, da_stores := stores\<rparr>
        in case r of Inl _ \<Rightarrow> (s, d2, Failed) | Inr _ \<Rightarrow> flush_with_heartbeat E L R s d2)"

end
