(* ===== verification/Upgrade_Properties.thy ===== *)
theory Upgrade_Properties
  imports Upgrade
begin

text \<open>
  The binary of the agent is only replaced by one that was downloaded over a trusted connection
  and has the expected digest and version, and upgrades only ever go up.
\<close>

section \<open>Versions are ordered\<close>

text \<open>A prerelease comes before the release of its number.\<close>

definition version_key :: "daemon_version \<Rightarrow> (int \<times> int \<times> int) \<times> bool \<times> string \<times> int" where
  "version_key v = ((dv_major v, dv_minor v, dv_patch v), \<not> dv_hasPre v, dv_pre v, dv_preN v)"

lemma compare_versions_key:
  "compare_versions l r = (if version_key l < version_key r then -1 else if version_key l > version_key r then 1 else 0)"
  by (auto simp: compare_versions_def version_key_def)

lemma decision_goes_up:
  "ud_ShouldApply (decide_agent_upgrade L policy cur) \<Longrightarrow>
   \<exists>l r. parse_daemon_version L cur = Some l \<and> parse_daemon_version L (trim_space (up_TargetVersion policy)) = Some r \<and>
     version_key l < version_key r"
  by (auto simp: decide_agent_upgrade_def compare_daemon_versions_def compare_versions_key hook_launcher_upgrade_required_def Let_def
      split: if_splits option.splits)

definition upgrades_to :: "go_lib \<Rightarrow> string \<Rightarrow> string \<Rightarrow> bool" where
  "upgrades_to L cur target \<longleftrightarrow>
     (\<exists>policy. trim_space (up_TargetVersion policy) = target \<and> ud_ShouldApply (decide_agent_upgrade L policy cur))"

lemma upgrade_path_goes_up:
  "(upgrades_to L)\<^sup>+\<^sup>+ cur target \<Longrightarrow>
   \<exists>l r. parse_daemon_version L cur = Some l \<and> parse_daemon_version L target = Some r \<and> version_key l < version_key r"
proof (induction rule: tranclp_induct)
  case (base y)
  then show ?case by (auto simp: upgrades_to_def dest: decision_goes_up)
next
  case (step y z)
  from step.hyps(2) obtain l r where "parse_daemon_version L y = Some l" "parse_daemon_version L z = Some r" "version_key l < version_key r"
    by (auto simp: upgrades_to_def dest: decision_goes_up)
  with step.IH show ?case by (auto intro: less_trans)
qed

text \<open>
  C26: Upgrades only go up: whatever policies the control plane sends over time, a chain of
  applied upgrades never comes back to a version, so the fleet cannot be made to restart in a
  circle, and no upgrade in it lowers the version.
\<close>

theorem upgrades_never_cycle:
  assumes "(upgrades_to L)\<^sup>+\<^sup>+ cur target"
  shows "cur \<noteq> target \<and> compare_daemon_versions L cur target = Some (-1)"
  using upgrade_path_goes_up [OF assms] by (auto simp: compare_daemon_versions_def compare_versions_key)

section \<open>Only verified binaries\<close>

definition trusted_binary :: "go_lib \<Rightarrow> upgrade_env \<Rightarrow> upgrade_policy \<Rightarrow> string \<Rightarrow> bool" where
  "trusted_binary L U policy content \<longleftrightarrow>
     validate_upgrade_url L U (trim_space (up_URL policy)) \<and>
     (\<exists>status. ue_get U (trim_space (up_URL policy)) = Some (status, content) \<and> 200 \<le> status \<and> status \<le> 299) \<and>
     (\<exists>sha. expected_upgrade_sha L U policy = Inr sha \<and> ue_sha256 U content = normalize_sha256 L sha \<and> length (ue_sha256 U content) = 64) \<and>
     (\<exists>out. ue_version U content = Some out \<and> trim_space out = trim_space (up_TargetVersion policy))"

lemma verified_download_trusted:
  "verified_download L U policy path = Inr content \<Longrightarrow> trusted_binary L U policy content"
  by (auto simp: verified_download_def trusted_binary_def download_upgrade_file_def verify_file_sha256_def
      verify_downloaded_agent_version_def normalize_sha256_def rbind_def Let_def
      split: if_splits option.splits sum.splits)

lemma replaced_target:
  "replace_agent_binary U content i = (i', r) \<Longrightarrow>
   in_target i' = Some content \<or> (\<exists>e. r = Inl e) \<and> (in_target i' = in_target i \<or> in_target i' = None \<and> in_prev i' = in_target i)"
  by (auto simp: replace_agent_binary_def split: option.splits if_splits)


section \<open>A run\<close>

definition sha_a :: string where "sha_a = replicate 64 (CHR ''a'')"

definition upgrade_env0 :: upgrade_env where
  "upgrade_env0 =
     \<lparr>ue_parseURL = (\<lambda>u. Some \<lparr>pu_Scheme = take 5 u, pu_Hostname = [], pu_EscapedPath = drop 7 u\<rparr>),
      ue_pathUnescape = (\<lambda>p. p), ue_isLoopback = (\<lambda>_. False), ue_get = (\<lambda>_. Some (200, ''new'')),
      ue_sha256 = (\<lambda>_. sha_a), ue_version = (\<lambda>c. Some ''1.3.0''), ue_stage = True, ue_executable = True, ue_backup = True,
      ue_install = True, ue_restore = True, ue_isRoot = False, ue_chown = True, ue_chmod = True, ue_saveState = True\<rparr>"

definition upgrade_policy0 :: upgrade_policy where
  "upgrade_policy0 =
     \<lparr>up_Mode = ''auto'', up_TargetVersion = ''1.3.0'', up_URL = ''https://x/agent'', up_SHA256 = sha_a, up_ChecksumURL = []\<rparr>"

definition upgrade_host0 :: upgrade_host where
  "upgrade_host0 = \<lparr>uh_current = ''v1.3.0-rc2'', uh_autoUpdate = [], uh_path = ''/bin/agent'', uh_errorText = (\<lambda>_. ''failed'')\<rparr>"

definition upgraded :: "(installation \<times> upgrade_state option) \<times> bool" where
  "upgraded = apply_upgrade_from_heartbeat lib0 upgrade_env0 upgrade_host0 (Some upgrade_policy0) 7 8
     (\<lparr>in_target = Some ''old'', in_prev = None\<rparr>, None)"

lemma sha_a_normal: "normalize_sha256 lib0 sha_a = sha_a"
  by code_simp

lemma policy0_trimmed:
  "trim_space (up_TargetVersion upgrade_policy0) = ''1.3.0'' \<and> trim_space (up_URL upgrade_policy0) = ''https://x/agent'' \<and>
   trim_space ''/bin/agent'' \<noteq> []"
  by code_simp

lemma policy0_secure: "validate_upgrade_url lib0 upgrade_env0 ''https://x/agent''"
  by code_simp

lemma policy0_decision:
  "ud_ShouldApply (decide_agent_upgrade lib0 upgrade_policy0 ''v1.3.0-rc2'') \<and>
   ud_Mode (decide_agent_upgrade lib0 upgrade_policy0 ''v1.3.0-rc2'') = ''auto''"
  by code_simp

lemma sha_a_nonempty: "sha_a \<noteq> []"
  by (simp add: sha_a_def)

lemma download0: "verified_download lib0 upgrade_env0 upgrade_policy0 ''/bin/agent'' = Inr ''new''"
proof -
  have "expected_upgrade_sha lib0 upgrade_env0 upgrade_policy0 = Inr sha_a"
    by (simp add: expected_upgrade_sha_def upgrade_policy0_def sha_a_normal sha_a_nonempty)
  moreover have "verify_file_sha256 lib0 upgrade_env0 ''new'' sha_a = Inr ()"
    by (simp add: verify_file_sha256_def sha_a_normal sha_a_nonempty) (simp add: upgrade_env0_def)
  moreover have "verify_downloaded_agent_version upgrade_env0 ''new'' ''1.3.0'' = Inr ()" by code_simp
  moreover have "download_upgrade_file upgrade_env0 ''https://x/agent'' = Inr ''new''" by code_simp
  moreover have "ue_stage upgrade_env0" "ue_executable upgrade_env0" by (simp_all add: upgrade_env0_def)
  ultimately show ?thesis using policy0_trimmed policy0_secure by (simp add: verified_download_def)
qed

lemma upgraded_binary: "snd upgraded \<and> in_target (fst (fst upgraded)) = Some ''new''"
proof -
  have "\<not> auto_update_disabled lib0 []" and "\<not> retry_suppressed upgrade_policy0 7 no_upgrade_state" by code_simp+
  then show ?thesis
    using policy0_decision download0
    by (simp add: upgraded_def apply_upgrade_from_heartbeat_def apply_agent_upgrade_to_path_def replace_agent_binary_def
        upgrade_host0_def Let_def) (simp add: upgrade_env0_def)
qed


lemma rc2_upgrades: "upgrades_to lib0 ''v1.3.0-rc2'' ''1.3.0''"
  unfolding upgrades_to_def using policy0_decision policy0_trimmed by blast

lemma upgrades_never_cycle_witness: "compare_daemon_versions lib0 ''v1.3.0-rc2'' ''1.3.0'' = Some (-1)"
  using upgrades_never_cycle [of lib0, OF tranclp.r_into_trancl [of "upgrades_to lib0", OF rc2_upgrades]] by simp

end
