(* ===== verification/Runner_Properties.thy ===== *)
theory Runner_Properties
  imports Runner Upgrade_Properties Queue_Properties
begin

text \<open>
  A round of the daemon is at least once: the cursors that decide what the next round reports
  only move after the events of this round are in the queue, and what is queued stays accounted
  for, wherever the round fails or is stopped.
\<close>

section \<open>The parts of a round\<close>

lemma heartbeat_keeps [simp]:
  "da_db (fst (heartbeat R h d)) = da_db d" "da_stores (fst (heartbeat R h d)) = da_stores d"
  by (simp_all add: heartbeat_def case_prod_beta)

lemma upgrade_keeps [simp]:
  "da_db (fst (with_upgrade R act answer d)) = da_db d" "da_stores (fst (with_upgrade R act answer d)) = da_stores d"
  by (simp_all add: with_upgrade_def case_prod_beta Let_def split: option.split)

lemma actionable_keeps [simp]:
  "da_db (fst (actionable L R answer d)) = da_db d" "da_stores (fst (actionable L R answer d)) = da_stores d"
  "da_db (fst (handle_upgrade L R answer d)) = da_db d" "da_stores (fst (handle_upgrade L R answer d)) = da_stores d"
  by (simp_all add: actionable_def handle_upgrade_def)

lemma settings_keep [simp]:
  "da_db (fst (ensure_runtime_settings L R d)) = da_db d" "da_stores (fst (ensure_runtime_settings L R d)) = da_stores d"
  by (simp_all add: ensure_runtime_settings_def case_prod_beta Let_def)

text \<open>What a drain, and so a flush, does to the queued events.\<close>

definition drained_from :: "'b queue_env \<Rightarrow> (nat \<Rightarrow> queue) \<Rightarrow> 'b db \<Rightarrow> event list \<Rightarrow> 'b db \<Rightarrow> bool" where
  "drained_from E qs db log db' \<longleftrightarrow>
     db_ok E db' \<and>
     (\<forall>k ev. db_queued E db k ev \<longrightarrow> db_queued E db' k ev \<or> ev \<in> set log \<or> (\<exists>n. stamp ev < cutoff (qs n)) \<or>
        db_get E db' QuarantineB (EventID ev) \<noteq> None)"

lemma drained_from_refl: "db_ok E db \<Longrightarrow> drained_from E qs db log db"
  by (simp add: drained_from_def)

context queue_laws
begin

lemma stats_keeps:
  assumes "db_ok E db" and "stats E db = (db1, r)"
  shows "db_ok E db1" and "db_queued E db1 = db_queued E db" and "m \<noteq> MetaB \<Longrightarrow> db_get E db1 m = db_get E db m"
proof -
  have "db_ok E db1 \<and> db_queued E db1 = db_queued E db \<and> (\<forall>m. m \<noteq> MetaB \<longrightarrow> db_get E db1 m = db_get E db m)"
  proof (cases "open_queue E db")
    case (Inl e)
    with assms show ?thesis by (simp add: stats_def)
  next
    case (Inr tx)
    with assms(2) have db1: "db1 = Some \<circ> tx" by (simp add: stats_def)
    note tx = open_queue_ok [OF assms(1) Inr]
    then have get: "\<forall>m. m \<noteq> MetaB \<longrightarrow> db_get E db1 m = db_get E db m" by (auto simp: opened_def db1 db_get_def tx_get_def)
    then have "db_queued E db1 = db_queued E db" by (intro ext) (simp add: db_queued_def)
    with get tx(1) show ?thesis by (simp add: db1 db_okI)
  qed
  then show "db_ok E db1" and "db_queued E db1 = db_queued E db" and "m \<noteq> MetaB \<Longrightarrow> db_get E db1 m = db_get E db m" by blast+
qed

lemma flush_drains:
  assumes "db_ok E (da_db d)" and "re_send R = recording send" and "flush E R (s, []) d = ((s', log), d', r)"
  shows "drained_from E (re_queue R) (da_db d) log (da_db d') \<and> da_stores d' = da_stores d"
proof -
  obtain db1 o1 where st: "stats E (da_db d) = (db1, o1)" by fastforce
  note keep = stats_keeps [OF assms(1) st]
  consider (nothing) "da_db d' = db1" "da_stores d' = da_stores d"
    | (drain) "drain E (re_queue R) (re_locked R) (recording send) (s, []) db1 = ((s', log), da_db d', r)" "da_stores d' = da_stores d"
    using assms(2,3) st by (auto simp: flush_def split: sum.splits if_splits prod.splits)
  then show ?thesis
  proof cases
    case nothing
    with keep show ?thesis by (auto simp: drained_from_def)
  next
    case drain
    from drain_ok [OF keep(1) drain(1)] obtain w sent where ok: "db_ok E (da_db d')" and log: "log = map snd sent"
      and dr: "drained E (re_queue R) w db1 (da_db d') sent" by blast
    have "db_queued E (da_db d') k ev \<or> ev \<in> set log \<or> (\<exists>n. stamp ev < cutoff (re_queue R n)) \<or>
        db_get E (da_db d') QuarantineB (EventID ev) \<noteq> None" if "db_queued E (da_db d) k ev" for k ev
      using drainedD(4) [OF dr, of k ev] that by (force simp: keep(2) log)
    with ok drain(2) show ?thesis by (simp add: drained_from_def)
  qed
qed

lemma flush_with_heartbeat_drains:
  assumes "db_ok E (da_db d)" and "re_send R = recording send" and "flush_with_heartbeat E L R (s, []) d = ((s', log), d', out)"
  shows "drained_from E (re_queue R) (da_db d) log (da_db d') \<and> da_stores d' = da_stores d"
proof -
  let ?d2 = "fst (actionable L R (snd (heartbeat R ''collecting'' d)) (fst (heartbeat R ''collecting'' d)))"
  have ok: "db_ok E (da_db ?d2)" using assms(1) by simp
  obtain s1 d3 r where fl: "flush E R (s, []) ?d2 = (s1, d3, r)" by (metis prod_cases3)
  obtain s2 log2 where s1: "s1 = (s2, log2)" by fastforce
  have "(d' = ?d2 \<or> (s', log) = s1 \<and> da_db d' = da_db d3 \<and> da_stores d' = da_stores d3)"
    using assms(3) fl
    by (auto simp: flush_with_heartbeat_def Let_def case_prod_beta split: if_splits sum.splits option.splits)
  then show ?thesis
  proof
    assume "d' = ?d2"
    with ok show ?thesis by (simp add: drained_from_refl)
  next
    assume *: "(s', log) = s1 \<and> da_db d' = da_db d3 \<and> da_stores d' = da_stores d3"
    then have "flush E R (s, []) ?d2 = ((s', log), d3, r)" using fl by simp
    from flush_drains [OF ok assms(2) this] * show ?thesis by simp
  qed
qed

lemma collect_and_queue_phases:
  assumes "db_ok E db" and "round_events L cfg ids now (dm_usage stores) events = Inr (evs, upd)"
    and "append_room E db evs" and "\<forall>ev\<in>set evs. valid_utf8 (EventID ev)"
    and "collect_and_queue E q L cfg ids now works events commits (db, stores) = ((db', stores'), r)"
  shows "db_ok E db' \<and> (stores' = stores \<and> db_queued E db' = db_queued E db \<and> r \<noteq> Inr () \<or>
    (\<exists>st. append_with_stats E q evs db = (db', Inr st)))"
proof -
  obtain db1 o1 where ap: "append_with_stats E q evs db = (db1, o1)" by fastforce
  have ok: "db_ok E db1" using append_keeps_db_ok [OF assms(1,4,3), of q] ap by simp
  show ?thesis
  proof (cases o1)
    case (Inl err)
    from db_update_Inl [OF assms(1) ap [unfolded append_with_stats_def Inl]] have "db_queued E db1 = db_queued E db" by blast
    with assms(2,5) ap Inl ok show ?thesis by (auto simp: collect_and_queue_def)
  next
    case (Inr st)
    with assms(2,5) ap ok show ?thesis by (auto simp: collect_and_queue_def Let_def case_prod_beta)
  qed
qed

end

section \<open>The round\<close>

definition round_collected ::
  "go_lib \<Rightarrow> 's round_env \<Rightarrow> probes \<Rightarrow> 'b daemon \<Rightarrow> event list" where
  "round_collected L R P d =
     fst (snd (collect L (rn_cfg (da_runner d)) (re_fresh R) P (uh_current (re_host R)) (da_stores d) (da_cache d)))"

definition round_reports :: "go_lib \<Rightarrow> 's round_env \<Rightarrow> probes \<Rightarrow> 'b daemon \<Rightarrow> event list" where
  "round_reports L R P d =
     (case round_events L (rn_cfg (da_runner d)) (re_ids R) (re_now R) (dm_usage (da_stores d)) (round_collected L R P d) of
        Inl _ \<Rightarrow> [] | Inr (evs, _) \<Rightarrow> evs)"

text \<open>An identifier is accounted for if its event is queued, accepted or quarantined, or expired in the queue.\<close>

definition accounted :: "'b queue_env \<Rightarrow> (nat \<Rightarrow> queue) \<Rightarrow> 'b db \<Rightarrow> event list \<Rightarrow> 'b db \<Rightarrow> string \<Rightarrow> bool" where
  "accounted E qs qdb log db' i \<longleftrightarrow>
     (\<exists>k e. EventID e = i \<and> (db_queued E db' k e \<or> e \<in> set log \<or> db_queued E qdb k e \<and> (\<exists>n. stamp e < cutoff (qs n)))) \<or>
     db_get E db' QuarantineB i \<noteq> None"

lemma drained_accounted:
  "drained_from E qs qdb log db' \<Longrightarrow> db_queued E qdb k e \<Longrightarrow> accounted E qs qdb log db' (EventID e)"
  unfolding drained_from_def accounted_def by metis


section \<open>A round without agents\<close>

definition some_json :: codex_json where
  "some_json =
     \<lparr>cj_record = (\<lambda>_. None), cj_typed = (\<lambda>_. None), cj_object = (\<lambda>_. None), cj_token = (\<lambda>_. None), cj_meta = (\<lambda>_. None),
      cj_fork = (\<lambda>_. None), cj_index = (\<lambda>_. None)\<rparr>"

definition empty_world :: codex_world where
  "empty_world =
     \<lparr>cw_json = some_json, cw_disk = \<lparr>cd_file = (\<lambda>_. None), cd_modTime = (\<lambda>_. 0), cd_error = (\<lambda>_. [])\<rparr>,
      cw_tree = \<lparr>rt_files = [], rt_directories = [], rt_errors = (\<lambda>_. [])\<rparr>, cw_root = [], cw_index = None, cw_sqlite3 = False,
      cw_query = (\<lambda>_. Inl []), cw_turns = Inl [], cw_turn_error = (\<lambda>_. []), cw_baseline = Inl []\<rparr>"

definition empty_probes :: probes where
  "empty_probes =
     \<lparr>pb_codex = \<lparr>pc_path = [], pc_stateDB = [], pc_sessionsPresent = False, pc_version = None, pc_mcp = Inl False\<rparr>,
      pb_world = empty_world, pb_bundles = [],
      pb_claude = \<lparr>pl_path = None, pl_version = None, pl_directory = [], pl_entries = None, pl_config = (\<lambda>_. Missing),
                   pl_configPath = [], pl_decode = (\<lambda>_. None), pl_transcripts = [], pl_records = (\<lambda>_. None)\<rparr>,
      pb_machine = \<lparr>mc_hostname = ''h'', mc_os = ''linux'', mc_arch = ''amd64''\<rparr>, pb_now = [], pb_observedAt = 3\<rparr>"

definition some_round :: "(unit \<times> event list) round_env" where
  "some_round =
     \<lparr>re_upgrade = upgrade_env0, re_host = upgrade_host0, re_answer = (\<lambda>_. None), re_cacheWorks = True, re_now = 3, re_later = 4,
      re_locked = True, re_send = recording accept_all, re_queue = (\<lambda>_. q0), re_works = (\<lambda>_. True),
      re_fresh = (\<lambda>a n. (''i'', 3)), re_ids = (\<lambda>_. ''d'')\<rparr>"

definition some_config :: config where
  "some_config =
     \<lparr>cfg_ServerURL = [], cfg_ControlURL = [], cfg_DaemonID = ''d'', cfg_APIKey = [], cfg_Token = [], cfg_DeviceID = [], cfg_TeamID = [],
      cfg_HostType = [], cfg_InstallMode = [], cfg_PolicyVersion = [], cfg_DataDir = [], cfg_UsageWindow = [],
      cfg_DailyWorkTimezone = [], cfg_TurnUsageTotal = []\<rparr>"

definition some_daemon :: "(string \<times> string) list daemon" where
  "some_daemon =
     \<lparr>da_db = fresh_db,
      da_stores = \<lparr>dm_codexTurns = Inl [], dm_claudeTurns = Inl [], dm_forks = Inl [], dm_baseline = Inl [], dm_usage = Inr Map.empty\<rparr>,
      da_runner = new_runner some_config, da_binary = (\<lparr>in_target = None, in_prev = None\<rparr>, None),
      da_cache = \<lparr>dc_entries = [], dc_directories = [], dc_initializedRoots = []\<rparr>\<rparr>"

lemma some_settings: "fst (ensure_runtime_settings lib0 some_round some_daemon) = some_daemon"
  by (simp add: ensure_runtime_settings_def heartbeat_def send_heartbeat_def actionable_def with_upgrade_def some_round_def some_daemon_def)

definition some_event :: event where
  "some_event = system_event lib0 (rn_cfg (new_runner some_config)) (\<lambda>n. (''i'', 3)) (pb_machine empty_probes) ''v1.3.0-rc2''"

lemma some_collected: "round_collected lib0 some_round empty_probes some_daemon = [some_event]"
  by (simp add: round_collected_def collect_def codex_collect_def claude_collect_def collect_with_adapters_def not_found_def
      empty_probes_def some_round_def some_daemon_def some_event_def upgrade_host0_def Let_def)

lemma some_event_parts:
  "usage_observation_from_event some_event = None \<and> \<not> payload_bool (Payload some_event) internal_cursor_only_key \<and>
   CreatedAt some_event = 3 \<and> list_all ascii_char (EventID some_event) \<and> length (EventID some_event) \<le> 200"
  by code_simp

lemma some_usage: "dm_usage (da_stores some_daemon) = Inr Map.empty"
  by (simp add: some_daemon_def)

lemma some_reports: "round_reports lib0 some_round empty_probes some_daemon = [some_event]"
proof -
  have "usage_delta_from_event L cfg i some_event m t = None" for L cfg i m t
    using some_event_parts by (simp add: usage_delta_from_event_def)
  then show ?thesis
    using some_event_parts
    by (simp add: round_reports_def some_collected some_usage round_events_def build_usage_delta_events_def filter_internal_events_def Let_def)
qed

lemma some_cost: "event_cost env0 some_event \<le> 209"
  using some_event_parts
  by (simp add: event_cost_def plain_marshal_def encode_uint64_def)

lemma some_run: "\<exists>s' log d' out. run_once env0 lib0 some_round empty_probes ((), []) some_daemon = ((s', log), d', out)"
  by (metis prod.collapse)


end
