(* ===== verification/Prompt_Scope.thy ===== *)
theory Prompt_Scope
  imports Go_Files
begin

text \<open>
  \<open>pkg/promptscope\<close>: the part of a hook prompt that the user wrote. The Codex application wraps a
  request into an envelope of headings, the files the user attached and image blocks; what the
  envelope adds must reach neither the search for secrets nor the organization's context rules.
\<close>

section \<open>Lines and headings\<close>

definition codex_files_heading :: string where "codex_files_heading = ''Files mentioned by the user:''"

definition codex_request_heading :: string where "codex_request_heading = ''My request for Codex:''"

definition max_attachment_refs :: nat where "max_attachment_refs = 128"

record prompt_line =
  pl_next :: nat
  pl_text :: string

definition carriage_return :: string where "carriage_return = [CHR 0x0D]"

text \<open>The lines of the text from byte \<open>start\<close> on, each with the offset of the line after it.\<close>

function prompt_lines :: "nat \<Rightarrow> string \<Rightarrow> prompt_line list" where
  "prompt_lines start value =
     (case index_of value line_feed of
        None \<Rightarrow> [\<lparr>pl_next = start + length value, pl_text = trim_suffix value carriage_return\<rparr>]
      | Some i \<Rightarrow> \<lparr>pl_next = start + i + 1, pl_text = trim_suffix (take i value) carriage_return\<rparr>
                    # prompt_lines (start + i + 1) (drop (i + 1) value))"
  by pat_completeness auto
termination
  by (relation "measure (\<lambda>(start, value). length value)")
     (auto dest!: index_of_SomeD simp: line_feed_def)

declare prompt_lines.simps [simp del, code del]

lemma prompt_lines_code [code]: "prompt_lines start value =
     (case index_of value line_feed of
        None \<Rightarrow> [\<lparr>pl_next = start + length value, pl_text = trim_suffix value carriage_return\<rparr>]
      | Some i \<Rightarrow> \<lparr>pl_next = start + i + 1, pl_text = trim_suffix (take i value) carriage_return\<rparr>
                    # prompt_lines (start + i + 1) (drop (i + 1) value))"
  by (rule prompt_lines.simps)

definition split_prompt_lines :: "string \<Rightarrow> prompt_line list" where
  "split_prompt_lines value = prompt_lines 0 value"

definition markdown_heading :: "string \<Rightarrow> string option" where
  "markdown_heading line0 =
     (let line = trim_space line0; rest = dropWhile (\<lambda>c. c = CHR 0x23) line
      in if line = [] \<or> hd line \<noteq> CHR 0x23 then None
         else if rest = [] \<or> (hd rest \<noteq> CHR 0x20 \<and> hd rest \<noteq> CHR 0x09) then None
         else Some (trim_space rest))"

section \<open>Attachments and generated image blocks\<close>

text \<open>The paths of the attached files, without repetition; \<open>None\<close> when there are none or too many.\<close>

fun collect_paths :: "prompt_line list \<Rightarrow> string list \<Rightarrow> string list option" where
  "collect_paths [] paths = (if paths = [] then None else Some paths)"
| "collect_paths (l # ls) paths =
     (case markdown_heading (pl_text l) of
        None \<Rightarrow> collect_paths ls paths
      | Some heading \<Rightarrow>
          (case last_index_of heading '': '' of
             None \<Rightarrow> collect_paths ls paths
           | Some separator \<Rightarrow>
               let path = trim_space (drop (separator + 2) heading); paths' = List.insert path paths
               in if separator = 0 \<or> path = [] then collect_paths ls paths
                  else if length paths' > max_attachment_refs then None
                  else collect_paths ls paths'))"

definition attachment_paths :: "prompt_line list \<Rightarrow> string list option" where
  "attachment_paths ls = collect_paths ls []"

definition attribute_value :: "string \<Rightarrow> string \<Rightarrow> char \<Rightarrow> string option" where
  "attribute_value tag name quote =
     (let token = '' '' @ name @ ''='' @ [quote] in
      case index_of tag token of
        None \<Rightarrow> None
      | Some i \<Rightarrow> let rest = drop (i + length token) tag in map_option (\<lambda>e. take e rest) (index_of rest [quote]))"

definition quoted_attribute :: "string \<Rightarrow> string \<Rightarrow> string option" where
  "quoted_attribute tag name =
     (case attribute_value tag name (CHR 0x22) of Some v \<Rightarrow> Some v | None \<Rightarrow> attribute_value tag name (CHR 0x27))"

definition image_close :: string where "image_close = ''</image>''"

text \<open>The start of the generated block that ends the text, when it shows one of the attachments.\<close>

definition generated_block :: "string list \<Rightarrow> string \<Rightarrow> nat option" where
  "generated_block attachments body =
     (let inner = take (length body - length image_close) body in
      if \<not> has_suffix body image_close then None
      else case last_index_of inner ''<image'' of
             None \<Rightarrow> None
           | Some openStart \<Rightarrow>
               if openStart > 0 \<and> body ! (openStart - 1) \<noteq> CHR 0x0A \<and> body ! (openStart - 1) \<noteq> CHR 0x0D then None
               else case index_of (drop openStart inner) ''>'' of
                      None \<Rightarrow> None
                    | Some tagEnd \<Rightarrow>
                        (case quoted_attribute (take (tagEnd + 1) (drop openStart inner)) ''path'' of
                           None \<Rightarrow> None
                         | Some path \<Rightarrow> if path \<in> set attachments then Some openStart else None))"

lemma last_index_of_bound: "last_index_of s p = Some i \<Longrightarrow> i + length p \<le> length s"
  by (induction s arbitrary: i) (auto split: option.splits if_splits dest: has_prefix_length)

lemma generated_block_bound: "generated_block attachments body = Some i \<Longrightarrow> i < length body"
  by (auto simp: generated_block_def Let_def image_close_def split: if_splits option.splits dest!: last_index_of_bound)

function strip_blocks :: "string list \<Rightarrow> string \<Rightarrow> string" where
  "strip_blocks attachments body =
     (case generated_block attachments body of
        None \<Rightarrow> body
      | Some openStart \<Rightarrow> strip_blocks attachments (trim_space (take openStart body)))"
  by pat_completeness auto
termination
  by (relation "measure (\<lambda>(attachments, body). length body)")
     (auto dest!: generated_block_bound intro: le_less_trans [OF length_trim_space])

declare strip_blocks.simps [simp del, code del]

lemma strip_blocks_code [code]: "strip_blocks attachments body =
     (case generated_block attachments body of
        None \<Rightarrow> body
      | Some openStart \<Rightarrow> strip_blocks attachments (trim_space (take openStart body)))"
  by (rule strip_blocks.simps)

definition strip_generated_image_blocks :: "string \<Rightarrow> string list \<Rightarrow> string" where
  "strip_generated_image_blocks body attachments = strip_blocks attachments (trim_space body)"

section \<open>The request\<close>

definition heading_indices :: "string \<Rightarrow> prompt_line list \<Rightarrow> nat list" where
  "heading_indices heading ls = filter (\<lambda>i. markdown_heading (pl_text (ls ! i)) = Some heading) [0..<length ls]"

definition extract_codex_prompt :: "string \<Rightarrow> string" where
  "extract_codex_prompt rawPrompt =
     (let ls = split_prompt_lines rawPrompt;
          files = heading_indices codex_files_heading ls; requests = heading_indices codex_request_heading ls;
          filesIndex = last files; requestIndex = last requests
      in if files = [] \<and> requests = [] then rawPrompt
         else if files = [] \<and> length requests = 1 then trim_space (drop (pl_next (ls ! requestIndex)) rawPrompt)
         else if length files \<noteq> 1 \<or> length requests \<noteq> 1 \<or> filesIndex \<ge> requestIndex then []
         else case attachment_paths (take (requestIndex - (filesIndex + 1)) (drop (filesIndex + 1) ls)) of
                None \<Rightarrow> []
              | Some attachments \<Rightarrow>
                  strip_generated_image_blocks (drop (pl_next (ls ! requestIndex)) rawPrompt) attachments)"

text \<open>\<open>Extract\<close>\<close>

definition extract_prompt :: "string \<Rightarrow> string \<Rightarrow> string" where
  "extract_prompt agentType rawPrompt =
     (if equal_fold (trim_space agentType) ''codex'' then extract_codex_prompt rawPrompt else rawPrompt)"

end
