(* ===== verification/Go_Text.thy ===== *)
theory Go_Text
  imports Go_Files
begin

text \<open>
  Facts on texts that were put together from parts: where white space ends, where a part is found
  again, what trimming leaves.
\<close>

section \<open>White space around a text\<close>

lemma space_runes_ascii: "p \<in> set space_runes \<Longrightarrow> length p \<noteq> 1 \<Longrightarrow> d \<in> set p \<Longrightarrow> 0x80 \<le> byte d"
  by (auto simp: space_runes_def byte_def)

lemma space_width_zero_iff: "space_width s = 0 \<longleftrightarrow> (\<forall>p\<in>set space_runes. \<not> has_prefix s p)"
  by (auto simp: space_width_def find_None_iff split: option.splits dest!: find_SomeD dest: space_runes_nonempty)

lemma space_width_end_zero_iff: "space_width_end s = 0 \<longleftrightarrow> (\<forall>p\<in>set space_runes. \<not> has_suffix s p)"
  by (auto simp: space_width_end_def find_None_iff split: option.splits dest!: find_SomeD dest: space_runes_nonempty)

lemma space_width_append_ascii:
  assumes "s \<noteq> []" and "space_width s = 0" and "byte c < 0x80"
  shows "space_width (s @ c # t) = 0"
  unfolding space_width_zero_iff
proof (intro ballI notI)
  fix p assume p: "p \<in> set space_runes" and "has_prefix (s @ c # t) p"
  then obtain r where r: "s @ c # t = p @ r" by (auto simp: has_prefix_iff)
  show False
  proof (cases "length p \<le> length s")
    case True
    with r have "has_prefix s p" unfolding has_prefix_def by (metis append_eq_append_conv_if)
    with assms(2) p show False by (auto simp: space_width_zero_iff)
  next
    case False
    then have len: "length s < length p" by simp
    with r have "p ! length s = c" by (metis nth_append nth_append_length)
    moreover have "length p \<noteq> 1" using len assms(1) by (cases s) auto
    ultimately show False using space_runes_ascii [OF p] assms(3) len by (metis not_less nth_mem)
  qed
qed

lemma space_width_end_append_ascii:
  assumes "s \<noteq> []" and "space_width_end s = 0" and "byte c < 0x80"
  shows "space_width_end (t @ c # s) = 0"
  unfolding space_width_end_zero_iff
proof (intro ballI notI)
  fix p assume p: "p \<in> set space_runes" and "has_suffix (t @ c # s) p"
  then obtain r where "t @ c # s = r @ p" by (auto simp: has_suffix_iff)
  then have "rev (t @ c # s) = rev (r @ p)" by (rule arg_cong)
  then have r: "rev s @ c # rev t = rev p @ rev r" by simp
  show False
  proof (cases "length p \<le> length s")
    case True
    with r obtain q where "rev s = rev p @ q" by (metis append_eq_append_conv_if append_take_drop_id length_rev)
    then have "s = rev q @ p" by (metis rev_append rev_rev_ident)
    with assms(2) p show False by (auto simp: space_width_end_zero_iff has_suffix_iff)
  next
    case False
    then have len: "length (rev s) < length (rev p)" by simp
    with r have "rev p ! length (rev s) = c" by (metis nth_append nth_append_length)
    then have "c \<in> set p" using len by (metis nth_mem set_rev)
    moreover have "length p \<noteq> 1" using len assms(1) by (cases s) auto
    ultimately show False using space_runes_ascii [OF p] assms(3) by (metis not_less)
  qed
qed

definition ascii_space :: "char \<Rightarrow> bool" where
  "ascii_space c \<longleftrightarrow> byte c = 0x20 \<or> (9 \<le> byte c \<and> byte c \<le> 13)"

lemma space_width_ascii:
  assumes "byte c < 0x80" and "\<not> ascii_space c"
  shows "space_width (c # s) = 0"
proof -
  have "byte (hd p) \<noteq> byte c" if "p \<in> set space_runes" for p
    using that assms by (auto simp: space_runes_def ascii_space_def byte_def)
  then have "hd p \<noteq> c \<and> p \<noteq> []" if "p \<in> set space_runes" for p
    using that space_runes_nonempty by blast
  then show ?thesis unfolding space_width_zero_iff
    by (metis append_Cons has_prefix_iff hd_append2 list.sel(1))
qed

lemma space_width_end_ascii:
  assumes "byte c < 0x80" and "\<not> ascii_space c"
  shows "space_width_end (s @ [c]) = 0"
proof -
  have "byte (last p) \<noteq> byte c" if "p \<in> set space_runes" for p
    using that assms by (auto simp: space_runes_def ascii_space_def byte_def)
  then have "last p \<noteq> c \<and> p \<noteq> []" if "p \<in> set space_runes" for p
    using that space_runes_nonempty by blast
  then show ?thesis unfolding space_width_end_zero_iff
    by (metis has_suffix_iff last_appendR last_snoc)
qed

lemma space_width_space: "space_width (CHR 0x20 # s) = 1" "space_width (CHR 0x0A # s) = 1"
  by (simp_all add: space_width_def space_runes_def has_prefix_def)

lemma space_width_end_space: "space_width_end (s @ [CHR 0x20]) = 1" "space_width_end (s @ [CHR 0x0A]) = 1"
  by (simp_all add: space_width_end_def space_runes_def has_suffix_def)

lemma trimmed_widths:
  assumes "trim_space s = s" shows "space_width s = 0" and "space_width_end s = 0"
proof -
  have "space_width_end (trim_space s) = 0" by (simp add: trim_space_def space_width_end_trim_right)
  then show "space_width_end s = 0" by (simp add: assms)
  obtain n where n: "trim_right (trim_left s) = take n (trim_left s)" using trim_right_prefix by blast
  have "space_width (trim_space s) = 0"
    unfolding trim_space_def n by (intro space_width_take space_width_trim_left)
  then show "space_width s = 0" by (simp add: assms)
qed

lemma trim_space_id: "space_width s = 0 \<Longrightarrow> space_width_end s = 0 \<Longrightarrow> trim_space s = s"
  by (simp add: trim_space_def trim_left_stops trim_right_stops)

lemma trim_space_Cons_space [simp]:
  "trim_space (CHR 0x20 # s) = trim_space s" "trim_space (CHR 0x0A # s) = trim_space s"
  unfolding trim_space_def by (subst trim_left.simps, simp add: space_width_space)+

lemma trim_right_snoc_space: "c \<in> {CHR 0x20, CHR 0x0A} \<Longrightarrow> trim_right (s @ [c]) = trim_right s"
  by (subst trim_right.simps) (auto simp: space_width_end_space)

lemma trim_space_snoc_space:
  assumes "s \<noteq> []" "space_width s = 0" "c \<in> {CHR 0x20, CHR 0x0A}"
  shows "trim_space (s @ [c]) = trim_space s"
proof -
  have "byte c < 0x80" using assms(3) by (auto simp: byte_def)
  from space_width_append_ascii [OF assms(1,2) this, of "[]"] have "trim_left (s @ [c]) = s @ [c]" by (simp add: trim_left_stops)
  with assms(2) show ?thesis by (simp only: trim_space_def trim_left_stops trim_right_snoc_space [OF assms(3)])
qed

section \<open>Searching a text that was put together\<close>

lemma has_prefix_append [simp]: "has_prefix (p @ t) p"
  by (simp add: has_prefix_def)

lemma last_index_of_None_iff: "last_index_of s p = None \<longleftrightarrow> index_of s p = None"
  by (induction s) (auto split: option.splits)

lemma last_index_of_append: "last_index_of t p = Some i \<Longrightarrow> last_index_of (s @ t) p = Some (length s + i)"
  by (induction s) auto

lemma last_index_of_here:
  assumes "p \<noteq> []" and "index_of (tl p @ t) p = None"
  shows "last_index_of (s @ p @ t) p = Some (length s)"
proof -
  obtain c q where p: "p = c # q" using assms(1) by (cases p) auto
  with assms(2) have "last_index_of (q @ t) p = None" by (simp add: last_index_of_None_iff)
  moreover have "has_prefix (c # q @ t) p" by (simp add: p has_prefix_def)
  ultimately have "last_index_of (p @ t) p = Some 0" by (simp add: p)
  from last_index_of_append [OF this, of s] show ?thesis by simp
qed

lemma index_of_None_hd: "p \<noteq> [] \<Longrightarrow> hd p \<notin> set s \<Longrightarrow> index_of s p = None"
proof (induction s)
  case (Cons c s)
  then have "\<not> has_prefix (c # s) p" by (auto simp: has_prefix_iff Cons_eq_append_conv)
  with Cons show ?case by simp
qed simp

lemma index_of_here:
  assumes "last p \<notin> set (s @ butlast p)" and "p \<noteq> []"
  shows "index_of (s @ p @ t) p = Some (length s)"
  using assms(1)
proof (induction s)
  case Nil
  obtain c q where "p = c # q" using assms(2) by (cases p) auto
  then show ?case by (simp add: has_prefix_def)
next
  case (Cons c s)
  have "\<not> has_prefix ((c # s) @ p @ t) p"
  proof
    assume "has_prefix ((c # s) @ p @ t) p"
    then have eq: "take (length p) ((c # s) @ p @ t) = p" by (simp add: has_prefix_def)
    let ?i = "length p - 1"
    have i: "?i < length p" using assms(2) by (simp add: length_greater_0_conv)
    have "p = butlast p @ [last p]" using assms(2) by simp
    then have "(c # s) @ p @ t = ((c # s) @ butlast p) @ [last p] @ t" by (metis append.assoc)
    moreover have "?i < length ((c # s) @ butlast p)" by simp
    ultimately have "last p = ((c # s) @ butlast p) ! ?i"
      using eq i assms(2) by (metis last_conv_nth nth_append nth_take)
    then have "last p \<in> set ((c # s) @ butlast p)"
      using \<open>?i < length ((c # s) @ butlast p)\<close> by (metis nth_mem)
    with Cons.prems show False by simp
  qed
  with Cons show ?case by simp
qed

end
