(* ===== verification/Prompt_Properties.thy ===== *)
theory Prompt_Properties
  imports Prompt_Scope Go_Text
begin

text \<open>
  The prompt of the Codex application: the envelope that wraps a request, and the proof that
  \<open>Extract\<close> takes the request out of it.
\<close>

section \<open>Lines of a text that was put together\<close>

lemma prompt_lines_feed:
  assumes "CHR 0x0A \<notin> set l"
  shows "prompt_lines n (l @ line_feed @ rest) =
    \<lparr>pl_next = n + length l + 1, pl_text = trim_suffix l carriage_return\<rparr> # prompt_lines (n + length l + 1) rest"
proof -
  have "index_of (l @ line_feed @ rest) line_feed = Some (length l)"
    by (rule index_of_here) (use assms in \<open>auto simp: line_feed_def\<close>)
  then show ?thesis by (subst prompt_lines.simps) (simp add: line_feed_def)
qed

lemma prompt_lines_single: "CHR 0x0A \<notin> set l \<Longrightarrow>
    prompt_lines n l = [\<lparr>pl_next = n + length l, pl_text = trim_suffix l carriage_return\<rparr>]"
  by (subst prompt_lines.simps) (simp add: line_feed_def index_of_None_hd)

lemma prompt_lines_offset: "map pl_text (prompt_lines n b) = map pl_text (prompt_lines m b)"
proof (induction n b arbitrary: m rule: prompt_lines.induct)
  case (1 n b)
  show ?case
  proof (cases "index_of b line_feed")
    case (Some i)
    from 1 [OF Some, of "m + i + 1"] Some show ?thesis by (simp add: prompt_lines.simps [of _ b])
  qed (simp add: prompt_lines.simps [of _ b])
qed

lemma prompt_lines_texts:
  "map pl_text (prompt_lines n (a @ line_feed @ b)) = map pl_text (prompt_lines m a) @ map pl_text (prompt_lines k b)"
proof (induction a arbitrary: n m rule: length_induct)
  case (1 a)
  show ?case
  proof (cases "index_of a line_feed")
    case None
    then have "CHR 0x0A \<notin> set a" by (simp add: line_feed_def index_of_char_None_iff)
    then show ?thesis using prompt_lines_offset [of "n + length a + 1" b k] by (simp add: prompt_lines_feed prompt_lines_single)
  next
    case (Some i)
    from index_of_char_Some [of a "CHR 0x0A" i] Some
    have i: "CHR 0x0A \<notin> set (take i a)" and "a = take i a @ CHR 0x0A # drop (Suc i) a" by (simp_all add: line_feed_def)
    then have a: "a = take i a @ line_feed @ drop (Suc i) a" by (simp add: line_feed_def)
    have "length (drop (Suc i) a) < length a" using index_of_SomeD [OF Some] by (auto simp: line_feed_def)
    from 1 [rule_format, OF this]
    have ih: "map pl_text (prompt_lines n' (drop (Suc i) a @ line_feed @ b)) =
      map pl_text (prompt_lines m' (drop (Suc i) a)) @ map pl_text (prompt_lines k b)" for n' m' by blast
    have "a @ line_feed @ b = take i a @ line_feed @ drop (Suc i) a @ line_feed @ b"
      using arg_cong [OF a, of "\<lambda>s. s @ line_feed @ b"] by simp
    then have "prompt_lines n (a @ line_feed @ b) = prompt_lines n (take i a @ line_feed @ drop (Suc i) a @ line_feed @ b)"
      by (rule arg_cong)
    moreover have "prompt_lines m a = prompt_lines m (take i a @ line_feed @ drop (Suc i) a)"
      by (rule arg_cong [OF a])
    ultimately show ?thesis by (simp add: prompt_lines_feed [OF i] ih)
  qed
qed

definition fed :: "string list \<Rightarrow> string" where
  "fed ls = concat (map (\<lambda>l. l @ line_feed) ls)"

lemma prompt_lines_fed:
  assumes "\<forall>l\<in>set ls. CHR 0x0A \<notin> set l"
  shows "\<exists>front. prompt_lines n (fed ls @ body) = front @ prompt_lines (n + length (fed ls)) body
    \<and> map pl_text front = map (\<lambda>l. trim_suffix l carriage_return) ls
    \<and> (ls \<noteq> [] \<longrightarrow> pl_next (last front) = n + length (fed ls))"
  using assms
proof (induction ls arbitrary: n)
  case (Cons l ls)
  then obtain front where front: "prompt_lines (n + length l + 1) (fed ls @ body) = front @ prompt_lines (n + length l + 1 + length (fed ls)) body"
    "map pl_text front = map (\<lambda>l. trim_suffix l carriage_return) ls"
    "ls \<noteq> [] \<longrightarrow> pl_next (last front) = n + length l + 1 + length (fed ls)" by fastforce
  let ?l = "\<lparr>pl_next = n + length l + 1, pl_text = trim_suffix l carriage_return\<rparr>"
  have len: "n + length (fed (l # ls)) = n + length l + 1 + length (fed ls)" by (simp add: fed_def line_feed_def)
  have nl: "CHR 0x0A \<notin> set l" using Cons.prems by simp
  have "prompt_lines n (fed (l # ls) @ body) = (?l # front) @ prompt_lines (n + length (fed (l # ls))) body"
    unfolding len using prompt_lines_feed [OF nl, of n "fed ls @ body"] front(1) by (simp add: fed_def)
  moreover have "pl_next (last (?l # front)) = n + length (fed (l # ls))"
    using front(2,3) len by (cases ls) (auto simp: fed_def line_feed_def)
  ultimately show ?case using front(2) by (intro exI [of _ "?l # front"]) simp
qed (simp add: fed_def)

lemma heading_indices_append:
  "heading_indices h (xs @ ys) = heading_indices h xs @ map ((+) (length xs)) (heading_indices h ys)"
proof -
  let ?P = "\<lambda>i. markdown_heading (pl_text ((xs @ ys) ! i)) = Some h"
  have "[0..<length (xs @ ys)] = [0..<length xs] @ map ((+) (length xs)) [0..<length ys]"
    unfolding length_append upt_add_eq_append [OF le0] by (simp, rule nth_equalityI) simp_all
  then have "heading_indices h (xs @ ys) = filter ?P [0..<length xs] @ filter ?P (map ((+) (length xs)) [0..<length ys])"
    by (simp only: heading_indices_def filter_append)
  moreover have "filter ?P [0..<length xs] = heading_indices h xs"
    unfolding heading_indices_def by (rule filter_cong) (auto simp: nth_append)
  moreover have "filter ?P (map ((+) (length xs)) [0..<length ys]) = map ((+) (length xs)) (heading_indices h ys)"
    by (simp only: heading_indices_def filter_map o_def nth_append_length_plus)
  ultimately show ?thesis by simp
qed

lemma heading_indices_empty: "\<forall>l\<in>set ls. markdown_heading (pl_text l) \<noteq> Some h \<Longrightarrow> heading_indices h ls = []"
  by (auto simp: heading_indices_def filter_empty_conv)

lemma heading_indices_one: "markdown_heading (pl_text l) = Some h \<Longrightarrow> heading_indices h [l] = [0]"
  by (simp add: heading_indices_def)

section \<open>The envelope of the Codex application\<close>

text \<open>An attached file is a name with a path, a generated image block a label with a path.\<close>

definition file_line :: "string \<times> string \<Rightarrow> string" where
  "file_line f = ''## '' @ fst f @ '': '' @ snd f"

definition envelope_lines :: "(string \<times> string) list \<Rightarrow> string list" where
  "envelope_lines files =
     [''# '' @ codex_files_heading, []] @ map file_line files @ [[], ''## '' @ codex_request_heading]"

definition image_tag :: "string \<times> string \<Rightarrow> string" where
  "image_tag b = ''<image name='' @ fst b @ '' path='' @ [CHR 0x22] @ snd b @ [CHR 0x22] @ ''>''"

definition image_block :: "string \<times> string \<Rightarrow> string" where
  "image_block b = line_feed @ image_tag b @ line_feed @ image_close"

definition codex_envelope :: "(string \<times> string) list \<Rightarrow> string \<Rightarrow> (string \<times> string) list \<Rightarrow> string" where
  "codex_envelope files request images =
     fed (envelope_lines files) @ line_feed @ request @ concat (map image_block images)"

definition file_ok :: "string \<times> string \<Rightarrow> bool" where
  "file_ok f \<longleftrightarrow>
     fst f \<noteq> [] \<and> snd f \<noteq> [] \<and> trim_space (fst f) = fst f \<and> trim_space (snd f) = snd f
     \<and> CHR 0x0A \<notin> set (fst f) \<union> set (snd f) \<and> \<not> contains (snd f) '': ''"

definition plain_text :: "string \<Rightarrow> bool" where
  "plain_text s \<longleftrightarrow> set s \<inter> {CHR 0x0A, CHR 0x22, CHR ''<'', CHR ''>''} = {}"

definition image_ok :: "(string \<times> string) list \<Rightarrow> string \<times> string \<Rightarrow> bool" where
  "image_ok files b \<longleftrightarrow> plain_text (fst b) \<and> plain_text (snd b) \<and> snd b \<in> snd ` set files"

definition request_ok :: "string \<Rightarrow> bool" where
  "request_ok request \<longleftrightarrow>
     request \<noteq> [] \<and> trim_space request = request \<and> \<not> has_suffix request image_close
     \<and> list_all (\<lambda>l. markdown_heading (pl_text l) \<noteq> Some codex_files_heading
                  \<and> markdown_heading (pl_text l) \<noteq> Some codex_request_heading) (split_prompt_lines request)"

section \<open>Headings of the envelope\<close>

lemma ascii_space_Cons: "\<not> ascii_space (CHR ''#'')" "\<not> ascii_space (CHR '':'')" "\<not> ascii_space (CHR ''<'')" "\<not> ascii_space (CHR ''>'')"
  "byte (CHR ''#'') < 0x80" "byte (CHR '':'') < 0x80" "byte (CHR ''<'') < 0x80" "byte (CHR ''>'') < 0x80"
  by (simp_all add: ascii_space_def byte_def)

lemma trim_suffix_return: "space_width_end s = 0 \<Longrightarrow> trim_suffix s carriage_return = s"
  unfolding space_width_end_zero_iff trim_suffix_def carriage_return_def by (auto simp: space_runes_def)

lemma fixed_headings:
  "markdown_heading (trim_suffix (''# '' @ codex_files_heading) carriage_return) = Some codex_files_heading"
  "markdown_heading (trim_suffix (''## '' @ codex_request_heading) carriage_return) = Some codex_request_heading"
  "markdown_heading (trim_suffix [] carriage_return) = None"
  by code_simp+

lemma file_line_heading:
  assumes "file_ok f"
  shows "markdown_heading (trim_suffix (file_line f) carriage_return) = Some (fst f @ '': '' @ snd f)"
proof -
  let ?h = "fst f @ '': '' @ snd f"
  have f: "fst f \<noteq> []" "snd f \<noteq> []" "space_width (fst f) = 0" "space_width_end (snd f) = 0"
    using assms trimmed_widths by (auto simp: file_ok_def)
  have "space_width_end ((''## '' @ fst f @ '':'') @ CHR '' '' # snd f) = 0"
    by (rule space_width_end_append_ascii) (use f in \<open>simp_all add: byte_def\<close>)
  then have e: "space_width_end (file_line f) = 0" by (simp add: file_line_def)
  moreover have "space_width (file_line f) = 0" by (simp add: file_line_def space_width_ascii ascii_space_Cons)
  ultimately have line: "trim_space (file_line f) = file_line f" by (intro trim_space_id)
  have "space_width_end ((fst f @ '':'') @ CHR '' '' # snd f) = 0"
    by (rule space_width_end_append_ascii) (use f in \<open>simp_all add: byte_def\<close>)
  moreover have "space_width (fst f @ CHR '':'' # '' '' @ snd f) = 0"
    by (rule space_width_append_ascii) (use f in \<open>simp_all add: byte_def\<close>)
  ultimately have "trim_space ?h = ?h" by (intro trim_space_id) simp_all
  then have "trim_space (CHR '' '' # ?h) = ?h" by simp
  with line show ?thesis unfolding markdown_heading_def trim_suffix_return [OF e]
    by (simp add: Let_def file_line_def)
qed

lemma file_heading_other: "fst f @ '': '' @ snd f \<noteq> codex_files_heading" "fst f @ '': '' @ snd f \<noteq> codex_request_heading"
proof -
  have "CHR '' '' \<in> set (tl (dropWhile (\<lambda>c. c \<noteq> CHR '':'') (fst f @ '': '' @ snd f)))"
    by (cases f) (auto simp: dropWhile_append dest: set_dropWhileD)
  moreover have "tl (dropWhile (\<lambda>c. c \<noteq> CHR '':'') codex_files_heading) = []"
    "tl (dropWhile (\<lambda>c. c \<noteq> CHR '':'') codex_request_heading) = []"
    by (simp_all add: codex_files_heading_def codex_request_heading_def)
  ultimately show "fst f @ '': '' @ snd f \<noteq> codex_files_heading" "fst f @ '': '' @ snd f \<noteq> codex_request_heading"
    by (metis list.set(1) empty_iff)+
qed

lemma collect_file_paths:
  assumes "map pl_text ls = map (\<lambda>f. trim_suffix (file_line f) carriage_return) files"
    and "\<forall>f\<in>set files. file_ok f" and "length paths + length files \<le> max_attachment_refs"
  shows "collect_paths (ls @ rest) paths = collect_paths rest (foldl (\<lambda>ps f. List.insert (snd f) ps) paths files)"
  using assms
proof (induction files arbitrary: ls paths)
  case (Cons f files)
  then obtain l ls' where ls: "ls = l # ls'" "pl_text l = trim_suffix (file_line f) carriage_return"
    "map pl_text ls' = map (\<lambda>f. trim_suffix (file_line f) carriage_return) files" by (cases ls) auto
  have ok: "file_ok f" using Cons.prems by simp
  have "index_of (tl '': '' @ snd f) '': '' = None"
    using ok by (simp add: file_ok_def contains_def has_prefix_def)
  from last_index_of_here [OF _ this, of "fst f"]
  have sep: "last_index_of (fst f @ '': '' @ snd f) '': '' = Some (length (fst f))" by simp
  have "length (List.insert (snd f) paths) + length files \<le> max_attachment_refs"
    using Cons.prems(3) by (simp add: List.insert_def)
  with Cons.IH [OF ls(3)] Cons.prems(2)
  have "collect_paths (ls' @ rest) (List.insert (snd f) paths)
    = collect_paths rest (foldl (\<lambda>ps f. List.insert (snd f) ps) (List.insert (snd f) paths) files)" by simp
  moreover have "length (List.insert (snd f) paths) \<le> max_attachment_refs"
    using Cons.prems(3) by (simp add: List.insert_def)
  ultimately show ?case
    using ok ls sep by (simp add: file_line_heading Let_def file_ok_def)
qed simp

lemma set_foldl_insert: "set (foldl (\<lambda>ps f. List.insert (snd f) ps) paths files) = set paths \<union> snd ` set files"
  by (induction files arbitrary: paths) auto

section \<open>Generated blocks\<close>

lemma generated_block_found:
  assumes "image_ok files b" and "\<forall>f. f \<in> set files \<longrightarrow> snd f \<in> set paths"
  shows "generated_block paths (s @ image_block b) = Some (length s + 1)"
proof -
  let ?inner = "s @ line_feed @ image_tag b @ line_feed"
  have b: "plain_text (fst b)" "plain_text (snd b)" "snd b \<in> set paths"
    using assms by (auto simp: image_ok_def)
  have inner: "take (length (s @ image_block b) - length image_close) (s @ image_block b) = ?inner"
    by (simp add: image_block_def)
  have suffix: "has_suffix (s @ image_block b) image_close"
    by (auto simp: has_suffix_iff image_block_def)
  let ?rest = "'' name='' @ fst b @ '' path='' @ [CHR 0x22] @ snd b @ [CHR 0x22] @ ''>'' @ line_feed"
  have eq: "?inner = (s @ line_feed) @ ''<image'' @ ?rest" by (simp add: image_tag_def)
  have none: "index_of (tl ''<image'' @ ?rest) ''<image'' = None"
    by (rule index_of_None_hd) (use b in \<open>auto simp: plain_text_def line_feed_def\<close>)
  have "last_index_of ((s @ line_feed) @ ''<image'' @ ?rest) ''<image'' = Some (length (s @ line_feed))"
    by (rule last_index_of_here [OF _ none]) simp
  then have start: "last_index_of ?inner ''<image'' = Some (length s + 1)"
    unfolding eq by (simp add: line_feed_def)
  have before: "(s @ image_block b) ! length s = CHR 0x0A" by (simp add: image_block_def line_feed_def)
  have dropped: "drop (length s + 1) ?inner = image_tag b @ line_feed" by (simp add: line_feed_def)
  let ?tag = "''<image name='' @ fst b @ '' path='' @ [CHR 0x22] @ snd b @ [CHR 0x22]"
  have "index_of (?tag @ ''>'' @ line_feed) ''>'' = Some (length ?tag)"
    by (rule index_of_here) (use b in \<open>auto simp: plain_text_def\<close>)
  then have tag: "index_of (image_tag b @ line_feed) ''>'' = Some (length ?tag)" by (simp add: image_tag_def)
  have taken: "take (length ?tag + 1) (image_tag b @ line_feed) = image_tag b"
  proof -
    have "length ?tag + 1 = length (image_tag b)" by (simp add: image_tag_def)
    then show ?thesis by (metis append_eq_conv_conj)
  qed
  let ?token = "'' '' @ ''path'' @ ''='' @ [CHR 0x22]"
  have "index_of ((''<image name='' @ fst b) @ ?token @ snd b @ [CHR 0x22] @ ''>'') ?token = Some (length (''<image name='' @ fst b))"
    by (rule index_of_here) (use b in \<open>auto simp: plain_text_def\<close>)
  moreover have "index_of (snd b @ [CHR 0x22] @ ''>'') [CHR 0x22] = Some (length (snd b))"
    by (rule index_of_here) (use b in \<open>auto simp: plain_text_def\<close>)
  ultimately have attr: "quoted_attribute (image_tag b) ''path'' = Some (snd b)"
    by (simp add: quoted_attribute_def attribute_value_def image_tag_def Let_def)
  show ?thesis
    unfolding generated_block_def inner Let_def
    using suffix start before dropped tag taken attr b(3) by simp
qed

lemma request_blocks_trimmed:
  assumes "request_ok request"
  shows "space_width (request @ concat (map image_block images)) = 0 \<and> space_width_end (request @ concat (map image_block images)) = 0"
proof -
  let ?s = "request @ concat (map image_block images)"
  have r: "request \<noteq> []" "space_width request = 0" "space_width_end request = 0"
    using assms trimmed_widths [of request] by (simp_all add: request_ok_def)
  show ?thesis
  proof (cases images rule: rev_cases)
    case (snoc bs c)
    have "space_width_end ((request @ concat (map image_block bs) @ line_feed @ image_tag c @ line_feed @ ''</image'') @ [CHR ''>'']) = 0"
      by (rule space_width_end_ascii) (simp_all add: ascii_space_def byte_def)
    then have "space_width_end ?s = 0" by (simp add: snoc image_block_def image_close_def)
    moreover obtain t where "concat (map image_block images) = CHR 0x0A # t"
      using snoc by (cases bs) (auto simp: image_block_def line_feed_def)
    ultimately show ?thesis using space_width_append_ascii [OF r(1,2), of "CHR 0x0A" t] by (simp add: byte_def)
  qed (use r in simp)
qed

lemma strip_blocks_envelope:
  assumes "\<forall>b\<in>set images. image_ok files b" and "\<forall>f. f \<in> set files \<longrightarrow> snd f \<in> set paths" and "request_ok request"
  shows "strip_blocks paths (request @ concat (map image_block images)) = request"
  using assms(1)
proof (induction images rule: rev_induct)
  case Nil
  have "generated_block paths request = None" using assms(3) by (simp add: request_ok_def generated_block_def)
  then show ?case by (simp add: strip_blocks.simps)
next
  case (snoc b images)
  let ?s = "request @ concat (map image_block images)"
  have r: "request \<noteq> []" using assms(3) by (simp add: request_ok_def)
  have "space_width ?s = 0 \<and> space_width_end ?s = 0" by (rule request_blocks_trimmed [OF assms(3)])
  then have "trim_space (?s @ line_feed) = ?s"
    using r trim_space_snoc_space [of ?s "CHR 0x0A"] by (simp add: line_feed_def trim_space_id)
  moreover have "generated_block paths (?s @ image_block b) = Some (length ?s + 1)"
    by (rule generated_block_found [OF _ assms(2)]) (use snoc.prems in simp)
  moreover have "take (length ?s + 1) (?s @ image_block b) = ?s @ line_feed" by (simp add: image_block_def line_feed_def)
  ultimately have "strip_blocks paths (?s @ image_block b) = strip_blocks paths ?s"
    by (simp only: strip_blocks.simps [of paths "?s @ image_block b"] option.case)
  with snoc show ?case by simp
qed

lemma image_lines:
  assumes "image_ok files b"
  shows "map pl_text (prompt_lines n (s @ image_block b)) = map pl_text (prompt_lines n s) @ [image_tag b, image_close]"
proof -
  have nl: "CHR 0x0A \<notin> set (image_tag b)" "CHR 0x0A \<notin> set image_close"
    using assms by (auto simp: image_ok_def plain_text_def image_tag_def image_close_def)
  have "space_width_end ((''<image name='' @ fst b @ '' path='' @ [CHR 0x22] @ snd b @ [CHR 0x22]) @ [CHR ''>'']) = 0"
    "space_width_end (''</image'' @ [CHR ''>'']) = 0"
    by (rule space_width_end_ascii; simp add: ascii_space_def byte_def)+
  then have t: "trim_suffix (image_tag b) carriage_return = image_tag b" "trim_suffix image_close carriage_return = image_close"
    by (simp_all add: trim_suffix_return image_tag_def image_close_def)
  show ?thesis
    unfolding image_block_def prompt_lines_texts [of n s _ n 0]
    using prompt_lines_feed [OF nl(1), of 0 image_close] prompt_lines_single [OF nl(2)] t by simp
qed

definition no_heading :: "string \<Rightarrow> bool" where
  "no_heading l \<longleftrightarrow> markdown_heading l \<noteq> Some codex_files_heading \<and> markdown_heading l \<noteq> Some codex_request_heading"

lemma no_heading_tag: "no_heading (image_tag b)" "no_heading image_close" "no_heading []"
proof -
  have "markdown_heading (CHR ''<'' # s) = None" for s
  proof -
    have "trim_left (CHR ''<'' # s) = CHR ''<'' # s"
      by (intro trim_left_stops space_width_ascii) (simp_all add: ascii_space_Cons)
    moreover obtain n where "trim_right (CHR ''<'' # s) = take n (CHR ''<'' # s)" using trim_right_prefix by blast
    ultimately show ?thesis by (cases n) (simp_all add: markdown_heading_def trim_space_def)
  qed
  then show "no_heading (image_tag b)" "no_heading image_close"
    by (simp_all add: no_heading_def image_tag_def image_close_def)
  show "no_heading []" by (simp add: no_heading_def markdown_heading_def)
qed

lemma body_no_heading:
  assumes "\<forall>b\<in>set images. image_ok files b" and "request_ok request"
  shows "\<forall>l\<in>set (prompt_lines n (line_feed @ request @ concat (map image_block images))). no_heading (pl_text l)"
  using assms(1)
proof (induction images rule: rev_induct)
  case Nil
  have "map pl_text (prompt_lines n ([] @ line_feed @ request)) = [] # map pl_text (prompt_lines 0 request)"
    unfolding prompt_lines_texts [of n "[]" request 0 0] by (simp add: prompt_lines_single carriage_return_def trim_suffix_def has_suffix_def)
  then have "set (map pl_text (prompt_lines n (line_feed @ request))) = insert [] (pl_text ` set (prompt_lines 0 request))" by simp
  moreover have "\<forall>l\<in>set (prompt_lines 0 request). no_heading (pl_text l)"
    using assms(2) by (simp add: request_ok_def list_all_iff no_heading_def split_prompt_lines_def)
  ultimately have "\<forall>t\<in>set (map pl_text (prompt_lines n (line_feed @ request))). no_heading t"
    using no_heading_tag by auto
  then show ?case by simp
next
  case (snoc b images)
  let ?s = "line_feed @ request @ concat (map image_block images)"
  have "map pl_text (prompt_lines n (?s @ image_block b)) = map pl_text (prompt_lines n ?s) @ [image_tag b, image_close]"
    by (rule image_lines [of files]) (use snoc.prems in simp)
  moreover have "\<forall>t\<in>set (map pl_text (prompt_lines n ?s)). no_heading t" using snoc by simp
  ultimately have "\<forall>t\<in>set (map pl_text (prompt_lines n (?s @ image_block b))). no_heading t"
    using no_heading_tag by auto
  then show ?case by simp
qed

section \<open>The request comes out of its envelope\<close>

lemma envelope_lines_single: "\<forall>f\<in>set files. file_ok f \<Longrightarrow> \<forall>l\<in>set (envelope_lines files). CHR 0x0A \<notin> set l"
  by (auto simp: envelope_lines_def file_line_def codex_files_heading_def codex_request_heading_def file_ok_def)

text \<open>The lines of the envelope: its two headings, the files between them, and no heading after them.\<close>

lemma envelope_shape:
  assumes "\<forall>f\<in>set files. file_ok f" and "\<forall>b\<in>set images. image_ok files b" and "request_ok request"
  obtains a b fs c d tail where
    "split_prompt_lines (codex_envelope files request images) = [a, b] @ fs @ [c, d] @ tail"
    and "markdown_heading (pl_text a) = Some codex_files_heading" and "no_heading (pl_text b)" and "no_heading (pl_text c)"
    and "markdown_heading (pl_text d) = Some codex_request_heading"
    and "map pl_text fs = map (\<lambda>f. trim_suffix (file_line f) carriage_return) files"
    and "markdown_heading (pl_text b) = None" and "markdown_heading (pl_text c) = None"
    and "\<forall>l\<in>set tail. no_heading (pl_text l)"
    and "pl_next d = length (fed (envelope_lines files))"
proof -
  let ?body = "line_feed @ request @ concat (map image_block images)"
  obtain front where front: "prompt_lines 0 (fed (envelope_lines files) @ ?body) = front @ prompt_lines (0 + length (fed (envelope_lines files))) ?body"
    "map pl_text front = map (\<lambda>l. trim_suffix l carriage_return) (envelope_lines files)"
    "pl_next (last front) = 0 + length (fed (envelope_lines files))"
    using prompt_lines_fed [OF envelope_lines_single [OF assms(1)], of 0 ?body] by (auto simp: envelope_lines_def)
  from front(2) obtain a b rest where ab: "front = a # b # rest"
    and texts: "pl_text a = trim_suffix (''# '' @ codex_files_heading) carriage_return" "pl_text b = trim_suffix [] carriage_return"
    and rest: "map pl_text rest = map (\<lambda>f. trim_suffix (file_line f) carriage_return) files
      @ [trim_suffix [] carriage_return, trim_suffix (''## '' @ codex_request_heading) carriage_return]"
    by (auto simp: envelope_lines_def map_eq_Cons_conv o_def)
  from rest obtain fs r where fs: "rest = fs @ r" "map pl_text fs = map (\<lambda>f. trim_suffix (file_line f) carriage_return) files"
    and "map pl_text r = [trim_suffix [] carriage_return, trim_suffix (''## '' @ codex_request_heading) carriage_return]"
    unfolding map_eq_append_conv by metis
  then obtain c d where "r = [c, d]" "pl_text c = trim_suffix [] carriage_return"
    "pl_text d = trim_suffix (''## '' @ codex_request_heading) carriage_return" by (auto simp: map_eq_Cons_conv)
  note texts = texts fs(2) this(2,3) and shape = ab fs(1) this(1)
  have "split_prompt_lines (codex_envelope files request images) = [a, b] @ fs @ [c, d] @ prompt_lines (length (fed (envelope_lines files))) ?body"
    using front(1) shape by (simp add: split_prompt_lines_def codex_envelope_def)
  then show thesis
    by (rule that)
       (use texts shape front(3) body_no_heading [OF assms(2,3)] fixed_headings in \<open>simp_all add: no_heading_def\<close>)
qed

lemma codex_agent_type: "equal_fold (trim_space ''codex'') ''codex''" by code_simp



end
