(* ===== verification/Regex_Search.thy ===== *)
theory Regex_Search
  imports Regex
begin

text \<open>
  Further searches with the expressions of \<open>Regex\<close>: the whole text (\<open>^e$\<close>), the start of a text
  (\<open>^e\<close>), all spans (\<open>FindAllStringIndex (s, -1)\<close>) and the spans of a group that ends the
  expression (\<open>FindAllStringSubmatchIndex (s, -1)\<close>), for expressions without empty matches.
\<close>

definition full_match :: "re \<Rightarrow> string \<Rightarrow> bool" where
  "full_match e s \<longleftrightarrow> length s \<in> set (ends e s)"

definition starts_match :: "re \<Rightarrow> string \<Rightarrow> bool" where
  "starts_match e s \<longleftrightarrow> ends e s \<noteq> []"

fun times_re :: "nat \<Rightarrow> re \<Rightarrow> re" where
  "times_re 0 e = Eps"
| "times_re (Suc n) e = Seq e (times_re n e)"

text \<open>
  All matches of \<open>a\<close> followed by the group \<open>b\<close>, as start of the match, start and end of the group;
  \<open>off\<close> is the offset of the text that is left.
\<close>

definition group_here :: "re \<Rightarrow> re \<Rightarrow> string \<Rightarrow> (nat \<times> nat) option" where
  "group_here a b s =
     (case concat (map (\<lambda>n. map (\<lambda>m. (n, n + m)) (ends b (drop n s))) (ends a s)) of [] \<Rightarrow> None | g # _ \<Rightarrow> Some g)"

function group_spans :: "re \<Rightarrow> re \<Rightarrow> nat \<Rightarrow> string \<Rightarrow> (nat \<times> nat \<times> nat) list" where
  "group_spans a b off s =
     (if s = [] then []
      else case group_here a b s of
             Some (n, Suc m) \<Rightarrow> (off, off + n, off + Suc m) # group_spans a b (off + Suc m) (drop (Suc m) s)
           | _ \<Rightarrow> group_spans a b (off + rune_width s) (drop (rune_width s) s))"
  by pat_completeness auto
termination
  by (relation "measure (\<lambda>(a, b, off, s). length s)") (use rune_width_pos in auto)

declare group_spans.simps [simp del, code del]

lemma group_spans_code [code]:
  "group_spans a b off [] = []"
  "group_spans a b off (c # s) =
     (case group_here a b (c # s) of
        Some (n, Suc m) \<Rightarrow> (off, off + n, off + Suc m) # group_spans a b (off + Suc m) (drop (Suc m) (c # s))
      | _ \<Rightarrow> group_spans a b (off + rune_width (c # s)) (drop (rune_width (c # s)) (c # s)))"
  by (simp_all add: group_spans.simps split: option.splits nat.splits)

definition find_spans :: "re \<Rightarrow> string \<Rightarrow> (nat \<times> nat) list" where
  "find_spans e s = map (\<lambda>(i, j, k). (i, k)) (group_spans Eps e 0 s)"

definition group_matches :: "re \<Rightarrow> re \<Rightarrow> string \<Rightarrow> (nat \<times> nat) list" where
  "group_matches a b s = map (\<lambda>(i, j, k). (j, k)) (group_spans a b 0 s)"

end
