(* ===== verification/Tool_Input.thy ===== *)
theory Tool_Input
  imports Regex_Search Turn_Codex Go_Files Claude_Usage "HOL-Library.Product_Lexorder"
begin

text \<open>
  \<open>pkg/toolinput\<close>: how much text a tool call writes. The classifier sorts a path into a category;
  the meter counts the characters, lines and words of an edit, of the added lines of a patch, or of
  the texts in the arguments of an MCP call, per tool class, category and target.
\<close>

section \<open>The classifier\<close>

definition category_code :: string where "category_code = ''code''"
definition category_tests :: string where "category_tests = ''tests''"
definition category_docs :: string where "category_docs = ''docs''"
definition category_config :: string where "category_config = ''config''"
definition category_other :: string where "category_other = ''other''"

record classifier =
  cl_codeSuffixes :: "string list"
  cl_codeFilenames :: "string list"

definition backslash :: string where "backslash = [CHR 0x5C]"

definition accept_suffix :: "go_lib \<Rightarrow> string list \<Rightarrow> string \<Rightarrow> string list" where
  "accept_suffix L suffixes value =
     (let suffix = lower L (trim_space value) in
      if suffix = [] \<or> suffix = ''.'' \<or> \<not> has_prefix suffix ''.'' \<or> contains_any suffix (''/'' @ backslash) then suffixes
      else if suffix \<in> set suffixes then suffixes
      else suffixes @ [suffix])"

definition accept_filename :: "go_lib \<Rightarrow> string list \<Rightarrow> string \<Rightarrow> string list" where
  "accept_filename L filenames value =
     (let filename = trim_space value in
      if filename = [] \<or> filename = ''.'' \<or> filename = ''..'' \<or> contains_any filename (''/'' @ backslash) then filenames
      else List.insert (lower L filename) filenames)"

definition new_classifier :: "go_lib \<Rightarrow> string list \<Rightarrow> string list \<Rightarrow> classifier" where
  "new_classifier L codeSuffixes codeFilenames =
     \<lparr>cl_codeSuffixes = foldl (accept_suffix L) [] codeSuffixes,
      cl_codeFilenames = foldl (accept_filename L) [] codeFilenames\<rparr>"

definition is_test_path :: "string \<Rightarrow> bool" where
  "is_test_path p \<longleftrightarrow>
     contains p ''/tests/'' \<or> contains p ''/__tests__/'' \<or> has_prefix p ''tests/'' \<or> has_prefix p ''__tests__/''
     \<or> contains p ''.test.'' \<or> contains p ''.spec.'' \<or> has_suffix p ''_test.go''"

definition docs_suffixes :: "string list" where
  "docs_suffixes = [''.md'', ''.mdx'', ''.txt'', ''.rst'', ''.adoc'']"

definition config_suffixes :: "string list" where
  "config_suffixes = [''.json'', ''.yaml'', ''.yml'', ''.toml'', ''.ini'', ''.conf'', ''.env'']"

definition classify_path :: "go_lib \<Rightarrow> classifier \<Rightarrow> string \<Rightarrow> string" where
  "classify_path L c path =
     (let low = lower L (trim_space path); normalizedPath = replace_all low backslash ''/'' in
      if low = [] then category_other
      else if is_test_path normalizedPath then category_tests
      else if base_name normalizedPath \<in> set (cl_codeFilenames c) then category_code
      else if list_ex (has_suffix normalizedPath) (cl_codeSuffixes c) then category_code
      else if list_ex (has_suffix normalizedPath) docs_suffixes then category_docs
      else if list_ex (has_suffix normalizedPath) config_suffixes then category_config
      else category_other)"

section \<open>Counts\<close>

record counts =
  ct_Characters :: int
  ct_Lines :: int
  ct_Words :: int

definition no_counts :: counts where
  "no_counts = \<lparr>ct_Characters = 0, ct_Lines = 0, ct_Words = 0\<rparr>"

record accumulator_key =
  ak_toolClass :: string
  ak_category :: string
  ak_target :: string

type_synonym accumulator = "(accumulator_key \<times> counts) list"

definition count_text :: "string \<Rightarrow> counts" where
  "count_text text =
     (if text = [] then no_counts
      else \<lparr>ct_Characters = int (rune_count (replace_all (replace_all text [CHR 0x0D] []) line_feed [])),
            ct_Lines = int (count_sub (replace_all text [CHR 0x0D, CHR 0x0A] line_feed) line_feed)
                       + (if has_suffix text line_feed then 0 else 1),
            ct_Words = int (length (Go_Strings.fields text))\<rparr>)"

definition plus_counts :: "counts \<Rightarrow> counts \<Rightarrow> counts" where
  "plus_counts a b =
     \<lparr>ct_Characters = add64 (ct_Characters a) (ct_Characters b), ct_Lines = add64 (ct_Lines a) (ct_Lines b),
      ct_Words = add64 (ct_Words a) (ct_Words b)\<rparr>"

definition add_counts :: "accumulator_key \<Rightarrow> counts \<Rightarrow> accumulator \<Rightarrow> accumulator" where
  "add_counts key counts acc =
     upsert fst (\<lambda>(k, c). (k, plus_counts no_counts c)) (\<lambda>old new. (fst old, plus_counts (snd old) (snd new))) (key, counts) acc"

definition add_text :: "string \<Rightarrow> string \<Rightarrow> string \<Rightarrow> string \<Rightarrow> accumulator \<Rightarrow> accumulator" where
  "add_text toolClass category target text acc =
     (let counts = count_text text in
      if ct_Characters counts = 0 \<and> ct_Lines counts = 0 \<and> ct_Words counts = 0 then acc
      else add_counts \<lparr>ak_toolClass = toolClass, ak_category = category, ak_target = target\<rparr> counts acc)"

definition add_line :: "string \<Rightarrow> string \<Rightarrow> string \<Rightarrow> string \<Rightarrow> accumulator \<Rightarrow> accumulator" where
  "add_line toolClass category target text acc =
     add_counts \<lparr>ak_toolClass = toolClass, ak_category = category, ak_target = target\<rparr> ((count_text text)\<lparr>ct_Lines := 1\<rparr>) acc"

section \<open>Measurements\<close>

record measurement =
  ms_ToolClass :: string
  ms_Category :: string
  ms_Target :: string
  ms_Counts :: counts
  ms_EfficiencyEligible :: bool
  ms_EfficiencyExclusionReason :: string

definition max_efficiency_lines_per_observation :: int where "max_efficiency_lines_per_observation = 20000"

definition max_efficiency_document_words_per_observation :: int where
  "max_efficiency_document_words_per_observation = 120000"

definition efficiency_eligibility :: "string \<Rightarrow> counts \<Rightarrow> bool \<times> string" where
  "efficiency_eligibility category c =
     (if ct_Lines c > max_efficiency_lines_per_observation then (False, ''observation_line_limit_exceeded'')
      else if category = category_docs \<and> ct_Words c > max_efficiency_document_words_per_observation
      then (False, ''observation_document_word_limit_exceeded'')
      else (True, []))"

definition key_order :: "accumulator_key \<Rightarrow> string \<times> string \<times> string" where
  "key_order k = (ak_category k, ak_target k, ak_toolClass k)"

definition measurement_of :: "accumulator_key \<times> counts \<Rightarrow> measurement option" where
  "measurement_of e =
     (let (key, c) = e; (eligible, reason) = efficiency_eligibility (ak_category key) c in
      if ct_Characters c = 0 \<and> ct_Lines c = 0 \<and> ct_Words c = 0 then None
      else Some \<lparr>ms_ToolClass = ak_toolClass key, ms_Category = ak_category key, ms_Target = ak_target key, ms_Counts = c,
                 ms_EfficiencyEligible = eligible, ms_EfficiencyExclusionReason = reason\<rparr>)"

definition measurements_from :: "accumulator \<Rightarrow> measurement list" where
  "measurements_from acc = List.map_filter measurement_of (sort_key (key_order \<circ> fst) acc)"

section \<open>Edits and patches\<close>

record file_change =
  fc_Path :: string
  fc_Kind :: string
  fc_Diff :: string

definition crlf :: string where "crlf = [CHR 0x0D, CHR 0x0A]"

definition diff_line :: "go_lib \<Rightarrow> classifier \<Rightarrow> string \<Rightarrow> accumulator \<Rightarrow> string \<Rightarrow> accumulator" where
  "diff_line L c path acc line =
     (if \<not> has_prefix line ''+'' \<or> has_prefix line ''+++ '' then acc
      else add_line ''file_write'' (classify_path L c path) path (trim_prefix line ''+'') acc)"

definition measure_unified_diff :: "go_lib \<Rightarrow> classifier \<Rightarrow> accumulator \<Rightarrow> string \<Rightarrow> string \<Rightarrow> accumulator" where
  "measure_unified_diff L c acc path0 diff =
     (let path = trim_space path0 in
      if path = [] \<or> trim_space diff = [] then acc
      else foldl (diff_line L c path) acc (split (replace_all diff crlf line_feed) line_feed))"

definition measure_file_change :: "go_lib \<Rightarrow> classifier \<Rightarrow> accumulator \<Rightarrow> file_change \<Rightarrow> accumulator" where
  "measure_file_change L c acc change =
     (if fc_Kind change = ''add''
      then add_text ''file_write'' (classify_path L c (fc_Path change)) (fc_Path change) (fc_Diff change) acc
      else if fc_Kind change = ''update'' then measure_unified_diff L c acc (fc_Path change) (fc_Diff change)
      else acc)"

definition measure_codex_file_changes :: "go_lib \<Rightarrow> classifier \<Rightarrow> file_change list \<Rightarrow> measurement list" where
  "measure_codex_file_changes L c changes = measurements_from (foldl (measure_file_change L c) [] changes)"

definition patch_header :: "string \<Rightarrow> string option" where
  "patch_header line =
     (if has_prefix line ''*** Add File: '' then Some (trim_space (trim_prefix line ''*** Add File: ''))
      else if has_prefix line ''*** Update File: '' then Some (trim_space (trim_prefix line ''*** Update File: ''))
      else if has_prefix line ''*** Delete File: '' then Some (trim_space (trim_prefix line ''*** Delete File: ''))
      else if has_prefix line ''+++ '' then Some (trim_prefix (trim_space (trim_prefix line ''+++ '')) ''b/'')
      else None)"

definition patch_line :: "go_lib \<Rightarrow> classifier \<Rightarrow> string \<times> accumulator \<Rightarrow> string \<Rightarrow> string \<times> accumulator" where
  "patch_line L c st line =
     (let (path, acc) = st in
      case patch_header line of
        Some path' \<Rightarrow> (path', acc)
      | None \<Rightarrow>
          if \<not> has_prefix line ''+'' \<or> path = [] then (path, acc)
          else (path, add_line ''file_write'' (classify_path L c path) path (trim_prefix line ''+'') acc))"

definition measure_patch :: "go_lib \<Rightarrow> classifier \<Rightarrow> accumulator \<Rightarrow> string \<Rightarrow> accumulator" where
  "measure_patch L c acc patch =
     (if trim_space patch = [] then acc
      else snd (foldl (patch_line L c) ([], acc) (split (replace_all patch crlf line_feed) line_feed)))"

text \<open>The value of the first key that holds a text, even an empty one.\<close>

fun first_raw_string :: "payload \<Rightarrow> string list \<Rightarrow> string" where
  "first_raw_string values [] = []"
| "first_raw_string values (key # keys) =
     (case values key of Some (GString s) \<Rightarrow> s | _ \<Rightarrow> first_raw_string values keys)"

definition list_value :: "gval option \<Rightarrow> gval list" where
  "list_value v = (case v of Some (GList xs) \<Rightarrow> xs | _ \<Rightarrow> [])"

definition measure_edit :: "go_lib \<Rightarrow> classifier \<Rightarrow> string \<Rightarrow> accumulator \<Rightarrow> gval \<Rightarrow> accumulator" where
  "measure_edit L c path acc raw =
     (let edit = map_of (map_value (Some raw)); editPath0 = first_raw_string edit [''file_path'', ''path''];
          editPath = (if editPath0 = [] then path else editPath0)
      in add_text ''file_write'' (classify_path L c editPath) editPath (first_raw_string edit [''new_string'', ''replacement'']) acc)"

definition measure_multi_edit :: "go_lib \<Rightarrow> classifier \<Rightarrow> accumulator \<Rightarrow> payload \<Rightarrow> accumulator" where
  "measure_multi_edit L c acc values =
     foldl (measure_edit L c (first_raw_string values [''file_path'', ''path''])) acc (list_value (values ''edits''))"

section \<open>MCP calls\<close>

definition normalize_tool_name :: "go_lib \<Rightarrow> string \<Rightarrow> string" where
  "normalize_tool_name L value = trim_prefix (lower L (trim_space value)) ''functions.''"

definition is_mcp_tool :: "string \<Rightarrow> bool" where
  "is_mcp_tool name \<longleftrightarrow> has_prefix name ''mcp__'' \<or> has_prefix name ''mcp.'' \<or> has_prefix name ''mcp_''"

definition hex_class :: re where "hex_class = icls (\<lambda>r. is_digit r \<or> (0x61 \<le> r \<and> r \<le> 0x66))"

definition uuid_pattern :: re where
  "uuid_pattern =
     seqs [times_re 8 hex_class, lit ''-'', times_re 4 hex_class, lit ''-'', icls (\<lambda>r. 0x31 \<le> r \<and> r \<le> 0x35), times_re 3 hex_class,
           lit ''-'', icls (rune_in ''89ab''), times_re 3 hex_class, lit ''-'', times_re 12 hex_class]"

definition hex_pattern :: re where "hex_pattern = Many 24 hex_class"

definition base64_pattern :: re where
  "base64_pattern = seqs [Many 1 (Cls (\<lambda>r. is_letter r \<or> is_digit r \<or> rune_in ''+/'' r)), Opt (lit ''=''), Opt (lit ''='')]"

definition windows_path :: re where
  "windows_path = seqs [Cls is_letter, lit '':'', Cls (rune_in (''/'' @ backslash))]"

definition identifier_keys :: "string list" where
  "identifier_keys =
     [''authorization'', ''credential'', ''password'', ''secret'', ''token'', ''cookie'', ''api_key'', ''apikey'', ''cursor'',
      ''resource_id'', ''resourceid'', ''file_id'', ''fileid'', ''uuid'', ''hash'', ''url'', ''uri'', ''path'', ''server'', ''tool'',
      ''method'', ''type'']"

definition names_identifier :: "string \<Rightarrow> string \<Rightarrow> bool" where
  "names_identifier lowerKey fragment \<longleftrightarrow> lowerKey = fragment \<or> has_suffix lowerKey (''_'' @ fragment)"

definition should_count_mcp_text :: "go_lib \<Rightarrow> string \<Rightarrow> string \<Rightarrow> bool" where
  "should_count_mcp_text L key value =
     (let text = trim_space value; lowerKey = lower L (trim_space key) in
      text \<noteq> []
      \<and> \<not> list_ex (names_identifier lowerKey) identifier_keys
      \<and> \<not> (list_ex (has_prefix text) [''http://'', ''https://'', ''/'', ''./'', ''../'', ''~/''] \<or> starts_match windows_path text)
      \<and> \<not> (full_match uuid_pattern text \<or> full_match hex_pattern text)
      \<and> \<not> (length text \<ge> 80 \<and> length text mod 4 = 0 \<and> full_match base64_pattern text))"

text \<open>The texts of the arguments that count, the keys of an object in their order.\<close>

fun counted_texts :: "go_lib \<Rightarrow> string \<Rightarrow> gval \<Rightarrow> string list" where
  "counted_texts L key (GMap m) =
     concat (map snd (sort_key fst (map (\<lambda>(childKey, v). (childKey, counted_texts L childKey v)) m)))"
| "counted_texts L key (GList xs) = concat (map (counted_texts L key) xs)"
| "counted_texts L key (GString s) = (if should_count_mcp_text L key s then [s] else [])"
| "counted_texts L key _ = []"

definition is_path_key :: "string \<Rightarrow> bool" where
  "is_path_key lowerKey \<longleftrightarrow>
     lowerKey = ''path'' \<or> lowerKey = ''file'' \<or> lowerKey = ''filename'' \<or> has_suffix lowerKey ''_path''
     \<or> has_suffix lowerKey ''_file'' \<or> has_suffix lowerKey ''_filename''"

text \<open>The paths that the arguments name.\<close>

fun named_paths :: "go_lib \<Rightarrow> string \<Rightarrow> gval \<Rightarrow> string list" where
  "named_paths L key (GMap m) = concat (map (\<lambda>(childKey, v). named_paths L childKey v) m)"
| "named_paths L key (GList xs) = concat (map (named_paths L key) xs)"
| "named_paths L key (GString s) = (if is_path_key (lower L (trim_space key)) then [s] else [])"
| "named_paths L key _ = []"

text \<open>\<open>strings.FieldsFunc\<close> for a separator that every byte outside ASCII is.\<close>

fun fields_func :: "(char \<Rightarrow> bool) \<Rightarrow> string \<Rightarrow> string \<Rightarrow> string list" where
  "fields_func separator word [] = (if word = [] then [] else [word])"
| "fields_func separator word (c # s) =
     (if separator c then (if word = [] then [] else [word]) @ fields_func separator [] s
      else fields_func separator (word @ [c]) s)"

definition tool_name_tokens :: "go_lib \<Rightarrow> string \<Rightarrow> string list" where
  "tool_name_tokens L toolName =
     fields_func (\<lambda>c. \<not> (is_lower (byte c) \<or> is_digit (byte c))) [] (lower L (trim_space toolName))"

definition contains_any_token :: "string list \<Rightarrow> string list \<Rightarrow> bool" where
  "contains_any_token tokens candidates \<longleftrightarrow> list_ex (\<lambda>c. c \<in> set tokens) candidates"

definition classify_mcp_input :: "go_lib \<Rightarrow> classifier \<Rightarrow> string \<Rightarrow> gval \<Rightarrow> string" where
  "classify_mcp_input L c toolName input =
     (let paths = named_paths L [] input;
          categories = remdups (filter (\<lambda>x. x \<noteq> category_other) (map (classify_path L c) paths));
          tokens = tool_name_tokens L toolName
      in if length categories = 1 then hd categories
         else if length categories > 1 then category_other
         else if paths \<noteq> [] then category_other
         else if \<not> contains_any_token tokens [''append'', ''create'', ''insert'', ''publish'', ''send'', ''update'', ''write''] then category_other
         else if contains_any_token tokens [''article'', ''doc'', ''document'', ''markdown'', ''note'', ''page'', ''wiki''] then category_docs
         else if contains_any_token tokens [''spec'', ''test'', ''tests''] then category_tests
         else if contains_any_token tokens [''code'', ''file'', ''function'', ''script'', ''source''] then category_code
         else category_other)"

definition measure_mcp_input :: "go_lib \<Rightarrow> classifier \<Rightarrow> accumulator \<Rightarrow> string \<Rightarrow> gval \<Rightarrow> accumulator" where
  "measure_mcp_input L c acc toolName input =
     foldl (\<lambda>acc text. add_text ''mcp'' (classify_mcp_input L c toolName input) [] text acc) acc (counted_texts L [] input)"

definition measure_codex_mcp :: "go_lib \<Rightarrow> classifier \<Rightarrow> string \<Rightarrow> gval \<Rightarrow> measurement list" where
  "measure_codex_mcp L c toolName input =
     (let name = normalize_tool_name L toolName in
      if \<not> is_mcp_tool name then [] else measurements_from (measure_mcp_input L c [] name input))"

section \<open>Tool calls of Claude Code\<close>

text \<open>
  \<open>inputString\<close>, on a decoded value (a hook event never holds a \<open>json.RawMessage\<close> there).
\<close>

definition input_string :: "gval \<Rightarrow> string" where
  "input_string input = raw_string (Some input)"

definition claude_accumulator :: "go_lib \<Rightarrow> classifier \<Rightarrow> string \<Rightarrow> gval \<Rightarrow> accumulator" where
  "claude_accumulator L c name input =
     (let values = map_of (map_value (Some input));
          path = first_raw_string values [''file_path'', ''path''];
          notebook = first_raw_string values [''notebook_path'', ''file_path'', ''path''];
          patch = (if input_string input = [] then first_raw_string values [''patch'', ''command'', ''input''] else input_string input)
      in if name \<in> {''apply_patch'', ''applypatch''} then measure_patch L c [] patch
         else if name \<in> {''write'', ''write_file'', ''writefile''}
         then add_text ''file_write'' (classify_path L c path) path (first_raw_string values [''content'']) []
         else if name \<in> {''edit'', ''edit_file'', ''editfile''}
         then add_text ''file_write'' (classify_path L c path) path (first_raw_string values [''new_string'', ''replacement'']) []
         else if name \<in> {''multiedit'', ''multi_edit''} then measure_multi_edit L c [] values
         else if name \<in> {''notebookedit'', ''notebook_edit''}
         then add_text ''file_write'' (classify_path L c notebook) notebook
                (first_raw_string values [''new_source'', ''source'', ''content'', ''new_string'']) []
         else if is_mcp_tool name then measure_mcp_input L c [] name input
         else [])"

definition measure_claude_tool_use :: "go_lib \<Rightarrow> classifier \<Rightarrow> string \<Rightarrow> gval \<Rightarrow> measurement list" where
  "measure_claude_tool_use L c toolName input =
     measurements_from (claude_accumulator L c (normalize_tool_name L toolName) input)"

end
