(* ===== verification/Tool_Input_Properties.thy ===== *)
theory Tool_Input_Properties
  imports Tool_Input "HOL-Library.Multiset"
begin

text \<open>
  What the meter of tool input promises: the lines it reports for the file changes of a turn are
  the lines they add, one measurement per target, and what stands under the key of a credential
  never shows in a measurement.
\<close>

section \<open>Totals of an accumulator\<close>

definition acc_lines :: "accumulator \<Rightarrow> int" where
  "acc_lines acc = wrap64 (sum_list (map (\<lambda>e. ct_Lines (snd e)) acc))"

lemma wrap64_plus_left: "wrap64 (wrap64 a + b) = wrap64 (a + b)"
  by (simp add: wrap64_def mod_simps algebra_simps)

lemma wrap64_plus_right: "wrap64 (a + wrap64 b) = wrap64 (a + b)"
  using wrap64_plus_left [of b a] by (simp add: add.commute)

lemma wrap64_wrap64 [simp]: "wrap64 (wrap64 a) = wrap64 a"
  using wrap64_plus_left [of a 0] by simp

lemma acc_lines_add_counts: "acc_lines (add_counts key c acc) = wrap64 (acc_lines acc + ct_Lines c)"
proof -
  have "wrap64 (sum_list (map (\<lambda>e. ct_Lines (snd e)) (add_counts key c acc))) =
      wrap64 (sum_list (map (\<lambda>e. ct_Lines (snd e)) acc) + ct_Lines c)" for acc
  proof (induction acc)
    case Nil
    then show ?case by (simp add: add_counts_def plus_counts_def no_counts_def add64_def)
  next
    case (Cons e acc)
    show ?case
    proof (cases "fst e = key")
      case True
      then show ?thesis
        by (simp add: add_counts_def plus_counts_def add64_def wrap64_plus_left algebra_simps)
    next
      case False
      then have "wrap64 (sum_list (map (\<lambda>e. ct_Lines (snd e)) (add_counts key c (e # acc))))
          = wrap64 (ct_Lines (snd e) + wrap64 (sum_list (map (\<lambda>e. ct_Lines (snd e)) (add_counts key c acc))))"
        by (simp add: add_counts_def wrap64_plus_right)
      with Cons show ?thesis by (simp add: wrap64_plus_right add.assoc)
    qed
  qed
  then show ?thesis by (simp add: acc_lines_def wrap64_plus_left)
qed

lemma acc_lines_add_text: "acc_lines (add_text cls cat target text acc) = wrap64 (acc_lines acc + ct_Lines (count_text text))"
  by (auto simp: add_text_def Let_def acc_lines_add_counts) (simp add: acc_lines_def)

lemma acc_lines_add_line: "acc_lines (add_line cls cat target text acc) = wrap64 (acc_lines acc + 1)"
  by (simp add: add_line_def acc_lines_add_counts)

lemma acc_lines_Nil [simp]: "acc_lines [] = 0"
  by (simp add: acc_lines_def wrap64_def)

lemma acc_keys: "fst ` set (add_counts key c acc) = insert key (fst ` set acc)"
  and acc_distinct: "distinct (map fst acc) \<Longrightarrow> distinct (map fst (add_counts key c acc))"
proof -
  show keys: "fst ` set (add_counts key c acc) = insert key (fst ` set acc)" for acc
    by (induction acc) (auto simp: add_counts_def)
  show "distinct (map fst acc) \<Longrightarrow> distinct (map fst (add_counts key c acc))"
  proof (induction acc)
    case (Cons e acc)
    then show ?case using keys [of acc] by (auto simp: add_counts_def)
  qed (simp add: add_counts_def)
qed

lemma distinct_add_text: "distinct (map fst acc) \<Longrightarrow> distinct (map fst (add_text cls cat target text acc))"
  by (simp add: add_text_def Let_def acc_distinct)

lemma distinct_add_line: "distinct (map fst acc) \<Longrightarrow> distinct (map fst (add_line cls cat target text acc))"
  by (simp add: add_line_def acc_distinct)

section \<open>Measurements of an accumulator\<close>

definition measured_lines :: "measurement list \<Rightarrow> int" where
  "measured_lines ms = wrap64 (sum_list (map (\<lambda>m. ct_Lines (ms_Counts m)) ms))"

definition measurement_key :: "measurement \<Rightarrow> string \<times> string \<times> string" where
  "measurement_key m = (ms_Category m, ms_Target m, ms_ToolClass m)"

lemma map_filter_measurement_lines:
  "sum_list (map (\<lambda>m. ct_Lines (ms_Counts m)) (List.map_filter measurement_of acc)) = sum_list (map (\<lambda>e. ct_Lines (snd e)) acc)"
  by (induction acc) (auto simp: map_filter_simps measurement_of_def Let_def split: prod.splits)

lemma measured_lines_from: "measured_lines (measurements_from acc) = acc_lines acc"
proof -
  let ?f = "\<lambda>e. ct_Lines (snd e)" and ?k = "key_order \<circ> fst"
  have "mset (map ?f (sort_key ?k acc)) = mset (map ?f acc)" by (simp only: mset_map mset_sort)
  then have "sum_list (map ?f (sort_key ?k acc)) = sum_list (map ?f acc)" by (metis sum_mset_sum_list)
  then show ?thesis
    by (simp add: measured_lines_def measurements_from_def acc_lines_def map_filter_measurement_lines)
qed

lemma measurement_of_key: "measurement_of e = Some m \<Longrightarrow> measurement_key m = key_order (fst e)"
  by (auto simp: measurement_of_def measurement_key_def key_order_def Let_def split: prod.splits if_splits)

lemma inj_key_order: "key_order a = key_order b \<Longrightarrow> a = b"
  by (simp add: key_order_def)

lemma measurements_from_keys:
  assumes "distinct (map fst acc)"
  shows "sorted_wrt (<) (map measurement_key (measurements_from acc))"
proof -
  let ?k = "key_order \<circ> fst"
  let ?s = "sort_key ?k acc"
  have "distinct (map fst ?s)"
  proof -
    have "mset (map fst ?s) = mset (map fst acc)" by (simp only: mset_map mset_sort)
    with assms show ?thesis by (metis mset_eq_imp_distinct_iff)
  qed
  then have "distinct (map ?k ?s)"
    by (auto simp: distinct_map inj_on_def dest: inj_key_order)
  then have "sorted_wrt (<) (map ?k ?s)" by (simp only: strict_sorted_iff sorted_sort_key simp_thms)
  then have "sorted_wrt (<) (map ?k (filter (\<lambda>e. measurement_of e \<noteq> None) ?s))"
    by (simp add: sorted_wrt_map sorted_wrt_filter)
  moreover have "map measurement_key (List.map_filter measurement_of xs) = map ?k (filter (\<lambda>e. measurement_of e \<noteq> None) xs)" for xs
    by (induction xs) (auto simp: map_filter_simps measurement_of_key split: option.splits)
  ultimately show ?thesis by (simp add: measurements_from_def)
qed

section \<open>The lines that changes add\<close>

definition is_added_line :: "string \<Rightarrow> bool" where
  "is_added_line line \<longleftrightarrow> has_prefix line ''+'' \<and> \<not> has_prefix line ''+++ ''"

text \<open>A new file adds all its lines, an update the lines that its diff marks.\<close>

definition added_lines :: "file_change \<Rightarrow> int" where
  "added_lines change =
     (if fc_Kind change = ''add'' then ct_Lines (count_text (fc_Diff change))
      else if fc_Kind change = ''update'' \<and> trim_space (fc_Path change) \<noteq> [] \<and> trim_space (fc_Diff change) \<noteq> []
      then int (length (filter is_added_line (split (replace_all (fc_Diff change) crlf line_feed) line_feed)))
      else 0)"

lemma acc_lines_wrapped [simp]: "wrap64 (acc_lines acc) = acc_lines acc"
  by (simp add: acc_lines_def)

lemma acc_lines_diff: "acc_lines (foldl (diff_line L c path) acc ls) = wrap64 (acc_lines acc + int (length (filter is_added_line ls)))"
proof (induction ls arbitrary: acc)
  case (Cons l ls)
  then show ?case
    by (cases "is_added_line l")
       (auto simp: diff_line_def is_added_line_def acc_lines_add_line wrap64_plus_left algebra_simps)
qed simp

lemma acc_lines_change: "acc_lines (measure_file_change L c acc change) = wrap64 (acc_lines acc + added_lines change)"
  by (auto simp: measure_file_change_def added_lines_def measure_unified_diff_def Let_def acc_lines_add_text acc_lines_diff)

lemma acc_lines_changes:
  "acc_lines (foldl (measure_file_change L c) acc changes) = wrap64 (acc_lines acc + sum_list (map added_lines changes))"
proof (induction changes arbitrary: acc)
  case (Cons x xs)
  then show ?case by (simp add: acc_lines_change wrap64_plus_left add.assoc)
qed simp

lemma distinct_changes: "distinct (map fst acc) \<Longrightarrow> distinct (map fst (foldl (measure_file_change L c) acc changes))"
proof (induction changes arbitrary: acc)
  case (Cons x xs)
  have "distinct (map fst acc) \<Longrightarrow> distinct (map fst (foldl (diff_line L c p) acc ls))" for p ls and acc :: accumulator
    by (induction ls arbitrary: acc) (simp_all add: diff_line_def distinct_add_line)
  with Cons show ?case
    by (simp add: measure_file_change_def measure_unified_diff_def Let_def distinct_add_text)
qed simp

text \<open>
  The lines reported for the file changes of a Codex turn add up to the lines the changes add
  (in 64-bit arithmetic): all lines of a new file, and of an update the lines its diff marks with a
  plus, the header of the diff left out. There is one measurement per category, target and class,
  in their order.
\<close>

theorem measured_lines_are_added_lines:
  "measured_lines (measure_codex_file_changes L c changes) = wrap64 (sum_list (map added_lines changes))
   \<and> sorted_wrt (<) (map measurement_key (measure_codex_file_changes L c changes))"
  using acc_lines_changes [of L c "[]" changes] distinct_changes [of "[]" L c changes]
  by (simp add: measure_codex_file_changes_def measured_lines_from measurements_from_keys)

section \<open>Credentials\<close>

definition credential_keys :: "string list" where
  "credential_keys = [''authorization'', ''credential'', ''password'', ''secret'', ''token'', ''cookie'', ''api_key'', ''apikey'']"

definition names_credential :: "go_lib \<Rightarrow> string \<Rightarrow> bool" where
  "names_credential L key \<longleftrightarrow> list_ex (names_identifier (lower L (trim_space key))) credential_keys"

text \<open>The arguments with every text under the key of a credential taken out.\<close>

fun blank_credentials :: "go_lib \<Rightarrow> string \<Rightarrow> gval \<Rightarrow> gval" where
  "blank_credentials L key (GMap m) = GMap (map (\<lambda>(childKey, v). (childKey, blank_credentials L childKey v)) m)"
| "blank_credentials L key (GList xs) = GList (map (blank_credentials L key) xs)"
| "blank_credentials L key (GString s) = GString (if names_credential L key then [] else s)"
| "blank_credentials L key v = v"

lemma has_suffix_both: "has_suffix s a \<Longrightarrow> has_suffix s b \<Longrightarrow> length a \<le> length b \<Longrightarrow> has_suffix b a"
  by (force simp: has_suffix_iff append_eq_append_conv2)

lemma credential_is_no_path: "names_credential L key \<Longrightarrow> \<not> is_path_key (lower L (trim_space key))"
proof
  let ?k = "lower L (trim_space key)"
  let ?path = "[''path'', ''file'', ''filename'', ''_path'', ''_file'', ''_filename'']"
  assume "names_credential L key" and p: "is_path_key ?k"
  then obtain f where f: "f \<in> set credential_keys" "has_suffix ?k f"
    by (auto simp: names_credential_def list_ex_iff names_identifier_def has_suffix_iff)
  from p obtain q where q: "q \<in> set ?path" "has_suffix ?k q" by (auto simp: is_path_key_def has_suffix_iff)
  have "\<forall>f\<in>set credential_keys. \<forall>q\<in>set ?path. \<not> has_suffix f q \<and> \<not> has_suffix q f" by code_simp
  with f q show False using has_suffix_both [of ?k f q] has_suffix_both [of ?k q f] by (meson linear)
qed

lemma credential_not_counted: "names_credential L key \<Longrightarrow> \<not> should_count_mcp_text L key s"
  by (auto simp: names_credential_def should_count_mcp_text_def credential_keys_def identifier_keys_def Let_def)

lemma counted_texts_blank: "counted_texts L key (blank_credentials L key v) = counted_texts L key v"
proof (induction L key v rule: blank_credentials.induct)
  case (1 L key m)
  then have "map (\<lambda>(k, v). (k, counted_texts L k v)) (map (\<lambda>(k, v). (k, blank_credentials L k v)) m) = map (\<lambda>(k, v). (k, counted_texts L k v)) m"
    by auto
  then show ?case by (simp only: blank_credentials.simps counted_texts.simps)
next
  case (2 L key xs)
  then show ?case by (simp cong: map_cong)
qed (simp_all add: credential_not_counted)

lemma named_paths_blank: "named_paths L key (blank_credentials L key v) = named_paths L key v"
proof (induction L key v rule: blank_credentials.induct)
  case (1 L key m)
  then have "map (\<lambda>(k, v). named_paths L k v) (map (\<lambda>(k, v). (k, blank_credentials L k v)) m) = map (\<lambda>(k, v). named_paths L k v) m"
    by auto
  then show ?case by (simp only: blank_credentials.simps named_paths.simps)
next
  case (2 L key xs)
  then show ?case by (simp cong: map_cong)
qed (simp_all add: credential_is_no_path)


end
