(* ===== verification/Turn_Receipt.thy ===== *)
theory Turn_Receipt
  imports Model Go_Files "HOL-Library.AList" "HOL-Library.Product_Lexorder"
begin

text \<open>
  \<open>pkg/turnreceipt\<close>: what an agent's turn wrote, kept on disk while the turn runs. A receipt is a
  directory with the file \<open>receipt.json\<close> and one file per observed tool call; the end of the turn
  claims the directory by renaming it and leaves a pending notice for the next prompt. A step that
  holds the lock of a receipt is one operation here. What the file system may refuse is a record of
  faults, and the JSON decoders are arguments.
\<close>

section \<open>Output\<close>

record output_summary =
  os_CodeLines :: int
  os_TestLines :: int
  os_DocWords :: int
  os_ConfigLines :: int
  os_OtherWords :: int

definition no_output :: output_summary where
  "no_output = \<lparr>os_CodeLines = 0, os_TestLines = 0, os_DocWords = 0, os_ConfigLines = 0, os_OtherWords = 0\<rparr>"

definition output_empty :: "output_summary \<Rightarrow> bool" where
  "output_empty s \<longleftrightarrow>
     os_CodeLines s \<le> 0 \<and> os_TestLines s \<le> 0 \<and> os_DocWords s \<le> 0 \<and> os_ConfigLines s \<le> 0 \<and> os_OtherWords s \<le> 0"

definition max_int64 :: int where "max_int64 = 9223372036854775807"

definition saturating_add :: "int \<Rightarrow> int \<Rightarrow> int" where
  "saturating_add current delta =
     (if delta \<le> 0 then current else if current > max_int64 - delta then max_int64 else current + delta)"

definition output_add :: "output_summary \<Rightarrow> output_summary \<Rightarrow> output_summary" where
  "output_add s other =
     \<lparr>os_CodeLines = saturating_add (os_CodeLines s) (os_CodeLines other),
      os_TestLines = saturating_add (os_TestLines s) (os_TestLines other),
      os_DocWords = saturating_add (os_DocWords s) (os_DocWords other),
      os_ConfigLines = saturating_add (os_ConfigLines s) (os_ConfigLines other),
      os_OtherWords = saturating_add (os_OtherWords s) (os_OtherWords other)\<rparr>"

section \<open>Files\<close>

definition receipt_schema_version :: int where "receipt_schema_version = 4"
definition pending_schema_version :: int where "pending_schema_version = 6"
definition max_output_fragments :: nat where "max_output_fragments = 256"
definition max_receipt_bytes :: int where "max_receipt_bytes = 64 * 1024"
definition receipt_ttl :: int where "receipt_ttl = 24 * nanos_per_hour"

record receipt =
  re_SchemaVersion :: int
  re_ExpiresAt :: time
  re_Output :: output_summary

record pending_notice =
  pn_SchemaVersion :: int
  pn_ExpiresAt :: time
  pn_Output :: output_summary

record output_fragment =
  of_SchemaVersion :: int
  of_Output :: output_summary

text \<open>
  The JSON of the stored records: decoders, and encoders that end with a line feed. The output of a
  receipt is not part of its file: a decoded receipt has none.
\<close>

record receipt_json =
  rj_receipt :: "string \<Rightarrow> receipt option"
  rj_write_receipt :: "receipt \<Rightarrow> string"
  rj_pending :: "string \<Rightarrow> pending_notice option"
  rj_write_pending :: "pending_notice \<Rightarrow> string"
  rj_fragment :: "string \<Rightarrow> output_fragment option"
  rj_write_fragment :: "output_fragment \<Rightarrow> string"

text \<open>A receipt directory: \<open>receipt.json\<close>, the files of \<open>output\<close> when it exists, and when it was made.\<close>

record receipt_dir =
  rd_receipt :: "string option"
  rd_output :: "(string \<times> string) list option"
  rd_modified :: time

text \<open>The agent, the hash of the session and the name of the directory under them.\<close>

type_synonym receipt_key = "string \<times> string \<times> string"

type_synonym receipt_dirs = "(receipt_key \<times> receipt_dir) list"

datatype receipt_error =
    LockFailed
  | ResetFailed
  | DirectoryFailed
  | WriteFailed
  | RecordTooLarge
  | StatFailed
  | ListFailed
  | ClaimFailed
  | FileMissing
  | FileEmpty
  | FileTooLarge
  | FileUndecodable
  | UnsupportedVersion int
  | NoticeHasNoOutput
  | FragmentLimit

text \<open>
  What the file system refuses during an operation; \<open>rf_remove\<close> and \<open>rf_clean\<close> are what a failing
  \<open>os.RemoveAll\<close> leaves behind.
\<close>

record receipt_faults =
  rf_lock :: bool
  rf_remove :: "receipt_dir option"
  rf_mkdir :: bool
  rf_stat :: bool
  rf_list :: bool
  rf_write :: bool
  rf_rename :: bool
  rf_clean :: "receipt_dir option"

definition no_faults :: receipt_faults where
  "no_faults =
     \<lparr>rf_lock = False, rf_remove = None, rf_mkdir = False, rf_stat = False, rf_list = False, rf_write = False, rf_rename = False,
      rf_clean = None\<rparr>"

text \<open>\<open>readBoundedJSON\<close>, on the bytes of the file when there is one.\<close>

definition read_bounded :: "(string \<Rightarrow> 'a option) \<Rightarrow> string option \<Rightarrow> receipt_error + 'a" where
  "read_bounded decode file =
     (case file of
        None \<Rightarrow> Inl FileMissing
      | Some data \<Rightarrow>
          if data = [] then Inl FileEmpty
          else if int (length data) > max_receipt_bytes then Inl FileTooLarge
          else case decode data of None \<Rightarrow> Inl FileUndecodable | Some x \<Rightarrow> Inr x)"

definition read_receipt :: "receipt_json \<Rightarrow> string option \<Rightarrow> receipt_error + receipt" where
  "read_receipt J file =
     rbind (read_bounded (rj_receipt J) file) (\<lambda>r.
       if re_SchemaVersion r \<noteq> receipt_schema_version then Inl (UnsupportedVersion (re_SchemaVersion r)) else Inr r)"

text \<open>The size of a pending notice is checked before the file is opened.\<close>

definition read_pending_notice :: "receipt_json \<Rightarrow> string option \<Rightarrow> receipt_error + pending_notice" where
  "read_pending_notice J file =
     rbind (read_bounded (rj_pending J) file) (\<lambda>p.
       if pn_SchemaVersion p \<noteq> pending_schema_version then Inl (UnsupportedVersion (pn_SchemaVersion p))
       else if output_empty (pn_Output p) then Inl NoticeHasNoOutput
       else Inr p)"

section \<open>Paths\<close>

definition normalize_agent_type :: "go_lib \<Rightarrow> string \<Rightarrow> string option" where
  "normalize_agent_type L agentType =
     (let a = trim_space (lower L agentType) in
      if a = ''codex'' then Some ''codex'' else if a = ''claude_code'' then Some ''claude_code'' else None)"

definition receipt_path :: "go_lib \<Rightarrow> string \<Rightarrow> string \<Rightarrow> string \<Rightarrow> string \<Rightarrow> receipt_key option" where
  "receipt_path L dataDir agentType sessionID turnID =
     (case normalize_agent_type L agentType of
        None \<Rightarrow> None
      | Some agent \<Rightarrow>
          if trim_space dataDir = [] \<or> trim_space sessionID = [] then None
          else Some (agent, short_hash L (trim_space sessionID),
                     if trim_space turnID \<noteq> [] then ''turn-'' @ short_hash L (trim_space turnID) else ''active''))"

definition pending_path :: "go_lib \<Rightarrow> string \<Rightarrow> string \<Rightarrow> string \<Rightarrow> receipt_key option" where
  "pending_path L dataDir agentType sessionID =
     (case normalize_agent_type L agentType of
        None \<Rightarrow> None
      | Some agent \<Rightarrow>
          if trim_space dataDir = [] \<or> trim_space sessionID = [] then None
          else Some (agent, short_hash L (trim_space sessionID), ''pending''))"

definition claim_path :: "receipt_key \<Rightarrow> string \<Rightarrow> receipt_key" where
  "claim_path key newID = (case key of (agent, session, name) \<Rightarrow> (agent, session, name @ ''.consuming-'' @ newID))"

definition set_dir :: "receipt_key \<Rightarrow> receipt_dir option \<Rightarrow> receipt_dirs \<Rightarrow> receipt_dirs" where
  "set_dir key d dirs = (case d of None \<Rightarrow> AList.delete key dirs | Some x \<Rightarrow> AList.update key x dirs)"

lemma map_of_set_dir: "map_of (set_dir key d dirs) = (map_of dirs)(key := d)"
  by (cases d) (auto simp: set_dir_def update_conv' delete_conv')

section \<open>Receipts\<close>

text \<open>Making the directory and writing \<open>receipt.json\<close>, for a receipt or a notice.\<close>

definition write_record :: "receipt_faults \<Rightarrow> time \<Rightarrow> receipt_key \<Rightarrow> string \<Rightarrow> receipt_dirs \<Rightarrow> receipt_dirs \<times> (receipt_error + unit)" where
  "write_record F now key data dirs =
     (let d = \<lparr>rd_receipt = None, rd_output = None, rd_modified = now\<rparr> in
      if rf_mkdir F then (dirs, Inl DirectoryFailed)
      else if int (length data) > max_receipt_bytes then (set_dir key (Some d) dirs, Inl RecordTooLarge)
      else if rf_write F then (set_dir key (Some d) dirs, Inl WriteFailed)
      else (set_dir key (Some (d\<lparr>rd_receipt := Some data\<rparr>)) dirs, Inr ()))"

text \<open>Replacing whatever the directory was by a fresh one with this record.\<close>

definition reset_record :: "receipt_faults \<Rightarrow> time \<Rightarrow> receipt_key \<Rightarrow> string \<Rightarrow> receipt_dirs \<Rightarrow> receipt_dirs \<times> (receipt_error + unit)" where
  "reset_record F now key data dirs =
     (if rf_lock F then (dirs, Inl LockFailed)
      else case rf_remove F of
             Some left \<Rightarrow> (set_dir key (Some left) dirs, Inl ResetFailed)
           | None \<Rightarrow> write_record F now key data (set_dir key None dirs))"

definition new_receipt :: "time \<Rightarrow> receipt" where
  "new_receipt now = \<lparr>re_SchemaVersion = receipt_schema_version, re_ExpiresAt = now + receipt_ttl, re_Output = no_output\<rparr>"

definition begin_receipt ::
  "go_lib \<Rightarrow> receipt_json \<Rightarrow> receipt_faults \<Rightarrow> string \<Rightarrow> time \<Rightarrow> string \<Rightarrow> string \<Rightarrow> string \<Rightarrow> receipt_dirs \<Rightarrow> receipt_dirs \<times> (receipt_error + unit)" where
  "begin_receipt L J F dataDir now agentType sessionID turnID dirs =
     (case receipt_path L dataDir agentType sessionID turnID of
        None \<Rightarrow> (dirs, Inr ())
      | Some key \<Rightarrow> reset_record F now key (rj_write_receipt J (new_receipt now)) dirs)"

definition is_fragment :: "string \<Rightarrow> bool" where
  "is_fragment name \<longleftrightarrow> path_ext name = ''.json''"

definition fragment_name :: "go_lib \<Rightarrow> string \<Rightarrow> string" where
  "fragment_name L observationID = short_hash L observationID @ ''.json''"

definition fragment_files :: "receipt_dir \<Rightarrow> (string \<times> string) list" where
  "fragment_files d = (case rd_output d of None \<Rightarrow> [] | Some files \<Rightarrow> files)"

definition count_output_fragments :: "receipt_dir \<Rightarrow> nat" where
  "count_output_fragments d = length (filter (is_fragment \<circ> fst) (fragment_files d))"

text \<open>Writing the fragment of an observation into the directory of a running turn.\<close>

definition write_fragment :: "go_lib \<Rightarrow> receipt_json \<Rightarrow> receipt_faults \<Rightarrow> string \<Rightarrow> output_summary \<Rightarrow> receipt_dir \<Rightarrow> receipt_dir \<times> (receipt_error + unit)" where
  "write_fragment L J F observationID output d =
     (let name = fragment_name L observationID; d1 = d\<lparr>rd_output := Some (fragment_files d)\<rparr>;
          data = rj_write_fragment J \<lparr>of_SchemaVersion = receipt_schema_version, of_Output = output\<rparr>
      in if rf_mkdir F then (d, Inl DirectoryFailed)
         else if rf_stat F then (d1, Inl StatFailed)
         else if map_of (fragment_files d) name = None \<and> rf_list F then (d1, Inl ListFailed)
         else if map_of (fragment_files d) name = None \<and> count_output_fragments d \<ge> max_output_fragments then (d1, Inl FragmentLimit)
         else if rf_write F then (d1, Inl WriteFailed)
         else (d1\<lparr>rd_output := Some (AList.update name data (fragment_files d))\<rparr>, Inr ()))"

definition record_output ::
  "go_lib \<Rightarrow> receipt_json \<Rightarrow> receipt_faults \<Rightarrow> string \<Rightarrow> string \<Rightarrow> string \<Rightarrow> string \<Rightarrow> string \<Rightarrow> output_summary \<Rightarrow> receipt_dirs
    \<Rightarrow> receipt_dirs \<times> (receipt_error + unit)" where
  "record_output L J F dataDir agentType sessionID turnID observationID0 output dirs =
     (let observationID = trim_space observationID0 in
      case receipt_path L dataDir agentType sessionID turnID of
        None \<Rightarrow> (dirs, Inr ())
      | Some key \<Rightarrow>
          if observationID = [] \<or> output_empty output then (dirs, Inr ())
          else if rf_lock F then (dirs, Inl LockFailed)
          else case map_of dirs key of
                 None \<Rightarrow> (dirs, Inr ())
               | Some d \<Rightarrow>
                   (case read_receipt J (rd_receipt d) of
                      Inl FileMissing \<Rightarrow> (dirs, Inr ())
                    | Inl err \<Rightarrow> (dirs, Inl err)
                    | Inr _ \<Rightarrow> (let (d', r) = write_fragment L J F observationID output d in (set_dir key (Some d') dirs, r))))"

section \<open>The end of a turn\<close>

text \<open>The fragments that count: the first ones in the order of their names, broken and foreign ones skipped.\<close>

definition fragment_output :: "receipt_json \<Rightarrow> string \<times> string \<Rightarrow> output_summary option" where
  "fragment_output J file =
     (case read_bounded (rj_fragment J) (Some (snd file)) of
        Inl _ \<Rightarrow> None
      | Inr f \<Rightarrow> if of_SchemaVersion f \<noteq> receipt_schema_version then None else Some (of_Output f))"

definition collected_outputs :: "receipt_json \<Rightarrow> receipt_dir \<Rightarrow> output_summary list" where
  "collected_outputs J d =
     List.map_filter (fragment_output J)
       (take max_output_fragments (filter (is_fragment \<circ> fst) (sort_key fst (fragment_files d))))"

text \<open>
  Taking the directory away under the lock; the continuation reads it afterwards, and its last
  step removes it. Without a directory nothing is found.
\<close>

definition claim_dir :: "receipt_faults \<Rightarrow> receipt_key \<Rightarrow> string \<Rightarrow> (receipt_dir \<Rightarrow> 'a) \<Rightarrow> receipt_dirs \<Rightarrow> receipt_dirs \<times> (receipt_error + 'a option)" where
  "claim_dir F key newID read dirs =
     (if rf_lock F then (dirs, Inl LockFailed)
      else case map_of dirs key of
             None \<Rightarrow> (dirs, Inr None)
           | Some d \<Rightarrow>
               if rf_rename F then (dirs, Inl ClaimFailed)
               else (set_dir (claim_path key newID) (rf_clean F) (set_dir key None dirs), Inr (Some (read d))))"

text \<open>What is read of a claimed receipt: a receipt, whether it was found, and an error.\<close>

definition read_claimed_receipt :: "receipt_json \<Rightarrow> receipt_faults \<Rightarrow> time \<Rightarrow> receipt_dir \<Rightarrow> receipt_error + receipt option" where
  "read_claimed_receipt J F now d =
     rbind (read_receipt J (rd_receipt d)) (\<lambda>r.
       if \<not> re_ExpiresAt r > now then Inr None
       else if rd_output d \<noteq> None \<and> rf_list F then Inl ListFailed
       else Inr (Some (r\<lparr>re_Output := foldl output_add (re_Output r) (collected_outputs J d)\<rparr>)))"

definition consume_receipt ::
  "go_lib \<Rightarrow> receipt_json \<Rightarrow> receipt_faults \<Rightarrow> string \<Rightarrow> time \<Rightarrow> string \<Rightarrow> string \<Rightarrow> string \<Rightarrow> string \<Rightarrow> receipt_dirs
    \<Rightarrow> receipt_dirs \<times> (receipt_error + receipt option)" where
  "consume_receipt L J F dataDir now newID agentType sessionID turnID dirs =
     (case receipt_path L dataDir agentType sessionID turnID of
        None \<Rightarrow> (dirs, Inr None)
      | Some key \<Rightarrow>
          (let (dirs', r) = claim_dir F key newID (read_claimed_receipt J F now) dirs
           in (dirs', rbind r (\<lambda>x. case x of None \<Rightarrow> Inr None | Some y \<Rightarrow> y))))"

section \<open>Pending notices\<close>

definition save_pending ::
  "go_lib \<Rightarrow> receipt_json \<Rightarrow> receipt_faults \<Rightarrow> string \<Rightarrow> time \<Rightarrow> string \<Rightarrow> string \<Rightarrow> output_summary \<Rightarrow> receipt_dirs
    \<Rightarrow> receipt_dirs \<times> (receipt_error + unit)" where
  "save_pending L J F dataDir now agentType sessionID output dirs =
     (case pending_path L dataDir agentType sessionID of
        None \<Rightarrow> (dirs, Inr ())
      | Some key \<Rightarrow>
          if output_empty output then (dirs, Inr ())
          else reset_record F now key
                 (rj_write_pending J \<lparr>pn_SchemaVersion = pending_schema_version, pn_ExpiresAt = now + receipt_ttl, pn_Output = output\<rparr>) dirs)"

definition read_claimed_notice :: "receipt_json \<Rightarrow> time \<Rightarrow> receipt_dir \<Rightarrow> receipt_error + pending_notice option" where
  "read_claimed_notice J now d =
     rbind (read_pending_notice J (rd_receipt d)) (\<lambda>p. Inr (if pn_ExpiresAt p > now then Some p else None))"

definition consume_pending ::
  "go_lib \<Rightarrow> receipt_json \<Rightarrow> receipt_faults \<Rightarrow> string \<Rightarrow> time \<Rightarrow> string \<Rightarrow> string \<Rightarrow> string \<Rightarrow> receipt_dirs
    \<Rightarrow> receipt_dirs \<times> (receipt_error + pending_notice option)" where
  "consume_pending L J F dataDir now newID agentType sessionID dirs =
     (case pending_path L dataDir agentType sessionID of
        None \<Rightarrow> (dirs, Inr None)
      | Some key \<Rightarrow>
          (let (dirs', r) = claim_dir F key newID (read_claimed_notice J now) dirs
           in (dirs', rbind r (\<lambda>x. case x of None \<Rightarrow> Inr None | Some y \<Rightarrow> y))))"

end
