(* ===== verification/Turn_Receipt_Properties.thy ===== *)
theory Turn_Receipt_Properties
  imports Turn_Receipt Go_Text "HOL-Library.Multiset"
begin

text \<open>
  The life of a turn's receipt: what was recorded while the turn ran is what its end gets, once.
\<close>

section \<open>Saturating sums\<close>

definition capped :: "int list \<Rightarrow> int" where
  "capped xs = min max_int64 (sum_list (map (max 0) xs))"

definition output_total :: "output_summary list \<Rightarrow> output_summary" where
  "output_total outs =
     \<lparr>os_CodeLines = capped (map os_CodeLines outs), os_TestLines = capped (map os_TestLines outs),
      os_DocWords = capped (map os_DocWords outs), os_ConfigLines = capped (map os_ConfigLines outs),
      os_OtherWords = capped (map os_OtherWords outs)\<rparr>"

lemma sum_nonneg_list: "0 \<le> sum_list (map (max (0::int)) xs)"
  by (induction xs) auto

lemma foldl_saturating: "0 \<le> a \<Longrightarrow> a \<le> max_int64 \<Longrightarrow> foldl saturating_add a xs = min max_int64 (a + sum_list (map (max 0) xs))"
proof (induction xs arbitrary: a)
  case (Cons x xs)
  have "0 \<le> saturating_add a x" "saturating_add a x \<le> max_int64" and s: "saturating_add a x = min max_int64 (a + max 0 x)"
    using Cons.prems by (auto simp: saturating_add_def max_int64_def)
  with Cons.IH have "foldl saturating_add a (x # xs) = min max_int64 (min max_int64 (a + max 0 x) + sum_list (map (max 0) xs))" by simp
  also have "\<dots> = min max_int64 (a + sum_list (map (max 0) (x # xs)))" using sum_nonneg_list [of xs] by (simp add: min_def)
  finally show ?case .
qed (simp add: max_int64_def)

lemma foldl_output_add: "foldl output_add s outs =
    \<lparr>os_CodeLines = foldl saturating_add (os_CodeLines s) (map os_CodeLines outs),
     os_TestLines = foldl saturating_add (os_TestLines s) (map os_TestLines outs),
     os_DocWords = foldl saturating_add (os_DocWords s) (map os_DocWords outs),
     os_ConfigLines = foldl saturating_add (os_ConfigLines s) (map os_ConfigLines outs),
     os_OtherWords = foldl saturating_add (os_OtherWords s) (map os_OtherWords outs)\<rparr>"
  by (induction outs arbitrary: s) (simp_all add: output_add_def)

lemma output_total_fold: "foldl output_add no_output outs = output_total outs"
  by (simp add: foldl_output_add no_output_def output_total_def capped_def foldl_saturating max_int64_def)

lemma capped_mset: "mset xs = mset ys \<Longrightarrow> capped xs = capped ys"
  by (simp add: capped_def) (metis mset_map sum_mset_sum_list)

lemma output_total_mset: "mset xs = mset ys \<Longrightarrow> output_total xs = output_total ys"
  by (simp add: output_total_def) (metis capped_mset mset_map)

section \<open>The ledger of a turn\<close>

text \<open>The last output of every observation, by the name of its file.\<close>

definition ledger :: "go_lib \<Rightarrow> (string \<times> output_summary) list \<Rightarrow> (string \<times> output_summary) list" where
  "ledger L observations = foldl (\<lambda>m (observation, output). AList.update (fragment_name L (trim_space observation)) output m) [] observations"

lemma is_fragment_name: "is_fragment (fragment_name L i)"
proof -
  have "index_of (tl ''.'' @ ''json'') ''.'' = None" by (simp add: has_prefix_def)
  from last_index_of_here [OF _ this, of "short_hash L i"]
  show ?thesis by (simp add: is_fragment_def path_ext_def fragment_name_def contains_def has_prefix_def)
qed

lemma update_map_values: "AList.update k (f v) (map (\<lambda>(k, v). (k, f v)) m) = map (\<lambda>(k, v). (k, f v)) (AList.update k v m)"
  by (induction m) auto

lemma ledger_snoc: "ledger L (xs @ [(i, out)]) = AList.update (fragment_name L (trim_space i)) out (ledger L xs)"
  by (simp add: ledger_def)

lemma length_update: "length (AList.update k v m) = (if map_of m k = None then Suc (length m) else length m)"
  by (induction m) auto

lemma ledger_names: "n \<in> fst ` set (ledger L xs) \<Longrightarrow> is_fragment n"
proof (induction xs rule: rev_induct)
  case (snoc x xs)
  then show ?case by (cases x) (auto simp: ledger_snoc dom_update is_fragment_name)
qed (simp add: ledger_def)

lemma ledger_prefix: "length (ledger L xs) \<le> length (ledger L (xs @ ys))"
proof (induction ys rule: rev_induct)
  case (snoc y ys)
  then show ?case by (cases y) (simp add: ledger_snoc length_update flip: append_assoc)
qed simp

lemma snd_ledger: "snd ` set (ledger L xs) \<subseteq> snd ` set xs"
proof (induction xs rule: rev_induct)
  case (snoc x xs)
  have "snd ` set (AList.update k v m) \<subseteq> insert v (snd ` set m)" for k v and m :: "(string \<times> output_summary) list"
    by (induction m) auto
  with snoc show ?case by (cases x) (force simp: ledger_snoc)
qed (simp add: ledger_def)

section \<open>What the files hold\<close>

text \<open>The stored records decode to what was written, within the size that is read.\<close>

definition json_faithful :: "receipt_json \<Rightarrow> time \<Rightarrow> output_summary set \<Rightarrow> bool" where
  "json_faithful J start outs \<longleftrightarrow>
     read_bounded (rj_receipt J) (Some (rj_write_receipt J (new_receipt start))) = Inr (new_receipt start)
     \<and> (\<forall>out\<in>outs. read_bounded (rj_fragment J) (Some (rj_write_fragment J \<lparr>of_SchemaVersion = receipt_schema_version, of_Output = out\<rparr>))
                   = Inr \<lparr>of_SchemaVersion = receipt_schema_version, of_Output = out\<rparr>)"

definition fragment_data :: "receipt_json \<Rightarrow> output_summary \<Rightarrow> string" where
  "fragment_data J out = rj_write_fragment J \<lparr>of_SchemaVersion = receipt_schema_version, of_Output = out\<rparr>"

definition running :: "receipt_json \<Rightarrow> time \<Rightarrow> (string \<times> output_summary) list \<Rightarrow> receipt_dir option \<Rightarrow> bool" where
  "running J start m d \<longleftrightarrow>
     (\<exists>dir. d = Some dir \<and> rd_receipt dir = Some (rj_write_receipt J (new_receipt start))
        \<and> fragment_files dir = map (\<lambda>(n, out). (n, fragment_data J out)) m)"

lemma read_bounded_size: "read_bounded f (Some data) = Inr x \<Longrightarrow> int (length data) \<le> max_receipt_bytes"
  by (auto simp: read_bounded_def split: if_splits)

lemma read_new_receipt: "json_faithful J start outs \<Longrightarrow> read_receipt J (Some (rj_write_receipt J (new_receipt start))) = Inr (new_receipt start)"
  by (simp add: json_faithful_def read_receipt_def new_receipt_def)

lemma begin_runs:
  assumes "json_faithful J start outs" and "receipt_path L dataDir agent session turn = Some key"
    and "begin_receipt L J no_faults dataDir start agent session turn dirs = (dirs', r)"
  shows "running J start [] (map_of dirs' key)" and "r = Inr ()" and "k \<noteq> key \<Longrightarrow> map_of dirs' k = map_of dirs k"
proof -
  have "int (length (rj_write_receipt J (new_receipt start))) \<le> max_receipt_bytes"
    using assms(1) read_bounded_size [of "rj_receipt J"] by (simp add: json_faithful_def)
  with assms(2,3) show "running J start [] (map_of dirs' key)" "r = Inr ()" "k \<noteq> key \<Longrightarrow> map_of dirs' k = map_of dirs k"
    by (auto simp: begin_receipt_def reset_record_def write_record_def no_faults_def map_of_set_dir running_def fragment_files_def Let_def)
qed

lemma record_runs:
  assumes "json_faithful J start outs" and "receipt_path L dataDir agent session turn = Some key"
    and "running J start (ledger L xs) (map_of dirs key)" and "length (ledger L (xs @ [(i, out)])) \<le> max_output_fragments"
    and "trim_space i \<noteq> []" and "\<not> output_empty out"
    and "record_output L J no_faults dataDir agent session turn i out dirs = (dirs', r)"
  shows "running J start (ledger L (xs @ [(i, out)])) (map_of dirs' key)" and "r = Inr ()" and "k \<noteq> key \<Longrightarrow> map_of dirs' k = map_of dirs k"
proof -
  obtain d where d: "map_of dirs key = Some d" "rd_receipt d = Some (rj_write_receipt J (new_receipt start))"
    "fragment_files d = map (\<lambda>(n, out). (n, fragment_data J out)) (ledger L xs)"
    using assms(3) by (auto simp: running_def)
  let ?n = "fragment_name L (trim_space i)"
  have names: "filter (is_fragment \<circ> fst) (fragment_files d) = fragment_files d"
    unfolding filter_id_conv using ledger_names [of _ L xs] by (force simp: d(3))
  have fresh: "map_of (fragment_files d) ?n = None \<longleftrightarrow> map_of (ledger L xs) ?n = None"
    by (simp add: d(3) map_of_eq_None_iff image_image case_prod_beta)
  have "\<not> (map_of (fragment_files d) ?n = None \<and> count_output_fragments d \<ge> max_output_fragments)"
    using assms(4) names unfolding fresh count_output_fragments_def ledger_snoc length_update
    by (cases "map_of (ledger L xs) ?n") (simp_all add: d(3))
  then have w: "write_fragment L J no_faults (trim_space i) out d
      = (d\<lparr>rd_output := Some (AList.update ?n (fragment_data J out) (fragment_files d))\<rparr>, Inr ())"
    by (simp add: write_fragment_def no_faults_def fragment_data_def Let_def)
  have "record_output L J no_faults dataDir agent session turn i out dirs
      = (set_dir key (Some (d\<lparr>rd_output := Some (AList.update ?n (fragment_data J out) (fragment_files d))\<rparr>)) dirs, Inr ())"
    using assms(5,6) w by (simp add: record_output_def assms(2) d read_new_receipt [OF assms(1)] Let_def) (simp add: no_faults_def)
  with assms(7) d(2,3) show "running J start (ledger L (xs @ [(i, out)])) (map_of dirs' key)" "r = Inr ()"
    "k \<noteq> key \<Longrightarrow> map_of dirs' k = map_of dirs k"
    by (auto simp: running_def map_of_set_dir fragment_files_def ledger_snoc update_map_values)
qed

definition record_all ::
  "go_lib \<Rightarrow> receipt_json \<Rightarrow> string \<Rightarrow> string \<Rightarrow> string \<Rightarrow> string \<Rightarrow> (string \<times> output_summary) list \<Rightarrow> receipt_dirs \<Rightarrow> receipt_dirs" where
  "record_all L J dataDir agent session turn observations dirs =
     foldl (\<lambda>ds (i, out). fst (record_output L J no_faults dataDir agent session turn i out ds)) dirs observations"

lemma record_all_runs:
  assumes "json_faithful J start outs" and "receipt_path L dataDir agent session turn = Some key"
    and "running J start [] (map_of dirs key)" and "length (ledger L xs) \<le> max_output_fragments"
    and "\<forall>(i, out)\<in>set xs. trim_space i \<noteq> [] \<and> \<not> output_empty out"
  shows "running J start (ledger L xs) (map_of (record_all L J dataDir agent session turn xs dirs) key)
    \<and> (\<forall>k. k \<noteq> key \<longrightarrow> map_of (record_all L J dataDir agent session turn xs dirs) k = map_of dirs k)"
  using assms(4,5)
proof (induction xs rule: rev_induct)
  case Nil
  with assms(3) show ?case by (simp add: record_all_def ledger_def)
next
  case (snoc x xs)
  obtain i out where x: "x = (i, out)" by (cases x)
  have len: "length (ledger L xs) \<le> max_output_fragments" using snoc.prems(1) ledger_prefix [of L xs "[x]"] by simp
  let ?dirs = "record_all L J dataDir agent session turn xs dirs"
  obtain dirs' r where run: "record_output L J no_faults dataDir agent session turn i out ?dirs = (dirs', r)" by (cases "record_output L J no_faults dataDir agent session turn i out ?dirs")
  have ih: "running J start (ledger L xs) (map_of ?dirs key)" "\<forall>k. k \<noteq> key \<longrightarrow> map_of ?dirs k = map_of dirs k"
    using snoc len by auto
  have "record_all L J dataDir agent session turn (xs @ [x]) dirs = dirs'" using run by (simp add: record_all_def x)
  with record_runs [OF assms(1,2) ih(1) _ _ _ run] ih(2) snoc.prems show ?case by (simp add: x)
qed

section \<open>What the end of the turn gets\<close>

lemma collected_outputs_total:
  assumes "json_faithful J start outs" and "snd ` set m \<subseteq> outs" and "length m \<le> max_output_fragments"
    and "\<forall>n\<in>fst ` set m. is_fragment n" and "fragment_files d = map (\<lambda>(n, out). (n, fragment_data J out)) m"
  shows "output_total (collected_outputs J d) = output_total (map snd m)"
proof -
  let ?files = "sort_key fst (fragment_files d)"
  have "filter (is_fragment \<circ> fst) ?files = ?files"
    unfolding filter_id_conv using assms(4) by (force simp: assms(5))
  moreover have "length ?files \<le> max_output_fragments" using assms(3) by (simp add: assms(5))
  ultimately have c: "collected_outputs J d = List.map_filter (fragment_output J) ?files" by (simp add: collected_outputs_def)
  have "mset (List.map_filter (fragment_output J) ?files) = mset (List.map_filter (fragment_output J) (fragment_files d))"
    by (simp only: List.map_filter_def mset_map mset_filter mset_sort)
  moreover have "List.map_filter (fragment_output J) (fragment_files d) = map snd m"
    unfolding assms(5) using assms(1,2)
    by (induction m) (auto simp: map_filter_simps fragment_output_def fragment_data_def json_faithful_def)
  ultimately show ?thesis unfolding c by (intro output_total_mset) simp
qed

text \<open>
  C29: The end of a turn gets exactly what the turn recorded, once. After \<open>Begin\<close> and any number of
  \<open>RecordOutput\<close> calls for at most 256 tool calls, \<open>Consume\<close> before the receipt expires finds the
  receipt with the saturating sums of the last output of each tool call (an output recorded again
  replaces the earlier one), takes the receipt away, so a second \<open>Consume\<close> finds none, and leaves the
  receipts of other turns alone.
\<close>

theorem turn_output_collected_once:
  assumes "json_faithful J start (snd ` set xs)" and "receipt_path L dataDir agent session turn = Some key"
    and "\<forall>(i, out)\<in>set xs. trim_space i \<noteq> [] \<and> \<not> output_empty out"
    and "length (ledger L xs) \<le> max_output_fragments" and "now < start + receipt_ttl"
    and "dirs1 = record_all L J dataDir agent session turn xs (fst (begin_receipt L J no_faults dataDir start agent session turn dirs))"
    and "consume_receipt L J no_faults dataDir now newID agent session turn dirs1 = (dirs2, r)"
  shows "r = Inr (Some ((new_receipt start)\<lparr>re_Output := output_total (map snd (ledger L xs))\<rparr>))
    \<and> consume_receipt L J no_faults dataDir later otherID agent session turn dirs2 = (dirs2, Inr None)
    \<and> (\<forall>k. k \<noteq> key \<longrightarrow> k \<noteq> claim_path key newID \<longrightarrow> map_of dirs2 k = map_of dirs k)"
proof -
  obtain dirs0 r0 where b: "begin_receipt L J no_faults dataDir start agent session turn dirs = (dirs0, r0)"
    by (cases "begin_receipt L J no_faults dataDir start agent session turn dirs")
  note begun = begin_runs [OF assms(1,2) b]
  from record_all_runs [OF assms(1,2) begun(1) assms(4,3)] assms(6) b
  have run: "running J start (ledger L xs) (map_of dirs1 key)" and others: "\<And>k. k \<noteq> key \<Longrightarrow> map_of dirs1 k = map_of dirs k"
    using begun(3) by auto
  from run obtain d where d: "map_of dirs1 key = Some d" "rd_receipt d = Some (rj_write_receipt J (new_receipt start))"
    "fragment_files d = map (\<lambda>(n, out). (n, fragment_data J out)) (ledger L xs)" by (auto simp: running_def)
  have "output_total (collected_outputs J d) = output_total (map snd (ledger L xs))"
    by (rule collected_outputs_total [OF assms(1) snd_ledger assms(4) _ d(3)]) (use ledger_names in blast)
  moreover have "re_Output (new_receipt start) = no_output" "re_ExpiresAt (new_receipt start) > now"
    using assms(5) by (simp_all add: new_receipt_def)
  ultimately have read: "read_claimed_receipt J no_faults now d = Inr (Some ((new_receipt start)\<lparr>re_Output := output_total (map snd (ledger L xs))\<rparr>))"
    by (simp add: read_claimed_receipt_def d(2) read_new_receipt [OF assms(1)] output_total_fold) (simp add: no_faults_def)
  have "claim_path key newID \<noteq> key" by (cases key) (simp add: claim_path_def)
  moreover from assms(7) d(1) read have "r = Inr (Some ((new_receipt start)\<lparr>re_Output := output_total (map snd (ledger L xs))\<rparr>))"
    and d2: "dirs2 = set_dir (claim_path key newID) None (set_dir key None dirs1)"
    by (simp_all add: consume_receipt_def assms(2) claim_dir_def no_faults_def)
  ultimately show ?thesis using others
    by (simp add: consume_receipt_def assms(2) claim_dir_def map_of_set_dir no_faults_def)
qed

text \<open>A turn of a session \<open>s\<close> with two tool calls, the first of them recorded twice.\<close>

definition lines0 :: "nat \<Rightarrow> output_summary" where
  "lines0 n = no_output\<lparr>os_CodeLines := int n\<rparr>"

definition json0 :: receipt_json where
  "json0 = \<lparr>rj_receipt = (\<lambda>s. Some (new_receipt 0)), rj_write_receipt = (\<lambda>r. ''r''),
            rj_pending = (\<lambda>s. None), rj_write_pending = (\<lambda>p. ''p''),
            rj_fragment = (\<lambda>s. Some \<lparr>of_SchemaVersion = receipt_schema_version, of_Output = lines0 (length s)\<rparr>),
            rj_write_fragment = (\<lambda>f. replicate (nat (os_CodeLines (of_Output f))) (CHR ''c''))\<rparr>"

definition turn0 :: "(string \<times> output_summary) list" where
  "turn0 = [(''a'', lines0 2), (''b'', lines0 3), (''a'', lines0 4)]"

lemma json0_faithful: "0 < n \<Longrightarrow> int n \<le> max_receipt_bytes \<Longrightarrow>
    read_bounded (rj_fragment json0) (Some (rj_write_fragment json0 \<lparr>of_SchemaVersion = v, of_Output = lines0 n\<rparr>))
      = Inr \<lparr>of_SchemaVersion = receipt_schema_version, of_Output = lines0 n\<rparr>"
  by (simp add: read_bounded_def json0_def lines0_def)

lemma ledger0: "map snd (ledger lib0 turn0) = [lines0 4, lines0 3]" by code_simp

theorem turn_output_collected_once_witness:
  "\<exists>dirs2. consume_receipt lib0 json0 no_faults ''d'' 1 ''x'' ''codex'' ''s'' ''t''
     (record_all lib0 json0 ''d'' ''codex'' ''s'' ''t'' turn0 (fst (begin_receipt lib0 json0 no_faults ''d'' 0 ''codex'' ''s'' ''t'' [])))
   = (dirs2, Inr (Some ((new_receipt 0)\<lparr>re_Output := lines0 7\<rparr>)))"
proof -
  let ?dirs = "record_all lib0 json0 ''d'' ''codex'' ''s'' ''t'' turn0 (fst (begin_receipt lib0 json0 no_faults ''d'' 0 ''codex'' ''s'' ''t'' []))"
  have json: "json_faithful json0 0 (snd ` set turn0)"
    unfolding json_faithful_def turn0_def
    by (simp add: json0_faithful [of 2] json0_faithful [of 3] json0_faithful [of 4] max_receipt_bytes_def)
       (simp add: json0_def read_bounded_def max_receipt_bytes_def)
  have key: "receipt_path lib0 ''d'' ''codex'' ''s'' ''t'' = Some (''codex'', short_hash lib0 ''s'', ''turn-'' @ short_hash lib0 ''t'')"
    by code_simp
  have turn: "\<forall>(i, out)\<in>set turn0. trim_space i \<noteq> [] \<and> \<not> output_empty out" by code_simp
  have len: "length (ledger lib0 turn0) \<le> max_output_fragments" by code_simp
  obtain dirs2 r where run: "consume_receipt lib0 json0 no_faults ''d'' 1 ''x'' ''codex'' ''s'' ''t'' ?dirs = (dirs2, r)"
    by (cases "consume_receipt lib0 json0 no_faults ''d'' 1 ''x'' ''codex'' ''s'' ''t'' ?dirs")
  have "(1::int) < 0 + receipt_ttl" by (simp add: receipt_ttl_def nanos_per_hour_def nanos_per_minute_def nanos_per_second_def)
  note collected = turn_output_collected_once [OF json key turn len this refl run]
  have "output_total [lines0 4, lines0 3] = lines0 7" by code_simp
  with collected run show ?thesis by (simp add: ledger0)
qed

end
