(* ===== verification/Gross_Output.thy ===== *)
theory Gross_Output
  imports Tool_Input Turn_Receipt Event_Queue Redact Usage_Delta
begin

text \<open>
  \<open>pkg/agent/tool_input_meter.go\<close> and the recognition of the agent's own notice calls in
  \<open>turn_completion_format.go\<close>: the events that report what a tool call wrote, queued at once, and the
  summary that goes to the receipt of the turn. The turn that the Codex application reports
  (\<open>codexapp.ReadTurn\<close>) and the cached classification are arguments.
\<close>

section \<open>Events of a tool call\<close>

record gross_observation =
  go_CallID :: string
  go_SessionID :: string
  go_TurnID :: string
  go_ToolName :: string
  go_AgentType :: string
  go_Source :: string
  go_Origin :: string
  go_ObservedAt :: time
  go_Measurements :: "measurement list"

definition add_positive_count :: "int \<Rightarrow> int \<Rightarrow> int" where
  "add_positive_count current delta =
     (if delta \<le> 0 then current else if current > max_int64 - delta then max_int64 else current + delta)"

definition summarize_measurement :: "output_summary \<Rightarrow> measurement \<Rightarrow> output_summary" where
  "summarize_measurement s m =
     (let c = ms_Counts m in
      if \<not> ms_EfficiencyEligible m then s
      else if ms_Category m = category_code then s\<lparr>os_CodeLines := add_positive_count (os_CodeLines s) (ct_Lines c)\<rparr>
      else if ms_Category m = category_tests then s\<lparr>os_TestLines := add_positive_count (os_TestLines s) (ct_Lines c)\<rparr>
      else if ms_Category m = category_docs then s\<lparr>os_DocWords := add_positive_count (os_DocWords s) (ct_Words c)\<rparr>
      else if ms_Category m = category_config then s\<lparr>os_ConfigLines := add_positive_count (os_ConfigLines s) (ct_Lines c)\<rparr>
      else if ms_Category m = category_other then s\<lparr>os_OtherWords := add_positive_count (os_OtherWords s) (ct_Words c)\<rparr>
      else s)"

definition summarize_measurements :: "measurement list \<Rightarrow> output_summary" where
  "summarize_measurements ms = foldl summarize_measurement no_output ms"

definition target_hash :: "go_lib \<Rightarrow> measurement \<Rightarrow> string" where
  "target_hash L m = (if trim_space (ms_Target m) \<noteq> [] then short_hash L (ms_Target m) else [])"

definition gross_identity :: "go_lib \<Rightarrow> config \<Rightarrow> gross_observation \<Rightarrow> measurement \<Rightarrow> string" where
  "gross_identity L cfg ob m =
     join [''tool.input.gross.v3'', cfg_DaemonID cfg, go_Source ob, trim_space (go_SessionID ob), trim_space (go_TurnID ob),
           trim_space (go_CallID ob), ms_Category m, target_hash L m] nul_byte"

definition gross_payload :: "go_lib \<Rightarrow> gross_observation \<Rightarrow> time \<Rightarrow> measurement \<Rightarrow> payload" where
  "gross_payload L ob createdAt m =
     map_of ([(''schema_version'', GInt 3), (''call_id_hash'', GString (short_hash L (trim_space (go_CallID ob)))),
       (''tool_name'', GString (redact_and_truncate (trim_space (go_ToolName ob)) 256)), (''tool_class'', GString (ms_ToolClass m)),
       (''category'', GString (ms_Category m)), (''characters'', GInt64 (ct_Characters (ms_Counts m))),
       (''lines'', GInt64 (ct_Lines (ms_Counts m))), (''words'', GInt64 (ct_Words (ms_Counts m))),
       (''efficiency_eligible'', GBool (ms_EfficiencyEligible m)), (''raw_input_stored'', GBool False),
       (''origin'', GString (go_Origin ob)), (''observed_at'', GString (format_rfc3339 L createdAt)),
       (''session_id'', GString (short_hash L (trim_space (go_SessionID ob))))]
      @ (if ms_EfficiencyExclusionReason m \<noteq> [] then [(''efficiency_exclusion_reason'', GString (ms_EfficiencyExclusionReason m))] else [])
      @ (if trim_space (go_TurnID ob) \<noteq> [] then [(''turn_id_hash'', GString (short_hash L (trim_space (go_TurnID ob))))] else [])
      @ (if target_hash L m \<noteq> [] then [(''target_path_hash'', GString (target_hash L m))] else []))"

definition gross_event :: "go_lib \<Rightarrow> config \<Rightarrow> gross_observation \<Rightarrow> time \<Rightarrow> measurement \<Rightarrow> event" where
  "gross_event L cfg ob createdAt m =
     empty_event\<lparr>EventID := ''evt_'' @ short_hash L (gross_identity L cfg ob m), DaemonID := cfg_DaemonID cfg,
       DeviceID := cfg_DeviceID cfg, TeamID := cfg_TeamID cfg, EventType := ''tool.input.gross'', Source := go_Source ob,
       AgentType := go_AgentType ob, CreatedAt := createdAt, Payload := gross_payload L ob createdAt m\<rparr>"

definition gross_measurement_events :: "go_lib \<Rightarrow> config \<Rightarrow> time \<Rightarrow> gross_observation \<Rightarrow> event list \<times> output_summary" where
  "gross_measurement_events L cfg now ob =
     (let createdAt = (if is_zero (go_ObservedAt ob) then now else go_ObservedAt ob) in
      if trim_space (go_CallID ob) = [] \<or> trim_space (go_SessionID ob) = [] \<or> go_Measurements ob = [] then ([], no_output)
      else if go_AgentType ob = ''codex'' \<and> trim_space (go_TurnID ob) = [] then ([], no_output)
      else (map (gross_event L cfg ob createdAt) (go_Measurements ob), summarize_measurements (go_Measurements ob)))"

definition append_gross_measurements ::
  "'b queue_env \<Rightarrow> queue \<Rightarrow> go_lib \<Rightarrow> config \<Rightarrow> time \<Rightarrow> gross_observation \<Rightarrow> 'b db \<Rightarrow> 'b db \<times> (queue_error + output_summary)" where
  "append_gross_measurements E q L cfg now ob db =
     (let (events, output) = gross_measurement_events L cfg now ob in
      if events = [] then (db, Inr output)
      else case append_with_stats E q events db of
             (db', Inl err) \<Rightarrow> (db', Inl err)
           | (db', Inr _) \<Rightarrow> (db', Inr output))"

section \<open>Hook events\<close>

record hook_event =
  he_HookEventName :: string
  he_Prompt :: string
  he_ToolName :: string
  he_ToolInput :: gval
  he_ToolUseID :: string
  he_SessionID :: string
  he_ConversationID :: string
  he_TurnID :: string
  he_CWD :: string
  he_Model :: string
  he_TranscriptPath :: string
  he_ActivityID :: string
  he_PermissionMode :: string

text \<open>The first text that is not empty, as it is.\<close>

fun first_nonempty :: "string list \<Rightarrow> string" where
  "first_nonempty [] = []"
| "first_nonempty (v # vs) = (if v \<noteq> [] then v else first_nonempty vs)"

definition hook_session :: "hook_event \<Rightarrow> string" where
  "hook_session event = first_nonempty [he_SessionID event, he_ConversationID event]"

definition output_classifier :: "go_lib \<Rightarrow> (string list \<times> string list) option \<Rightarrow> classifier" where
  "output_classifier L cache =
     (case cache of None \<Rightarrow> new_classifier L [] [] | Some (suffixes, filenames) \<Rightarrow> new_classifier L suffixes filenames)"

text \<open>The output of a Claude Code tool call.\<close>

definition record_gross_tool_use ::
  "'b queue_env \<Rightarrow> queue \<Rightarrow> go_lib \<Rightarrow> config \<Rightarrow> classifier \<Rightarrow> time \<Rightarrow> hook_event \<Rightarrow> string \<Rightarrow> string \<Rightarrow> 'b db \<Rightarrow> 'b db \<times> (queue_error + output_summary)" where
  "record_gross_tool_use E q L cfg c now event agentType source db =
     (let ms = (if agentType = ''claude_code'' then measure_claude_tool_use L c (he_ToolName event) (he_ToolInput event) else []) in
      if ms = [] then (db, Inr no_output)
      else append_gross_measurements E q L cfg now
             \<lparr>go_CallID = he_ToolUseID event, go_SessionID = hook_session event, go_TurnID = he_TurnID event,
              go_ToolName = he_ToolName event, go_AgentType = agentType, go_Source = source, go_Origin = ''post_tool_use'',
              go_ObservedAt = now, go_Measurements = ms\<rparr> db)"

section \<open>The notice calls of the agent itself\<close>

definition base_url :: string where "base_url = ''http://127.0.0.1:3333''"

definition notice_url :: string where "notice_url = base_url @ ''/api/v1/activity/notice''"

definition activity_header_name :: string where "activity_header_name = ''X-Gesta-Activity-ID''"

definition quote_char :: string where "quote_char = [CHR 0x27]"

definition activity_notice_command_pattern :: re where
  "activity_notice_command_pattern =
     seqs [lit (''curl -fsS --max-time 2 -X POST '' @ notice_url), lit ('' -H '' @ quote_char @ activity_header_name),
           lit '': activity_'', times_re 32 (Cls (\<lambda>r. is_digit r \<or> (0x61 \<le> r \<and> r \<le> 0x66))),
           lit (quote_char @ '' 2>/dev/null || true'')]"

definition embedded_activity_notice_command :: re where
  "embedded_activity_notice_command =
     seqs [Opt (Cls (\<lambda>r. r = 0x22 \<or> r = 0x27)), lit ''cmd'', Opt (Cls (\<lambda>r. r = 0x22 \<or> r = 0x27)), Many 0 (Cls is_re_space), lit '':'',
           Many 0 (Cls is_re_space), Cls (\<lambda>r. r = 0x22 \<or> r = 0x60), activity_notice_command_pattern, Cls (\<lambda>r. r = 0x22 \<or> r = 0x60)]"

definition is_internal_activity_notice_call :: "string \<Rightarrow> string \<Rightarrow> gval \<Rightarrow> bool" where
  "is_internal_activity_notice_call server tool arguments =
     (if trim_space server \<noteq> ''functions'' \<or> trim_space tool \<noteq> ''exec'' then False
      else case arguments of
             GMap values \<Rightarrow>
               (case map_of values ''cmd'' of
                  Some (GString command) \<Rightarrow> full_match activity_notice_command_pattern (trim_space command)
                | _ \<Rightarrow> False)
           | GString source \<Rightarrow> contains source ''tools.exec_command'' \<and> re_match embedded_activity_notice_command source
           | _ \<Rightarrow> False)"

section \<open>Codex turns\<close>

record codex_item =
  it_ID :: string
  it_Type :: string
  it_Status :: string
  it_Changes :: "file_change list"
  it_Server :: string
  it_Tool :: string
  it_Arguments :: gval

record codex_app_turn =
  ct_ID :: string
  ct_Status :: string
  ct_CompletedAt :: "int option"
  ct_Items :: "codex_item list"

text \<open>What an item of a turn wrote; \<open>None\<close> for items that are not reported.\<close>

definition item_observation :: "go_lib \<Rightarrow> classifier \<Rightarrow> string \<Rightarrow> string \<Rightarrow> time \<Rightarrow> codex_item \<Rightarrow> gross_observation option" where
  "item_observation L c sessionID turnID observedAt item =
     (let toolName = ''mcp__'' @ trim_space (it_Server item) @ ''__'' @ trim_space (it_Tool item);
          ob = \<lparr>go_CallID = it_ID item, go_SessionID = sessionID, go_TurnID = turnID, go_ToolName = ''fileChange'', go_AgentType = ''codex'',
                go_Source = ''codex'', go_Origin = ''thread_read_file_change'', go_ObservedAt = observedAt,
                go_Measurements = measure_codex_file_changes L c (it_Changes item)\<rparr>
      in if it_Status item \<noteq> ''completed'' then None
         else if it_Type item = ''fileChange'' then Some ob
         else if it_Type item = ''mcpToolCall'' \<and> \<not> is_internal_activity_notice_call (it_Server item) (it_Tool item) (it_Arguments item)
         then Some (ob\<lparr>go_ToolName := toolName, go_Origin := ''thread_read_mcp_reconciliation'',
                       go_Measurements := measure_codex_mcp L c toolName (it_Arguments item)\<rparr>)
         else None)"

text \<open>The items in their order, up to the first that cannot be queued; \<open>q n\<close> is the queue of the \<open>n\<close>th.\<close>

fun record_items ::
  "'b queue_env \<Rightarrow> (nat \<Rightarrow> queue) \<Rightarrow> go_lib \<Rightarrow> config \<Rightarrow> classifier \<Rightarrow> string \<Rightarrow> string \<Rightarrow> time \<Rightarrow> nat \<Rightarrow> codex_item list \<Rightarrow> 'b db \<Rightarrow> output_summary
    \<Rightarrow> 'b db \<times> output_summary \<times> queue_error option" where
  "record_items E q L cfg c sessionID turnID observedAt n [] db output = (db, output, None)"
| "record_items E q L cfg c sessionID turnID observedAt n (item # items) db output =
     (case item_observation L c sessionID turnID observedAt item of
        None \<Rightarrow> record_items E q L cfg c sessionID turnID observedAt (n + 1) items db output
      | Some ob \<Rightarrow>
          (case append_gross_measurements E (q n) L cfg observedAt ob db of
             (db', Inl err) \<Rightarrow> (db', output, Some err)
           | (db', Inr out) \<Rightarrow> record_items E q L cfg c sessionID turnID observedAt (n + 1) items db' (output_add output out)))"

datatype codex_turn_error = TurnUnreadable string | TurnNotQueued queue_error

definition nanos_of_unix :: "int \<Rightarrow> time" where
  "nanos_of_unix seconds = seconds * nanos_per_second"

definition record_codex_turn ::
  "'b queue_env \<Rightarrow> (nat \<Rightarrow> queue) \<Rightarrow> go_lib \<Rightarrow> config \<Rightarrow> classifier \<Rightarrow> (string \<Rightarrow> string \<Rightarrow> string + codex_app_turn) \<Rightarrow> time \<Rightarrow> hook_event \<Rightarrow> 'b db
    \<Rightarrow> 'b db \<times> output_summary \<times> codex_turn_error option" where
  "record_codex_turn E q L cfg c read_turn now event db =
     (let sessionID = hook_session event; turnID = trim_space (he_TurnID event) in
      if trim_space sessionID = [] \<or> turnID = [] then (db, no_output, None)
      else case read_turn sessionID turnID of
             Inl err \<Rightarrow> (db, no_output, Some (TurnUnreadable err))
           | Inr turn \<Rightarrow>
               (let observedAt = (case ct_CompletedAt turn of Some t \<Rightarrow> if t > 0 then nanos_of_unix t else now | None \<Rightarrow> now);
                    (db', output, err) = record_items E q L cfg c sessionID turnID observedAt 0 (ct_Items turn) db no_output
                in (db', output, map_option TurnNotQueued err)))"

end
