(* ===== verification/Prompt_Provenance.thy ===== *)
theory Prompt_Provenance
  imports Gross_Output
begin

text \<open>
  \<open>pkg/agent/user_prompt_provenance.go\<close>: whether a prompt that a Codex hook reports belongs to the
  active turn of its rollout. Decoding a line of the rollout is an argument.
\<close>

definition codex_prompt_provenance_tail_bytes :: int where
  "codex_prompt_provenance_tail_bytes = 8 * 1024 * 1024"

datatype provenance_error =
    MissingTranscriptPath
  | MissingTurnID
  | TranscriptUnreadable
  | TranscriptLineTooLong
  | CodexTurnNotActive
  | CodexPromptMismatch

record codex_transcript_record =
  xr_Type :: string
  xr_PayloadType :: string
  xr_TurnID :: string
  xr_Message :: string

record codex_prompt_state =
  ps_turnFound :: bool
  ps_turnComplete :: bool
  ps_turnSuperseded :: bool
  ps_canonicalPromptSeen :: bool
  ps_canonicalPromptMatched :: bool

definition no_prompt_state :: codex_prompt_state where
  "no_prompt_state =
     \<lparr>ps_turnFound = False, ps_turnComplete = False, ps_turnSuperseded = False, ps_canonicalPromptSeen = False, ps_canonicalPromptMatched = False\<rparr>"

definition normalize_prompt_for_comparison :: "string \<Rightarrow> string" where
  "normalize_prompt_for_comparison value = trim_space (replace_all value crlf line_feed)"

definition codex_transcript_turn_start :: "codex_transcript_record \<Rightarrow> bool" where
  "codex_transcript_turn_start r \<longleftrightarrow>
     xr_Type r = ''turn_context'' \<or> (xr_Type r = ''event_msg'' \<and> xr_PayloadType r = ''task_started'')"

text \<open>The end of the file, from the first whole line in its last \<open>limit\<close> bytes.\<close>

definition read_recent_transcript :: "int \<Rightarrow> string \<Rightarrow> string" where
  "read_recent_transcript limit content =
     (if int (length content) > limit
      then (let data = drop (nat (int (length content) - limit)) content in
            case index_of data line_feed of Some i \<Rightarrow> drop (i + 1) data | None \<Rightarrow> [])
      else content)"

text \<open>One record of the rollout.\<close>

definition prompt_step :: "string \<Rightarrow> string \<Rightarrow> codex_prompt_state \<Rightarrow> codex_transcript_record \<Rightarrow> codex_prompt_state" where
  "prompt_step turnID wanted st r =
     (if codex_transcript_turn_start r \<and> xr_TurnID r = turnID then st\<lparr>ps_turnFound := True\<rparr>
      else
        let st1 = (if codex_transcript_turn_start r \<and> ps_turnFound st then st\<lparr>ps_turnSuperseded := True\<rparr> else st) in
        if \<not> ps_turnFound st1 then st1
        else if ps_turnSuperseded st1 then st1
        else if xr_Type r = ''event_msg'' \<and> xr_PayloadType r = ''task_complete'' \<and> xr_TurnID r = turnID
        then st1\<lparr>ps_turnComplete := True\<rparr>
        else if xr_Type r = ''event_msg'' \<and> xr_PayloadType r = ''user_message''
        then st1\<lparr>ps_canonicalPromptSeen := True,
                 ps_canonicalPromptMatched := ps_canonicalPromptMatched st1 \<or> normalize_prompt_for_comparison (xr_Message r) = wanted\<rparr>
        else st1)"

definition scan_codex_user_prompt ::
  "(string \<Rightarrow> codex_transcript_record option) \<Rightarrow> string \<Rightarrow> string \<Rightarrow> string \<Rightarrow> provenance_error + codex_prompt_state" where
  "scan_codex_user_prompt decode data turnID userPrompt =
     (let (ls, complete) = scan_text codex_prompt_provenance_tail_bytes data in
      if complete
      then Inr (foldl (prompt_step turnID (normalize_prompt_for_comparison userPrompt)) no_prompt_state (List.map_filter decode ls))
      else Inl TranscriptLineTooLong)"

definition codex_transcript_prompt_state ::
  "(string \<Rightarrow> codex_transcript_record option) \<Rightarrow> string option \<Rightarrow> string \<Rightarrow> string \<Rightarrow> provenance_error + codex_prompt_state" where
  "codex_transcript_prompt_state decode file turnID userPrompt =
     (case file of
        None \<Rightarrow> Inl TranscriptUnreadable
      | Some content \<Rightarrow> scan_codex_user_prompt decode (read_recent_transcript codex_prompt_provenance_tail_bytes content) turnID userPrompt)"

text \<open>\<open>None\<close> accepts the prompt; \<open>files\<close> reads a path.\<close>

definition verify_user_prompt_submission ::
  "(string \<Rightarrow> codex_transcript_record option) \<Rightarrow> (string \<Rightarrow> string option) \<Rightarrow> hook_event \<Rightarrow> string \<Rightarrow> string \<Rightarrow> provenance_error option" where
  "verify_user_prompt_submission decode files event agentType userPrompt =
     (if \<not> equal_fold (trim_space agentType) ''codex'' then None
      else if trim_space (he_TranscriptPath event) = [] then Some MissingTranscriptPath
      else if trim_space (he_TurnID event) = [] then Some MissingTurnID
      else case codex_transcript_prompt_state decode (files (he_TranscriptPath event)) (he_TurnID event) userPrompt of
             Inl err \<Rightarrow> Some err
           | Inr st \<Rightarrow>
               if \<not> ps_turnFound st \<or> ps_turnComplete st \<or> ps_turnSuperseded st then Some CodexTurnNotActive
               else if ps_canonicalPromptSeen st \<and> \<not> ps_canonicalPromptMatched st then Some CodexPromptMismatch
               else None)"

section \<open>Which prompts are accepted\<close>

text \<open>What the records of a rollout say about a turn, without the scanner's state.\<close>

definition starts_turn :: "string \<Rightarrow> codex_transcript_record \<Rightarrow> bool" where
  "starts_turn turnID r \<longleftrightarrow> codex_transcript_turn_start r \<and> xr_TurnID r = turnID"

definition records_of_turn :: "string \<Rightarrow> codex_transcript_record list \<Rightarrow> codex_transcript_record list" where
  "records_of_turn turnID rs = dropWhile (\<lambda>r. \<not> starts_turn turnID r) rs"

definition completes_turn :: "string \<Rightarrow> codex_transcript_record \<Rightarrow> bool" where
  "completes_turn turnID r \<longleftrightarrow> xr_Type r = ''event_msg'' \<and> xr_PayloadType r = ''task_complete'' \<and> xr_TurnID r = turnID"

definition canonical_message :: "codex_transcript_record \<Rightarrow> bool" where
  "canonical_message r \<longleftrightarrow> xr_Type r = ''event_msg'' \<and> xr_PayloadType r = ''user_message''"

definition turn_is_active :: "string \<Rightarrow> codex_transcript_record list \<Rightarrow> bool" where
  "turn_is_active turnID rs \<longleftrightarrow>
     records_of_turn turnID rs \<noteq> [] \<and> (\<forall>r\<in>set (records_of_turn turnID rs). \<not> completes_turn turnID r)
     \<and> (\<forall>r\<in>set (records_of_turn turnID rs). codex_transcript_turn_start r \<longrightarrow> xr_TurnID r = turnID)"

definition prompt_is_canonical :: "string \<Rightarrow> string \<Rightarrow> codex_transcript_record list \<Rightarrow> bool" where
  "prompt_is_canonical turnID prompt rs \<longleftrightarrow>
     (\<forall>r\<in>set (records_of_turn turnID rs). \<not> canonical_message r)
     \<or> (\<exists>r\<in>set (records_of_turn turnID rs). canonical_message r \<and> normalize_prompt_for_comparison (xr_Message r) = normalize_prompt_for_comparison prompt)"

lemma turn_start_kinds:
  assumes "codex_transcript_turn_start r"
  shows "\<not> completes_turn turnID r" and "\<not> canonical_message r"
  using assms by (auto simp: codex_transcript_turn_start_def completes_turn_def canonical_message_def)

lemma prompt_step_kinds:
  "ps_turnFound st \<Longrightarrow> ps_turnSuperseded st \<Longrightarrow> prompt_step turnID wanted st r = st"
  "\<not> ps_turnFound st \<Longrightarrow> prompt_step turnID wanted st r = (if starts_turn turnID r then st\<lparr>ps_turnFound := True\<rparr> else st)"
  "ps_turnFound st \<Longrightarrow> \<not> ps_turnSuperseded st \<Longrightarrow> prompt_step turnID wanted st r =
     (if codex_transcript_turn_start r then (if xr_TurnID r = turnID then st else st\<lparr>ps_turnSuperseded := True\<rparr>)
      else if completes_turn turnID r then st\<lparr>ps_turnComplete := True\<rparr>
      else if canonical_message r
      then st\<lparr>ps_canonicalPromptSeen := True,
              ps_canonicalPromptMatched := ps_canonicalPromptMatched st \<or> normalize_prompt_for_comparison (xr_Message r) = wanted\<rparr>
      else st)"
  by (cases st; auto simp: prompt_step_def starts_turn_def completes_turn_def canonical_message_def Let_def)+

lemma superseded_stays:
  "ps_turnFound st \<Longrightarrow> ps_turnSuperseded st \<Longrightarrow> foldl (prompt_step turnID wanted) st rs = st"
  by (induction rs) (simp_all add: prompt_step_kinds)

lemma scan_before_turn:
  assumes "\<not> ps_turnFound st" and "\<forall>r\<in>set rs. \<not> starts_turn turnID r"
  shows "foldl (prompt_step turnID wanted) st rs = st"
  using assms by (induction rs) (simp_all add: prompt_step_kinds)

text \<open>The scan of the records of a turn that was found.\<close>

lemma scan_in_turn:
  assumes "ps_turnFound st" and "\<not> ps_turnSuperseded st" and "st' = foldl (prompt_step turnID wanted) st rs"
  shows "ps_turnFound st' \<and> (ps_turnSuperseded st' \<longleftrightarrow> (\<exists>r\<in>set rs. codex_transcript_turn_start r \<and> xr_TurnID r \<noteq> turnID))
    \<and> (\<not> ps_turnSuperseded st' \<longrightarrow>
         (ps_turnComplete st' \<longleftrightarrow> ps_turnComplete st \<or> (\<exists>r\<in>set rs. completes_turn turnID r))
         \<and> (ps_canonicalPromptSeen st' \<longleftrightarrow> ps_canonicalPromptSeen st \<or> (\<exists>r\<in>set rs. canonical_message r))
         \<and> (ps_canonicalPromptMatched st' \<longleftrightarrow> ps_canonicalPromptMatched st
              \<or> (\<exists>r\<in>set rs. canonical_message r \<and> normalize_prompt_for_comparison (xr_Message r) = wanted)))"
  using assms
proof (induction rs arbitrary: st)
  case Nil
  then show ?case by simp
next
  case (Cons r rs)
  note step = prompt_step_kinds(3) [OF Cons.prems(1,2), of turnID wanted r]
  show ?case
  proof (cases "codex_transcript_turn_start r \<and> xr_TurnID r \<noteq> turnID")
    case True
    then have "prompt_step turnID wanted st r = st\<lparr>ps_turnSuperseded := True\<rparr>" using step by simp
    then have "st' = st\<lparr>ps_turnSuperseded := True\<rparr>"
      using Cons.prems superseded_stays [of "st\<lparr>ps_turnSuperseded := True\<rparr>"] by simp
    then show ?thesis using True Cons.prems(1) by auto
  next
    case False
    let ?st = "prompt_step turnID wanted st r"
    have flags: "ps_turnFound ?st" "\<not> ps_turnSuperseded ?st"
      "ps_turnComplete ?st \<longleftrightarrow> ps_turnComplete st \<or> completes_turn turnID r"
      "ps_canonicalPromptSeen ?st \<longleftrightarrow> ps_canonicalPromptSeen st \<or> canonical_message r"
      "ps_canonicalPromptMatched ?st \<longleftrightarrow> ps_canonicalPromptMatched st \<or> (canonical_message r \<and> normalize_prompt_for_comparison (xr_Message r) = wanted)"
      using False Cons.prems(1,2) step turn_start_kinds(1) [of r turnID] turn_start_kinds(2) [of r]
      by (auto simp: completes_turn_def canonical_message_def split: if_splits)
    from Cons.prems(3) have "st' = foldl (prompt_step turnID wanted) ?st rs" by simp
    from Cons.IH [OF flags(1,2) this] flags(3-5) False show ?thesis by (simp only: list.set ball_simps bex_simps) blast
  qed
qed

text \<open>
  C36: A Codex prompt is accepted exactly when it belongs to the active turn of its rollout: in what is read
  of the rollout the turn was started, was not completed, no other turn started after it, and the user
  messages recorded for it, when there are any, include the prompt up to line ends and surrounding spaces.
\<close>

theorem codex_prompt_accepted_iff:
  assumes "equal_fold (trim_space agentType) ''codex''" and "trim_space (he_TranscriptPath event) \<noteq> []" and "trim_space (he_TurnID event) \<noteq> []"
    and "files (he_TranscriptPath event) = Some content"
    and "scan_text codex_prompt_provenance_tail_bytes (read_recent_transcript codex_prompt_provenance_tail_bytes content) = (ls, True)"
  shows "verify_user_prompt_submission decode files event agentType prompt = None
    \<longleftrightarrow> turn_is_active (he_TurnID event) (List.map_filter decode ls) \<and> prompt_is_canonical (he_TurnID event) prompt (List.map_filter decode ls)"
proof -
  let ?id = "he_TurnID event"
  let ?rs = "List.map_filter decode ls"
  let ?wanted = "normalize_prompt_for_comparison prompt"
  let ?before = "takeWhile (\<lambda>r. \<not> starts_turn ?id r) ?rs"
  define st where "st = foldl (prompt_step ?id ?wanted) no_prompt_state ?rs"
  have run: "verify_user_prompt_submission decode files event agentType prompt = None
    \<longleftrightarrow> ps_turnFound st \<and> \<not> ps_turnComplete st \<and> \<not> ps_turnSuperseded st \<and> (ps_canonicalPromptSeen st \<longrightarrow> ps_canonicalPromptMatched st)"
    using assms by (auto simp: verify_user_prompt_submission_def codex_transcript_prompt_state_def scan_codex_user_prompt_def st_def)
  have "?rs = ?before @ records_of_turn ?id ?rs" by (simp add: records_of_turn_def)
  moreover have "foldl (prompt_step ?id ?wanted) no_prompt_state ?before = no_prompt_state"
    by (rule scan_before_turn) (auto simp: no_prompt_state_def dest: set_takeWhileD)
  ultimately have st: "st = foldl (prompt_step ?id ?wanted) no_prompt_state (records_of_turn ?id ?rs)"
    unfolding st_def by (metis foldl_append)
  show ?thesis
  proof (cases "records_of_turn ?id ?rs")
    case Nil
    then show ?thesis using run st by (simp add: turn_is_active_def no_prompt_state_def)
  next
    case (Cons r rs)
    then have r: "starts_turn ?id r" unfolding records_of_turn_def by (metis dropWhile_eq_Cons_conv)
    let ?found = "no_prompt_state\<lparr>ps_turnFound := True\<rparr>"
    have "st = foldl (prompt_step ?id ?wanted) ?found rs"
      using st r by (simp add: Cons prompt_step_kinds(2) no_prompt_state_def)
    from scan_in_turn [OF _ _ this] have after: "ps_turnFound st"
      "ps_turnSuperseded st \<longleftrightarrow> (\<exists>r\<in>set rs. codex_transcript_turn_start r \<and> xr_TurnID r \<noteq> ?id)"
      "\<not> ps_turnSuperseded st \<Longrightarrow> ps_turnComplete st \<longleftrightarrow> (\<exists>r\<in>set rs. completes_turn ?id r)"
      "\<not> ps_turnSuperseded st \<Longrightarrow> ps_canonicalPromptSeen st \<longleftrightarrow> (\<exists>r\<in>set rs. canonical_message r)"
      "\<not> ps_turnSuperseded st \<Longrightarrow> ps_canonicalPromptMatched st \<longleftrightarrow> (\<exists>r\<in>set rs. canonical_message r \<and> normalize_prompt_for_comparison (xr_Message r) = ?wanted)"
      by (simp_all add: no_prompt_state_def)
    have "\<not> completes_turn ?id r" "\<not> canonical_message r" "xr_TurnID r = ?id"
      using r turn_start_kinds by (auto simp: starts_turn_def)
    then show ?thesis using run after unfolding turn_is_active_def prompt_is_canonical_def Cons list.set by blast
  qed
qed

definition rollout0 :: string where "rollout0 = ''s'' @ line_feed @ ''m'' @ line_feed"

definition decode_line0 :: "string \<Rightarrow> codex_transcript_record option" where
  "decode_line0 l =
     (if l = ''s'' then Some \<lparr>xr_Type = ''turn_context'', xr_PayloadType = [], xr_TurnID = ''t'', xr_Message = []\<rparr>
      else if l = ''m'' then Some \<lparr>xr_Type = ''event_msg'', xr_PayloadType = ''user_message'', xr_TurnID = [], xr_Message = ''hi''\<rparr>
      else None)"

definition prompt_event0 :: hook_event where
  "prompt_event0 =
     \<lparr>he_HookEventName = ''UserPromptSubmit'', he_Prompt = '' hi'', he_ToolName = [], he_ToolInput = GNil, he_ToolUseID = [], he_SessionID = ''s'',
      he_ConversationID = [], he_TurnID = ''t'', he_CWD = [], he_Model = [], he_TranscriptPath = ''/r'', he_ActivityID = [], he_PermissionMode = []\<rparr>"

theorem codex_prompt_accepted_iff_witness:
  "verify_user_prompt_submission decode_line0 [''/r'' \<mapsto> rollout0] prompt_event0 ''codex'' '' hi'' = None
    \<and> verify_user_prompt_submission decode_line0 [''/r'' \<mapsto> rollout0] prompt_event0 ''codex'' ''no'' \<noteq> None"
proof -
  have agent: "equal_fold (trim_space ''codex'') ''codex''" by code_simp
  have event: "trim_space (he_TranscriptPath prompt_event0) \<noteq> []" "trim_space (he_TurnID prompt_event0) \<noteq> []" by code_simp+
  have content: "[''/r'' \<mapsto> rollout0] (he_TranscriptPath prompt_event0) = Some rollout0" by (simp add: prompt_event0_def)
  have scan: "scan_text codex_prompt_provenance_tail_bytes (read_recent_transcript codex_prompt_provenance_tail_bytes rollout0) = ([''s'', ''m''], True)"
    by code_simp
  have "turn_is_active (he_TurnID prompt_event0) (List.map_filter decode_line0 [''s'', ''m''])"
    "prompt_is_canonical (he_TurnID prompt_event0) '' hi'' (List.map_filter decode_line0 [''s'', ''m''])"
    "\<not> prompt_is_canonical (he_TurnID prompt_event0) ''no'' (List.map_filter decode_line0 [''s'', ''m''])" by code_simp+
  with codex_prompt_accepted_iff [where files = "[''/r'' \<mapsto> rollout0]", OF agent event content scan] show ?thesis by blast
qed

end
