(* ===== verification/Daily_Recap.thy ===== *)
theory Daily_Recap
  imports Config
begin

text \<open>
  \<open>pkg/agent/daily_recap_notice.go\<close>: a notice that is shown with the first prompt of the evening of
  each day. The clock, \<open>url.Parse\<close> with \<open>Hostname\<close>, the JSON codec of the state file and what the file
  system refuses are a record.
\<close>

definition daily_recap_notice_hour :: int where "daily_recap_notice_hour = 17"
definition daily_recap_notice_schema_version :: int where "daily_recap_notice_schema_version = 1"
definition max_daily_recap_notice_state_bytes :: int where "max_daily_recap_notice_state_bytes = 4 * 1024"
definition production_api_host :: string where "production_api_host = ''api.gesta.run''"
definition production_recap_url :: string where "production_recap_url = ''https://console.gesta.run/#my-recap''"
definition preproduction_recap_url :: string where "preproduction_recap_url = ''https://pre-console.gesta.run/#my-recap''"

record daily_recap_notice_state =
  dr_SchemaVersion :: int
  dr_LastShownDate :: string

text \<open>\<open>rp_lock\<close>, \<open>rp_readable\<close> and \<open>rp_writable\<close> say whether these steps work.\<close>

record recap_env =
  rp_hour :: int
  rp_today :: string
  rp_lock :: bool
  rp_readable :: bool
  rp_writable :: bool
  rp_decode :: "string \<Rightarrow> daily_recap_notice_state option"
  rp_encode :: "daily_recap_notice_state \<Rightarrow> string"
  rp_hostname :: "string \<Rightarrow> string option"

datatype recap_error =
    RecapLock
  | RecapUnreadable
  | RecapSize int
  | RecapUndecodable
  | RecapVersion int
  | RecapNotWritten

definition load_daily_recap_notice_state :: "recap_env \<Rightarrow> string option \<Rightarrow> recap_error + daily_recap_notice_state" where
  "load_daily_recap_notice_state R saved =
     (case saved of
        None \<Rightarrow> Inr \<lparr>dr_SchemaVersion = 0, dr_LastShownDate = []\<rparr>
      | Some data \<Rightarrow>
          if \<not> rp_readable R then Inl RecapUnreadable
          else if data = [] \<or> int (length data) > max_daily_recap_notice_state_bytes then Inl (RecapSize (int (length data)))
          else case rp_decode R data of
                 None \<Rightarrow> Inl RecapUndecodable
               | Some st \<Rightarrow>
                   if dr_SchemaVersion st \<noteq> daily_recap_notice_schema_version then Inl (RecapVersion (dr_SchemaVersion st)) else Inr st)"

definition claim_daily_recap_notice :: "recap_env \<Rightarrow> string \<Rightarrow> string option \<Rightarrow> string option \<times> (recap_error + bool)" where
  "claim_daily_recap_notice R dataDir saved =
     (if trim_space dataDir = [] then (saved, Inr False)
      else if \<not> rp_lock R then (saved, Inl RecapLock)
      else case load_daily_recap_notice_state R saved of
             Inl err \<Rightarrow> (saved, Inl err)
           | Inr st \<Rightarrow>
               if dr_LastShownDate st = rp_today R then (saved, Inr False)
               else if \<not> rp_writable R then (saved, Inl RecapNotWritten)
               else (Some (rp_encode R \<lparr>dr_SchemaVersion = daily_recap_notice_schema_version, dr_LastShownDate = rp_today R\<rparr>), Inr True))"

definition console_recap_url :: "recap_env \<Rightarrow> string \<Rightarrow> string \<times> string" where
  "console_recap_url R controlURL =
     (case rp_hostname R (trim_space controlURL) of
        None \<Rightarrow> (preproduction_recap_url, '' (Pre)'')
      | Some host \<Rightarrow> if equal_fold host production_api_host then (production_recap_url, []) else (preproduction_recap_url, '' (Pre)''))"

text \<open>A middle dot and an arrow, in UTF-8.\<close>

definition middle_dot :: string where "middle_dot = [CHR 0xC2, CHR 0xB7]"
definition right_arrow :: string where "right_arrow = [CHR 0xE2, CHR 0x86, CHR 0x92]"

definition recap_message :: "string \<Rightarrow> string \<Rightarrow> string" where
  "recap_message environment url =
     ''Gesta recap'' @ environment @ '' '' @ middle_dot @ '' Your work recap is ready '' @ middle_dot @ '' [Review your day '' @ right_arrow
     @ '']('' @ url @ '')''"

definition daily_recap_notice_best_effort :: "recap_env \<Rightarrow> config \<Rightarrow> string option \<Rightarrow> string option \<times> string" where
  "daily_recap_notice_best_effort R cfg saved =
     (if rp_hour R < daily_recap_notice_hour then (saved, [])
      else case claim_daily_recap_notice R (cfg_DataDir cfg) saved of
             (saved', Inr True) \<Rightarrow> (let (url, environment) = console_recap_url R (effective_server_url cfg) in (saved', recap_message environment url))
           | (saved', _) \<Rightarrow> (saved', []))"

section \<open>Once a day\<close>

text \<open>The notices of a sequence of prompts.\<close>

fun recap_run :: "config \<Rightarrow> recap_env list \<Rightarrow> string option \<Rightarrow> string list" where
  "recap_run cfg [] saved = []"
| "recap_run cfg (R # Rs) saved = (let (saved', m) = daily_recap_notice_best_effort R cfg saved in m # recap_run cfg Rs saved')"

text \<open>The mark of a day, and that the codec gives it back.\<close>

definition day_mark :: "recap_env \<Rightarrow> daily_recap_notice_state" where
  "day_mark R = \<lparr>dr_SchemaVersion = daily_recap_notice_schema_version, dr_LastShownDate = rp_today R\<rparr>"

definition recap_codec :: "recap_env \<Rightarrow> bool" where
  "recap_codec R \<longleftrightarrow>
     int (length (rp_encode R (day_mark R))) \<le> max_daily_recap_notice_state_bytes \<and> rp_encode R (day_mark R) \<noteq> []
     \<and> rp_decode R (rp_encode R (day_mark R)) = Some (day_mark R)"

definition shown_today :: "recap_env \<Rightarrow> string option" where
  "shown_today R = Some (rp_encode R (day_mark R))"

lemma claimed_marks_day:
  assumes "daily_recap_notice_best_effort R cfg saved = (saved', m)"
  shows "saved' = saved \<and> m = [] \<or> saved' = shown_today R"
  using assms
  by (auto simp: daily_recap_notice_best_effort_def claim_daily_recap_notice_def shown_today_def day_mark_def Let_def
      split: if_splits prod.splits sum.splits bool.splits)

lemma not_shown_twice:
  assumes "recap_codec R" and "daily_recap_notice_best_effort R cfg (shown_today R) = (saved', m)"
  shows "saved' = shown_today R \<and> m = []"
  using assms
  by (auto simp: daily_recap_notice_best_effort_def claim_daily_recap_notice_def load_daily_recap_notice_state_def shown_today_def
      recap_codec_def day_mark_def split: if_splits)

lemma shown_stays_shown:
  assumes "\<forall>R\<in>set Rs. recap_codec R \<and> rp_encode R = encode \<and> rp_today R = today" and "saved = shown_today R0"
    and "rp_encode R0 = encode" and "rp_today R0 = today"
  shows "\<forall>m\<in>set (recap_run cfg Rs saved). m = []"
  using assms
proof (induction Rs arbitrary: saved)
  case (Cons R Rs)
  then have "saved = shown_today R" by (simp add: shown_today_def day_mark_def)
  moreover obtain saved' m where step: "daily_recap_notice_best_effort R cfg saved = (saved', m)" by fastforce
  ultimately have "saved' = saved" "m = []" using not_shown_twice [of R cfg saved' m] Cons.prems(1) by auto
  then show ?case using Cons step by simp
qed simp

text \<open>
  The recap notice is shown at most once a day: over any sequence of prompts of one day, whatever the
  state file was before and whatever fails in between, at most one of them shows it, and none before 17
  o'clock.
\<close>

theorem recap_shown_once_a_day:
  assumes "\<forall>R\<in>set Rs. recap_codec R \<and> rp_encode R = encode \<and> rp_today R = today"
  shows "length (filter (\<lambda>m. m \<noteq> []) (recap_run cfg Rs saved)) \<le> 1
    \<and> (\<forall>(R, m)\<in>set (zip Rs (recap_run cfg Rs saved)). rp_hour R < daily_recap_notice_hour \<longrightarrow> m = [])"
  using assms
proof (induction Rs arbitrary: saved)
  case (Cons R Rs)
  obtain saved' m where step: "daily_recap_notice_best_effort R cfg saved = (saved', m)" by fastforce
  have early: "rp_hour R < daily_recap_notice_hour \<longrightarrow> m = []" using step by (auto simp: daily_recap_notice_best_effort_def)
  have "\<forall>R\<in>set Rs. recap_codec R \<and> rp_encode R = encode \<and> rp_today R = today" using Cons.prems by simp
  note rest = Cons.IH [OF this, of saved'] shown_stays_shown [OF this, of saved' R cfg]
  from claimed_marks_day [OF step] show ?case
  proof
    assume "saved' = saved \<and> m = []"
    then show ?thesis using step rest(1) by auto
  next
    assume "saved' = shown_today R"
    then have "\<forall>m\<in>set (recap_run cfg Rs saved'). m = []" using rest(2) Cons.prems by simp
    then have "filter (\<lambda>m. m \<noteq> []) (recap_run cfg Rs saved') = []" by (simp add: filter_empty_conv)
    then show ?thesis using step rest(1) early by auto
  qed
qed simp

definition recap_env0 :: recap_env where
  "recap_env0 =
     \<lparr>rp_hour = 18, rp_today = ''d'', rp_lock = True, rp_readable = True, rp_writable = True,
      rp_decode = (\<lambda>data. Some \<lparr>dr_SchemaVersion = 1, dr_LastShownDate = data\<rparr>), rp_encode = dr_LastShownDate, rp_hostname = (\<lambda>url. None)\<rparr>"

definition recap_config0 :: config where
  "recap_config0 = new_runtime_config ''d'' ''/data'' []"

theorem recap_shown_once_a_day_witness:
  "length (filter (\<lambda>m. m \<noteq> []) (recap_run recap_config0 [recap_env0, recap_env0\<lparr>rp_hour := 19\<rparr>] None)) = 1"
proof -
  have "\<forall>R\<in>set [recap_env0, recap_env0\<lparr>rp_hour := 19\<rparr>]. recap_codec R \<and> rp_encode R = dr_LastShownDate \<and> rp_today R = ''d''"
    by (simp add: recap_codec_def day_mark_def recap_env0_def max_daily_recap_notice_state_bytes_def daily_recap_notice_schema_version_def)
  from recap_shown_once_a_day [OF this, of recap_config0 None]
  have "length (filter (\<lambda>m. m \<noteq> []) (recap_run recap_config0 [recap_env0, recap_env0\<lparr>rp_hour := 19\<rparr>] None)) \<le> 1" by blast
  moreover have "hd (recap_run recap_config0 [recap_env0, recap_env0\<lparr>rp_hour := 19\<rparr>] None) \<noteq> []" by code_simp
  ultimately show ?thesis
    by (cases "recap_run recap_config0 [recap_env0, recap_env0\<lparr>rp_hour := 19\<rparr>] None") (auto simp: Let_def split: prod.splits)
qed

end
