(* ===== verification/Go_Float.thy ===== *)
theory Go_Float
  imports Complex_Main
begin

text \<open>
  The arithmetic of Go's \<open>float64\<close> on rational numbers: every result is the exact one rounded to
  53 significant bits, ties to even. Numbers so large or so small that the range of the exponent
  matters do not come up in the code that uses it.
\<close>

function bit_count :: "int \<Rightarrow> int" where
  "bit_count n = (if n \<le> 0 then 0 else 1 + bit_count (n div 2))"
  by pat_completeness auto
termination
  by (relation "measure nat") auto

declare bit_count.simps [simp del, code del]

lemma bit_count_code [code]: "bit_count n = (if n \<le> 0 then 0 else 1 + bit_count (n div 2))"
  by (rule bit_count.simps)

definition pow2 :: "int \<Rightarrow> rat" where
  "pow2 e = (if e \<ge> 0 then 2 ^ nat e else 1 / 2 ^ nat (- e))"

text \<open>The exponent of the last of the 53 bits.\<close>

definition last_exponent :: "rat \<Rightarrow> int" where
  "last_exponent x =
     (let (n, d) = quotient_of \<bar>x\<bar>; e = bit_count n - bit_count d
      in (if \<bar>x\<bar> \<ge> pow2 e then e else e - 1) - 52)"

definition round_half_even :: "rat \<Rightarrow> int" where
  "round_half_even x =
     (let f = \<lfloor>x\<rfloor>; r = x - of_int f in
      if r < 1 / 2 then f else if r > 1 / 2 then f + 1 else if even f then f else f + 1)"

definition float64 :: "rat \<Rightarrow> rat" where
  "float64 x = (if x = 0 then 0 else let e = last_exponent x in of_int (round_half_even (x / pow2 e)) * pow2 e)"

definition fadd :: "rat \<Rightarrow> rat \<Rightarrow> rat" where
  "fadd a b = float64 (a + b)"

definition fdiv :: "rat \<Rightarrow> rat \<Rightarrow> rat" where
  "fdiv a b = float64 (a / b)"

text \<open>A decimal literal with two digits.\<close>

definition hundredths :: "int \<Rightarrow> rat" where
  "hundredths n = float64 (of_int n / 100)"

end
