(* ===== verification/Smart_Secret.thy ===== *)
theory Smart_Secret
  imports Regex_Search Go_Float Model Redact "HOL-Library.Product_Lexorder"
begin

text \<open>
  \<open>pkg/privacy/smart_secret.go\<close>: texts that look like a secret by their length, entropy, character
  classes and context. The scores are \<open>float64\<close> numbers, added in the order of the code. The
  logarithm, the order in which a map is ranged over and the step of the entropy sum, which a
  platform may fuse, are a record of functions.
\<close>

record sensitive_rule =
  sr_RuleID :: string
  sr_Name :: string
  sr_Status :: string
  sr_Source :: string
  sr_DetectorType :: string
  sr_Pattern :: string
  sr_Category :: string
  sr_Severity :: string
  sr_Action :: string
  sr_SampleMode :: string
  sr_Confidence :: rat
  sr_Priority :: int

record entropy_lib =
  el_log2 :: "rat \<Rightarrow> rat"
  el_range :: "nat list \<Rightarrow> nat list"
  el_subtract_product :: "rat \<Rightarrow> rat \<Rightarrow> rat \<Rightarrow> rat"

section \<open>Patterns\<close>

definition secret_char :: "nat \<Rightarrow> bool" where
  "secret_char r \<longleftrightarrow> is_letter r \<or> is_digit r \<or> rune_in ''._~+/=-'' r"

definition dash :: re where "dash = Opt (Cls (rune_in ''_-''))"

definition secret_words :: "re list" where
  "secret_words =
     [seqs [ilit ''client'', dash, ilit ''secret''], seqs [ilit ''api'', dash, ilit ''key''], seqs [ilit ''access'', dash, ilit ''token''],
      seqs [ilit ''auth'', dash, ilit ''token''], seqs [ilit ''refresh'', dash, ilit ''token''], seqs [ilit ''id'', dash, ilit ''token''],
      ilit ''secret'', ilit ''password'', ilit ''passwd'', ilit ''credential'', ilit ''bearer'', ilit ''token'']"

text \<open>
  The assignment pattern, before and at its group. Case folding adds the two letters outside ASCII to
  the class of the group.
\<close>

definition assignment_prefix :: re where
  "assignment_prefix =
     seqs [Opt (seqs [ilit ''auth0'', dash]), alts secret_words, Many 0 (Cls is_re_space), Cls (rune_in '':=''), Many 0 (Cls is_re_space),
           Opt (Cls (\<lambda>r. r = 0x22 \<or> r = 0x27))]"

definition assignment_value :: re where
  "assignment_value = Many 16 (icls (\<lambda>r. is_lower r \<or> is_digit r \<or> rune_in ''._~+/=-'' r))"

definition candidate_pattern :: re where
  "candidate_pattern = Seq (Cls (\<lambda>r. is_letter r \<or> is_digit r)) (Many 15 (Cls secret_char))"

definition context_pattern :: re where
  "context_pattern = alts (ilit ''auth0'' # secret_words)"

definition jwt_part :: re where
  "jwt_part = Many 10 (Cls (\<lambda>r. is_letter r \<or> is_digit r \<or> rune_in ''_-'' r))"

definition jwt_pattern :: re where
  "jwt_pattern = seqs [jwt_part, lit ''.'', jwt_part, lit ''.'', jwt_part]"

definition hex_digits :: re where "hex_digits = icls (\<lambda>r. is_digit r \<or> (0x61 \<le> r \<and> r \<le> 0x66))"

definition secret_uuid_pattern :: re where
  "secret_uuid_pattern =
     seqs [times_re 8 hex_digits, lit ''-'', times_re 4 hex_digits, lit ''-'', icls (\<lambda>r. 0x31 \<le> r \<and> r \<le> 0x35), times_re 3 hex_digits,
           lit ''-'', icls (rune_in ''89ab''), times_re 3 hex_digits, lit ''-'', times_re 12 hex_digits]"

definition secret_hex_pattern :: re where "secret_hex_pattern = Many 1 hex_digits"

section \<open>Candidates\<close>

definition slice :: "string \<Rightarrow> nat \<Rightarrow> nat \<Rightarrow> string" where
  "slice s i j = take (j - i) (drop i s)"

text \<open>\<open>input[windowStart:windowEnd]\<close>: 96 bytes around a loc.\<close>

definition window :: "string \<Rightarrow> nat \<Rightarrow> nat \<Rightarrow> string" where
  "window input i j = slice input (i - 96) (min (j + 96) (length input))"

definition smart_secret_optional_pattern :: "go_lib \<Rightarrow> string \<Rightarrow> (string \<Rightarrow> (nat \<times> nat) list) option" where
  "smart_secret_optional_pattern L pattern = (if trim_space pattern = [] then None else regexp_compile L (trim_space pattern))"

definition smart_secret_pattern_matches_context :: "(string \<Rightarrow> (nat \<times> nat) list) \<Rightarrow> string \<Rightarrow> nat \<Rightarrow> nat \<Rightarrow> bool" where
  "smart_secret_pattern_matches_context m input i j \<longleftrightarrow> regexp_match m (slice input i j) \<or> regexp_match m (window input i j)"

definition opening_chars :: string where "opening_chars = [CHR 0x22, CHR 0x27, CHR 0x60] @ ''<([{''"

definition closing_chars :: string where "closing_chars = [CHR 0x22, CHR 0x27, CHR 0x60] @ ''.,;:>)]}''"

definition trim_smart_secret_candidate :: "string \<Rightarrow> nat \<Rightarrow> nat \<Rightarrow> (nat \<times> nat) option" where
  "trim_smart_secret_candidate input i j =
     (if j > length input \<or> j \<le> i then None
      else
        let value = slice input i j;
            i1 = (case last_index_of value ''='' of Some k \<Rightarrow> if k + 1 < length value then i + k + 1 else i | None \<Rightarrow> i);
            i2 = i1 + length (takeWhile (\<lambda>c. c \<in> set opening_chars) (slice input i1 j));
            rest = slice input i2 j
        in Some (i2, j - length (takeWhile (\<lambda>c. c \<in> set closing_chars) (rev rest))))"

definition smart_secret_looks_like_hostname :: "string \<Rightarrow> bool" where
  "smart_secret_looks_like_hostname value \<longleftrightarrow>
     value \<noteq> [] \<and> length value \<le> 253 \<and> contains value ''.'' \<and> trim_set value ''.'' = value
     \<and> list_all (\<lambda>part. part \<noteq> [] \<and> length part \<le> 63 \<and> list_all (\<lambda>r. is_letter r \<or> is_digit r \<or> r = 0x2D) (runes part)) (split value ''.'')"

definition smart_secret_looks_like_public_url_candidate :: "string \<Rightarrow> nat \<Rightarrow> nat \<Rightarrow> bool" where
  "smart_secret_looks_like_public_url_candidate input i j =
     (if j \<le> i \<or> j > length input then False
      else let value = slice input i j in
           case (index_of value ''/'', index_of value ''.'') of
             (Some firstSlash, Some firstDot) \<Rightarrow>
               (if firstSlash = 0 \<or> firstDot = 0 \<or> firstDot > firstSlash then False
                else smart_secret_looks_like_hostname (take firstSlash value))
           | _ \<Rightarrow> False)"

section \<open>Score\<close>

definition smart_secret_context_nearby :: "string \<Rightarrow> nat \<Rightarrow> nat \<Rightarrow> bool" where
  "smart_secret_context_nearby input i j \<longleftrightarrow> re_match context_pattern (window input i j)"

definition smart_secret_character_classes :: "string \<Rightarrow> nat" where
  "smart_secret_character_classes value =
     (let rs = runes value;
          symbol = (\<lambda>r. \<not> is_lower r \<and> \<not> is_upper r \<and> \<not> is_digit r \<and> rune_in ''._~+/=-'' r)
      in length (filter (\<lambda>present. present) [list_ex is_lower rs, list_ex is_upper rs, list_ex is_digit rs, list_ex symbol rs]))"

definition shannon_entropy :: "entropy_lib \<Rightarrow> string \<Rightarrow> rat" where
  "shannon_entropy N value =
     (let rs = runes value; total_runes = of_nat (length rs) in
      if value = [] then 0
      else foldl (\<lambda>entropy r.
                    let p = fdiv (of_nat (length (filter (\<lambda>x. x = r) rs))) total_runes
                    in el_subtract_product N entropy p (el_log2 N p))
                 0 (el_range N (remdups rs)))"

definition smart_secret_looks_like_natural_text :: "go_lib \<Rightarrow> string \<Rightarrow> bool" where
  "smart_secret_looks_like_natural_text L value =
     (let letters = filter is_lower (runes (lower L value)); vowels = filter (rune_in ''aeiou'') letters;
          ratio = fdiv (of_nat (length vowels)) (of_nat (length letters))
      in if length value < 24 \<or> contains_any value ''._~+/=-0123456789'' then False
         else if letters = [] then False
         else ratio > hundredths 28 \<and> ratio < hundredths 55)"

definition length_score :: "nat \<Rightarrow> rat" where
  "length_score n =
     (if n \<ge> 64 then hundredths 30 else if n \<ge> 48 then hundredths 24 else if n \<ge> 32 then hundredths 18
      else if n \<ge> 24 then hundredths 10 else if n \<ge> 20 then hundredths 5 else 0)"

definition tenths :: "int \<Rightarrow> rat" where "tenths n = float64 (of_int n / 10)"

definition entropy_score :: "rat \<Rightarrow> rat" where
  "entropy_score e =
     (if e \<ge> tenths 47 then hundredths 35 else if e \<ge> tenths 42 then hundredths 28 else if e \<ge> tenths 38 then hundredths 18
      else if e \<ge> tenths 34 then hundredths 8 else 0)"

definition class_score :: "nat \<Rightarrow> rat" where
  "class_score n = (if n \<ge> 4 then hundredths 18 else if n = 3 then hundredths 12 else if n = 2 then hundredths 6 else 0)"

text \<open>
  Every case adds to the score; adding nothing leaves it as it is. The letters of a candidate are those
  of ASCII and the two that fold to them.
\<close>

definition smart_secret_score :: "go_lib \<Rightarrow> entropy_lib \<Rightarrow> string \<Rightarrow> nat \<Rightarrow> nat \<Rightarrow> bool \<Rightarrow> rat" where
  "smart_secret_score L N input i j hasAssignmentContext =
     (let value = slice input i j;
          near = hasAssignmentContext \<or> smart_secret_context_nearby input i j;
          mixed = contains_any value ''_-'' \<and> list_ex (\<lambda>r. is_upper r \<or> r = 0x212A) (runes value) \<and> list_ex (\<lambda>r. is_lower r \<or> r = 0x17F) (runes value);
          s1 = fadd 0 (length_score (length value));
          s2 = fadd s1 (entropy_score (shannon_entropy N value));
          s3 = fadd s2 (class_score (smart_secret_character_classes value));
          s4 = (if near then fadd s3 (hundredths 28) else s3);
          s5 = (if full_match jwt_pattern value then fadd s4 (hundredths 25) else s4);
          s6 = (if mixed then fadd s5 (hundredths 8) else s5);
          s7 = (if full_match secret_hex_pattern value \<and> \<not> near then fadd s6 (- hundredths 18) else s6);
          s8 = (if smart_secret_looks_like_natural_text L value then fadd s7 (- hundredths 25) else s7)
      in if s8 < 0 then 0 else if s8 > 1 then 1 else s8)"

definition smart_secret_candidate_accepted :: "go_lib \<Rightarrow> entropy_lib \<Rightarrow> string \<Rightarrow> nat \<Rightarrow> nat \<Rightarrow> bool \<Rightarrow> bool" where
  "smart_secret_candidate_accepted L N input i j hasAssignmentContext =
     (let value = slice input i j in
      if length value < 16 \<or> length value > 512 then False
      else if \<not> hasAssignmentContext \<and> smart_secret_looks_like_public_url_candidate input i j then False
      else if full_match secret_uuid_pattern value then False
      else smart_secret_score L N input i j hasAssignmentContext \<ge> (if hasAssignmentContext then hundredths 62 else hundredths 72))"

section \<open>Matches\<close>

definition add_secret ::
  "go_lib \<Rightarrow> entropy_lib \<Rightarrow> (string \<Rightarrow> (nat \<times> nat) list) option \<Rightarrow> string \<Rightarrow> bool \<Rightarrow> string list \<times> (nat \<times> nat) list \<Rightarrow> nat \<times> nat
    \<Rightarrow> string list \<times> (nat \<times> nat) list" where
  "add_secret L N contextPattern input hasAssignmentContext st loc =
     (case trim_smart_secret_candidate input (fst loc) (snd loc) of
        None \<Rightarrow> st
      | Some (i, j) \<Rightarrow>
          (let (seen, matches) = st; key = slice input i j in
           if j \<le> i \<or> j > length input then st
           else if (case contextPattern of None \<Rightarrow> False | Some m \<Rightarrow> \<not> smart_secret_pattern_matches_context m input i j) then st
           else if \<not> smart_secret_candidate_accepted L N input i j hasAssignmentContext then st
           else if key \<in> set seen then st
           else (key # seen, matches @ [(i, j)])))"

definition smart_secret_match_indexes :: "go_lib \<Rightarrow> entropy_lib \<Rightarrow> string \<Rightarrow> sensitive_rule \<Rightarrow> (nat \<times> nat) list" where
  "smart_secret_match_indexes L N input rule =
     (let contextPattern = smart_secret_optional_pattern L (sr_Pattern rule);
          st1 = foldl (add_secret L N contextPattern input True) ([], []) (group_matches assignment_prefix assignment_value input);
          st2 = foldl (add_secret L N contextPattern input False) st1 (find_spans candidate_pattern input)
      in sort_key (\<lambda>loc. loc) (snd st2))"

end
