(* ===== verification/Rule_Cache.thy ===== *)
theory Rule_Cache
  imports Runner Contextmatch Smart_Secret
begin

text \<open>
  \<open>pkg/rulecache\<close>: the rules and settings of the control plane that the daemon writes to files and the
  hooks read. The JSON codecs and what the file system refuses are a record; a list that JSON leaves
  out is empty.
\<close>

record policy_cache =
  pc_SyncedAt :: time
  pc_Rules :: "policy_rule list"

record sensitive_rule_cache =
  sc_SyncedAt :: time
  sc_Rules :: "sensitive_rule list"

record context_rule_cache =
  xc_Version :: string
  xc_SyncedAt :: time
  xc_Rules :: "context_rule list"

record output_classification_cache =
  oc_SyncedAt :: time
  oc_CachedRevision :: int
  oc_CachedSuffixes :: "string list"
  oc_CachedFilenames :: "string list"

record rule_files =
  rl_policies :: "string option"
  rl_sensitive :: "string option"
  rl_context :: "string option"
  rl_output :: "string option"

record rule_codec =
  rk_policies :: "string \<Rightarrow> policy_cache option"
  rk_write_policies :: "policy_cache \<Rightarrow> string"
  rk_sensitive :: "string \<Rightarrow> sensitive_rule_cache option"
  rk_write_sensitive :: "sensitive_rule_cache \<Rightarrow> string"
  rk_context :: "string \<Rightarrow> context_rule_cache option"
  rk_write_context :: "context_rule_cache \<Rightarrow> string"
  rk_output :: "string \<Rightarrow> output_classification_cache option"
  rk_write_output :: "output_classification_cache \<Rightarrow> string"
  rk_readable :: bool
  rk_writable :: bool

datatype cache_error =
    CacheMissing
  | CacheUnreadable
  | CacheUndecodable
  | CacheNotWritten
  | InvalidContextRules rule_error
  | NegativeRevision

definition rule_cache_synced_at :: "time \<Rightarrow> time \<Rightarrow> time" where
  "rule_cache_synced_at now value = (if is_zero value then now else value)"

definition load_rule_cache :: "bool \<Rightarrow> (string \<Rightarrow> 'a option) \<Rightarrow> string option \<Rightarrow> cache_error + 'a" where
  "load_rule_cache readable decode saved =
     (case saved of
        None \<Rightarrow> Inl CacheMissing
      | Some data \<Rightarrow>
          if \<not> readable then Inl CacheUnreadable
          else case decode data of None \<Rightarrow> Inl CacheUndecodable | Some cache \<Rightarrow> Inr cache)"

definition load_policy_cache :: "rule_codec \<Rightarrow> rule_files \<Rightarrow> cache_error + policy_cache" where
  "load_policy_cache K f = load_rule_cache (rk_readable K) (rk_policies K) (rl_policies f)"

definition load_sensitive_rule_cache :: "rule_codec \<Rightarrow> rule_files \<Rightarrow> cache_error + sensitive_rule_cache" where
  "load_sensitive_rule_cache K f = load_rule_cache (rk_readable K) (rk_sensitive K) (rl_sensitive f)"

definition load_context_rule_cache :: "go_lib \<Rightarrow> rule_codec \<Rightarrow> rule_files \<Rightarrow> cache_error + context_rule_cache" where
  "load_context_rule_cache L K f =
     (case load_rule_cache (rk_readable K) (rk_context K) (rl_context f) of
        Inl err \<Rightarrow> Inl err
      | Inr cache \<Rightarrow> (case validate_rules L (xc_Rules cache) of Some err \<Rightarrow> Inl (InvalidContextRules err) | None \<Rightarrow> Inr cache))"

definition load_output_classification_cache :: "rule_codec \<Rightarrow> rule_files \<Rightarrow> cache_error + output_classification_cache" where
  "load_output_classification_cache K f =
     (case load_rule_cache (rk_readable K) (rk_output K) (rl_output f) of
        Inl err \<Rightarrow> Inl err
      | Inr cache \<Rightarrow> if oc_CachedRevision cache < 0 then Inl NegativeRevision else Inr cache)"

text \<open>Writing a cache replaces its file or fails.\<close>

definition save_policy_cache :: "rule_codec \<Rightarrow> time \<Rightarrow> policy_rule list \<Rightarrow> time \<Rightarrow> rule_files \<Rightarrow> rule_files \<times> (cache_error + unit)" where
  "save_policy_cache K now rules syncedAt f =
     (if \<not> rk_writable K then (f, Inl CacheNotWritten)
      else (f\<lparr>rl_policies := Some (rk_write_policies K \<lparr>pc_SyncedAt = rule_cache_synced_at now syncedAt, pc_Rules = rules\<rparr>)\<rparr>, Inr ()))"

definition save_sensitive_rule_cache :: "rule_codec \<Rightarrow> time \<Rightarrow> sensitive_rule list \<Rightarrow> time \<Rightarrow> rule_files \<Rightarrow> rule_files \<times> (cache_error + unit)" where
  "save_sensitive_rule_cache K now rules syncedAt f =
     (if \<not> rk_writable K then (f, Inl CacheNotWritten)
      else (f\<lparr>rl_sensitive := Some (rk_write_sensitive K \<lparr>sc_SyncedAt = rule_cache_synced_at now syncedAt, sc_Rules = rules\<rparr>)\<rparr>, Inr ()))"

definition save_context_rule_cache ::
  "go_lib \<Rightarrow> rule_codec \<Rightarrow> time \<Rightarrow> string \<Rightarrow> context_rule list \<Rightarrow> time \<Rightarrow> rule_files \<Rightarrow> rule_files \<times> (cache_error + unit)" where
  "save_context_rule_cache L K now version rules syncedAt f =
     (case validate_rules L rules of
        Some err \<Rightarrow> (f, Inl (InvalidContextRules err))
      | None \<Rightarrow>
          if \<not> rk_writable K then (f, Inl CacheNotWritten)
          else (f\<lparr>rl_context := Some (rk_write_context K
                  \<lparr>xc_Version = version, xc_SyncedAt = rule_cache_synced_at now syncedAt, xc_Rules = rules\<rparr>)\<rparr>, Inr ()))"

definition save_output_classification_cache ::
  "rule_codec \<Rightarrow> time \<Rightarrow> output_classification \<Rightarrow> time \<Rightarrow> rule_files \<Rightarrow> rule_files \<times> (cache_error + unit)" where
  "save_output_classification_cache K now settings syncedAt f =
     (if oc_Revision settings < 0 then (f, Inl NegativeRevision)
      else if \<not> rk_writable K then (f, Inl CacheNotWritten)
      else (f\<lparr>rl_output := Some (rk_write_output K
              \<lparr>oc_SyncedAt = rule_cache_synced_at now syncedAt, oc_CachedRevision = oc_Revision settings,
               oc_CachedSuffixes = oc_CodeSuffixes settings, oc_CachedFilenames = oc_CodeFilenames settings\<rparr>)\<rparr>, Inr ()))"

text \<open>What was saved is loaded, and rules that are not valid never get into the file.\<close>

lemma load_saved_context_rules:
  assumes "save_context_rule_cache L K now version rules syncedAt f = (f', Inr ())" and "rk_readable K"
    and "\<And>cache. rk_context K (rk_write_context K cache) = Some cache"
  shows "load_context_rule_cache L K f'
    = Inr \<lparr>xc_Version = version, xc_SyncedAt = rule_cache_synced_at now syncedAt, xc_Rules = rules\<rparr>"
  using assms by (auto simp: save_context_rule_cache_def load_context_rule_cache_def load_rule_cache_def split: if_splits option.splits)

lemma loaded_context_rules_are_valid:
  "load_context_rule_cache L K f = Inr cache \<Longrightarrow> validate_rules L (xc_Rules cache) = None"
  by (auto simp: load_context_rule_cache_def split: sum.splits option.splits)

lemma refused_rules_keep_the_cache:
  "save_context_rule_cache L K now version rules syncedAt f = (f', Inl err) \<Longrightarrow> f' = f"
  by (auto simp: save_context_rule_cache_def split: if_splits option.splits)

end
