(* ===== verification/Go_Utf8.thy ===== *)
theory Go_Utf8
  imports Regex
begin

text \<open>Cutting texts at runes: what is left of a text without its invalid bytes, and a bounded prefix.\<close>

text \<open>\<open>strings.ToValidUTF8 (s, "")\<close>\<close>

function to_valid_utf8 :: "string \<Rightarrow> string" where
  "to_valid_utf8 s =
     (if s = [] then []
      else (if decode_rune s = (rune_error, 1) then [] else take (rune_width s) s) @ to_valid_utf8 (drop (rune_width s) s))"
  by pat_completeness auto
termination
  by (relation "measure length") (use rune_width_pos in auto)

declare to_valid_utf8.simps [simp del, code del]

lemma to_valid_utf8_code [code]:
  "to_valid_utf8 [] = []"
  "to_valid_utf8 (c # s) =
     (if decode_rune (c # s) = (rune_error, 1) then [] else take (rune_width (c # s)) (c # s)) @ to_valid_utf8 (drop (rune_width (c # s)) (c # s))"
  by (simp_all add: to_valid_utf8.simps)

text \<open>\<open>strings.Map\<close> that drops the control characters of a valid text.\<close>

definition is_control :: "nat \<Rightarrow> bool" where
  "is_control r \<longleftrightarrow> r < 0x20 \<or> (0x7F \<le> r \<and> r < 0xA0)"

definition drop_control :: "string \<Rightarrow> string" where
  "drop_control s = concat (map encode_rune (filter (\<lambda>r. \<not> is_control r) (runes s)))"

definition continuation_byte :: "char \<Rightarrow> bool" where
  "continuation_byte c \<longleftrightarrow> 0x80 \<le> byte c \<and> byte c < 0xC0"

text \<open>The last position at or before \<open>n\<close> where no rune is cut.\<close>

fun rune_start :: "string \<Rightarrow> nat \<Rightarrow> nat" where
  "rune_start s 0 = 0"
| "rune_start s (Suc n) = (if continuation_byte (s ! Suc n) then rune_start s n else Suc n)"

definition truncate_utf8_bytes :: "string \<Rightarrow> nat \<Rightarrow> string" where
  "truncate_utf8_bytes value0 maxBytes =
     (let value = drop_control (to_valid_utf8 value0) in
      if length value \<le> maxBytes then value else take (rune_start value maxBytes) value)"

lemma rune_start_le: "rune_start s n \<le> n"
  by (induction n) auto

lemma length_truncate_utf8_bytes: "length (truncate_utf8_bytes value n) \<le> n"
  using rune_start_le by (auto simp: truncate_utf8_bytes_def Let_def min_le_iff_disj)

end
