(* ===== verification/Sensitive.thy ===== *)
theory Sensitive
  imports Smart_Secret Go_Utf8
begin

text \<open>
  \<open>pkg/privacy/detect.go\<close>: the findings of the organization's sensitive-data rules in a text. The
  keyed hash (\<open>crypto/hmac\<close> with SHA-256, in hexadecimal) is an argument.
\<close>

definition sensitive_finding_limit :: nat where "sensitive_finding_limit = 20"

record sensitive_finding =
  sf_Category :: string
  sf_Severity :: string
  sf_Action :: string
  sf_Confidence :: rat
  sf_Fingerprint :: string
  sf_Sample :: string
  sf_SampleMode :: string
  sf_RuleID :: string
  sf_RuleName :: string

record sensitive_lib =
  sl_entropy :: entropy_lib
  sl_hmac :: "string \<Rightarrow> string \<Rightarrow> string"

definition normalize_sensitive_token :: "go_lib \<Rightarrow> string \<Rightarrow> string" where
  "normalize_sensitive_token L value = replace_all (lower L (trim_space value)) ''-'' ''_''"

definition sensitive_detector_type :: "go_lib \<Rightarrow> string \<Rightarrow> string" where
  "sensitive_detector_type L value =
     (let t = normalize_sensitive_token L value in
      if t \<in> {[], ''regex'', ''regexp''} then ''regex''
      else if t \<in> {''secret'', ''smart_secret'', ''credential'', ''credentials''} then ''secret''
      else t)"

definition rule_applies :: "go_lib \<Rightarrow> sensitive_rule \<Rightarrow> bool" where
  "rule_applies L rule =
     (let source = normalize_sensitive_token L (sr_Source rule); detector = sensitive_detector_type L (sr_DetectorType rule) in
      normalize_sensitive_token L (sr_Status rule) = ''active''
      \<and> \<not> (source \<noteq> [] \<and> source \<noteq> ''user_prompt'')
      \<and> \<not> (detector \<noteq> [] \<and> detector \<noteq> ''regex'' \<and> detector \<noteq> ''secret'')
      \<and> \<not> (detector \<noteq> ''secret'' \<and> trim_space (sr_Pattern rule) = []))"

definition normalized_sensitive_rules :: "go_lib \<Rightarrow> sensitive_rule list \<Rightarrow> sensitive_rule list" where
  "normalized_sensitive_rules L rules =
     sort_key (\<lambda>r. (sr_Priority r, lower L (sr_Name r))) (filter (rule_applies L) rules)"

definition sensitive_fingerprint :: "sensitive_lib \<Rightarrow> string \<Rightarrow> string \<Rightarrow> string \<Rightarrow> string" where
  "sensitive_fingerprint S key category match = ''hmac-sha256:'' @ sl_hmac S key (category @ [CHR 0x00] @ match)"

definition sensitive_sample_mode :: "go_lib \<Rightarrow> string \<Rightarrow> string" where
  "sensitive_sample_mode L value =
     (let t = normalize_sensitive_token L value in
      if t = ''redacted'' then ''redacted'' else if t = ''fingerprint_only'' then ''fingerprint_only'' else ''original'')"

definition sensitive_sample :: "string \<Rightarrow> nat \<Rightarrow> nat \<Rightarrow> string \<Rightarrow> string" where
  "sensitive_sample input i j sampleMode =
     (let contextStart = i - 96; contextEnd = min (j + 96) (length input);
          prefix = (if contextStart > 0 then ''... '' else []); suffix = (if contextEnd < length input then '' ...'' else []);
          sample = to_valid_utf8 (prefix @ slice input contextStart contextEnd @ suffix)
      in if sampleMode = ''fingerprint_only'' then []
         else trim_space (if sampleMode = ''redacted'' then redact_string sample else sample))"

definition sensitive_confidence :: "rat \<Rightarrow> rat" where
  "sensitive_confidence value = (if value \<le> 0 then tenths 9 else if value > 1 then 1 else value)"

definition finding_of :: "go_lib \<Rightarrow> sensitive_lib \<Rightarrow> string \<Rightarrow> sensitive_rule \<Rightarrow> string \<Rightarrow> nat \<Rightarrow> nat \<Rightarrow> sensitive_finding" where
  "finding_of L S key rule input i j =
     (let sampleMode = sensitive_sample_mode L (sr_SampleMode rule) in
      \<lparr>sf_Category = first_non_empty [normalize_sensitive_token L (sr_Category rule), ''sensitive_data''],
       sf_Severity = first_non_empty [normalize_sensitive_token L (sr_Severity rule), ''high''],
       sf_Action = first_non_empty [normalize_sensitive_token L (sr_Action rule), ''block''],
       sf_Confidence = sensitive_confidence (sr_Confidence rule),
       sf_Fingerprint = sensitive_fingerprint S key (sr_Category rule) (slice input i j),
       sf_Sample = sensitive_sample input i j sampleMode,
       sf_SampleMode = sampleMode,
       sf_RuleID = trim_space (sr_RuleID rule),
       sf_RuleName = trim_space (sr_Name rule)\<rparr>)"

text \<open>The findings so far with the fingerprints seen.\<close>

definition append_sensitive_finding ::
  "go_lib \<Rightarrow> sensitive_lib \<Rightarrow> string \<Rightarrow> sensitive_rule \<Rightarrow> string \<Rightarrow> sensitive_finding list \<times> string list \<Rightarrow> nat \<times> nat
    \<Rightarrow> sensitive_finding list \<times> string list" where
  "append_sensitive_finding L S key rule input st loc =
     (let (findings, seen) = st; (i, j) = loc; fingerprint = sensitive_fingerprint S key (sr_Category rule) (slice input i j) in
      if j \<le> i \<or> j > length input then st
      else if fingerprint \<in> set seen then st
      else (findings @ [finding_of L S key rule input i j], fingerprint # seen))"

definition rule_spans :: "go_lib \<Rightarrow> sensitive_lib \<Rightarrow> string \<Rightarrow> sensitive_rule \<Rightarrow> (nat \<times> nat) list" where
  "rule_spans L S input rule =
     (if sensitive_detector_type L (sr_DetectorType rule) = ''secret'' then smart_secret_match_indexes L (sl_entropy S) input rule
      else case regexp_compile L (sr_Pattern rule) of
             None \<Rightarrow> []
           | Some m \<Rightarrow> filter (\<lambda>(i, j). \<not> (j \<le> i \<or> j > length input)) (m input))"

text \<open>The spans of a rule; the second part says that the limit was reached.\<close>

fun add_spans ::
  "go_lib \<Rightarrow> sensitive_lib \<Rightarrow> string \<Rightarrow> sensitive_rule \<Rightarrow> string \<Rightarrow> sensitive_finding list \<times> string list \<Rightarrow> (nat \<times> nat) list
    \<Rightarrow> (sensitive_finding list \<times> string list) \<times> bool" where
  "add_spans L S key rule input st [] = (st, False)"
| "add_spans L S key rule input st (loc # spans) =
     (let st' = append_sensitive_finding L S key rule input st loc in
      if length (fst st') \<ge> sensitive_finding_limit then (st', True) else add_spans L S key rule input st' spans)"

fun detect_rules ::
  "go_lib \<Rightarrow> sensitive_lib \<Rightarrow> string \<Rightarrow> string \<Rightarrow> sensitive_finding list \<times> string list \<Rightarrow> sensitive_rule list \<Rightarrow> sensitive_finding list" where
  "detect_rules L S key input st [] = fst st"
| "detect_rules L S key input st (rule # rules) =
     (let (st', full) = add_spans L S key rule input st (rule_spans L S input rule)
      in if full then fst st' else detect_rules L S key input st' rules)"

definition default_fingerprint_key :: string where "default_fingerprint_key = ''gesta-sensitive-finding''"

definition detect_sensitive_text_with_rules :: "go_lib \<Rightarrow> sensitive_lib \<Rightarrow> string \<Rightarrow> string \<Rightarrow> sensitive_rule list \<Rightarrow> sensitive_finding list" where
  "detect_sensitive_text_with_rules L S input0 fingerprintKey rules =
     (let input = trim_space input0;
          key = (if trim_space fingerprintKey = [] then default_fingerprint_key else trim_space fingerprintKey)
      in if input = [] then [] else detect_rules L S key input ([], []) (normalized_sensitive_rules L rules))"

section \<open>The hook\<close>

definition sensitive_findings_should_block :: "sensitive_finding list \<Rightarrow> bool" where
  "sensitive_findings_should_block findings \<longleftrightarrow> list_ex (\<lambda>f. equal_fold (trim_space (sf_Action f)) ''block'') findings"

section \<open>What the findings are\<close>

definition finding_state :: "go_lib \<Rightarrow> sensitive_finding list \<times> string list \<Rightarrow> bool" where
  "finding_state L st \<longleftrightarrow>
     set (snd st) = sf_Fingerprint ` set (fst st) \<and> distinct (map sf_Fingerprint (fst st)) \<and> length (fst st) < sensitive_finding_limit"

definition came_from :: "go_lib \<Rightarrow> sensitive_lib \<Rightarrow> string \<Rightarrow> string \<Rightarrow> sensitive_rule list \<Rightarrow> sensitive_finding \<Rightarrow> bool" where
  "came_from L S key input rules f \<longleftrightarrow>
     (\<exists>rule\<in>set rules. \<exists>(i, j)\<in>set (rule_spans L S input rule). i < j \<and> j \<le> length input \<and> f = finding_of L S key rule input i j)"

lemma finding_fingerprint: "sf_Fingerprint (finding_of L S key rule input i j) = sensitive_fingerprint S key (sr_Category rule) (slice input i j)"
  by (simp add: finding_of_def Let_def)

lemma append_finding_cases:
  assumes "append_sensitive_finding L S key rule input (fs, seen) (i, j) = (fs', seen')"
    and "set seen = sf_Fingerprint ` set fs" and "distinct (map sf_Fingerprint fs)"
  shows "set seen' = sf_Fingerprint ` set fs' \<and> distinct (map sf_Fingerprint fs') \<and> length fs' \<le> Suc (length fs)
    \<and> (fs' = fs \<or> (i < j \<and> j \<le> length input \<and> fs' = fs @ [finding_of L S key rule input i j]))
    \<and> (i < j \<and> j \<le> length input \<longrightarrow> sensitive_fingerprint S key (sr_Category rule) (slice input i j) \<in> sf_Fingerprint ` set fs')"
  using assms by (auto simp: append_sensitive_finding_def finding_fingerprint Let_def split: if_splits)

lemma add_spans_ok:
  assumes "finding_state L st" and "add_spans L S key rule input st spans = (st', full)"
  shows "set (snd st') = sf_Fingerprint ` set (fst st') \<and> distinct (map sf_Fingerprint (fst st')) \<and> length (fst st') \<le> sensitive_finding_limit
    \<and> (\<not> full \<longrightarrow> finding_state L st') \<and> (full \<longrightarrow> length (fst st') = sensitive_finding_limit)
    \<and> set (fst st) \<subseteq> set (fst st')
    \<and> (\<forall>f\<in>set (fst st'). f \<in> set (fst st) \<or> (\<exists>(i, j)\<in>set spans. i < j \<and> j \<le> length input \<and> f = finding_of L S key rule input i j))
    \<and> (\<not> full \<longrightarrow> (\<forall>(i, j)\<in>set spans. i < j \<longrightarrow> j \<le> length input \<longrightarrow>
          sensitive_fingerprint S key (sr_Category rule) (slice input i j) \<in> sf_Fingerprint ` set (fst st')))"
  using assms
proof (induction spans arbitrary: st)
  case Nil
  then show ?case by (auto simp: finding_state_def)
next
  case (Cons loc spans)
  obtain i j where loc: "loc = (i, j)" by (cases loc)
  obtain fs seen where st: "st = (fs, seen)" by (cases st)
  obtain fs1 seen1 where step: "append_sensitive_finding L S key rule input (fs, seen) (i, j) = (fs1, seen1)"
    by (cases "append_sensitive_finding L S key rule input (fs, seen) (i, j)")
  from append_finding_cases [OF step] Cons.prems(1)
  have one: "set seen1 = sf_Fingerprint ` set fs1" "distinct (map sf_Fingerprint fs1)" "length fs1 \<le> Suc (length fs)"
    "fs1 = fs \<or> (i < j \<and> j \<le> length input \<and> fs1 = fs @ [finding_of L S key rule input i j])"
    "i < j \<and> j \<le> length input \<longrightarrow> sensitive_fingerprint S key (sr_Category rule) (slice input i j) \<in> sf_Fingerprint ` set fs1"
    by (auto simp: finding_state_def st)
  have small: "length fs < sensitive_finding_limit" using Cons.prems(1) by (simp add: finding_state_def st)
  show ?case
  proof (cases "length fs1 \<ge> sensitive_finding_limit")
    case True
    with Cons.prems(2) step have "st' = (fs1, seen1)" "full" by (simp_all add: loc st)
    with one True small show ?thesis by (auto simp: loc st)
  next
    case False
    with Cons.prems(2) step have run: "add_spans L S key rule input (fs1, seen1) spans = (st', full)" by (simp add: loc st)
    have "finding_state L (fs1, seen1)" using one False by (simp add: finding_state_def)
    note ih = Cons.IH [OF this run]
    have sub: "set fs \<subseteq> set fs1" using one(4) by auto
    show ?thesis
    proof (intro conjI)
      show "\<forall>f\<in>set (fst st'). f \<in> set (fst st) \<or> (\<exists>(i, j)\<in>set (loc # spans). i < j \<and> j \<le> length input \<and> f = finding_of L S key rule input i j)"
        using ih one(4) by (auto simp: loc st)
      show "\<not> full \<longrightarrow> (\<forall>(i, j)\<in>set (loc # spans). i < j \<longrightarrow> j \<le> length input \<longrightarrow>
          sensitive_fingerprint S key (sr_Category rule) (slice input i j) \<in> sf_Fingerprint ` set (fst st'))"
        using ih one(5) by (auto simp: loc)
    qed (use ih sub in \<open>auto simp: st\<close>)
  qed
qed

lemma detect_rules_ok:
  assumes "finding_state L st"
  shows "distinct (map sf_Fingerprint (detect_rules L S key input st rules))
    \<and> length (detect_rules L S key input st rules) \<le> sensitive_finding_limit
    \<and> set (fst st) \<subseteq> set (detect_rules L S key input st rules)
    \<and> (\<forall>f\<in>set (detect_rules L S key input st rules). f \<in> set (fst st) \<or> came_from L S key input rules f)
    \<and> (length (detect_rules L S key input st rules) < sensitive_finding_limit \<longrightarrow>
         (\<forall>rule\<in>set rules. \<forall>(i, j)\<in>set (rule_spans L S input rule). i < j \<longrightarrow> j \<le> length input \<longrightarrow>
            sensitive_fingerprint S key (sr_Category rule) (slice input i j) \<in> sf_Fingerprint ` set (detect_rules L S key input st rules)))"
  using assms
proof (induction rules arbitrary: st)
  case Nil
  then show ?case by (auto simp: finding_state_def)
next
  case (Cons rule rules)
  obtain st' full where run: "add_spans L S key rule input st (rule_spans L S input rule) = (st', full)"
    by (cases "add_spans L S key rule input st (rule_spans L S input rule)")
  note a = add_spans_ok [OF Cons.prems run]
  show ?case
  proof (cases full)
    case True
    then have "detect_rules L S key input st (rule # rules) = fst st'" using run by simp
    with a True show ?thesis by (auto simp: came_from_def)
  next
    case False
    then have d: "detect_rules L S key input st (rule # rules) = detect_rules L S key input st' rules" using run by simp
    have "finding_state L st'" using a False by blast
    note ih = Cons.IH [OF this]
    show ?thesis unfolding d
    proof (intro conjI)
      show "\<forall>f\<in>set (detect_rules L S key input st' rules). f \<in> set (fst st) \<or> came_from L S key input (rule # rules) f"
        using ih a by (fastforce simp: came_from_def)
      show "length (detect_rules L S key input st' rules) < sensitive_finding_limit \<longrightarrow>
         (\<forall>rule\<in>set (rule # rules). \<forall>(i, j)\<in>set (rule_spans L S input rule). i < j \<longrightarrow> j \<le> length input \<longrightarrow>
            sensitive_fingerprint S key (sr_Category rule) (slice input i j) \<in> sf_Fingerprint ` set (detect_rules L S key input st' rules))"
        using ih a False by fastforce
    qed (use ih a in auto)
  qed
qed

end
