(* ===== verification/Receipt_Cleanup.thy ===== *)
theory Receipt_Cleanup
  imports Turn_Receipt
begin

text \<open>
  \<open>pkg/turnreceipt/cleanup.go\<close> and \<open>cleanup_cursor.go\<close>, with \<open>RemoveStale\<close> of \<open>pkg/lockfile\<close>: the
  removal of expired receipts and stale lock files, a bounded number in one run, with a cursor that
  lets the next run go on where this one stopped. A walk visits the receipt directories in the order
  of agent, session and name; entries of the tree that are no receipt directories are not part of
  the model, and neither are the empty parents that the code prunes.
\<close>

definition cleanup_cursor_schema_version :: int where "cleanup_cursor_schema_version = 1"
definition max_cleanup_visits :: nat where "max_cleanup_visits = 512"
definition max_cleanup_removals :: nat where "max_cleanup_removals = 128"
definition receipt_lock_stale_after :: int where "receipt_lock_stale_after = nanos_per_minute"

record cleanup_cursor =
  cc_SchemaVersion :: int
  cc_After :: string

text \<open>
  The files of a cleanup: the receipts, the cursor, and the lock files with their times. The faults
  say which removals and locks fail, and which locks somebody holds.
\<close>

record receipt_files =
  rx_dirs :: receipt_dirs
  rx_cursor :: "string option"
  rx_locks :: "(string \<times> time) list"

record cleanup_env =
  ce_json :: receipt_json
  ce_cursor :: "string \<Rightarrow> cleanup_cursor option"
  ce_write_cursor :: "cleanup_cursor \<Rightarrow> string"
  ce_lock :: "bool option"
  ce_rootExists :: bool
  ce_lockRemoval :: "string \<Rightarrow> bool"
  ce_busy :: "receipt_key \<Rightarrow> bool option"
  ce_removal :: "receipt_key \<Rightarrow> bool"
  ce_cursorWrite :: bool

datatype cleanup_error = CleanupLock | StaleLock string | ReceiptLock receipt_key | ReceiptRemoval receipt_key | CursorWrite

section \<open>Stale locks\<close>

definition lock_stale :: "time \<Rightarrow> time \<Rightarrow> bool" where
  "lock_stale now modified \<longleftrightarrow> modified < now - receipt_lock_stale_after"

text \<open>The lock files that are left, after at most so many visits and removals.\<close>

fun clean_locks :: "cleanup_env \<Rightarrow> time \<Rightarrow> nat \<Rightarrow> nat \<Rightarrow> (string \<times> time) list \<Rightarrow> (string \<times> time) list \<times> (cleanup_error + unit)" where
  "clean_locks C now visits removals [] = ([], Inr ())"
| "clean_locks C now visits removals ((name, modified) # entries) =
     (if name = ''cleanup.lock''
      then (let (kept, r) = clean_locks C now visits removals entries in ((name, modified) # kept, r))
      else if lock_stale now modified \<and> \<not> ce_lockRemoval C name then ((name, modified) # entries, Inl (StaleLock name))
      else let removed = lock_stale now modified; visits' = visits + 1; removals' = (if removed then removals + 1 else removals);
               kept0 = (if removed then [] else [(name, modified)])
           in if visits' \<ge> max_cleanup_visits \<or> removals' \<ge> max_cleanup_removals then (kept0 @ entries, Inr ())
              else let (kept, r) = clean_locks C now visits' removals' entries in (kept0 @ kept, r))"

definition cleanup_stale_locks :: "cleanup_env \<Rightarrow> time \<Rightarrow> (string \<times> time) list \<Rightarrow> (string \<times> time) list \<times> (cleanup_error + unit)" where
  "cleanup_stale_locks C now locks = clean_locks C now 0 0 (sort_key fst locks)"

section \<open>Expired receipts\<close>

definition receipt_directory_expired :: "receipt_json \<Rightarrow> time \<Rightarrow> receipt_dir \<Rightarrow> bool" where
  "receipt_directory_expired J now d =
     (case read_bounded (rj_receipt J) (rd_receipt d) of
        Inr r \<Rightarrow> if \<not> is_zero (re_ExpiresAt r) then \<not> re_ExpiresAt r > now else rd_modified d < now - receipt_ttl
      | Inl _ \<Rightarrow> rd_modified d < now - receipt_ttl)"

definition is_receipt_directory :: "string \<Rightarrow> bool" where
  "is_receipt_directory name \<longleftrightarrow>
     name = ''active'' \<or> name = ''pending'' \<or> has_prefix name ''turn-'' \<or> has_prefix name ''active.consuming-''
     \<or> has_prefix name ''pending.consuming-''"

definition relative_path :: "receipt_key \<Rightarrow> string" where
  "relative_path key = (case key of (agent, session, name) \<Rightarrow> join [agent, session, name] ''/'')"

record cleanup_scan =
  sc_candidates :: "receipt_key list"
  sc_after :: string
  sc_complete :: bool

text \<open>The walk from a cursor, with the directories visited so far; it stops at either limit.\<close>

fun scan_dirs :: "receipt_json \<Rightarrow> time \<Rightarrow> string \<Rightarrow> nat \<Rightarrow> cleanup_scan \<Rightarrow> receipt_dirs \<Rightarrow> cleanup_scan" where
  "scan_dirs J now after visits scan [] = scan"
| "scan_dirs J now after visits scan ((key, d) # rest) =
     (let relative = relative_path key; expired = receipt_directory_expired J now d in
      if \<not> is_receipt_directory (snd (snd key)) then scan_dirs J now after visits scan rest
      else if after \<noteq> [] \<and> relative \<le> after then scan_dirs J now after visits scan rest
      else if expired \<and> length (sc_candidates scan) \<ge> max_cleanup_removals then scan\<lparr>sc_complete := False\<rparr>
      else let scan' = scan\<lparr>sc_candidates := sc_candidates scan @ (if expired then [key] else []), sc_after := relative\<rparr> in
           if visits + 1 \<ge> max_cleanup_visits then scan'\<lparr>sc_complete := False\<rparr>
           else scan_dirs J now after (visits + 1) scan' rest)"

definition scan_cleanup_candidates :: "receipt_json \<Rightarrow> time \<Rightarrow> string \<Rightarrow> receipt_dirs \<Rightarrow> cleanup_scan" where
  "scan_cleanup_candidates J now after dirs =
     scan_dirs J now after 0 \<lparr>sc_candidates = [], sc_after = [], sc_complete = True\<rparr> (sort_key fst dirs)"

text \<open>A claimed receipt is removed without its lock; any other only under it, when it is still expired.\<close>

definition remove_expired_directory :: "cleanup_env \<Rightarrow> time \<Rightarrow> receipt_key \<Rightarrow> receipt_dirs \<Rightarrow> receipt_dirs \<times> (cleanup_error + unit)" where
  "remove_expired_directory C now key dirs =
     (let expired = (case map_of dirs key of None \<Rightarrow> False | Some d \<Rightarrow> receipt_directory_expired (ce_json C) now d);
          remove = (if \<not> ce_removal C key then (dirs, Inl (ReceiptRemoval key)) else (set_dir key None dirs, Inr ()))
      in if contains (snd (snd key)) ''.consuming-'' then (if expired then remove else (dirs, Inr ()))
         else case ce_busy C key of
                None \<Rightarrow> (dirs, Inl (ReceiptLock key))
              | Some True \<Rightarrow> (dirs, Inr ())
              | Some False \<Rightarrow> if expired then remove else (dirs, Inr ()))"

text \<open>
  Between two removals other processes may change any receipt: \<open>others n\<close> is what they do before the
  \<open>n\<close>th.
\<close>

fun remove_candidates ::
  "cleanup_env \<Rightarrow> time \<Rightarrow> (nat \<Rightarrow> receipt_dirs \<Rightarrow> receipt_dirs) \<Rightarrow> nat \<Rightarrow> receipt_key list \<Rightarrow> receipt_dirs \<Rightarrow> receipt_dirs \<times> (cleanup_error + unit)" where
  "remove_candidates C now others n [] dirs = (dirs, Inr ())"
| "remove_candidates C now others n (key # keys) dirs =
     (case remove_expired_directory C now key (others n dirs) of
        (dirs', Inl e) \<Rightarrow> (dirs', Inl e)
      | (dirs', Inr _) \<Rightarrow> remove_candidates C now others (n + 1) keys dirs')"

section \<open>The cursor\<close>

definition read_cleanup_cursor_best_effort :: "cleanup_env \<Rightarrow> string option \<Rightarrow> string" where
  "read_cleanup_cursor_best_effort C file =
     (case read_bounded (ce_cursor C) file of
        Inl _ \<Rightarrow> []
      | Inr c \<Rightarrow> if cc_SchemaVersion c \<noteq> cleanup_cursor_schema_version then [] else trim_space (cc_After c))"

text \<open>The new file of the cursor, \<open>None\<close> for a removed one.\<close>

definition write_cleanup_cursor :: "cleanup_env \<Rightarrow> string \<Rightarrow> string option" where
  "write_cleanup_cursor C after =
     (if trim_space after = [] then None
      else Some (ce_write_cursor C \<lparr>cc_SchemaVersion = cleanup_cursor_schema_version, cc_After = trim_space after\<rparr>))"

definition cleanup_expired ::
  "cleanup_env \<Rightarrow> time \<Rightarrow> (nat \<Rightarrow> receipt_dirs \<Rightarrow> receipt_dirs) \<Rightarrow> receipt_files \<Rightarrow> receipt_files \<times> (cleanup_error + unit)" where
  "cleanup_expired C now others x =
     (case ce_lock C of
        None \<Rightarrow> (x, Inl CleanupLock)
      | Some False \<Rightarrow> (x, Inr ())
      | Some True \<Rightarrow>
          (let (locks, r) = cleanup_stale_locks C now (rx_locks x); x1 = x\<lparr>rx_locks := locks\<rparr>;
               scan = scan_cleanup_candidates (ce_json C) now (read_cleanup_cursor_best_effort C (rx_cursor x)) (rx_dirs x);
               (dirs, r2) = remove_candidates C now others 0 (sc_candidates scan) (rx_dirs x);
               x2 = x1\<lparr>rx_dirs := dirs\<rparr>;
               finish = (\<lambda>y cursor. if ce_cursorWrite C then (y\<lparr>rx_cursor := cursor\<rparr>, Inr ()) else (y, Inl CursorWrite))
           in case r of
                Inl e \<Rightarrow> (x1, Inl e)
              | Inr _ \<Rightarrow>
                  if \<not> ce_rootExists C then finish x1 None
                  else case r2 of
                         Inl e \<Rightarrow> (x2, Inl e)
                       | Inr _ \<Rightarrow> finish x2 (if sc_complete scan then None else write_cleanup_cursor C (sc_after scan))))"

section \<open>Live receipts stay\<close>

definition live_receipt :: "receipt_json \<Rightarrow> time \<Rightarrow> receipt_dirs \<Rightarrow> receipt_key \<Rightarrow> bool" where
  "live_receipt J now dirs key \<longleftrightarrow> (\<exists>d. map_of dirs key = Some d \<and> \<not> receipt_directory_expired J now d)"

lemma remove_expired_keeps:
  assumes "live_receipt (ce_json C) now dirs k"
  shows "map_of (fst (remove_expired_directory C now key dirs)) k = map_of dirs k"
  using assms by (auto simp: remove_expired_directory_def live_receipt_def map_of_set_dir Let_def split: option.splits bool.splits)

lemma remove_candidates_keeps:
  assumes "\<And>n ds. map_of (others n ds) k = map_of ds k" and "live_receipt (ce_json C) now dirs k"
  shows "map_of (fst (remove_candidates C now others n keys dirs)) k = map_of dirs k"
  using assms(2)
proof (induction keys arbitrary: n dirs)
  case (Cons key keys)
  obtain dirs' r where run: "remove_expired_directory C now key (others n dirs) = (dirs', r)"
    by (cases "remove_expired_directory C now key (others n dirs)")
  have "live_receipt (ce_json C) now (others n dirs) k" using Cons.prems assms(1) by (simp add: live_receipt_def)
  from remove_expired_keeps [OF this, of key] run assms(1) have keep: "map_of dirs' k = map_of dirs k" by simp
  then have "live_receipt (ce_json C) now dirs' k" using Cons.prems by (simp add: live_receipt_def)
  with Cons.IH keep run show ?case by (cases r) simp_all
qed simp

text \<open>Without faults a run within the limits removes every expired receipt.\<close>

lemma scan_dirs_complete:
  assumes "after = []" and "visits + length ds < max_cleanup_visits" and "length (sc_candidates scan) + length ds \<le> max_cleanup_removals"
    and "sc_complete scan"
  shows "sc_complete (scan_dirs J now after visits scan ds)
    \<and> set (sc_candidates (scan_dirs J now after visits scan ds)) =
        set (sc_candidates scan) \<union> {k. \<exists>d. (k, d) \<in> set ds \<and> is_receipt_directory (snd (snd k)) \<and> receipt_directory_expired J now d}"
  using assms(2,3,4)
proof (induction ds arbitrary: visits scan)
  case (Cons e ds)
  obtain key d where e: "e = (key, d)" by (cases e)
  show ?case
  proof (cases "is_receipt_directory (snd (snd key))")
    case False
    with Cons show ?thesis by (auto simp: e)
  next
    case True
    let ?expired = "receipt_directory_expired J now d"
    let ?scan = "scan\<lparr>sc_candidates := sc_candidates scan @ (if ?expired then [key] else []), sc_after := relative_path key\<rparr>"
    have "scan_dirs J now after visits scan (e # ds) = scan_dirs J now after (visits + 1) ?scan ds"
      using True Cons.prems assms(1) by (auto simp: e Let_def)
    moreover have "sc_complete (scan_dirs J now after (visits + 1) ?scan ds)
      \<and> set (sc_candidates (scan_dirs J now after (visits + 1) ?scan ds)) =
        set (sc_candidates ?scan) \<union> {k. \<exists>d. (k, d) \<in> set ds \<and> is_receipt_directory (snd (snd k)) \<and> receipt_directory_expired J now d}"
      by (rule Cons.IH) (use Cons.prems in auto)
    ultimately show ?thesis using True by (auto simp: e)
  qed
qed simp

definition free_to_remove :: "cleanup_env \<Rightarrow> bool" where
  "free_to_remove C \<longleftrightarrow> (\<forall>k. ce_busy C k = Some False \<and> ce_removal C k) \<and> (\<forall>l. ce_lockRemoval C l)"

lemma remove_expired_free:
  assumes "free_to_remove C"
  shows "remove_expired_directory C now key dirs =
    (if (case map_of dirs key of None \<Rightarrow> False | Some d \<Rightarrow> receipt_directory_expired (ce_json C) now d) then set_dir key None dirs else dirs, Inr ())"
proof -
  have "ce_busy C key = Some False" "ce_removal C key" using assms unfolding free_to_remove_def by blast+
  then show ?thesis by (simp add: remove_expired_directory_def Let_def)
qed

lemma remove_candidates_gone:
  "free_to_remove C \<Longrightarrow> map_of dirs key = None \<Longrightarrow> map_of (fst (remove_candidates C now (\<lambda>_ ds. ds) n keys dirs)) key = None"
  by (induction keys arbitrary: n dirs) (simp_all add: remove_expired_free map_of_set_dir)

lemma remove_candidates_removes:
  assumes "free_to_remove C" and "key \<in> set keys"
    and "map_of dirs key = Some d" and "receipt_directory_expired (ce_json C) now d"
  shows "map_of (fst (remove_candidates C now (\<lambda>_ ds. ds) n keys dirs)) key = None"
  using assms(2,3)
proof (induction keys arbitrary: n dirs)
  case (Cons k keys)
  let ?dirs = "if (case map_of dirs k of None \<Rightarrow> False | Some d \<Rightarrow> receipt_directory_expired (ce_json C) now d) then set_dir k None dirs else dirs"
  have step: "remove_candidates C now (\<lambda>_ ds. ds) n (k # keys) dirs = remove_candidates C now (\<lambda>_ ds. ds) (n + 1) keys ?dirs"
    by (simp add: remove_expired_free [OF assms(1)])
  show ?case
  proof (cases "k = key")
    case True
    then have "map_of ?dirs key = None" using Cons.prems(2) assms(4) by (simp add: map_of_set_dir)
    then show ?thesis unfolding step by (rule remove_candidates_gone [OF assms(1)])
  next
    case False
    then have "map_of ?dirs key = Some d" using Cons.prems(2) by (simp add: map_of_set_dir)
    moreover have "key \<in> set keys" using False Cons.prems(1) by simp
    ultimately show ?thesis unfolding step by (rule Cons.IH [rotated])
  qed
qed simp

lemma clean_locks_free: "free_to_remove C \<Longrightarrow> snd (clean_locks C now visits removals locks) = Inr ()"
  by (induction C now visits removals locks rule: clean_locks.induct)
     (auto simp: free_to_remove_def Let_def case_prod_beta)


text \<open>
  Cleaning up removes what has expired. When nothing fails and nobody interferes, a run that
  starts at the beginning of at most 128 receipts removes every expired receipt directory among them
  and leaves no cursor behind.
\<close>

theorem cleanup_removes_expired_receipts:
  assumes "cleanup_expired C now (\<lambda>_ ds. ds) x = (y, r)" and "map_of (rx_dirs x) key = Some d"
    and "receipt_directory_expired (ce_json C) now d" and "is_receipt_directory (snd (snd key))"
    and "rx_cursor x = None" and "length (rx_dirs x) \<le> max_cleanup_removals"
    and "ce_lock C = Some True" and "ce_rootExists C" and "ce_cursorWrite C" and "free_to_remove C"
  shows "map_of (rx_dirs y) key = None \<and> rx_cursor y = None \<and> r = Inr ()"
proof -
  let ?scan = "scan_cleanup_candidates (ce_json C) now [] (rx_dirs x)"
  have after: "read_cleanup_cursor_best_effort C (rx_cursor x) = []"
    by (simp add: read_cleanup_cursor_best_effort_def read_bounded_def assms(5))
  have "0 + length (sort_key fst (rx_dirs x)) < max_cleanup_visits"
    using assms(6) by (simp add: max_cleanup_visits_def max_cleanup_removals_def)
  from scan_dirs_complete [OF refl this] assms(6)
  have scan: "sc_complete ?scan" "set (sc_candidates ?scan) =
      {k. \<exists>d. (k, d) \<in> set (rx_dirs x) \<and> is_receipt_directory (snd (snd k)) \<and> receipt_directory_expired (ce_json C) now d}"
    by (simp_all add: scan_cleanup_candidates_def)
  have "key \<in> set (sc_candidates ?scan)" using map_of_SomeD [OF assms(2)] assms(3,4) by (auto simp: scan(2))
  from remove_candidates_removes [OF assms(10) this assms(2,3)]
  have gone: "map_of (fst (remove_candidates C now (\<lambda>_ ds. ds) 0 (sc_candidates ?scan) (rx_dirs x))) key = None" .
  have ok: "snd (remove_candidates C now (\<lambda>_ ds. ds) n keys ds) = Inr ()" for n keys ds
    by (induction keys arbitrary: n ds) (simp_all add: remove_expired_free [OF assms(10)])
  have "snd (cleanup_stale_locks C now (rx_locks x)) = Inr ()"
    by (simp add: cleanup_stale_locks_def clean_locks_free [OF assms(10)])
  with assms(1,7-9) gone ok [of 0 "sc_candidates ?scan" "rx_dirs x"] scan(1) after show ?thesis
    by (auto simp: cleanup_expired_def Let_def case_prod_beta)
qed

section \<open>Witnesses\<close>

text \<open>One receipt that ended a day ago and one that runs.\<close>

definition decode0 :: "string \<Rightarrow> receipt option" where
  "decode0 s = Some \<lparr>re_SchemaVersion = receipt_schema_version, re_ExpiresAt = int (length s), re_Output = no_output\<rparr>"

definition cleanup0 :: cleanup_env where
  "cleanup0 = \<lparr>ce_json = \<lparr>rj_receipt = decode0, rj_write_receipt = (\<lambda>r. ''r''), rj_pending = (\<lambda>s. None), rj_write_pending = (\<lambda>p. ''p''),
                            rj_fragment = (\<lambda>s. None), rj_write_fragment = (\<lambda>f. ''f'')\<rparr>,
     ce_cursor = (\<lambda>s. None), ce_write_cursor = (\<lambda>c. ''c''), ce_lock = Some True, ce_rootExists = True,
     ce_lockRemoval = (\<lambda>n. True), ce_busy = (\<lambda>k. Some False), ce_removal = (\<lambda>k. True), ce_cursorWrite = True\<rparr>"

definition dir0 :: "string \<Rightarrow> receipt_dir" where
  "dir0 data = \<lparr>rd_receipt = Some data, rd_output = None, rd_modified = 0\<rparr>"

definition receipts0 :: receipt_files where
  "receipts0 = \<lparr>rx_dirs = [((''codex'', ''s'', ''active''), dir0 ''xx''), ((''codex'', ''s'', ''turn-a''), dir0 ''xxxxx'')],
                rx_cursor = None, rx_locks = [(''a.lock'', 0)]\<rparr>"


theorem cleanup_removes_expired_receipts_witness:
  "map_of (rx_dirs (fst (cleanup_expired cleanup0 3 (\<lambda>n ds. ds) receipts0))) (''codex'', ''s'', ''active'') = None"
proof -
  obtain y r where run: "cleanup_expired cleanup0 3 (\<lambda>n ds. ds) receipts0 = (y, r)"
    by (cases "cleanup_expired cleanup0 3 (\<lambda>n ds. ds) receipts0")
  have "map_of (rx_dirs receipts0) (''codex'', ''s'', ''active'') = Some (dir0 ''xx'')"
    and "receipt_directory_expired (ce_json cleanup0) 3 (dir0 ''xx'')" by code_simp+
  moreover have "is_receipt_directory (snd (snd (''codex'', ''s'', ''active'')))" "length (rx_dirs receipts0) \<le> max_cleanup_removals" by code_simp+
  moreover have "rx_cursor receipts0 = None" by (simp add: receipts0_def)
  moreover have "ce_lock cleanup0 = Some True" "ce_rootExists cleanup0" "ce_cursorWrite cleanup0" "free_to_remove cleanup0"
    by (simp_all add: cleanup0_def free_to_remove_def)
  ultimately show ?thesis using cleanup_removes_expired_receipts [OF run] run by simp
qed

end
