(* ===== verification/Activity_Detail.thy ===== *)
theory Activity_Detail
  imports Go_Utf8 Turn_Receipt Regex_Search Contextmatch
begin

text \<open>
  \<open>pkg/activitydetail\<close>: what is shown of a prompt's activity, one JSON file per activity in a
  directory of bounded size. An operation that holds the lock of the directory is one step here. The
  list of entries stands for the directory in the order in which the file system lists it.
\<close>

section \<open>Context matches\<close>

definition max_context_matches :: nat where "max_context_matches = 10"
definition max_context_rule_id_bytes :: nat where "max_context_rule_id_bytes = 128"
definition max_context_rule_name_bytes :: nat where "max_context_rule_name_bytes = 160"

record context_rule_match =
  cm_RuleID :: string
  cm_Name :: string
  cm_MatchType :: string
  cm_Priority :: int
  cm_Content :: string

definition clean_match :: "go_lib \<Rightarrow> context_rule_match \<Rightarrow> context_rule_match" where
  "clean_match L m =
     m\<lparr>cm_RuleID := truncate_utf8_bytes (trim_space (cm_RuleID m)) max_context_rule_id_bytes,
       cm_Name := truncate_utf8_bytes (trim_space (cm_Name m)) max_context_rule_name_bytes,
       cm_MatchType := trim_space (lower L (cm_MatchType m)),
       cm_Content := trim_space (to_valid_utf8 (cm_Content m))\<rparr>"

fun normalize_matches :: "go_lib \<Rightarrow> context_rule_match list \<Rightarrow> context_rule_match list \<Rightarrow> string list \<Rightarrow> int \<Rightarrow> context_rule_match list" where
  "normalize_matches L [] normalized seen contentRunes = normalized"
| "normalize_matches L (m0 # ms) normalized seen contentRunes =
     (let m = clean_match L m0; separatorRunes = (if normalized \<noteq> [] then 2 else 0); matchContentRunes = int (rune_count (cm_Content m)) in
      if length normalized \<ge> max_context_matches then normalized
      else if cm_RuleID m = [] \<or> (cm_MatchType m \<noteq> ''keyword_any'' \<and> cm_MatchType m \<noteq> ''regex'') \<or> cm_Content m = []
      then normalize_matches L ms normalized seen contentRunes
      else if cm_RuleID m \<in> set seen then normalize_matches L ms normalized seen contentRunes
      else if contentRunes + separatorRunes + matchContentRunes > max_context_content
      then normalize_matches L ms normalized seen contentRunes
      else normalize_matches L ms
             (normalized @ [if cm_Name m = [] then m\<lparr>cm_Name := ''Unnamed context rule''\<rparr> else m])
             (cm_RuleID m # seen) (contentRunes + separatorRunes + matchContentRunes))"

definition normalize_context_matches :: "go_lib \<Rightarrow> context_rule_match list \<Rightarrow> context_rule_match list" where
  "normalize_context_matches L ms = normalize_matches L ms [] [] 0"

section \<open>Files\<close>

definition detail_schema_version :: int where "detail_schema_version = 4"
definition max_activity_details :: nat where "max_activity_details = 256"
definition max_activity_record_bytes :: int where "max_activity_record_bytes = 64 * 1024"
definition max_detail_visits :: nat where "max_detail_visits = 128"
definition max_detail_removals :: nat where "max_detail_removals = 32"
definition detail_ttl :: int where "detail_ttl = 24 * nanos_per_hour"
definition detail_cursor_schema_version :: int where "detail_cursor_schema_version = 1"

record activity_detail =
  ad_SchemaVersion :: int
  ad_ActivityID :: string
  ad_CreatedAt :: time
  ad_ExpiresAt :: time
  ad_AgentType :: string
  ad_ContextMatches :: "context_rule_match list"
  ad_Output :: output_summary

definition valid_activity_id :: "string \<Rightarrow> bool" where
  "valid_activity_id i \<longleftrightarrow> full_match (Seq (lit ''activity_'') (times_re 32 (Cls (\<lambda>r. is_digit r \<or> (0x61 \<le> r \<and> r \<le> 0x66))))) i"

record detail_file =
  df_data :: string
  df_modified :: time

type_synonym detail_entries = "(string \<times> detail_file) list"

text \<open>The directories of this version and of version 3 (when they exist), and the cursor of the cleanup.\<close>

record activity_files =
  af_entries :: detail_entries
  af_version3 :: "detail_entries option"
  af_older :: bool
  af_cursor :: "string option"

text \<open>
  The codec and what the file system allows. \<open>an_lock\<close> is \<open>None\<close> when taking the lock fails and
  \<open>Some False\<close> when another process holds it.
\<close>

record activity_env =
  an_dataDir :: string
  an_now :: time
  an_decode :: "string \<Rightarrow> activity_detail option"
  an_encode :: "activity_detail \<Rightarrow> string"
  an_decode_cursor :: "string \<Rightarrow> (int \<times> string) option"
  an_encode_cursor :: "int \<times> string \<Rightarrow> string"
  an_lock :: "bool option"
  an_readable :: "string \<Rightarrow> bool"
  an_writable :: bool
  an_removable :: "string \<Rightarrow> bool"
  an_listable :: bool

datatype activity_error =
    NotFound
  | InvalidActivity
  | ActivityLock
  | ActivityBusy
  | AlreadyExists
  | DetailTooLarge
  | DetailNotWritten
  | DetailUnreadable
  | EntriesUnreadable
  | NotRemoved string
  | CursorNotWritten
  | MigrationFailed

definition detail_name :: "string \<Rightarrow> string" where
  "detail_name activityID = activityID @ ''.json''"

definition detail_agent :: "go_lib \<Rightarrow> string \<Rightarrow> string" where
  "detail_agent L agentType = (case normalize_agent_type L agentType of None \<Rightarrow> [] | Some a \<Rightarrow> a)"

text \<open>The detail that a file holds, when its size is in bounds.\<close>

definition decode_detail :: "activity_env \<Rightarrow> string \<Rightarrow> activity_detail option" where
  "decode_detail A data = (if data = [] \<or> int (length data) > max_activity_record_bytes then None else an_decode A data)"

definition get_detail :: "go_lib \<Rightarrow> activity_env \<Rightarrow> string \<Rightarrow> activity_files \<Rightarrow> activity_error + activity_detail" where
  "get_detail L A activityID0 x =
     (let activityID = trim_space activityID0; name = detail_name activityID in
      if trim_space (an_dataDir A) = [] \<or> \<not> valid_activity_id activityID then Inl NotFound
      else case map_of (af_entries x) name of
             None \<Rightarrow> Inl NotFound
           | Some f \<Rightarrow>
               if \<not> an_readable A name then Inl DetailUnreadable
               else case decode_detail A (df_data f) of
                      None \<Rightarrow> Inl NotFound
                    | Some d \<Rightarrow>
                        if ad_SchemaVersion d \<noteq> detail_schema_version \<or> ad_ActivityID d \<noteq> activityID
                           \<or> detail_agent L (ad_AgentType d) = [] \<or> \<not> ad_ExpiresAt d > an_now A
                        then Inl NotFound
                        else Inr (d\<lparr>ad_ContextMatches := normalize_context_matches L (ad_ContextMatches d),
                                    ad_AgentType := detail_agent L (ad_AgentType d)\<rparr>))"

definition write_replacing :: "activity_env \<Rightarrow> activity_detail \<Rightarrow> activity_files \<Rightarrow> activity_files \<times> (activity_error + unit)" where
  "write_replacing A d x =
     (let data = an_encode A d in
      if int (length data) > max_activity_record_bytes then (x, Inl DetailTooLarge)
      else if \<not> an_writable A then (x, Inl DetailNotWritten)
      else (x\<lparr>af_entries := AList.update (detail_name (ad_ActivityID d)) \<lparr>df_data = data, df_modified = an_now A\<rparr> (af_entries x)\<rparr>, Inr ()))"

definition write_new :: "activity_env \<Rightarrow> activity_detail \<Rightarrow> activity_files \<Rightarrow> activity_files \<times> (activity_error + unit)" where
  "write_new A d x =
     (if map_of (af_entries x) (detail_name (ad_ActivityID d)) \<noteq> None then (x, Inl AlreadyExists) else write_replacing A d x)"

definition read_entries :: "nat \<Rightarrow> activity_files \<Rightarrow> detail_entries" where
  "read_entries limit x = sort_key fst (take limit (af_entries x))"

text \<open>Removing files one by one, up to the first that cannot be removed.\<close>

fun remove_files :: "activity_env \<Rightarrow> string list \<Rightarrow> activity_files \<Rightarrow> activity_files \<times> (activity_error + unit)" where
  "remove_files A [] x = (x, Inr ())"
| "remove_files A (name # names) x =
     (if map_of (af_entries x) name \<noteq> None \<and> \<not> an_removable A name then (x, Inl (NotRemoved name))
      else remove_files A names (x\<lparr>af_entries := AList.delete name (af_entries x)\<rparr>))"

definition is_detail_file :: "string \<Rightarrow> bool" where
  "is_detail_file name \<longleftrightarrow> path_ext name = ''.json''"

text \<open>The names of the files to evict: the protected one comes last, the others by time and name.\<close>

definition eviction_order :: "string \<Rightarrow> string \<times> detail_file \<Rightarrow> bool \<times> time \<times> string" where
  "eviction_order protectedName e = (fst e = protectedName, df_modified (snd e), fst e)"

definition evicted_names :: "nat \<Rightarrow> string \<Rightarrow> detail_entries \<Rightarrow> string list" where
  "evicted_names limit protectedName entries =
     (let candidates = sort_key (eviction_order protectedName) (filter (is_detail_file \<circ> fst) entries)
      in map fst (take (min (length candidates - limit) max_detail_removals) candidates))"

definition ensure_capacity_locked :: "activity_env \<Rightarrow> nat \<Rightarrow> string \<Rightarrow> activity_files \<Rightarrow> activity_files \<times> (activity_error + unit)" where
  "ensure_capacity_locked A limit protectedName x =
     (if \<not> an_listable A then (x, Inl EntriesUnreadable)
      else remove_files A (evicted_names limit protectedName (read_entries (max_activity_details + max_detail_removals + 1) x)) x)"

section \<open>Operations\<close>

text \<open>The removal after a failed eviction is best effort.\<close>

definition discard_detail :: "activity_env \<Rightarrow> string \<Rightarrow> activity_files \<Rightarrow> activity_files" where
  "discard_detail A name x = (if an_removable A name then x\<lparr>af_entries := AList.delete name (af_entries x)\<rparr> else x)"

definition create_detail ::
  "go_lib \<Rightarrow> activity_env \<Rightarrow> string \<Rightarrow> string \<Rightarrow> context_rule_match list \<Rightarrow> output_summary \<Rightarrow> activity_files \<Rightarrow> activity_files \<times> (activity_error + activity_detail)" where
  "create_detail L A newID agentType matches output x =
     (let d = \<lparr>ad_SchemaVersion = detail_schema_version, ad_ActivityID = newID, ad_CreatedAt = an_now A, ad_ExpiresAt = an_now A + detail_ttl,
               ad_AgentType = detail_agent L agentType, ad_ContextMatches = matches, ad_Output = output\<rparr>
      in if trim_space (an_dataDir A) = [] \<or> detail_agent L agentType = [] then (x, Inl InvalidActivity)
         else if \<not> valid_activity_id newID then (x, Inl InvalidActivity)
         else if an_lock A \<noteq> Some True then (x, Inl ActivityLock)
         else case write_new A d x of
                (x1, Inl err) \<Rightarrow> (x1, Inl err)
              | (x1, Inr _) \<Rightarrow>
                  (case ensure_capacity_locked A max_activity_details (detail_name newID) x1 of
                     (x2, Inl err) \<Rightarrow> (discard_detail A (detail_name newID) x2, Inl err)
                   | (x2, Inr _) \<Rightarrow> (x2, Inr d)))"

definition begin_activity ::
  "go_lib \<Rightarrow> activity_env \<Rightarrow> string \<Rightarrow> string \<Rightarrow> activity_files \<Rightarrow> activity_files \<times> (activity_error + activity_detail)" where
  "begin_activity L A newID agentType x = create_detail L A newID agentType [] no_output x"

text \<open>\<open>Create\<close>\<close>

definition create_activity ::
  "go_lib \<Rightarrow> activity_env \<Rightarrow> string \<Rightarrow> string \<Rightarrow> context_rule_match list \<Rightarrow> output_summary \<Rightarrow> activity_files \<Rightarrow> activity_files \<times> (activity_error + activity_detail)" where
  "create_activity L A newID agentType matches0 output x =
     (let matches = normalize_context_matches L matches0 in
      if trim_space (an_dataDir A) = [] \<or> detail_agent L agentType = [] \<or> matches = [] then (x, Inl InvalidActivity)
      else create_detail L A newID (detail_agent L agentType) matches output x)"

definition update_activity ::
  "go_lib \<Rightarrow> activity_env \<Rightarrow> string \<Rightarrow> (activity_detail \<Rightarrow> activity_detail) \<Rightarrow> activity_files \<Rightarrow> activity_files \<times> (activity_error + unit)" where
  "update_activity L A activityID0 mutate x =
     (let activityID = trim_space activityID0 in
      if trim_space (an_dataDir A) = [] \<or> \<not> valid_activity_id activityID then (x, Inl NotFound)
      else if an_lock A \<noteq> Some True then (x, Inl ActivityLock)
      else case get_detail L A activityID x of
             Inl err \<Rightarrow> (x, Inl err)
           | Inr d \<Rightarrow>
               (let d' = mutate d
                in write_replacing A (d'\<lparr>ad_ContextMatches := normalize_context_matches L (ad_ContextMatches d')\<rparr>) x))"

definition record_context ::
  "go_lib \<Rightarrow> activity_env \<Rightarrow> string \<Rightarrow> context_rule_match list \<Rightarrow> activity_files \<Rightarrow> activity_files \<times> (activity_error + unit)" where
  "record_context L A activityID matches x =
     update_activity L A activityID (\<lambda>d. d\<lparr>ad_ContextMatches := normalize_context_matches L matches\<rparr>) x"

definition record_activity_output ::
  "go_lib \<Rightarrow> activity_env \<Rightarrow> string \<Rightarrow> output_summary \<Rightarrow> activity_files \<Rightarrow> activity_files \<times> (activity_error + unit)" where
  "record_activity_output L A activityID output x = update_activity L A activityID (\<lambda>d. d\<lparr>ad_Output := output\<rparr>) x"

section \<open>Cleaning up\<close>

definition read_detail_cursor :: "activity_env \<Rightarrow> activity_files \<Rightarrow> string" where
  "read_detail_cursor A x =
     (case af_cursor x of
        None \<Rightarrow> []
      | Some data \<Rightarrow>
          (case an_decode_cursor A (take 1024 data) of
             None \<Rightarrow> []
           | Some (version, after) \<Rightarrow> if version \<noteq> detail_cursor_schema_version then [] else trim_space after))"

definition write_detail_cursor :: "activity_env \<Rightarrow> string \<Rightarrow> activity_files \<Rightarrow> activity_files \<times> (activity_error + unit)" where
  "write_detail_cursor A after x =
     (if trim_space after = [] then (x\<lparr>af_cursor := None\<rparr>, Inr ())
      else if \<not> an_writable A then (x, Inl CursorNotWritten)
      else (x\<lparr>af_cursor := Some (an_encode_cursor A (detail_cursor_schema_version, trim_space after))\<rparr>, Inr ()))"

definition entry_expired_or_invalid :: "activity_env \<Rightarrow> string \<Rightarrow> detail_file \<Rightarrow> bool" where
  "entry_expired_or_invalid A name f =
     (if an_readable A name
      then (case decode_detail A (df_data f) of
              None \<Rightarrow> True
            | Some d \<Rightarrow>
                if ad_SchemaVersion d = detail_schema_version \<and> \<not> is_zero (ad_ExpiresAt d) then \<not> ad_ExpiresAt d > an_now A else True)
      else df_modified f < an_now A - detail_ttl)"

text \<open>The loop over the entries: visits, removals and the last name visited.\<close>

fun clean_entries ::
  "activity_env \<Rightarrow> string \<Rightarrow> nat \<Rightarrow> nat \<Rightarrow> string \<Rightarrow> detail_entries \<Rightarrow> activity_files \<Rightarrow> activity_files \<times> (activity_error + string \<times> bool)" where
  "clean_entries A after visits removals nextCursor [] x = (x, Inr (nextCursor, True))"
| "clean_entries A after visits removals nextCursor ((name, f) # entries) x =
     (if name \<le> after \<or> \<not> is_detail_file name \<or> name = ''activity-details-cleanup.json''
      then clean_entries A after visits removals nextCursor entries x
      else let remove = entry_expired_or_invalid A name f; removals' = (if remove then removals + 1 else removals);
               x' = (if remove then x\<lparr>af_entries := AList.delete name (af_entries x)\<rparr> else x)
           in if remove \<and> \<not> an_removable A name then (x, Inl (NotRemoved name))
              else if visits + 1 \<ge> max_detail_visits \<or> removals' \<ge> max_detail_removals then (x', Inr (name, False))
              else clean_entries A after (visits + 1) removals' name entries x')"

definition cleanup_expired_locked :: "activity_env \<Rightarrow> activity_files \<Rightarrow> activity_files \<times> (activity_error + unit)" where
  "cleanup_expired_locked A x =
     (if \<not> an_listable A then (x, Inl EntriesUnreadable)
      else case clean_entries A (read_detail_cursor A x) 0 0 [] (read_entries (max_activity_details + 1) x) x of
             (x1, Inl err) \<Rightarrow> (x1, Inl err)
           | (x1, Inr (nextCursor, complete)) \<Rightarrow> write_detail_cursor A (if complete then [] else nextCursor) x1)"

text \<open>Taking over a detail of version 3 that has not expired, and whether that failed.\<close>

definition migrate_entry :: "go_lib \<Rightarrow> activity_env \<Rightarrow> activity_files \<times> bool \<Rightarrow> string \<times> detail_file \<Rightarrow> activity_files \<times> bool" where
  "migrate_entry L A st e =
     (let (x, failed) = st; (name, f) = e; activityID = trim_suffix name ''.json'' in
      if \<not> has_suffix name ''.json'' \<or> \<not> valid_activity_id activityID then st
      else if \<not> an_readable A name then (x, True)
      else case decode_detail A (df_data f) of
             None \<Rightarrow> st
           | Some d \<Rightarrow>
               if ad_SchemaVersion d \<noteq> 3 \<or> ad_ActivityID d \<noteq> activityID \<or> detail_agent L (ad_AgentType d) = []
                  \<or> \<not> ad_ExpiresAt d > an_now A \<or> map_of (af_entries x) name \<noteq> None
               then st
               else (case write_replacing A (d\<lparr>ad_SchemaVersion := detail_schema_version, ad_AgentType := detail_agent L (ad_AgentType d),
                              ad_ContextMatches := normalize_context_matches L (ad_ContextMatches d)\<rparr>) x of
                       (x', Inl _) \<Rightarrow> (x', True)
                     | (x', Inr _) \<Rightarrow> (x', failed)))"

definition cleanup_legacy_roots_locked :: "go_lib \<Rightarrow> activity_env \<Rightarrow> activity_files \<Rightarrow> activity_files \<times> (activity_error + unit)" where
  "cleanup_legacy_roots_locked L A x0 =
     (let x = x0\<lparr>af_older := False\<rparr> in
      case af_version3 x of
        None \<Rightarrow> (x, Inr ())
      | Some entries \<Rightarrow>
          (let (x1, failed) = foldl (migrate_entry L A) (x, False) (sort_key fst entries)
           in (x1\<lparr>af_version3 := None\<rparr>, if failed then Inl MigrationFailed else Inr ())))"

definition cleanup_activities :: "go_lib \<Rightarrow> activity_env \<Rightarrow> activity_files \<Rightarrow> activity_files \<times> (activity_error + unit)" where
  "cleanup_activities L A x =
     (if trim_space (an_dataDir A) = [] then (x, Inr ())
      else case an_lock A of
             None \<Rightarrow> (x, Inl ActivityLock)
           | Some False \<Rightarrow> (x, Inr ())
           | Some True \<Rightarrow>
               (case cleanup_legacy_roots_locked L A x of
                  (x1, Inl err) \<Rightarrow> (x1, Inl err)
                | (x1, Inr _) \<Rightarrow>
                    (case cleanup_expired_locked A x1 of
                       (x2, Inl err) \<Rightarrow> (x2, Inl err)
                     | (x2, Inr _) \<Rightarrow> ensure_capacity_locked A max_activity_details [] x2)))"

end
