(* ===== verification/Agent_Hook.thy ===== *)
theory Agent_Hook
  imports Prompt_Provenance Daily_Recap Rule_Cache Prompt_Scope Sensitive Receipt_Cleanup Activity_Detail Guard
begin

text \<open>
  \<open>pkg/agent\<close>: the hook that Codex and Claude Code call (\<open>codex_hook.go\<close>, \<open>sensitive_hook.go\<close>,
  \<open>context_hook.go\<close>, \<open>turn_completion_notice.go\<close>, \<open>turn_completion_format.go\<close>). A hook is a step on the
  files of the agent; what it prints to \<open>stderr\<close> is left out, and what it cannot do is skipped as in
  the code. The control plane and its time limits are arguments.
\<close>

type_synonym hook_response = "(string \<times> gval) list"

text \<open>What a hook may change: the queue, the control plane that a flush talks to, receipts, activities, the recap mark.\<close>

record ('b, 's) hook_state =
  hx_db :: "'b db"
  hx_plane :: 's
  hx_receipts :: receipt_files
  hx_activities :: activity_files
  hx_recap :: "string option"

record approval_key =
  ak_DaemonID :: string
  ak_DeviceID :: string
  ak_TeamID :: string
  ak_AgentType :: string
  ak_CommandHash :: string

record approval_request = approval_key +
  ak_CommandPreview :: string
  ak_RuleIDs :: "string list"
  ak_Reason :: string

text \<open>
  What a hook reads and calls. \<open>hk_queue n\<close> is the queue of its \<open>n\<close>th access, \<open>hk_newID\<close> gives fresh
  identifiers, \<open>hk_config\<close> is the configuration file when it can be loaded and \<open>hk_direct\<close> what stands in
  for it, \<open>hk_fetched\<close> the policy rules when they have to be fetched, \<open>hk_granted\<close> whether an approval
  was granted, \<open>hk_approval\<close> the identifier of a new request, \<open>hk_faults\<close> what fails per operation.
\<close>

record ('b, 's) hook_env =
  hk_lib :: go_lib
  hk_sensitive :: sensitive_lib
  hk_store :: "'b queue_env"
  hk_queue :: "nat \<Rightarrow> queue"
  hk_now :: time
  hk_newID :: "string \<Rightarrow> nat \<Rightarrow> string"
  hk_config :: "config option"
  hk_direct :: config
  hk_rules :: rule_files
  hk_codec :: rule_codec
  hk_fetched :: "policy_rule list option"
  hk_granted :: "approval_key \<Rightarrow> bool"
  hk_approval :: "approval_request \<Rightarrow> string option"
  hk_locked :: bool
  hk_send :: "'s \<Rightarrow> event list \<Rightarrow> 's \<times> send_outcome"
  hk_decode :: "string \<Rightarrow> hook_event option"
  hk_line :: "string \<Rightarrow> codex_transcript_record option"
  hk_files :: "string \<Rightarrow> string option"
  hk_turn :: "string \<Rightarrow> string \<Rightarrow> string + codex_app_turn"
  hk_json :: receipt_json
  hk_faults :: "string \<Rightarrow> receipt_faults"
  hk_cleanup :: cleanup_env
  hk_others :: "nat \<Rightarrow> receipt_dirs \<Rightarrow> receipt_dirs"
  hk_activity :: activity_env
  hk_recap :: recap_env

text \<open>\<open>guardConfig\<close>: the configuration, and whether there is a control plane to talk to.\<close>

definition guard_config :: "('b, 's) hook_env \<Rightarrow> config \<times> bool" where
  "guard_config K =
     (case hk_config K of
        Some cfg \<Rightarrow> (cfg, cfg_Token cfg \<noteq> [] \<and> effective_server_url cfg \<noteq> [])
      | None \<Rightarrow> (hk_direct K, False))"

definition hook_base_event :: "('b, 's) hook_env \<Rightarrow> config \<Rightarrow> nat \<Rightarrow> event" where
  "hook_base_event K cfg n =
     empty_event\<lparr>EventID := hk_newID K ''evt'' n, DaemonID := cfg_DaemonID cfg, DeviceID := cfg_DeviceID cfg, TeamID := cfg_TeamID cfg,
       CreatedAt := hk_now K\<rparr>"

text \<open>\<open>queue.Append\<close> where an error is only reported.\<close>

definition hook_append :: "('b, 's) hook_env \<Rightarrow> nat \<Rightarrow> event list \<Rightarrow> ('b, 's) hook_state \<Rightarrow> ('b, 's) hook_state" where
  "hook_append K n evs x = x\<lparr>hx_db := fst (append_events (hk_store K) (hk_queue K n) evs (hx_db x))\<rparr>"

section \<open>Sensitive prompts\<close>

definition sensitive_fingerprint_key :: "config \<Rightarrow> string" where
  "sensitive_fingerprint_key cfg =
     (case filter (\<lambda>c. trim_space c \<noteq> []) [cfg_Token cfg, cfg_APIKey cfg, cfg_DaemonID cfg, cfg_DeviceID cfg, cfg_DataDir cfg] of
        c # _ \<Rightarrow> c
      | [] \<Rightarrow> ''gesta-local-sensitive-finding'')"

definition detect_sensitive_prompt :: "('b, 's) hook_env \<Rightarrow> config \<Rightarrow> string \<Rightarrow> sensitive_finding list" where
  "detect_sensitive_prompt K cfg prompt =
     (case load_sensitive_rule_cache (hk_codec K) (hk_rules K) of
        Inl _ \<Rightarrow> []
      | Inr cache \<Rightarrow> detect_sensitive_text_with_rules (hk_lib K) (hk_sensitive K) prompt (sensitive_fingerprint_key cfg) (sc_Rules cache))"

text \<open>A \<open>float64\<close> as mantissa and exponent.\<close>

definition gval_of_float :: "rat \<Rightarrow> gval" where
  "gval_of_float x = (if x = 0 then GFloat 0 0 else let e = last_exponent x in GFloat (round_half_even (x / pow2 e)) e)"

definition sensitive_finding_payload :: "go_lib \<Rightarrow> hook_event \<Rightarrow> sensitive_finding \<Rightarrow> payload" where
  "sensitive_finding_payload L event f =
     map_of ([(''source'', GString ''user_prompt''), (''hook_event_name'', GString (he_HookEventName event)), (''category'', GString (sf_Category f)),
       (''severity'', GString (sf_Severity f)), (''confidence'', gval_of_float (sf_Confidence f)), (''fingerprint'', GString (sf_Fingerprint f)),
       (''sample'', GString (sf_Sample f)), (''sample_mode'', GString (sf_SampleMode f)),
       (''action'', GString (first_nonempty [sf_Action f, ''block''])), (''metadata_only'', GBool (sf_Sample f = [])),
       (''raw_content_stored'', GBool (sf_SampleMode f = ''original'' \<and> sf_Sample f \<noteq> []))]
      @ (if sf_RuleID f \<noteq> [] then [(''rule_id'', GString (sf_RuleID f))] else [])
      @ (if sf_RuleName f \<noteq> [] then [(''rule_name'', GString (sf_RuleName f))] else [])
      @ (if hook_session event \<noteq> []
         then [(''session_id_hash'', GString (short_hash L (hook_session event))), (''session_id_is_hashed'', GBool True)] else [])
      @ (if he_TurnID event \<noteq> [] then [(''turn_id_hash'', GString (short_hash L (he_TurnID event)))] else [])
      @ (if he_CWD event \<noteq> [] then [(''cwd_hash'', GString (short_hash L (he_CWD event)))] else [])
      @ (if he_Model event \<noteq> [] then [(''model'', GString (redact_and_truncate (he_Model event) 128))] else []))"

definition sensitive_finding_event ::
  "('b, 's) hook_env \<Rightarrow> config \<Rightarrow> hook_event \<Rightarrow> string \<Rightarrow> string \<Rightarrow> nat \<Rightarrow> sensitive_finding \<Rightarrow> event" where
  "sensitive_finding_event K cfg event source agentType n f =
     (hook_base_event K cfg n)\<lparr>EventType := ''sensitive.finding'', Source := source, AgentType := agentType,
        Payload := sensitive_finding_payload (hk_lib K) event f\<rparr>"

definition record_sensitive_findings ::
  "('b, 's) hook_env \<Rightarrow> config \<Rightarrow> hook_event \<Rightarrow> sensitive_finding list \<Rightarrow> string \<Rightarrow> string \<Rightarrow> ('b, 's) hook_state \<Rightarrow> ('b, 's) hook_state" where
  "record_sensitive_findings K cfg event findings source agentType x =
     (if findings = [] then x
      else hook_append K 0 (map (\<lambda>(n, f). sensitive_finding_event K cfg event source agentType n f) (enumerate 1 findings)) x)"

section \<open>Organization context\<close>

definition context_match_payload :: "string \<Rightarrow> match_result \<Rightarrow> payload" where
  "context_match_payload version result =
     map_of [(''rule_matches'', GMaps (map (\<lambda>r. [(''rule_id'', GString (cr_RuleID r)), (''rule_name'', GString (cr_Name r)),
         (''match_type'', GString (cr_MatchType r))]) (mr_Rules result))),
       (''bundle_version'', GString (redact_and_truncate version 128)), (''truncated'', GBool (mr_Truncated result)),
       (''hook_event_name'', GString ''UserPromptSubmit''), (''prompt_text_stored'', GBool False)]"

definition record_context_rule_match ::
  "('b, 's) hook_env \<Rightarrow> config \<Rightarrow> string \<Rightarrow> string \<Rightarrow> string \<Rightarrow> match_result \<Rightarrow> ('b, 's) hook_state \<Rightarrow> ('b, 's) hook_state" where
  "record_context_rule_match K cfg agentType source version result x =
     hook_append K 1 [(hook_base_event K cfg 0)\<lparr>EventType := ''context_rule.matched'', Source := source, AgentType := agentType,
        Payload := context_match_payload version result\<rparr>] x"

definition turn_context_match :: "context_rule \<Rightarrow> context_rule_match" where
  "turn_context_match r =
     \<lparr>cm_RuleID = cr_RuleID r, cm_Name = cr_Name r, cm_MatchType = cr_MatchType r, cm_Priority = cr_Priority r,
      cm_Content = trim_space (cr_ContextContent r)\<rparr>"

definition activity_env_of :: "('b, 's) hook_env \<Rightarrow> config \<Rightarrow> activity_env" where
  "activity_env_of K cfg = (hk_activity K)\<lparr>an_dataDir := cfg_DataDir cfg\<rparr>"

definition record_turn_context_matches ::
  "('b, 's) hook_env \<Rightarrow> config \<Rightarrow> hook_event \<Rightarrow> match_result \<Rightarrow> ('b, 's) hook_state \<Rightarrow> ('b, 's) hook_state" where
  "record_turn_context_matches K cfg event result x =
     (let matches = map turn_context_match (filter (\<lambda>r. \<not> equal_fold (trim_space (cr_MatchType r)) ''always'') (mr_Rules result)) in
      if matches = [] \<or> he_ActivityID event = [] then x
      else x\<lparr>hx_activities := fst (record_context (hk_lib K) (activity_env_of K cfg) (he_ActivityID event) matches (hx_activities x))\<rparr>)"

definition process_organization_context ::
  "('b, 's) hook_env \<Rightarrow> config \<Rightarrow> hook_event \<Rightarrow> string \<Rightarrow> string \<Rightarrow> string \<Rightarrow> ('b, 's) hook_state \<Rightarrow> ('b, 's) hook_state \<times> hook_response" where
  "process_organization_context K cfg event matchPrompt agentType source x =
     (case load_context_rule_cache (hk_lib K) (hk_codec K) (hk_rules K) of
        Inl _ \<Rightarrow> (x, [])
      | Inr cache \<Rightarrow>
          (let result = match_context (hk_lib K) matchPrompt agentType (xc_Rules cache) in
           if mr_Rules result = [] \<or> trim_space (mr_AdditionalContext result) = [] then (x, [])
           else (record_turn_context_matches K cfg event result
                   (record_context_rule_match K cfg agentType source (xc_Version cache) result x),
                 [(''hookSpecificOutput'', GMap [(''hookEventName'', GString ''UserPromptSubmit''),
                    (''additionalContext'', GString (mr_AdditionalContext result))])])))"

section \<open>Receipts and notices\<close>

definition turn_receipt_identity :: "hook_event \<Rightarrow> string \<times> string" where
  "turn_receipt_identity event = (hook_session event, trim_space (he_TurnID event))"

definition on_receipts :: "(receipt_dirs \<Rightarrow> receipt_dirs) \<Rightarrow> ('b, 's) hook_state \<Rightarrow> ('b, 's) hook_state" where
  "on_receipts f x = x\<lparr>hx_receipts := (hx_receipts x)\<lparr>rx_dirs := f (rx_dirs (hx_receipts x))\<rparr>\<rparr>"

definition begin_turn_receipt :: "('b, 's) hook_env \<Rightarrow> config \<Rightarrow> hook_event \<Rightarrow> string \<Rightarrow> ('b, 's) hook_state \<Rightarrow> ('b, 's) hook_state" where
  "begin_turn_receipt K cfg event agentType =
     (let (sessionID, turnID) = turn_receipt_identity event
      in on_receipts (\<lambda>dirs. fst (begin_receipt (hk_lib K) (hk_json K) (hk_faults K ''begin'') (cfg_DataDir cfg) (hk_now K) agentType sessionID turnID dirs)))"

definition record_turn_output ::
  "('b, 's) hook_env \<Rightarrow> config \<Rightarrow> hook_event \<Rightarrow> string \<Rightarrow> output_summary \<Rightarrow> ('b, 's) hook_state \<Rightarrow> ('b, 's) hook_state" where
  "record_turn_output K cfg event agentType output =
     (let (sessionID, turnID) = turn_receipt_identity event
      in on_receipts (\<lambda>dirs. fst (record_output (hk_lib K) (hk_json K) (hk_faults K ''output'') (cfg_DataDir cfg) agentType sessionID turnID
           (he_ToolUseID event) output dirs)))"

definition cleanup_turn_receipts :: "('b, 's) hook_env \<Rightarrow> config \<Rightarrow> ('b, 's) hook_state \<Rightarrow> ('b, 's) hook_state" where
  "cleanup_turn_receipts K cfg x =
     x\<lparr>hx_receipts := fst (cleanup_expired (hk_cleanup K) (hk_now K) (hk_others K) (hx_receipts x)),
       hx_activities := fst (cleanup_activities (hk_lib K) (activity_env_of K cfg) (hx_activities x))\<rparr>"

definition hook_classifier :: "('b, 's) hook_env \<Rightarrow> classifier" where
  "hook_classifier K =
     output_classifier (hk_lib K)
       (case load_output_classification_cache (hk_codec K) (hk_rules K) of
          Inl _ \<Rightarrow> None
        | Inr cache \<Rightarrow> Some (oc_CachedSuffixes cache, oc_CachedFilenames cache))"

text \<open>A tool call of Claude Code: the output is queued, and recorded with the turn when that worked.\<close>

definition record_gross_tool_use_best_effort ::
  "('b, 's) hook_env \<Rightarrow> config \<Rightarrow> hook_event \<Rightarrow> string \<Rightarrow> string \<Rightarrow> ('b, 's) hook_state \<Rightarrow> ('b, 's) hook_state" where
  "record_gross_tool_use_best_effort K cfg event agentType source x =
     (case record_gross_tool_use (hk_store K) (hk_queue K 0) (hk_lib K) cfg (hook_classifier K) (hk_now K) event agentType source (hx_db x) of
        (db, Inl _) \<Rightarrow> x\<lparr>hx_db := db\<rparr>
      | (db, Inr output) \<Rightarrow> record_turn_output K cfg event agentType output (x\<lparr>hx_db := db\<rparr>))"

definition process_turn_stop :: "('b, 's) hook_env \<Rightarrow> hook_event \<Rightarrow> string \<Rightarrow> ('b, 's) hook_state \<Rightarrow> ('b, 's) hook_state \<times> hook_response" where
  "process_turn_stop K event agentType x =
     (let cfg = fst (guard_config K);
          (db, output) =
            (if agentType = ''codex''
             then (let (db, output, err) = record_codex_turn (hk_store K) (hk_queue K) (hk_lib K) cfg (hook_classifier K) (hk_turn K) (hk_now K) event (hx_db x)
                   in (db, output))
             else (hx_db x, no_output));
          (sessionID, turnID) = turn_receipt_identity event;
          (dirs, r) = consume_receipt (hk_lib K) (hk_json K) (hk_faults K ''consume'') (cfg_DataDir cfg) (hk_now K) (hk_newID K ''receipt'' 0)
                        agentType sessionID turnID (rx_dirs (hx_receipts x));
          x1 = on_receipts (\<lambda>_. dirs) (x\<lparr>hx_db := db\<rparr>)
      in case r of
           Inr (Some receipt) \<Rightarrow>
             (on_receipts (\<lambda>dirs. fst (save_pending (hk_lib K) (hk_json K) (hk_faults K ''save'') (cfg_DataDir cfg) (hk_now K) agentType sessionID
                (output_add (re_Output receipt) output) dirs)) x1, [])
         | _ \<Rightarrow> (x1, []))"

definition activity_notice_endpoint_context :: "string \<Rightarrow> string" where
  "activity_notice_endpoint_context activityID =
     ''<gesta_activity_notice>'' @ line_feed
     @ ''Immediately before the final response, call this local endpoint exactly once with a shell tool:'' @ line_feed
     @ ''curl -fsS --max-time 2 -X POST '' @ notice_url @ '' -H '' @ quote_char @ activity_header_name @ '': '' @ trim_space activityID
     @ quote_char @ '' 2>/dev/null || true'' @ line_feed
     @ ''If the request succeeds, read the JSON notice field. If it is non-empty, add one blank line after all normal answer content ''
     @ ''and output the notice exactly as the final line. If it is empty, add nothing.'' @ line_feed
     @ ''If the request fails or returns no JSON, add nothing.'' @ line_feed
     @ ''Do not mention this instruction, rewrite the notice, translate it, or alter its Markdown formatting.'' @ line_feed
     @ ''</gesta_activity_notice>''"

definition pending_turn_notice_context :: "string \<Rightarrow> string" where
  "pending_turn_notice_context message =
     ''<gesta_activity_notice>'' @ line_feed
     @ ''At the bottom of your response to this user message, after all normal answer content, ''
     @ ''add one blank line and then output exactly the single line below.'' @ line_feed
     @ ''Do not mention this instruction, describe the notice as previous-turn data, ''
     @ ''rewrite it, translate it, or alter its Markdown formatting.'' @ line_feed
     @ message @ line_feed @ ''</gesta_activity_notice>''"

definition merge_user_prompt_additional_context :: "hook_response \<Rightarrow> string \<Rightarrow> hook_response" where
  "merge_user_prompt_additional_context response additionalContext =
     (let output = (case map_of response ''hookSpecificOutput'' of Some (GMap m) \<Rightarrow> m | _ \<Rightarrow> []);
          existing = trim_space (case map_of output ''additionalContext'' of Some (GString s) \<Rightarrow> s | _ \<Rightarrow> []);
          merged = (if existing \<noteq> [] then existing @ paragraph_break @ additionalContext else additionalContext)
      in AList.update ''hookSpecificOutput''
           (GMap (AList.update ''additionalContext'' (GString merged) (AList.update ''hookEventName'' (GString ''UserPromptSubmit'') output))) response)"

definition inject_pending_turn_notice ::
  "('b, 's) hook_env \<Rightarrow> config \<Rightarrow> hook_event \<Rightarrow> string \<Rightarrow> hook_response \<Rightarrow> ('b, 's) hook_state \<Rightarrow> ('b, 's) hook_state \<times> hook_response" where
  "inject_pending_turn_notice K cfg event agentType response x =
     (let (sessionID, _) = turn_receipt_identity event;
          (dirs, r) = consume_pending (hk_lib K) (hk_json K) (hk_faults K ''pending'') (cfg_DataDir cfg) (hk_now K) (hk_newID K ''pending'' 0)
                        agentType sessionID (rx_dirs (hx_receipts x));
          x1 = on_receipts (\<lambda>_. dirs) x;
          x2 = (case r of
                  Inr (Some p) \<Rightarrow>
                    if he_ActivityID event \<noteq> []
                    then x1\<lparr>hx_activities := fst (record_activity_output (hk_lib K) (activity_env_of K cfg) (he_ActivityID event) (pn_Output p) (hx_activities x1))\<rparr>
                    else x1
                | _ \<Rightarrow> x1);
          (recap, message) = daily_recap_notice_best_effort (hk_recap K) cfg (hx_recap x2);
          x3 = x2\<lparr>hx_recap := recap\<rparr>;
          contexts = (if he_ActivityID event \<noteq> [] then [activity_notice_endpoint_context (he_ActivityID event)] else [])
                     @ (if message \<noteq> [] then [pending_turn_notice_context message] else [])
      in (x3, if contexts = [] then response else merge_user_prompt_additional_context response (join contexts paragraph_break)))"

section \<open>Prompts\<close>

definition sensitive_prompt_denied_message :: string where
  "sensitive_prompt_denied_message =
     ''Gesta blocked this prompt because it appears to contain secret material. Remove secrets or replace them with placeholders, then retry.''"

definition block_response :: hook_response where
  "block_response = [(''decision'', GString ''block''), (''reason'', GString sensitive_prompt_denied_message)]"

definition process_user_prompt_submit ::
  "('b, 's) hook_env \<Rightarrow> hook_event \<Rightarrow> string \<Rightarrow> string \<Rightarrow> ('b, 's) hook_state \<Rightarrow> ('b, 's) hook_state \<times> hook_response" where
  "process_user_prompt_submit K event agentType source x =
     (let userPrompt = extract_prompt agentType (he_Prompt event); cfg = fst (guard_config K) in
      if trim_space (he_Prompt event) = [] then (x, [])
      else if trim_space userPrompt = [] then (x, [])
      else if verify_user_prompt_submission (hk_line K) (hk_files K) event agentType (he_Prompt event) \<noteq> None then (x, [])
      else
        let findings = detect_sensitive_prompt K cfg userPrompt;
            x1 = record_sensitive_findings K cfg event findings source agentType x
        in if sensitive_findings_should_block findings then (x1, block_response)
           else
             let x2 = begin_turn_receipt K cfg event agentType x1;
                 (activities, r) = begin_activity (hk_lib K) (activity_env_of K cfg) (hk_newID K ''activity'' 0) agentType (hx_activities x2);
                 x3 = x2\<lparr>hx_activities := activities\<rparr>;
                 event' = (case r of Inl _ \<Rightarrow> event | Inr d \<Rightarrow> event\<lparr>he_ActivityID := ad_ActivityID d\<rparr>);
                 (x4, response) = process_organization_context K cfg event' userPrompt agentType source x3
             in inject_pending_turn_notice K cfg event' agentType response x4)"

section \<open>Commands\<close>

definition string_field :: "(string \<times> gval) list \<Rightarrow> string \<Rightarrow> string" where
  "string_field values key = (case map_of values key of Some (GString s) \<Rightarrow> trim_space s | _ \<Rightarrow> [])"

fun first_string_field :: "(string \<times> gval) list \<Rightarrow> string list \<Rightarrow> string" where
  "first_string_field values [] = []"
| "first_string_field values (k # ks) = (if string_field values k \<noteq> [] then string_field values k else first_string_field values ks)"

definition tool_input_map :: "gval \<Rightarrow> (string \<times> gval) list" where
  "tool_input_map value = (case value of GMap m \<Rightarrow> m | _ \<Rightarrow> [])"

definition hook_tool_name :: "go_lib \<Rightarrow> string \<Rightarrow> string" where
  "hook_tool_name L value = lower L (trim_space value)"

definition hook_shell_command :: "go_lib \<Rightarrow> hook_event \<Rightarrow> string" where
  "hook_shell_command L event =
     (if hook_tool_name L (he_ToolName event) \<in> {''bash'', ''shell'', ''exec_command'', ''functions.exec_command''}
      then first_string_field (tool_input_map (he_ToolInput event)) [''command'', ''cmd''] else [])"

definition compact_json :: "go_lib \<Rightarrow> gval \<Rightarrow> string" where
  "compact_json L value = (case json_value L value of None \<Rightarrow> sprint L value | Some data \<Rightarrow> data)"

definition hook_event_args :: "go_lib \<Rightarrow> hook_event \<Rightarrow> string list" where
  "hook_event_args L event =
     (let toolName = (if trim_space (he_ToolName event) = [] then ''unknown_tool'' else trim_space (he_ToolName event));
          path = first_string_field (tool_input_map (he_ToolInput event)) [''file_path'', ''path'']
      in if hook_shell_command L event \<noteq> [] then [''sh'', ''-c'', hook_shell_command L event]
         else if path \<noteq> [] then [toolName, path]
         else [toolName, compact_json L (he_ToolInput event)])"

definition hook_event_is_shell_command :: "go_lib \<Rightarrow> hook_event \<Rightarrow> bool" where
  "hook_event_is_shell_command L event \<longleftrightarrow> hook_shell_command L event \<noteq> []"

definition hook_policy_rules :: "('b, 's) hook_env \<Rightarrow> bool \<Rightarrow> policy_rule list option" where
  "hook_policy_rules K shouldFetch =
     (case load_policy_cache (hk_codec K) (hk_rules K) of
        Inr cache \<Rightarrow> Some (pc_Rules cache)
      | Inl _ \<Rightarrow> if shouldFetch then hk_fetched K else None)"

definition evaluate_hook_event :: "('b, 's) hook_env \<Rightarrow> hook_event \<Rightarrow> bool \<Rightarrow> string \<Rightarrow> evaluation" where
  "evaluate_hook_event K event shouldFetch agentType =
     (case hook_policy_rules K shouldFetch of
        Some rules \<Rightarrow> evaluate_command_with_rules (hk_lib K) agentType (hook_event_args (hk_lib K) event) rules
      | None \<Rightarrow> evaluate_command (hk_lib K) agentType (hook_event_args (hk_lib K) event))"

text \<open>Queueing the decision and flushing the queue.\<close>

definition record_guard_decision_event ::
  "('b, 's) hook_env \<Rightarrow> config \<Rightarrow> bool \<Rightarrow> evaluation \<Rightarrow> bool \<Rightarrow> int \<Rightarrow> ('b, 's) hook_state \<Rightarrow> ('b, 's) hook_state" where
  "record_guard_decision_event K cfg shouldFlush e executed exitCode x =
     (if \<not> matched_rule e then x
      else case append_events (hk_store K) (hk_queue K 0)
                  [(hook_base_event K cfg 0)\<lparr>EventType := ''policy.decision'', Source := ''guard'', AgentType := ev_AgentType e,
                     Payload := evaluation_payload e executed exitCode\<rparr>] (hx_db x) of
             (db, Some _) \<Rightarrow> x\<lparr>hx_db := db\<rparr>
           | (db, None) \<Rightarrow>
               if \<not> shouldFlush then x\<lparr>hx_db := db\<rparr>
               else (let (s, db', _) = drain (hk_store K) (\<lambda>n. hk_queue K (n + 1)) (hk_locked K) (hk_send K) (hx_plane x) db
                     in x\<lparr>hx_db := db', hx_plane := s\<rparr>))"

definition can_ask :: "config \<Rightarrow> evaluation \<Rightarrow> bool" where
  "can_ask cfg e \<longleftrightarrow> \<not> (cfg_Token cfg = [] \<or> effective_server_url cfg = [] \<or> ev_CommandHash e = [])"

definition approval_key_of :: "config \<Rightarrow> evaluation \<Rightarrow> approval_key" where
  "approval_key_of cfg e =
     \<lparr>ak_DaemonID = cfg_DaemonID cfg, ak_DeviceID = cfg_DeviceID cfg, ak_TeamID = cfg_TeamID cfg, ak_AgentType = ev_AgentType e,
      ak_CommandHash = ev_CommandHash e\<rparr>"

definition consume_approved_policy_grant :: "('b, 's) hook_env \<Rightarrow> config \<Rightarrow> evaluation \<Rightarrow> bool" where
  "consume_approved_policy_grant K cfg e \<longleftrightarrow> can_ask cfg e \<and> hk_granted K (approval_key_of cfg e)"

definition create_policy_approval_request :: "('b, 's) hook_env \<Rightarrow> config \<Rightarrow> evaluation \<Rightarrow> string option" where
  "create_policy_approval_request K cfg e =
     (if can_ask cfg e
      then hk_approval K (approval_key.extend (approval_key_of cfg e)
             (approval_request.fields (ev_CommandPreview e) (ev_RuleIDs e) (ev_Reason e)))
      else None)"

definition denied_reason :: "('b, 's) hook_env \<Rightarrow> config \<Rightarrow> evaluation \<Rightarrow> string" where
  "denied_reason K cfg e =
     (if ev_Decision e \<noteq> Approval then high_risk_denied_message
      else case create_policy_approval_request K cfg e of
             None \<Rightarrow> high_risk_approval_message
           | Some approvalID \<Rightarrow>
               if approvalID = [] then high_risk_approval_message
               else high_risk_approval_message @ ''. Approval request: '' @ approvalID @ ''. Approve it in Gesta, then retry the command.'')"

definition deny_response :: "string \<Rightarrow> hook_response" where
  "deny_response reason =
     [(''hookSpecificOutput'', GMap [(''hookEventName'', GString ''PreToolUse''), (''permissionDecision'', GString ''deny''),
        (''permissionDecisionReason'', GString reason), (''additionalContext'', GString reason)])]"

definition process_pre_tool_use :: "('b, 's) hook_env \<Rightarrow> hook_event \<Rightarrow> string \<Rightarrow> ('b, 's) hook_state \<Rightarrow> ('b, 's) hook_state \<times> hook_response" where
  "process_pre_tool_use K event agentType x =
     (let (cfg, shouldFlush) = guard_config K; e = evaluate_hook_event K event shouldFlush agentType in
      if \<not> hook_event_is_shell_command (hk_lib K) event then (x, [])
      else if ev_Decision e = Allow
      then (if ev_RuleIDs e \<noteq> [] then record_guard_decision_event K cfg shouldFlush e False 0 x else x, [])
      else if ev_Decision e = Warn then (record_guard_decision_event K cfg shouldFlush e False 0 x, [])
      else if ev_Decision e = Approval \<and> consume_approved_policy_grant K cfg e
      then (record_guard_decision_event K cfg shouldFlush (e\<lparr>ev_Decision := Allow, ev_Reason := ''approved by Gesta''\<rparr>) False 0 x, [])
      else (record_guard_decision_event K cfg shouldFlush e False
              (if ev_Decision e = Approval then guard_approval_exit_code else guard_blocked_exit_code) x,
            deny_response (denied_reason K cfg e)))"

section \<open>The hook\<close>

text \<open>JSON never sets the identifier of the activity.\<close>

definition process_agent_hook ::
  "('b, 's) hook_env \<Rightarrow> string \<Rightarrow> string \<Rightarrow> string \<Rightarrow> ('b, 's) hook_state \<Rightarrow> ('b, 's) hook_state \<times> hook_response" where
  "process_agent_hook K data agentType source x =
     (case hk_decode K data of
        None \<Rightarrow> (x, [])
      | Some decoded \<Rightarrow>
          (let cfg = fst (guard_config K); event = decoded\<lparr>he_ActivityID := []\<rparr> in
           if he_HookEventName event = ''SessionStart'' then (cleanup_turn_receipts K cfg x, [])
           else if he_HookEventName event = ''UserPromptSubmit'' then process_user_prompt_submit K event agentType source x
           else if he_HookEventName event = ''PreToolUse'' then process_pre_tool_use K event agentType x
           else if he_HookEventName event = ''PostToolUse''
           then (if agentType = ''claude_code'' then record_gross_tool_use_best_effort K cfg event agentType source x else x, [])
           else if he_HookEventName event = ''Stop'' then process_turn_stop K event agentType x
           else (x, [])))"

end
