(* ===== verification/Sensitive_Properties.thy ===== *)
theory Sensitive_Properties
  imports Sensitive
begin

text \<open>What the findings in a prompt are, and when they block it.\<close>

definition finding_key :: "string \<Rightarrow> string" where
  "finding_key k = (if trim_space k = [] then default_fingerprint_key else trim_space k)"

lemma detect_text_cases:
  "detect_sensitive_text_with_rules L S input k rules =
     (if trim_space input = [] then [] else detect_rules L S (finding_key k) (trim_space input) ([], []) (normalized_sensitive_rules L rules))"
  by (simp add: detect_sensitive_text_with_rules_def finding_key_def Let_def)

lemma set_normalized_rules: "set (normalized_sensitive_rules L rules) = {r \<in> set rules. rule_applies L r}"
  by (auto simp: normalized_sensitive_rules_def)

lemma no_findings_state: "finding_state L ([], [])"
  by (simp add: finding_state_def sensitive_finding_limit_def)

text \<open>The spans that a rule finds in the trimmed prompt and that are not empty.\<close>

definition span_found :: "go_lib \<Rightarrow> sensitive_lib \<Rightarrow> string \<Rightarrow> sensitive_rule \<Rightarrow> nat \<Rightarrow> nat \<Rightarrow> bool" where
  "span_found L S input rule i j \<longleftrightarrow> (i, j) \<in> set (rule_spans L S (trim_space input) rule) \<and> i < j \<and> j \<le> length (trim_space input)"

definition span_fingerprint :: "sensitive_lib \<Rightarrow> string \<Rightarrow> string \<Rightarrow> sensitive_rule \<Rightarrow> nat \<Rightarrow> nat \<Rightarrow> string" where
  "span_fingerprint S k input rule i j = sensitive_fingerprint S (finding_key k) (sr_Category rule) (slice (trim_space input) i j)"

lemma findings_complete:
  assumes "length (detect_sensitive_text_with_rules L S input k rules) < sensitive_finding_limit"
    and "rule \<in> set rules" and "rule_applies L rule" and "span_found L S input rule i j"
  shows "span_fingerprint S k input rule i j \<in> sf_Fingerprint ` set (detect_sensitive_text_with_rules L S input k rules)"
proof -
  have ne: "trim_space input \<noteq> []" using assms(4) by (auto simp: span_found_def)
  have "rule \<in> set (normalized_sensitive_rules L rules)" using assms(2,3) by (simp add: set_normalized_rules)
  moreover note detect_rules_ok [OF no_findings_state, where L = L and S = S and key = "finding_key k" and input = "trim_space input" and rules = "normalized_sensitive_rules L rules"]
  ultimately show ?thesis using assms(1,4) ne unfolding span_fingerprint_def span_found_def detect_text_cases by fastforce
qed

lemma findings_come_from:
  assumes "f \<in> set (detect_sensitive_text_with_rules L S input k rules)"
  obtains rule i j where "rule \<in> set rules" "rule_applies L rule" "span_found L S input rule i j"
    "f = finding_of L S (finding_key k) rule (trim_space input) i j"
  using assms detect_rules_ok [OF no_findings_state, where L = L and S = S and key = "finding_key k" and input = "trim_space input" and rules = "normalized_sensitive_rules L rules"]
  by (fastforce simp: detect_text_cases came_from_def set_normalized_rules span_found_def split: if_splits)

text \<open>
  C31: The findings of a prompt are at most 20, no two with the same fingerprint, each a non-empty span
  of the trimmed prompt that an active rule for prompts found, with that rule's category, action and
  sample; and when there are fewer than 20, every such span of every such rule is among them by its
  fingerprint.
\<close>

theorem sensitive_findings_are_exact:
  assumes "fs = detect_sensitive_text_with_rules L S input k rules"
  shows "length fs \<le> 20 \<and> distinct (map sf_Fingerprint fs)
    \<and> (\<forall>f\<in>set fs. \<exists>rule\<in>set rules. \<exists>i j. rule_applies L rule \<and> span_found L S input rule i j
          \<and> f = finding_of L S (finding_key k) rule (trim_space input) i j)
    \<and> (length fs < 20 \<longrightarrow> (\<forall>rule\<in>set rules. \<forall>i j. rule_applies L rule \<longrightarrow> span_found L S input rule i j \<longrightarrow>
          span_fingerprint S k input rule i j \<in> sf_Fingerprint ` set fs))"
proof (intro conjI ballI impI allI)
  note ok = detect_rules_ok [OF no_findings_state, where L = L and S = S and key = "finding_key k" and input = "trim_space input" and rules = "normalized_sensitive_rules L rules"]
  show "length fs \<le> 20" "distinct (map sf_Fingerprint fs)"
    using ok by (auto simp: assms detect_text_cases sensitive_finding_limit_def)
  show "\<exists>rule\<in>set rules. \<exists>i j. rule_applies L rule \<and> span_found L S input rule i j \<and> f = finding_of L S (finding_key k) rule (trim_space input) i j"
    if "f \<in> set fs" for f using findings_come_from that unfolding assms by metis
  show "span_fingerprint S k input rule i j \<in> sf_Fingerprint ` set fs"
    if "length fs < 20" "rule \<in> set rules" "rule_applies L rule" "span_found L S input rule i j" for rule i j
    using findings_complete that unfolding assms by (simp add: sensitive_finding_limit_def)
qed

definition rule_blocks :: "go_lib \<Rightarrow> sensitive_rule \<Rightarrow> bool" where
  "rule_blocks L rule \<longleftrightarrow> first_non_empty [normalize_sensitive_token L (sr_Action rule), ''block''] = ''block''"

text \<open>
  C32: A prompt is blocked when a blocking rule finds something in it: if an active rule for prompts whose
  action is to block (or empty) finds a non-empty span, fewer than 20 findings were made, and every rule
  that finds a span with the same fingerprint blocks too, then the findings block the prompt.
\<close>

theorem sensitive_prompt_is_blocked:
  assumes "rule \<in> set rules" and "rule_applies L rule" and "rule_blocks L rule" and "span_found L S input rule i j"
    and "length (detect_sensitive_text_with_rules L S input k rules) < sensitive_finding_limit"
    and "\<And>rule' i' j'. rule' \<in> set rules \<Longrightarrow> rule_applies L rule' \<Longrightarrow> span_found L S input rule' i' j'
      \<Longrightarrow> span_fingerprint S k input rule' i' j' = span_fingerprint S k input rule i j \<Longrightarrow> rule_blocks L rule'"
  shows "sensitive_findings_should_block (detect_sensitive_text_with_rules L S input k rules)"
proof -
  obtain f where f: "f \<in> set (detect_sensitive_text_with_rules L S input k rules)" "sf_Fingerprint f = span_fingerprint S k input rule i j"
    using findings_complete [OF assms(5,1,2,4)] by auto
  from findings_come_from [OF f(1)] obtain rule' i' j' where r: "rule' \<in> set rules" "rule_applies L rule'" "span_found L S input rule' i' j'"
    "f = finding_of L S (finding_key k) rule' (trim_space input) i' j'" by blast
  then have "rule_blocks L rule'" using assms(6) f(2) by (simp add: finding_fingerprint span_fingerprint_def)
  then have "sf_Action f = ''block''" by (simp add: r(4) finding_of_def rule_blocks_def Let_def)
  moreover have "equal_fold (trim_space ''block'') ''block''" by code_simp
  ultimately show ?thesis using f(1) unfolding sensitive_findings_should_block_def list_ex_iff by metis
qed

definition sensitive_lib0 :: sensitive_lib where
  "sensitive_lib0 = \<lparr>sl_entropy = \<lparr>el_log2 = (\<lambda>x. 0), el_range = (\<lambda>ns. ns), el_subtract_product = (\<lambda>x a b. x)\<rparr>,
     sl_hmac = (\<lambda>key message. message)\<rparr>"

definition rule0 :: sensitive_rule where
  "rule0 = \<lparr>sr_RuleID = ''r'', sr_Name = ''r'', sr_Status = ''Active'', sr_Source = ''user-prompt'', sr_DetectorType = [], sr_Pattern = ''key'',
     sr_Category = ''token'', sr_Severity = [], sr_Action = [], sr_SampleMode = ''redacted'', sr_Confidence = 0, sr_Priority = 0\<rparr>"

lemma rule0_facts: "rule_applies lib0 rule0" "rule_blocks lib0 rule0" "span_found lib0 sensitive_lib0 '' my key '' rule0 3 6"
  by code_simp+

lemma rule0_findings: "length (detect_sensitive_text_with_rules lib0 sensitive_lib0 '' my key '' [] [rule0]) \<le> 1"
proof -
  have facts: "normalized_sensitive_rules lib0 [rule0] = [rule0]" "trim_space '' my key '' = ''my key''" by code_simp+
  have spans: "rule_spans lib0 sensitive_lib0 ''my key'' rule0 = [(3, 6)]" by code_simp
  show ?thesis
    by (simp add: detect_sensitive_text_with_rules_def Let_def facts spans append_sensitive_finding_def sensitive_finding_limit_def)
qed

theorem sensitive_findings_are_exact_witness:
  "span_fingerprint sensitive_lib0 [] '' my key '' rule0 3 6
     \<in> sf_Fingerprint ` set (detect_sensitive_text_with_rules lib0 sensitive_lib0 '' my key '' [] [rule0])"
proof -
  have "length (detect_sensitive_text_with_rules lib0 sensitive_lib0 '' my key '' [] [rule0]) < 20" using rule0_findings by simp
  with sensitive_findings_are_exact [OF refl, where L = lib0 and S = sensitive_lib0 and input = "'' my key ''" and k = "[]" and rules = "[rule0]"] rule0_facts show ?thesis
    by (simp only: list.set insert_iff simp_thms)
qed

theorem sensitive_prompt_is_blocked_witness:
  "sensitive_findings_should_block (detect_sensitive_text_with_rules lib0 sensitive_lib0 '' my key '' [] [rule0])"
proof (rule sensitive_prompt_is_blocked [OF _ rule0_facts])
  show "length (detect_sensitive_text_with_rules lib0 sensitive_lib0 '' my key '' [] [rule0]) < sensitive_finding_limit"
    using rule0_findings by (simp add: sensitive_finding_limit_def)
qed (use rule0_facts(2) in auto)

end
