(* ===== verification/Activity_Properties.thy ===== *)
theory Activity_Properties
  imports Activity_Detail "HOL-Library.Multiset"
begin

text \<open>A new activity is there to be read, and the directory of activities stays bounded.\<close>

lemma detail_name_inj [simp]: "detail_name a = detail_name b \<longleftrightarrow> a = b"
  by (simp add: detail_name_def)

lemma is_detail_name: "is_detail_file (detail_name i)"
proof -
  have none: "last_index_of ''json'' ''.'' = None" by (simp add: has_prefix_def)
  have "last_index_of (i @ ''.json'') ''.'' = Some (length i)"
    by (induction i) (use none in \<open>auto simp: has_prefix_def\<close>)
  then show ?thesis by (simp add: is_detail_file_def path_ext_def detail_name_def contains_def has_prefix_def)
qed

text \<open>Lists with the same elements, such as a list and its sorted version.\<close>

lemma same_elements:
  assumes "mset xs = mset ys"
  shows "distinct (map f xs) = distinct (map f ys)" and "length (filter P xs) = length (filter P ys)" and "set xs = set ys" and "length xs = length ys"
proof -
  show "distinct (map f xs) = distinct (map f ys)" by (rule mset_eq_imp_distinct_iff) (simp only: mset_map assms)
  show "length (filter P xs) = length (filter P ys)" by (rule mset_eq_length) (simp only: mset_filter assms)
  show "set xs = set ys" using assms by (rule mset_eq_setD)
  show "length xs = length ys" using assms by (rule mset_eq_length)
qed

section \<open>Eviction\<close>

lemma remove_files_entries:
  assumes "remove_files A names x = (y, Inr ())"
  shows "af_entries y = filter (\<lambda>e. fst e \<notin> set names) (af_entries x)"
  using assms
proof (induction names arbitrary: x)
  case (Cons name names)
  then have "remove_files A names (x\<lparr>af_entries := AList.delete name (af_entries x)\<rparr>) = (y, Inr ())" by (auto split: if_splits)
  from Cons.IH [OF this] show ?case
    by (auto simp: AList.delete_eq intro!: filter_cong)
qed simp

definition detail_entries_of :: "activity_files \<Rightarrow> detail_entries" where
  "detail_entries_of x = filter (is_detail_file \<circ> fst) (af_entries x)"

lemma evicted_not_protected:
  assumes "distinct (map fst entries)" and "0 < limit" and "protectedName \<in> fst ` set entries" and "is_detail_file protectedName"
  shows "protectedName \<notin> set (evicted_names limit protectedName entries)"
proof
  let ?C = "filter (is_detail_file \<circ> fst) entries"
  let ?S = "sort_key (eviction_order protectedName) ?C"
  let ?k = "min (length ?S - limit) max_detail_removals"
  assume "protectedName \<in> set (evicted_names limit protectedName entries)"
  then have "protectedName \<in> fst ` set (take ?k ?S)" by (simp add: evicted_names_def Let_def)
  then obtain i where i: "i < ?k" "i < length ?S" "fst (?S ! i) = protectedName" by (auto simp: in_set_conv_nth)
  have "length ?S - limit < length ?S" using i(2) assms(2) by (intro diff_less) linarith+
  then have k: "?k < length ?S" by (simp only: min_less_iff_disj simp_thms)
  let ?j = "length ?S - 1"
  have j: "i < ?j" "?j < length ?S" using i k by linarith+
  have "sorted (map (eviction_order protectedName) ?S)" by (rule sorted_sort_key)
  then have "eviction_order protectedName (?S ! i) \<le> eviction_order protectedName (?S ! ?j)"
    using j by (simp add: sorted_iff_nth_mono)
  then have last: "fst (?S ! ?j) = protectedName" using i(3) by (auto simp: eviction_order_def less_eq_prod_def)
  have "distinct (map fst ?C)" using assms(1) by (simp add: distinct_map_filter)
  then have "distinct (map fst ?S)" by (simp only: same_elements(1) [OF mset_sort])
  then have "map fst ?S ! i \<noteq> map fst ?S ! ?j" using j by (simp add: nth_eq_iff_index_eq del: nth_map)
  with i last j show False by simp
qed

lemma evicted_count:
  assumes "distinct (map fst entries)"
  shows "length (filter (is_detail_file \<circ> fst) (filter (\<lambda>e. fst e \<notin> set (evicted_names limit protectedName entries)) entries))
    = length (filter (is_detail_file \<circ> fst) entries) - min (length (filter (is_detail_file \<circ> fst) entries) - limit) max_detail_removals"
proof -
  let ?C = "filter (is_detail_file \<circ> fst) entries"
  let ?S = "sort_key (eviction_order protectedName) ?C"
  let ?k = "min (length ?C - limit) max_detail_removals"
  let ?names = "set (evicted_names limit protectedName entries)"
  have names: "?names = fst ` set (take ?k ?S)" by (simp add: evicted_names_def Let_def)
  have "distinct (map fst ?C)" using assms by (simp add: distinct_map_filter)
  then have "distinct (map fst ?S)" by (simp only: same_elements(1) [OF mset_sort])
  then have "distinct (map fst (take ?k ?S @ drop ?k ?S))" by simp
  then have disjoint: "fst ` set (take ?k ?S) \<inter> fst ` set (drop ?k ?S) = {}" unfolding map_append distinct_append by auto
  have "length (filter (\<lambda>e. fst e \<notin> ?names) ?C) = length (filter (\<lambda>e. fst e \<notin> ?names) ?S)"
    by (rule same_elements(2)) (simp only: mset_sort)
  also have "filter (\<lambda>e. fst e \<notin> ?names) ?S = filter (\<lambda>e. fst e \<notin> ?names) (take ?k ?S) @ filter (\<lambda>e. fst e \<notin> ?names) (drop ?k ?S)"
    by (simp only: append_take_drop_id flip: filter_append)
  also have "filter (\<lambda>e. fst e \<notin> ?names) (take ?k ?S) = []" by (auto simp: names filter_empty_conv)
  also have "filter (\<lambda>e. fst e \<notin> ?names) (drop ?k ?S) = drop ?k ?S" using disjoint by (force simp: names filter_id_conv)
  finally have "length (filter (\<lambda>e. fst e \<notin> ?names) ?C) = length ?C - ?k" by simp
  then show ?thesis by (simp add: conj_commute)
qed

section \<open>A new activity\<close>

lemma detail_agent_cases: "detail_agent L a \<in> {[], ''codex'', ''claude_code''}"
proof (cases "normalize_agent_type L a")
  case (Some b)
  then have "b = ''codex'' \<or> b = ''claude_code''" unfolding normalize_agent_type_def Let_def by (simp only: split: if_splits) blast+
  then show ?thesis using Some by (simp add: detail_agent_def)
qed (simp add: detail_agent_def)

lemma lower_agent_ids: "lower L ''codex'' = ''codex''" "lower L ''claude_code'' = ''claude_code''"
proof -
  have "list_all ascii_char ''codex''" "map ascii_lower ''codex'' = ''codex''"
    "list_all ascii_char ''claude_code''" "map ascii_lower ''claude_code'' = ''claude_code''" by code_simp+
  then show "lower L ''codex'' = ''codex''" "lower L ''claude_code'' = ''claude_code''" by (simp_all only: to_lower_def if_True)
qed

lemma detail_agent_ids: "detail_agent L [] = []" "detail_agent L ''codex'' = ''codex''" "detail_agent L ''claude_code'' = ''claude_code''"
proof -
  have t: "trim_space ''codex'' = ''codex''" "trim_space ''claude_code'' = ''claude_code''" "trim_space [] = []" by code_simp+
  have n: "''claude_code'' \<noteq> ''codex''" "[] \<noteq> ''codex''" "[] \<noteq> ''claude_code''" by simp_all
  show "detail_agent L [] = []" "detail_agent L ''codex'' = ''codex''" "detail_agent L ''claude_code'' = ''claude_code''"
    by (simp_all only: detail_agent_def normalize_agent_type_def Let_def to_lower_Nil lower_agent_ids t n if_True if_False option.case refl simp_thms)
qed

lemma detail_agent_idem: "detail_agent L (detail_agent L a) = detail_agent L a"
  using detail_agent_cases [of L a] detail_agent_ids [of L] by (elim insertE emptyE) simp_all

lemma read_entries_all: "length (af_entries x) \<le> n \<Longrightarrow> mset (read_entries n x) = mset (af_entries x)"
  by (simp add: read_entries_def)

text \<open>The codec keeps this detail, within the size that is read.\<close>

definition detail_faithful :: "activity_env \<Rightarrow> activity_detail \<Rightarrow> bool" where
  "detail_faithful A d \<longleftrightarrow> an_encode A d \<noteq> [] \<and> an_decode A (an_encode A d) = Some d"

lemma new_detail_found:
  assumes "create_detail L A newID agentType matches output x = (y, Inr d)" and "distinct (map fst (af_entries x))"
    and "detail_faithful A d" and "an_readable A (detail_name newID)" and "trim_space newID = newID"
    and "an_now A \<le> later" and "later < an_now A + detail_ttl"
    and "length (af_entries x) < max_activity_details + max_detail_removals"
  shows "get_detail L (A\<lparr>an_now := later\<rparr>) newID y = Inr (d\<lparr>ad_ContextMatches := normalize_context_matches L matches\<rparr>)
    \<and> length (detail_entries_of y) \<le> max_activity_details"
proof -
  let ?name = "detail_name newID"
  have d: "d = \<lparr>ad_SchemaVersion = detail_schema_version, ad_ActivityID = newID, ad_CreatedAt = an_now A, ad_ExpiresAt = an_now A + detail_ttl,
               ad_AgentType = detail_agent L agentType, ad_ContextMatches = matches, ad_Output = output\<rparr>"
    and ok: "trim_space (an_dataDir A) \<noteq> []" "detail_agent L agentType \<noteq> []" "valid_activity_id newID"
    using assms(1) by (auto simp: create_detail_def Let_def split: if_splits prod.splits sum.splits)
  from assms(1) ok obtain x1 where w: "write_new A d x = (x1, Inr ())" and e: "ensure_capacity_locked A max_activity_details ?name x1 = (y, Inr ())"
    by (auto simp: create_detail_def d Let_def split: if_splits prod.splits sum.splits)
  let ?f = "\<lparr>df_data = an_encode A d, df_modified = an_now A\<rparr>"
  have fresh: "map_of (af_entries x) ?name = None" and size: "int (length (an_encode A d)) \<le> max_activity_record_bytes"
    and x1: "af_entries x1 = AList.update ?name ?f (af_entries x)"
    using w by (auto simp: write_new_def write_replacing_def d Let_def split: if_splits)
  have dist: "distinct (map fst (af_entries x1))" unfolding x1 by (rule distinct_update [OF assms(2)])
  have "length (AList.update k v m) \<le> Suc (length m)" for k and v :: detail_file and m :: detail_entries by (induction m) auto
  then have len: "length (af_entries x1) \<le> max_activity_details + max_detail_removals"
    using assms(8) unfolding x1 by (meson Suc_leI le_trans)
  let ?R = "read_entries (max_activity_details + max_detail_removals + 1) x1"
  have R: "mset ?R = mset (af_entries x1)" by (rule read_entries_all) (use len in simp)
  then have distR: "distinct (map fst ?R)" using dist by (simp only: same_elements(1) [OF R])
  have y: "af_entries y = filter (\<lambda>e. fst e \<notin> set (evicted_names max_activity_details ?name ?R)) (af_entries x1)"
    using e remove_files_entries by (auto simp: ensure_capacity_locked_def split: if_splits)
  have set1: "(?name, ?f) \<in> set (af_entries x1)"
    by (rule map_of_SomeD) (simp only: x1 update_conv' fun_upd_same)
  then have "?name \<in> fst ` set ?R" unfolding same_elements(3) [OF R] by force
  from evicted_not_protected [OF distR _ this is_detail_name]
  have "?name \<notin> set (evicted_names max_activity_details ?name ?R)" by (simp add: max_activity_details_def)
  with set1 have "(?name, ?f) \<in> set (af_entries y)" by (simp add: y)
  moreover have "distinct (map fst (af_entries y))" using dist by (simp add: y distinct_map_filter)
  ultimately have found: "map_of (af_entries y) ?name = Some ?f" by simp
  have agent: "detail_agent L (detail_agent L agentType) = detail_agent L agentType" by (rule detail_agent_idem)
  have "get_detail L (A\<lparr>an_now := later\<rparr>) newID y = Inr (d\<lparr>ad_ContextMatches := normalize_context_matches L matches\<rparr>)"
    using ok assms(3,4,5,7) found size by (simp add: get_detail_def decode_detail_def detail_faithful_def d agent Let_def)
  moreover have "length (detail_entries_of y) \<le> max_activity_details"
  proof -
    have "length (detail_entries_of y) = length (filter (is_detail_file \<circ> fst) (filter (\<lambda>e. fst e \<notin> set (evicted_names max_activity_details ?name ?R)) ?R))"
      unfolding detail_entries_of_def y by (intro same_elements(2)) (simp only: mset_filter R)
    also have "\<dots> = length (filter (is_detail_file \<circ> fst) ?R) - min (length (filter (is_detail_file \<circ> fst) ?R) - max_activity_details) max_detail_removals"
      by (rule evicted_count [OF distR])
    also have "\<dots> \<le> max_activity_details"
    proof -
      have "length (filter (is_detail_file \<circ> fst) ?R) \<le> length ?R" by simp
      also have "\<dots> = length (af_entries x1)" by (rule same_elements(4) [OF R])
      finally show ?thesis using len by simp
    qed
    finally show ?thesis .
  qed
  ultimately show ?thesis by blast
qed


definition activity0 :: string where "activity0 = ''activity_0123456789abcdef0123456789abcdef''"

definition detail0 :: activity_detail where
  "detail0 = \<lparr>ad_SchemaVersion = detail_schema_version, ad_ActivityID = activity0, ad_CreatedAt = 0, ad_ExpiresAt = detail_ttl,
     ad_AgentType = ''codex'', ad_ContextMatches = [], ad_Output = no_output\<rparr>"

definition files0 :: activity_files where
  "files0 = \<lparr>af_entries = [], af_version3 = None, af_older = False, af_cursor = None\<rparr>"

definition activity_env0 :: activity_env where
  "activity_env0 = \<lparr>an_dataDir = ''d'', an_now = 0, an_decode = (\<lambda>data. Some detail0), an_encode = (\<lambda>d. ''x''),
     an_decode_cursor = (\<lambda>data. None), an_encode_cursor = (\<lambda>c. []), an_lock = Some True, an_readable = (\<lambda>name. True),
     an_writable = True, an_removable = (\<lambda>name. True), an_listable = True\<rparr>"

lemma created0: "\<exists>y. create_detail lib0 activity_env0 activity0 ''codex'' [] no_output files0 = (y, Inr detail0)"
proof -
  have "valid_activity_id activity0" by code_simp
  moreover have "trim_space ''d'' = ''d''" by code_simp
  ultimately show ?thesis
    by (simp add: create_detail_def Let_def detail_agent_ids write_new_def write_replacing_def ensure_capacity_locked_def
        read_entries_def evicted_names_def activity_env0_def files0_def detail0_def max_activity_record_bytes_def max_activity_details_def
        is_detail_name [unfolded comp_def] split: prod.splits)
qed


end
