(* ===== verification/Hook_Properties.thy ===== *)
theory Hook_Properties
  imports Agent_Hook Policy_Properties Queue_Properties Receipt_Cleanup Sensitive_Properties Activity_Properties
begin

text \<open>What the hook denies and blocks, and how the output of a turn reaches the next prompt.\<close>

section \<open>What a hook leaves alone\<close>

text \<open>The receipts, activities and marks are as before.\<close>

definition same_files :: "('b, 's) hook_state \<Rightarrow> ('b, 's) hook_state \<Rightarrow> bool" where
  "same_files x y \<longleftrightarrow> hx_receipts y = hx_receipts x \<and> hx_activities y = hx_activities x \<and> hx_recap y = hx_recap x"

lemma same_files_refl [simp]: "same_files x x"
  by (simp add: same_files_def)

lemma findings_keep_files [simp]: "same_files x (record_sensitive_findings K cfg event findings source agentType x)"
  by (simp add: record_sensitive_findings_def hook_append_def same_files_def)

lemma findings_keep_plane [simp]: "hx_plane (record_sensitive_findings K cfg event findings source agentType x) = hx_plane x"
  by (simp add: record_sensitive_findings_def hook_append_def)

lemma decision_keeps_files [simp]: "same_files x (record_guard_decision_event K cfg shouldFlush e executed exitCode x)"
  by (auto simp: record_guard_decision_event_def same_files_def split: prod.splits option.splits)

section \<open>Commands\<close>

lemma deny_response_nonempty [simp]: "deny_response reason \<noteq> []"
  by (simp add: deny_response_def)

text \<open>
  C34: The hook denies a shell command exactly when the policy in force forbids it: some rule that applies
  to the agent and matches the command blocks, or no rule blocks but the decision asks for an approval that
  was not granted. Then the answer is a denial; otherwise it is empty. In no case do receipts, activities
  or marks change.
\<close>

theorem hook_denies_exactly:
  assumes "guard_config K = (cfg, shouldFlush)" and "hook_policy_rules K shouldFlush = Some rules"
    and "hook_shell_command (hk_lib K) event = command" and "command \<noteq> []"
    and "process_pre_tool_use K event agentType x = (x', response)"
    and "e = evaluate_command_with_rules (hk_lib K) agentType [''sh'', ''-c'', command] rules"
  shows "(response \<noteq> [] \<longleftrightarrow>
      (\<exists>r\<in>set rules. rule_hits (hk_lib K) agentType [''sh'', ''-c'', command] r \<and> decision_from_policy_action (hk_lib K) (pr_Action r) = Block)
      \<or> (ev_Decision e = Approval \<and> \<not> consume_approved_policy_grant K cfg e))
    \<and> (response \<noteq> [] \<longrightarrow> response = deny_response (denied_reason K cfg e))
    \<and> same_files x x'"
proof -
  have args: "hook_event_args (hk_lib K) event = [''sh'', ''-c'', command]" using assms(3,4) by (simp add: hook_event_args_def)
  have e: "evaluate_hook_event K event shouldFlush agentType = e" using assms(2,6) args by (simp add: evaluate_hook_event_def)
  have block: "ev_Decision e = Block \<longleftrightarrow>
      (\<exists>r\<in>set rules. rule_hits (hk_lib K) agentType [''sh'', ''-c'', command] r \<and> decision_from_policy_action (hk_lib K) (pr_Action r) = Block)"
    unfolding assms(6) by (rule blocking_decision)
  have shell: "hook_event_is_shell_command (hk_lib K) event" using assms(3,4) by (simp add: hook_event_is_shell_command_def)
  have "(response \<noteq> [] \<longleftrightarrow> ev_Decision e = Block \<or> (ev_Decision e = Approval \<and> \<not> consume_approved_policy_grant K cfg e))
      \<and> (response \<noteq> [] \<longrightarrow> response = deny_response (denied_reason K cfg e)) \<and> same_files x x'"
    using assms(5) shell
    by (cases "ev_Decision e") (auto simp: process_pre_tool_use_def assms(1) e Let_def split: if_splits)
  then show ?thesis unfolding block .
qed

section \<open>Prompts\<close>

lemma merge_has_output: "map_of (merge_user_prompt_additional_context response c) ''hookSpecificOutput'' \<noteq> None"
  by (simp add: merge_user_prompt_additional_context_def Let_def update_conv')

lemma context_response: "snd (process_organization_context K cfg event p agentType source x) = []
    \<or> map_of (snd (process_organization_context K cfg event p agentType source x)) ''hookSpecificOutput'' \<noteq> None"
  by (auto simp: process_organization_context_def Let_def split: sum.splits)

lemma inject_response:
  assumes "inject_pending_turn_notice K cfg event agentType response x = (x', response')"
  shows "response' = response \<or> map_of response' ''hookSpecificOutput'' \<noteq> None"
  using assms merge_has_output
  by (auto simp: inject_pending_turn_notice_def Let_def split: prod.splits if_splits)

lemma block_response_plain: "block_response \<noteq> []" "map_of block_response ''hookSpecificOutput'' = None"
  by (simp_all add: block_response_def)


section \<open>A concrete hook\<close>

text \<open>A machine without queued events, with one cached policy rule and one cached sensitive-data rule.\<close>

definition codec0 :: rule_codec where
  "codec0 =
     \<lparr>rk_policies = (\<lambda>data. Some \<lparr>pc_SyncedAt = 0, pc_Rules = [plain_rule ''r'' ''rm x'' ''block'']\<rparr>), rk_write_policies = (\<lambda>c. ''p''),
      rk_sensitive = (\<lambda>data. Some \<lparr>sc_SyncedAt = 0, sc_Rules = [rule0]\<rparr>), rk_write_sensitive = (\<lambda>c. ''s''),
      rk_context = (\<lambda>data. None), rk_write_context = (\<lambda>c. ''c''), rk_output = (\<lambda>data. None), rk_write_output = (\<lambda>c. ''o''),
      rk_readable = True, rk_writable = True\<rparr>"

definition hook_config0 :: config where
  "hook_config0 = new_runtime_config ''dev'' ''/data'' []"

definition hook_event0 :: "string \<Rightarrow> hook_event" where
  "hook_event0 name =
     \<lparr>he_HookEventName = name, he_Prompt = '' my key '', he_ToolName = ''Bash'', he_ToolInput = GMap [(''command'', GString ''rm x'')],
      he_ToolUseID = ''u'', he_SessionID = ''s'', he_ConversationID = [], he_TurnID = ''t'', he_CWD = [], he_Model = [], he_TranscriptPath = [],
      he_ActivityID = [], he_PermissionMode = []\<rparr>"

definition hook0 :: "((string \<times> string) list, unit) hook_env" where
  "hook0 =
     \<lparr>hk_lib = lib0, hk_sensitive = sensitive_lib0, hk_store = env0, hk_queue = (\<lambda>n. new_queue 0), hk_now = 0,
      hk_newID = (\<lambda>kind n. kind @ replicate n (CHR ''i'')), hk_config = None, hk_direct = hook_config0,
      hk_rules = \<lparr>rl_policies = Some ''p'', rl_sensitive = Some ''s'', rl_context = None, rl_output = None\<rparr>, hk_codec = codec0, hk_fetched = None,
      hk_granted = (\<lambda>k. False), hk_approval = (\<lambda>r. None), hk_locked = True, hk_send = (\<lambda>s evs. (s, SendOk)),
      hk_decode = (\<lambda>data. Some (hook_event0 data)), hk_line = (\<lambda>l. None), hk_files = (\<lambda>p. None), hk_turn = (\<lambda>s t. Inl ''none''),
      hk_json = ce_json cleanup0, hk_faults = (\<lambda>op. no_faults), hk_cleanup = cleanup0, hk_others = (\<lambda>n ds. ds),
      hk_activity = activity_env0,
      hk_recap = \<lparr>rp_hour = 9, rp_today = ''d'', rp_lock = True, rp_readable = True, rp_writable = True, rp_decode = (\<lambda>data. None),
                 rp_encode = (\<lambda>st. ''x''), rp_hostname = (\<lambda>u. None)\<rparr>\<rparr>"

definition world0 :: "((string \<times> string) list, unit) hook_state" where
  "world0 = \<lparr>hx_db = (\<lambda>b. None), hx_plane = (), hx_receipts = \<lparr>rx_dirs = [], rx_cursor = None, rx_locks = []\<rparr>, hx_activities = files0, hx_recap = None\<rparr>"

theorem hook_denies_exactly_witness:
  "snd (process_pre_tool_use hook0 (hook_event0 ''PreToolUse'') ''claude_code'' world0) \<noteq> []"
proof -
  let ?args = "[''sh'', ''-c'', ''rm x'']"
  obtain x' response where run: "process_pre_tool_use hook0 (hook_event0 ''PreToolUse'') ''claude_code'' world0 = (x', response)" by fastforce
  have cfg: "guard_config hook0 = (hook_config0, False)" by (simp add: guard_config_def hook0_def)
  have rules: "hook_policy_rules hook0 False = Some [plain_rule ''r'' ''rm x'' ''block'']"
    by (simp add: hook_policy_rules_def load_policy_cache_def load_rule_cache_def hook0_def codec0_def)
  have lib: "hk_lib hook0 = lib0" by (simp add: hook0_def)
  have "hook_shell_command lib0 (hook_event0 ''PreToolUse'') = ''rm x''" by code_simp
  moreover have "rule_hits lib0 ''claude_code'' ?args (plain_rule ''r'' ''rm x'' ''block'')"
    "decision_from_policy_action lib0 (pr_Action (plain_rule ''r'' ''rm x'' ''block'')) = Block" by code_simp+
  ultimately show ?thesis using hook_denies_exactly [OF cfg rules _ _ run refl, of "''rm x''"] run by (simp add: lib)
qed

lemma rule0_detected:
  "detect_sensitive_text_with_rules lib0 sensitive_lib0 '' my key '' k [rule0] = [finding_of lib0 sensitive_lib0 (finding_key k) rule0 ''my key'' 3 6]"
proof -
  have facts: "normalized_sensitive_rules lib0 [rule0] = [rule0]" "trim_space '' my key '' = ''my key''" by code_simp+
  have spans: "rule_spans lib0 sensitive_lib0 ''my key'' rule0 = [(3, 6)]" by code_simp
  show ?thesis
    by (simp add: detect_text_cases facts spans append_sensitive_finding_def sensitive_finding_limit_def Let_def)
qed


end
