(* ===== verification/Hook_Output.thy ===== *)
theory Hook_Output
  imports Hook_Properties
begin

text \<open>From the end of a turn to the next prompt: the output of a turn arrives with the activity of the next prompt.\<close>

section \<open>Pending notices\<close>

definition pending_faithful :: "receipt_json \<Rightarrow> pending_notice \<Rightarrow> bool" where
  "pending_faithful J p \<longleftrightarrow> read_bounded (rj_pending J) (Some (rj_write_pending J p)) = Inr p"

lemma pending_faithful_size: "pending_faithful J p \<Longrightarrow> int (length (rj_write_pending J p)) \<le> max_receipt_bytes"
  by (auto simp: pending_faithful_def read_bounded_def split: if_splits)

definition notice_of :: "time \<Rightarrow> output_summary \<Rightarrow> pending_notice" where
  "notice_of now out = \<lparr>pn_SchemaVersion = pending_schema_version, pn_ExpiresAt = now + receipt_ttl, pn_Output = out\<rparr>"

text \<open>A directory that holds a notice.\<close>

definition holds_notice :: "receipt_json \<Rightarrow> pending_notice \<Rightarrow> receipt_dir option \<Rightarrow> bool" where
  "holds_notice J p d \<longleftrightarrow> (\<exists>dir. d = Some dir \<and> rd_receipt dir = Some (rj_write_pending J p))"

lemma save_pending_holds:
  assumes "pending_path L dataDir agent session = Some key" and "\<not> output_empty out" and "pending_faithful J (notice_of now out)"
  shows "holds_notice J (notice_of now out) (map_of (fst (save_pending L J no_faults dataDir now agent session out dirs)) key)"
  using assms pending_faithful_size [OF assms(3)]
  by (simp add: save_pending_def reset_record_def write_record_def no_faults_def holds_notice_def map_of_set_dir flip: notice_of_def)

lemma consume_pending_finds:
  assumes "pending_path L dataDir agent session = Some key" and "\<not> output_empty out" and "pending_faithful J (notice_of start out)"
    and "holds_notice J (notice_of start out) (map_of dirs key)" and "now < start + receipt_ttl"
    and "consume_pending L J no_faults dataDir now newID agent session dirs = (dirs', r)"
  shows "r = Inr (Some (notice_of start out))" and "map_of dirs' key = None"
proof -
  obtain d where d: "map_of dirs key = Some d" "rd_receipt d = Some (rj_write_pending J (notice_of start out))"
    using assms(4) by (auto simp: holds_notice_def)
  have "read_pending_notice J (rd_receipt d) = Inr (notice_of start out)"
    using assms(2,3) by (simp add: d(2) read_pending_notice_def pending_faithful_def) (simp add: notice_of_def)
  then have "read_claimed_notice J now d = Inr (Some (notice_of start out))"
    using assms(5) by (simp add: read_claimed_notice_def) (simp add: notice_of_def)
  moreover have "claim_path key newID \<noteq> key" by (cases key) (simp add: claim_path_def)
  ultimately show "r = Inr (Some (notice_of start out))" "map_of dirs' key = None"
    using assms(1,6) d(1) by (auto simp: consume_pending_def claim_dir_def no_faults_def map_of_set_dir)
qed

lemma receipt_path_not_pending:
  assumes "receipt_path L dataDir agent session turn = Some key" and "pending_path L dataDir' agent' session' = Some key'"
  shows "key \<noteq> key'"
  using assms by (auto simp: receipt_path_def pending_path_def split: option.splits if_splits)

lemma begin_keeps_other:
  assumes "receipt_path L dataDir agent session turn \<noteq> Some k"
  shows "map_of (fst (begin_receipt L J F dataDir now agent session turn dirs)) k = map_of dirs k"
  using assms
  by (auto simp: begin_receipt_def reset_record_def write_record_def map_of_set_dir Let_def split: option.splits)

lemma begin_turn_keeps_pending:
  assumes "pending_path L dataDir agent session = Some key" and "hk_lib K = L"
  shows "map_of (rx_dirs (hx_receipts (begin_turn_receipt K cfg event agentType x))) key = map_of (rx_dirs (hx_receipts x)) key"
proof -
  obtain session' turn where ids: "turn_receipt_identity event = (session', turn)" by fastforce
  have "receipt_path L (cfg_DataDir cfg) agentType session' turn \<noteq> Some key"
    using receipt_path_not_pending [OF _ assms(1)] by blast
  from begin_keeps_other [OF this] show ?thesis by (simp add: begin_turn_receipt_def on_receipts_def assms(2) ids)
qed

section \<open>The end of the turn\<close>

lemma stop_leaves_notice:
  assumes "guard_config K = (cfg, shouldFlush)" and "turn_receipt_identity event = (session, turn)"
    and "consume_receipt (hk_lib K) (hk_json K) (hk_faults K ''consume'') (cfg_DataDir cfg) (hk_now K) (hk_newID K ''receipt'' 0)
           ''claude_code'' session turn (rx_dirs (hx_receipts x)) = (claimed, Inr (Some receipt))"
    and "out = output_add (re_Output receipt) no_output" and "\<not> output_empty out" and "hk_faults K ''save'' = no_faults"
    and "pending_path (hk_lib K) (cfg_DataDir cfg) ''claude_code'' session = Some key"
    and "pending_faithful (hk_json K) (notice_of (hk_now K) out)"
  shows "holds_notice (hk_json K) (notice_of (hk_now K) out) (map_of (rx_dirs (hx_receipts (fst (process_turn_stop K event ''claude_code'' x)))) key)"
proof -
  have "rx_dirs (hx_receipts (fst (process_turn_stop K event ''claude_code'' x)))
      = fst (save_pending (hk_lib K) (hk_json K) no_faults (cfg_DataDir cfg) (hk_now K) ''claude_code'' session out claimed)"
    using assms(1-4,6) by (simp add: process_turn_stop_def on_receipts_def)
  then show ?thesis using save_pending_holds [OF assms(7,5,8)] by simp
qed

section \<open>Activities\<close>

lemma output_recorded:
  assumes "get_detail L A i x = Inr d" and "ad_ContextMatches d = []" and "trim_space i = i" and "an_lock A = Some True" and "an_writable A"
    and "detail_faithful A (d\<lparr>ad_Output := out\<rparr>)" and "int (length (an_encode A (d\<lparr>ad_Output := out\<rparr>))) \<le> max_activity_record_bytes"
  shows "get_detail L A i (fst (record_activity_output L A i out x)) = Inr (d\<lparr>ad_Output := out\<rparr>)"
proof -
  have n: "normalize_context_matches L [] = []" by (simp add: normalize_context_matches_def)
  from assms(1) obtain d0 where d0: "d = d0\<lparr>ad_ContextMatches := normalize_context_matches L (ad_ContextMatches d0), ad_AgentType := detail_agent L (ad_AgentType d0)\<rparr>"
    "ad_SchemaVersion d0 = detail_schema_version" "ad_ActivityID d0 = i" "detail_agent L (ad_AgentType d0) \<noteq> []" "ad_ExpiresAt d0 > an_now A"
    "trim_space (an_dataDir A) \<noteq> []" "valid_activity_id i" "an_readable A (detail_name i)"
    using assms(3) by (auto simp: get_detail_def Let_def split: if_splits option.splits)
  let ?d = "d\<lparr>ad_Output := out\<rparr>"
  have facts: "ad_SchemaVersion d = detail_schema_version" "ad_ActivityID d = i" "ad_AgentType d = detail_agent L (ad_AgentType d0)" "ad_ExpiresAt d > an_now A"
    using d0 by simp_all
  have same: "?d\<lparr>ad_ContextMatches := normalize_context_matches L (ad_ContextMatches ?d)\<rparr> = ?d" using assms(2) n by simp
  have "fst (record_activity_output L A i out x)
      = x\<lparr>af_entries := AList.update (detail_name i) \<lparr>df_data = an_encode A ?d, df_modified = an_now A\<rparr> (af_entries x)\<rparr>"
    using assms(1,3,4,5,7) d0(6,7) same facts(2) by (simp add: record_activity_output_def update_activity_def write_replacing_def Let_def)
  then show ?thesis
    using d0(4-8) facts assms(2,3,6,7) n
    by (simp add: get_detail_def decode_detail_def detail_faithful_def update_conv' detail_agent_idem Let_def)
qed

section \<open>The next prompt\<close>

text \<open>A prompt that passes the checks of the hook, and one for which no conditional context rule is triggered.\<close>

definition prompt_passes :: "('b, 's) hook_env \<Rightarrow> config \<Rightarrow> hook_event \<Rightarrow> string \<Rightarrow> bool" where
  "prompt_passes K cfg event agentType \<longleftrightarrow>
     trim_space (he_Prompt event) \<noteq> [] \<and> trim_space (extract_prompt agentType (he_Prompt event)) \<noteq> []
     \<and> verify_user_prompt_submission (hk_line K) (hk_files K) event agentType (he_Prompt event) = None
     \<and> \<not> sensitive_findings_should_block (detect_sensitive_prompt K cfg (extract_prompt agentType (he_Prompt event)))"

definition only_general_context :: "('b, 's) hook_env \<Rightarrow> string \<Rightarrow> string \<Rightarrow> bool" where
  "only_general_context K prompt agentType \<longleftrightarrow>
     (\<forall>cache. load_context_rule_cache (hk_lib K) (hk_codec K) (hk_rules K) = Inr cache \<longrightarrow>
        (\<forall>r\<in>set (mr_Rules (match_context (hk_lib K) prompt agentType (xc_Rules cache))). equal_fold (trim_space (cr_MatchType r)) ''always''))"

lemma general_context_keeps:
  assumes "only_general_context K prompt agentType" and "process_organization_context K cfg event prompt agentType source x = (x', response)"
  shows "hx_receipts x' = hx_receipts x" and "hx_activities x' = hx_activities x"
proof -
  have none: "filter (\<lambda>r. \<not> equal_fold (trim_space (cr_MatchType r)) ''always'') (mr_Rules (match_context (hk_lib K) prompt agentType (xc_Rules cache))) = []"
    if "load_context_rule_cache (hk_lib K) (hk_codec K) (hk_rules K) = Inr cache" for cache
    using assms(1) that by (simp add: only_general_context_def filter_empty_conv)
  show "hx_receipts x' = hx_receipts x" "hx_activities x' = hx_activities x"
    using assms(2)
    by (auto simp: process_organization_context_def record_turn_context_matches_def record_context_rule_match_def hook_append_def none Let_def
        split: sum.splits if_splits)
qed

lemma prompt_receives_notice:
  fixes K :: "('b, 's) hook_env"
  defines "A \<equiv> activity_env_of K (fst (guard_config K))" and "L \<equiv> hk_lib K"
  assumes "prompt_passes K (fst (guard_config K)) event agentType" and "only_general_context K (extract_prompt agentType (he_Prompt event)) agentType"
    and "begin_activity L A (hk_newID K ''activity'' 0) agentType (hx_activities x) = (y, Inr d)"
    and "consume_pending L (hk_json K) (hk_faults K ''pending'') (cfg_DataDir (fst (guard_config K))) (hk_now K) (hk_newID K ''pending'' 0)
           agentType (hook_session event) (rx_dirs (hx_receipts (begin_turn_receipt K (fst (guard_config K)) event agentType x))) = (dirs', Inr (Some p))"
    and "ad_ActivityID d \<noteq> []"
  shows "hx_activities (fst (process_user_prompt_submit K event agentType source x))
      = fst (record_activity_output L A (ad_ActivityID d) (pn_Output p) y)
    \<and> rx_dirs (hx_receipts (fst (process_user_prompt_submit K event agentType source x))) = dirs'"
proof -
  let ?cfg = "fst (guard_config K)"
  let ?prompt = "extract_prompt agentType (he_Prompt event)"
  let ?x1 = "record_sensitive_findings K ?cfg event (detect_sensitive_prompt K ?cfg ?prompt) source agentType x"
  let ?x2 = "begin_turn_receipt K ?cfg event agentType ?x1"
  have x1: "hx_receipts ?x1 = hx_receipts x" "hx_activities ?x1 = hx_activities x"
    using findings_keep_files [of x K ?cfg event "detect_sensitive_prompt K ?cfg ?prompt" source agentType] by (simp_all add: same_files_def)
  have x2: "hx_receipts ?x2 = hx_receipts (begin_turn_receipt K ?cfg event agentType x)" "hx_activities ?x2 = hx_activities x"
    using x1 by (simp_all add: begin_turn_receipt_def on_receipts_def split: prod.splits)
  let ?event = "event\<lparr>he_ActivityID := ad_ActivityID d\<rparr>"
  obtain x4 response4 where c: "process_organization_context K ?cfg ?event ?prompt agentType source (?x2\<lparr>hx_activities := y\<rparr>) = (x4, response4)"
    by fastforce
  from general_context_keeps [OF assms(4) c] have x4: "hx_receipts x4 = hx_receipts ?x2" "hx_activities x4 = y" by simp_all
  have run: "process_user_prompt_submit K event agentType source x = inject_pending_turn_notice K ?cfg ?event agentType response4 x4"
    using assms(3,5) x2(2) c by (simp add: process_user_prompt_submit_def prompt_passes_def A_def L_def Let_def)
  have "hook_session ?event = hook_session event" by (simp add: hook_session_def)
  then have pend: "consume_pending L (hk_json K) (hk_faults K ''pending'') (cfg_DataDir ?cfg) (hk_now K) (hk_newID K ''pending'' 0)
        agentType (hook_session ?event) (rx_dirs (hx_receipts x4)) = (dirs', Inr (Some p))"
    using assms(6) x2(1) x4(1) by simp
  show ?thesis
    unfolding run inject_pending_turn_notice_def
    using pend assms(7) x4(2) by (simp add: turn_receipt_identity_def on_receipts_def A_def L_def Let_def split: prod.splits)
qed


section \<open>A turn with two lines of code\<close>

definition out0 :: output_summary where "out0 = no_output\<lparr>os_CodeLines := 2\<rparr>"

definition detail1 :: activity_detail where "detail1 = detail0\<lparr>ad_AgentType := ''claude_code''\<rparr>"

definition hook1 :: "((string \<times> string) list, unit) hook_env" where
  "hook1 = hook0\<lparr>hk_json := (ce_json cleanup0)\<lparr>rj_receipt := (\<lambda>s. Some ((new_receipt 0)\<lparr>re_Output := out0\<rparr>)), rj_pending := (\<lambda>s. Some (notice_of 0 out0))\<rparr>,
     hk_rules := \<lparr>rl_policies = None, rl_sensitive = None, rl_context = None, rl_output = None\<rparr>,
     hk_newID := (\<lambda>kind n. if kind = ''activity'' then activity0 else kind),
     hk_activity := activity_env0\<lparr>an_encode := (\<lambda>d. if ad_Output d = no_output then ''x'' else ''y''),
       an_decode := (\<lambda>s. Some (if s = ''x'' then detail1 else detail1\<lparr>ad_Output := out0\<rparr>))\<rparr>\<rparr>"

lemma hook1_sel:
  "hk_lib hook1 = lib0" "hk_faults hook1 = (\<lambda>op. no_faults)" "hk_now hook1 = 0" "hk_newID hook1 ''activity'' 0 = activity0"
  "hk_newID hook1 ''receipt'' 0 = ''receipt''" "hk_decode hook1 = (\<lambda>data. Some (hook_event0 data))"
  "fst (guard_config hook1) = hook_config0" "cfg_DataDir hook_config0 = ''/data''"
  by (simp_all add: hook1_def hook0_def guard_config_def hook_config0_def new_runtime_config_def Let_def)

definition activity_env1 :: activity_env where "activity_env1 = activity_env_of hook1 hook_config0"

lemma activity_env1_sel:
  "an_encode activity_env1 = (\<lambda>d. if ad_Output d = no_output then ''x'' else ''y'')"
  "an_decode activity_env1 = (\<lambda>s. Some (if s = ''x'' then detail1 else detail1\<lparr>ad_Output := out0\<rparr>))"
  "an_readable activity_env1 = (\<lambda>name. True)" "an_writable activity_env1" "an_removable activity_env1 = (\<lambda>name. True)" "an_listable activity_env1"
  "an_lock activity_env1 = Some True" "an_now activity_env1 = 0" "an_dataDir activity_env1 = ''/data''"
  by (simp_all add: activity_env1_def activity_env_of_def hook1_def hook0_def activity_env0_def hook1_sel)

definition world1 :: "((string \<times> string) list, unit) hook_state" where
  "world1 = world0\<lparr>hx_receipts := \<lparr>rx_dirs = [((''claude_code'', short_hash lib0 ''s'', ''turn-'' @ short_hash lib0 ''t''), dir0 ''r'')],
     rx_cursor = None, rx_locks = []\<rparr>\<rparr>"

definition world2 :: "((string \<times> string) list, unit) hook_state" where
  "world2 = world1\<lparr>hx_receipts := hx_receipts (fst (process_agent_hook hook1 ''Stop'' ''claude_code'' ''claude_code'' world1))\<rparr>"

lemma created1: "\<exists>y. begin_activity lib0 activity_env1 activity0 ''claude_code'' files0 = (y, Inr detail1)"
proof -
  have "valid_activity_id activity0" by code_simp
  moreover have "trim_space ''/data'' = ''/data''" by code_simp
  ultimately show ?thesis
    by (simp add: begin_activity_def create_detail_def Let_def detail_agent_ids write_new_def write_replacing_def ensure_capacity_locked_def
        read_entries_def evicted_names_def activity_env1_sel files0_def detail1_def detail0_def max_activity_record_bytes_def max_activity_details_def
        is_detail_name [unfolded comp_def] split: prod.splits)
qed


end
