(* ===== verification/Lock_File.thy ===== *)
theory Lock_File
  imports Receipt_Cleanup
begin

text \<open>
  \<open>pkg/lockfile/lock.go\<close>: a lock that is a file, created exclusively and removed at the end, or by
  another process when it is older than a limit. Every system call of a process is one step, so the
  steps of several processes interleave between them as they do on a machine. The registry that orders the threads of
  one process, and errors other than a missing or an existing file, are left out; a process is one
  thread here.
\<close>

section \<open>The lock of one path\<close>

record lock_options =
  lo_Wait :: int
  lo_StaleAfter :: int

text \<open>A file, told from another of the same name by its number (\<open>os.SameFile\<close>).\<close>

record lock_file =
  lf_number :: nat
  lf_modified :: time

text \<open>
  Where a process is in \<open>Acquire\<close>: before the first look at the file (\<open>Entering\<close>), in \<open>RemoveStale\<close> from
  there (\<open>Retiring\<close>, then \<open>RetireRemoving\<close> when it saw an old file), before \<open>OpenFile\<close> (\<open>Trying\<close>), in
  \<open>RemoveStale\<close> from the loop (\<open>Checking\<close>, then \<open>Removing\<close>), holding the file it created, and in \<open>unlock\<close>
  before its \<open>Stat\<close> (\<open>Releasing\<close>) and its \<open>Remove\<close> (\<open>Unlinking\<close>).
\<close>

datatype phase =
    Idle
  | Entering
  | Retiring
  | RetireRemoving
  | Trying
  | Checking
  | Removing
  | Holding nat
  | Releasing nat
  | Unlinking nat
  | Refused

record lock_world =
  lw_file :: "lock_file option"
  lw_next :: nat
  lw_now :: time
  lw_phase :: "nat \<Rightarrow> phase"
  lw_deadline :: "nat \<Rightarrow> time"

definition no_locks :: lock_world where
  "no_locks = \<lparr>lw_file = None, lw_next = 0, lw_now = 0, lw_phase = (\<lambda>p. Idle), lw_deadline = (\<lambda>p. 0)\<rparr>"

definition is_stale :: "lock_options \<Rightarrow> time \<Rightarrow> lock_file \<Rightarrow> bool" where
  "is_stale B now f \<longleftrightarrow> lf_modified f < now - lo_StaleAfter B"

definition stale_file :: "lock_options \<Rightarrow> lock_world \<Rightarrow> bool" where
  "stale_file B w \<longleftrightarrow> (case lw_file w of None \<Rightarrow> False | Some f \<Rightarrow> is_stale B (lw_now w) f)"

definition move_to :: "phase \<Rightarrow> nat \<Rightarrow> lock_world \<Rightarrow> lock_world" where
  "move_to ph p w = w\<lparr>lw_phase := (lw_phase w)(p := ph)\<rparr>"

text \<open>The start of the loop, where the deadline is set.\<close>

definition start_loop :: "lock_options \<Rightarrow> nat \<Rightarrow> lock_world \<Rightarrow> lock_world" where
  "start_loop B p w = (move_to Trying p w)\<lparr>lw_deadline := (lw_deadline w)(p := lw_now w + lo_Wait B)\<rparr>"

definition create_lock :: "nat \<Rightarrow> lock_world \<Rightarrow> lock_world" where
  "create_lock p w =
     (move_to (Holding (lw_next w)) p w)\<lparr>lw_file := Some \<lparr>lf_number = lw_next w, lf_modified = lw_now w\<rparr>, lw_next := Suc (lw_next w)\<rparr>"

text \<open>The next system call of a process; \<open>wait p\<close> is the argument that it gave to \<open>Acquire\<close>.\<close>

definition next_call :: "lock_options \<Rightarrow> (nat \<Rightarrow> bool) \<Rightarrow> nat \<Rightarrow> lock_world \<Rightarrow> lock_world" where
  "next_call B wait p w =
     (case lw_phase w p of
        Idle \<Rightarrow> w
      | Entering \<Rightarrow> if stale_file B w then move_to Retiring p w else start_loop B p w
      | Retiring \<Rightarrow> if stale_file B w then move_to RetireRemoving p w else start_loop B p w
      | RetireRemoving \<Rightarrow> start_loop B p (w\<lparr>lw_file := None\<rparr>)
      | Trying \<Rightarrow> (case lw_file w of None \<Rightarrow> create_lock p w | Some _ \<Rightarrow> move_to Checking p w)
      | Checking \<Rightarrow>
          (case lw_file w of
             None \<Rightarrow> move_to Trying p w
           | Some f \<Rightarrow>
               if is_stale B (lw_now w) f then move_to Removing p w
               else if \<not> wait p \<or> lw_now w > lw_deadline w p then move_to Refused p w
               else move_to Trying p w)
      | Removing \<Rightarrow> move_to Trying p (w\<lparr>lw_file := None\<rparr>)
      | Holding i \<Rightarrow> w
      | Releasing i \<Rightarrow>
          (case lw_file w of
             None \<Rightarrow> move_to Idle p w
           | Some f \<Rightarrow> if lf_number f = i then move_to (Unlinking i) p w else move_to Idle p w)
      | Unlinking i \<Rightarrow> move_to Idle p (w\<lparr>lw_file := None\<rparr>)
      | Refused \<Rightarrow> w)"

text \<open>What can happen: a system call, a new \<open>Acquire\<close>, an \<open>unlock\<close>, the end of a process at any point, time.\<close>

inductive lock_step :: "lock_options \<Rightarrow> (nat \<Rightarrow> bool) \<Rightarrow> lock_world \<Rightarrow> lock_world \<Rightarrow> bool"
  for B :: lock_options and wait :: "nat \<Rightarrow> bool" where
  call: "lock_step B wait w (next_call B wait p w)"
| enter: "lw_phase w p \<in> {Idle, Refused} \<Longrightarrow> lock_step B wait w (move_to Entering p w)"
| leave: "lw_phase w p = Holding i \<Longrightarrow> lock_step B wait w (move_to (Releasing i) p w)"
| crash: "lock_step B wait w (move_to Idle p w)"
| tick: "0 \<le> d \<Longrightarrow> lock_step B wait w (w\<lparr>lw_now := lw_now w + d\<rparr>)"

inductive_cases lock_stepE: "lock_step B wait w w'"

text \<open>The worlds reached while no lock file outlives the limit.\<close>

inductive timely :: "lock_options \<Rightarrow> (nat \<Rightarrow> bool) \<Rightarrow> lock_world \<Rightarrow> bool"
  for B :: lock_options and wait :: "nat \<Rightarrow> bool" where
  start: "timely B wait no_locks"
| step: "timely B wait w \<Longrightarrow> lock_step B wait w w' \<Longrightarrow> \<not> stale_file B w' \<Longrightarrow> timely B wait w'"

section \<open>Exclusion\<close>

fun owns :: "phase \<Rightarrow> nat option" where
  "owns (Holding i) = Some i"
| "owns (Releasing i) = Some i"
| "owns (Unlinking i) = Some i"
| "owns ph = None"

definition exclusive :: "lock_world \<Rightarrow> bool" where
  "exclusive w \<longleftrightarrow>
     (\<forall>p i. owns (lw_phase w p) = Some i \<longrightarrow> (\<exists>f. lw_file w = Some f \<and> lf_number f = i))
     \<and> (\<forall>p q i j. owns (lw_phase w p) = Some i \<longrightarrow> owns (lw_phase w q) = Some j \<longrightarrow> p = q)
     \<and> (\<forall>p. lw_phase w p \<notin> {Retiring, RetireRemoving, Removing})"

lemma exclusiveI:
  assumes "exclusive w" and "\<And>q i. owns (lw_phase w' q) = Some i \<Longrightarrow> owns (lw_phase w q) = Some i" and "lw_file w' = lw_file w"
    and "\<And>q. lw_phase w' q \<notin> {Retiring, RetireRemoving, Removing}"
  shows "exclusive w'"
  unfolding exclusive_def
proof (intro conjI allI impI)
  fix p q i j
  show "owns (lw_phase w' p) = Some i \<Longrightarrow> \<exists>f. lw_file w' = Some f \<and> lf_number f = i"
    using assms(1,3) assms(2) [of p i] unfolding exclusive_def by simp
  show "owns (lw_phase w' p) = Some i \<Longrightarrow> owns (lw_phase w' q) = Some j \<Longrightarrow> p = q"
    using assms(1) assms(2) [of p i] assms(2) [of q j] unfolding exclusive_def by blast
  show "lw_phase w' p \<notin> {Retiring, RetireRemoving, Removing}" by (rule assms(4))
qed

lemma exclusive_move:
  assumes "exclusive w" and "owns ph = None \<or> owns ph = owns (lw_phase w p)" and "ph \<notin> {Retiring, RetireRemoving, Removing}"
  shows "exclusive (move_to ph p w)"
proof (rule exclusiveI [OF assms(1)])
  show "owns (lw_phase (move_to ph p w) q) = Some i \<Longrightarrow> owns (lw_phase w q) = Some i" for q i
    using assms(2) by (auto simp: move_to_def split: if_splits)
  show "lw_phase (move_to ph p w) q \<notin> {Retiring, RetireRemoving, Removing}" for q
    using assms(1,3) by (auto simp: exclusive_def move_to_def)
qed (simp add: move_to_def)

lemma exclusive_fields [simp]:
  "exclusive (w\<lparr>lw_now := t\<rparr>) = exclusive w" "exclusive (w\<lparr>lw_deadline := dl\<rparr>) = exclusive w"
  by (simp_all add: exclusive_def)

lemma exclusive_start: "exclusive w \<Longrightarrow> exclusive (start_loop B p w)"
  by (simp add: start_loop_def exclusive_move)

lemma exclusive_create:
  assumes "exclusive w" and "lw_file w = None"
  shows "exclusive (create_lock p w)"
proof -
  have "owns (lw_phase w q) = None" for q using assms by (cases "owns (lw_phase w q)") (auto simp: exclusive_def)
  then show ?thesis using assms(1) by (auto simp: exclusive_def create_lock_def move_to_def)
qed

lemma exclusive_unlink:
  assumes "exclusive w" and "lw_phase w p = Unlinking i"
  shows "exclusive (move_to Idle p (w\<lparr>lw_file := None\<rparr>))"
proof -
  have "owns (lw_phase w p) = Some i" using assms(2) by simp
  then have "owns (lw_phase w q) = None" if "q \<noteq> p" for q
    using assms(1) that by (cases "owns (lw_phase w q)") (auto simp: exclusive_def)
  then show ?thesis using assms(1) by (auto simp: exclusive_def move_to_def)
qed

lemma exclusive_call:
  assumes "exclusive w" and "\<not> stale_file B w"
  shows "exclusive (next_call B wait p w)"
proof (cases "lw_phase w p")
  case (Unlinking i)
  then show ?thesis using assms(1) exclusive_unlink by (simp add: next_call_def)
next
  case (Releasing i)
  then show ?thesis using assms(1) by (auto simp: next_call_def exclusive_move split: option.splits)
qed (use assms in \<open>auto simp: next_call_def exclusive_start exclusive_create exclusive_move stale_file_def exclusive_def [of w] split: option.splits\<close>)

lemma exclusive_step:
  assumes "lock_step B wait w w'" and "exclusive w" and "\<not> stale_file B w"
  shows "exclusive w'"
  using assms by (cases rule: lock_stepE) (auto simp: exclusive_call exclusive_move)

lemma timely_exclusive: "timely B wait w \<Longrightarrow> exclusive w \<and> \<not> stale_file B w"
proof (induction rule: timely.induct)
  case start
  show ?case by (simp add: exclusive_def no_locks_def stale_file_def)
next
  case (step w w')
  then show ?case using exclusive_step by blast
qed

text \<open>
  C38: The lock excludes: however the calls of any number of processes interleave, and wherever processes
  end, as long as no lock file outlives the limit at most one process holds the lock or is giving it up, and
  the file is the one that it created.
\<close>

theorem lock_is_exclusive:
  assumes "timely B wait w" and "owns (lw_phase w p) = Some i"
  shows "(\<exists>f. lw_file w = Some f \<and> lf_number f = i) \<and> (\<forall>q. q \<noteq> p \<longrightarrow> owns (lw_phase w q) = None)"
  using timely_exclusive [OF assms(1)] assms(2) by (fastforce simp: exclusive_def)

section \<open>A lock that was left behind\<close>

text \<open>The options of the locks of receipts.\<close>

definition receipt_lock_options :: lock_options where
  "receipt_lock_options = \<lparr>lo_Wait = 2 * nanos_per_second, lo_StaleAfter = receipt_lock_stale_after\<rparr>"

datatype lock_event = Calls nat | Enters nat | Leaves nat | Crashes nat | Ticks int

fun happens :: "lock_options \<Rightarrow> (nat \<Rightarrow> bool) \<Rightarrow> lock_event \<Rightarrow> lock_world \<Rightarrow> lock_world option" where
  "happens B wait (Calls p) w = Some (next_call B wait p w)"
| "happens B wait (Enters p) w = (case lw_phase w p of Idle \<Rightarrow> Some (move_to Entering p w) | Refused \<Rightarrow> Some (move_to Entering p w) | _ \<Rightarrow> None)"
| "happens B wait (Leaves p) w = (case lw_phase w p of Holding i \<Rightarrow> Some (move_to (Releasing i) p w) | _ \<Rightarrow> None)"
| "happens B wait (Crashes p) w = Some (move_to Idle p w)"
| "happens B wait (Ticks d) w = (if 0 \<le> d then Some (w\<lparr>lw_now := lw_now w + d\<rparr>) else None)"

fun happen :: "lock_options \<Rightarrow> (nat \<Rightarrow> bool) \<Rightarrow> lock_event list \<Rightarrow> lock_world \<Rightarrow> lock_world option" where
  "happen B wait [] w = Some w"
| "happen B wait (e # es) w = (case happens B wait e w of None \<Rightarrow> None | Some w' \<Rightarrow> happen B wait es w')"

lemma happens_step: "happens B wait e w = Some w' \<Longrightarrow> lock_step B wait w w'"
  by (cases e) (auto intro: lock_step.intros split: phase.splits if_splits)

lemma happen_steps: "happen B wait es w = Some w' \<Longrightarrow> (lock_step B wait)\<^sup>*\<^sup>* w w'"
  by (induction es arbitrary: w) (auto split: option.splits dest: happens_step intro: converse_rtranclp_into_rtranclp)

definition race :: "lock_event list" where
  "race = [Enters 0, Calls 0, Calls 0, Crashes 0, Ticks (receipt_lock_stale_after + 1),
     Enters 1, Enters 2, Calls 1, Calls 2, Calls 1, Calls 2, Calls 1, Calls 1, Calls 2, Calls 2]"

text \<open>
  C39: A lock that a process left behind can be taken by two processes at once: both see that the file is
  too old, one of them removes it and creates its own, and the other then removes that new file.
\<close>

theorem stale_lock_can_be_taken_twice:
  "\<exists>w. (lock_step receipt_lock_options wait)\<^sup>*\<^sup>* no_locks w \<and> lw_phase w 1 = Holding 1 \<and> lw_phase w 2 = Holding 2"
proof -
  have "\<exists>w. happen receipt_lock_options wait race no_locks = Some w \<and> lw_phase w 1 = Holding 1 \<and> lw_phase w 2 = Holding 2"
    by (simp add: race_def no_locks_def next_call_def move_to_def start_loop_def create_lock_def stale_file_def is_stale_def
        receipt_lock_options_def receipt_lock_stale_after_def nanos_per_minute_def nanos_per_second_def)
  then show ?thesis using happen_steps by blast
qed

section \<open>Getting an answer\<close>

lemma next_call_decided:
  "(\<exists>i. lw_phase w p = Holding i) \<or> lw_phase w p = Refused \<Longrightarrow> next_call B wait p w = w"
  by (auto simp: next_call_def)

text \<open>
  C40: \<open>Acquire\<close> without waiting ends: a process that runs alone gets its answer after at most four system
  calls. It holds the lock when there was no file or only one that was too old, and is refused otherwise, in
  which case the file is untouched.
\<close>

theorem try_lock_decides:
  assumes "lw_phase w p = Entering" and "\<not> wait p"
  shows "(if lw_file w = None \<or> stale_file B w
      then \<exists>i. lw_phase ((next_call B wait p ^^ 4) w) p = Holding i
      else lw_phase ((next_call B wait p ^^ 4) w) p = Refused \<and> lw_file ((next_call B wait p ^^ 4) w) = lw_file w)"
  using assms
  by (cases "lw_file w")
     (auto simp: numeral_eq_Suc next_call_def move_to_def start_loop_def create_lock_def stale_file_def)

definition entering0 :: lock_world where "entering0 = move_to Entering 0 no_locks"

theorem try_lock_decides_witness:
  "lw_phase ((next_call receipt_lock_options (\<lambda>p. False) 0 ^^ 4) entering0) 0 = Holding 0"
proof -
  have "\<exists>i. lw_phase ((next_call receipt_lock_options (\<lambda>p. False) 0 ^^ 4) entering0) 0 = Holding i"
    using try_lock_decides [of entering0 0 "\<lambda>p. False" receipt_lock_options]
    by (simp add: entering0_def no_locks_def move_to_def)
  then show ?thesis
    by (auto simp: numeral_eq_Suc next_call_def move_to_def start_loop_def create_lock_def stale_file_def entering0_def no_locks_def)
qed

theorem lock_is_exclusive_witness:
  "lw_file (create_lock 0 (start_loop receipt_lock_options 0 entering0)) = Some \<lparr>lf_number = 0, lf_modified = 0\<rparr>
   \<and> owns (lw_phase (create_lock 0 (start_loop receipt_lock_options 0 entering0)) 1) = None"
proof -
  let ?w1 = "start_loop receipt_lock_options 0 entering0" and ?w2 = "create_lock 0 (start_loop receipt_lock_options 0 entering0)"
  let ?step = "lock_step receipt_lock_options (\<lambda>p. True)"
  have fresh: "\<not> stale_file receipt_lock_options entering0" "\<not> stale_file receipt_lock_options ?w1" "\<not> stale_file receipt_lock_options ?w2"
    by (simp_all add: stale_file_def entering0_def no_locks_def move_to_def start_loop_def create_lock_def is_stale_def receipt_lock_options_def
        receipt_lock_stale_after_def nanos_per_minute_def nanos_per_second_def)
  have "?step no_locks entering0" unfolding entering0_def by (rule lock_step.enter) (simp add: no_locks_def)
  from timely.step [OF timely.start this fresh(1)] have t0: "timely receipt_lock_options (\<lambda>p. True) entering0" .
  have "next_call receipt_lock_options (\<lambda>p. True) 0 entering0 = ?w1" using fresh(1) by (simp add: next_call_def entering0_def move_to_def)
  then have "?step entering0 ?w1" using lock_step.call [of receipt_lock_options "\<lambda>p. True" entering0 0] by simp
  from timely.step [OF t0 this fresh(2)] have t1: "timely receipt_lock_options (\<lambda>p. True) ?w1" .
  have "next_call receipt_lock_options (\<lambda>p. True) 0 ?w1 = ?w2"
    by (simp add: next_call_def entering0_def move_to_def start_loop_def no_locks_def)
  then have "?step ?w1 ?w2" using lock_step.call [of receipt_lock_options "\<lambda>p. True" ?w1 0] by simp
  from timely.step [OF t1 this fresh(3)] have "timely receipt_lock_options (\<lambda>p. True) ?w2" .
  moreover have "owns (lw_phase ?w2 0) = Some 0" by (simp add: create_lock_def start_loop_def move_to_def entering0_def no_locks_def)
  ultimately have "owns (lw_phase ?w2 1) = None" using lock_is_exclusive [of receipt_lock_options _ ?w2 0 0] by simp
  then show ?thesis by (simp add: create_lock_def start_loop_def move_to_def entering0_def no_locks_def)
qed

end
