(* ===== verification/Spec2Isabelle.thy ===== *)
theory Spec2Isabelle
  imports Mcpmeta Queue_Properties Policy_Properties Contextmatch Codex_Turn_Properties Turn_Claude Transcript_Properties Baseline_Properties Claude_Transcript_Properties Claude_Fork_Properties Claude_Collect_Properties Runner_Properties Prompt_Properties Tool_Input_Properties Turn_Receipt_Properties Hook_Output Lock_File
begin

text \<open>
  \<^bold>\<open>The Gesta agent.\<close> A daemon on a developer's machine reads what the coding agents Codex and
  Claude Code write (rollouts, transcripts, a thread database), turns it into usage events,
  turns, transcript chunks and tool-call events, redacts them, keeps them in a persistent queue
  and sends them to a control plane; its hooks evaluate commands and prompts against the rules
  of that control plane. One round of the daemon goes through the parts below in this order:
  the collectors read the files; the session baseline decides what is history and what is new;
  the usage deltas and transcript chunks cut what is new into events against cursors; the queue
  stores the events, drains them to the control plane and acknowledges or quarantines them.

  \<^bold>\<open>Conventions.\<close> Go strings and byte slices are HOL strings (lists of bytes), 64-bit integers are
  \<^typ>\<open>int\<close> with the wrap-around written out (\<open>wrap64\<close>, \<open>add64\<close>, \<open>sub64\<close>) or \<open>64 word\<close> where the
  code has \<open>uint64\<close>, instants are nanoseconds, payloads are maps to the values of \<open>interface{}\<close>
  (\<open>gval\<close>), errors are the left side of a sum, a Go map is a map or, where its contents are
  listed, an association list. What the agent takes from libraries is an argument: the record
  \<open>go_lib\<close> (hash, clock formats, regular expressions given at run time, JSON sizes) and the record
  of a bbolt store; a theorem that needs a law of one of them has it as a hypothesis, and the
  witnesses instantiate the records (\<open>lib0\<close>, \<open>env0\<close>).

  \<^bold>\<open>Theories and the code they model.\<close>

  \<^item> \<^bold>\<open>Foundations.\<close> \<open>Gesta_Prelude\<close>: results, 64-bit integers, lists and maps. \<open>Go_Strings\<close>: the
    used part of \<open>strings\<close>, \<open>bytes\<close>, \<open>unicode/utf8\<close>. \<open>Go_Lib\<close>: the library record, instants,
    \<open>gval\<close>. \<open>Model\<close>: \<open>pkg/model/types.go\<close> and the hashes of \<open>pkg/util\<close>. \<open>Payloads\<close>: the payload
    readers of \<open>pkg/daemon\<close>.
  \<^item> \<^bold>\<open>Event queue\<close> (\<open>pkg/eventqueue\<close>). \<open>Bolt\<close>: the interface of the store as a locale with its
    interpretation. \<open>Queue_Codec\<close>: \<open>queue_codec.go\<close>. \<open>Queue_Store\<close>: \<open>queue_store.go\<close>,
    \<open>queue_index.go\<close>. \<open>Queue_Retention\<close>: \<open>queue_retention.go\<close>. \<open>Event_Queue\<close>: \<open>queue.go\<close>,
    \<open>queue_quarantine.go\<close>. \<open>Queue_Invariant\<close>, \<open>Queue_Append\<close>, \<open>Queue_Drain\<close> prove, in the locale of
    the environment, that buckets, indexes and counters agree and what appending and draining do;
    \<open>Queue_Properties\<close> states the results.
  \<^item> \<^bold>\<open>Policy and redaction.\<close> \<open>Regex\<close>: leftmost-first matching of the fixed patterns. \<open>Redact\<close>:
    \<open>pkg/privacy/redact.go\<close>. \<open>Policy\<close>: \<open>pkg/policy/policy.go\<close>. \<open>Guard\<close>: \<open>pkg/agent/guard.go\<close>.
    \<open>Contextmatch\<close>: \<open>pkg/contextmatch\<close>. \<open>Mcpmeta\<close>: \<open>pkg/mcpmeta\<close>. \<open>Policy_Properties\<close>: no long
    token survives redaction, which rule decides, a blocked command never runs.
  \<^item> \<^bold>\<open>Daemon: cursors.\<close> \<open>Config\<close>: \<open>config.go\<close>. \<open>Usage_Delta\<close>: \<open>usage_delta.go\<close>, \<open>collect.go\<close>; its
    accounting over rounds is \<open>Usage_Accounting\<close>. \<open>Transcript_Chunk\<close>: \<open>transcript_chunk.go\<close>,
    \<open>transcript_summary_phase.go\<close>; its laws are \<open>Transcript_Properties\<close>. \<open>Session_Baseline\<close>,
    \<open>Baseline_Filter\<close>: \<open>session_baseline.go\<close>, \<open>session_baseline_store.go\<close>, \<open>claude_baseline.go\<close>; their
    laws are \<open>Baseline_Properties\<close>.
  \<^item> \<^bold>\<open>Turns\<close> (\<open>pkg/turn\<close>). \<open>Turn_Usage\<close>: \<open>types.go\<close>, \<open>classifier.go\<close>. \<open>Turn_Codex\<close>,
    \<open>Codex_Collect\<close>: \<open>codex_parser.go\<close>, \<open>codex.go\<close>, \<open>cursor.go\<close>, with the properties in
    \<open>Codex_Turn_Properties\<close>. \<open>Turn_Claude\<close>: \<open>claude.go\<close>.
  \<^item> \<^bold>\<open>Claude Code sessions\<close> (\<open>pkg/daemon\<close>). \<open>Claude_Usage\<close>: \<open>claude_usage_types.go\<close>,
    \<open>claude_transcript_merge.go\<close>. \<open>Claude_Transcript\<close>: \<open>claude_transcript_parse.go\<close>; counting and
    truncation are \<open>Claude_Transcript_Properties\<close>. \<open>Claude_Fork\<close>: \<open>claude_fork_accounting.go\<close>;
    ownership of shared turns is \<open>Claude_Fork_Properties\<close>. \<open>Claude_Payload\<close>: \<open>claude_payload.go\<close>,
    \<open>claude_mcp_events.go\<close>. \<open>Claude_Collect\<close>: \<open>claude.go\<close>, \<open>claude_collect.go\<close>, one collection with its
    commits; interrupted cutovers are \<open>Claude_Collect_Properties\<close>.
  \<^item> \<^bold>\<open>Codex sessions\<close> (\<open>pkg/daemon\<close>). \<open>Go_Files\<close>: paths and lines. \<open>Codex_Transcript\<close>:
    \<open>codex_transcript.go\<close>, \<open>transcript_title.go\<close>. \<open>Codex_Tools\<close>: \<open>codex_tool_calls.go\<close>. \<open>Codex_State\<close>:
    \<open>codex_tokens.go\<close>, \<open>codex_state.go\<close>. \<open>Codex_Discovery\<close>: \<open>codex_turn_discovery.go\<close> and its cache.
    \<open>Codex_Collection\<close>: \<open>codex_collection.go\<close>.
  \<^item> \<^bold>\<open>The daemon.\<close> \<open>Mcp_Inventory\<close>: \<open>mcp_inventory.go\<close>, \<open>claude_mcp_inventory.go\<close>. \<open>Collectors\<close>: the
    adapters of \<open>codex.go\<close>, \<open>codex_desktop.go\<close>, \<open>claude.go\<close> and \<open>collect.go\<close>. \<open>Upgrade\<close>:
    \<open>pkg/agentupgrade\<close>, \<open>pkg/daemon/upgrade.go\<close>, with \<open>Upgrade_Properties\<close>: only verified binaries
    are installed, and versions only go up. \<open>Runner\<close>: \<open>runner.go\<close>; \<open>Runner_Properties\<close> composes the
    collectors, the queue and the cursors: a round loses no event.
  \<^item> \<^bold>\<open>Prompts and activity.\<close> \<open>Prompt_Scope\<close>: \<open>pkg/promptscope\<close>; \<open>Prompt_Properties\<close> (over the texts of
    \<open>Go_Text\<close>): the request comes out of the envelope it was put into. \<open>Regex_Search\<close>: further searches.
    \<open>Tool_Input\<close>: \<open>pkg/toolinput\<close>; \<open>Tool_Input_Properties\<close>: what is counted. \<open>Turn_Receipt\<close>,
    \<open>Receipt_Cleanup\<close>: \<open>pkg/turnreceipt\<close>; \<open>Turn_Receipt_Properties\<close>: the output of a turn is collected once.
    \<open>Gross_Output\<close>: \<open>pkg/agent/tool_input_meter.go\<close>. \<open>Go_Float\<close>: \<open>float64\<close> arithmetic on rationals.
    \<open>Smart_Secret\<close>, \<open>Sensitive\<close>: \<open>pkg/privacy/smart_secret.go\<close>, \<open>detect.go\<close>; \<open>Sensitive_Properties\<close>: what the
    findings are and when they block. \<open>Go_Utf8\<close>, \<open>Activity_Detail\<close>: \<open>pkg/activitydetail\<close>;
    \<open>Activity_Properties\<close>: a new activity is found, the directory stays bounded.
  \<^item> \<^bold>\<open>Hooks\<close> (\<open>pkg/agent\<close>). \<open>Prompt_Provenance\<close>: \<open>user_prompt_provenance.go\<close>, when a prompt is taken for
    the user's. \<open>Daily_Recap\<close>: \<open>daily_recap_notice.go\<close>. \<open>Rule_Cache\<close>: \<open>pkg/rulecache\<close>. \<open>Agent_Hook\<close>:
    \<open>codex_hook.go\<close>, \<open>sensitive_hook.go\<close>, \<open>context_hook.go\<close>, \<open>turn_completion_notice.go\<close>, one step on the
    files of the agent per event; \<open>Hook_Properties\<close>: what the hook denies and blocks; \<open>Hook_Output\<close>: the
    output of a turn reaches the next prompt.
  \<^item> \<^bold>\<open>File locks.\<close> \<open>Lock_File\<close>: \<open>pkg/lockfile\<close> as a step relation in which the system calls of
    processes interleave (\<open>lock_step\<close>); when the lock excludes, and when it does not.

  \<^bold>\<open>Loops and fuel.\<close> The loops of the queue that run until an index is empty (pruning, eviction,
  draining, deletion of old delivery records) carry fuel, the size of the index plus one or the
  number of queued events plus one; the theorems on append and drain show that this fuel is
  enough, so a run never ends for want of it. The regular expressions take the length of the
  text plus one. All other recursions are structural or have a termination proof by a measure
  (scanning runes, trimming, splitting, walking a JSON value).

  \<^bold>\<open>Not modelled, and why.\<close> Reading and writing files, processes, HTTP and JSON-RPC streams are
  outside the model: an operation takes what was read and returns what is written, and where a
  write can fail an argument says so. So the control client, the hook installation, the Codex
  application client, the local activity server, the command line and the Windows helpers have no
  theory. An operation under a lock is one step, and takes whether it got the lock; of the locks
  themselves the ordering of the threads of one process is left out. Of the runner the log
  messages, the ticker and the rule synchronisation are left out.
\<close>

end
